(* ===== verification/Prelude.thy ===== *)
theory Prelude
  imports
    Complex_Main
    "HOL-Library.Char_ord"
    "HOL-Library.List_Lexorder"
    "HOL-Library.Product_Lexorder"
begin

text \<open>
  Shared vocabulary of the development: identifiers and instants, the errors a Python call can
  raise and the result type that carries them, dictionaries built from sequences, and the
  collections of rewrite rules the component theories add to.

  \<^item> A \<open>UUID\<close> is its 128-bit integer value (Python orders UUIDs by that integer), a
    \<open>datetime\<close> is an aware UTC instant in microseconds since the epoch, a \<open>str\<close> is a
    \<open>string\<close> ordered lexicographically.
  \<^item> A call that may raise returns \<open>py_error + 'a\<close>: \<open>Inl\<close> carries the exception.
\<close>

section \<open>Identifiers, instants, errors\<close>

type_synonym uuid = nat
type_synonym datetime = int
type_synonym timedelta = int

datatype py_error =
    ValueError string
  | InvalidOperation
  | Inexact
  | DivisionByZero
  | ExecutionConflictError string
  | LeaseTakenError string
  | ExecutionStoreError string
  | FuturesBookUnavailableError string
  | BacktestSimulationError string
  | KeyError

type_synonym 'a result = "py_error + 'a"

definition rbind :: "'a result \<Rightarrow> ('a \<Rightarrow> 'b result) \<Rightarrow> 'b result" where
  "rbind m f = (case m of Inl e \<Rightarrow> Inl e | Inr x \<Rightarrow> f x)"

declare rbind_def [code_unfold]

lemma rbind_Inl [simp]: "rbind (Inl e) f = Inl e"
  by (simp add: rbind_def)

lemma rbind_Inr [simp]: "rbind (Inr x) f = f x"
  by (simp add: rbind_def)

lemma rbind_eq_Inr [simp]: "rbind m f = Inr y \<longleftrightarrow> (\<exists>x. m = Inr x \<and> f x = Inr y)"
  by (cases m) simp_all

lemma rbind_eq_Inl: "rbind m f = Inl e \<longleftrightarrow> m = Inl e \<or> (\<exists>x. m = Inr x \<and> f x = Inl e)"
  by (cases m) simp_all

lemma rbind_assoc: "rbind (rbind m f) g = rbind m (\<lambda>x. rbind (f x) g)"
  by (cases m) simp_all

lemma not_isl_Inr: "\<not> isl r \<Longrightarrow> (\<And>y. r = Inr y \<Longrightarrow> thesis) \<Longrightarrow> thesis"
  by (cases r) simp_all

named_theorems dec_simps \<open>rewrite rules of the decimal arithmetic\<close>
named_theorems model_defs \<open>unfoldings that evaluate the trading model on concrete data\<close>

section \<open>Python's None-aware helpers\<close>

definition or_else :: "'a option \<Rightarrow> 'a \<Rightarrow> 'a" where
  "or_else x d = (case x of None \<Rightarrow> d | Some v \<Rightarrow> v)"

lemma or_else_simps [simp]: "or_else None d = d" "or_else (Some v) d = v"
  by (simp_all add: or_else_def)

section \<open>Dictionaries built from sequences\<close>

text \<open>
  \<open>{key(x): x for x in xs}\<close>: on a repeated key the last element wins. \<open>find_first\<close> is
  \<open>next((x for x in xs if p(x)), None)\<close>.
\<close>

definition dict_by :: "('a \<Rightarrow> 'k) \<Rightarrow> 'a list \<Rightarrow> ('k \<rightharpoonup> 'a)" where
  "dict_by key xs = map_of (rev (map (\<lambda>x. (key x, x)) xs))"

lemma dict_by_Nil [simp]: "dict_by key [] = Map.empty"
  by (simp add: dict_by_def)

lemma dict_by_snoc [simp]: "dict_by key (xs @ [x]) = (dict_by key xs)(key x \<mapsto> x)"
  by (simp add: dict_by_def)

lemma dict_by_SomeD: "dict_by key xs k = Some x \<Longrightarrow> x \<in> set xs \<and> key x = k"
  unfolding dict_by_def by (drule map_of_SomeD) auto

lemma dict_by_None_iff: "dict_by key xs k = None \<longleftrightarrow> k \<notin> key ` set xs"
  by (simp add: dict_by_def map_of_eq_None_iff image_image)

lemma dict_by_distinct:
  assumes "distinct (map key xs)" "x \<in> set xs"
  shows "dict_by key xs (key x) = Some x"
proof (cases "dict_by key xs (key x)")
  case None
  with assms(2) show ?thesis by (simp add: dict_by_None_iff)
next
  case (Some y)
  then have "y \<in> set xs" "key y = key x" by (auto dest: dict_by_SomeD)
  with assms have "y = x" by (auto simp: distinct_map inj_on_def)
  with Some show ?thesis by simp
qed

lemma dict_by_code [code]:
  "dict_by key xs k = List.find (\<lambda>x. key x = k) (rev xs)"
proof (induction xs rule: rev_induct)
  case (snoc x xs)
  then show ?case by auto
qed simp

section \<open>Upserts into sequences\<close>

text \<open>Replace the first element that satisfies a predicate, or append.\<close>

fun upsert_by :: "('a \<Rightarrow> bool) \<Rightarrow> 'a \<Rightarrow> 'a list \<Rightarrow> 'a list" where
  "upsert_by same y [] = [y]"
| "upsert_by same y (x # xs) = (if same x then y # xs else x # upsert_by same y xs)"

lemma upsert_by_mem [simp]: "y \<in> set (upsert_by same y xs)"
  by (induction xs) auto

lemma set_upsert_by_subset: "set (upsert_by same y xs) \<subseteq> insert y (set xs)"
  by (induction xs) auto

lemma upsert_by_other: "x \<in> set xs \<Longrightarrow> \<not> same x \<Longrightarrow> x \<in> set (upsert_by same y xs)"
  by (induction xs) auto

lemma upsert_by_length:
  "length (upsert_by same y xs) = (if \<exists>x \<in> set xs. same x then length xs else Suc (length xs))"
  by (induction xs) auto

lemma upsert_by_keys:
  assumes "\<And>x. same x \<longleftrightarrow> key x = key y"
  shows "key ` set (upsert_by same y xs) = insert (key y) (key ` set xs)"
  using assms by (induction xs) auto

lemma upsert_by_distinct:
  assumes "\<And>x. same x \<longleftrightarrow> key x = key y" "distinct (map key xs)"
  shows "distinct (map key (upsert_by same y xs))"
  using assms(2)
proof (induction xs)
  case (Cons x xs)
  have "key x \<noteq> key y \<Longrightarrow> key x \<notin> key ` set (upsert_by same y xs)"
    using upsert_by_keys [of same key y xs, OF assms(1)] Cons.prems by auto
  with Cons assms(1) [of x] show ?case by auto
qed simp

end
