(* ===== verification/Decimal.thy ===== *)
theory Decimal
  imports Prelude
begin

text \<open>
  Python's \<open>decimal\<close> arithmetic on finite values. A value is its exact rational; an operation
  of a context of precision \<open>p\<close> returns the exact result rounded half-even to \<open>p\<close>
  significant digits (\<open>fixp\<close>), which is what CPython's \<open>_fix\<close> does. The default
  context (28 digits) and the simulation context (64 digits) are the two the program uses.
  Exponent limits, signed zeros and non-finite values are outside the model: the exponent range
  of the default context (\<open>10 ^ 999999\<close>) is never approached by prices and quantities, and
  \<open>dec_is_finite\<close> marks the places where the source tests finiteness.

  The locale \<open>rounding\<close> is what the trading code relies on: rounding is monotone, odd,
  idempotent and keeps the sign. It is interpreted on both contexts.
\<close>

section \<open>Rounding to a number of significant digits\<close>

text \<open>\<open>half_even\<close> rounds to the nearest integer, ties to even; \<open>dlen\<close> counts decimal
  digits; \<open>adjusted\<close> is the exponent of the most significant digit.\<close>

definition half_even :: "rat \<Rightarrow> int" where
  "half_even y =
     (let n = \<lfloor>y\<rfloor>; f = y - of_int n
      in if f < 1 / 2 then n
         else if 1 / 2 < f then n + 1
         else if even n then n else n + 1)"

fun dlen :: "int \<Rightarrow> int" where
  "dlen n = (if n < 10 then 1 else 1 + dlen (n div 10))"

declare dlen.simps [simp del]

definition adjusted :: "rat \<Rightarrow> int" where
  "adjusted x =
     (case quotient_of \<bar>x\<bar> of (a, b) \<Rightarrow>
        let k = dlen a - dlen b
        in if (if 0 \<le> k then b * 10 ^ nat k \<le> a else b \<le> a * 10 ^ nat (- k)) then k else k - 1)"

definition fixp :: "nat \<Rightarrow> rat \<Rightarrow> rat" where
  "fixp p x =
     (if x = 0 then 0
      else let u = 10 powi (adjusted x + 1 - int p) in of_int (half_even (x / u)) * u)"

lemma dlen_bounds: "0 < n \<Longrightarrow> 1 \<le> dlen n \<and> 10 ^ nat (dlen n - 1) \<le> n \<and> n < 10 ^ nat (dlen n)"
proof (induction n rule: dlen.induct)
  case (1 n)
  show ?case
  proof (cases "n < 10")
    case True
    with 1 show ?thesis by (simp add: dlen.simps [of n])
  next
    case False
    let ?m = "n div 10" and ?d = "dlen (n div 10)"
    from False 1 have IH: "1 \<le> ?d" "10 ^ nat (?d - 1) \<le> ?m" "?m < 10 ^ nat ?d" by auto
    from IH(1) have e: "nat ?d = Suc (nat (?d - 1))" "nat (1 + ?d) = Suc (nat ?d)" by auto
    have "10 * 10 ^ nat (?d - 1) \<le> n" "n < 10 * 10 ^ nat ?d" using IH by linarith+
    with False IH(1) e show ?thesis by (simp add: dlen.simps [of n])
  qed
qed

lemma powi_rat: "0 \<le> k \<Longrightarrow> (10::rat) powi k = of_int (10 ^ nat k)"
  by (simp add: power_int_def)

lemma dlen_powi:
  assumes "0 < n"
  shows "10 powi (dlen n - 1) \<le> (of_int n :: rat)" "(of_int n :: rat) < 10 powi dlen n"
proof -
  from dlen_bounds [OF assms] have b: "1 \<le> dlen n" "10 ^ nat (dlen n - 1) \<le> n" "n < 10 ^ nat (dlen n)"
    by auto
  show "10 powi (dlen n - 1) \<le> (of_int n :: rat)" using b
    by (simp add: powi_rat of_int_le_iff del: of_int_power)
  show "(of_int n :: rat) < 10 powi dlen n" using b
    by (simp add: powi_rat of_int_less_iff del: of_int_power)
qed

lemma adjusted_test:
  assumes "0 < b"
  shows "(if 0 \<le> k then b * 10 ^ nat k \<le> a else b \<le> a * 10 ^ nat (- k))
     \<longleftrightarrow> (10::rat) powi k \<le> of_int a / of_int b"
proof (cases "0 \<le> k")
  case True
  have "10 powi k \<le> (of_int a :: rat) / of_int b \<longleftrightarrow> of_int (b * 10 ^ nat k) \<le> (of_int a :: rat)"
    using assms True by (simp add: powi_rat field_simps)
  also have "\<dots> \<longleftrightarrow> b * 10 ^ nat k \<le> a" by (simp only: of_int_le_iff)
  finally show ?thesis using True by simp
next
  case False
  have "10 powi k \<le> (of_int a :: rat) / of_int b \<longleftrightarrow> of_int b \<le> (of_int (a * 10 ^ nat (-k)) :: rat)"
    using assms False by (simp add: power_int_def field_simps)
  also have "\<dots> \<longleftrightarrow> b \<le> a * 10 ^ nat (-k)" by (simp only: of_int_le_iff)
  finally show ?thesis using False by simp
qed

lemma adjusted_bounds:
  assumes "x \<noteq> 0"
  shows "10 powi adjusted x \<le> \<bar>x\<bar>" "\<bar>x\<bar> < 10 powi (adjusted x + 1)"
proof -
  obtain a b where q: "quotient_of \<bar>x\<bar> = (a, b)" by fastforce
  have b: "0 < b" using quotient_of_denom_pos [OF q] .
  have x: "\<bar>x\<bar> = of_int a / of_int b" using quotient_of_div [OF q] .
  have a: "0 < a" using x b assms
    by (metis zero_less_abs_iff of_int_0_less_iff zero_less_divide_iff order_less_asym)
  let ?k = "dlen a - dlen b"
  note da = dlen_powi [OF a] and db = dlen_powi [OF b]
  have p: "(0::rat) < 10 powi n" for n :: int by simp
  have ub: "\<bar>x\<bar> < 10 powi (?k + 1)"
  proof -
    have "\<bar>x\<bar> * 10 powi (dlen b - 1) \<le> \<bar>x\<bar> * of_int b" using db(1) by (simp add: mult_left_mono)
    also have "\<dots> = of_int a" using x b by simp
    also have "\<dots> < 10 powi dlen a" by (rule da(2))
    also have "\<dots> = 10 powi (?k + 1) * 10 powi (dlen b - 1)" by (simp flip: power_int_add)
    finally show ?thesis by (simp add: mult_less_cancel_right)
  qed
  have lb: "10 powi (?k - 1) \<le> \<bar>x\<bar>"
  proof -
    have "10 powi (?k - 1) * 10 powi dlen b = (10 powi (dlen a - 1) :: rat)" by (simp flip: power_int_add)
    also have "\<dots> \<le> of_int a" by (rule da(1))
    also have "\<dots> = \<bar>x\<bar> * of_int b" using x b by simp
    also have "\<dots> \<le> \<bar>x\<bar> * 10 powi dlen b" using db(2) by (simp add: mult_left_mono)
    finally show ?thesis by (simp add: mult_le_cancel_right)
  qed
  have adj: "adjusted x = (if 10 powi ?k \<le> \<bar>x\<bar> then ?k else ?k - 1)"
    unfolding adjusted_def q prod.case Let_def adjusted_test [OF b, of ?k a] x [symmetric] ..
  show "10 powi adjusted x \<le> \<bar>x\<bar>" using lb adj by simp
  show "\<bar>x\<bar> < 10 powi (adjusted x + 1)" using ub adj by (simp split: if_splits)
qed

lemma half_even_of_int [simp]: "half_even (of_int n) = n"
  by (simp add: half_even_def)

lemma half_even_cases: "half_even y = \<lfloor>y\<rfloor> \<or> half_even y = \<lfloor>y\<rfloor> + 1"
  by (simp add: half_even_def Let_def)

lemma half_even_error: "\<bar>of_int (half_even y) - y\<bar> \<le> 1 / 2"
proof -
  have "of_int \<lfloor>y\<rfloor> \<le> y" "y < of_int \<lfloor>y\<rfloor> + 1" by linarith+
  then show ?thesis unfolding half_even_def Let_def abs_if by (simp split: if_splits) linarith
qed

lemma half_even_mono: "x \<le> y \<Longrightarrow> half_even x \<le> half_even y"
proof -
  assume xy: "x \<le> y"
  show ?thesis
  proof (cases "\<lfloor>x\<rfloor> = \<lfloor>y\<rfloor>")
    case True
    with xy show ?thesis by (auto simp: half_even_def Let_def)
  next
    case False
    with xy have "\<lfloor>x\<rfloor> + 1 \<le> \<lfloor>y\<rfloor>" using floor_mono [OF xy] by linarith
    then show ?thesis using half_even_cases [of x] half_even_cases [of y] by linarith
  qed
qed

lemma half_even_minus: "half_even (- y) = - half_even y"
proof (cases "y = of_int \<lfloor>y\<rfloor>")
  case True
  then show ?thesis by (metis half_even_of_int of_int_minus)
next
  case False
  have "of_int \<lfloor>y\<rfloor> \<le> y" "y < of_int \<lfloor>y\<rfloor> + 1" by linarith+
  with False have "\<lfloor>- y\<rfloor> = - \<lfloor>y\<rfloor> - 1" by (intro floor_unique) (auto simp: less_le)
  then show ?thesis by (auto simp: half_even_def Let_def)
qed

lemma fixp_zero [simp]: "fixp p 0 = 0" by (simp add: fixp_def)

lemma adjusted_minus [simp]: "adjusted (- x) = adjusted x" by (simp add: adjusted_def)

lemma fixp_minus: "fixp p (- x) = - fixp p x"
  by (simp add: fixp_def Let_def half_even_minus)

lemma powi_rat_pos [simp]: "(0::rat) < 10 powi k" by simp

lemma fixp_bounds_pos:
  assumes "0 < x" "0 < p"
  shows "10 powi adjusted x \<le> fixp p x" "fixp p x \<le> 10 powi (adjusted x + 1)"
proof -
  let ?u = "10 powi (adjusted x + 1 - int p) :: rat"
  have s: "10 powi adjusted x = of_int (10 ^ (p - 1)) * ?u"
  proof -
    have "of_int (10 ^ (p - 1)) = (10::rat) powi (int p - 1)" using assms(2) by (simp add: powi_rat nat_diff_distrib)
    then show ?thesis by (simp flip: power_int_add)
  qed
  have s': "10 powi (adjusted x + 1) = of_int (10 ^ p) * ?u"
  proof -
    have "of_int (10 ^ p) * ?u = (10::rat) powi (int p) * ?u" by (simp add: powi_rat)
    also have "\<dots> = 10 powi (adjusted x + 1)" by (subst power_int_add [symmetric]) auto
    finally show ?thesis by simp
  qed
  note b = adjusted_bounds [of x]
  have "of_int (10 ^ (p - 1)) \<le> x / ?u" using b(1) assms s by (simp add: field_simps del: of_int_power)
  from half_even_mono [OF this] have 1: "10 ^ (p - 1) \<le> half_even (x / ?u)"
    by (simp only: half_even_of_int)
  have "x / ?u \<le> of_int (10 ^ p)" using b(2) assms s' by (simp add: field_simps del: of_int_power)
  from half_even_mono [OF this] have 2: "half_even (x / ?u) \<le> 10 ^ p"
    by (simp only: half_even_of_int)
  have f: "fixp p x = of_int (half_even (x / ?u)) * ?u" using assms by (simp add: fixp_def Let_def)
  show "10 powi adjusted x \<le> fixp p x" unfolding s f
    using 1 by (intro mult_right_mono) (simp_all only: of_int_le_iff, simp)
  show "fixp p x \<le> 10 powi (adjusted x + 1)" unfolding s' f
    using 2 by (intro mult_right_mono) (simp_all only: of_int_le_iff, simp)
qed
lemma fixp_pos: "0 < x \<Longrightarrow> 0 < p \<Longrightarrow> 0 < fixp p x"
  using fixp_bounds_pos(1) [of x p] powi_rat_pos [of "adjusted x"] by linarith

lemma adjusted_mono:
  assumes "0 < x" "x \<le> y"
  shows "adjusted x \<le> adjusted y"
proof (rule ccontr)
  assume "\<not> adjusted x \<le> adjusted y"
  then have "(10::rat) powi (adjusted y + 1) \<le> 10 powi adjusted x" by (intro power_int_increasing) auto
  with adjusted_bounds [of x] adjusted_bounds [of y] assms show False by auto
qed

lemma fixp_mono_pos:
  assumes "0 < x" "x \<le> y" "0 < p"
  shows "fixp p x \<le> fixp p y"
proof (cases "adjusted x = adjusted y")
  case True
  let ?u = "10 powi (adjusted y + 1 - int p) :: rat"
  have "x / ?u \<le> y / ?u" using assms by (simp add: divide_right_mono)
  from half_even_mono [OF this] show ?thesis using assms True by (simp add: fixp_def Let_def)
next
  case False
  with adjusted_mono [OF assms(1,2)] have "(10::rat) powi (adjusted x + 1) \<le> 10 powi adjusted y"
    by (intro power_int_increasing) auto
  with fixp_bounds_pos(2) [of x p] fixp_bounds_pos(1) [of y p] assms show ?thesis by auto
qed

lemma fixp_mono:
  assumes "x \<le> y" "0 < p"
  shows "fixp p x \<le> fixp p y"
proof -
  consider "0 < x" | "x \<le> 0" "0 \<le> y" | "y < 0" by linarith
  then show ?thesis
  proof cases
    case 1 with assms show ?thesis by (simp add: fixp_mono_pos)
  next
    case 2
    have "0 \<le> fixp p z" if "0 \<le> z" for z using fixp_pos [of z p] that assms by (cases "z = 0") auto
    from this [of y] this [of "- x"] 2 show ?thesis by (simp add: fixp_minus)
  next
    case 3
    with assms fixp_mono_pos [of "- y" "- x" p] show ?thesis by (simp add: fixp_minus)
  qed
qed

definition representable :: "nat \<Rightarrow> rat \<Rightarrow> bool" where
  "representable p x \<longleftrightarrow> (\<exists>c e. x = of_int c * 10 powi e \<and> \<bar>c\<bar> < 10 ^ p)"

lemma fixp_exact:
  assumes "x = of_int c * 10 powi e" "\<bar>c\<bar> \<le> 10 ^ p" "0 < p"
  shows "fixp p x = x"
proof (cases "x = 0")
  case False
  let ?u = "10 powi (adjusted x + 1 - int p) :: rat"
  have int: "\<exists>n. x / ?u = of_int n"
  proof (cases "adjusted x + 1 - int p \<le> e")
    case True
    define k where "k = nat (e - (adjusted x + 1 - int p))"
    have "10 powi e = (of_int (10 ^ k) :: rat) * ?u" using True unfolding k_def
      by (subst powi_rat [symmetric]) (auto simp flip: power_int_add)
    then have "x = of_int (c * 10 ^ k) * ?u" using assms(1) by simp
    then have "x / ?u = of_int (c * 10 ^ k)"
      by (metis nonzero_mult_div_cancel_right powi_rat_pos less_irrefl)
    then show ?thesis by blast
  next
    case ge: False
    have "\<bar>x\<bar> \<le> 10 powi (int p + e)"
    proof -
      have "\<bar>x\<bar> = of_int \<bar>c\<bar> * 10 powi e" by (simp add: assms(1) abs_mult)
      also have "\<dots> \<le> of_int (10 ^ p) * 10 powi e"
        using assms(2) by (intro mult_right_mono) (simp_all only: of_int_le_iff, simp)
      also have "\<dots> = 10 powi (int p) * 10 powi e" by (simp add: powi_rat)
      also have "\<dots> = 10 powi (int p + e)" by (simp add: power_int_add)
      finally show ?thesis .
    qed
    with adjusted_bounds(1) [OF False] have le: "(10::rat) powi adjusted x \<le> 10 powi (int p + e)" by linarith
    have "adjusted x \<le> int p + e"
      using le power_int_strict_increasing [of "int p + e" "adjusted x" "10::rat"] by linarith
    with ge have eq: "adjusted x = int p + e" by linarith
    have "\<bar>x\<bar> = 10 powi (int p + e)"
      using \<open>\<bar>x\<bar> \<le> 10 powi (int p + e)\<close> adjusted_bounds(1) [OF False] eq by simp
    moreover have "(10::rat) powi (int p + e) = of_int (10 ^ (p - 1)) * ?u"
    proof -
      have "of_int (10 ^ (p - 1)) * ?u = (10::rat) powi (int p - 1) * ?u" using assms(3) by (simp add: powi_rat nat_diff_distrib)
      also have "\<dots> = 10 powi (int p + e)" by (subst power_int_add [symmetric]) (auto simp: eq)
      finally show ?thesis by simp
    qed
    ultimately have "\<bar>x / ?u\<bar> = of_int (10 ^ (p - 1))" by (simp add: abs_divide)
    then have "x / ?u = of_int (10 ^ (p - 1)) \<or> x / ?u = of_int (- (10 ^ (p - 1)))"
      by (simp add: abs_if split: if_splits)
    then show ?thesis by blast
  qed
  then obtain n where n: "x / ?u = of_int n" by blast
  then have "x = of_int n * ?u" by (simp add: field_simps)
  with n False show ?thesis by (simp add: fixp_def)
qed simp

lemma fixp_representable: "representable p x \<Longrightarrow> 0 < p \<Longrightarrow> fixp p x = x"
  by (auto simp: representable_def intro: fixp_exact)

lemma fixp_coeff: "0 < p \<Longrightarrow> \<exists>c e. fixp p x = of_int c * 10 powi e \<and> \<bar>c\<bar> \<le> 10 ^ p"
proof (cases "x = 0")
  case True
  then show ?thesis by (auto intro: exI [of _ 0])
next
  case False
  assume p: "0 < p"
  let ?u = "10 powi (adjusted x + 1 - int p) :: rat"
  have "of_int (10 ^ p) * ?u = (10::rat) powi (int p) * ?u" by (simp add: powi_rat)
  also have "\<dots> = 10 powi (adjusted x + 1)" by (subst power_int_add [symmetric]) auto
  finally have s: "10 powi (adjusted x + 1) = of_int (10 ^ p) * ?u" by simp
  have b: "\<bar>x\<bar> \<le> of_int (10 ^ p) * ?u" using adjusted_bounds(2) [OF False] s by simp
  have "x / ?u \<le> of_int (10 ^ p)" "of_int (- (10 ^ p)) \<le> x / ?u"
    using b by (auto simp: field_simps abs_le_iff simp del: of_int_power)
  from this(1) [THEN half_even_mono] this(2) [THEN half_even_mono]
  have "\<bar>half_even (x / ?u)\<bar> \<le> 10 ^ p" unfolding half_even_of_int by linarith
  with False show ?thesis by (auto simp: fixp_def Let_def)
qed

lemma fixp_idem: "0 < p \<Longrightarrow> fixp p (fixp p x) = fixp p x"
  using fixp_coeff [of p x] fixp_exact by metis

lemma fixp_error:
  assumes "0 < p"
  shows "\<bar>fixp p x - x\<bar> \<le> \<bar>x\<bar> * 10 powi (1 - int p) / 2"
proof (cases "x = 0")
  case False
  let ?u = "10 powi (adjusted x + 1 - int p) :: rat"
  have "\<bar>fixp p x - x\<bar> = \<bar>(of_int (half_even (x / ?u)) - x / ?u) * ?u\<bar>"
    using False by (simp add: fixp_def Let_def algebra_simps)
  also have "\<dots> = \<bar>of_int (half_even (x / ?u)) - x / ?u\<bar> * ?u" by (simp add: abs_mult)
  also have "\<dots> \<le> 1 / 2 * ?u" using half_even_error by (intro mult_right_mono) auto
  also have "?u = 10 powi adjusted x * 10 powi (1 - int p)" by (subst power_int_add [symmetric]) (auto simp: algebra_simps)
  also have "1 / 2 * (10 powi adjusted x * 10 powi (1 - int p)) \<le> \<bar>x\<bar> * 10 powi (1 - int p) / 2"
    using adjusted_bounds(1) [OF False] by (simp add: mult_right_mono)
  finally show ?thesis .
qed simp

definition half_even_div :: "int \<Rightarrow> int \<Rightarrow> int" where
  "half_even_div a b =
     (let n = a div b; r = 2 * (a mod b)
      in if r < b then n else if b < r then n + 1 else if even n then n else n + 1)"

lemma half_even_div: "0 < b \<Longrightarrow> half_even (of_int a / of_int b) = half_even_div a b"
proof -
  assume b: "0 < b"
  have n: "\<lfloor>(of_int a / of_int b :: rat)\<rfloor> = a div b" by (rule floor_divide_of_int_eq)
  have f: "(of_int a / of_int b :: rat) - of_int (a div b) = of_int (a mod b) / of_int b"
  proof -
    have "(of_int a :: rat) = of_int b * of_int (a div b) + of_int (a mod b)"
      by (simp only: of_int_mult [symmetric] of_int_add [symmetric] mult_div_mod_eq)
    then show ?thesis using b by (simp add: field_simps)
  qed
  have c1: "(of_int r / of_int b < (1/2 :: rat)) = (2 * r < b)"
    and c2: "((1/2 :: rat) < of_int r / of_int b) = (b < 2 * r)" for r
  proof -
    have "(of_int r / of_int b < (1/2 :: rat)) = (of_int (2 * r) < (of_int b :: rat))"
      and "((1/2 :: rat) < of_int r / of_int b) = (of_int b < (of_int (2 * r) :: rat))"
      using b by (simp_all add: field_simps)
    then show "(of_int r / of_int b < (1/2 :: rat)) = (2 * r < b)"
      and "((1/2 :: rat) < of_int r / of_int b) = (b < 2 * r)" by (simp_all only: of_int_less_iff)
  qed
  show ?thesis unfolding half_even_def half_even_div_def Let_def n f c1 c2 ..
qed

lemma fixp_code:
  "fixp p x =
     (if x = 0 then 0
      else case quotient_of x of (a, b) \<Rightarrow>
        let e = adjusted x + 1 - int p
        in if e \<le> 0 then of_int (half_even_div (a * 10 ^ nat (- e)) b) / of_int (10 ^ nat (- e))
           else of_int (half_even_div a (b * 10 ^ nat e) * 10 ^ nat e))"
proof (cases "x = 0")
  case False
  obtain a b where q: "quotient_of x = (a, b)" by fastforce
  have b: "0 < b" using quotient_of_denom_pos [OF q] .
  have x: "x = of_int a / of_int b" using quotient_of_div [OF q] .
  let ?e = "adjusted x + 1 - int p"
  show ?thesis
  proof (cases "?e \<le> 0")
    case True
    then have u: "(10::rat) powi ?e = 1 / of_int (10 ^ nat (- ?e))" by (simp add: power_int_def field_simps)
    have "x / 10 powi ?e = of_int (a * 10 ^ nat (- ?e)) / of_int b" unfolding u by (subst x) simp
    then have "half_even (x / 10 powi ?e) = half_even_div (a * 10 ^ nat (- ?e)) b"
      using half_even_div [OF b] by metis
    then show ?thesis using False True by (simp add: fixp_def q Let_def u)
  next
    case c: False
    then have u: "(10::rat) powi ?e = of_int (10 ^ nat ?e)" by (simp add: powi_rat)
    have "x / 10 powi ?e = of_int a / of_int (b * 10 ^ nat ?e)" unfolding u by (subst x) simp
    then have "half_even (x / 10 powi ?e) = half_even_div a (b * 10 ^ nat ?e)"
      using half_even_div [of "b * 10 ^ nat ?e" a] b by simp
    then show ?thesis using False c by (simp add: fixp_def q Let_def u)
  qed
qed simp

section \<open>The contract of a context's rounding\<close>

locale rounding =
  fixes rnd :: "rat \<Rightarrow> rat"
  assumes rnd_mono: "x \<le> y \<Longrightarrow> rnd x \<le> rnd y"
    and rnd_minus: "rnd (- x) = - rnd x"
    and rnd_idem: "rnd (rnd x) = rnd x"
    and rnd_pos: "0 < x \<Longrightarrow> 0 < rnd x"
begin

lemma rnd_zero: "rnd 0 = 0"
  using rnd_minus [of 0] by simp

lemma rnd_nonneg: "0 \<le> x \<Longrightarrow> 0 \<le> rnd x"
  using rnd_mono [of 0 x] by (simp add: rnd_zero)

lemma rnd_pos_iff: "0 < rnd x \<longleftrightarrow> 0 < x"
proof
  assume "0 < rnd x"
  then show "0 < x" using rnd_mono [of x 0] rnd_zero by (cases "0 < x") auto
qed (rule rnd_pos)

lemma rnd_neg_iff: "rnd x < 0 \<longleftrightarrow> x < 0"
  using rnd_pos_iff [of "- x"] by (simp add: rnd_minus)

lemma rnd_nonpos_iff: "rnd x \<le> 0 \<longleftrightarrow> x \<le> 0"
  using rnd_pos_iff [of x] by linarith

lemma rnd_nonneg_iff: "0 \<le> rnd x \<longleftrightarrow> 0 \<le> x"
  using rnd_neg_iff [of x] by linarith

lemma rnd_zero_iff: "rnd x = 0 \<longleftrightarrow> x = 0"
  using rnd_pos_iff [of x] rnd_neg_iff [of x] by (cases "x = 0") (auto simp: rnd_zero)

lemma rnd_upper: "x \<le> y \<Longrightarrow> rnd y = y \<Longrightarrow> rnd x \<le> y"
  using rnd_mono [of x y] by simp

lemma rnd_lower: "x \<le> y \<Longrightarrow> rnd x = x \<Longrightarrow> x \<le> rnd y"
  using rnd_mono [of x y] by simp

lemma rnd_strict: "rnd x < rnd y \<Longrightarrow> x < y"
  using rnd_mono [of y x] by linarith

lemmas rnd_sign = rnd_zero rnd_pos_iff rnd_neg_iff rnd_nonpos_iff rnd_nonneg_iff rnd_zero_iff

end

lemma rounding_fixp: "0 < p \<Longrightarrow> rounding (fixp p)"
  by unfold_locales (simp_all add: fixp_mono fixp_minus fixp_idem fixp_pos)

text \<open>The default context and the simulation context.\<close>

interpretation d28: rounding "fixp 28"
  by (rule rounding_fixp) simp

interpretation d64: rounding "fixp 64"
  by (rule rounding_fixp) simp

lemmas d28_sign [simp, dec_simps] = d28.rnd_sign
lemmas d64_sign [simp, dec_simps] = d64.rnd_sign

section \<open>Context operations\<close>

text \<open>
  Arithmetic of a context of precision \<open>p\<close>. Unary minus and \<open>abs\<close> round too, as in
  CPython; comparisons, \<open>min\<close> and \<open>max\<close> are exact. \<open>ctx_div\<close> is used where the
  source has excluded a zero divisor; \<open>ctx_div_checked\<close> raises where it has not.
\<close>

type_synonym decimal = rat

definition dec_is_finite :: "decimal \<Rightarrow> bool" where
  "dec_is_finite x = True"

definition ctx_add :: "nat \<Rightarrow> decimal \<Rightarrow> decimal \<Rightarrow> decimal" where
  "ctx_add p x y = fixp p (x + y)"

definition ctx_sub :: "nat \<Rightarrow> decimal \<Rightarrow> decimal \<Rightarrow> decimal" where
  "ctx_sub p x y = fixp p (x - y)"

definition ctx_mul :: "nat \<Rightarrow> decimal \<Rightarrow> decimal \<Rightarrow> decimal" where
  "ctx_mul p x y = fixp p (x * y)"

definition ctx_div :: "nat \<Rightarrow> decimal \<Rightarrow> decimal \<Rightarrow> decimal" where
  "ctx_div p x y = fixp p (x / y)"

definition ctx_neg :: "nat \<Rightarrow> decimal \<Rightarrow> decimal" where
  "ctx_neg p x = fixp p (- x)"

definition ctx_abs :: "nat \<Rightarrow> decimal \<Rightarrow> decimal" where
  "ctx_abs p x = fixp p \<bar>x\<bar>"

definition ctx_div_checked :: "nat \<Rightarrow> decimal \<Rightarrow> decimal \<Rightarrow> decimal result" where
  "ctx_div_checked p x y =
     (if y = 0 then Inl (if x = 0 then InvalidOperation else DivisionByZero)
      else Inr (ctx_div p x y))"

lemma ctx_div_checked_Inr [simp]: "ctx_div_checked p x y = Inr r \<longleftrightarrow> y \<noteq> 0 \<and> r = ctx_div p x y"
  by (auto simp: ctx_div_checked_def)

abbreviation dadd :: "decimal \<Rightarrow> decimal \<Rightarrow> decimal" where "dadd \<equiv> ctx_add 28"
abbreviation dsub :: "decimal \<Rightarrow> decimal \<Rightarrow> decimal" where "dsub \<equiv> ctx_sub 28"
abbreviation dmul :: "decimal \<Rightarrow> decimal \<Rightarrow> decimal" where "dmul \<equiv> ctx_mul 28"
abbreviation ddiv :: "decimal \<Rightarrow> decimal \<Rightarrow> decimal" where "ddiv \<equiv> ctx_div 28"
abbreviation dneg :: "decimal \<Rightarrow> decimal" where "dneg \<equiv> ctx_neg 28"
abbreviation dabs :: "decimal \<Rightarrow> decimal" where "dabs \<equiv> ctx_abs 28"
abbreviation ddiv_checked :: "decimal \<Rightarrow> decimal \<Rightarrow> decimal result" where
  "ddiv_checked \<equiv> ctx_div_checked 28"

lemmas ctx_defs = ctx_add_def ctx_sub_def ctx_mul_def ctx_div_def ctx_neg_def ctx_abs_def

text \<open>\<open>sum(xs, start=Decimal("0"))\<close> adds from the left, rounding every step.\<close>

definition dsum :: "decimal list \<Rightarrow> decimal" where
  "dsum xs = foldl dadd 0 xs"

lemma dsum_Nil [simp]: "dsum [] = 0"
  by (simp add: dsum_def)

lemma dsum_snoc [simp]: "dsum (xs @ [x]) = dadd (dsum xs) x"
  by (simp add: dsum_def)

lemma dsum_nonneg: "(\<And>x. x \<in> set xs \<Longrightarrow> 0 \<le> x) \<Longrightarrow> 0 \<le> dsum xs"
  by (induction xs rule: rev_induct) (auto simp: ctx_add_def)

lemma dsum_pos:
  assumes "\<And>x. x \<in> set xs \<Longrightarrow> 0 < x" "xs \<noteq> []"
  shows "0 < dsum xs"
  using assms
proof (induction xs rule: rev_induct)
  case (snoc x xs)
  have "0 \<le> dsum xs" by (rule dsum_nonneg) (use snoc.prems(1) in \<open>auto intro: less_imp_le\<close>)
  moreover have "0 < x" using snoc.prems(1) by simp
  ultimately show ?case by (simp add: ctx_add_def)
qed simp

section \<open>Exactness on a fixed grid\<close>

text \<open>
  \<open>on_grid k x\<close>: the value has at most \<open>k\<close> decimal places. On a grid of \<open>k\<close> places
  and magnitude \<open>10 ^ m\<close> with \<open>k + m \<le> p\<close> the context is exact.
\<close>

definition on_grid :: "nat \<Rightarrow> decimal \<Rightarrow> bool" where
  "on_grid k x \<longleftrightarrow> of_int \<lfloor>x * 10 ^ k\<rfloor> = x * 10 ^ k"

lemma on_gridI: "x * 10 ^ k = of_int c \<Longrightarrow> on_grid k x"
  by (simp add: on_grid_def)

lemma on_gridE:
  assumes "on_grid k x"
  obtains c where "x * 10 ^ k = of_int c"
  using assms that unfolding on_grid_def by metis

lemma on_grid_zero [simp]: "on_grid k 0"
  by (simp add: on_grid_def)

lemma on_grid_add: "on_grid k x \<Longrightarrow> on_grid k y \<Longrightarrow> on_grid k (x + y)"
  by (elim on_gridE) (rule on_gridI, simp only: distrib_right flip: of_int_add)

lemma on_grid_minus: "on_grid k x \<Longrightarrow> on_grid k (- x)"
  by (elim on_gridE) (rule on_gridI, simp only: mult_minus_left flip: of_int_minus)

lemma on_grid_diff: "on_grid k x \<Longrightarrow> on_grid k y \<Longrightarrow> on_grid k (x - y)"
  using on_grid_add [of k x "- y"] by (simp add: on_grid_minus)

lemma on_grid_mult: "on_grid k x \<Longrightarrow> on_grid l y \<Longrightarrow> on_grid (k + l) (x * y)"
proof (elim on_gridE)
  fix c d assume c: "x * 10 ^ k = of_int c" and d: "y * 10 ^ l = of_int d"
  have "x * y * 10 ^ (k + l) = (x * 10 ^ k) * (y * 10 ^ l)" by (simp add: power_add)
  then show ?thesis by (intro on_gridI [of _ _ "c * d"]) (simp only: c d of_int_mult)
qed

lemma on_grid_mono:
  assumes "on_grid k x" "k \<le> l"
  shows "on_grid l x"
proof -
  from assms(2) obtain d where l: "l = k + d" by (auto simp: le_iff_add)
  have "on_grid d 1" by (rule on_gridI [of _ _ "10 ^ d"]) simp
  from on_grid_mult [OF assms(1) this] show ?thesis by (simp add: l)
qed

lemma fixp_grid:
  assumes "on_grid k x" "\<bar>x\<bar> \<le> 10 ^ m" "k + m \<le> p" "0 < p"
  shows "fixp p x = x"
proof -
  from assms(1) obtain c where c: "x * 10 ^ k = of_int c" by (rule on_gridE)
  have "of_int \<bar>c\<bar> = \<bar>x\<bar> * 10 ^ k" by (simp add: c [symmetric] abs_mult)
  also have "\<dots> \<le> 10 ^ m * 10 ^ k" using assms(2) by (intro mult_right_mono) auto
  also have "\<dots> \<le> (10 ^ p :: rat)" using assms(3) by (simp add: add.commute flip: power_add)
  finally have "of_int \<bar>c\<bar> \<le> (of_int (10 ^ p) :: rat)" by simp
  then have "\<bar>c\<bar> \<le> 10 ^ p" by (simp only: of_int_le_iff)
  moreover have "x = of_int c * 10 powi (- int k)"
    using c by (simp add: power_int_minus field_simps)
  ultimately show ?thesis using assms(4) by (intro fixp_exact)
qed

text \<open>The code equation: values of at most twenty places that fit the context are kept without
  long division.\<close>

lemma fixp_short:
  assumes q: "quotient_of x = (a, b)" and d: "10 ^ 20 mod b = 0" and m: "\<bar>a\<bar> \<le> b * 10 ^ (p - 20)" and p: "20 < p"
  shows "fixp p x = x"
proof (rule fixp_grid [of 20 _ "p - 20"])
  have b: "0 < b" using quotient_of_denom_pos [OF q] .
  have x: "x = of_int a / of_int b" using quotient_of_div [OF q] .
  from d have "b dvd 10 ^ 20" by (rule mod_eq_0_iff_dvd [THEN iffD1])
  then obtain c where c: "10 ^ 20 = b * c" by (rule dvdE)
  then have "(10::rat) ^ 20 = of_int b * of_int c" by (metis of_int_mult of_int_numeral of_int_power)
  then have "x * 10 ^ 20 = of_int a / of_int b * (of_int b * of_int c)" by (simp only: x)
  also have "\<dots> = of_int (a * c)" using b by simp
  finally have "x * 10 ^ 20 = of_int (a * c)" .
  then show "on_grid 20 x" by (rule on_gridI)
  have "of_int \<bar>a\<bar> \<le> (of_int (b * 10 ^ (p - 20)) :: rat)" using m by (simp only: of_int_le_iff)
  with b show "\<bar>x\<bar> \<le> 10 ^ (p - 20)" by (simp add: x field_simps)
qed (use p in simp_all)

lemma fixp_fast [code]:
  "fixp p x =
     (case quotient_of x of (a, b) \<Rightarrow>
        if 20 < p \<and> 100000000000000000000 mod b = 0 \<and> \<bar>a\<bar> \<le> b * 10 ^ (p - 20) then of_int a / of_int b
        else if x = 0 then 0
        else let e = adjusted x + 1 - int p
             in if e \<le> 0 then of_int (half_even_div (a * 10 ^ nat (- e)) b) / of_int (10 ^ nat (- e))
                else of_int (half_even_div a (b * 10 ^ nat e) * 10 ^ nat e))"
  using fixp_short [of x "fst (quotient_of x)" "snd (quotient_of x)" p] fixp_code [of p x]
    quotient_of_div [of x "fst (quotient_of x)" "snd (quotient_of x)"]
  by (cases "quotient_of x") simp

section \<open>Quantizing to an integer\<close>

datatype rounding_mode = ROUND_DOWN | ROUND_UP | ROUND_FLOOR | ROUND_HALF_UP | ROUND_HALF_EVEN

fun round_int :: "rounding_mode \<Rightarrow> decimal \<Rightarrow> int" where
  "round_int ROUND_DOWN x = (if 0 \<le> x then \<lfloor>x\<rfloor> else \<lceil>x\<rceil>)"
| "round_int ROUND_UP x = (if 0 \<le> x then \<lceil>x\<rceil> else \<lfloor>x\<rfloor>)"
| "round_int ROUND_FLOOR x = \<lfloor>x\<rfloor>"
| "round_int ROUND_HALF_UP x = (if 0 \<le> x then \<lfloor>x + 1 / 2\<rfloor> else - \<lfloor>1 / 2 - x\<rfloor>)"
| "round_int ROUND_HALF_EVEN x = half_even x"

text \<open>
  \<open>x.quantize(Decimal("1"), rounding=mode)\<close> raises when the integer has more digits than the
  context; \<open>to_integral_value\<close> does not check.
\<close>

definition quantize_one_in :: "nat \<Rightarrow> rounding_mode \<Rightarrow> decimal \<Rightarrow> decimal result" where
  "quantize_one_in p mode x =
     (let n = round_int mode x in if \<bar>n\<bar> < 10 ^ p then Inr (of_int n) else Inl InvalidOperation)"

definition quantize_one :: "rounding_mode \<Rightarrow> decimal \<Rightarrow> decimal result" where
  quantize_one_28: "quantize_one = quantize_one_in 28"

lemmas quantize_one_def = quantize_one_in_def [of 28, folded quantize_one_28]

definition to_integral_value :: "rounding_mode \<Rightarrow> decimal \<Rightarrow> decimal" where
  "to_integral_value mode x = of_int (round_int mode x)"

lemma quantize_one_InrD:
  "quantize_one mode x = Inr y \<Longrightarrow> y = of_int (round_int mode x) \<and> \<bar>round_int mode x\<bar> < 10 ^ 28"
  by (auto simp: quantize_one_def Let_def split: if_splits)

lemma round_int_mono: "x \<le> y \<Longrightarrow> round_int mode x \<le> round_int mode y"
proof (cases mode)
  case ROUND_DOWN
  assume "x \<le> y"
  moreover have "\<lceil>x\<rceil> \<le> \<lfloor>y\<rfloor>" if "x < 0" "0 \<le> y"
    using that ceiling_le_zero [of x] zero_le_floor [of y] by linarith
  ultimately show ?thesis using ROUND_DOWN by (auto intro: floor_mono ceiling_mono)
next
  case ROUND_UP
  assume "x \<le> y"
  moreover have "\<lfloor>x\<rfloor> \<le> \<lceil>y\<rceil>" if "x \<le> y" using that floor_mono floor_le_ceiling order_trans by blast
  ultimately show ?thesis using ROUND_UP by (auto intro: floor_mono ceiling_mono)
next
  case ROUND_FLOOR
  then show "x \<le> y \<Longrightarrow> ?thesis" by (simp add: floor_mono)
next
  case ROUND_HALF_UP
  assume xy: "x \<le> y"
  have "- \<lfloor>1 / 2 - x\<rfloor> \<le> \<lfloor>y + 1 / 2\<rfloor>" if "x < 0" "0 \<le> y"
  proof -
    have "0 \<le> \<lfloor>1 / 2 - x\<rfloor>" "0 \<le> \<lfloor>y + 1 / 2\<rfloor>" using that by simp_all
    then show ?thesis by linarith
  qed
  with xy ROUND_HALF_UP show ?thesis by (auto intro: floor_mono)
next
  case ROUND_HALF_EVEN
  then show "x \<le> y \<Longrightarrow> ?thesis" by (simp add: half_even_mono)
qed

lemma round_int_of_int [simp]: "round_int mode (of_int n) = n"
proof (cases mode)
  case ROUND_HALF_UP
  have "\<lfloor>(of_int n :: rat) + 1 / 2\<rfloor> = n" "\<lfloor>1 / 2 - (of_int n :: rat)\<rfloor> = - n"
    by (simp_all add: floor_unique)
  with ROUND_HALF_UP show ?thesis by simp
qed simp_all

lemma round_down_le: "0 \<le> x \<Longrightarrow> of_int (round_int ROUND_DOWN x) \<le> x"
  by simp

end
