(* ===== verification/Trading_Models.thy ===== *)
theory Trading_Models
  imports Decimal
begin

text \<open>
  The execution records shared by paper and live runtimes (\<open>trading/models.py\<close>): the
  enumerations, the immutable dataclasses and the pure functions over them. Field names carry a
  one-letter prefix of their record, since record fields share one name space.
\<close>

section \<open>Enumerations\<close>

datatype deployment_mode = PAPER | LIVE

datatype deployment_kind = STRATEGY | DISCRETIONARY

datatype intent_origin = HUMAN | AGENT | RUNTIME

datatype deployment_status = RUNNING | PAUSED | STOPPED

datatype runtime_phase = FLAT | PENDING_ENTRY | PHASE_OPEN | PENDING_EXIT

datatype order_side = BUY | SELL

datatype position_side = LONG | SHORT

datatype order_kind = POST_ONLY_LIMIT | MARKETABLE | TRIGGER_BRACKET | STOP_LIMIT | KIND_ADOPTION

definition VENUE_PROTECTION_KINDS :: "order_kind set" where
  "VENUE_PROTECTION_KINDS = {TRIGGER_BRACKET, STOP_LIMIT}"

definition is_venue_protection :: "order_kind \<Rightarrow> bool" where
  "is_venue_protection kind \<longleftrightarrow> kind \<in> VENUE_PROTECTION_KINDS"

lemma is_venue_protection_simps [simp]:
  "is_venue_protection TRIGGER_BRACKET" "is_venue_protection STOP_LIMIT"
  "\<not> is_venue_protection POST_ONLY_LIMIT" "\<not> is_venue_protection MARKETABLE"
  "\<not> is_venue_protection KIND_ADOPTION"
  by (simp_all add: is_venue_protection_def VENUE_PROTECTION_KINDS_def)

datatype order_status = PENDING | OPEN | FILLED | CANCELED | REJECTED | UNKNOWN

datatype intent_purpose =
    ENTRY | TAKE_PROFIT | STOP | TIME_EXIT | BRACKET | SIGNAL_EXIT | ADOPTION | LIQUIDATION

definition INVENTORY_OPENING_PURPOSES :: "intent_purpose set" where
  "INVENTORY_OPENING_PURPOSES = {ENTRY, ADOPTION}"

datatype lifecycle_command = CMD_NONE | STOP_NEW_ENTRIES | FLATTEN | MANAGED_SHUTDOWN

section \<open>Records\<close>

record order_intent =
  i_id :: uuid
  i_deployment_id :: uuid
  i_client_order_id :: string
  i_purpose :: intent_purpose
  i_side :: order_side
  i_kind :: order_kind
  i_quantity :: decimal
  i_created_at :: datetime
  i_candle_starts_at :: datetime
  i_price :: "decimal option"
  i_stop_trigger_price :: "decimal option"
  i_take_profit_price :: "decimal option"
  i_status :: order_status
  i_origin :: intent_origin
  i_idempotency_key :: "string option"
  i_product_id :: string

record order =
  o_id :: uuid
  o_deployment_id :: uuid
  o_intent_id :: uuid
  o_client_order_id :: string
  o_side :: order_side
  o_kind :: order_kind
  o_quantity :: decimal
  o_status :: order_status
  o_created_at :: datetime
  o_updated_at :: datetime
  o_price :: "decimal option"
  o_filled_quantity :: decimal
  o_venue_order_id :: "string option"
  o_reject_reason :: "string option"
  o_stop_trigger_price :: "decimal option"
  o_take_profit_price :: "decimal option"
  o_product_id :: string
  o_parent_order_id :: "uuid option"
  o_attached_child_venue_order_id :: "string option"
  o_pyramid_add :: bool
  o_venue_observed_at :: "datetime option"
  o_canceled_at :: "datetime option"
  o_settled_at :: "datetime option"

text \<open>
  \<open>with_cancel_time\<close>: an order write keeps the stored row's first cancel time and settlement.
  \<open>a or b\<close> on optional datetimes takes \<open>b\<close> only when \<open>a\<close> is missing, since every
  datetime is truthy.
\<close>

definition opt_or :: "'a option \<Rightarrow> 'a option \<Rightarrow> 'a option" where
  "opt_or a b = (case a of None \<Rightarrow> b | Some _ \<Rightarrow> a)"

lemma opt_or_simps [simp]: "opt_or None b = b" "opt_or (Some x) b = Some x" "opt_or a None = a"
  by (simp_all add: opt_or_def split: option.splits)

definition with_cancel_time :: "order \<Rightarrow> order option \<Rightarrow> order" where
  "with_cancel_time ord previous =
     (let stored_cancel = (case previous of None \<Rightarrow> None | Some prev \<Rightarrow> o_canceled_at prev);
          canceled_at0 = opt_or stored_cancel (o_canceled_at ord);
          canceled_at = (if canceled_at0 = None \<and> o_status ord = CANCELED
                         then Some (o_updated_at ord) else canceled_at0);
          stored_settlement = (case previous of None \<Rightarrow> None | Some prev \<Rightarrow> o_settled_at prev);
          settled_at = opt_or stored_settlement (o_settled_at ord)
      in if canceled_at = o_canceled_at ord \<and> settled_at = o_settled_at ord then ord
         else ord\<lparr>o_canceled_at := canceled_at, o_settled_at := settled_at\<rparr>)"

record fill =
  f_id :: uuid
  f_deployment_id :: uuid
  f_order_id :: uuid
  f_venue_fill_id :: string
  f_price :: decimal
  f_quantity :: decimal
  f_fee :: decimal
  f_filled_at :: datetime
  f_venue_order_id :: "string option"
  f_economics_applied_at :: "datetime option"

record funding_cash_flow =
  c_deployment_id :: uuid
  c_product_id :: string
  c_funding_time :: datetime
  c_signed_quantity :: decimal
  c_mark_price :: decimal
  c_rate :: decimal
  c_amount :: decimal
  c_applied_at :: datetime

record position =
  p_deployment_id :: uuid
  p_quantity :: decimal
  p_entry_price :: decimal
  p_stop_price :: decimal
  p_target_price :: "decimal option"
  p_entered_bar :: datetime
  p_updated_at :: datetime
  p_trail_extreme :: "decimal option"
  p_side :: position_side
  p_product_id :: string
  p_add_count :: int
  p_signal_exit_bar :: "datetime option"

record midnight_mark =
  m_product_id :: string
  m_closes_at :: datetime
  m_price :: decimal

record daily_opening_evidence =
  e_source :: string
  e_day_start :: datetime
  e_equity :: decimal
  e_fills_fingerprint :: string
  e_marks :: "midnight_mark list"

record deployment =
  d_id :: uuid
  d_strategy_fingerprint :: "string option"
  d_strategy_id :: "uuid option"
  d_product_id :: string
  d_mode :: deployment_mode
  d_status :: deployment_status
  d_cash :: decimal
  d_phase :: runtime_phase
  d_created_at :: datetime
  d_updated_at :: datetime
  d_paper_starting_cash :: "decimal option"
  d_paper_maker_fee_rate :: "decimal option"
  d_paper_taker_fee_rate :: "decimal option"
  d_last_evaluated_bar :: "datetime option"
  d_last_signal :: "string option"
  d_mismatch_detail :: "string option"
  d_futures_derisk_pending :: bool
  d_futures_flat_confirmation_after :: "datetime option"
  d_pending_entry_bars :: int
  d_bars_held :: int
  d_cooldown_bars_remaining :: int
  d_pending_stop_price :: "decimal option"
  d_pending_target_price :: "decimal option"
  d_kind :: deployment_kind
  d_timeframe :: "string option"
  d_revision :: int
  d_worker_lease_holder :: "string option"
  d_worker_lease_expires_at :: "datetime option"
  d_lifecycle_command :: lifecycle_command
  d_allocated_capital :: "decimal option"
  d_venue_available_quote :: "decimal option"
  d_reserved_buying_power :: "decimal option"
  d_inventory_cost :: "decimal option"
  d_performance_equity :: "decimal option"
  d_performance_capital_quote :: "decimal option"
  d_performance_maximum_drawdown_fraction :: "decimal option"
  d_initial_equity :: "decimal option"
  d_baseline_equity :: "decimal option"
  d_utc_day_open_equity :: "decimal option"
  d_utc_day_open_at :: "datetime option"
  d_risk_day_open_evidence :: "daily_opening_evidence option"
  d_high_water_mark_equity :: "decimal option"
  d_daily_loss_latched :: bool
  d_drawdown_latched :: bool
  d_last_signal_event_at :: "datetime option"
  d_last_signal_processed_at :: "datetime option"
  d_strategy_name :: "string option"
  d_portfolio_id :: "uuid option"

definition strategy_deleted :: "deployment \<Rightarrow> bool" where
  "strategy_deleted d \<longleftrightarrow> d_kind d = STRATEGY \<and> d_strategy_id d = None"

record instrument_runtime =
  r_product_id :: string
  r_phase :: runtime_phase
  r_last_evaluated_bar :: "datetime option"
  r_last_signal :: "string option"
  r_pending_entry_bars :: int
  r_bars_held :: int
  r_cooldown_bars_remaining :: int
  r_pending_stop_price :: "decimal option"
  r_pending_target_price :: "decimal option"

text \<open>\<open>InstrumentRuntime(product_id=..., phase=...)\<close> with every other field at its default.\<close>

definition InstrumentRuntime :: "string \<Rightarrow> runtime_phase \<Rightarrow> instrument_runtime" where
  "InstrumentRuntime product_id phase =
     \<lparr>r_product_id = product_id, r_phase = phase, r_last_evaluated_bar = None, r_last_signal = None,
      r_pending_entry_bars = 0, r_bars_held = 0, r_cooldown_bars_remaining = 0,
      r_pending_stop_price = None, r_pending_target_price = None\<rparr>"

record deployment_book_totals =
  t_open_books :: int
  t_working_orders :: int
  t_fill_count :: int

record deployment_summary_snapshot =
  y_deployment :: deployment
  y_position :: "position option"
  y_positions :: "position list"
  y_instrument_runtimes :: "instrument_runtime list"
  y_book_totals :: deployment_book_totals
  y_open_orders :: "order list"

record deployment_snapshot =
  s_deployment :: deployment
  s_position :: "position option"
  s_orders :: "order list"
  s_fills :: "fill list"
  s_intents :: "order_intent list"
  s_positions :: "position list"
  s_instrument_runtimes :: "instrument_runtime list"
  s_accounting_complete :: bool
  s_funding :: "funding_cash_flow list"

definition summary_as_snapshot :: "deployment_summary_snapshot \<Rightarrow> deployment_snapshot" where
  "summary_as_snapshot summary =
     \<lparr>s_deployment = y_deployment summary, s_position = y_position summary,
      s_orders = y_open_orders summary, s_fills = [], s_intents = [],
      s_positions = y_positions summary, s_instrument_runtimes = y_instrument_runtimes summary,
      s_accounting_complete = False, s_funding = []\<rparr>"

section \<open>Runtime updates\<close>

text \<open>
  The keyword arguments of \<open>with_runtime\<close>; \<open>no_update\<close> holds their defaults, so a call
  \<open>with_runtime(d, updated_at=now, cash=c)\<close> is
  \<open>with_runtime d now (no_update\<lparr>u_cash := Some c\<rparr>)\<close>.
\<close>

record runtime_update =
  u_cash :: "decimal option"
  u_phase :: "runtime_phase option"
  u_last_evaluated_bar :: "datetime option"
  u_last_signal :: "string option"
  u_mismatch_detail :: "string option"
  u_clear_mismatch :: bool
  u_pending_entry_bars :: "int option"
  u_bars_held :: "int option"
  u_cooldown_bars_remaining :: "int option"
  u_pending_stop_price :: "decimal option"
  u_pending_target_price :: "decimal option"
  u_clear_pending_levels :: bool
  u_status :: "deployment_status option"
  u_lifecycle_command :: "lifecycle_command option"
  u_daily_loss_latched :: "bool option"
  u_drawdown_latched :: "bool option"
  u_last_signal_event_at :: "datetime option"
  u_last_signal_processed_at :: "datetime option"

definition no_update :: runtime_update where
  "no_update =
     \<lparr>u_cash = None, u_phase = None, u_last_evaluated_bar = None, u_last_signal = None,
      u_mismatch_detail = None, u_clear_mismatch = False, u_pending_entry_bars = None,
      u_bars_held = None, u_cooldown_bars_remaining = None, u_pending_stop_price = None,
      u_pending_target_price = None, u_clear_pending_levels = False, u_status = None,
      u_lifecycle_command = None, u_daily_loss_latched = None, u_drawdown_latched = None,
      u_last_signal_event_at = None, u_last_signal_processed_at = None\<rparr>"

definition with_runtime :: "deployment \<Rightarrow> datetime \<Rightarrow> runtime_update \<Rightarrow> deployment" where
  "with_runtime d updated_at u =
     (let stop_price = (if u_clear_pending_levels u then None
                        else opt_or (u_pending_stop_price u) (d_pending_stop_price d));
          target_price = (if u_clear_pending_levels u then None
                          else opt_or (u_pending_target_price u) (d_pending_target_price d));
          detail = (if u_clear_mismatch u then None
                    else opt_or (u_mismatch_detail u) (d_mismatch_detail d))
      in d\<lparr>d_cash := or_else (u_cash u) (d_cash d),
           d_phase := or_else (u_phase u) (d_phase d),
           d_last_evaluated_bar := opt_or (u_last_evaluated_bar u) (d_last_evaluated_bar d),
           d_last_signal := opt_or (u_last_signal u) (d_last_signal d),
           d_mismatch_detail := detail,
           d_pending_entry_bars := or_else (u_pending_entry_bars u) (d_pending_entry_bars d),
           d_bars_held := or_else (u_bars_held u) (d_bars_held d),
           d_cooldown_bars_remaining :=
             or_else (u_cooldown_bars_remaining u) (d_cooldown_bars_remaining d),
           d_pending_stop_price := stop_price,
           d_pending_target_price := target_price,
           d_status := or_else (u_status u) (d_status d),
           d_lifecycle_command := or_else (u_lifecycle_command u) (d_lifecycle_command d),
           d_daily_loss_latched := or_else (u_daily_loss_latched u) (d_daily_loss_latched d),
           d_drawdown_latched := or_else (u_drawdown_latched u) (d_drawdown_latched d),
           d_last_signal_event_at := opt_or (u_last_signal_event_at u) (d_last_signal_event_at d),
           d_last_signal_processed_at :=
             opt_or (u_last_signal_processed_at u) (d_last_signal_processed_at d),
           d_updated_at := updated_at\<rparr>)"

lemmas runtime_defs [model_defs] = with_runtime_def no_update_def

section \<open>Product resolution and per-product runtimes\<close>

definition snapshot_positions :: "deployment_snapshot \<Rightarrow> position list" where
  "snapshot_positions s =
     (if s_positions s \<noteq> [] then s_positions s
      else case s_position s of Some pos \<Rightarrow> [pos] | None \<Rightarrow> [])"

definition resolved_product_id :: "string \<Rightarrow> deployment \<Rightarrow> string" where
  "resolved_product_id product_id d = (if product_id \<noteq> [] then product_id else d_product_id d)"

definition runtime_from_deployment :: "deployment \<Rightarrow> string \<Rightarrow> instrument_runtime" where
  "runtime_from_deployment d product_id =
     \<lparr>r_product_id = product_id, r_phase = d_phase d,
      r_last_evaluated_bar = d_last_evaluated_bar d, r_last_signal = d_last_signal d,
      r_pending_entry_bars = d_pending_entry_bars d, r_bars_held = d_bars_held d,
      r_cooldown_bars_remaining = d_cooldown_bars_remaining d,
      r_pending_stop_price = d_pending_stop_price d,
      r_pending_target_price = d_pending_target_price d\<rparr>"

definition mirrors_primary_runtime :: "deployment \<Rightarrow> instrument_runtime list \<Rightarrow> bool" where
  "mirrors_primary_runtime d runtimes \<longleftrightarrow> (\<forall>item \<in> set runtimes. r_product_id item = d_product_id d)"

definition aggregate_phase :: "instrument_runtime list \<Rightarrow> runtime_phase" where
  "aggregate_phase runtimes =
     (let phases = r_phase ` set runtimes
      in if PHASE_OPEN \<in> phases then PHASE_OPEN
         else if PENDING_EXIT \<in> phases then PENDING_EXIT
         else if PENDING_ENTRY \<in> phases then PENDING_ENTRY
         else FLAT)"

text \<open>A Python set of product ids is a list here; it is read through \<open>set\<close>, membership and
  \<open>sorted\<close> only.\<close>

definition known_product_ids :: "deployment_snapshot \<Rightarrow> string list" where
  "known_product_ids s =
     [d_product_id (s_deployment s)]
     @ filter (\<lambda>p. p \<noteq> []) (map r_product_id (s_instrument_runtimes s))
     @ map (\<lambda>item. resolved_product_id (p_product_id item) (s_deployment s)) (snapshot_positions s)
     @ map (\<lambda>item. resolved_product_id (o_product_id item) (s_deployment s)) (s_orders s)"

definition synthesized_phase :: "deployment_snapshot \<Rightarrow> string \<Rightarrow> runtime_phase" where
  "synthesized_phase s product_id =
     (if \<exists>pos \<in> set (snapshot_positions s).
           resolved_product_id (p_product_id pos) (s_deployment s) = product_id
      then PHASE_OPEN else FLAT)"

definition runtime_row ::
    "deployment_snapshot \<Rightarrow> (string \<rightharpoonup> instrument_runtime) \<Rightarrow> string \<Rightarrow> instrument_runtime" where
  "runtime_row s stored product_id =
     (case stored product_id of
        Some existing \<Rightarrow> existing
      | None \<Rightarrow>
          if product_id = d_product_id (s_deployment s) \<and> s_instrument_runtimes s = []
             \<and> set (known_product_ids s) \<subseteq> {d_product_id (s_deployment s)}
          then runtime_from_deployment (s_deployment s) product_id
          else InstrumentRuntime product_id (synthesized_phase s product_id))"

definition sorted_set :: "'a::linorder list \<Rightarrow> 'a list" where
  "sorted_set xs = sort (remdups xs)"

definition visible_instrument_runtimes ::
    "deployment_snapshot \<Rightarrow> string list \<Rightarrow> instrument_runtime list" where
  "visible_instrument_runtimes s extra_product_ids =
     (let stored = dict_by r_product_id
                     (filter (\<lambda>item. r_product_id item \<noteq> []) (s_instrument_runtimes s));
          products = known_product_ids s @ filter (\<lambda>item. item \<noteq> []) extra_product_ids
      in map (runtime_row s stored) (sorted_set products))"

section \<open>A concrete book\<close>

text \<open>A running paper book on \<open>BTC-USD\<close>, the input of the worked instances of later theories.\<close>

definition ex_deployment :: deployment where
  "ex_deployment =
     \<lparr>d_id = 1, d_strategy_fingerprint = None, d_strategy_id = Some 9, d_product_id = ''BTC-USD'',
      d_mode = PAPER, d_status = RUNNING, d_cash = 10000, d_phase = FLAT, d_created_at = 0,
      d_updated_at = 0, d_paper_starting_cash = Some 10000, d_paper_maker_fee_rate = Some (1 / 1000),
      d_paper_taker_fee_rate = Some (1 / 500), d_last_evaluated_bar = None, d_last_signal = None,
      d_mismatch_detail = None, d_futures_derisk_pending = False,
      d_futures_flat_confirmation_after = None, d_pending_entry_bars = 0, d_bars_held = 0,
      d_cooldown_bars_remaining = 0, d_pending_stop_price = None, d_pending_target_price = None,
      d_kind = STRATEGY, d_timeframe = Some ''1h'', d_revision = 1, d_worker_lease_holder = None,
      d_worker_lease_expires_at = None, d_lifecycle_command = CMD_NONE, d_allocated_capital = None,
      d_venue_available_quote = None, d_reserved_buying_power = None, d_inventory_cost = None,
      d_performance_equity = None, d_performance_capital_quote = None,
      d_performance_maximum_drawdown_fraction = None, d_initial_equity = Some 10000,
      d_baseline_equity = None, d_utc_day_open_equity = None, d_utc_day_open_at = None,
      d_risk_day_open_evidence = None, d_high_water_mark_equity = Some 10500,
      d_daily_loss_latched = False, d_drawdown_latched = False, d_last_signal_event_at = None,
      d_last_signal_processed_at = None, d_strategy_name = None, d_portfolio_id = None\<rparr>"

definition ex_snapshot :: deployment_snapshot where
  "ex_snapshot =
     \<lparr>s_deployment = ex_deployment, s_position = None, s_orders = [], s_fills = [], s_intents = [],
      s_positions = [], s_instrument_runtimes = [], s_accounting_complete = True, s_funding = []\<rparr>"

section \<open>Properties\<close>

text \<open>The first cancel time and the settlement of an order are never lost: a write keeps the
  stored row's values, falls back to the incoming ones, and stamps a cancel time on an order that
  becomes canceled without one; writing the same row again changes nothing, and no other field of
  the order is touched.\<close>

theorem with_cancel_time_keeps_first:
  "(\<exists>c t. with_cancel_time ord previous = ord\<lparr>o_canceled_at := c, o_settled_at := t\<rparr>)
   \<and> (\<forall>prev x. previous = Some prev \<and> o_canceled_at prev = Some x
        \<longrightarrow> o_canceled_at (with_cancel_time ord previous) = Some x)
   \<and> (\<forall>prev x. previous = Some prev \<and> o_settled_at prev = Some x
        \<longrightarrow> o_settled_at (with_cancel_time ord previous) = Some x)
   \<and> (o_status ord = CANCELED \<longrightarrow> o_canceled_at (with_cancel_time ord previous) \<noteq> None)
   \<and> with_cancel_time (with_cancel_time ord previous) (Some (with_cancel_time ord previous))
       = with_cancel_time ord previous"
proof (intro conjI)
  show "\<exists>c t. with_cancel_time ord previous = ord\<lparr>o_canceled_at := c, o_settled_at := t\<rparr>"
    by (intro exI [of _ "o_canceled_at (with_cancel_time ord previous)"]
        exI [of _ "o_settled_at (with_cancel_time ord previous)"]) (simp add: with_cancel_time_def Let_def)
qed (cases "o_canceled_at ord"; auto simp: with_cancel_time_def Let_def opt_or_def split: option.splits)+

definition ex_order :: order where
  "ex_order =
     \<lparr>o_id = 11, o_deployment_id = 1, o_intent_id = 21, o_client_order_id = ''c-1'', o_side = BUY,
      o_kind = POST_ONLY_LIMIT, o_quantity = 1, o_status = OPEN, o_created_at = 10, o_updated_at = 20,
      o_price = Some 100, o_filled_quantity = 0, o_venue_order_id = None, o_reject_reason = None,
      o_stop_trigger_price = None, o_take_profit_price = None, o_product_id = ''BTC-USD'',
      o_parent_order_id = None, o_attached_child_venue_order_id = None, o_pyramid_add = False,
      o_venue_observed_at = None, o_canceled_at = None, o_settled_at = None\<rparr>"

theorem with_cancel_time_keeps_first_witness:
  "o_canceled_at (with_cancel_time (ex_order\<lparr>o_canceled_at := Some 99\<rparr>)
      (Some (ex_order\<lparr>o_canceled_at := Some 15\<rparr>))) = Some 15"
  using with_cancel_time_keeps_first [of "ex_order\<lparr>o_canceled_at := Some 99\<rparr>"
      "Some (ex_order\<lparr>o_canceled_at := Some 15\<rparr>)"]
  by simp

lemma set_sorted_set [simp]: "set (sorted_set xs) = set xs"
  by (simp add: sorted_set_def)

lemma runtime_row_product:
  "runtime_row s (dict_by r_product_id xs) product_id = row \<Longrightarrow> r_product_id row = product_id"
  by (auto simp: runtime_row_def runtime_from_deployment_def InstrumentRuntime_def
      dest!: dict_by_SomeD split: option.splits if_splits)

text \<open>The runtime rows shown for a book are complete and unambiguous: exactly one row per product,
  in ascending product order, for every product the book knows (its primary product and those of
  its positions, orders and stored rows) and every non-empty requested one; where rows are stored
  under distinct non-empty ids, each stored row is among those shown.\<close>

theorem visible_runtimes_cover:
  "map r_product_id (visible_instrument_runtimes s extra)
     = sorted_list_of_set (set (known_product_ids s) \<union> (set extra - {[]}))
   \<and> (distinct (map r_product_id (s_instrument_runtimes s)) \<longrightarrow>
        (\<forall>row \<in> set (s_instrument_runtimes s). r_product_id row \<noteq> [] \<longrightarrow>
           row \<in> set (visible_instrument_runtimes s extra)))"
proof -
  let ?stored = "filter (\<lambda>item. r_product_id item \<noteq> []) (s_instrument_runtimes s)"
  let ?rows = "runtime_row s (dict_by r_product_id ?stored)"
  let ?products = "known_product_ids s @ filter (\<lambda>item. item \<noteq> []) extra"
  have shown: "visible_instrument_runtimes s extra = map ?rows (sorted_set ?products)"
    by (simp add: visible_instrument_runtimes_def Let_def)
  have ids: "map r_product_id (map ?rows ps) = ps" for ps
    by (induction ps) (auto intro: runtime_row_product [OF refl])
  have prods: "set ?products = set (known_product_ids s) \<union> (set extra - {[]})" by auto
  have "sorted_set ?products = sorted_list_of_set (set ?products)"
    unfolding sorted_set_def by (rule sorted_list_of_set_sort_remdups [symmetric])
  then have first: "map r_product_id (visible_instrument_runtimes s extra)
      = sorted_list_of_set (set (known_product_ids s) \<union> (set extra - {[]}))"
    unfolding shown ids prods [symmetric] .
  have "row \<in> set (visible_instrument_runtimes s extra)"
    if d: "distinct (map r_product_id (s_instrument_runtimes s))"
      and row: "row \<in> set (s_instrument_runtimes s)" "r_product_id row \<noteq> []" for row
  proof -
    have "distinct (map r_product_id ?stored)" using d by (rule distinct_map_filter)
    then have "?rows (r_product_id row) = row"
      using dict_by_distinct [of r_product_id ?stored row] row by (simp add: runtime_row_def)
    moreover have "r_product_id row \<in> set (sorted_set ?products)"
      using row by (auto simp: known_product_ids_def)
    ultimately show ?thesis unfolding shown by (metis image_eqI set_map)
  qed
  with first show ?thesis by blast
qed

theorem visible_runtimes_cover_witness:
  "InstrumentRuntime ''ETH-USD'' PENDING_ENTRY
     \<in> set (visible_instrument_runtimes
          (ex_snapshot\<lparr>s_instrument_runtimes := [InstrumentRuntime ''ETH-USD'' PENDING_ENTRY]\<rparr>) [''SOL-USD''])"
  using visible_runtimes_cover
    [of "ex_snapshot\<lparr>s_instrument_runtimes := [InstrumentRuntime ''ETH-USD'' PENDING_ENTRY]\<rparr>" "[''SOL-USD'']"]
  by (simp add: InstrumentRuntime_def)

end
