(* ===== verification/Market.thy ===== *)
theory Market
  imports Trading_Models
begin

text \<open>
  Market-data vocabulary the trading core reads: closed-candle intervals and their UTC bar
  boundaries (\<open>market_data/models.py\<close>), candles and venue products, and the spot and futures
  product identifiers (\<open>market_data/products.py\<close>, \<open>market_data/instrument_ids.py\<close>).
\<close>

section \<open>UTC calendar fields of an instant\<close>

definition SECOND :: timedelta where "SECOND = 1000000"
definition MINUTE :: timedelta where "MINUTE = 60 * SECOND"
definition HOUR :: timedelta where "HOUR = 60 * MINUTE"
definition DAY :: timedelta where "DAY = 24 * HOUR"

lemmas time_units = SECOND_def MINUTE_def HOUR_def DAY_def

definition dt_minute :: "datetime \<Rightarrow> int" where "dt_minute t = t div MINUTE mod 60"
definition dt_hour :: "datetime \<Rightarrow> int" where "dt_hour t = t div HOUR mod 24"

definition truncate_to_minute :: "datetime \<Rightarrow> datetime" where
  "truncate_to_minute t = t - t mod MINUTE"

definition replace_minute :: "datetime \<Rightarrow> int \<Rightarrow> datetime" where
  "replace_minute t m = t + (m - dt_minute t) * MINUTE"

definition replace_hour :: "datetime \<Rightarrow> int \<Rightarrow> datetime" where
  "replace_hour t h = t + (h - dt_hour t) * HOUR"

section \<open>Candle intervals\<close>

datatype candle_interval =
    ONE_HOUR | FIVE_MINUTES | FIFTEEN_MINUTES | THIRTY_MINUTES | SIX_HOURS | ONE_DAY
  | ONE_MINUTE | TWO_HOURS | FOUR_HOURS

fun interval_value :: "candle_interval \<Rightarrow> string" where
  "interval_value ONE_HOUR = ''1h''"
| "interval_value FIVE_MINUTES = ''5m''"
| "interval_value FIFTEEN_MINUTES = ''15m''"
| "interval_value THIRTY_MINUTES = ''30m''"
| "interval_value SIX_HOURS = ''6h''"
| "interval_value ONE_DAY = ''1d''"
| "interval_value ONE_MINUTE = ''1m''"
| "interval_value TWO_HOURS = ''2h''"
| "interval_value FOUR_HOURS = ''4h''"

definition candle_intervals :: "candle_interval list" where
  "candle_intervals =
     [ONE_HOUR, FIVE_MINUTES, FIFTEEN_MINUTES, THIRTY_MINUTES, SIX_HOURS, ONE_DAY, ONE_MINUTE,
      TWO_HOURS, FOUR_HOURS]"

fun interval_duration :: "candle_interval \<Rightarrow> timedelta" where
  "interval_duration ONE_MINUTE = MINUTE"
| "interval_duration FIVE_MINUTES = 5 * MINUTE"
| "interval_duration FIFTEEN_MINUTES = 15 * MINUTE"
| "interval_duration THIRTY_MINUTES = 30 * MINUTE"
| "interval_duration ONE_HOUR = HOUR"
| "interval_duration TWO_HOURS = 2 * HOUR"
| "interval_duration FOUR_HOURS = 4 * HOUR"
| "interval_duration SIX_HOURS = 6 * HOUR"
| "interval_duration ONE_DAY = DAY"

definition align_closed_end :: "candle_interval \<Rightarrow> datetime \<Rightarrow> datetime result" where
  "align_closed_end interval now =
     (let instant = truncate_to_minute now;
          minutes = interval_duration interval div SECOND div 60
      in if minutes < 1 then Inl (ValueError (''Unsupported candle interval: '' @ interval_value interval @ ''.''))
         else if minutes < 60 then
           Inr (replace_minute instant (dt_minute instant div minutes * minutes))
         else
           let hours = minutes div 60
           in if hours < 24 then
                Inr (replace_minute (replace_hour instant (dt_hour instant div hours * hours)) 0)
              else if hours = 24 then Inr (replace_minute (replace_hour instant 0) 0)
              else Inl (ValueError (''Unsupported candle interval: '' @ interval_value interval @ ''.'')))"

definition EXECUTION_TIMEFRAMES :: "string list" where
  "EXECUTION_TIMEFRAMES =
     [''1m'', ''5m'', ''15m'', ''30m'', ''1h'', ''2h'', ''4h'', ''6h'', ''1d'']"

definition execution_supported :: "candle_interval \<Rightarrow> bool" where
  "execution_supported interval \<longleftrightarrow> interval_value interval \<in> set EXECUTION_TIMEFRAMES"

definition requires_live_user_feed :: "candle_interval \<Rightarrow> bool" where
  "requires_live_user_feed interval \<longleftrightarrow> interval_duration interval < HOUR"

definition parse_candle_interval :: "string \<Rightarrow> candle_interval result" where
  "parse_candle_interval value =
     (case List.find (\<lambda>i. interval_value i = value) candle_intervals of
        Some i \<Rightarrow> Inr i
      | None \<Rightarrow> Inl (ValueError (''Unsupported candle interval: '' @ value @ ''.'')))"

definition published_execution_timeframe :: "string \<Rightarrow> string" where
  "published_execution_timeframe timeframe =
     (if timeframe \<in> set EXECUTION_TIMEFRAMES then timeframe else ''1h'')"

section \<open>Candles and products\<close>

record candle =
  k_starts_at :: datetime
  k_open :: decimal
  k_high :: decimal
  k_low :: decimal
  k_close :: decimal
  k_volume :: decimal

record market_product =
  mp_product_id :: string
  mp_base_currency :: string
  mp_quote_currency :: string
  mp_price_increment :: decimal
  mp_base_increment :: decimal
  mp_quote_increment :: decimal
  mp_base_min_size :: decimal
  mp_quote_min_size :: decimal
  mp_trading_enabled :: bool
  mp_status :: "string option"
  mp_alias :: "string option"

section \<open>Product identifiers\<close>

text \<open>ASCII text: \<open>strip\<close> removes the ASCII whitespace \<open>str.strip\<close> removes, \<open>upper\<close> maps
  \<open>a\<close>--\<open>z\<close>.\<close>

definition py_space :: "char \<Rightarrow> bool" where
  "py_space c \<longleftrightarrow> of_char c \<in> {9, 10, 11, 12, 13, 28, 29, 30, 31, 32 :: nat}"

definition py_strip :: "string \<Rightarrow> string" where
  "py_strip s = rev (dropWhile py_space (rev (dropWhile py_space s)))"

definition py_upper_char :: "char \<Rightarrow> char" where
  "py_upper_char c = (if 97 \<le> (of_char c :: nat) \<and> (of_char c :: nat) \<le> 122
                      then char_of ((of_char c :: nat) - 32) else c)"

definition py_upper :: "string \<Rightarrow> string" where
  "py_upper s = map py_upper_char s"

definition is_upper :: "char \<Rightarrow> bool" where
  "is_upper c \<longleftrightarrow> 65 \<le> (of_char c :: nat) \<and> (of_char c :: nat) \<le> 90"

definition is_digit :: "char \<Rightarrow> bool" where
  "is_digit c \<longleftrightarrow> 48 \<le> (of_char c :: nat) \<and> (of_char c :: nat) \<le> 57"

definition is_code_char :: "char \<Rightarrow> bool" where
  "is_code_char c \<longleftrightarrow> is_upper c \<or> is_digit c"

definition before_dash :: "string \<Rightarrow> string" where
  "before_dash s = takeWhile (\<lambda>c. c \<noteq> CHR ''-'') s"

definition from_dash :: "string \<Rightarrow> string" where
  "from_dash s = dropWhile (\<lambda>c. c \<noteq> CHR ''-'') s"

text \<open>\<open>^[A-Z0-9]{2,20}-(?:USD|USDC|USDT)$\<close>: the base holds no dash, so the first dash splits.\<close>

definition spot_pattern :: "string \<Rightarrow> bool" where
  "spot_pattern s \<longleftrightarrow>
     (let base = before_dash s
      in 2 \<le> length base \<and> length base \<le> 20 \<and> list_all is_code_char base
         \<and> from_dash s \<in> {''-USD'', ''-USDC'', ''-USDT''})"

text \<open>\<open>^[A-Z0-9]{2,6}-\d{2}[A-Z]{3}\d{2}-CDE$\<close>.\<close>

definition expiry_token :: "string \<Rightarrow> bool" where
  "expiry_token t \<longleftrightarrow>
     length t = 7 \<and> list_all is_digit (take 2 t) \<and> list_all is_upper (take 3 (drop 2 t))
     \<and> list_all is_digit (drop 5 t)"

definition futures_pattern :: "string \<Rightarrow> bool" where
  "futures_pattern s \<longleftrightarrow>
     (let code = before_dash s; rest = drop 1 (from_dash s)
      in 2 \<le> length code \<and> length code \<le> 6 \<and> list_all is_code_char code
         \<and> from_dash s \<noteq> [] \<and> expiry_token (before_dash rest) \<and> from_dash rest = ''-CDE'')"

definition normalize_spot_product_id :: "string \<Rightarrow> string result" where
  "normalize_spot_product_id product_id =
     (let normalized = py_upper (py_strip product_id)
      in if \<not> spot_pattern normalized
         then Inl (ValueError ''product_id must be a BASE-USD, BASE-USDC, or BASE-USDT spot identifier.'')
         else Inr normalized)"

definition parse_spot_product_id :: "string \<Rightarrow> (string \<times> string) result" where
  "parse_spot_product_id product_id =
     rbind (normalize_spot_product_id product_id)
       (\<lambda>normalized. Inr (before_dash normalized, drop 1 (from_dash normalized)))"

definition spot_base_currency :: "string \<Rightarrow> string result" where
  "spot_base_currency product_id = rbind (parse_spot_product_id product_id) (\<lambda>(base, _). Inr base)"

definition spot_quote_currency :: "string \<Rightarrow> string result" where
  "spot_quote_currency product_id = rbind (parse_spot_product_id product_id) (\<lambda>(_, quote). Inr quote)"

definition is_spot_product_id :: "string \<Rightarrow> bool" where
  "is_spot_product_id product_id \<longleftrightarrow> spot_pattern (py_upper (py_strip product_id))"

definition is_futures_product_id :: "string \<Rightarrow> bool" where
  "is_futures_product_id product_id \<longleftrightarrow> futures_pattern (py_upper (py_strip product_id))"

definition normalize_futures_product_id :: "string \<Rightarrow> string result" where
  "normalize_futures_product_id product_id =
     (let normalized = py_upper (py_strip product_id)
      in if \<not> futures_pattern normalized
         then Inl (ValueError ''product_id must be a CODE-DDMONYY-CDE futures identifier.'')
         else Inr normalized)"

definition futures_contract_code :: "string \<Rightarrow> string result" where
  "futures_contract_code product_id =
     rbind (normalize_futures_product_id product_id) (\<lambda>normalized. Inr (before_dash normalized))"

section \<open>Whole hours\<close>

text \<open>The instants \<open>cursor, cursor + 1h, ...\<close> up to and including \<open>ends_at\<close>.\<close>

function hours_until :: "datetime \<Rightarrow> datetime \<Rightarrow> datetime list" where
  "hours_until cursor ends_at = (if cursor \<le> ends_at then cursor # hours_until (cursor + HOUR) ends_at else [])"
  by auto
termination by (relation "measure (\<lambda>(cursor, ends_at). nat (ends_at + 1 - cursor))") (auto simp: HOUR_def MINUTE_def SECOND_def)

declare hours_until.simps [simp del]

lemma set_hours_until: "set (hours_until cursor ends_at) = {t. cursor \<le> t \<and> t \<le> ends_at \<and> HOUR dvd t - cursor}"
proof (induction cursor ends_at rule: hours_until.induct)
  case (1 cursor ends_at)
  show ?case
  proof (cases "cursor \<le> ends_at")
    case True
    have H: "0 < HOUR" by (simp add: time_units)
    have "t = cursor \<or> (cursor + HOUR \<le> t \<and> HOUR dvd t - (cursor + HOUR))"
      if "cursor \<le> t" "HOUR dvd t - cursor" for t
    proof (cases "t = cursor")
      case False
      with that have "HOUR \<le> t - cursor" by (intro zdvd_imp_le) auto
      moreover have "HOUR dvd t - cursor - HOUR" using that(2) by simp
      ultimately show ?thesis by (simp add: algebra_simps)
    qed simp
    moreover have "HOUR dvd t - cursor" if "HOUR dvd t - (cursor + HOUR)" for t
      using dvd_add [OF that, of HOUR] by (simp add: algebra_simps)
    ultimately show ?thesis using "1.IH" [OF True] True H by (subst hours_until.simps) force
  qed (subst hours_until.simps, auto)
qed

lemma sorted_hours_until: "sorted_wrt (<) (hours_until cursor ends_at)"
proof (induction cursor ends_at rule: hours_until.induct)
  case (1 cursor ends_at)
  have "0 < HOUR" by (simp add: time_units)
  with 1 show ?case by (subst hours_until.simps) (auto simp: set_hours_until)
qed

section \<open>Bar alignment\<close>

lemma interval_duration_pos: "0 < interval_duration i"
  by (cases i) (simp_all add: time_units)

lemma interval_value_inj: "interval_value i = interval_value j \<Longrightarrow> i = j"
  by (cases i; cases j) simp_all

lemma interval_duration_divides_day: "interval_duration i dvd DAY"
proof (cases i)
  case FOUR_HOURS
  then show ?thesis by (simp add: time_units)
qed (simp_all add: time_units)

text \<open>
  Replacing calendar fields of a whole minute rounds it down to a multiple of the interval: a
  field of period \<open>N\<close> units loses its remainder modulo \<open>m\<close>, and \<open>m\<close> divides \<open>N\<close>.
\<close>

lemma floor_field:
  fixes t U m N :: int
  assumes "0 \<le> m" "m dvd N"
  shows "t - t mod U + (t div U mod N div m * m - t div U mod N) * U = t - t mod (U * m)"
proof -
  have "t div U mod N div m * m - t div U mod N = - (t div U mod N mod m)"
    using div_mult_mod_eq [of "t div U mod N" m] by linarith
  also have "t div U mod N mod m = t div U mod m" using assms(2) by (rule mod_mod_cancel)
  finally show ?thesis using assms(1) by (simp add: zmod_zmult2_eq)
qed

lemma truncate_div [simp]: "(t - t mod U) div U = t div U" for t U :: int
  by (simp add: minus_mod_eq_div_mult)

lemma replace_minute_floor:
  assumes "0 \<le> m" "m dvd 60"
  shows "replace_minute (truncate_to_minute t) (dt_minute (truncate_to_minute t) div m * m)
         = t - t mod (MINUTE * m)"
  unfolding replace_minute_def truncate_to_minute_def dt_minute_def
  using floor_field [OF assms] by simp

lemma replace_hour_floor:
  assumes "0 \<le> h" "h dvd 24"
  shows "replace_minute (replace_hour (truncate_to_minute t) (dt_hour (truncate_to_minute t) div h * h)) 0
         = t - t mod (HOUR * h)"
proof -
  let ?i = "truncate_to_minute t"
  let ?k = "dt_hour ?i div h * h - dt_hour ?i"
  have H: "HOUR = MINUTE * 60" by (simp add: HOUR_def)
  have M: "MINUTE \<noteq> 0" by (simp add: time_units)
  have hour: "dt_hour ?i = t div HOUR mod 24"
    unfolding dt_hour_def truncate_to_minute_def H by (simp add: zdiv_zmult2_eq)
  have m60: "(?i + k * HOUR) div MINUTE mod 60 = t div MINUTE mod 60" for k
  proof -
    have "?i + k * HOUR = ?i + (60 * k) * MINUTE" by (simp add: H)
    then have "(?i + k * HOUR) div MINUTE = 60 * k + ?i div MINUTE"
      using M by (simp only: div_mult_self1 not_False_eq_True)
    then show ?thesis by (simp add: truncate_to_minute_def)
  qed
  have "dt_minute (replace_hour ?i (dt_hour ?i div h * h)) = t div MINUTE mod 60"
    unfolding dt_minute_def replace_hour_def by (rule m60)
  then have "replace_minute (replace_hour ?i (dt_hour ?i div h * h)) 0
      = t - t mod MINUTE - t div MINUTE mod 60 * MINUTE + ?k * HOUR"
    by (simp add: replace_minute_def replace_hour_def truncate_to_minute_def)
  also have "t - t mod MINUTE - t div MINUTE mod 60 * MINUTE = t - t mod HOUR"
    using floor_field [of 60 60 t MINUTE] by (simp add: H)
  finally show ?thesis unfolding hour using floor_field [OF assms, of t HOUR] by simp
qed

lemma whole_minutes: "MINUTE * m div SECOND div 60 = m"
  by (simp add: MINUTE_def SECOND_def)

lemma whole_hours: "HOUR * h div SECOND div 60 = 60 * h"
  by (simp add: HOUR_def MINUTE_def SECOND_def)

lemma align_minutes:
  assumes "interval_duration i = MINUTE * m" "1 \<le> m" "m < 60" "m dvd 60"
  shows "align_closed_end i now = Inr (now - now mod interval_duration i)"
  using replace_minute_floor [of m now] assms by (simp add: align_closed_end_def Let_def whole_minutes)

lemma align_hours:
  assumes "interval_duration i = HOUR * h" "1 \<le> h" "h \<le> 24" "h dvd 24"
  shows "align_closed_end i now = Inr (now - now mod interval_duration i)"
proof (cases "h = 24")
  case True
  have "dt_hour (truncate_to_minute now) div 24 * 24 = 0" by (simp add: dt_hour_def)
  with True replace_hour_floor [of 24 now] assms(1) show ?thesis
    by (simp add: align_closed_end_def Let_def whole_hours)
next
  case False
  with replace_hour_floor [of h now] assms show ?thesis
    by (simp add: align_closed_end_def Let_def whole_hours)
qed

lemma align_closed_end_eq:
  "align_closed_end interval now = Inr (now - now mod interval_duration interval)"
proof (cases interval)
  case ONE_MINUTE show ?thesis by (rule align_minutes [of _ 1]) (simp_all add: ONE_MINUTE)
next
  case FIVE_MINUTES show ?thesis by (rule align_minutes [of _ 5]) (simp_all add: FIVE_MINUTES)
next
  case FIFTEEN_MINUTES show ?thesis by (rule align_minutes [of _ 15]) (simp_all add: FIFTEEN_MINUTES)
next
  case THIRTY_MINUTES show ?thesis by (rule align_minutes [of _ 30]) (simp_all add: THIRTY_MINUTES)
next
  case ONE_HOUR show ?thesis by (rule align_hours [of _ 1]) (simp_all add: ONE_HOUR)
next
  case TWO_HOURS show ?thesis by (rule align_hours [of _ 2]) (simp_all add: TWO_HOURS)
next
  case FOUR_HOURS show ?thesis by (rule align_hours [of _ 4]) (simp_all add: FOUR_HOURS)
next
  case SIX_HOURS show ?thesis by (rule align_hours [of _ 6]) (simp_all add: SIX_HOURS)
next
  case ONE_DAY show ?thesis by (rule align_hours [of _ 24]) (simp_all add: ONE_DAY DAY_def)
qed

lemma parse_candle_interval_value [simp]: "parse_candle_interval (interval_value i) = Inr i"
  by (cases i) (simp_all add: parse_candle_interval_def candle_intervals_def)

lemma parse_candle_interval_InrD: "parse_candle_interval s = Inr i \<Longrightarrow> interval_value i = s"
  by (auto simp: parse_candle_interval_def find_Some_iff split: option.splits)

text \<open>The field-by-field bar alignment is the floor to the interval: for every instant and every
  interval, \<open>align_closed_end\<close> returns the one multiple of the duration (since the epoch) that
  is not after the instant and less than one duration before it.\<close>

theorem align_closed_end_is_floor:
  "\<exists>b. align_closed_end interval now = Inr b \<and> b \<le> now \<and> now < b + interval_duration interval
     \<and> interval_duration interval dvd b"
proof -
  let ?d = "interval_duration interval"
  have "?d dvd now - now mod ?d" by (rule dvd_minus_mod)
  with interval_duration_pos [of interval] show ?thesis
    by (simp add: align_closed_end_eq pos_mod_sign pos_mod_bound less_diff_eq [symmetric])
qed

end
