(* ===== verification/Strategy_Policy.thy ===== *)
theory Strategy_Policy
  imports Market
begin

text \<open>
  The parts of a strategy definition that price, size and exit an order: exits
  (\<open>strategies/schema/exits.py\<close>), risk-fraction sizing and portfolio limits
  (\<open>strategies/models.py\<close>) and the economic entry guard (\<open>strategies/economic_guard.py\<close>).
  A \<open>DecimalText\<close> field is the decimal it spells. The validators are the bounds a stored
  strategy satisfies.
\<close>

record atr_multiple_stop =
  as_atr_indicator :: string
  as_multiple :: decimal

definition atr_multiple_valid :: "decimal \<Rightarrow> bool" where
  "atr_multiple_valid m \<longleftrightarrow> 1 / 2 \<le> m \<and> m \<le> 10"

datatype take_profit_definition = RewardRiskTakeProfit decimal | NoTakeProfit

datatype trailing_stop_definition = DisabledTrailingStop | AtrTrailingStop string decimal

record exit_definition =
  x_initial_stop :: atr_multiple_stop
  x_take_profit :: take_profit_definition
  x_trailing_stop :: trailing_stop_definition
  x_max_bars_held :: int

definition atr_trailing_stop :: "exit_definition \<Rightarrow> (string \<times> decimal) option" where
  "atr_trailing_stop exits =
     (case x_trailing_stop exits of
        AtrTrailingStop atr_indicator multiple \<Rightarrow> Some (atr_indicator, multiple)
      | DisabledTrailingStop \<Rightarrow> None)"

definition reward_risk_multiple :: "exit_definition \<Rightarrow> decimal option" where
  "reward_risk_multiple exits =
     (case x_take_profit exits of RewardRiskTakeProfit multiple \<Rightarrow> Some multiple | NoTakeProfit \<Rightarrow> None)"

record risk_fraction_sizing =
  z_risk_fraction :: decimal
  z_min_quote_notional :: decimal
  z_max_quote_notional :: decimal

definition sizing_validate_ranges :: "risk_fraction_sizing \<Rightarrow> risk_fraction_sizing result" where
  "sizing_validate_ranges z =
     (if \<not> (0 < z_risk_fraction z \<and> z_risk_fraction z \<le> 1 / 4)
      then Inl (ValueError ''risk_fraction must be greater than zero and at most 0.25'')
      else if z_min_quote_notional z \<le> 0 \<or> z_max_quote_notional z \<le> 0
              \<or> z_min_quote_notional z > z_max_quote_notional z
      then Inl (ValueError ''quote sizing bounds must be positive and ordered'')
      else Inr z)"

record portfolio_limits =
  l_max_strategy_exposure_fraction :: decimal
  l_max_concurrent_positions :: int

definition limits_validate_exposure :: "portfolio_limits \<Rightarrow> portfolio_limits result" where
  "limits_validate_exposure l =
     (if \<not> (0 < l_max_strategy_exposure_fraction l \<and> l_max_strategy_exposure_fraction l \<le> 1)
      then Inl (ValueError ''max_strategy_exposure_fraction must be in (0, 1]'')
      else Inr l)"

record economic_entry_guard =
  g_minimum_net_target_return_fraction :: decimal

definition guard_bound_return :: "economic_entry_guard \<Rightarrow> economic_entry_guard result" where
  "guard_bound_return g =
     (if g_minimum_net_target_return_fraction g > 1
      then Inl (ValueError ''minimum_net_target_return_fraction must be at most 1'')
      else Inr g)"

text \<open>The fields of \<open>StrategyDefinition\<close> that the execution core reads for one order.\<close>

record strategy_definition =
  sd_economic_guard :: "economic_entry_guard option"
  sd_sizing :: risk_fraction_sizing
  sd_portfolio_limits :: portfolio_limits
  sd_exits :: exit_definition

text \<open>What the schema validators guarantee of a stored strategy.\<close>

definition strategy_valid :: "strategy_definition \<Rightarrow> bool" where
  "strategy_valid sd \<longleftrightarrow>
     sizing_validate_ranges (sd_sizing sd) = Inr (sd_sizing sd)
     \<and> limits_validate_exposure (sd_portfolio_limits sd) = Inr (sd_portfolio_limits sd)
     \<and> atr_multiple_valid (as_multiple (x_initial_stop (sd_exits sd)))
     \<and> (\<forall>m. reward_risk_multiple (sd_exits sd) = Some m \<longrightarrow> atr_multiple_valid m)"

lemma strategy_validD:
  assumes "strategy_valid sd"
  shows "0 < z_risk_fraction (sd_sizing sd)" "0 < z_min_quote_notional (sd_sizing sd)"
    "0 < z_max_quote_notional (sd_sizing sd)"
    "0 < l_max_strategy_exposure_fraction (sd_portfolio_limits sd)"
    "0 < as_multiple (x_initial_stop (sd_exits sd))"
  using assms
  by (auto simp: strategy_valid_def sizing_validate_ranges_def limits_validate_exposure_def
      atr_multiple_valid_def split: if_splits)

end
