(* ===== verification/Geometry.thy ===== *)
theory Geometry
  imports Strategy_Policy
begin

text \<open>
  Spot long/short geometry (\<open>trading/geometry.py\<close>) and the prospective order economics
  (\<open>trading/economics.py\<close>): where the stop and the target of an entry lie, when a bar trades
  through a stop, which bar a fill belongs to, and whether the declared net-return hurdle is met.
\<close>

section \<open>Skip reasons\<close>

datatype entry_skip_reason =
    ENTRY_PRICE_NOT_POSITIVE | STOP_DISTANCE_NOT_POSITIVE | STOP_NOT_POSITIVE | TARGET_NOT_POSITIVE
  | STOP_WITHIN_PRICE_INCREMENT | TARGET_WITHIN_PRICE_INCREMENT | NET_TARGET_BELOW_MINIMUM
  | ECONOMICS_FEE_UNAVAILABLE | SIZING_CASH_UNAVAILABLE | NO_OPEN_POSITION | INSUFFICIENT_CASH
  | NOTIONAL_BELOW_MINIMUM | QUANTITY_BELOW_VENUE_MINIMUM | NOTIONAL_BELOW_VENUE_MINIMUM
  | BELOW_ONE_CONTRACT

definition GEOMETRY_SKIPS :: "entry_skip_reason set" where
  "GEOMETRY_SKIPS =
     {ENTRY_PRICE_NOT_POSITIVE, STOP_DISTANCE_NOT_POSITIVE, STOP_NOT_POSITIVE, TARGET_NOT_POSITIVE,
      STOP_WITHIN_PRICE_INCREMENT, TARGET_WITHIN_PRICE_INCREMENT, NET_TARGET_BELOW_MINIMUM,
      ECONOMICS_FEE_UNAVAILABLE}"

datatype skip_category = Geometry_Skip | Sizing_Skip

definition entry_skip_category :: "entry_skip_reason \<Rightarrow> skip_category" where
  "entry_skip_category reason = (if reason \<in> GEOMETRY_SKIPS then Geometry_Skip else Sizing_Skip)"

text \<open>A function of type \<open>X | EntrySkipReason\<close> returns \<open>Take\<close> or \<open>Skip\<close>.\<close>

datatype 'a or_skip = Skip entry_skip_reason | Take 'a

lemma case_or_skip_Take [simp]:
  "(case x of Skip reason \<Rightarrow> Inr (Skip reason) | Take y \<Rightarrow> f y) = Inr (Take z)
   \<longleftrightarrow> (\<exists>y. x = Take y \<and> f y = Inr (Take z))"
  by (cases x) auto

record EntryLevels =
  lv_stop_price :: decimal
  lv_target_price :: "decimal option"

section \<open>Snapping to a venue increment\<close>

text \<open>
  The pricing functions run in whatever decimal context is active: 28 digits in the trading
  processes, 64 digits inside the backtest. Each is defined for a precision \<open>p\<close>; the plain name
  is the default context.
\<close>

definition snap_in :: "nat \<Rightarrow> decimal \<Rightarrow> decimal option \<Rightarrow> rounding_mode \<Rightarrow> decimal result" where
  "snap_in p value increment mode =
     (case increment of
        None \<Rightarrow> Inr value
      | Some inc \<Rightarrow>
          if inc \<le> 0 then Inl (ValueError ''venue increment must be positive'')
          else rbind (quantize_one_in p mode (ctx_div p value inc)) (\<lambda>steps. Inr (ctx_mul p steps inc)))"

definition snap :: "decimal \<Rightarrow> decimal option \<Rightarrow> rounding_mode \<Rightarrow> decimal result" where
  snap_28: "snap = snap_in 28"

lemmas snap_def = snap_in_def [of 28, folded quantize_one_28 snap_28]

section \<open>Entry levels\<close>

definition entry_levels_in ::
    "nat \<Rightarrow> position_side \<Rightarrow> decimal \<Rightarrow> decimal \<Rightarrow> decimal option \<Rightarrow> decimal option
     \<Rightarrow> EntryLevels or_skip result" where
  "entry_levels_in p side entry_price stop_distance reward_multiple price_increment =
     (if entry_price \<le> 0 then Inr (Skip ENTRY_PRICE_NOT_POSITIVE)
      else if stop_distance \<le> 0 then Inr (Skip STOP_DISTANCE_NOT_POSITIVE)
      else if side = LONG then
        rbind (snap_in p (ctx_sub p entry_price stop_distance) price_increment ROUND_DOWN) (\<lambda>stop.
        if stop \<le> 0 then Inr (Skip STOP_NOT_POSITIVE)
        else case reward_multiple of
          None \<Rightarrow> Inr (Take \<lparr>lv_stop_price = stop, lv_target_price = None\<rparr>)
        | Some rm \<Rightarrow>
            rbind (snap_in p (ctx_add p entry_price (ctx_mul p stop_distance rm)) price_increment ROUND_HALF_UP)
              (\<lambda>target.
            if target \<le> entry_price then Inr (Skip TARGET_WITHIN_PRICE_INCREMENT)
            else Inr (Take \<lparr>lv_stop_price = stop, lv_target_price = Some target\<rparr>)))
      else
        rbind (snap_in p (ctx_add p entry_price stop_distance) price_increment ROUND_HALF_UP) (\<lambda>stop.
        case reward_multiple of
          None \<Rightarrow>
            if stop \<le> entry_price then Inr (Skip STOP_WITHIN_PRICE_INCREMENT)
            else Inr (Take \<lparr>lv_stop_price = stop, lv_target_price = None\<rparr>)
        | Some rm \<Rightarrow>
            rbind (snap_in p (ctx_sub p entry_price (ctx_mul p stop_distance rm)) price_increment ROUND_DOWN)
              (\<lambda>target_price.
            if target_price \<le> 0 then Inr (Skip TARGET_NOT_POSITIVE)
            else if stop \<le> entry_price then Inr (Skip STOP_WITHIN_PRICE_INCREMENT)
            else Inr (Take \<lparr>lv_stop_price = stop, lv_target_price = Some target_price\<rparr>))))"

definition entry_levels ::
    "position_side \<Rightarrow> decimal \<Rightarrow> decimal \<Rightarrow> decimal option \<Rightarrow> decimal option
     \<Rightarrow> EntryLevels or_skip result" where
  entry_levels_28: "entry_levels = entry_levels_in 28"

lemmas entry_levels_def = entry_levels_in_def [of 28, folded snap_28 entry_levels_28]

definition PROTECTIVE_STOP_LIMIT_BUFFER :: decimal where
  "PROTECTIVE_STOP_LIMIT_BUFFER = 5 / 100"

definition protective_stop_limit_price ::
    "order_side \<Rightarrow> decimal \<Rightarrow> decimal \<Rightarrow> decimal result" where
  "protective_stop_limit_price cover_side stop_price price_increment =
     (if cover_side = SELL then
        snap (dmul stop_price (dsub 1 PROTECTIVE_STOP_LIMIT_BUFFER)) (Some price_increment) ROUND_DOWN
      else
        snap (dmul stop_price (dadd 1 PROTECTIVE_STOP_LIMIT_BUFFER)) (Some price_increment) ROUND_UP)"

definition parse_position_side :: "string \<Rightarrow> position_side result" where
  "parse_position_side value =
     (if value = ''long'' then Inr LONG
      else if value = ''short'' then Inr SHORT
      else Inl (ValueError ''side must be long or short.''))"

definition entry_order_side :: "position_side \<Rightarrow> order_side" where
  "entry_order_side side = (if side = LONG then BUY else SELL)"

definition exit_order_side :: "position_side \<Rightarrow> order_side" where
  "exit_order_side side = (if side = LONG then SELL else BUY)"

definition bracket_is_valid :: "position_side \<Rightarrow> decimal \<Rightarrow> decimal \<Rightarrow> decimal \<Rightarrow> bool" where
  "bracket_is_valid side entry stop take_profit \<longleftrightarrow>
     (if entry \<le> 0 \<or> stop \<le> 0 \<or> take_profit \<le> 0 then False
      else if side = LONG then stop < entry \<and> entry < take_profit
      else take_profit < entry \<and> entry < stop)"

definition paper_stop_hit :: "position_side \<Rightarrow> candle \<Rightarrow> decimal \<Rightarrow> bool" where
  "paper_stop_hit side c stop_price \<longleftrightarrow>
     (if side = LONG then k_low c \<le> stop_price else k_high c \<ge> stop_price)"

definition paper_stop_fill_price :: "position_side \<Rightarrow> candle \<Rightarrow> decimal \<Rightarrow> decimal" where
  "paper_stop_fill_price side c stop_price =
     (if side = LONG then min (k_open c) stop_price else max (k_open c) stop_price)"

definition entry_bar_bucket :: "datetime \<Rightarrow> string \<Rightarrow> datetime result" where
  "entry_bar_bucket fill_time timeframe =
     rbind (parse_candle_interval timeframe) (\<lambda>interval.
       let instant = truncate_to_minute fill_time
       in rbind (align_closed_end interval (instant + interval_duration interval))
            (\<lambda>closed_end. Inr (closed_end - interval_duration interval)))"

section \<open>Order economics\<close>

text \<open>\<open>net_target_return\<close> computes in a context of 64 digits; \<open>entry\<close> is a positive price.\<close>

definition net_target_return ::
    "position_side \<Rightarrow> decimal \<Rightarrow> decimal \<Rightarrow> decimal \<Rightarrow> decimal result" where
  "net_target_return side entry target fee =
     (let gross = (if side = LONG then ctx_sub 64 target entry else ctx_sub 64 entry target)
      in ctx_div_checked 64
           (ctx_sub 64 gross (ctx_mul 64 (ctx_add 64 entry target) fee)) entry)"

definition target_guard_allows ::
    "economic_entry_guard option \<Rightarrow> position_side \<Rightarrow> decimal \<Rightarrow> decimal option \<Rightarrow> decimal
     \<Rightarrow> bool result" where
  "target_guard_allows guard side entry target fee =
     (case guard of
        None \<Rightarrow> Inr True
      | Some g \<Rightarrow>
          (case target of
             None \<Rightarrow> Inr False
           | Some t \<Rightarrow> rbind (net_target_return side entry t fee)
                         (\<lambda>r. Inr (r \<ge> g_minimum_net_target_return_fraction g))))"

record economic_preflight_request =
  q_side :: position_side
  q_entry_price :: decimal
  q_quantity :: decimal
  q_stop_price :: decimal
  q_target_price :: "decimal option"
  q_maker_fee_rate :: decimal
  q_taker_fee_rate :: decimal
  q_fixed_slippage_bps :: decimal
  q_spread_bps :: decimal

definition preflight_request_valid :: "economic_preflight_request \<Rightarrow> bool" where
  "preflight_request_valid q \<longleftrightarrow>
     0 < q_entry_price q \<and> 0 < q_quantity q \<and> 0 < q_stop_price q
     \<and> (case q_target_price q of None \<Rightarrow> True | Some t \<Rightarrow> 0 < t)
     \<and> 0 \<le> q_maker_fee_rate q \<and> q_maker_fee_rate q \<le> 1 / 10
     \<and> 0 \<le> q_taker_fee_rate q \<and> q_taker_fee_rate q \<le> 1 / 10
     \<and> 0 \<le> q_fixed_slippage_bps q \<and> q_fixed_slippage_bps q \<le> 1000
     \<and> 0 \<le> q_spread_bps q \<and> q_spread_bps q \<le> 1000"

text \<open>The preflight's amounts before they are rendered as decimal text.\<close>

record economic_preflight =
  ep_entry_notional :: decimal
  ep_entry_fee :: decimal
  ep_maker_break_even_price :: decimal
  ep_net_target_quote_pnl :: "decimal option"
  ep_net_target_return_fraction :: "decimal option"
  ep_net_stop_quote_pnl :: decimal
  ep_target_clears_costs :: "bool option"

abbreviation add64 :: "decimal \<Rightarrow> decimal \<Rightarrow> decimal" where "add64 \<equiv> ctx_add 64"
abbreviation sub64 :: "decimal \<Rightarrow> decimal \<Rightarrow> decimal" where "sub64 \<equiv> ctx_sub 64"
abbreviation mul64 :: "decimal \<Rightarrow> decimal \<Rightarrow> decimal" where "mul64 \<equiv> ctx_mul 64"
abbreviation div64 :: "decimal \<Rightarrow> decimal \<Rightarrow> decimal" where "div64 \<equiv> ctx_div 64"

definition calculate_preflight ::
    "economic_preflight_request \<Rightarrow> economic_preflight result" where
  "calculate_preflight q =
     (let entry = q_entry_price q; quantity = q_quantity q;
          maker = q_maker_fee_rate q; taker = q_taker_fee_rate q;
          direction = (if q_side q = LONG then 1 else -1);
          target = q_target_price q
      in if mul64 direction (sub64 entry (q_stop_price q)) \<le> 0
            \<or> (case target of None \<Rightarrow> False | Some t \<Rightarrow> mul64 direction (sub64 t entry) \<le> 0)
         then Inl (ValueError ''stop and target must lie on the correct sides of entry'')
         else
           let stress = div64 (add64 (q_fixed_slippage_bps q) (div64 (q_spread_bps q) 2)) 10000;
               stop = mul64 (q_stop_price q) (sub64 1 (mul64 direction stress));
               stop_pnl = mul64 (sub64 (sub64 (mul64 direction (sub64 stop entry))
                                               (mul64 entry maker)) (mul64 stop taker)) quantity
           in rbind (case target of
                       None \<Rightarrow> Inr None
                     | Some t \<Rightarrow> rbind (net_target_return (q_side q) entry t maker)
                                   (\<lambda>r. Inr (Some r))) (\<lambda>net.
              rbind (ctx_div_checked 64 (mul64 entry (add64 1 (mul64 direction maker)))
                       (sub64 1 (mul64 direction maker))) (\<lambda>break_even.
              Inr \<lparr>ep_entry_notional = mul64 entry quantity,
                   ep_entry_fee = mul64 (mul64 entry quantity) maker,
                   ep_maker_break_even_price = break_even,
                   ep_net_target_quote_pnl =
                     map_option (\<lambda>r. mul64 (mul64 r entry) quantity) net,
                   ep_net_target_return_fraction = net,
                   ep_net_stop_quote_pnl = stop_pnl,
                   ep_target_clears_costs = map_option (\<lambda>r. r > 0) net\<rparr>)))"

section \<open>Snapping is monotone and fixes prices on the grid\<close>

definition power_of_ten :: "decimal \<Rightarrow> bool" where
  "power_of_ten inc \<longleftrightarrow> (\<exists>k. inc = 10 powi k)"

definition on_tick :: "decimal \<Rightarrow> decimal \<Rightarrow> bool" where
  "on_tick inc x \<longleftrightarrow> (\<exists>n. x = of_int n * inc \<and> \<bar>n\<bar> < 10 ^ 28)"

lemma snap_None [simp]: "snap v None mode = Inr v"
  by (simp add: snap_def)

lemma snap_SomeD:
  assumes "snap v (Some inc) mode = Inr y"
  shows "0 < inc" "y = dmul (of_int (round_int mode (ddiv v inc))) inc"
    "\<bar>round_int mode (ddiv v inc)\<bar> < 10 ^ 28"
  using assms by (auto simp: snap_def split: if_splits dest: quantize_one_InrD)

lemma snap_mono:
  assumes "v \<le> w" "snap v inc mode = Inr y" "snap w inc mode = Inr z"
  shows "y \<le> z"
proof (cases inc)
  case None
  with assms show ?thesis by simp
next
  case (Some i)
  note y = snap_SomeD [OF assms(2) [unfolded Some]] and z = snap_SomeD [OF assms(3) [unfolded Some]]
  have "ddiv v i \<le> ddiv w i"
    unfolding ctx_div_def using assms(1) y(1) by (intro d28.rnd_mono divide_right_mono) auto
  then have "of_int (round_int mode (ddiv v i)) \<le> (of_int (round_int mode (ddiv w i)) :: rat)"
    by (simp add: round_int_mono)
  then show ?thesis
    unfolding y(2) z(2) ctx_mul_def using y(1) by (intro d28.rnd_mono mult_right_mono) auto
qed

lemma fixp_int: "\<bar>n\<bar> \<le> 10 ^ p \<Longrightarrow> 0 < p \<Longrightarrow> fixp p (of_int n) = of_int n"
  by (rule fixp_exact [of _ n 0]) simp_all

lemma fixp_tick: "power_of_ten inc \<Longrightarrow> \<bar>n\<bar> \<le> 10 ^ p \<Longrightarrow> 0 < p \<Longrightarrow> fixp p (of_int n * inc) = of_int n * inc"
  unfolding power_of_ten_def by (auto intro: fixp_exact)

lemma power_of_ten_pos: "power_of_ten inc \<Longrightarrow> 0 < inc"
  by (auto simp: power_of_ten_def)

lemma on_tick_fix: "power_of_ten inc \<Longrightarrow> on_tick inc x \<Longrightarrow> fixp 28 x = x"
  unfolding on_tick_def using fixp_tick [of inc _ 28] by auto

lemma snap_on_tick:
  assumes "power_of_ten inc" "on_tick inc x"
  shows "snap x (Some inc) mode = Inr x"
proof -
  from assms(2) obtain n where n: "x = of_int n * inc" "\<bar>n\<bar> < 10 ^ 28" by (auto simp: on_tick_def)
  have inc: "0 < inc" using assms(1) by (rule power_of_ten_pos)
  have "ddiv x inc = of_int n" using n inc fixp_int [of n 28] by (simp add: ctx_div_def)
  moreover have "dmul (of_int n) inc = x" using fixp_tick [OF assms(1), of n 28] n by (simp add: ctx_mul_def)
  ultimately show ?thesis using n(2) inc by (simp add: snap_def quantize_one_def)
qed

lemma snap_result_on_tick:
  assumes "power_of_ten inc" "snap v (Some inc) mode = Inr y"
  shows "on_tick inc y"
proof -
  let ?n = "round_int mode (ddiv v inc)"
  note d = snap_SomeD [OF assms(2)]
  have "y = of_int ?n * inc" unfolding d(2) ctx_mul_def using fixp_tick [OF assms(1), of ?n 28] d(3) by simp
  with d(3) show ?thesis by (auto simp: on_tick_def)
qed

lemma snap_le_on_tick:
  assumes "power_of_ten inc" "on_tick inc x" "v \<le> x" "snap v (Some inc) mode = Inr y"
  shows "y \<le> x"
  using snap_mono [OF assms(3,4) snap_on_tick [OF assms(1,2)]] .

lemma snap_ge_on_tick:
  assumes "power_of_ten inc" "on_tick inc x" "x \<le> v" "snap v (Some inc) mode = Inr y"
  shows "x \<le> y"
  using snap_mono [OF assms(3) snap_on_tick [OF assms(1,2)] assms(4)] .

section \<open>Stop and target lie on the correct sides\<close>

text \<open>An entry price on the grid of the increment; without an increment, one that fits the context.\<close>

definition grid_price :: "decimal option \<Rightarrow> decimal \<Rightarrow> bool" where
  "grid_price increment x \<longleftrightarrow>
     (case increment of None \<Rightarrow> fixp 28 x = x | Some inc \<Rightarrow> power_of_ten inc \<and> on_tick inc x)"

lemma grid_price_fix: "grid_price inc x \<Longrightarrow> fixp 28 x = x"
  by (auto simp: grid_price_def on_tick_fix split: option.splits)

lemma grid_price_snap: "grid_price inc x \<Longrightarrow> snap x inc mode = Inr x"
  by (auto simp: grid_price_def snap_on_tick split: option.splits)

lemma snap_below_grid:
  assumes "grid_price inc x" "0 \<le> d" "snap (dsub x d) inc mode = Inr y"
  shows "y \<le> x"
proof -
  have "dsub x d \<le> x"
    unfolding ctx_sub_def using assms(2) grid_price_fix [OF assms(1)] by (intro d28.rnd_upper) auto
  from snap_mono [OF this assms(3) grid_price_snap [OF assms(1)]] show ?thesis .
qed

text \<open>The explicit outcomes of \<open>entry_levels\<close>: what a returned level has been checked against.\<close>

lemma entry_levels_TakeD:
  assumes "entry_levels side e d rm inc = Inr (Take lv)"
  shows "0 < e" "0 < d"
    and "side = LONG \<Longrightarrow> 0 < lv_stop_price lv \<and> snap (dsub e d) inc ROUND_DOWN = Inr (lv_stop_price lv)"
    and "side = LONG \<Longrightarrow> lv_target_price lv = Some t \<Longrightarrow> e < t"
    and "side = SHORT \<Longrightarrow> e < lv_stop_price lv"
    and "side = SHORT \<Longrightarrow> lv_target_price lv = Some t \<Longrightarrow>
           0 < t \<and> (\<exists>m. rm = Some m \<and> snap (dsub e (dmul d m)) inc ROUND_DOWN = Inr t)"
    and "lv_target_price lv = None \<longleftrightarrow> rm = None"
  using assms unfolding entry_levels_def
  by (auto split: if_splits option.splits position_side.splits)

lemma entry_levels_sides:
  assumes "entry_levels side e d rm inc = Inr (Take lv)" "grid_price inc e"
    and "\<And>m. rm = Some m \<Longrightarrow> 0 \<le> m"
  shows "side = LONG \<Longrightarrow> 0 < lv_stop_price lv \<and> lv_stop_price lv \<le> e
           \<and> (\<forall>t. lv_target_price lv = Some t \<longrightarrow> e < t)"
    and "side = SHORT \<Longrightarrow> e < lv_stop_price lv
           \<and> (\<forall>t. lv_target_price lv = Some t \<longrightarrow> 0 < t \<and> t \<le> e)"
proof -
  note L = entry_levels_TakeD [OF assms(1)]
  show "0 < lv_stop_price lv \<and> lv_stop_price lv \<le> e
      \<and> (\<forall>t. lv_target_price lv = Some t \<longrightarrow> e < t)" if "side = LONG"
    using L(2) L(3) [OF that] L(4) [OF that] snap_below_grid [OF assms(2), of d] by auto
  show "e < lv_stop_price lv \<and> (\<forall>t. lv_target_price lv = Some t \<longrightarrow> 0 < t \<and> t \<le> e)"
    if "side = SHORT"
  proof (intro conjI allI impI)
    show "e < lv_stop_price lv" using L(5) [OF that] .
    fix t assume t: "lv_target_price lv = Some t"
    from L(6) [OF that t] obtain m where m: "0 < t" "rm = Some m"
      "snap (dsub e (dmul d m)) inc ROUND_DOWN = Inr t" by auto
    show "0 < t" by (rule m(1))
    have "0 \<le> dmul d m" using L(2) assms(3) [OF m(2)] by (simp add: ctx_mul_def)
    with snap_below_grid [OF assms(2)] m(3) show "t \<le> e" by blast
  qed
qed

lemma paper_stop_fill_in_bar:
  assumes "k_low c \<le> k_open c" "k_open c \<le> k_high c" "paper_stop_hit side c stop"
  shows "k_low c \<le> paper_stop_fill_price side c stop" "paper_stop_fill_price side c stop \<le> k_high c"
    "side = LONG \<Longrightarrow> paper_stop_fill_price side c stop \<le> stop"
    "side = SHORT \<Longrightarrow> stop \<le> paper_stop_fill_price side c stop"
  using assms by (cases side; auto simp: paper_stop_hit_def paper_stop_fill_price_def)+

lemma minute_dvd_duration: "MINUTE dvd interval_duration i"
  by (cases i) (simp_all add: HOUR_def DAY_def)

lemma entry_bar_bucket_eq:
  "entry_bar_bucket t (interval_value i) = Inr (t - t mod interval_duration i)"
proof -
  let ?d = "interval_duration i" and ?i = "truncate_to_minute t"
  have "(?i + ?d) - (?i + ?d) mod ?d - ?d = ?i - ?i mod ?d" by simp
  moreover have "?i - ?i mod ?d = t - t mod ?d"
  proof -
    obtain k where k: "?d = MINUTE * k" using minute_dvd_duration [of i] by (auto elim: dvdE)
    have M: "0 < MINUTE" by (simp add: time_units)
    have pos: "0 < k" using k M interval_duration_pos [of i] by (simp add: zero_less_mult_iff)
    have "?i = MINUTE * (t div MINUTE)" by (simp add: truncate_to_minute_def minus_mod_eq_mult_div)
    then have "?i mod ?d = MINUTE * (t div MINUTE mod k)" by (simp add: k mod_mult_mult1)
    moreover have "t mod ?d = MINUTE * (t div MINUTE mod k) + t mod MINUTE"
      using pos by (simp add: k zmod_zmult2_eq)
    ultimately show ?thesis by (simp add: truncate_to_minute_def)
  qed
  ultimately show ?thesis by (simp add: entry_bar_bucket_def Let_def align_closed_end_eq)
qed

section \<open>Properties\<close>

text \<open>A paper stop fill is honest. When a bar trades through the stop, the fill price lies
  inside the bar's range and is never better than the stop: a long is sold at or below it, a short
  bought back at or above it, and a bar that opens past the stop fills at its open.\<close>

theorem paper_stop_fill_honest:
  assumes "k_low c \<le> k_open c" "k_open c \<le> k_high c" "paper_stop_hit side c stop"
  shows "k_low c \<le> paper_stop_fill_price side c stop \<and> paper_stop_fill_price side c stop \<le> k_high c
       \<and> (side = LONG \<longrightarrow> paper_stop_fill_price side c stop \<le> stop)
       \<and> (side = SHORT \<longrightarrow> stop \<le> paper_stop_fill_price side c stop)
       \<and> (paper_stop_fill_price side c stop = stop \<or> paper_stop_fill_price side c stop = k_open c)"
  using paper_stop_fill_in_bar [OF assms]
  by (auto simp: paper_stop_fill_price_def min_def max_def)

definition ex_candle :: candle where
  "ex_candle = \<lparr>k_starts_at = 0, k_open = 96, k_high = 99, k_low = 94, k_close = 95, k_volume = 10\<rparr>"

theorem paper_stop_fill_honest_witness:
  "paper_stop_fill_price LONG ex_candle 97 = 96 \<and> paper_stop_fill_price LONG ex_candle 97 \<le> 97"
proof -
  have h: "k_low ex_candle \<le> k_open ex_candle" "k_open ex_candle \<le> k_high ex_candle"
    "paper_stop_hit LONG ex_candle 97"
    by (simp_all add: ex_candle_def paper_stop_hit_def)
  show ?thesis using paper_stop_fill_honest [OF h] by (simp add: paper_stop_fill_price_def ex_candle_def)
qed

text \<open>The entry bar of a fill contains it: for every supported timeframe, the bucket is a bar
  boundary, starts at or before the fill and ends after it.\<close>

theorem entry_bar_bucket_contains_fill:
  "\<exists>b. entry_bar_bucket fill_time (interval_value i) = Inr b \<and> interval_duration i dvd b
     \<and> b \<le> fill_time \<and> fill_time < b + interval_duration i"
proof -
  let ?d = "interval_duration i"
  have "?d dvd fill_time - fill_time mod ?d" by (rule dvd_minus_mod)
  with interval_duration_pos [of i] show ?thesis
    by (simp add: entry_bar_bucket_eq pos_mod_sign pos_mod_bound less_diff_eq [symmetric])
qed

text \<open>The limit of a protective stop-limit order is marketable once the stop triggers: a SELL
  cover's limit lies at or below the stop and a BUY cover's at or above it, for every stop on the
  venue's price grid; both lie on the grid.\<close>

theorem protective_stop_limit_marketable:
  assumes "protective_stop_limit_price cover_side stop inc = Inr limit"
    and "power_of_ten inc" "on_tick inc stop" "0 < stop"
  shows "(cover_side = SELL \<longrightarrow> limit \<le> stop) \<and> (cover_side = BUY \<longrightarrow> stop \<le> limit) \<and> on_tick inc limit"
proof -
  have exact: "fixp 28 stop = stop" using on_tick_fix assms(2,3) .
  have f: "dsub 1 PROTECTIVE_STOP_LIMIT_BUFFER = 95 / 100" "dadd 1 PROTECTIVE_STOP_LIMIT_BUFFER = 105 / 100"
    by code_simp+
  have "dmul stop (95 / 100) \<le> stop" "stop \<le> dmul stop (105 / 100)"
    unfolding ctx_mul_def using assms(4) exact by (intro d28.rnd_upper d28.rnd_lower; simp)+
  with assms f show ?thesis
    unfolding protective_stop_limit_price_def
    by (cases cover_side) (auto intro: snap_le_on_tick snap_ge_on_tick snap_result_on_tick)
qed

theorem protective_stop_limit_marketable_witness:
  "protective_stop_limit_price SELL 97 (1 / 100) = Inr (9215 / 100) \<and> 9215 / 100 \<le> (97 :: decimal)"
proof -
  have run: "protective_stop_limit_price SELL 97 (1 / 100) = Inr (9215 / 100)" by code_simp
  have "power_of_ten (1 / 100)" unfolding power_of_ten_def by (rule exI [of _ "-2"]) simp
  moreover have "on_tick (1 / 100) 97" unfolding on_tick_def by (rule exI [of _ 9700]) simp
  ultimately show ?thesis using run protective_stop_limit_marketable [OF run] by simp
qed

end
