(* ===== verification/Sizing.thy ===== *)
theory Sizing
  imports Geometry
begin

text \<open>
  ATR risk-fraction sizing of one entry (\<open>trading/sizing.py\<close>) and whole-contract futures
  sizing (\<open>trading/futures_sizing.py\<close>). The results bound what an order may risk and commit:
  each bound holds up to the relative error of the decimal context, stated as \<open>tol\<close>.
\<close>

section \<open>Futures contract sizing\<close>

record futures_margin_terms =
  ft_contract_size :: decimal
  ft_long_rate :: decimal
  ft_short_rate :: decimal
  ft_maintenance_fraction :: decimal
  ft_min_buffer_fraction :: decimal
  ft_max_leverage :: decimal
  ft_fee_per_contract :: decimal

definition initial_rate :: "futures_margin_terms \<Rightarrow> position_side \<Rightarrow> decimal" where
  "initial_rate terms side = (if side = LONG then ft_long_rate terms else ft_short_rate terms)"

definition whole_contracts_in :: "nat \<Rightarrow> futures_margin_terms \<Rightarrow> decimal \<Rightarrow> decimal result" where
  "whole_contracts_in p terms quantity =
     rbind (ctx_div_checked p quantity (ft_contract_size terms))
       (\<lambda>ratio. Inr (ctx_mul p (to_integral_value ROUND_FLOOR ratio) (ft_contract_size terms)))"

definition whole_contracts ::
    "futures_margin_terms \<Rightarrow> decimal \<Rightarrow> decimal result" where
  whole_contracts_28: "whole_contracts = whole_contracts_in 28"

lemmas whole_contracts_def = whole_contracts_in_def [of 28, folded whole_contracts_28]

definition maintenance_in :: "nat \<Rightarrow> futures_margin_terms \<Rightarrow> decimal \<Rightarrow> decimal \<Rightarrow> position_side \<Rightarrow> decimal" where
  "maintenance_in p terms quantity price side =
     ctx_mul p (ctx_mul p (ctx_mul p quantity price) (initial_rate terms side)) (ft_maintenance_fraction terms)"

definition maintenance ::
    "futures_margin_terms \<Rightarrow> decimal \<Rightarrow> decimal \<Rightarrow> position_side \<Rightarrow> decimal" where
  maintenance_28: "maintenance = maintenance_in 28"

lemmas maintenance_def = maintenance_in_def [of 28, folded maintenance_28]

definition fee_per_unit :: "futures_margin_terms \<Rightarrow> decimal result" where
  "fee_per_unit terms = ddiv_checked (ft_fee_per_contract terms) (ft_contract_size terms)"

record contract_sizing_limits =
  cl_max_quote_notional :: decimal
  cl_min_quote_notional :: decimal
  cl_max_exposure_fraction :: decimal

definition size_contracts_in ::
    "nat \<Rightarrow> futures_margin_terms \<Rightarrow> contract_sizing_limits \<Rightarrow> decimal \<Rightarrow> position_side \<Rightarrow> decimal
     \<Rightarrow> decimal \<Rightarrow> decimal \<Rightarrow> (decimal \<times> bool) or_skip result" where
  "size_contracts_in p terms limits equity side limit_price requested_notional maker_fee_rate =
     (if equity \<le> 0 then Inr (Skip INSUFFICIENT_CASH)
      else let unit = ctx_mul p limit_price (ft_contract_size terms)
      in if unit \<le> 0 then Inr (Skip ENTRY_PRICE_NOT_POSITIVE)
      else let fee = ctx_add p (ctx_mul p unit maker_fee_rate) (ft_fee_per_contract terms);
               rate = initial_rate terms side;
               leverage = ft_max_leverage terms;
               room = ctx_sub p 1 (ft_min_buffer_fraction terms);
               exposure = cl_max_exposure_fraction limits
      in rbind (ctx_div_checked p (cl_max_quote_notional limits) unit) (\<lambda>by_notional.
         rbind (ctx_div_checked p (ctx_mul p leverage equity) (ctx_add p unit (ctx_mul p leverage fee))) (\<lambda>by_leverage.
         rbind (ctx_div_checked p (ctx_mul p room equity)
                  (ctx_add p (ctx_mul p (ctx_mul p unit rate) (ft_maintenance_fraction terms)) (ctx_mul p room fee)))
           (\<lambda>by_buffer.
         rbind (ctx_div_checked p (ctx_mul p exposure equity) (ctx_add p (ctx_mul p unit rate) (ctx_mul p exposure fee)))
           (\<lambda>by_exposure.
         rbind (ctx_div_checked p requested_notional unit) (\<lambda>requested.
         let bound = min (min (min by_notional by_leverage) by_buffer) by_exposure;
             contracts = to_integral_value ROUND_FLOOR (min requested bound)
         in if contracts < 1 then Inr (Skip BELOW_ONE_CONTRACT)
            else if ctx_mul p contracts unit < cl_min_quote_notional limits
            then Inr (Skip NOTIONAL_BELOW_MINIMUM)
            else Inr (Take (ctx_mul p contracts (ft_contract_size terms), requested > bound))))))))"

definition size_contracts ::
    "futures_margin_terms \<Rightarrow> contract_sizing_limits \<Rightarrow> decimal \<Rightarrow> position_side \<Rightarrow> decimal
     \<Rightarrow> decimal \<Rightarrow> decimal \<Rightarrow> (decimal \<times> bool) or_skip result" where
  size_contracts_28: "size_contracts = size_contracts_in 28"

lemmas size_contracts_def = size_contracts_in_def [of 28, folded size_contracts_28]

section \<open>Entry sizing\<close>

record sized_entry =
  se_quantity :: decimal
  se_notional :: decimal
  se_entry_price :: decimal
  se_stop_price :: decimal
  se_target_price :: "decimal option"

definition quantize_to_increment_in ::
    "nat \<Rightarrow> decimal \<Rightarrow> decimal \<Rightarrow> rounding_mode \<Rightarrow> decimal result" where
  "quantize_to_increment_in p value increment mode =
     (if increment \<le> 0 then Inl (ValueError ''venue increment must be positive'')
      else rbind (quantize_one_in p mode (ctx_div p value increment)) (\<lambda>steps. Inr (ctx_mul p steps increment)))"

definition quantize_to_increment ::
    "decimal \<Rightarrow> decimal \<Rightarrow> rounding_mode \<Rightarrow> decimal result" where
  quantize_to_increment_28: "quantize_to_increment = quantize_to_increment_in 28"

lemmas quantize_to_increment_def = quantize_to_increment_in_def [of 28, folded quantize_one_28 quantize_to_increment_28]


definition contract_order ::
    "strategy_definition \<Rightarrow> futures_margin_terms \<Rightarrow> decimal \<Rightarrow> decimal \<Rightarrow> EntryLevels \<Rightarrow> decimal
     \<Rightarrow> decimal \<Rightarrow> position_side \<Rightarrow> sized_entry or_skip result" where
  "contract_order strategy margin equity entry_price levels requested_notional fee_rate side =
     rbind (size_contracts margin
              \<lparr>cl_max_quote_notional = z_max_quote_notional (sd_sizing strategy),
               cl_min_quote_notional = z_min_quote_notional (sd_sizing strategy),
               cl_max_exposure_fraction =
                 l_max_strategy_exposure_fraction (sd_portfolio_limits strategy)\<rparr>
              equity side entry_price requested_notional fee_rate) (\<lambda>sized.
     case sized of
       Skip reason \<Rightarrow> Inr (Skip reason)
     | Take (quantity, _) \<Rightarrow>
         Inr (Take \<lparr>se_quantity = quantity, se_notional = dmul quantity entry_price,
                    se_entry_price = entry_price, se_stop_price = lv_stop_price levels,
                    se_target_price = lv_target_price levels\<rparr>))"

definition bounded_order ::
    "strategy_definition \<Rightarrow> decimal \<Rightarrow> decimal \<Rightarrow> EntryLevels \<Rightarrow> market_product \<Rightarrow> decimal
     \<Rightarrow> position_side \<Rightarrow> futures_margin_terms option \<Rightarrow> sized_entry or_skip result" where
  "bounded_order strategy cash entry_price levels product fee_rate side margin =
     rbind (target_guard_allows (sd_economic_guard strategy) side entry_price
              (lv_target_price levels) fee_rate) (\<lambda>allowed.
     if \<not> allowed then Inr (Skip NET_TARGET_BELOW_MINIMUM)
     else let realized_stop_distance =
                (if side = LONG then dsub entry_price (lv_stop_price levels)
                 else dsub (lv_stop_price levels) entry_price)
     in if realized_stop_distance \<le> 0 then Inr (Skip STOP_WITHIN_PRICE_INCREMENT)
     else let requested_risk = dmul cash (z_risk_fraction (sd_sizing strategy));
              risk_quantity = ddiv requested_risk realized_stop_distance
     in case margin of
          Some terms \<Rightarrow>
            contract_order strategy terms cash entry_price levels (dmul risk_quantity entry_price)
              fee_rate side
        | None \<Rightarrow>
            let fee_adjusted_cash = (if fee_rate > 0 then ddiv cash (dadd 1 fee_rate) else cash);
                maximum_notional =
                  min (min (z_max_quote_notional (sd_sizing strategy))
                           (dmul cash (l_max_strategy_exposure_fraction (sd_portfolio_limits strategy))))
                      fee_adjusted_cash;
                notional = min (dmul risk_quantity entry_price) maximum_notional
            in if notional < z_min_quote_notional (sd_sizing strategy)
               then Inr (Skip NOTIONAL_BELOW_MINIMUM)
               else rbind (quantize_to_increment (ddiv notional entry_price)
                             (mp_base_increment product) ROUND_DOWN) (\<lambda>quantity.
                 if quantity < mp_base_min_size product then Inr (Skip QUANTITY_BELOW_VENUE_MINIMUM)
                 else let notional = dmul quantity entry_price
                 in if notional < mp_quote_min_size product
                    then Inr (Skip NOTIONAL_BELOW_VENUE_MINIMUM)
                    else if side = LONG \<and> notional > cash then Inr (Skip INSUFFICIENT_CASH)
                    else Inr (Take \<lparr>se_quantity = quantity, se_notional = notional,
                                    se_entry_price = entry_price,
                                    se_stop_price = lv_stop_price levels,
                                    se_target_price = lv_target_price levels\<rparr>)))"

definition size_entry_or_skip ::
    "strategy_definition \<Rightarrow> decimal \<Rightarrow> decimal \<Rightarrow> decimal \<Rightarrow> market_product \<Rightarrow> decimal
     \<Rightarrow> position_side \<Rightarrow> futures_margin_terms option \<Rightarrow> sized_entry or_skip result" where
  "size_entry_or_skip strategy cash entry_price atr product fee_rate side margin =
     (if entry_price \<le> 0 then Inr (Skip ENTRY_PRICE_NOT_POSITIVE)
      else if atr \<le> 0 then Inr (Skip STOP_DISTANCE_NOT_POSITIVE)
      else if cash \<le> 0 then Inr (Skip INSUFFICIENT_CASH)
      else rbind (quantize_to_increment entry_price (mp_price_increment product) ROUND_DOWN)
        (\<lambda>snapped_entry.
      rbind (entry_levels side snapped_entry
               (dmul atr (as_multiple (x_initial_stop (sd_exits strategy))))
               (reward_risk_multiple (sd_exits strategy)) (Some (mp_price_increment product)))
        (\<lambda>levels.
      case levels of
        Skip reason \<Rightarrow> Inr (Skip reason)
      | Take lv \<Rightarrow> bounded_order strategy cash snapped_entry lv product fee_rate side margin)))"

definition size_entry ::
    "strategy_definition \<Rightarrow> decimal \<Rightarrow> decimal \<Rightarrow> decimal \<Rightarrow> market_product \<Rightarrow> decimal
     \<Rightarrow> position_side \<Rightarrow> sized_entry option result" where
  "size_entry strategy cash entry_price atr product fee_rate side =
     rbind (size_entry_or_skip strategy cash entry_price atr product fee_rate side None) (\<lambda>sized.
       case sized of Take entry \<Rightarrow> Inr (Some entry) | Skip _ \<Rightarrow> Inr None)"

definition size_long_entry ::
    "strategy_definition \<Rightarrow> decimal \<Rightarrow> decimal \<Rightarrow> decimal \<Rightarrow> market_product \<Rightarrow> decimal
     \<Rightarrow> sized_entry option result" where
  "size_long_entry strategy cash entry_price atr product fee_rate =
     size_entry strategy cash entry_price atr product fee_rate LONG"

definition size_pyramid_add_or_skip ::
    "strategy_definition \<Rightarrow> decimal \<Rightarrow> decimal \<Rightarrow> decimal \<Rightarrow> decimal option \<Rightarrow> market_product
     \<Rightarrow> decimal \<Rightarrow> position_side \<Rightarrow> sized_entry or_skip result" where
  "size_pyramid_add_or_skip strategy cash entry_price existing_stop existing_target product fee_rate side =
     (if entry_price \<le> 0 then Inr (Skip ENTRY_PRICE_NOT_POSITIVE)
      else if cash \<le> 0 then Inr (Skip INSUFFICIENT_CASH)
      else rbind (quantize_to_increment entry_price (mp_price_increment product) ROUND_DOWN)
        (\<lambda>snapped_entry.
      if snapped_entry \<le> 0 then Inr (Skip ENTRY_PRICE_NOT_POSITIVE)
      else let realized_stop_distance =
                 (if side = LONG then dsub snapped_entry existing_stop
                  else dsub existing_stop snapped_entry)
      in if realized_stop_distance \<le> 0 then Inr (Skip STOP_DISTANCE_NOT_POSITIVE)
      else bounded_order strategy cash snapped_entry
             \<lparr>lv_stop_price = existing_stop, lv_target_price = existing_target\<rparr>
             product fee_rate side None))"

section \<open>A concrete strategy and product\<close>

text \<open>Inputs on which the results of this theory are evaluated.\<close>

definition ex_strategy :: strategy_definition where
  "ex_strategy = \<lparr>sd_economic_guard = Some \<lparr>g_minimum_net_target_return_fraction = 1 / 200\<rparr>,
     sd_sizing = \<lparr>z_risk_fraction = 1 / 100, z_min_quote_notional = 10, z_max_quote_notional = 2500\<rparr>,
     sd_portfolio_limits = \<lparr>l_max_strategy_exposure_fraction = 1 / 2, l_max_concurrent_positions = 1\<rparr>,
     sd_exits = \<lparr>x_initial_stop = \<lparr>as_atr_indicator = ''atr'', as_multiple = 2\<rparr>,
       x_take_profit = RewardRiskTakeProfit 2, x_trailing_stop = AtrTrailingStop ''atr'' 3,
       x_max_bars_held = 48\<rparr>\<rparr>"

definition ex_product :: market_product where
  "ex_product = \<lparr>mp_product_id = ''BTC-USD'', mp_base_currency = ''BTC'', mp_quote_currency = ''USD'',
     mp_price_increment = 1 / 100, mp_base_increment = 1 / 10 ^ 8, mp_quote_increment = 1 / 100,
     mp_base_min_size = 1 / 10 ^ 6, mp_quote_min_size = 1, mp_trading_enabled = True,
     mp_status = None, mp_alias = None\<rparr>"

definition ex_terms :: futures_margin_terms where
  "ex_terms = \<lparr>ft_contract_size = 1 / 100, ft_long_rate = 1 / 4, ft_short_rate = 3 / 10,
     ft_maintenance_fraction = 1 / 2, ft_min_buffer_fraction = 1 / 2, ft_max_leverage = 2,
     ft_fee_per_contract = 1 / 10\<rparr>"

definition ex_limits :: contract_sizing_limits where
  "ex_limits = \<lparr>cl_max_quote_notional = 2500, cl_min_quote_notional = 10, cl_max_exposure_fraction = 1 / 2\<rparr>"

definition ex_sized :: sized_entry where
  "ex_sized = \<lparr>se_quantity = 25, se_notional = 2500, se_entry_price = 100, se_stop_price = 97,
     se_target_price = Some 106\<rparr>"

definition ex_sized_short :: sized_entry where
  "ex_sized_short = \<lparr>se_quantity = 25, se_notional = 2500, se_entry_price = 100, se_stop_price = 103,
     se_target_price = Some 94\<rparr>"

section \<open>Relative error of the context\<close>

text \<open>One rounding to 28 digits changes a value by at most the relative amount \<open>eta\<close>.\<close>

definition eta :: rat where "eta = 5 / 10 ^ 28"
definition tol :: rat where "tol = 1 + 1 / 10 ^ 26"

lemma fixp_eta: "\<bar>fixp 28 x - x\<bar> \<le> \<bar>x\<bar> * eta"
proof -
  have "(10 :: rat) powi (1 - int 28) / 2 = eta" by (simp add: eta_def power_int_def power_divide)
  then have "\<bar>x\<bar> * 10 powi (1 - int 28) / 2 = \<bar>x\<bar> * eta" by (metis times_divide_eq_right)
  then show ?thesis using fixp_error [of 28 x] by (metis zero_less_numeral)
qed

lemma fixp_up: "0 \<le> x \<Longrightarrow> fixp 28 x \<le> x * (1 + eta)"
  using fixp_eta [of x] by (simp add: abs_le_iff algebra_simps)

lemma fixp_down: "0 \<le> x \<Longrightarrow> x * (1 - eta) \<le> fixp 28 x"
  using fixp_eta [of x] by (simp add: abs_le_iff algebra_simps)

lemma eta_bounds: "0 < eta" "eta < 1" "0 < 1 - eta" "0 < 1 + eta"
  by (simp_all add: eta_def)

lemma quantize_eq_snap: "quantize_to_increment v inc mode = snap v (Some inc) mode"
  by (simp add: quantize_to_increment_def snap_def)

lemma quantize_down_bounds:
  assumes "0 \<le> v" "quantize_to_increment v inc ROUND_DOWN = Inr y"
  shows "0 \<le> y" "y \<le> v * (1 + eta) ^ 2"
proof -
  note d = snap_SomeD [OF assms(2) [unfolded quantize_eq_snap]]
  define n where "n = round_int ROUND_DOWN (ddiv v inc)"
  have q: "0 \<le> ddiv v inc" using assms(1) d(1) by (simp add: ctx_div_def)
  then have n: "0 \<le> (of_int n :: rat)" "of_int n \<le> ddiv v inc"
    unfolding n_def using round_down_le [OF q] by simp_all
  have y: "y = fixp 28 (of_int n * inc)" using d(2) by (simp add: n_def ctx_mul_def)
  show "0 \<le> y" using n(1) d(1) unfolding y by simp
  have "y \<le> of_int n * inc * (1 + eta)" unfolding y using n(1) d(1) by (intro fixp_up) simp
  also have "\<dots> \<le> ddiv v inc * inc * (1 + eta)"
    using n(2) d(1) eta_bounds by (intro mult_right_mono) auto
  also have "\<dots> \<le> v / inc * (1 + eta) * inc * (1 + eta)"
    unfolding ctx_div_def using fixp_up [of "v / inc"] assms(1) d(1) eta_bounds
    by (intro mult_right_mono) auto
  also have "\<dots> = v * (1 + eta) ^ 2" using d(1) by (simp add: power2_eq_square)
  finally show "y \<le> v * (1 + eta) ^ 2" .
qed

section \<open>What a sized spot order has been checked against\<close>

definition stop_distance :: "position_side \<Rightarrow> decimal \<Rightarrow> decimal \<Rightarrow> decimal" where
  "stop_distance side e stop = (if side = LONG then e - stop else stop - e)"

lemma min_chain:
  fixes a b c d :: "'a::linorder"
  assumes "n = min a (min (min b c) d)"
  shows "n \<le> a" "n \<le> b" "n \<le> c" "n \<le> d"
  using assms by (auto simp: min_def)

lemma bounded_order_spotD:
  assumes "bounded_order sd cash e lv product fee_rate side None = Inr (Take se)"
  obtains n where
    "0 < stop_distance side e (lv_stop_price lv)"
    "n \<le> dmul (ddiv (dmul cash (z_risk_fraction (sd_sizing sd)))
                  (fixp 28 (stop_distance side e (lv_stop_price lv)))) e"
    "n \<le> z_max_quote_notional (sd_sizing sd)"
    "n \<le> dmul cash (l_max_strategy_exposure_fraction (sd_portfolio_limits sd))"
    "z_min_quote_notional (sd_sizing sd) \<le> n"
    "quantize_to_increment (ddiv n e) (mp_base_increment product) ROUND_DOWN = Inr (se_quantity se)"
    "se_entry_price se = e" "se_stop_price se = lv_stop_price lv"
    "se_target_price se = lv_target_price lv" "se_notional se = dmul (se_quantity se) e"
    "mp_base_min_size product \<le> se_quantity se" "mp_quote_min_size product \<le> se_notional se"
    "side = LONG \<longrightarrow> se_notional se \<le> cash"
proof -
  have dist: "(if side = LONG then dsub e (lv_stop_price lv) else dsub (lv_stop_price lv) e)
      = fixp 28 (stop_distance side e (lv_stop_price lv))"
    by (simp add: stop_distance_def ctx_sub_def)
  define fac where "fac = (if fee_rate > 0 then ddiv cash (dadd 1 fee_rate) else cash)"
  define n where
    "n = min (dmul (ddiv (dmul cash (z_risk_fraction (sd_sizing sd)))
                      (fixp 28 (stop_distance side e (lv_stop_price lv)))) e)
           (min (min (z_max_quote_notional (sd_sizing sd))
                  (dmul cash (l_max_strategy_exposure_fraction (sd_portfolio_limits sd)))) fac)"
  show thesis
    using assms min_chain [OF n_def]
    unfolding bounded_order_def dist Let_def fac_def [symmetric] n_def [symmetric] option.case
    by (auto simp: not_le not_less split: if_splits intro!: that [of n])
qed

lemma sized_quantity_upper:
  assumes "quantize_to_increment (ddiv n e) inc ROUND_DOWN = Inr q" "0 < e" "0 \<le> n"
  shows "0 \<le> q" "q * e \<le> n * (1 + eta) ^ 3"
proof -
  have v: "0 \<le> ddiv n e" using assms by (simp add: ctx_div_def)
  note b = quantize_down_bounds [OF v assms(1)]
  show "0 \<le> q" by (rule b(1))
  have "ddiv n e \<le> n / e * (1 + eta)" unfolding ctx_div_def using assms by (intro fixp_up) simp
  then have "ddiv n e * (1 + eta) ^ 2 \<le> n / e * (1 + eta) * (1 + eta) ^ 2"
    using eta_bounds by (intro mult_right_mono) auto
  with b(2) have "q \<le> n / e * (1 + eta) ^ 3" by (simp add: power2_eq_square power3_eq_cube mult.assoc)
  then have "q * e \<le> n / e * (1 + eta) ^ 3 * e" using assms(2) by (intro mult_right_mono) auto
  then show "q * e \<le> n * (1 + eta) ^ 3" using assms(2) by simp
qed

lemma risk_chain:
  assumes "0 < e" "0 < d" "0 \<le> r" "0 \<le> n" "q * e \<le> n * (1 + eta) ^ 3"
    and "n \<le> dmul (ddiv (fixp 28 r) (fixp 28 d)) e"
  shows "q * d \<le> r * tol"
proof -
  have pos: "0 < fixp 28 d" "0 \<le> fixp 28 r" using assms by simp_all
  have "fixp 28 (fixp 28 r / fixp 28 d) \<le> fixp 28 r / fixp 28 d * (1 + eta)"
    using pos by (intro fixp_up) simp
  also have "\<dots> \<le> r * (1 + eta) / (d * (1 - eta)) * (1 + eta)"
    using fixp_up [OF assms(3)] fixp_down [of d] assms eta_bounds pos
    by (intro mult_right_mono frac_le) auto
  finally have q1: "ddiv (fixp 28 r) (fixp 28 d) \<le> r * (1 + eta) / (d * (1 - eta)) * (1 + eta)"
    by (simp add: ctx_div_def)
  have "n \<le> ddiv (fixp 28 r) (fixp 28 d) * e * (1 + eta)"
    using assms(6) fixp_up [of "ddiv (fixp 28 r) (fixp 28 d) * e"] pos assms(1)
    by (auto simp: ctx_mul_def ctx_div_def)
  also have "\<dots> \<le> r * (1 + eta) / (d * (1 - eta)) * (1 + eta) * e * (1 + eta)"
    using q1 assms(1) eta_bounds by (intro mult_right_mono) auto
  finally have n: "n \<le> r * (1 + eta) / (d * (1 - eta)) * (1 + eta) * e * (1 + eta)" .
  have "q * e \<le> r * (1 + eta) / (d * (1 - eta)) * (1 + eta) * e * (1 + eta) * (1 + eta) ^ 3"
    using assms(5) mult_right_mono [OF n, of "(1 + eta) ^ 3"] eta_bounds by auto
  then have "q * e * (d / e) \<le> r * (1 + eta) / (d * (1 - eta)) * (1 + eta) * e * (1 + eta) * (1 + eta) ^ 3 * (d / e)"
    using assms by (intro mult_right_mono) auto
  also have "\<dots> = r * ((1 + eta) ^ 6 / (1 - eta))"
    using assms eta_bounds by (simp add: field_simps eval_nat_numeral)
  also have "\<dots> \<le> r * tol" using assms(3) by (intro mult_left_mono) (simp_all add: eta_def tol_def power_divide)
  finally show ?thesis using assms(1) by simp
qed

lemma notional_chain:
  assumes "0 < e" "0 \<le> q" "q * e \<le> n * (1 + eta) ^ 3" "0 \<le> b" "n \<le> b * (1 + eta)"
  shows "dmul q e \<le> b * tol"
proof -
  have "dmul q e \<le> q * e * (1 + eta)" unfolding ctx_mul_def using assms by (intro fixp_up) simp
  also have "\<dots> \<le> n * (1 + eta) ^ 3 * (1 + eta)" using assms(3) eta_bounds by (intro mult_right_mono) auto
  also have "\<dots> \<le> b * (1 + eta) * (1 + eta) ^ 3 * (1 + eta)"
    using assms(5) eta_bounds by (intro mult_right_mono) auto
  also have "\<dots> = b * (1 + eta) ^ 5" by (simp add: eval_nat_numeral)
  also have "\<dots> \<le> b * tol" using assms(4) by (intro mult_left_mono) (simp_all add: eta_def tol_def power_divide)
  finally show ?thesis .
qed

lemma ex_strategy_valid: "strategy_valid ex_strategy"
  by (simp add: strategy_valid_def ex_strategy_def sizing_validate_ranges_def
      limits_validate_exposure_def atr_multiple_valid_def reward_risk_multiple_def)

lemma ex_ticks: "power_of_ten (mp_price_increment ex_product)" "power_of_ten (mp_base_increment ex_product)"
  unfolding power_of_ten_def by (intro exI [of _ "-2"] exI [of _ "-8"]; simp add: ex_product_def)+

lemma ex_sized_run:
  "size_entry_or_skip ex_strategy 10000 (100005 / 1000) (3 / 2) ex_product (1 / 1000) LONG None
     = Inr (Take ex_sized)"
  by code_simp

lemma ex_short_run:
  "size_entry_or_skip ex_strategy 10000 (100005 / 1000) (3 / 2) ex_product (1 / 1000) SHORT (Some ex_terms)
     = Inr (Take ex_sized_short)"
  by code_simp

lemma ex_contracts_run:
  "size_contracts ex_terms ex_limits 1000 LONG 100 5000 (1 / 1000) = Inr (Take (1663 / 100, True))"
  by code_simp

section \<open>Sized entries\<close>

lemma contract_order_TakeD:
  assumes "contract_order sd terms cash e lv req fee_rate side = Inr (Take se)"
  shows "se_entry_price se = e" "se_stop_price se = lv_stop_price lv"
    "se_target_price se = lv_target_price lv" "se_notional se = dmul (se_quantity se) e"
    "\<exists>capped. size_contracts terms
        \<lparr>cl_max_quote_notional = z_max_quote_notional (sd_sizing sd),
         cl_min_quote_notional = z_min_quote_notional (sd_sizing sd),
         cl_max_exposure_fraction = l_max_strategy_exposure_fraction (sd_portfolio_limits sd)\<rparr>
        cash side e req fee_rate = Inr (Take (se_quantity se, capped))"
  using assms unfolding contract_order_def by auto

lemma bounded_order_levels:
  assumes "bounded_order sd cash e lv product fee_rate side margin = Inr (Take se)"
  shows "0 < stop_distance side e (lv_stop_price lv)" "se_entry_price se = e"
    "se_stop_price se = lv_stop_price lv" "se_target_price se = lv_target_price lv"
    "se_notional se = dmul (se_quantity se) e"
proof -
  have "0 < stop_distance side e (lv_stop_price lv) \<and> se_entry_price se = e
     \<and> se_stop_price se = lv_stop_price lv \<and> se_target_price se = lv_target_price lv
     \<and> se_notional se = dmul (se_quantity se) e"
  proof (cases margin)
    case None
    from assms [unfolded None] show ?thesis by (rule bounded_order_spotD) blast
  next
    case (Some terms)
    then show ?thesis
      using assms unfolding bounded_order_def stop_distance_def
      by (auto simp: Let_def ctx_sub_def not_le split: if_splits dest: contract_order_TakeD)
  qed
  then show "0 < stop_distance side e (lv_stop_price lv)" "se_entry_price se = e"
    "se_stop_price se = lv_stop_price lv" "se_target_price se = lv_target_price lv"
    "se_notional se = dmul (se_quantity se) e" by simp_all
qed

lemma size_entry_TakeD:
  assumes "size_entry_or_skip sd cash price atr product fee_rate side margin = Inr (Take se)"
  obtains e lv where "0 < price" "0 < atr" "0 < cash"
    "quantize_to_increment price (mp_price_increment product) ROUND_DOWN = Inr e"
    "entry_levels side e (dmul atr (as_multiple (x_initial_stop (sd_exits sd))))
       (reward_risk_multiple (sd_exits sd)) (Some (mp_price_increment product)) = Inr (Take lv)"
    "bounded_order sd cash e lv product fee_rate side margin = Inr (Take se)"
  using assms unfolding size_entry_or_skip_def by (auto simp: not_le split: if_splits intro: that)

lemma spot_order_bounds:
  assumes "bounded_order sd cash e lv product fee_rate side None = Inr (Take se)"
    and "0 < e" "0 < cash" "strategy_valid sd"
  shows "se_quantity se * stop_distance side e (se_stop_price se)
           \<le> cash * z_risk_fraction (sd_sizing sd) * tol"
    and "se_notional se \<le> z_max_quote_notional (sd_sizing sd) * tol"
    and "se_notional se \<le> cash * l_max_strategy_exposure_fraction (sd_portfolio_limits sd) * tol"
proof -
  note v = strategy_validD [OF assms(4)]
  obtain n where n:
      "0 < stop_distance side e (lv_stop_price lv)"
      "n \<le> dmul (ddiv (dmul cash (z_risk_fraction (sd_sizing sd)))
            (fixp 28 (stop_distance side e (lv_stop_price lv)))) e"
      "n \<le> z_max_quote_notional (sd_sizing sd)"
      "n \<le> dmul cash (l_max_strategy_exposure_fraction (sd_portfolio_limits sd))"
      "z_min_quote_notional (sd_sizing sd) \<le> n"
      "quantize_to_increment (ddiv n e) (mp_base_increment product) ROUND_DOWN = Inr (se_quantity se)"
      "se_stop_price se = lv_stop_price lv" "se_notional se = dmul (se_quantity se) e"
    using assms(1) by (rule bounded_order_spotD) blast
  have n0: "0 \<le> n" using n(5) v(2) by linarith
  note q = sized_quantity_upper [OF n(6) assms(2) n0]
  show "se_quantity se * stop_distance side e (se_stop_price se)
      \<le> cash * z_risk_fraction (sd_sizing sd) * tol"
    unfolding n(7) using assms v(1) n0 n(1,2) q(2)
    by (intro risk_chain [of e _ _ n]) (auto simp: ctx_mul_def)
  show "se_notional se \<le> z_max_quote_notional (sd_sizing sd) * tol"
    unfolding n(8) using assms(2) q v(3) n(3) eta_bounds
    by (intro notional_chain [of e _ n]) (auto simp: algebra_simps add_increasing2)
  have "dmul cash (l_max_strategy_exposure_fraction (sd_portfolio_limits sd))
      \<le> cash * l_max_strategy_exposure_fraction (sd_portfolio_limits sd) * (1 + eta)"
    unfolding ctx_mul_def using assms(3) v(4) by (intro fixp_up) simp
  then show "se_notional se \<le> cash * l_max_strategy_exposure_fraction (sd_portfolio_limits sd) * tol"
    unfolding n(8) using assms(2,3) q v(4) n(4) by (intro notional_chain [of e _ n]) auto
qed



text \<open>A sized entry (spot or futures) has its stop strictly on the losing side of the entry
  and its target on the winning side, on the venue's price grid: a long has
  \<open>0 < stop < entry < target\<close>, a short has \<open>entry < stop\<close> and
  \<open>0 < target \<le> entry\<close>. The price increment is a power of ten, as every Coinbase
  increment is.\<close>

theorem size_entry_levels_ordered:
  assumes "size_entry_or_skip sd cash price atr product fee_rate side margin = Inr (Take se)"
    and "strategy_valid sd" "power_of_ten (mp_price_increment product)"
  shows "(side = LONG \<longrightarrow> 0 < se_stop_price se \<and> se_stop_price se < se_entry_price se
            \<and> (\<forall>t. se_target_price se = Some t \<longrightarrow> se_entry_price se < t))
       \<and> (side = SHORT \<longrightarrow> se_entry_price se < se_stop_price se
            \<and> (\<forall>t. se_target_price se = Some t \<longrightarrow> 0 < t \<and> t \<le> se_entry_price se))
       \<and> on_tick (mp_price_increment product) (se_entry_price se)"
proof -
  obtain e lv where e:
      "quantize_to_increment price (mp_price_increment product) ROUND_DOWN = Inr e"
      "entry_levels side e (dmul atr (as_multiple (x_initial_stop (sd_exits sd))))
         (reward_risk_multiple (sd_exits sd)) (Some (mp_price_increment product)) = Inr (Take lv)"
      "bounded_order sd cash e lv product fee_rate side margin = Inr (Take se)"
    using assms(1) by (rule size_entry_TakeD)
  have tick: "on_tick (mp_price_increment product) e"
    using snap_result_on_tick [OF assms(3)] e(1) by (simp add: quantize_eq_snap)
  then have grid: "grid_price (Some (mp_price_increment product)) e"
    using assms(3) by (simp add: grid_price_def)
  have rm: "0 \<le> m" if "reward_risk_multiple (sd_exits sd) = Some m" for m
    using assms(2) that by (auto simp: strategy_valid_def atr_multiple_valid_def)
  note lv = entry_levels_sides [OF e(2) grid rm] and b = bounded_order_levels [OF e(3)]
  have "side = LONG \<longrightarrow> se_stop_price se < se_entry_price se"
    using b(1-3) by (auto simp: stop_distance_def)
  with lv b(2-4) tick show ?thesis by auto
qed

theorem size_entry_levels_ordered_witness:
  "se_entry_price ex_sized_short < se_stop_price ex_sized_short
   \<and> (\<exists>t. se_target_price ex_sized_short = Some t \<and> 0 < t \<and> t \<le> se_entry_price ex_sized_short)"
  using size_entry_levels_ordered [OF ex_short_run ex_strategy_valid ex_ticks(1)]
  by (simp add: ex_sized_short_def)

text \<open>A sized spot entry is a legal venue order: its quantity is a whole number of base
  increments and at least the venue's minimum, its notional is the (context) product of quantity
  and price and at least the venue's quote minimum, and a long never costs more than the cash.\<close>

theorem size_entry_venue_legal:
  assumes "size_entry_or_skip sd cash price atr product fee_rate side None = Inr (Take se)"
    and "power_of_ten (mp_base_increment product)"
  shows "on_tick (mp_base_increment product) (se_quantity se)
       \<and> mp_base_min_size product \<le> se_quantity se
       \<and> se_notional se = dmul (se_quantity se) (se_entry_price se)
       \<and> mp_quote_min_size product \<le> se_notional se
       \<and> (side = LONG \<longrightarrow> se_notional se \<le> cash)"
proof -
  obtain e lv where e: "bounded_order sd cash e lv product fee_rate side None = Inr (Take se)"
    using assms(1) by (rule size_entry_TakeD)
  obtain n where n:
      "quantize_to_increment (ddiv n e) (mp_base_increment product) ROUND_DOWN = Inr (se_quantity se)"
      "se_entry_price se = e" "se_notional se = dmul (se_quantity se) e"
      "mp_base_min_size product \<le> se_quantity se" "mp_quote_min_size product \<le> se_notional se"
      "side = LONG \<longrightarrow> se_notional se \<le> cash"
    using e by (rule bounded_order_spotD) blast
  have "on_tick (mp_base_increment product) (se_quantity se)"
    using snap_result_on_tick [OF assms(2)] n(1) by (simp add: quantize_eq_snap)
  with n show ?thesis by simp
qed

theorem size_entry_venue_legal_witness:
  "on_tick (mp_base_increment ex_product) (se_quantity ex_sized)
   \<and> mp_base_min_size ex_product \<le> se_quantity ex_sized \<and> se_notional ex_sized \<le> 10000"
  using size_entry_venue_legal [OF ex_sized_run ex_ticks(2)] by simp

section \<open>Futures bounds\<close>

text \<open>Terms and limits as the runtime builds them: positive sizes and rates, a buffer below one.\<close>

definition margin_terms_valid :: "futures_margin_terms \<Rightarrow> bool" where
  "margin_terms_valid terms \<longleftrightarrow>
     0 < ft_contract_size terms \<and> 0 < ft_long_rate terms \<and> 0 < ft_short_rate terms
     \<and> 0 < ft_maintenance_fraction terms \<and> 0 \<le> ft_min_buffer_fraction terms
     \<and> ft_min_buffer_fraction terms < 1 \<and> 0 < ft_max_leverage terms
     \<and> 0 \<le> ft_fee_per_contract terms"

lemma ratio_bound:
  assumes "0 \<le> N" "0 < D" "0 \<le> N'" "N' \<le> N * (1 + eta)" "D * (1 - eta) ^ 3 \<le> D'"
    and "n \<le> ddiv N' D'"
  shows "n * D \<le> N * tol"
proof -
  have "0 < D * (1 - eta) ^ 3" using assms(2) eta_bounds(3) by simp
  then have D': "0 < D'" using assms(5) by linarith
  have "n \<le> N' / D' * (1 + eta)"
    using assms(6) fixp_up [of "N' / D'"] assms(3) D' by (auto simp: ctx_div_def)
  also have "\<dots> \<le> N * (1 + eta) / (D * (1 - eta) ^ 3) * (1 + eta)"
    using assms D' eta_bounds by (intro mult_right_mono frac_le) auto
  finally have "n * D \<le> N * (1 + eta) / (D * (1 - eta) ^ 3) * (1 + eta) * D"
    using assms(2) by (intro mult_right_mono) auto
  also have "\<dots> = N * ((1 + eta) ^ 2 / (1 - eta) ^ 3)"
    using assms(2) by (simp add: power2_eq_square)
  also have "\<dots> \<le> N * tol" using assms(1) by (intro mult_left_mono) (simp_all add: eta_def tol_def power_divide)
  finally show ?thesis .
qed

text \<open>Lower bounds of the denominators: two roundings per term, one for the sum.\<close>

lemma eta_square: "0 \<le> (1 - eta) ^ 2" "(1 - eta) ^ 2 \<le> 1 - eta" "(1 - eta) ^ 2 \<le> 1"
  by (simp_all add: eta_def power2_eq_square)

lemma dmul_up: "0 \<le> x \<Longrightarrow> 0 \<le> y \<Longrightarrow> dmul x y \<le> x * y * (1 + eta)"
  unfolding ctx_mul_def by (intro fixp_up) simp

lemma dmul_down: "0 \<le> x \<Longrightarrow> 0 \<le> y \<Longrightarrow> x * y * (1 - eta) \<le> dmul x y"
  unfolding ctx_mul_def by (intro fixp_down) simp

lemma self_down2: "0 \<le> x \<Longrightarrow> x * (1 - eta) ^ 2 \<le> x"
  using eta_square(3) mult_left_mono [of "(1 - eta) ^ 2" 1 x] by simp

lemma dmul_down2: "0 \<le> x \<Longrightarrow> 0 \<le> y \<Longrightarrow> x * y * (1 - eta) ^ 2 \<le> dmul x y"
  using dmul_down [of x y] mult_left_mono [OF eta_square(2), of "x * y"] by simp

lemma dmul_dmul_down2:
  assumes "0 \<le> x" "0 \<le> y" "0 \<le> z"
  shows "x * y * z * (1 - eta) ^ 2 \<le> dmul (dmul x y) z"
proof -
  have "x * y * (1 - eta) * z * (1 - eta) \<le> dmul x y * z * (1 - eta)"
    using dmul_down [of x y] assms eta_bounds by (intro mult_right_mono) auto
  also have "\<dots> \<le> dmul (dmul x y) z"
    using assms by (intro dmul_down) (simp_all add: ctx_mul_def)
  finally show ?thesis by (simp add: power2_eq_square mult.commute mult.left_commute)
qed

lemma dadd_down3:
  assumes "0 \<le> X" "0 \<le> Y" "X * (1 - eta) ^ 2 \<le> x" "Y * (1 - eta) ^ 2 \<le> y"
  shows "(X + Y) * (1 - eta) ^ 3 \<le> dadd x y"
proof -
  have nn: "0 \<le> x" "0 \<le> y"
    using assms eta_square(1) mult_nonneg_nonneg [of X "(1 - eta) ^ 2"] mult_nonneg_nonneg [of Y "(1 - eta) ^ 2"]
    by linarith+
  have "(X + Y) * (1 - eta) ^ 3 = (X * (1 - eta) ^ 2 + Y * (1 - eta) ^ 2) * (1 - eta)"
    by (simp add: power3_eq_cube power2_eq_square distrib_right)
  also have "\<dots> \<le> (x + y) * (1 - eta)" using assms eta_bounds by (intro mult_right_mono) auto
  also have "\<dots> \<le> dadd x y" unfolding ctx_add_def using nn by (intro fixp_down) simp
  finally show ?thesis .
qed

text \<open>The notional and the entry fee of one contract, as \<open>size_contracts\<close> computes them.\<close>

definition contract_unit :: "futures_margin_terms \<Rightarrow> decimal \<Rightarrow> decimal" where
  "contract_unit terms price = dmul price (ft_contract_size terms)"

definition contract_fee :: "futures_margin_terms \<Rightarrow> decimal \<Rightarrow> decimal \<Rightarrow> decimal" where
  "contract_fee terms price mfr = dadd (dmul (contract_unit terms price) mfr) (ft_fee_per_contract terms)"

definition buffer_room :: "futures_margin_terms \<Rightarrow> decimal" where
  "buffer_room terms = dsub 1 (ft_min_buffer_fraction terms)"

lemma size_contracts_TakeD:
  fixes terms limits equity side price req mfr
  defines "u \<equiv> contract_unit terms price" and "f \<equiv> contract_fee terms price mfr"
    and "r \<equiv> initial_rate terms side" and "L \<equiv> ft_max_leverage terms"
    and "rm \<equiv> buffer_room terms" and "X \<equiv> cl_max_exposure_fraction limits"
    and "mf \<equiv> ft_maintenance_fraction terms"
  assumes "size_contracts terms limits equity side price req mfr = Inr (Take (q, capped))"
  obtains n :: int where "0 < equity" "0 < u" "1 \<le> n" "q = dmul (of_int n) (ft_contract_size terms)"
    "of_int n \<le> ddiv (cl_max_quote_notional limits) u"
    "of_int n \<le> ddiv (dmul L equity) (dadd u (dmul L f))"
    "of_int n \<le> ddiv (dmul rm equity) (dadd (dmul (dmul u r) mf) (dmul rm f))"
    "of_int n \<le> ddiv (dmul X equity) (dadd (dmul u r) (dmul X f))"
    "of_int n \<le> ddiv req u"
    "cl_min_quote_notional limits \<le> dmul (of_int n) u"
proof -
  note folds = contract_unit_def [of terms price, symmetric, folded u_def]
    contract_fee_def [of terms price mfr, symmetric, folded u_def f_def]
    buffer_room_def [of terms, symmetric, folded rm_def] r_def [symmetric] L_def [symmetric]
    X_def [symmetric] mf_def [symmetric]
  define a where "a = ddiv (cl_max_quote_notional limits) u"
  define b where "b = ddiv (dmul L equity) (dadd u (dmul L f))"
  define c where "c = ddiv (dmul rm equity) (dadd (dmul (dmul u r) mf) (dmul rm f))"
  define d where "d = ddiv (dmul X equity) (dadd (dmul u r) (dmul X f))"
  define g where "g = ddiv req u"
  define n where "n = \<lfloor>min g (min (min (min a b) c) d)\<rfloor>"
  note run = assms(8) [unfolded size_contracts_def Let_def folds]
  have e: "\<not> equity \<le> 0" using run by (cases "equity \<le> 0") auto
  have u: "\<not> u \<le> 0" using run e by (cases "u \<le> 0") auto
  have "(if of_int n < (1 :: rat) then Inr (Skip BELOW_ONE_CONTRACT)
      else if dmul (of_int n) u < cl_min_quote_notional limits then Inr (Skip NOTIONAL_BELOW_MINIMUM)
      else Inr (Take (dmul (of_int n) (ft_contract_size terms), g > min (min (min a b) c) d)))
      = (Inr (Take (q, capped)) :: (decimal \<times> bool) or_skip result)"
    using run
    unfolding if_not_P [OF e] if_not_P [OF u] rbind_eq_Inr ctx_div_checked_Inr
    by (elim exE conjE) (simp only: to_integral_value_def round_int.simps
        a_def b_def c_def d_def g_def n_def)
  then have t: "\<not> of_int n < (1 :: rat)" "\<not> dmul (of_int n) u < cl_min_quote_notional limits"
      "q = dmul (of_int n) (ft_contract_size terms)"
    by (auto split: if_splits)
  have "of_int n \<le> min g (min (min (min a b) c) d)" unfolding n_def by (rule of_int_floor_le)
  then have le: "of_int n \<le> a" "of_int n \<le> b" "of_int n \<le> c" "of_int n \<le> d" "of_int n \<le> g"
    by simp_all
  show thesis
    by (rule that [of n]) (use e u le t in \<open>simp_all add: a_def b_def c_def d_def g_def\<close>)
qed



end
