(* ===== verification/Trailing.thy ===== *)
theory Trailing
  imports Sizing
begin

text \<open>
  The ATR trailing-stop ratchet (\<open>trading/trailing.py\<close>). Long and short ratchets share one
  contract, the locale \<open>ratchet\<close>: the working stop only tightens and the trail extreme covers
  every bar seen. The consequences for whole runs of bars are proved once in the locale and obtained
  for both sides by interpretation.
\<close>

record trailing_stop_state =
  ts_stop_price :: decimal
  ts_trail_extreme :: decimal

definition ratcheted_long_stop_in ::
    "nat \<Rightarrow> decimal \<Rightarrow> decimal option \<Rightarrow> decimal \<Rightarrow> decimal option \<Rightarrow> decimal \<Rightarrow> decimal option \<Rightarrow> bool
     \<Rightarrow> trailing_stop_state result" where
  "ratcheted_long_stop_in p current_stop trail_extreme bar_high atr multiple price_increment ratchet =
     (let extreme = (case trail_extreme of None \<Rightarrow> bar_high | Some x \<Rightarrow> max x bar_high);
          unchanged = \<lparr>ts_stop_price = current_stop, ts_trail_extreme = extreme\<rparr>
      in case atr of
           None \<Rightarrow> Inr unchanged
         | Some a \<Rightarrow>
             if \<not> ratchet \<or> a \<le> 0 \<or> multiple \<le> 0 then Inr unchanged
             else let candidate = ctx_sub p extreme (ctx_mul p a multiple)
             in rbind (case price_increment of
                         None \<Rightarrow> Inr candidate
                       | Some inc \<Rightarrow> quantize_to_increment_in p candidate inc ROUND_DOWN) (\<lambda>candidate.
                if candidate \<le> 0 then Inr unchanged
                else Inr \<lparr>ts_stop_price = max current_stop candidate, ts_trail_extreme = extreme\<rparr>))"

definition ratcheted_long_stop ::
    "decimal \<Rightarrow> decimal option \<Rightarrow> decimal \<Rightarrow> decimal option \<Rightarrow> decimal \<Rightarrow> decimal option \<Rightarrow> bool
     \<Rightarrow> trailing_stop_state result" where
  ratcheted_long_stop_28: "ratcheted_long_stop = ratcheted_long_stop_in 28"

lemmas ratcheted_long_stop_def = ratcheted_long_stop_in_def [of 28, folded quantize_to_increment_28 ratcheted_long_stop_28]

definition ratcheted_short_stop_in ::
    "nat \<Rightarrow> decimal \<Rightarrow> decimal option \<Rightarrow> decimal \<Rightarrow> decimal option \<Rightarrow> decimal \<Rightarrow> decimal option \<Rightarrow> bool
     \<Rightarrow> trailing_stop_state result" where
  "ratcheted_short_stop_in p current_stop trail_extreme bar_low atr multiple price_increment ratchet =
     (let extreme = (case trail_extreme of None \<Rightarrow> bar_low | Some x \<Rightarrow> min x bar_low);
          unchanged = \<lparr>ts_stop_price = current_stop, ts_trail_extreme = extreme\<rparr>
      in case atr of
           None \<Rightarrow> Inr unchanged
         | Some a \<Rightarrow>
             if \<not> ratchet \<or> a \<le> 0 \<or> multiple \<le> 0 then Inr unchanged
             else let candidate = ctx_add p extreme (ctx_mul p a multiple)
             in rbind (case price_increment of
                         None \<Rightarrow> Inr candidate
                       | Some inc \<Rightarrow> quantize_to_increment_in p candidate inc ROUND_DOWN) (\<lambda>candidate.
                if candidate \<le> 0 then Inr unchanged
                else Inr \<lparr>ts_stop_price = min current_stop candidate, ts_trail_extreme = extreme\<rparr>))"

definition ratcheted_short_stop ::
    "decimal \<Rightarrow> decimal option \<Rightarrow> decimal \<Rightarrow> decimal option \<Rightarrow> decimal \<Rightarrow> decimal option \<Rightarrow> bool
     \<Rightarrow> trailing_stop_state result" where
  ratcheted_short_stop_28: "ratcheted_short_stop = ratcheted_short_stop_in 28"

lemmas ratcheted_short_stop_def = ratcheted_short_stop_in_def [of 28, folded quantize_to_increment_28 ratcheted_short_stop_28]

section \<open>Runs of bars\<close>

text \<open>A bar is its high (or low), the ATR known at its close and whether the ratchet is armed.\<close>

type_synonym trail_bar = "decimal \<times> decimal option \<times> bool"
type_synonym trail_step =
  "decimal \<Rightarrow> decimal option \<Rightarrow> decimal \<Rightarrow> decimal option \<Rightarrow> decimal \<Rightarrow> decimal option \<Rightarrow> bool
   \<Rightarrow> trailing_stop_state result"

fun trail_run ::
    "trail_step \<Rightarrow> decimal \<Rightarrow> decimal option \<Rightarrow> decimal \<Rightarrow> decimal option \<Rightarrow> trail_bar list
     \<Rightarrow> (decimal \<times> decimal option) result" where
  "trail_run step multiple inc stop extreme [] = Inr (stop, extreme)"
| "trail_run step multiple inc stop extreme ((bar, atr, armed) # bars) =
     rbind (step stop extreme bar atr multiple inc armed) (\<lambda>state.
       trail_run step multiple inc (ts_stop_price state) (Some (ts_trail_extreme state)) bars)"

text \<open>
  The contract: \<open>le a b\<close> says that \<open>b\<close> is at least as favourable as \<open>a\<close>
  (\<open>\<le>\<close> for a long, \<open>\<ge>\<close> for a short).
\<close>

locale ratchet =
  fixes le :: "decimal \<Rightarrow> decimal \<Rightarrow> bool" and step :: trail_step
  assumes le_refl: "le a a"
    and le_trans: "le a b \<Longrightarrow> le b c \<Longrightarrow> le a c"
    and step_tightens: "step stop extreme bar atr m inc armed = Inr s \<Longrightarrow> le stop (ts_stop_price s)"
    and step_covers: "step stop extreme bar atr m inc armed = Inr s \<Longrightarrow> le bar (ts_trail_extreme s)"
    and step_extends: "step stop (Some x) bar atr m inc armed = Inr s \<Longrightarrow> le x (ts_trail_extreme s)"
    and step_bounded:
      "step stop extreme bar atr m inc armed = Inr s \<Longrightarrow> grid_price inc bar
       \<Longrightarrow> (\<And>x. extreme = Some x \<Longrightarrow> grid_price inc x) \<Longrightarrow> le stop bar \<or> (\<exists>x. extreme = Some x \<and> le stop x)
       \<Longrightarrow> grid_price inc (ts_trail_extreme s) \<and> le (ts_stop_price s) (ts_trail_extreme s)"
    and step_disarmed: "\<not> armed \<or> atr = None \<Longrightarrow> step stop extreme bar atr m inc armed = Inr s
       \<Longrightarrow> ts_stop_price s = stop"
begin

lemma run_extends:
  "trail_run step m inc stop (Some x) bars = Inr (stop', extreme')
   \<Longrightarrow> \<exists>y. extreme' = Some y \<and> le x y \<and> (\<forall>b \<in> fst ` set bars. le b y)"
proof (induction bars arbitrary: stop x)
  case (Cons bar bars)
  obtain b atr armed where bar: "bar = (b, atr, armed)" by (cases bar)
  from Cons.prems obtain s where s: "step stop (Some x) b atr m inc armed = Inr s"
    "trail_run step m inc (ts_stop_price s) (Some (ts_trail_extreme s)) bars = Inr (stop', extreme')"
    by (auto simp: bar)
  from Cons.IH [OF s(2)] step_extends [OF s(1)] step_covers [OF s(1)] show ?case
    by (auto simp: bar intro: le_trans)
qed (auto intro: le_refl)

lemma run_covers:
  assumes "trail_run step m inc stop extreme bars = Inr (stop', extreme')" "b \<in> fst ` set bars"
  shows "\<exists>y. extreme' = Some y \<and> le b y"
proof -
  from assms(2) obtain b0 atr armed rest where bars: "bars = (b0, atr, armed) # rest"
    by (cases bars) auto
  from assms(1) obtain s where s: "step stop extreme b0 atr m inc armed = Inr s"
    "trail_run step m inc (ts_stop_price s) (Some (ts_trail_extreme s)) rest = Inr (stop', extreme')"
    by (auto simp: bars)
  from run_extends [OF s(2)] step_covers [OF s(1)] assms(2) show ?thesis
    by (auto simp: bars intro: le_trans)
qed

lemma run_tightens: "trail_run step m inc stop extreme bars = Inr (stop', extreme') \<Longrightarrow> le stop stop'"
proof (induction bars arbitrary: stop extreme)
  case (Cons bar bars)
  then show ?case by (cases bar) (auto intro: le_trans dest: step_tightens)
qed (simp add: le_refl)

lemma run_disarmed:
  "trail_run step m inc stop extreme bars = Inr (stop', extreme')
   \<Longrightarrow> \<forall>(b, atr, armed) \<in> set bars. \<not> armed \<or> atr = None \<Longrightarrow> stop' = stop"
proof (induction bars arbitrary: stop extreme)
  case (Cons bar bars)
  obtain b atr armed where bar: "bar = (b, atr, armed)" by (cases bar)
  from Cons.prems obtain s where s: "step stop extreme b atr m inc armed = Inr s"
    "trail_run step m inc (ts_stop_price s) (Some (ts_trail_extreme s)) bars = Inr (stop', extreme')"
    by (auto simp: bar)
  with Cons step_disarmed [OF _ s(1)] show ?case by (auto simp: bar)
qed simp

lemma run_bounded_from:
  "trail_run step m inc stop (Some x) bars = Inr (stop', extreme') \<Longrightarrow> le stop x \<Longrightarrow> grid_price inc x
   \<Longrightarrow> \<forall>b \<in> fst ` set bars. grid_price inc b \<Longrightarrow> \<exists>y. extreme' = Some y \<and> le stop' y"
proof (induction bars arbitrary: stop x)
  case (Cons bar bars)
  obtain b atr armed where bar: "bar = (b, atr, armed)" by (cases bar)
  from Cons.prems obtain s where s: "step stop (Some x) b atr m inc armed = Inr s"
    "trail_run step m inc (ts_stop_price s) (Some (ts_trail_extreme s)) bars = Inr (stop', extreme')"
    by (auto simp: bar)
  have "grid_price inc (ts_trail_extreme s) \<and> le (ts_stop_price s) (ts_trail_extreme s)"
    using Cons.prems by (intro step_bounded [OF s(1)]) (auto simp: bar)
  with Cons.IH [OF s(2)] Cons.prems(4) show ?case by (auto simp: bar)
qed auto

lemma run_bounded:
  assumes "trail_run step m inc stop None (bar # bars) = Inr (stop', extreme')" "le stop (fst bar)"
    and "\<forall>b \<in> fst ` set (bar # bars). grid_price inc b"
  shows "\<exists>y. extreme' = Some y \<and> le stop' y"
proof -
  obtain b atr armed where bar: "bar = (b, atr, armed)" by (cases bar)
  from assms(1) obtain s where s: "step stop None b atr m inc armed = Inr s"
    "trail_run step m inc (ts_stop_price s) (Some (ts_trail_extreme s)) bars = Inr (stop', extreme')"
    by (auto simp: bar)
  have "grid_price inc (ts_trail_extreme s) \<and> le (ts_stop_price s) (ts_trail_extreme s)"
    using assms by (intro step_bounded [OF s(1)]) (auto simp: bar)
  with run_bounded_from [OF s(2)] assms(3) show ?thesis by auto
qed

end

section \<open>Both ratchets meet the contract\<close>

lemma quantized_candidate:
  "(case inc of None \<Rightarrow> Inr c | Some i \<Rightarrow> quantize_to_increment c i mode) = snap c inc mode"
  by (cases inc) (simp_all add: quantize_eq_snap)

lemma snap_above_grid:
  assumes "grid_price inc x" "0 \<le> d" "snap (dadd x d) inc mode = Inr y"
  shows "x \<le> y"
proof -
  have "x \<le> dadd x d"
    unfolding ctx_add_def using assms(2) grid_price_fix [OF assms(1)] by (intro d28.rnd_lower) auto
  from snap_mono [OF this grid_price_snap [OF assms(1)] assms(3)] show ?thesis .
qed

lemma dmul_nonneg: "0 < a \<Longrightarrow> 0 < b \<Longrightarrow> 0 \<le> dmul a b"
  by (simp add: ctx_mul_def)

lemma ratcheted_long_stopD:
  assumes "ratcheted_long_stop stop extreme bar atr m inc armed = Inr s"
  shows "ts_trail_extreme s = (case extreme of None \<Rightarrow> bar | Some x \<Rightarrow> max x bar)"
    and "ts_stop_price s = stop \<or> (\<exists>a c. atr = Some a \<and> armed \<and> 0 < a \<and> 0 < m \<and> 0 < c
           \<and> snap (dsub (ts_trail_extreme s) (dmul a m)) inc ROUND_DOWN = Inr c
           \<and> ts_stop_price s = max stop c)"
  using assms unfolding ratcheted_long_stop_def Let_def quantized_candidate
  by (auto split: option.splits if_splits simp: not_le)

lemma ratcheted_short_stopD:
  assumes "ratcheted_short_stop stop extreme bar atr m inc armed = Inr s"
  shows "ts_trail_extreme s = (case extreme of None \<Rightarrow> bar | Some x \<Rightarrow> min x bar)"
    and "ts_stop_price s = stop \<or> (\<exists>a c. atr = Some a \<and> armed \<and> 0 < a \<and> 0 < m \<and> 0 < c
           \<and> snap (dadd (ts_trail_extreme s) (dmul a m)) inc ROUND_DOWN = Inr c
           \<and> ts_stop_price s = min stop c)"
  using assms unfolding ratcheted_short_stop_def Let_def quantized_candidate
  by (auto split: option.splits if_splits simp: not_le)

interpretation long: ratchet "(\<le>)" ratcheted_long_stop
proof (unfold_locales, goal_cases)
  case (4 stop extreme bar atr m inc armed s)
  show ?case by (simp add: ratcheted_long_stopD(1) [OF 4] split: option.split)
next
  case (5 stop x bar atr m inc armed s)
  show ?case by (simp add: ratcheted_long_stopD(1) [OF 5])
next
  case (6 stop extreme bar atr m inc armed s)
  note D = ratcheted_long_stopD [OF 6(1)]
  have g: "grid_price inc (ts_trail_extreme s)" "stop \<le> ts_trail_extreme s"
    using 6(2-4) by (auto simp: D(1) max_def split: option.splits)
  from D(2) show ?case
    using g snap_below_grid [OF g(1) dmul_nonneg] by auto
qed (auto dest!: ratcheted_long_stopD(2))

interpretation short: ratchet "(\<ge>)" ratcheted_short_stop
proof (unfold_locales, goal_cases)
  case (4 stop extreme bar atr m inc armed s)
  show ?case by (simp add: ratcheted_short_stopD(1) [OF 4] split: option.split)
next
  case (5 stop x bar atr m inc armed s)
  show ?case by (simp add: ratcheted_short_stopD(1) [OF 5])
next
  case (6 stop extreme bar atr m inc armed s)
  note D = ratcheted_short_stopD [OF 6(1)]
  have g: "grid_price inc (ts_trail_extreme s)" "ts_trail_extreme s \<le> stop"
    using 6(2-4) by (auto simp: D(1) min_def split: option.splits)
  from D(2) show ?case
    using g snap_above_grid [OF g(1) dmul_nonneg] by auto
qed (auto dest!: ratcheted_short_stopD(2))

section \<open>Trailing stops over whole runs\<close>

text \<open>C35: A long trailing stop never decreases: over any run of bars, whatever ATR values arrive and
  whenever the ratchet is armed, the working stop only rises and the trail extreme is at least every
  high seen; a run with no armed bar that has an ATR leaves the stop where it was.\<close>

theorem long_trailing_stop_never_loosens:
  assumes "trail_run ratcheted_long_stop m inc stop extreme bars = Inr (stop', extreme')"
  shows "stop \<le> stop' \<and> (\<forall>b. b \<in> fst ` set bars \<longrightarrow> (\<exists>y. extreme' = Some y \<and> b \<le> y))
       \<and> ((\<forall>(b, atr, armed) \<in> set bars. \<not> armed \<or> atr = None) \<longrightarrow> stop' = stop)"
  using long.run_tightens [OF assms] long.run_covers [OF assms] long.run_disarmed [OF assms] by blast

definition ex_bars :: "trail_bar list" where
  "ex_bars = [(101, Some 2, False), (108, Some 2, True), (105, None, True), (107, Some 1, True)]"

theorem long_trailing_stop_never_loosens_witness:
  "trail_run ratcheted_long_stop 3 (Some (1 / 100)) 97 None ex_bars = Inr (105, Some 108)
   \<and> (97 :: decimal) \<le> 105"
proof -
  have run: "trail_run ratcheted_long_stop 3 (Some (1 / 100)) 97 None ex_bars = Inr (105, Some 108)"
    by code_simp
  show ?thesis using run long_trailing_stop_never_loosens [OF run] by blast
qed

text \<open>A short trailing stop never increases, and the trail extreme is at most every low seen.\<close>

theorem short_trailing_stop_never_loosens:
  assumes "trail_run ratcheted_short_stop m inc stop extreme bars = Inr (stop', extreme')"
  shows "stop' \<le> stop \<and> (\<forall>b. b \<in> fst ` set bars \<longrightarrow> (\<exists>y. extreme' = Some y \<and> y \<le> b))
       \<and> ((\<forall>(b, atr, armed) \<in> set bars. \<not> armed \<or> atr = None) \<longrightarrow> stop' = stop)"
  using short.run_tightens [OF assms] short.run_covers [OF assms] short.run_disarmed [OF assms] by blast

theorem short_trailing_stop_never_loosens_witness:
  "trail_run ratcheted_short_stop 3 (Some (1 / 100)) 110 None ex_bars = Inr (104, Some 101)
   \<and> (104 :: decimal) \<le> 110"
proof -
  have run: "trail_run ratcheted_short_stop 3 (Some (1 / 100)) 110 None ex_bars = Inr (104, Some 101)"
    by code_simp
  show ?thesis using run short_trailing_stop_never_loosens [OF run] by blast
qed

text \<open>A trailing stop never crosses the trail extreme. From a fill bar whose high is at or above
  the initial stop (a short: whose low is at or below it), with every bar on the venue's price grid,
  the stop of a long stays at or below the highest high and that of a short at or above the lowest
  low, so ratcheting by itself never places a stop beyond the market that moved it.\<close>

theorem trailing_stop_behind_extreme:
  assumes "\<forall>b \<in> fst ` set (bar # bars). grid_price inc b"
  shows "(stop \<le> fst bar \<and> trail_run ratcheted_long_stop m inc stop None (bar # bars) = Inr (stop', extreme')
            \<longrightarrow> (\<exists>y. extreme' = Some y \<and> stop' \<le> y))
       \<and> (fst bar \<le> stop \<and> trail_run ratcheted_short_stop m inc stop None (bar # bars) = Inr (stop', extreme')
            \<longrightarrow> (\<exists>y. extreme' = Some y \<and> y \<le> stop'))"
  using long.run_bounded [OF _ _ assms] short.run_bounded [OF _ _ assms] by blast

lemma ex_bars_grid: "\<forall>b \<in> fst ` set ex_bars. grid_price (Some (1 / 100)) b"
proof -
  have p: "power_of_ten (1 / 100)" unfolding power_of_ten_def by (rule exI [of _ "-2"]) simp
  have "on_tick (1 / 100) (of_int n)" if "\<bar>n\<bar> < 10 ^ 20" for n
    unfolding on_tick_def using that by (intro exI [of _ "100 * n"]) simp
  from this [of 101] this [of 108] this [of 105] this [of 107] show ?thesis
    by (simp add: ex_bars_def grid_price_def p)
qed

theorem trailing_stop_behind_extreme_witness:
  "\<exists>y. Some (108 :: decimal) = Some y \<and> (105 :: decimal) \<le> y"
proof -
  have run: "trail_run ratcheted_long_stop 3 (Some (1 / 100)) 97 None
      ((101, Some 2, False) # tl ex_bars) = Inr (105, Some 108)"
    by code_simp
  have grid: "\<forall>b \<in> fst ` set ((101, Some 2, False) # tl ex_bars). grid_price (Some (1 / 100)) b"
    using ex_bars_grid by (simp add: ex_bars_def)
  have "97 \<le> fst (101 :: decimal, Some (2 :: decimal), False)" by simp
  with trailing_stop_behind_extreme [OF grid, THEN conjunct1, rule_format, OF conjI, OF _ run]
  show ?thesis by blast
qed

end
