(* ===== verification/Lifecycle.thy ===== *)
theory Lifecycle
  imports Trading_Models Market
begin

text \<open>
  Admission and exposure of a book: the process-local entry latch
  (\<open>trading/entry_latch.py\<close>), exposure of a snapshot (\<open>trading/exposure.py\<close>), lifecycle
  commands (\<open>trading/lifecycle.py\<close>), capital-normalized drawdown
  (\<open>trading/performance.py\<close>), the worker lease fence (\<open>trading/lease_fence.py\<close>) and the
  futures flat-confirmation duty (\<open>trading/futures_safety.py\<close>). Module-level caches and context
  variables are fields of an explicit process state.
\<close>

section \<open>The entry latch\<close>

fun mode_value :: "deployment_mode \<Rightarrow> string" where
  "mode_value PAPER = ''paper''"
| "mode_value LIVE = ''live''"

record latch_state =
  lt_snapshot :: "(string \<rightharpoonup> bool) option"
  lt_recorded :: "(string \<times> bool) option"

definition boot_latch :: latch_state where
  "boot_latch = \<lparr>lt_snapshot = None, lt_recorded = None\<rparr>"

definition process_entry_inhibited :: "latch_state \<Rightarrow> deployment_mode \<Rightarrow> bool" where
  "process_entry_inhibited st mode =
     (case lt_recorded st of
        Some (m, inhibited) \<Rightarrow>
          if m = mode_value mode then inhibited
          else (case lt_snapshot st of None \<Rightarrow> True | Some snapshot \<Rightarrow> or_else (snapshot (mode_value mode)) True)
      | None \<Rightarrow>
          (case lt_snapshot st of None \<Rightarrow> True | Some snapshot \<Rightarrow> or_else (snapshot (mode_value mode)) True))"

definition remember_entry_inhibition :: "(string \<rightharpoonup> bool) option \<Rightarrow> latch_state \<Rightarrow> latch_state" where
  "remember_entry_inhibition snapshot st = st\<lparr>lt_snapshot := snapshot\<rparr>"

definition clear_entry_inhibition_cache :: "latch_state \<Rightarrow> latch_state" where
  "clear_entry_inhibition_cache st = remember_entry_inhibition None st"

text \<open>A \<open>with\<close> block: the body runs with the recorded latch set, and the token restores what was
  recorded before, however the body ends (its outcome is part of \<open>'a\<close>).\<close>

definition entry_inhibition_scope ::
    "deployment_mode \<Rightarrow> bool \<Rightarrow> (latch_state \<Rightarrow> 'a \<times> latch_state) \<Rightarrow> latch_state \<Rightarrow> 'a \<times> latch_state" where
  "entry_inhibition_scope mode inhibited body st =
     (let (result, st') = body (st\<lparr>lt_recorded := Some (mode_value mode, inhibited)\<rparr>)
      in (result, st'\<lparr>lt_recorded := lt_recorded st\<rparr>))"

section \<open>The worker lease fence\<close>

definition LEASE_TAKEN_DETAIL :: string where
  "LEASE_TAKEN_DETAIL = ''Another worker holds this deployment's lease.''"

type_synonym fence_state = "(uuid \<times> string) option"

definition lease_fence ::
    "uuid \<Rightarrow> string \<Rightarrow> (fence_state \<Rightarrow> 'a \<times> fence_state) \<Rightarrow> fence_state \<Rightarrow> 'a \<times> fence_state" where
  "lease_fence deployment_id holder body fence =
     (let (result, _) = body (Some (deployment_id, holder)) in (result, fence))"

definition fenced_holder :: "fence_state \<Rightarrow> uuid \<Rightarrow> string option" where
  "fenced_holder fence deployment_id =
     (case fence of
        None \<Rightarrow> None
      | Some (bound, holder) \<Rightarrow> if bound \<noteq> deployment_id then None else Some holder)"

definition require_lease_holder :: "fence_state \<Rightarrow> uuid \<Rightarrow> string option \<Rightarrow> unit result" where
  "require_lease_holder fence deployment_id current_holder =
     (case (fenced_holder fence deployment_id, current_holder) of
        (Some expected, Some current) \<Rightarrow>
          if current \<noteq> expected then Inl (LeaseTakenError LEASE_TAKEN_DETAIL) else Inr ()
      | _ \<Rightarrow> Inr ())"

section \<open>Exposure\<close>

definition IN_MARKET :: "runtime_phase set" where
  "IN_MARKET = {PHASE_OPEN, PENDING_ENTRY, PENDING_EXIT}"

definition ACTIVE_ORDER :: "order_status set" where
  "ACTIVE_ORDER = {OPEN, PENDING, UNKNOWN}"

definition OCCUPIED :: "deployment_status set" where
  "OCCUPIED = {RUNNING, PAUSED}"

definition intent_purposes :: "order_intent list \<Rightarrow> (uuid \<rightharpoonup> intent_purpose)" where
  "intent_purposes intents k = map_option i_purpose (dict_by i_id intents k)"

text \<open>One order of the loop in \<open>working_entry_notional\<close>: what it adds, or \<open>None\<close> for
  \<open>continue\<close>.\<close>

definition entry_remainder :: "deployment_snapshot \<Rightarrow> string \<Rightarrow> order \<Rightarrow> decimal option" where
  "entry_remainder s product_id ord =
     (case o_price ord of
        None \<Rightarrow> None
      | Some price \<Rightarrow>
          if o_status ord \<notin> ACTIVE_ORDER then None
          else if resolved_product_id (o_product_id ord) (s_deployment s) \<notin> {'''', product_id} then None
          else let remaining = dsub (o_quantity ord) (o_filled_quantity ord)
          in if remaining \<le> 0 then None
          else if is_venue_protection (o_kind ord)
                  \<or> or_else (intent_purposes (s_intents s) (o_intent_id ord)) ENTRY \<noteq> ENTRY then None
          else Some (dmul remaining price))"

definition working_entry_notional :: "deployment_snapshot \<Rightarrow> string \<Rightarrow> decimal" where
  "working_entry_notional s product_id =
     foldl (\<lambda>total ord. case entry_remainder s product_id ord of None \<Rightarrow> total | Some x \<Rightarrow> dadd total x)
       0 (s_orders s)"

definition product_exposure :: "deployment_snapshot \<Rightarrow> string \<Rightarrow> decimal" where
  "product_exposure s product_id =
     dadd (dsum (map (\<lambda>pos. dmul (p_quantity pos) (p_entry_price pos))
             (filter (\<lambda>pos. resolved_product_id (p_product_id pos) (s_deployment s) = product_id)
                (snapshot_positions s))))
       (working_entry_notional s product_id)"

definition snapshot_has_residual_exposure :: "deployment_snapshot \<Rightarrow> bool" where
  "snapshot_has_residual_exposure s =
     (if snapshot_positions s \<noteq> [] then True
      else if s_instrument_runtimes s \<noteq> [] then
        if \<exists>runtime \<in> set (s_instrument_runtimes s). r_phase runtime \<in> IN_MARKET then True
        else \<exists>runtime \<in> set (s_instrument_runtimes s). working_entry_notional s (r_product_id runtime) > 0
      else if d_phase (s_deployment s) \<in> IN_MARKET then True
      else if s_position s \<noteq> None then True
      else working_entry_notional s (d_product_id (s_deployment s)) > 0)"

definition counts_for_daily_loss :: "deployment_status \<Rightarrow> bool" where
  "counts_for_daily_loss status \<longleftrightarrow> status \<in> {RUNNING, PAUSED, STOPPED}"

definition risk_bearing_snapshots ::
    "deployment_snapshot list \<Rightarrow> deployment_mode \<Rightarrow> deployment_snapshot list" where
  "risk_bearing_snapshots snapshots mode =
     filter (\<lambda>item. d_mode (s_deployment item) = mode
        \<and> (d_status (s_deployment item) \<in> OCCUPIED
           \<or> d_status (s_deployment item) = STOPPED \<and> snapshot_has_residual_exposure item)) snapshots"

definition daily_loss_snapshots ::
    "deployment_snapshot list \<Rightarrow> deployment_mode \<Rightarrow> deployment_snapshot list" where
  "daily_loss_snapshots snapshots mode =
     filter (\<lambda>item. d_mode (s_deployment item) = mode
        \<and> counts_for_daily_loss (d_status (s_deployment item))) snapshots"

section \<open>Lifecycle commands\<close>

definition occupies_running_slot :: "deployment \<Rightarrow> bool" where
  "occupies_running_slot d \<longleftrightarrow> d_status d \<in> OCCUPIED"

definition occupies_risk :: "deployment_snapshot \<Rightarrow> bool" where
  "occupies_risk s =
     (if d_status (s_deployment s) \<in> OCCUPIED then True
      else d_status (s_deployment s) = STOPPED \<and> snapshot_has_residual_exposure s)"

definition entries_allowed :: "latch_state \<Rightarrow> deployment \<Rightarrow> bool" where
  "entries_allowed st d =
     (if process_entry_inhibited st (d_mode d) then False
      else d_status d = RUNNING \<and> d_lifecycle_command d = CMD_NONE
           \<and> \<not> d_daily_loss_latched d \<and> \<not> d_drawdown_latched d)"

definition can_reprice_risk_up :: "latch_state \<Rightarrow> deployment \<Rightarrow> bool" where
  "can_reprice_risk_up st d = entries_allowed st d"

definition command_for_status :: "deployment_status \<Rightarrow> bool \<Rightarrow> lifecycle_command" where
  "command_for_status status flatten =
     (if status = PAUSED then STOP_NEW_ENTRIES
      else if status = RUNNING then CMD_NONE
      else if flatten then FLATTEN
      else MANAGED_SHUTDOWN)"

section \<open>Capital-normalized performance\<close>

definition ledger_starting_equity :: "deployment \<Rightarrow> decimal" where
  "ledger_starting_equity d =
     (case d_initial_equity d of
        Some x \<Rightarrow> x
      | None \<Rightarrow> (case d_paper_starting_cash d of Some x \<Rightarrow> x | None \<Rightarrow> 0))"

fun first_positive :: "decimal option list \<Rightarrow> decimal option" where
  "first_positive [] = None"
| "first_positive (None # xs) = first_positive xs"
| "first_positive (Some v # xs) = (if dec_is_finite v \<and> v > 0 then Some v else first_positive xs)"

definition performance_capital :: "deployment \<Rightarrow> decimal option" where
  "performance_capital d =
     (case d_performance_capital_quote d of
        Some pinned \<Rightarrow> if dec_is_finite pinned \<and> pinned > 0 then Some pinned else None
      | None \<Rightarrow> first_positive
          [d_initial_equity d, d_paper_starting_cash d, d_allocated_capital d,
           if d_mode d = LIVE then d_venue_available_quote d else None])"

definition current_drawdown :: "deployment \<Rightarrow> decimal \<Rightarrow> decimal option" where
  "current_drawdown d ledger_equity =
     (case performance_capital d of
        None \<Rightarrow> None
      | Some capital \<Rightarrow>
          let starting = ledger_starting_equity d;
              peak = max (case d_high_water_mark_equity d of None \<Rightarrow> starting | Some hw \<Rightarrow> hw) ledger_equity;
              funded_peak = dsub (dadd capital peak) starting
          in if funded_peak \<le> 0 then None
             else Some (ddiv (dsub peak ledger_equity) funded_peak))"

section \<open>Futures flat confirmation\<close>

definition require_futures_flat_confirmation ::
    "deployment \<Rightarrow> datetime \<Rightarrow> bool \<Rightarrow> deployment" where
  "require_futures_flat_confirmation d after fill_projected_flat =
     (if d_mode d \<noteq> LIVE \<or> \<not> is_futures_product_id (d_product_id d)
         \<or> (d_lifecycle_command d \<noteq> FLATTEN \<and> \<not> d_futures_derisk_pending d
             \<and> d_futures_flat_confirmation_after d = None \<and> \<not> fill_projected_flat)
      then d
      else d\<lparr>d_futures_flat_confirmation_after :=
               Some (case d_futures_flat_confirmation_after d of
                       Some previous \<Rightarrow> max previous after
                     | None \<Rightarrow> after)\<rparr>)"

section \<open>Sums over working entries\<close>

lemma working_entry_notional_eq:
  "working_entry_notional s product_id = dsum (List.map_filter (entry_remainder s product_id) (s_orders s))"
proof -
  have "foldl (\<lambda>t ord. case entry_remainder s product_id ord of None \<Rightarrow> t | Some x \<Rightarrow> dadd t x) a orders
      = foldl dadd a (List.map_filter (entry_remainder s product_id) orders)" for a orders
    by (induction orders arbitrary: a) (auto simp: map_filter_simps split: option.splits)
  then show ?thesis by (simp add: working_entry_notional_def dsum_def)
qed

definition prices_nonneg :: "deployment_snapshot \<Rightarrow> bool" where
  "prices_nonneg s \<longleftrightarrow> (\<forall>ord \<in> set (s_orders s). case o_price ord of None \<Rightarrow> True | Some p \<Rightarrow> 0 \<le> p)"

lemma entry_remainder_nonneg:
  assumes "entry_remainder s product_id ord = Some x" "\<And>p. o_price ord = Some p \<Longrightarrow> 0 \<le> p"
  shows "0 \<le> x"
proof (cases "o_price ord")
  case None
  with assms(1) show ?thesis by (simp add: entry_remainder_def)
next
  case (Some p)
  with assms(1) have "x = dmul (dsub (o_quantity ord) (o_filled_quantity ord)) p"
    "0 < dsub (o_quantity ord) (o_filled_quantity ord)"
    by (simp_all add: entry_remainder_def Let_def not_le split: if_splits)
  with assms(2) [OF Some] show ?thesis by (simp add: ctx_mul_def)
qed

lemma working_entry_notional_nonneg:
  assumes "prices_nonneg s"
  shows "0 \<le> working_entry_notional s product_id"
  unfolding working_entry_notional_eq
proof (rule dsum_nonneg)
  fix x assume "x \<in> set (List.map_filter (entry_remainder s product_id) (s_orders s))"
  then obtain ord where ord: "ord \<in> set (s_orders s)" "entry_remainder s product_id ord = Some x"
    by (auto simp: List.map_filter_def)
  show "0 \<le> x"
  proof (rule entry_remainder_nonneg [OF ord(2)])
    show "0 \<le> p" if "o_price ord = Some p" for p
      using assms ord(1) that by (force simp: prices_nonneg_def)
  qed
qed

lemma dadd_0 [simp]: "dadd 0 0 = 0"
  by (simp add: ctx_add_def)

section \<open>Properties\<close>

text \<open>A book without residual exposure carries none: when \<open>snapshot_has_residual_exposure\<close> is
  false, \<open>product_exposure\<close> is zero for every product that has a runtime row, and for the primary
  product of a book without rows. So a stopped book that the risk-bearing filter drops holds neither
  a position nor a working entry on those products.\<close>

theorem no_residual_no_exposure:
  assumes "\<not> snapshot_has_residual_exposure s" "prices_nonneg s"
    and "product_id \<in> (if s_instrument_runtimes s \<noteq> [] then r_product_id ` set (s_instrument_runtimes s)
                       else {d_product_id (s_deployment s)})"
  shows "product_exposure s product_id = 0"
proof -
  have flat: "snapshot_positions s = []" and none: "\<not> 0 < working_entry_notional s product_id"
    using assms(1,3) by (auto simp: snapshot_has_residual_exposure_def split: if_splits)
  have "working_entry_notional s product_id = 0"
    using none working_entry_notional_nonneg [OF assms(2), of product_id] by linarith
  with flat show ?thesis by (simp add: product_exposure_def)
qed

theorem no_residual_no_exposure_witness: "product_exposure ex_snapshot ''BTC-USD'' = 0"
proof -
  have "\<not> snapshot_has_residual_exposure ex_snapshot" "prices_nonneg ex_snapshot"
    by (simp_all add: snapshot_has_residual_exposure_def snapshot_positions_def ex_snapshot_def
        ex_deployment_def IN_MARKET_def working_entry_notional_def prices_nonneg_def)
  from no_residual_no_exposure [OF this] show ?thesis by (simp add: ex_snapshot_def ex_deployment_def)
qed

text \<open>The two independent definitions of a risk-bearing book agree: the exposure filter keeps
  exactly the books of the mode that \<open>occupies_risk\<close> accepts, in order, and each of them is also
  among the books whose daily loss counts.\<close>

theorem risk_bearing_agrees:
  "risk_bearing_snapshots snapshots mode
     = filter (\<lambda>s. d_mode (s_deployment s) = mode \<and> occupies_risk s) snapshots
   \<and> set (risk_bearing_snapshots snapshots mode) \<subseteq> set (daily_loss_snapshots snapshots mode)"
proof
  show "risk_bearing_snapshots snapshots mode
      = filter (\<lambda>s. d_mode (s_deployment s) = mode \<and> occupies_risk s) snapshots"
    unfolding risk_bearing_snapshots_def by (rule filter_cong) (auto simp: occupies_risk_def)
  show "set (risk_bearing_snapshots snapshots mode) \<subseteq> set (daily_loss_snapshots snapshots mode)"
    by (auto simp: risk_bearing_snapshots_def daily_loss_snapshots_def counts_for_daily_loss_def
        OCCUPIED_def)
qed

lemma mode_value_eq [simp]: "mode_value a = mode_value b \<longleftrightarrow> a = b"
  by (cases a; cases b) simp_all

text \<open>Entry admission fails closed. Whatever latch snapshots were remembered or cleared since
  boot, an entry is admitted only when the latest remembered snapshot explicitly clears the book's
  mode and the book itself runs with no lifecycle command and no latched breaker; in particular a
  process that has loaded nothing, or has just cleared its cache, admits nothing.\<close>

theorem entries_fail_closed:
  "entries_allowed (fold remember_entry_inhibition snapshots boot_latch) d
     \<longleftrightarrow> (\<exists>latest. snapshots \<noteq> [] \<and> last snapshots = Some latest \<and> latest (mode_value (d_mode d)) = Some False)
       \<and> d_status d = RUNNING \<and> d_lifecycle_command d = CMD_NONE
       \<and> \<not> d_daily_loss_latched d \<and> \<not> d_drawdown_latched d"
proof -
  have "fold remember_entry_inhibition snapshots boot_latch
      = \<lparr>lt_snapshot = if snapshots = [] then None else last snapshots, lt_recorded = None\<rparr>"
    by (induction snapshots rule: rev_induct) (simp_all add: boot_latch_def remember_entry_inhibition_def)
  then show ?thesis
    by (auto simp: entries_allowed_def process_entry_inhibited_def or_else_def split: option.splits)
qed

text \<open>A recorded latch is scoped: inside \<open>entry_inhibition_scope\<close> the recorded value decides
  the mode it was recorded for and leaves the other mode to the live cache, and after it the process
  answers for every mode as it did before, whatever the body computed, as long as the body did not
  itself refresh the cache.\<close>

theorem inhibition_scope_restores:
  assumes "\<And>st. lt_snapshot (snd (body st)) = lt_snapshot st"
  shows "process_entry_inhibited (snd (entry_inhibition_scope mode inhibited body st)) m
           = process_entry_inhibited st m
       \<and> fst (entry_inhibition_scope mode inhibited (\<lambda>st. (process_entry_inhibited st mode, st)) st) = inhibited
       \<and> (m \<noteq> mode \<longrightarrow> lt_recorded st = None \<longrightarrow>
            fst (entry_inhibition_scope mode inhibited (\<lambda>st. (process_entry_inhibited st m, st)) st)
              = process_entry_inhibited st m)"
  using assms [of "st\<lparr>lt_recorded := Some (mode_value mode, inhibited)\<rparr>"]
  by (auto simp: entry_inhibition_scope_def process_entry_inhibited_def split: prod.splits option.splits)

theorem inhibition_scope_restores_witness:
  "process_entry_inhibited (snd (entry_inhibition_scope PAPER False
      (\<lambda>st. (process_entry_inhibited st LIVE, st)) boot_latch)) PAPER = process_entry_inhibited boot_latch PAPER"
proof -
  have "lt_snapshot (snd ((\<lambda>st. (process_entry_inhibited st LIVE, st)) st)) = lt_snapshot st" for st by simp
  from inhibition_scope_restores [of "\<lambda>st. (process_entry_inhibited st LIVE, st)", OF this] show ?thesis by blast
qed

text \<open>Drawdown from the durable peak is a loss fraction: when it is known it is never negative,
  it is zero exactly when the ledger stands at its peak, and an equity at or above the high-water
  mark reads as zero; it is unknown when the book has no positive capital basis.\<close>

theorem current_drawdown_spec:
  "(\<forall>x. current_drawdown d equity = Some x \<longrightarrow>
       0 \<le> x \<and> (x = 0 \<longleftrightarrow> (case d_high_water_mark_equity d of
                               None \<Rightarrow> ledger_starting_equity d | Some hw \<Rightarrow> hw) \<le> equity))
   \<and> (performance_capital d = None \<longrightarrow> current_drawdown d equity = None)
   \<and> (\<forall>c. performance_capital d = Some c \<longrightarrow> 0 < c)"
proof -
  have fp: "first_positive xs = Some c \<Longrightarrow> 0 < c" for xs c
    by (induction xs rule: first_positive.induct) (auto split: if_splits)
  have zero: "ddiv (dsub p e) f = 0 \<longleftrightarrow> p = e" if "0 < f" for p e f :: decimal
    using that by (simp add: ctx_div_def ctx_sub_def)
  have nn: "0 \<le> ddiv (dsub p e) f" if "0 < f" "e \<le> p" for p e f :: decimal
    using that by (simp add: ctx_div_def ctx_sub_def)
  show ?thesis
    by (auto simp: current_drawdown_def Let_def not_le zero intro!: nn
        split: option.splits if_splits) (auto simp: performance_capital_def split: option.splits if_splits dest: fp)
qed

theorem current_drawdown_spec_witness:
  "current_drawdown ex_deployment 9975 = Some (1 / 20) \<and> 0 \<le> (1 / 20 :: decimal)"
proof -
  have run: "current_drawdown ex_deployment 9975 = Some (1 / 20)" by code_simp
  show ?thesis using run current_drawdown_spec [of ex_deployment 9975] by blast
qed

text \<open>An intent write is fenced: inside a lease fence for a book, the write is refused exactly
  when the book is now held by a different worker; an unheld book, another book, and the code
  outside the fence are unaffected, and the fence is gone when its block ends.\<close>

theorem lease_fence_refuses_only_taken:
  "fst (lease_fence did holder (\<lambda>fence. (require_lease_holder fence did' current, fence)) outer)
     = (if did' = did \<and> (\<exists>h. current = Some h \<and> h \<noteq> holder)
        then Inl (LeaseTakenError LEASE_TAKEN_DETAIL) else Inr ())
   \<and> snd (lease_fence did holder body outer) = outer"
  by (auto simp: lease_fence_def require_lease_holder_def fenced_holder_def
      split: option.splits prod.splits)

text \<open>The futures flat-confirmation bound is monotone: requiring confirmation never drops or
  lowers an existing bound, changes nothing else of the deployment, and after a fill that leaves a
  live futures book flat the bound is at or after that fill.\<close>

theorem flat_confirmation_monotone:
  "(\<exists>bound. require_futures_flat_confirmation d after flat
       = d\<lparr>d_futures_flat_confirmation_after := bound\<rparr>
     \<and> (\<forall>previous. d_futures_flat_confirmation_after d = Some previous \<longrightarrow> (\<exists>b. bound = Some b \<and> previous \<le> b))
     \<and> (d_mode d = LIVE \<and> is_futures_product_id (d_product_id d) \<and> flat
          \<longrightarrow> (\<exists>b. bound = Some b \<and> after \<le> b)))"
proof -
  show ?thesis
    by (rule exI [of _ "d_futures_flat_confirmation_after (require_futures_flat_confirmation d after flat)"])
      (auto simp: require_futures_flat_confirmation_def split: option.split)
qed

theorem flat_confirmation_monotone_witness:
  "\<exists>bound. require_futures_flat_confirmation
        (ex_deployment\<lparr>d_mode := LIVE, d_product_id := ''BIT-28JUL23-CDE'',
           d_futures_flat_confirmation_after := Some 40\<rparr>) 30 True
      = ex_deployment\<lparr>d_mode := LIVE, d_product_id := ''BIT-28JUL23-CDE'',
           d_futures_flat_confirmation_after := bound\<rparr> \<and> (\<exists>b. bound = Some b \<and> 40 \<le> b)"
  using flat_confirmation_monotone
    [of "ex_deployment\<lparr>d_mode := LIVE, d_product_id := ''BIT-28JUL23-CDE'',
           d_futures_flat_confirmation_after := Some 40\<rparr>" 30 True]
  by auto

end
