(* ===== verification/Overlay.thy ===== *)
theory Overlay
  imports Lifecycle
begin

text \<open>
  The per-product view of a multi-product book (\<open>trading/overlay.py\<close>). \<open>overlay_snapshot\<close>
  focuses one product's runtime onto the shared deployment row; \<open>scoped_parent\<close> is the row that
  \<open>InstrumentScopedStore.save_deployment\<close> writes back. The scoped store itself is a wrapper
  around another store and is modelled with it in \<open>Execution_Store\<close>.
\<close>

section \<open>Focusing a snapshot\<close>

definition runtime_for :: "deployment_snapshot \<Rightarrow> string \<Rightarrow> instrument_runtime" where
  "runtime_for s product_id =
     (if product_id = d_product_id (s_deployment s)
         \<and> mirrors_primary_runtime (s_deployment s) (s_instrument_runtimes s)
      then runtime_from_deployment (s_deployment s) product_id
      else case List.find (\<lambda>item. r_product_id item = product_id) (s_instrument_runtimes s) of
             Some item \<Rightarrow> item
           | None \<Rightarrow> InstrumentRuntime product_id FLAT)"

definition ensure_runtime ::
    "deployment_snapshot \<Rightarrow> instrument_runtime \<Rightarrow> instrument_runtime list" where
  "ensure_runtime s runtime =
     filter (\<lambda>item. r_product_id item \<noteq> r_product_id runtime) (s_instrument_runtimes s) @ [runtime]"

definition position_for :: "deployment_snapshot \<Rightarrow> string \<Rightarrow> position option" where
  "position_for s product_id =
     List.find (\<lambda>pos. resolved_product_id (p_product_id pos) (s_deployment s) = product_id)
       (snapshot_positions s)"

definition orders_for :: "deployment_snapshot \<Rightarrow> string \<Rightarrow> order list" where
  "orders_for s product_id =
     filter (\<lambda>ord. resolved_product_id (o_product_id ord) (s_deployment s) = product_id) (s_orders s)"

definition intents_for :: "deployment_snapshot \<Rightarrow> string \<Rightarrow> order_intent list" where
  "intents_for s product_id =
     filter (\<lambda>intent. resolved_product_id (i_product_id intent) (s_deployment s) = product_id) (s_intents s)"

definition fills_for :: "deployment_snapshot \<Rightarrow> string \<Rightarrow> fill list" where
  "fills_for s product_id =
     filter (\<lambda>fl. f_order_id fl \<in> o_id ` set (orders_for s product_id)) (s_fills s)"

definition focus_runtime :: "deployment \<Rightarrow> instrument_runtime \<Rightarrow> deployment" where
  "focus_runtime d runtime =
     d\<lparr>d_phase := r_phase runtime, d_last_evaluated_bar := r_last_evaluated_bar runtime,
       d_last_signal := r_last_signal runtime, d_pending_entry_bars := r_pending_entry_bars runtime,
       d_bars_held := r_bars_held runtime,
       d_cooldown_bars_remaining := r_cooldown_bars_remaining runtime,
       d_pending_stop_price := r_pending_stop_price runtime,
       d_pending_target_price := r_pending_target_price runtime\<rparr>"

definition overlay_snapshot :: "deployment_snapshot \<Rightarrow> string \<Rightarrow> deployment_snapshot" where
  "overlay_snapshot s product_id =
     (let runtime = runtime_for s product_id
      in \<lparr>s_deployment = focus_runtime (s_deployment s) runtime,
          s_position = position_for s product_id, s_orders = orders_for s product_id,
          s_fills = fills_for s product_id, s_intents = intents_for s product_id,
          s_positions = snapshot_positions s, s_instrument_runtimes = ensure_runtime s runtime,
          s_accounting_complete = False, s_funding = []\<rparr>)"

section \<open>Writing a focused deployment back\<close>

text \<open>The runtimes \<open>save_deployment\<close> aggregates: the row replaced in place, or appended.\<close>

definition scoped_runtimes ::
    "instrument_runtime list \<Rightarrow> instrument_runtime \<Rightarrow> instrument_runtime list" where
  "scoped_runtimes rows runtime =
     (let replaced = map (\<lambda>item. if r_product_id item = r_product_id runtime then runtime else item) rows
      in if \<exists>item \<in> set rows. r_product_id item = r_product_id runtime then replaced
         else replaced @ [runtime])"

definition scoped_parent :: "deployment_snapshot \<Rightarrow> string \<Rightarrow> deployment \<Rightarrow> deployment" where
  "scoped_parent current product_id d =
     (let runtime = runtime_from_deployment d product_id;
          owns_runtime = (product_id = d_product_id (s_deployment current)
            \<and> mirrors_primary_runtime (s_deployment current) (s_instrument_runtimes current));
          parent = (s_deployment current)
            \<lparr>d_cash := d_cash d, d_status := d_status d, d_mismatch_detail := d_mismatch_detail d,
             d_futures_derisk_pending := d_futures_derisk_pending d,
             d_futures_flat_confirmation_after := d_futures_flat_confirmation_after d,
             d_last_signal := d_last_signal d,
             d_phase := aggregate_phase (scoped_runtimes (s_instrument_runtimes current) runtime),
             d_lifecycle_command := d_lifecycle_command d,
             d_allocated_capital := d_allocated_capital d,
             d_venue_available_quote := d_venue_available_quote d,
             d_reserved_buying_power := d_reserved_buying_power d,
             d_inventory_cost := d_inventory_cost d,
             d_performance_equity := d_performance_equity d,
             d_performance_capital_quote := d_performance_capital_quote d,
             d_performance_maximum_drawdown_fraction := d_performance_maximum_drawdown_fraction d,
             d_risk_day_open_evidence := d_risk_day_open_evidence d,
             d_initial_equity := d_initial_equity d, d_baseline_equity := d_baseline_equity d,
             d_utc_day_open_equity := d_utc_day_open_equity d,
             d_utc_day_open_at := d_utc_day_open_at d,
             d_high_water_mark_equity := d_high_water_mark_equity d,
             d_daily_loss_latched := d_daily_loss_latched d,
             d_drawdown_latched := d_drawdown_latched d,
             d_last_signal_event_at := d_last_signal_event_at d,
             d_last_signal_processed_at := d_last_signal_processed_at d,
             d_worker_lease_holder := d_worker_lease_holder d,
             d_worker_lease_expires_at := d_worker_lease_expires_at d,
             d_revision := d_revision d, d_updated_at := d_updated_at d\<rparr>
      in if owns_runtime then
           parent\<lparr>d_last_evaluated_bar := r_last_evaluated_bar runtime,
                  d_pending_entry_bars := r_pending_entry_bars runtime,
                  d_bars_held := r_bars_held runtime,
                  d_cooldown_bars_remaining := r_cooldown_bars_remaining runtime,
                  d_pending_stop_price := r_pending_stop_price runtime,
                  d_pending_target_price := r_pending_target_price runtime\<rparr>
         else parent)"

section \<open>Lemmas\<close>

lemma runtime_from_product [simp]: "r_product_id (runtime_from_deployment d p) = p"
  by (simp add: runtime_from_deployment_def)

lemma runtime_for_product [simp]: "r_product_id (runtime_for s p) = p"
  by (auto simp: runtime_for_def InstrumentRuntime_def find_Some_iff split: option.splits)

lemma focus_runtime_id: "d_product_id (focus_runtime d r) = d_product_id d"
  by (simp add: focus_runtime_def)

lemma focus_runtime_from [simp]:
  "r_product_id r = p \<Longrightarrow> runtime_from_deployment (focus_runtime d r) p = r"
  by (simp add: focus_runtime_def runtime_from_deployment_def)

lemma focus_runtime_idem [simp]: "focus_runtime (focus_runtime d r) r' = focus_runtime d r'"
  by (simp add: focus_runtime_def)

lemma resolved_focus [simp]: "resolved_product_id x (focus_runtime d r) = resolved_product_id x d"
  by (simp add: resolved_product_id_def focus_runtime_def)

lemma find_filter_other:
  "List.find (\<lambda>item. r_product_id item = p) (filter (\<lambda>item. r_product_id item \<noteq> p) xs) = None"
  by (auto simp: find_None_iff)

lemma find_append: "List.find P (xs @ ys) = (case List.find P xs of None \<Rightarrow> List.find P ys | Some x \<Rightarrow> Some x)"
  by (induction xs) auto

lemma overlay_simps [simp]:
  "s_deployment (overlay_snapshot s p) = focus_runtime (s_deployment s) (runtime_for s p)"
  "s_position (overlay_snapshot s p) = position_for s p"
  "s_orders (overlay_snapshot s p) = orders_for s p"
  "s_fills (overlay_snapshot s p) = fills_for s p"
  "s_intents (overlay_snapshot s p) = intents_for s p"
  "s_positions (overlay_snapshot s p) = snapshot_positions s"
  "s_instrument_runtimes (overlay_snapshot s p) = ensure_runtime s (runtime_for s p)"
  by (simp_all add: overlay_snapshot_def Let_def)

lemma runtime_for_overlay: "runtime_for (overlay_snapshot s p) p = runtime_for s p"
  by (simp add: runtime_for_def [of "overlay_snapshot s p"] focus_runtime_id ensure_runtime_def
      find_append find_filter_other)

lemma snapshot_positions_overlay: "snapshot_positions (overlay_snapshot s p) = snapshot_positions s"
  by (cases "snapshot_positions s = []") (simp_all add: snapshot_positions_def [of "overlay_snapshot s p"] position_for_def)

section \<open>Properties\<close>

text \<open>Focusing is a projection: focusing an already focused snapshot on the same product changes
  nothing, so a nested scope reads what the outer scope reads.\<close>

theorem overlay_snapshot_idem:
  "overlay_snapshot (overlay_snapshot s p) p = overlay_snapshot s p"
proof -
  have "position_for (overlay_snapshot s p) p = position_for s p"
    by (simp add: position_for_def snapshot_positions_overlay)
  moreover have orders: "orders_for (overlay_snapshot s p) p = orders_for s p"
    by (simp add: orders_for_def)
  moreover have "fills_for (overlay_snapshot s p) p = fills_for s p"
    unfolding fills_for_def [of "overlay_snapshot s p"] orders by (simp add: fills_for_def)
  moreover have "intents_for (overlay_snapshot s p) p = intents_for s p"
    by (simp add: intents_for_def)
  moreover have "ensure_runtime (overlay_snapshot s p) (runtime_for s p) = ensure_runtime s (runtime_for s p)"
    by (simp add: ensure_runtime_def)
  ultimately show ?thesis
    by (simp add: overlay_snapshot_def [of "overlay_snapshot s p"] runtime_for_overlay
        snapshot_positions_overlay) (simp add: overlay_snapshot_def Let_def)
qed

end
