(* ===== verification/Fill_Ledger.thy ===== *)
theory Fill_Ledger
  imports Overlay Geometry
begin

text \<open>
  Economic projection of fills onto a book (\<open>trading/fill_ledger.py\<close>) and the accounting of
  futures excess reductions (\<open>trading/futures_repair.py\<close>). \<open>utc_now()\<close> is an argument: each
  reading of the clock is a parameter of the function that makes it.
\<close>

section \<open>Text helpers\<close>

definition startswith :: "string \<Rightarrow> string \<Rightarrow> bool" where
  "startswith s prefix \<longleftrightarrow> take (length prefix) s = prefix"

text \<open>\<open>a or b\<close> on optional strings: the empty string is falsy.\<close>

definition str_or :: "string option \<Rightarrow> string option \<Rightarrow> string option" where
  "str_or a b = (case a of None \<Rightarrow> b | Some s \<Rightarrow> if s = [] then b else a)"

definition hex_digit :: "nat \<Rightarrow> char" where
  "hex_digit n = ''0123456789abcdef'' ! (n mod 16)"

fun hex_digits :: "nat \<Rightarrow> nat \<Rightarrow> string" where
  "hex_digits 0 n = []"
| "hex_digits (Suc k) n = hex_digits k (n div 16) @ [hex_digit n]"

definition uuid_str :: "uuid \<Rightarrow> string" where
  "uuid_str n =
     (let h = hex_digits 32 n
      in take 8 h @ ''-'' @ take 4 (drop 8 h) @ ''-'' @ take 4 (drop 12 h) @ ''-''
         @ take 4 (drop 16 h) @ ''-'' @ drop 20 h)"

fun purpose_value :: "intent_purpose \<Rightarrow> string" where
  "purpose_value ENTRY = ''entry''"
| "purpose_value TAKE_PROFIT = ''take_profit''"
| "purpose_value STOP = ''stop''"
| "purpose_value TIME_EXIT = ''time_exit''"
| "purpose_value BRACKET = ''bracket''"
| "purpose_value SIGNAL_EXIT = ''signal_exit''"
| "purpose_value ADOPTION = ''adoption''"
| "purpose_value LIQUIDATION = ''liquidation''"

section \<open>Futures excess reduction\<close>

definition EXCESS_REDUCTION_PREFIX :: string where
  "EXCESS_REDUCTION_PREFIX = ''futures-flip:''"

text \<open>A result in a context that traps \<open>Inexact\<close>.\<close>

definition trap_inexact :: "decimal \<Rightarrow> decimal result" where
  "trap_inexact x = (if fixp 28 x = x then Inr x else Inl Inexact)"

fun managed_loop ::
    "deployment \<Rightarrow> (uuid \<rightharpoonup> order) \<Rightarrow> (uuid \<rightharpoonup> order_intent) \<Rightarrow> string list \<Rightarrow> decimal \<Rightarrow> fill list
     \<Rightarrow> decimal option" where
  "managed_loop d orders intents seen acc [] = (if dec_is_finite acc then Some acc else None)"
| "managed_loop d orders intents seen acc (fl # fls) =
     (case orders (f_order_id fl) of
        None \<Rightarrow> None
      | Some ord \<Rightarrow>
          (case intents (o_intent_id ord) of
             None \<Rightarrow> None
           | Some intent \<Rightarrow>
               if f_economics_applied_at fl = None
                  \<or> f_venue_fill_id fl \<in> set seen
                  \<or> \<not> dec_is_finite (f_quantity fl)
                  \<or> f_quantity fl \<le> 0
                  \<or> o_client_order_id ord \<noteq> i_client_order_id intent
                  \<or> \<not> startswith (o_client_order_id ord)
                        (uuid_str (d_id d) @ '':'' @ purpose_value (i_purpose intent) @ '':'')
                  \<or> o_product_id ord \<noteq> d_product_id d
                  \<or> f_deployment_id fl \<noteq> d_id d
               then None
               else (case trap_inexact (acc + (if o_side ord = BUY then f_quantity fl else - f_quantity fl)) of
                       Inl _ \<Rightarrow> None
                     | Inr acc2 \<Rightarrow>
                         managed_loop d orders intents (f_venue_fill_id fl # seen) acc2 fls)))"

definition managed_signed_base :: "deployment_snapshot \<Rightarrow> decimal option" where
  "managed_signed_base s =
     managed_loop (s_deployment s) (dict_by o_id (s_orders s)) (dict_by i_id (s_intents s)) [] 0 (s_fills s)"

text \<open>\<open>book.is_signed()\<close>: the sign bit of the position's quantity, flipped for a short (so a
  zero short is signed). The subtraction runs in the caller's context, which traps \<open>Inexact\<close>.\<close>

definition book_is_signed :: "position \<Rightarrow> bool" where
  "book_is_signed pos \<longleftrightarrow> (if p_side pos = SHORT then \<not> p_quantity pos < 0 else p_quantity pos < 0)"

definition excess_quantity :: "deployment_snapshot \<Rightarrow> decimal \<Rightarrow> decimal result" where
  "excess_quantity s managed =
     (case s_position s of
        None \<Rightarrow> Inr \<bar>managed\<bar>
      | Some pos \<Rightarrow>
          if managed = 0 then Inr 0
          else if book_is_signed pos \<noteq> (managed < 0) then Inr \<bar>managed\<bar>
          else rbind (trap_inexact (\<bar>managed\<bar> - \<bar>p_quantity pos\<bar>)) (\<lambda>excess. Inr (max 0 excess)))"

definition project_excess_reduction ::
    "deployment_snapshot \<Rightarrow> fill \<Rightarrow> order \<Rightarrow> datetime
     \<Rightarrow> (deployment_snapshot \<times> fill) option result" where
  "project_excess_reduction s fl ord now =
     (case List.find (\<lambda>item. i_id item = o_intent_id ord) (s_intents s) of
        None \<Rightarrow> Inr None
      | Some intent \<Rightarrow>
          if \<not> startswith (or_else (i_idempotency_key intent) '''') EXCESS_REDUCTION_PREFIX then Inr None
          else if d_mode (s_deployment s) \<noteq> LIVE
                  \<or> \<not> is_futures_product_id (d_product_id (s_deployment s))
                  \<or> i_purpose intent \<noteq> LIQUIDATION
                  \<or> o_kind ord \<noteq> MARKETABLE
          then Inl (ValueError ''Invalid futures excess-reduction identity.'')
          else
            let others = filter (\<lambda>item. f_id item \<noteq> f_id fl) (s_fills s);
                prior = s\<lparr>s_fills := others\<rparr>
            in case managed_signed_base prior of
                 None \<Rightarrow> Inl (ValueError ''Futures excess reduction lacks applied managed-fill ownership proof.'')
               | Some managed \<Rightarrow>
                   if managed = 0 \<or> (o_side ord = BUY) = (managed > 0)
                   then Inl (ValueError ''Futures excess reduction lacks applied managed-fill ownership proof.'')
                   else rbind (excess_quantity prior managed) (\<lambda>excess.
                     if \<not> dec_is_finite (f_quantity fl) \<or> f_quantity fl \<le> 0 \<or> f_quantity fl > excess
                     then Inl (ValueError ''Futures repair fill exceeds proven managed excess.'')
                     else rbind (trap_inexact (f_quantity fl * f_price fl)) (\<lambda>amount.
                       rbind (if o_side ord = SELL then Inr amount else trap_inexact (- amount)) (\<lambda>signed.
                       rbind (trap_inexact (d_cash (s_deployment s) + signed)) (\<lambda>gross.
                       rbind (trap_inexact (gross - f_fee fl)) (\<lambda>cash.
                       if \<not> dec_is_finite cash
                       then Inl (ValueError ''Futures repair economics are not finite.'')
                       else let stamped = fl\<lparr>f_economics_applied_at := Some now\<rparr>
                            in Inr (Some
                              (s\<lparr>s_deployment := (s_deployment s)\<lparr>d_cash := cash, d_updated_at := now\<rparr>,
                                 s_fills := others @ [stamped]\<rparr>, stamped))))))))"

section \<open>Fill evidence\<close>

definition cash_after_fill :: "decimal \<Rightarrow> fill \<Rightarrow> order_side \<Rightarrow> decimal" where
  "cash_after_fill cash fl order_side =
     (let notional = dmul (f_price fl) (f_quantity fl)
      in if order_side = BUY then dsub (dsub cash notional) (f_fee fl)
         else dsub (dadd cash notional) (f_fee fl))"

record fill_ingest_result =
  ir_applied :: bool
  ir_snapshot :: deployment_snapshot

definition applied_fill_quantity :: "deployment_snapshot \<Rightarrow> uuid \<Rightarrow> decimal" where
  "applied_fill_quantity s order_id =
     dsum (map f_quantity
       (filter (\<lambda>fl. f_order_id fl = order_id \<and> f_economics_applied_at fl \<noteq> None) (s_fills s)))"

definition fill_economics_complete :: "deployment_snapshot \<Rightarrow> order \<Rightarrow> bool" where
  "fill_economics_complete s ord =
     (let order_fills = filter (\<lambda>item. f_order_id item = o_id ord) (s_fills s)
      in if order_fills = [] then False
         else if \<not> (\<forall>item \<in> set order_fills. f_economics_applied_at item \<noteq> None) then False
         else let covered = (if o_filled_quantity ord > 0 then o_filled_quantity ord else o_quantity ord)
              in applied_fill_quantity s (o_id ord) \<ge> covered)"

text \<open>The loop over fills in \<open>unsettled_fill_evidence\<close>: \<open>None\<close> is its early return.\<close>

fun applied_totals :: "(uuid \<Rightarrow> decimal) \<Rightarrow> fill list \<Rightarrow> (uuid \<Rightarrow> decimal) option" where
  "applied_totals applied [] = Some applied"
| "applied_totals applied (fl # fls) =
     (if f_economics_applied_at fl = None then None
      else applied_totals (applied(f_order_id fl := dadd (applied (f_order_id fl)) (f_quantity fl))) fls)"

definition owed_quantity :: "order \<Rightarrow> decimal" where
  "owed_quantity ord =
     (if o_status ord = FILLED then max (o_quantity ord) (o_filled_quantity ord) else o_filled_quantity ord)"

definition unsettled_fill_evidence :: "deployment_snapshot \<Rightarrow> bool" where
  "unsettled_fill_evidence s =
     (case applied_totals (\<lambda>_. 0) (s_fills s) of
        None \<Rightarrow> True
      | Some applied \<Rightarrow> \<exists>ord \<in> set (s_orders s). applied (o_id ord) < owed_quantity ord)"

text \<open>
  \<open>unprojected_inventory_products\<close>. The dictionaries \<open>anchors\<close> and \<open>balances\<close> are maps;
  \<open>sorted\<close> enumerates the anchored products, which are products of orders.
\<close>

definition inventory_anchor ::
    "deployment_snapshot \<Rightarrow> (string \<rightharpoonup> datetime) \<Rightarrow> fill \<Rightarrow> (string \<rightharpoonup> datetime)" where
  "inventory_anchor s anchors fl =
     (case dict_by o_id (s_orders s) (f_order_id fl) of
        None \<Rightarrow> anchors
      | Some ord \<Rightarrow>
          if f_economics_applied_at fl = None
             \<or> o_intent_id ord \<notin> i_id ` {intent \<in> set (s_intents s). i_purpose intent \<in> INVENTORY_OPENING_PURPOSES}
             \<or> is_venue_protection (o_kind ord)
          then anchors
          else let product_id = resolved_product_id (o_product_id ord) (s_deployment s)
               in anchors(product_id \<mapsto> min (or_else (anchors product_id) (o_created_at ord)) (o_created_at ord)))"

definition inventory_anchors :: "deployment_snapshot \<Rightarrow> (string \<rightharpoonup> datetime)" where
  "inventory_anchors s = foldl (inventory_anchor s) Map.empty (s_fills s)"

definition anchored_balance ::
    "deployment_snapshot \<Rightarrow> (string \<rightharpoonup> datetime) \<Rightarrow> (string \<rightharpoonup> decimal) \<Rightarrow> fill \<Rightarrow> (string \<rightharpoonup> decimal)" where
  "anchored_balance s anchors balances fl =
     (case dict_by o_id (s_orders s) (f_order_id fl) of
        None \<Rightarrow> balances
      | Some ord \<Rightarrow>
          if f_economics_applied_at fl = None then balances
          else let product_id = resolved_product_id (o_product_id ord) (s_deployment s)
          in case anchors product_id of
               None \<Rightarrow> balances
             | Some anchor \<Rightarrow>
                 if o_created_at ord < anchor then balances
                 else let signed = (if o_side ord = BUY then f_quantity fl else dneg (f_quantity fl))
                      in balances(product_id \<mapsto> dadd (or_else (balances product_id) 0) signed))"

definition anchored_inventory_balances ::
    "deployment_snapshot \<Rightarrow> (string \<rightharpoonup> datetime) \<Rightarrow> (string \<rightharpoonup> decimal)" where
  "anchored_inventory_balances s anchors = foldl (anchored_balance s anchors) Map.empty (s_fills s)"

definition signed_position :: "position \<Rightarrow> decimal" where
  "signed_position pos = (if p_side pos = LONG then p_quantity pos else dneg (p_quantity pos))"

definition unprojected_inventory_products :: "deployment_snapshot \<Rightarrow> string list" where
  "unprojected_inventory_products s =
     (let anchors = inventory_anchors s;
          balances = anchored_inventory_balances s anchors;
          book = (\<lambda>product_id. case dict_by (\<lambda>pos. resolved_product_id (p_product_id pos) (s_deployment s))
                                  (snapshot_positions s) product_id of
                    None \<Rightarrow> 0 | Some pos \<Rightarrow> signed_position pos)
      in sorted_set (filter (\<lambda>product_id.
             anchors product_id \<noteq> None
             \<and> (let balance = or_else (balances product_id) 0
                in balance \<noteq> 0 \<and> (dmul balance (book product_id) \<le> 0 \<or> dabs balance > dabs (book product_id))))
           (map (\<lambda>ord. resolved_product_id (o_product_id ord) (s_deployment s)) (s_orders s))))"

definition fill_projection_deployment ::
    "deployment_snapshot \<Rightarrow> deployment_snapshot \<Rightarrow> deployment" where
  "fill_projection_deployment before projected =
     (if s_instrument_runtimes projected = [] then s_deployment projected
      else (s_deployment before)
        \<lparr>d_cash := d_cash (s_deployment projected), d_status := d_status (s_deployment projected),
         d_mismatch_detail := d_mismatch_detail (s_deployment projected),
         d_futures_derisk_pending := d_futures_derisk_pending (s_deployment projected),
         d_futures_flat_confirmation_after := d_futures_flat_confirmation_after (s_deployment projected),
         d_phase := aggregate_phase (s_instrument_runtimes projected),
         d_updated_at := d_updated_at (s_deployment projected)\<rparr>)"

definition OVER_CLOSING_FILL_DETAIL :: string where
  "OVER_CLOSING_FILL_DETAIL =
     ''Exit fill exceeds the open position; the residual inventory is unmanaged.''"

definition creation_order :: "order \<Rightarrow> datetime \<times> bool \<times> uuid" where
  "creation_order ord = (o_created_at ord, o_parent_order_id ord \<noteq> None, o_id ord)"

definition prior_fills_for_order :: "deployment_snapshot \<Rightarrow> uuid \<Rightarrow> nat" where
  "prior_fills_for_order s order_id =
     length (filter (\<lambda>fl. f_order_id fl = order_id \<and> f_economics_applied_at fl \<noteq> None) (s_fills s))"

section \<open>Projection of one fill\<close>

definition replace_position :: "position list \<Rightarrow> position \<Rightarrow> string \<Rightarrow> position list" where
  "replace_position positions pos product_id =
     filter (\<lambda>item. (if p_product_id item \<noteq> [] then p_product_id item else product_id) \<noteq> product_id) positions
     @ [pos]"

definition same_fill :: "fill \<Rightarrow> fill \<Rightarrow> bool" where
  "same_fill fl item \<longleftrightarrow>
     f_venue_fill_id item = f_venue_fill_id fl \<and> f_deployment_id item = f_deployment_id fl"

definition upsert_fill :: "fill list \<Rightarrow> fill \<Rightarrow> fill list" where
  "upsert_fill fills fl = upsert_by (same_fill fl) fl fills"

definition fault_status :: "deployment \<Rightarrow> deployment_status" where
  "fault_status d = (if d_status d = STOPPED then STOPPED else PAUSED)"

text \<open>The two fault branches of \<open>_project_entry\<close> differ only in their detail.\<close>

definition entry_fault ::
    "deployment_snapshot \<Rightarrow> fill \<Rightarrow> decimal \<Rightarrow> datetime \<Rightarrow> string \<Rightarrow> deployment_snapshot" where
  "entry_fault s fl cash now detail =
     s\<lparr>s_deployment := with_runtime (s_deployment s) now
          (no_update\<lparr>u_cash := Some cash, u_status := Some (fault_status (s_deployment s)),
             u_mismatch_detail := Some detail, u_phase := Some FLAT, u_clear_pending_levels := True\<rparr>),
       s_position := None, s_fills := upsert_fill (s_fills s) fl, s_positions := [],
       s_accounting_complete := True, s_funding := []\<rparr>"

definition project_entry ::
    "string option \<Rightarrow> datetime \<Rightarrow> deployment_snapshot \<Rightarrow> fill \<Rightarrow> order \<Rightarrow> deployment_snapshot result" where
  "project_entry timeframe now s fl ord =
     (let d = s_deployment s;
          side = (if o_side ord = BUY then LONG else SHORT);
          cash = cash_after_fill (d_cash d) fl (o_side ord);
          product_id = resolved_product_id (o_product_id ord) d
      in case d_pending_stop_price d of
           None \<Rightarrow> Inr (entry_fault s fl cash now ''Entry fill is missing its stored stop price.'')
         | Some stop \<Rightarrow>
             (case str_or (d_timeframe d) timeframe of
                None \<Rightarrow> Inr (entry_fault s fl cash now
                               ''Entry fill is missing a deployment timeframe for bar bucketing.'')
              | Some bar_timeframe \<Rightarrow>
                  rbind (entry_bar_bucket (f_filled_at fl) bar_timeframe) (\<lambda>entered_bar.
                    let pos = \<lparr>p_deployment_id = d_id d, p_quantity = f_quantity fl,
                               p_entry_price = f_price fl, p_stop_price = stop,
                               p_target_price = d_pending_target_price d, p_entered_bar = entered_bar,
                               p_updated_at = now, p_trail_extreme = None, p_side = side,
                               p_product_id = product_id, p_add_count = 1, p_signal_exit_bar = None\<rparr>
                    in Inr (s\<lparr>s_deployment := with_runtime d now
                                (no_update\<lparr>u_cash := Some cash, u_phase := Some PHASE_OPEN,
                                   u_bars_held := Some 0, u_pending_entry_bars := Some 0,
                                   u_clear_pending_levels := True\<rparr>),
                              s_position := Some pos, s_fills := upsert_fill (s_fills s) fl,
                              s_positions := replace_position (s_positions s) pos product_id,
                              s_accounting_complete := True, s_funding := []\<rparr>))))"

definition project_scale_in ::
    "position \<Rightarrow> datetime \<Rightarrow> deployment_snapshot \<Rightarrow> fill \<Rightarrow> order \<Rightarrow> deployment_snapshot result" where
  "project_scale_in pos now s fl ord =
     (let d = s_deployment s;
          cash = cash_after_fill (d_cash d) fl (o_side ord);
          quantity = dadd (p_quantity pos) (f_quantity fl)
      in rbind (ddiv_checked (dadd (dmul (p_entry_price pos) (p_quantity pos))
                                (dmul (f_price fl) (f_quantity fl))) quantity) (\<lambda>entry_price.
         let prior = prior_fills_for_order s (o_id ord);
             add_count = (if prior = 0 \<and> o_pyramid_add ord then p_add_count pos + 1 else p_add_count pos);
             updated = pos\<lparr>p_quantity := quantity, p_entry_price := entry_price, p_updated_at := now,
                           p_add_count := add_count\<rparr>;
             product_id = resolved_product_id (p_product_id updated) d
         in Inr (s\<lparr>s_deployment := with_runtime d now
                     (no_update\<lparr>u_cash := Some cash,
                        u_phase := Some (if d_phase d = FLAT then PHASE_OPEN else d_phase d)\<rparr>),
                   s_position := Some updated, s_fills := upsert_fill (s_fills s) fl,
                   s_positions := replace_position (s_positions s) updated product_id,
                   s_accounting_complete := True, s_funding := []\<rparr>)))"

definition project_exit ::
    "int \<Rightarrow> datetime \<Rightarrow> deployment_snapshot \<Rightarrow> fill \<Rightarrow> order \<Rightarrow> deployment_snapshot result" where
  "project_exit cooldown_bars now s fl ord =
     (let d = s_deployment s;
          cash = cash_after_fill (d_cash d) fl (o_side ord);
          flat = with_runtime d now
            (no_update\<lparr>u_cash := Some cash, u_phase := Some FLAT, u_bars_held := Some 0,
               u_pending_entry_bars := Some 0, u_cooldown_bars_remaining := Some (max cooldown_bars 0),
               u_clear_pending_levels := True\<rparr>);
          done_with = (\<lambda>updated positions.
            s\<lparr>s_deployment := updated, s_position := None, s_fills := upsert_fill (s_fills s) fl,
              s_positions := positions, s_accounting_complete := True, s_funding := []\<rparr>)
      in case s_position s of
           None \<Rightarrow> Inr (done_with flat (s_positions s))
         | Some pos \<Rightarrow>
             let product_id = resolved_product_id (p_product_id pos) d
             in if f_quantity fl < p_quantity pos then
                  let remaining = pos\<lparr>p_quantity := dsub (p_quantity pos) (f_quantity fl), p_updated_at := now\<rparr>
                  in Inr (s\<lparr>s_deployment := with_runtime d now (no_update\<lparr>u_cash := Some cash\<rparr>),
                            s_position := Some remaining, s_fills := upsert_fill (s_fills s) fl,
                            s_positions := replace_position (s_positions s) remaining product_id,
                            s_accounting_complete := True, s_funding := []\<rparr>)
                else
                  let updated = (if f_quantity fl > p_quantity pos
                        then with_runtime flat now
                               (no_update\<lparr>u_status := Some (fault_status d),
                                  u_mismatch_detail := Some OVER_CLOSING_FILL_DETAIL\<rparr>)
                        else flat)
                  in Inr (done_with updated
                       (filter (\<lambda>item. resolved_product_id (p_product_id item) d \<noteq> product_id) (s_positions s))))"

definition scaling_in :: "position \<Rightarrow> order \<Rightarrow> bool" where
  "scaling_in pos ord \<longleftrightarrow>
     p_side pos = LONG \<and> o_side ord = BUY \<or> p_side pos = SHORT \<and> o_side ord = SELL"

definition project_inventory ::
    "int \<Rightarrow> string option \<Rightarrow> datetime \<Rightarrow> deployment_snapshot \<Rightarrow> fill \<Rightarrow> order
     \<Rightarrow> (deployment_snapshot \<times> fill) result" where
  "project_inventory cooldown_bars timeframe now s fl ord =
     (let stamped = (if f_economics_applied_at fl \<noteq> None then fl
                     else fl\<lparr>f_economics_applied_at := Some now\<rparr>)
      in rbind (case s_position s of
                  None \<Rightarrow> project_entry timeframe now s stamped ord
                | Some pos \<Rightarrow>
                    if scaling_in pos ord then project_scale_in pos now s stamped ord
                    else project_exit cooldown_bars now s stamped ord)
           (\<lambda>projected. Inr (projected, stamped)))"

text \<open>The three clock readings of \<open>project_fill_economics\<close>: for the repair, for the projection and
  for the flat confirmation.\<close>

record clock =
  ck_repair :: datetime
  ck_project :: datetime
  ck_confirm :: datetime

definition project_fill_economics ::
    "int \<Rightarrow> string option \<Rightarrow> clock \<Rightarrow> deployment_snapshot \<Rightarrow> fill \<Rightarrow> order
     \<Rightarrow> (deployment_snapshot \<times> fill) result" where
  "project_fill_economics cooldown_bars timeframe ck s fl ord =
     (let product_id = resolved_product_id (o_product_id ord) (s_deployment s)
      in rbind (project_excess_reduction s fl ord (ck_repair ck)) (\<lambda>repaired.
         rbind (case repaired of
                  Some outcome \<Rightarrow> Inr outcome
                | None \<Rightarrow> project_inventory cooldown_bars timeframe (ck_project ck)
                            (overlay_snapshot s product_id) fl ord) (\<lambda>(projected, stamped).
         let confirmed = projected\<lparr>s_deployment := require_futures_flat_confirmation
                           (s_deployment projected) (ck_confirm ck) (s_position projected = None)\<rparr>
         in if s_instrument_runtimes s = [] then Inr (confirmed\<lparr>s_instrument_runtimes := []\<rparr>, stamped)
            else Inr (confirmed\<lparr>s_instrument_runtimes :=
                        filter (\<lambda>item. r_product_id item \<noteq> product_id) (s_instrument_runtimes s)
                        @ [runtime_from_deployment (s_deployment confirmed) product_id]\<rparr>, stamped))))"

section \<open>What every projection keeps\<close>

text \<open>
  The contract of a projector: cash moves by the fill's economics, the status either stays or becomes
  the fault status, the admission fields and the identity of the book stay, the fill is upserted and
  the other evidence is kept. The admission consequence is proved once, here.
\<close>

locale projector =
  fixes proj :: "deployment_snapshot \<Rightarrow> fill \<Rightarrow> order \<Rightarrow> deployment_snapshot result"
  assumes proj_cash: "proj s fl ord = Inr s' \<Longrightarrow>
      d_cash (s_deployment s') = cash_after_fill (d_cash (s_deployment s)) fl (o_side ord)"
    and proj_status: "proj s fl ord = Inr s' \<Longrightarrow>
      d_status (s_deployment s') = d_status (s_deployment s)
      \<or> d_status (s_deployment s') = fault_status (s_deployment s)"
    and proj_frame: "proj s fl ord = Inr s' \<Longrightarrow>
      d_id (s_deployment s') = d_id (s_deployment s)
      \<and> d_product_id (s_deployment s') = d_product_id (s_deployment s)
      \<and> d_mode (s_deployment s') = d_mode (s_deployment s)
      \<and> d_lifecycle_command (s_deployment s') = d_lifecycle_command (s_deployment s)
      \<and> d_daily_loss_latched (s_deployment s') = d_daily_loss_latched (s_deployment s)
      \<and> d_drawdown_latched (s_deployment s') = d_drawdown_latched (s_deployment s)
      \<and> d_revision (s_deployment s') = d_revision (s_deployment s)"
    and proj_evidence: "proj s fl ord = Inr s' \<Longrightarrow>
      s_fills s' = upsert_fill (s_fills s) fl \<and> s_orders s' = s_orders s \<and> s_intents s' = s_intents s
      \<and> s_instrument_runtimes s' = s_instrument_runtimes s"
begin

lemma never_resumes:
  assumes "proj s fl ord = Inr s'"
  shows "d_status (s_deployment s') = RUNNING \<Longrightarrow> d_status (s_deployment s) = RUNNING"
    and "d_status (s_deployment s) = STOPPED \<Longrightarrow> d_status (s_deployment s') = STOPPED"
  using proj_status [OF assms] by (auto simp: fault_status_def split: if_splits)

lemma admission_shrinks:
  assumes "proj s fl ord = Inr s'" "entries_allowed st (s_deployment s')"
  shows "entries_allowed st (s_deployment s)"
  using assms(2) never_resumes(1) [OF assms(1)] proj_frame [OF assms(1)]
  by (auto simp: entries_allowed_def)

end

interpretation entry_projector: projector "project_entry timeframe now"
  by unfold_locales
    (auto simp: project_entry_def entry_fault_def Let_def runtime_defs fault_status_def
      split: option.splits if_splits)

interpretation scale_projector: projector "project_scale_in pos now"
  by unfold_locales (auto simp: project_scale_in_def Let_def runtime_defs)

interpretation exit_projector: projector "project_exit cooldown_bars now"
  by unfold_locales
    (auto simp: project_exit_def Let_def runtime_defs split: option.splits if_splits)

definition stamp :: "datetime \<Rightarrow> fill \<Rightarrow> fill" where
  "stamp now fl = (if f_economics_applied_at fl \<noteq> None then fl else fl\<lparr>f_economics_applied_at := Some now\<rparr>)"

lemma stamp_simps [simp]:
  "f_price (stamp now fl) = f_price fl" "f_quantity (stamp now fl) = f_quantity fl"
  "f_fee (stamp now fl) = f_fee fl" "f_id (stamp now fl) = f_id fl"
  "f_order_id (stamp now fl) = f_order_id fl" "f_deployment_id (stamp now fl) = f_deployment_id fl"
  "f_venue_fill_id (stamp now fl) = f_venue_fill_id fl" "f_filled_at (stamp now fl) = f_filled_at fl"
  "\<exists>t. f_economics_applied_at (stamp now fl) = Some t"
  by (simp_all add: stamp_def)

lemma cash_after_stamp [simp]: "cash_after_fill cash (stamp now fl) side = cash_after_fill cash fl side"
  by (simp add: cash_after_fill_def Let_def)

lemma project_inventory_cases:
  assumes "project_inventory cooldown_bars timeframe now s fl ord = Inr (s', stamped)"
  obtains "stamped = stamp now fl" "s_position s = None" "project_entry timeframe now s stamped ord = Inr s'"
  | pos where "stamped = stamp now fl" "s_position s = Some pos" "scaling_in pos ord"
      "project_scale_in pos now s stamped ord = Inr s'"
  | pos where "stamped = stamp now fl" "s_position s = Some pos" "\<not> scaling_in pos ord"
      "project_exit cooldown_bars now s stamped ord = Inr s'"
proof -
  have st: "(if f_economics_applied_at fl \<noteq> None then fl else fl\<lparr>f_economics_applied_at := Some now\<rparr>) = stamp now fl"
    by (simp add: stamp_def)
  show thesis
  proof (cases "s_position s")
    case None
    with assms show thesis by (intro that(1)) (auto simp: project_inventory_def Let_def st [simplified])
  next
    case (Some pos)
    with assms show thesis
      by (cases "scaling_in pos ord")
        (auto simp: project_inventory_def Let_def st [simplified] intro: that(2,3))
  qed
qed

lemma project_inventory_projector:
  assumes "project_inventory cooldown_bars timeframe now s fl ord = Inr (s', stamped)"
  obtains proj where "projector proj" "proj s stamped ord = Inr s'" "stamped = stamp now fl"
  using assms
  by (rule project_inventory_cases)
    (blast intro: that entry_projector.projector_axioms scale_projector.projector_axioms
      exit_projector.projector_axioms)+

section \<open>Excess reductions\<close>

lemma trap_inexact_Inr [simp]: "trap_inexact x = Inr y \<longleftrightarrow> fixp 28 x = x \<and> y = x"
  by (auto simp: trap_inexact_def)

lemma excess_reductionD:
  assumes "project_excess_reduction s fl ord now = Inr (Some (s', stamped))"
  obtains managed excess where
    "managed_signed_base (s\<lparr>s_fills := filter (\<lambda>item. f_id item \<noteq> f_id fl) (s_fills s)\<rparr>) = Some managed"
    "managed \<noteq> 0" "(o_side ord = BUY) \<noteq> (managed > 0)"
    "excess_quantity (s\<lparr>s_fills := filter (\<lambda>item. f_id item \<noteq> f_id fl) (s_fills s)\<rparr>) managed = Inr excess"
    "0 < f_quantity fl" "f_quantity fl \<le> excess"
    "stamped = fl\<lparr>f_economics_applied_at := Some now\<rparr>"
    "s' = s\<lparr>s_deployment := (s_deployment s)
              \<lparr>d_cash := cash_after_fill (d_cash (s_deployment s)) fl (o_side ord), d_updated_at := now\<rparr>,
            s_fills := filter (\<lambda>item. f_id item \<noteq> f_id fl) (s_fills s) @ [stamped]\<rparr>"
    "cash_after_fill (d_cash (s_deployment s)) fl (o_side ord)
       = d_cash (s_deployment s)
         + (if o_side ord = BUY then - (f_quantity fl * f_price fl) else f_quantity fl * f_price fl) - f_fee fl"
proof -
  obtain intent where i: "List.find (\<lambda>item. i_id item = o_intent_id ord) (s_intents s) = Some intent"
    using assms by (auto simp: project_excess_reduction_def split: option.splits)
  have pre: "startswith (or_else (i_idempotency_key intent) '''') EXCESS_REDUCTION_PREFIX"
    "d_mode (s_deployment s) = LIVE" "is_futures_product_id (d_product_id (s_deployment s))"
    "i_purpose intent = LIQUIDATION" "o_kind ord = MARKETABLE"
    using assms by (simp_all add: project_excess_reduction_def i split: if_splits)
  note run = assms [unfolded project_excess_reduction_def i option.case Let_def]
  from run pre obtain managed where m:
    "managed_signed_base (s\<lparr>s_fills := filter (\<lambda>item. f_id item \<noteq> f_id fl) (s_fills s)\<rparr>) = Some managed"
    by (auto split: option.splits)
  note run = run [unfolded m option.case]
  have side: "managed \<noteq> 0" "(o_side ord = BUY) \<noteq> (managed > 0)"
    using run pre by (simp_all split: if_splits)
  have buy: "(o_side ord = SELL) \<longleftrightarrow> \<not> (o_side ord = BUY)" by (cases "o_side ord") simp_all
  from run pre side obtain excess where e:
    "excess_quantity (s\<lparr>s_fills := filter (\<lambda>item. f_id item \<noteq> f_id fl) (s_fills s)\<rparr>) managed = Inr excess"
    "0 < f_quantity fl" "f_quantity fl \<le> excess"
    by (auto simp: dec_is_finite_def not_le not_less split: if_splits)
  show thesis
    by (rule that [OF m side e])
      (use run pre side e buy in \<open>auto simp: dec_is_finite_def cash_after_fill_def ctx_defs
         mult.commute split: if_splits\<close>)
qed

section \<open>The whole projection\<close>

lemma confirmation_keeps [simp]:
  "d_cash (require_futures_flat_confirmation d t b) = d_cash d"
  "d_status (require_futures_flat_confirmation d t b) = d_status d"
  "d_id (require_futures_flat_confirmation d t b) = d_id d"
  "d_mode (require_futures_flat_confirmation d t b) = d_mode d"
  "d_product_id (require_futures_flat_confirmation d t b) = d_product_id d"
  "d_phase (require_futures_flat_confirmation d t b) = d_phase d"
  "d_mismatch_detail (require_futures_flat_confirmation d t b) = d_mismatch_detail d"
  "d_lifecycle_command (require_futures_flat_confirmation d t b) = d_lifecycle_command d"
  "d_daily_loss_latched (require_futures_flat_confirmation d t b) = d_daily_loss_latched d"
  "d_drawdown_latched (require_futures_flat_confirmation d t b) = d_drawdown_latched d"
  "d_revision (require_futures_flat_confirmation d t b) = d_revision d"
  "entries_allowed st (require_futures_flat_confirmation d t b) = entries_allowed st d"
  "resolved_product_id x (require_futures_flat_confirmation d t b) = resolved_product_id x d"
  by (simp_all add: require_futures_flat_confirmation_def entries_allowed_def resolved_product_id_def)

lemma focus_keeps [simp]:
  "d_cash (focus_runtime d r) = d_cash d" "d_status (focus_runtime d r) = d_status d"
  "d_id (focus_runtime d r) = d_id d" "d_mode (focus_runtime d r) = d_mode d"
  "d_product_id (focus_runtime d r) = d_product_id d"
  "d_lifecycle_command (focus_runtime d r) = d_lifecycle_command d"
  "d_daily_loss_latched (focus_runtime d r) = d_daily_loss_latched d"
  "d_drawdown_latched (focus_runtime d r) = d_drawdown_latched d"
  "d_revision (focus_runtime d r) = d_revision d"
  "d_mismatch_detail (focus_runtime d r) = d_mismatch_detail d"
  "d_timeframe (focus_runtime d r) = d_timeframe d"
  "fault_status (focus_runtime d r) = fault_status d"
  by (simp_all add: focus_runtime_def fault_status_def)

text \<open>The product a fill is projected on, and what a projection shares with its result.\<close>

definition fill_product :: "deployment_snapshot \<Rightarrow> order \<Rightarrow> string" where
  "fill_product s ord = resolved_product_id (o_product_id ord) (s_deployment s)"

definition carries :: "deployment_snapshot \<Rightarrow> deployment_snapshot \<Rightarrow> clock \<Rightarrow> bool" where
  "carries p s' ck \<longleftrightarrow>
     s_deployment s' = require_futures_flat_confirmation (s_deployment p) (ck_confirm ck) (s_position p = None)
     \<and> s_position s' = s_position p \<and> s_positions s' = s_positions p \<and> s_fills s' = s_fills p
     \<and> s_orders s' = s_orders p \<and> s_intents s' = s_intents p"

lemma fill_economicsE:
  assumes "project_fill_economics cooldown_bars timeframe ck s fl ord = Inr (s', stamped)"
  obtains (repaired) p where "project_excess_reduction s fl ord (ck_repair ck) = Inr (Some (p, stamped))"
      "carries p s' ck"
  | (ordinary) p where "project_excess_reduction s fl ord (ck_repair ck) = Inr None"
      "project_inventory cooldown_bars timeframe (ck_project ck)
         (overlay_snapshot s (fill_product s ord)) fl ord = Inr (p, stamped)"
      "carries p s' ck"
proof -
  obtain r where r: "project_excess_reduction s fl ord (ck_repair ck) = Inr r"
    using assms by (auto simp: project_fill_economics_def Let_def)
  show thesis
  proof (cases r)
    case (Some outcome)
    then obtain p st where o: "outcome = (p, st)" by (cases outcome)
    show thesis
      by (rule repaired [of p])
        (use assms r Some o in \<open>auto simp: project_fill_economics_def Let_def carries_def split: if_splits\<close>)
  next
    case None
    from assms r None obtain p where p: "project_inventory cooldown_bars timeframe (ck_project ck)
         (overlay_snapshot s (fill_product s ord)) fl ord = Inr (p, stamped)"
      by (auto simp: project_fill_economics_def Let_def fill_product_def split: if_splits prod.splits)
    show thesis
      by (rule ordinary [OF _ p])
        (use assms r None p in \<open>auto simp: project_fill_economics_def Let_def carries_def
           fill_product_def split: if_splits\<close>)
  qed
qed

lemma repair_frame:
  assumes "project_excess_reduction s fl ord now = Inr (Some (p, stamped))"
  shows "s_position p = s_position s" "s_positions p = s_positions s"
    "d_cash (s_deployment p) = cash_after_fill (d_cash (s_deployment s)) fl (o_side ord)"
    "d_status (s_deployment p) = d_status (s_deployment s)"
    "entries_allowed st (s_deployment p) = entries_allowed st (s_deployment s)"
    "d_product_id (s_deployment p) = d_product_id (s_deployment s)"
  using assms by (rule excess_reductionD; simp add: entries_allowed_def)+

lemma fill_economics_frame:
  assumes "project_fill_economics cooldown_bars timeframe ck s fl ord = Inr (s', stamped)"
  shows "d_cash (s_deployment s') = cash_after_fill (d_cash (s_deployment s)) fl (o_side ord)"
    "d_id (s_deployment s') = d_id (s_deployment s)"
    "d_product_id (s_deployment s') = d_product_id (s_deployment s)"
    "f_id stamped = f_id fl" "same_fill fl stamped" "f_economics_applied_at stamped \<noteq> None"
    "f_order_id stamped = f_order_id fl"
proof -
  have "d_cash (s_deployment s') = cash_after_fill (d_cash (s_deployment s)) fl (o_side ord)
      \<and> d_id (s_deployment s') = d_id (s_deployment s)
      \<and> d_product_id (s_deployment s') = d_product_id (s_deployment s)
      \<and> (\<exists>now. stamped = stamp now fl \<or> stamped = fl\<lparr>f_economics_applied_at := Some now\<rparr>)"
    using assms
  proof (cases rule: fill_economicsE)
    case (repaired p)
    from repaired(1) have "stamped = fl\<lparr>f_economics_applied_at := Some (ck_repair ck)\<rparr>"
      "d_id (s_deployment p) = d_id (s_deployment s)" by (rule excess_reductionD; simp)+
    then show ?thesis using repaired repair_frame [OF repaired(1)] by (auto simp: carries_def)
  next
    case (ordinary p)
    from ordinary(2) obtain proj where proj: "projector proj"
        "proj (overlay_snapshot s (fill_product s ord)) stamped ord = Inr p" "stamped = stamp (ck_project ck) fl"
      by (rule project_inventory_projector)
    with projector.proj_cash [OF proj(1,2)] projector.proj_frame [OF proj(1,2)] ordinary(3)
    show ?thesis by (auto simp: carries_def)
  qed
  then show "d_cash (s_deployment s') = cash_after_fill (d_cash (s_deployment s)) fl (o_side ord)"
    "d_id (s_deployment s') = d_id (s_deployment s)"
    "d_product_id (s_deployment s') = d_product_id (s_deployment s)"
    "f_id stamped = f_id fl" "same_fill fl stamped" "f_economics_applied_at stamped \<noteq> None"
    "f_order_id stamped = f_order_id fl"
    by (auto simp: same_fill_def stamp_def)
qed

text \<open>C17: A fill moves cash by exactly its economics, on every path (entry, scale-in, exit, fault,
  over-closing exit and excess reduction): the projected book's cash is the old cash minus notional and
  fee for a buy, plus notional minus fee for a sell. On the venue's grid (prices and quantities of
  at most eight decimals, cash and fees of at most sixteen, magnitudes up to \<open>10 ^ 11\<close>) this
  is the exact rational amount: no cent is created or lost by rounding.\<close>

theorem fill_cash_exact:
  assumes "project_fill_economics cooldown_bars timeframe ck s fl ord = Inr (s', stamped)"
    and "on_grid 8 (f_price fl)" "on_grid 8 (f_quantity fl)" "on_grid 16 (f_fee fl)"
    and "on_grid 16 (d_cash (s_deployment s))"
    and "\<bar>f_price fl * f_quantity fl\<bar> \<le> 10 ^ 11" "\<bar>f_fee fl\<bar> \<le> 10 ^ 11" "\<bar>d_cash (s_deployment s)\<bar> \<le> 10 ^ 11"
  shows "d_cash (s_deployment s')
       = d_cash (s_deployment s)
         + (if o_side ord = BUY then - (f_price fl * f_quantity fl) else f_price fl * f_quantity fl) - f_fee fl"
proof -
  note cash = fill_economics_frame(1) [OF assms(1)]
  let ?c = "d_cash (s_deployment s)" and ?n = "f_price fl * f_quantity fl" and ?f = "f_fee fl"
  have n: "on_grid 16 ?n" using on_grid_mult [OF assms(2,3)] by simp
  have fix_n: "fixp 28 ?n = ?n" using n assms(6) by (intro fixp_grid [of 16 _ 11]) auto
  have fix2: "fixp 28 (?c - ?n) = ?c - ?n" "fixp 28 (?c + ?n) = ?c + ?n"
    using on_grid_diff [OF assms(5) n] on_grid_add [OF assms(5) n] assms(6,8)
    by (auto intro!: fixp_grid [of 16 _ 12])
  have fix3: "fixp 28 (?c - ?n - ?f) = ?c - ?n - ?f" "fixp 28 (?c + ?n - ?f) = ?c + ?n - ?f"
    using on_grid_diff [OF on_grid_diff [OF assms(5) n] assms(4)]
      on_grid_diff [OF on_grid_add [OF assms(5) n] assms(4)] assms(6,7,8)
    by (auto intro!: fixp_grid [of 16 _ 12])
  show ?thesis unfolding cash by (simp add: cash_after_fill_def ctx_defs fix_n fix2 fix3 Let_def)
qed

text \<open>A fill never resumes trading: after any projection a stopped book is still stopped, a book
  that was not running is not running, and entries are admitted only if they were before.\<close>

theorem fill_never_resumes:
  assumes "project_fill_economics cooldown_bars timeframe ck s fl ord = Inr (s', stamped)"
  shows "(d_status (s_deployment s) = STOPPED \<longrightarrow> d_status (s_deployment s') = STOPPED)
       \<and> (d_status (s_deployment s') = RUNNING \<longrightarrow> d_status (s_deployment s) = RUNNING)
       \<and> (entries_allowed st (s_deployment s') \<longrightarrow> entries_allowed st (s_deployment s))"
  using assms
proof (cases rule: fill_economicsE)
  case (repaired p)
  then show ?thesis by (simp add: carries_def repair_frame [OF repaired(1)])
next
  case (ordinary p)
  from ordinary(2) obtain proj where proj: "projector proj"
      "proj (overlay_snapshot s (fill_product s ord)) stamped ord = Inr p"
    by (rule project_inventory_projector)
  have keep: "entries_allowed st (s_deployment s') = entries_allowed st (s_deployment p)"
    "entries_allowed st (s_deployment (overlay_snapshot s (fill_product s ord))) = entries_allowed st (s_deployment s)"
    using ordinary(3) by (simp_all add: carries_def entries_allowed_def)
  from projector.never_resumes [OF proj] projector.admission_shrinks [OF proj, of st] ordinary(3) keep
  show ?thesis by (simp add: carries_def)
qed

section \<open>Sibling books\<close>

definition sibling_books :: "deployment_snapshot \<Rightarrow> string \<Rightarrow> position list" where
  "sibling_books s product_id =
     filter (\<lambda>pos. resolved_product_id (p_product_id pos) (s_deployment s) \<noteq> product_id) (snapshot_positions s)"

text \<open>Every position carries its product, or blank ids mean the product being filled.\<close>

definition products_named :: "deployment_snapshot \<Rightarrow> string \<Rightarrow> bool" where
  "products_named s product_id \<longleftrightarrow>
     product_id = d_product_id (s_deployment s) \<or> (\<forall>pos \<in> set (snapshot_positions s). p_product_id pos \<noteq> [])"

lemma sibling_replace:
  assumes "\<forall>pos \<in> set ps. p_product_id pos \<noteq> [] \<or> p = d_product_id d" "resolved_product_id (p_product_id new) d = p"
  shows "filter (\<lambda>pos. resolved_product_id (p_product_id pos) d \<noteq> p) (replace_position ps new p)
       = filter (\<lambda>pos. resolved_product_id (p_product_id pos) d \<noteq> p) ps"
proof -
  have "filter (\<lambda>pos. resolved_product_id (p_product_id pos) d \<noteq> p) (replace_position ps new p)
      = filter (\<lambda>pos. (if p_product_id pos \<noteq> [] then p_product_id pos else p) \<noteq> p
          \<and> resolved_product_id (p_product_id pos) d \<noteq> p) ps"
    using assms(2) by (simp add: replace_position_def)
  also have "\<dots> = filter (\<lambda>pos. resolved_product_id (p_product_id pos) d \<noteq> p) ps"
    using assms(1) by (intro filter_cong) (auto simp: resolved_product_id_def)
  finally show ?thesis .
qed

lemma resolved_resolved [simp]:
  "resolved_product_id (resolved_product_id x d) d = resolved_product_id x d"
  by (simp add: resolved_product_id_def)

lemma with_runtime_product [simp]: "d_product_id (with_runtime d now u) = d_product_id d"
  by (simp add: with_runtime_def Let_def)

lemma resolved_with_runtime [simp]:
  "resolved_product_id x (with_runtime d now u) = resolved_product_id x d"
  by (simp add: resolved_product_id_def)

lemma position_for_product:
  "position_for s p = Some pos \<Longrightarrow> resolved_product_id (p_product_id pos) (s_deployment s) = p"
  by (auto simp: position_for_def find_Some_iff)

lemma project_entry_result:
  assumes "project_entry timeframe now s fl ord = Inr s'"
  shows "(\<exists>pos. s_position s' = Some pos \<and> p_quantity pos = f_quantity fl
            \<and> p_side pos = (if o_side ord = BUY then LONG else SHORT)
            \<and> p_product_id pos = resolved_product_id (o_product_id ord) (s_deployment s)
            \<and> d_pending_stop_price (s_deployment s) = Some (p_stop_price pos)
            \<and> s_positions s' = replace_position (s_positions s) pos (p_product_id pos))
       \<or> (s_position s' = None \<and> s_positions s' = []
            \<and> d_status (s_deployment s') = fault_status (s_deployment s)
            \<and> d_mismatch_detail (s_deployment s') \<noteq> None)"
  using assms
  by (auto simp: project_entry_def entry_fault_def Let_def runtime_defs split: option.splits)

lemma project_scale_in_result:
  assumes "project_scale_in pos now s fl ord = Inr s'"
  shows "\<exists>pos'. s_position s' = Some pos' \<and> p_quantity pos' = dadd (p_quantity pos) (f_quantity fl)
            \<and> p_side pos' = p_side pos \<and> p_product_id pos' = p_product_id pos
            \<and> p_stop_price pos' = p_stop_price pos
            \<and> ddiv_checked (dadd (dmul (p_entry_price pos) (p_quantity pos)) (dmul (f_price fl) (f_quantity fl)))
                (p_quantity pos') = Inr (p_entry_price pos')
            \<and> s_positions s' = replace_position (s_positions s) pos'
                (resolved_product_id (p_product_id pos) (s_deployment s))"
  using assms by (auto simp: project_scale_in_def Let_def)

lemma project_exit_result:
  assumes "project_exit cooldown_bars now s fl ord = Inr s'" "s_position s = Some pos"
  defines "p \<equiv> resolved_product_id (p_product_id pos) (s_deployment s)"
  shows "f_quantity fl < p_quantity pos \<Longrightarrow> \<exists>pos'. s_position s' = Some pos'
            \<and> p_quantity pos' = dsub (p_quantity pos) (f_quantity fl) \<and> p_side pos' = p_side pos
            \<and> p_product_id pos' = p_product_id pos \<and> s_positions s' = replace_position (s_positions s) pos' p"
    and "\<not> f_quantity fl < p_quantity pos \<Longrightarrow> s_position s' = None
            \<and> s_positions s' = filter (\<lambda>item. resolved_product_id (p_product_id item) (s_deployment s) \<noteq> p) (s_positions s)"
    and "f_quantity fl > p_quantity pos \<Longrightarrow> d_status (s_deployment s') = fault_status (s_deployment s)
            \<and> d_mismatch_detail (s_deployment s') = Some OVER_CLOSING_FILL_DETAIL"
  using assms(1,2) unfolding p_def
  by (auto simp: project_exit_def Let_def runtime_defs)

lemma snapshot_positions_from_list:
  "s_position s = None \<or> s_positions s \<noteq> [] \<Longrightarrow> snapshot_positions s = s_positions s"
  by (auto simp: snapshot_positions_def)

lemma replace_position_nonempty [simp]: "replace_position ps pos p \<noteq> []"
  by (simp add: replace_position_def)

text \<open>A fill on one product never changes another product's book: unless the entry is faulted, the
  books of all other products are the same list before and after. (Positions carry their product id,
  as every position the projection opens does; a blank id stands for the primary product.)\<close>

theorem fill_keeps_siblings:
  assumes "project_fill_economics cooldown_bars timeframe ck s fl ord = Inr (s', stamped)"
    and "products_named s (fill_product s ord)"
    and "s_position s' \<noteq> None \<or> position_for s (fill_product s ord) \<noteq> None"
  shows "sibling_books s' (fill_product s ord) = sibling_books s (fill_product s ord)"
proof -
  let ?p = "fill_product s ord" and ?d = "s_deployment s"
  have named: "\<forall>pos \<in> set (snapshot_positions s). p_product_id pos \<noteq> [] \<or> ?p = d_product_id ?d"
    using assms(2) by (auto simp: products_named_def)
  have res: "sibling_books s' ?p = filter (\<lambda>pos. resolved_product_id (p_product_id pos) ?d \<noteq> ?p) (s_positions s')"
    if "d_product_id (s_deployment s') = d_product_id ?d" "s_position s' = None \<or> s_positions s' \<noteq> []"
    using that by (simp add: sibling_books_def snapshot_positions_from_list resolved_product_id_def)
  from assms(1) show ?thesis
  proof (cases rule: fill_economicsE)
    case (repaired p)
    then show ?thesis
      by (simp add: carries_def repair_frame [OF repaired(1)] sibling_books_def snapshot_positions_def
          resolved_product_id_def)
  next
    case (ordinary p)
    let ?o = "overlay_snapshot s ?p"
    from ordinary(2) obtain proj where proj: "projector proj" "proj ?o stamped ord = Inr p"
      by (rule project_inventory_projector)
    have same: "d_product_id (s_deployment s') = d_product_id ?d"
      using projector.proj_frame [OF proj] ordinary(3) by (simp add: carries_def)
    note c = ordinary(3) [unfolded carries_def]
    from ordinary(2) show ?thesis
    proof (cases rule: project_inventory_cases)
      case 1
      from 1(2) have "position_for s ?p = None" by simp
      with assms(3) c have "s_position p \<noteq> None" by simp
      with project_entry_result [OF 1(3)] c obtain pos where
        "p_product_id pos = ?p" "s_positions s' = replace_position (snapshot_positions s) pos ?p"
        by (auto simp: fill_product_def)
      moreover have "resolved_product_id (p_product_id pos) ?d = ?p"
        unfolding \<open>p_product_id pos = ?p\<close> by (simp add: fill_product_def)
      ultimately show ?thesis using res [OF same] sibling_replace [OF named] by (simp add: sibling_books_def)
    next
      case (2 pos)
      then have pos: "resolved_product_id (p_product_id pos) ?d = ?p" by (simp add: position_for_product)
      with project_scale_in_result [OF 2(4)] c obtain pos' where
        "p_product_id pos' = p_product_id pos" "s_positions s' = replace_position (snapshot_positions s) pos' ?p"
        by auto
      then show ?thesis using res [OF same] sibling_replace [OF named, of pos'] pos by (simp add: sibling_books_def)
    next
      case (3 pos)
      then have pos: "resolved_product_id (p_product_id pos) ?d = ?p" by (simp add: position_for_product)
      note x = project_exit_result [OF 3(4,2)]
      show ?thesis
      proof (cases "f_quantity stamped < p_quantity pos")
        case True
        with x(1) c pos obtain pos' where
          "p_product_id pos' = p_product_id pos" "s_positions s' = replace_position (snapshot_positions s) pos' ?p"
          by auto
        then show ?thesis using res [OF same] sibling_replace [OF named, of pos'] pos by (simp add: sibling_books_def)
      next
        case False
        with x(2) c pos show ?thesis using res [OF same] by (simp add: sibling_books_def)
      qed
    qed
  qed
qed

section \<open>Inventory\<close>

definition signed_inventory :: "position option \<Rightarrow> decimal" where
  "signed_inventory pos =
     (case pos of None \<Rightarrow> 0 | Some q \<Rightarrow> if p_side q = LONG then p_quantity q else - p_quantity q)"

definition signed_fill :: "fill \<Rightarrow> order \<Rightarrow> decimal" where
  "signed_fill fl ord = (if o_side ord = BUY then f_quantity fl else - f_quantity fl)"

lemma project_inventory_conserves:
  assumes "project_inventory cooldown_bars timeframe now s fl ord = Inr (p, stamped)"
    and "fixp 28 (signed_inventory (s_position s) + signed_fill fl ord)
          = signed_inventory (s_position s) + signed_fill fl ord"
  shows "signed_inventory (s_position p) = signed_inventory (s_position s) + signed_fill fl ord
       \<or> d_status (s_deployment p) = fault_status (s_deployment s) \<and> d_mismatch_detail (s_deployment p) \<noteq> None"
  using assms(1)
proof (cases rule: project_inventory_cases)
  case 1
  with project_entry_result [OF 1(3)] show ?thesis by (auto simp: signed_inventory_def signed_fill_def)
next
  case (2 pos)
  from project_scale_in_result [OF 2(4)] obtain q where
    q: "s_position p = Some q" "p_quantity q = dadd (p_quantity pos) (f_quantity fl)" "p_side q = p_side pos"
    unfolding 2(1) by auto
  have "fixp 28 (- (p_quantity pos + f_quantity fl)) = - fixp 28 (p_quantity pos + f_quantity fl)"
    by (rule d28.rnd_minus)
  with q 2(2,3) assms(2) show ?thesis
    by (cases "p_side pos"; cases "o_side ord")
      (auto simp: signed_inventory_def signed_fill_def scaling_in_def ctx_add_def)
next
  case (3 pos)
  note x = project_exit_result [OF 3(4,2)]
  have closing: "signed_inventory (s_position s) + signed_fill fl ord
      = (if p_side pos = LONG then p_quantity pos - f_quantity fl else - (p_quantity pos - f_quantity fl))"
    using 3(2,3) by (cases "p_side pos"; cases "o_side ord")
      (auto simp: signed_inventory_def signed_fill_def scaling_in_def)
  have exact: "dsub (p_quantity pos) (f_quantity fl) = p_quantity pos - f_quantity fl"
    using assms(2) d28.rnd_minus [of "p_quantity pos - f_quantity fl"]
    unfolding closing by (auto simp: ctx_sub_def split: if_splits)
  consider "f_quantity fl < p_quantity pos" | "f_quantity fl = p_quantity pos" | "f_quantity fl > p_quantity pos"
    by linarith
  then show ?thesis
  proof cases
    case 1
    with x(1) exact show ?thesis unfolding closing by (auto simp: 3(1) signed_inventory_def)
  next
    case 2
    with x(2) show ?thesis unfolding closing by (simp add: 3(1) signed_inventory_def)
  next
    case 3
    with x(3) show ?thesis by (simp add: \<open>stamped = stamp now fl\<close>)
  qed
qed


text \<open>Scaling in keeps the average entry honest: when the weighted sum fits the context, the new
  entry price lies between the old entry price and the fill price, and the stop is not moved.\<close>

theorem scale_in_average_between:
  assumes "project_scale_in pos now s fl ord = Inr s'"
    and "0 < p_quantity pos" "0 < f_quantity fl"
    and "fixp 28 (p_quantity pos + f_quantity fl) = p_quantity pos + f_quantity fl"
    and "fixp 28 (p_entry_price pos * p_quantity pos) = p_entry_price pos * p_quantity pos"
    and "fixp 28 (f_price fl * f_quantity fl) = f_price fl * f_quantity fl"
    and "fixp 28 (p_entry_price pos * p_quantity pos + f_price fl * f_quantity fl)
          = p_entry_price pos * p_quantity pos + f_price fl * f_quantity fl"
    and "fixp 28 (p_entry_price pos) = p_entry_price pos" "fixp 28 (f_price fl) = f_price fl"
  shows "\<exists>pos'. s_position s' = Some pos' \<and> p_stop_price pos' = p_stop_price pos
       \<and> p_quantity pos' = p_quantity pos + f_quantity fl
       \<and> min (p_entry_price pos) (f_price fl) \<le> p_entry_price pos'
       \<and> p_entry_price pos' \<le> max (p_entry_price pos) (f_price fl)"
proof -
  let ?P = "p_entry_price pos" and ?Q = "p_quantity pos" and ?p = "f_price fl" and ?q = "f_quantity fl"
  obtain pos' where r: "s_position s' = Some pos'" "p_stop_price pos' = p_stop_price pos"
      "p_quantity pos' = ?Q + ?q"
      "ddiv_checked (?P * ?Q + ?p * ?q) (?Q + ?q) = Inr (p_entry_price pos')"
    using project_scale_in_result [OF assms(1)] assms(4-7) by (auto simp: ctx_add_def ctx_mul_def)
  let ?m = "min ?P ?p" and ?M = "max ?P ?p"
  have avg: "p_entry_price pos' = fixp 28 ((?P * ?Q + ?p * ?q) / (?Q + ?q))"
    using r(4) by (simp add: ctx_div_def)
  have "?m * (?Q + ?q) \<le> ?P * ?Q + ?p * ?q" "?P * ?Q + ?p * ?q \<le> ?M * (?Q + ?q)"
    using assms(2,3) by (simp_all add: distrib_left add_mono mult_right_mono)
  then have "?m \<le> (?P * ?Q + ?p * ?q) / (?Q + ?q)" "(?P * ?Q + ?p * ?q) / (?Q + ?q) \<le> ?M"
    using assms(2,3) by (simp_all add: le_divide_eq divide_le_eq)
  moreover have "fixp 28 ?m = ?m" "fixp 28 ?M = ?M" using assms(8,9) by (simp_all add: min_def max_def)
  ultimately have "?m \<le> p_entry_price pos'" "p_entry_price pos' \<le> ?M"
    unfolding avg by (auto intro: d28.rnd_lower d28.rnd_upper)
  with r show ?thesis by blast
qed

section \<open>Evidence predicates\<close>

lemma applied_totals_eq:
  "applied_totals applied fls =
     (if \<forall>fl \<in> set fls. f_economics_applied_at fl \<noteq> None
      then Some (\<lambda>k. foldl dadd (applied k) (map f_quantity (filter (\<lambda>fl. f_order_id fl = k) fls)))
      else None)"
  by (induction fls arbitrary: applied) (auto simp: fun_eq_iff)

lemma not_unsettled_iff:
  "\<not> unsettled_fill_evidence s \<longleftrightarrow>
     list_all (\<lambda>fl. f_economics_applied_at fl \<noteq> None) (s_fills s)
     \<and> list_all (\<lambda>ord. owed_quantity ord \<le> applied_fill_quantity s (o_id ord)) (s_orders s)"
proof -
  have same: "filter (\<lambda>fl. f_order_id fl = k \<and> f_economics_applied_at fl \<noteq> None) (s_fills s)
      = filter (\<lambda>fl. f_order_id fl = k) (s_fills s)" if "\<forall>fl \<in> set (s_fills s). f_economics_applied_at fl \<noteq> None" for k
    using that by (intro filter_cong) auto
  have step: "(\<forall>fl \<in> set (s_fills s). f_economics_applied_at fl \<noteq> None) \<Longrightarrow>
      foldl dadd 0 (map f_quantity (filter (\<lambda>fl. f_order_id fl = k) (s_fills s))) = applied_fill_quantity s k" for k
    by (simp only: applied_fill_quantity_def same dsum_def)
  show ?thesis
    unfolding unsettled_fill_evidence_def applied_totals_eq list_all_iff
    by (cases "\<forall>fl \<in> set (s_fills s). f_economics_applied_at fl \<noteq> None")
      (simp_all add: step not_less del: not_None_eq)
qed

text \<open>\<open>unsettled_fill_evidence\<close> is false exactly when the books are settled: every recorded fill
  has been applied, and for every order the applied quantity covers what the order owes (its whole
  size once \<open>FILLED\<close>, otherwise its executed quantity).\<close>

theorem unsettled_fill_evidence_iff:
  "\<not> unsettled_fill_evidence s \<longleftrightarrow>
     list_all (\<lambda>fl. f_economics_applied_at fl \<noteq> None) (s_fills s)
     \<and> list_all (\<lambda>ord. owed_quantity ord \<le> applied_fill_quantity s (o_id ord)) (s_orders s)"
  by (rule not_unsettled_iff)

definition managed_fill_ok :: "deployment_snapshot \<Rightarrow> fill \<Rightarrow> bool" where
  "managed_fill_ok s fl \<longleftrightarrow> f_economics_applied_at fl \<noteq> None \<and> 0 < f_quantity fl \<and> f_deployment_id fl = d_id (s_deployment s)
     \<and> (\<exists>ord intent. dict_by o_id (s_orders s) (f_order_id fl) = Some ord
          \<and> dict_by i_id (s_intents s) (o_intent_id ord) = Some intent
          \<and> o_client_order_id ord = i_client_order_id intent \<and> o_product_id ord = d_product_id (s_deployment s)
          \<and> startswith (o_client_order_id ord)
              (uuid_str (d_id (s_deployment s)) @ '':'' @ purpose_value (i_purpose intent) @ '':''))"

definition managed_delta :: "deployment_snapshot \<Rightarrow> fill \<Rightarrow> decimal" where
  "managed_delta s fl =
     (case dict_by o_id (s_orders s) (f_order_id fl) of None \<Rightarrow> 0 | Some ord \<Rightarrow> signed_fill fl ord)"

lemma managed_loop_SomeD:
  assumes "managed_loop (s_deployment s) (dict_by o_id (s_orders s)) (dict_by i_id (s_intents s)) seen acc fls = Some m"
  shows "m = acc + sum_list (map (managed_delta s) fls) \<and> (\<forall>fl \<in> set fls. managed_fill_ok s fl)
       \<and> distinct (map f_venue_fill_id fls) \<and> set (map f_venue_fill_id fls) \<inter> set seen = {}"
  using assms
proof (induction fls arbitrary: seen acc)
  case (Cons fl fls)
  from Cons.prems obtain ord intent where o: "dict_by o_id (s_orders s) (f_order_id fl) = Some ord"
      "dict_by i_id (s_intents s) (o_intent_id ord) = Some intent"
    by (auto split: option.splits)
  note run = Cons.prems [unfolded managed_loop.simps o option.case]
  have ok: "managed_fill_ok s fl" "f_venue_fill_id fl \<notin> set seen"
    using run o by (auto simp: managed_fill_ok_def not_le split: if_splits)
  have rest: "managed_loop (s_deployment s) (dict_by o_id (s_orders s)) (dict_by i_id (s_intents s))
      (f_venue_fill_id fl # seen) (acc + signed_fill fl ord) fls = Some m"
    using run by (simp add: trap_inexact_def signed_fill_def split: if_splits)
  have "managed_delta s fl = signed_fill fl ord" by (simp add: managed_delta_def o(1))
  with Cons.IH [OF rest] ok show ?case by auto
qed (simp split: if_splits)

text \<open>The ownership proof of futures inventory is exact: when \<open>managed_signed_base\<close> returns an
  amount, it is the exact rational sum of the signed quantities of the recorded fills, every one of
  them applied, positive, of this deployment and of an order whose intent carries this deployment's
  client id for its purpose, and no venue fill counted twice.\<close>

theorem managed_signed_base_exact:
  assumes "managed_signed_base s = Some managed"
  shows "managed = sum_list (map (managed_delta s) (s_fills s))
       \<and> (\<forall>fl \<in> set (s_fills s). managed_fill_ok s fl) \<and> distinct (map f_venue_fill_id (s_fills s))"
  using managed_loop_SomeD [of s "[]" 0 "s_fills s" managed] assms by (simp add: managed_signed_base_def)

text \<open>A futures excess reduction only reduces: it keeps every book and position, moves cash by the
  exact amount of the fill, and the managed inventory it acts on (the recorded fills other than the
  one applied) stays on its side or reaches zero: the reduction never crosses through flat.\<close>

theorem excess_reduction_reduces:
  assumes "project_excess_reduction s fl ord now = Inr (Some (s', stamped))"
  shows "s_position s' = s_position s \<and> s_positions s' = s_positions s
       \<and> d_cash (s_deployment s') = d_cash (s_deployment s)
           + (if o_side ord = BUY then - (f_quantity fl * f_price fl) else f_quantity fl * f_price fl) - f_fee fl
       \<and> (\<exists>managed. managed_signed_base (s\<lparr>s_fills := filter (\<lambda>item. f_id item \<noteq> f_id fl) (s_fills s)\<rparr>) = Some managed
            \<and> \<bar>managed + signed_fill fl ord\<bar> = \<bar>managed\<bar> - f_quantity fl \<and> \<bar>managed + signed_fill fl ord\<bar> < \<bar>managed\<bar>
            \<and> 0 \<le> managed * (managed + signed_fill fl ord))"
proof -
  let ?prior = "s\<lparr>s_fills := filter (\<lambda>item. f_id item \<noteq> f_id fl) (s_fills s)\<rparr>"
  from assms obtain managed excess where m: "managed_signed_base ?prior = Some managed" "managed \<noteq> 0"
      "(o_side ord = BUY) \<noteq> (managed > 0)" "excess_quantity ?prior managed = Inr excess"
      "0 < f_quantity fl" "f_quantity fl \<le> excess"
      "d_cash (s_deployment s') = d_cash (s_deployment s)
         + (if o_side ord = BUY then - (f_quantity fl * f_price fl) else f_quantity fl * f_price fl) - f_fee fl"
    by (rule excess_reductionD) simp
  have "excess \<le> \<bar>managed\<bar>"
    using m(2,4) by (auto simp: excess_quantity_def split: option.splits if_splits)
  then have le: "f_quantity fl \<le> \<bar>managed\<bar>" using m(6) by linarith
  have red: "\<bar>managed + signed_fill fl ord\<bar> = \<bar>managed\<bar> - f_quantity fl"
    using m(2,3,5) le by (cases "managed > 0") (auto simp: signed_fill_def abs_if split: if_splits)
  have "0 \<le> managed * (managed + signed_fill fl ord)"
    using m(2,3) le by (cases "managed > 0") (auto simp: signed_fill_def zero_le_mult_iff split: if_splits)
  with red m(1,5,7) repair_frame(1,2) [OF assms] show ?thesis by auto
qed

section \<open>Worked instances\<close>

text \<open>A book waiting for an entry on \<open>BTC-USD\<close> beside an open \<open>ETH-USD\<close> book, and a live
  futures book with an excess to reduce.\<close>

definition ex_sibling :: position where
  "ex_sibling = \<lparr>p_deployment_id = 1, p_quantity = 2, p_entry_price = 50, p_stop_price = 45,
     p_target_price = None, p_entered_bar = 0, p_updated_at = 0, p_trail_extreme = None, p_side = LONG,
     p_product_id = ''ETH-USD'', p_add_count = 1, p_signal_exit_bar = None\<rparr>"

definition ex_pending :: deployment_snapshot where
  "ex_pending = ex_snapshot\<lparr>s_deployment := ex_deployment\<lparr>d_phase := PENDING_ENTRY,
       d_pending_stop_price := Some 97, d_pending_target_price := Some 106\<rparr>,
     s_orders := [ex_order], s_position := Some ex_sibling, s_positions := [ex_sibling]\<rparr>"

definition ex_fill :: fill where
  "ex_fill = \<lparr>f_id = 31, f_deployment_id = 1, f_order_id = 11, f_venue_fill_id = ''v-1'', f_price = 100,
     f_quantity = 1 / 2, f_fee = 1 / 20, f_filled_at = 5000000000, f_venue_order_id = None,
     f_economics_applied_at = None\<rparr>"

definition ex_clock :: clock where
  "ex_clock = \<lparr>ck_repair = 6000000000, ck_project = 6000000001, ck_confirm = 6000000002\<rparr>"

definition ex_stopped :: deployment_snapshot where
  "ex_stopped = ex_pending\<lparr>s_deployment := (s_deployment ex_pending)\<lparr>d_status := STOPPED,
     d_pending_stop_price := None\<rparr>\<rparr>"

definition ex_intent :: order_intent where
  "ex_intent = \<lparr>i_id = 21, i_deployment_id = 1, i_client_order_id = uuid_str 1 @ '':entry:1'',
     i_purpose = ENTRY, i_side = BUY, i_kind = POST_ONLY_LIMIT, i_quantity = 1, i_created_at = 0,
     i_candle_starts_at = 0, i_price = Some 100, i_stop_trigger_price = None, i_take_profit_price = None,
     i_status = FILLED, i_origin = RUNTIME, i_idempotency_key = None, i_product_id = ''BIT-28JUL23-CDE''\<rparr>"

definition ex_repair_order :: order where
  "ex_repair_order = ex_order\<lparr>o_id := 12, o_intent_id := 22, o_side := SELL, o_kind := MARKETABLE,
     o_price := None, o_product_id := ''BIT-28JUL23-CDE'',
     o_client_order_id := uuid_str 1 @ '':liquidation:1''\<rparr>"

definition ex_futures :: deployment_snapshot where
  "ex_futures = ex_snapshot
     \<lparr>s_deployment := ex_deployment\<lparr>d_mode := LIVE, d_product_id := ''BIT-28JUL23-CDE''\<rparr>,
      s_orders := [ex_order\<lparr>o_product_id := ''BIT-28JUL23-CDE'',
                     o_client_order_id := uuid_str 1 @ '':entry:1''\<rparr>, ex_repair_order],
      s_intents := [ex_intent, ex_intent\<lparr>i_id := 22, i_client_order_id := uuid_str 1 @ '':liquidation:1'',
                     i_purpose := LIQUIDATION, i_idempotency_key := Some ''futures-flip:1''\<rparr>],
      s_fills := [ex_fill\<lparr>f_economics_applied_at := Some 1\<rparr>]\<rparr>"

definition ex_repair_fill :: fill where
  "ex_repair_fill = ex_fill\<lparr>f_id := 32, f_order_id := 12, f_venue_fill_id := ''v-2'', f_quantity := 1 / 4\<rparr>"

lemma not_isl_pair: "\<not> isl r \<Longrightarrow> (\<And>a b. r = Inr (a, b) \<Longrightarrow> thesis) \<Longrightarrow> thesis"
  by (cases r) auto

lemma ex_fill_run: "\<not> isl (project_fill_economics 2 None ex_clock ex_pending ex_fill ex_order)"
  by code_simp

theorem fill_cash_exact_witness:
  "case project_fill_economics 2 None ex_clock ex_pending ex_fill ex_order of
     Inr (s', _) \<Rightarrow> d_cash (s_deployment s') = 994995 / 100 | Inl _ \<Rightarrow> False"
proof -
  obtain s' st where run: "project_fill_economics 2 None ex_clock ex_pending ex_fill ex_order = Inr (s', st)"
    using ex_fill_run by (rule not_isl_pair)
  have "on_grid 8 (f_price ex_fill)" "on_grid 8 (f_quantity ex_fill)" "on_grid 16 (f_fee ex_fill)"
    "on_grid 16 (d_cash (s_deployment ex_pending))"
    by code_simp+
  from fill_cash_exact [OF run this] show ?thesis
    unfolding run by (simp add: ex_fill_def ex_pending_def ex_snapshot_def ex_deployment_def ex_order_def)
qed

theorem fill_never_resumes_witness:
  "case project_fill_economics 2 None ex_clock ex_stopped ex_fill ex_order of
     Inr (s', _) \<Rightarrow> d_status (s_deployment s') = STOPPED \<and> d_mismatch_detail (s_deployment s') \<noteq> None
   | Inl _ \<Rightarrow> False"
proof -
  have ok: "\<not> isl (project_fill_economics 2 None ex_clock ex_stopped ex_fill ex_order)" by code_simp
  obtain s' st where run: "project_fill_economics 2 None ex_clock ex_stopped ex_fill ex_order = Inr (s', st)"
    using ok by (rule not_isl_pair)
  have "case project_fill_economics 2 None ex_clock ex_stopped ex_fill ex_order of
      Inr (s', _) \<Rightarrow> d_mismatch_detail (s_deployment s') \<noteq> None | Inl _ \<Rightarrow> False"
    by code_simp
  moreover have "d_status (s_deployment ex_stopped) = STOPPED" by (simp add: ex_stopped_def)
  ultimately show ?thesis using fill_never_resumes [OF run] by (simp add: run)
qed

theorem fill_keeps_siblings_witness:
  "case project_fill_economics 2 None ex_clock ex_pending ex_fill ex_order of
     Inr (s', _) \<Rightarrow> sibling_books s' ''BTC-USD'' = [ex_sibling] | Inl _ \<Rightarrow> False"
proof -
  obtain s' st where run: "project_fill_economics 2 None ex_clock ex_pending ex_fill ex_order = Inr (s', st)"
    using ex_fill_run by (rule not_isl_pair)
  have p: "fill_product ex_pending ex_order = ''BTC-USD''" by code_simp
  have sib: "sibling_books ex_pending ''BTC-USD'' = [ex_sibling]"
    by (simp add: sibling_books_def snapshot_positions_def ex_pending_def ex_sibling_def resolved_product_id_def)
  have named: "products_named ex_pending (fill_product ex_pending ex_order)" by code_simp
  have "case project_fill_economics 2 None ex_clock ex_pending ex_fill ex_order of
      Inr (s', _) \<Rightarrow> s_position s' \<noteq> None | Inl _ \<Rightarrow> False"
    by code_simp
  then have "s_position s' \<noteq> None \<or> position_for ex_pending (fill_product ex_pending ex_order) \<noteq> None"
    by (simp add: run)
  from fill_keeps_siblings [OF run named this] show ?thesis by (simp add: run p sib)
qed


theorem scale_in_average_between_witness:
  "case project_scale_in ex_sibling 7 ex_snapshot (ex_fill\<lparr>f_price := 60\<rparr>) ex_order of
     Inr s' \<Rightarrow> (\<exists>pos'. s_position s' = Some pos' \<and> 50 \<le> p_entry_price pos' \<and> p_entry_price pos' \<le> 60)
   | Inl _ \<Rightarrow> False"
proof -
  have ok: "\<not> isl (project_scale_in ex_sibling 7 ex_snapshot (ex_fill\<lparr>f_price := 60\<rparr>) ex_order)" by code_simp
  then obtain s' where run: "project_scale_in ex_sibling 7 ex_snapshot (ex_fill\<lparr>f_price := 60\<rparr>) ex_order = Inr s'"
    by (cases "project_scale_in ex_sibling 7 ex_snapshot (ex_fill\<lparr>f_price := 60\<rparr>) ex_order") auto
  let ?f = "ex_fill\<lparr>f_price := 60\<rparr>"
  have "0 < p_quantity ex_sibling" "0 < f_quantity ?f"
    "fixp 28 (p_quantity ex_sibling + f_quantity ?f) = p_quantity ex_sibling + f_quantity ?f"
    "fixp 28 (p_entry_price ex_sibling * p_quantity ex_sibling) = p_entry_price ex_sibling * p_quantity ex_sibling"
    "fixp 28 (f_price ?f * f_quantity ?f) = f_price ?f * f_quantity ?f"
    "fixp 28 (p_entry_price ex_sibling * p_quantity ex_sibling + f_price ?f * f_quantity ?f)
       = p_entry_price ex_sibling * p_quantity ex_sibling + f_price ?f * f_quantity ?f"
    "fixp 28 (p_entry_price ex_sibling) = p_entry_price ex_sibling" "fixp 28 (f_price ?f) = f_price ?f"
    by code_simp+
  from scale_in_average_between [OF run this] show ?thesis
    unfolding run by (auto simp: ex_sibling_def ex_fill_def)
qed

theorem managed_signed_base_exact_witness:
  "sum_list (map (managed_delta ex_futures) (s_fills ex_futures)) = 1 / 2"
proof -
  have run: "managed_signed_base ex_futures = Some (1 / 2)" by code_simp
  show ?thesis using managed_signed_base_exact [OF run] by simp
qed

theorem excess_reduction_reduces_witness:
  "case project_excess_reduction ex_futures ex_repair_fill ex_repair_order 7 of
     Inr (Some (s', _)) \<Rightarrow> d_cash (s_deployment s') = 1002495 / 100 | _ \<Rightarrow> False"
proof -
  have ok: "case project_excess_reduction ex_futures ex_repair_fill ex_repair_order 7 of
      Inr (Some _) \<Rightarrow> True | _ \<Rightarrow> False"
    by code_simp
  then obtain s' st where run: "project_excess_reduction ex_futures ex_repair_fill ex_repair_order 7 = Inr (Some (s', st))"
    by (auto split: sum.splits option.splits)
  show ?thesis using excess_reduction_reduces [OF run]
    unfolding run by (simp add: ex_repair_fill_def ex_fill_def ex_repair_order_def ex_order_def ex_futures_def
        ex_snapshot_def ex_deployment_def)
qed

end
