(* ===== verification/Protection.thy ===== *)
theory Protection
  imports Fill_Ledger "HOL-Library.AList"
begin

text \<open>
  Observable protection of a book: the evidence vocabulary (\<open>trading/protection_models.py\<close>),
  per-order classification (\<open>trading/protection_orders.py\<close>), the evidence builders
  (\<open>trading/protection_evidence.py\<close>) and the public entry points
  (\<open>trading/protection.py\<close>). Every datetime of the model is an aware UTC instant, so
  \<open>_aware\<close> is the identity; reason codes are strings, sets of them HOL sets.
\<close>

section \<open>Vocabulary\<close>

definition ACTIVE_STATUSES :: "order_status set" where
  "ACTIVE_STATUSES = {PENDING, OPEN, UNKNOWN}"

definition STOP_PURPOSES :: "intent_purpose set" where
  "STOP_PURPOSES = {STOP, BRACKET}"

definition LOCAL_EVIDENCE_MAX_AGE :: timedelta where
  "LOCAL_EVIDENCE_MAX_AGE = 120 * SECOND"

definition PROTECTION_REASONS :: "string list" where
  "PROTECTION_REASONS =
     [''flat'', ''inventory_projection_unresolved'', ''runtime_position_unresolved'',
      ''fill_economics_unsettled'', ''inventory_evidence_incomplete'', ''synthetic_worker_dependent'',
      ''venue_stop_resting'', ''duplicate_order_ignored'', ''take_profit_only'',
      ''closing_side_mismatch'', ''stop_price_mismatch'', ''stale_bracket'', ''stop_geometry_invalid'',
      ''stop_geometry_unknown'', ''unsupported_stop_kind'', ''venue_identity_missing'',
      ''local_observation_only'', ''venue_evidence_stale'', ''observation_time_unknown'',
      ''observation_time_future'', ''stop_quantity_short'', ''partial_stop_quantity'',
      ''pending_not_confirmed'', ''unknown_not_confirmed'', ''no_resting_stop'']"

datatype protection_status = PROT_FLAT | COVERED | UNPROTECTED | PROT_UNKNOWN

datatype protection_mechanism = VENUE | SYNTHETIC | MECHANISM_NONE | UNVERIFIED

datatype position_state =
  STATE_FLAT | ENTERING | OPEN_PROTECTED | OPEN_UNPROTECTED | OPEN_UNVERIFIED | EXITING

definition STATE_PRIORITY :: "position_state list" where
  "STATE_PRIORITY = [EXITING, OPEN_UNPROTECTED, OPEN_UNVERIFIED, OPEN_PROTECTED]"

fun OPEN_STATE :: "protection_status \<Rightarrow> position_state" where
  "OPEN_STATE PROT_FLAT = STATE_FLAT"
| "OPEN_STATE COVERED = OPEN_PROTECTED"
| "OPEN_STATE UNPROTECTED = OPEN_UNPROTECTED"
| "OPEN_STATE PROT_UNKNOWN = OPEN_UNVERIFIED"

datatype observation_source = venue_order_state | persisted_order | synthetic_worker | no_source
datatype evidence_freshness = recent_venue | stale | unknown_freshness
datatype geometry_basis = working_target | stop_limit_trigger | unknown_basis

record protection_evidence =
  v_status :: protection_status
  v_required_quantity :: "decimal option"
  v_covered_quantity :: "decimal option"
  v_uncovered_quantity :: "decimal option"
  v_stop_side :: "order_side option"
  v_stop_side_valid :: bool
  v_stop_geometry_valid :: bool
  v_mechanism :: protection_mechanism
  v_venue_resting :: bool
  v_worker_dependent :: bool
  v_observed_at :: "datetime option"
  v_verified_at :: "datetime option"
  v_observation_source :: observation_source
  v_freshness :: evidence_freshness
  v_evaluated_at :: datetime
  v_freshness_max_age_seconds :: int
  v_geometry_basis :: geometry_basis
  v_reasons :: "string list"

section \<open>Per-order classification\<close>

datatype hit_role = Confirmed | Pending_Hit | Unknown_Hit | Ignored

record hit =
  h_remaining :: decimal
  h_role :: hit_role
  h_flags :: "string set"
  h_observed_at :: "datetime option"
  h_side_valid :: bool
  h_geometry_valid :: bool

record hit_fold =
  fo_confirmed :: decimal
  fo_pending :: bool
  fo_unknown :: bool
  fo_flags :: "string set"
  fo_observed_at :: "datetime option"
  fo_verified_at :: "datetime option"
  fo_side_valid :: bool
  fo_geometry_valid :: bool

definition remaining_quantity :: "order \<Rightarrow> decimal" where
  "remaining_quantity ord =
     (let remaining = dsub (o_quantity ord) (o_filled_quantity ord) in if remaining > 0 then remaining else 0)"

definition venue_observed :: "order \<Rightarrow> datetime option" where
  "venue_observed ord = (if o_status ord = UNKNOWN then None else o_venue_observed_at ord)"

definition truthy :: "string option \<Rightarrow> bool" where
  "truthy x \<longleftrightarrow> x \<noteq> None \<and> x \<noteq> Some []"

definition parent_attached_venue_id :: "deployment_snapshot \<Rightarrow> order \<Rightarrow> string option" where
  "parent_attached_venue_id s ord =
     (case o_parent_order_id ord of
        None \<Rightarrow> None
      | Some parent_id \<Rightarrow>
          (case List.find (\<lambda>parent. o_id parent = parent_id \<and> truthy (o_attached_child_venue_order_id parent)) (s_orders s) of
             None \<Rightarrow> None
           | Some parent \<Rightarrow> o_attached_child_venue_order_id parent))"

definition cover_identity :: "deployment_snapshot \<Rightarrow> order \<Rightarrow> string" where
  "cover_identity s ord =
     (if truthy (o_venue_order_id ord) then ''venue:'' @ the (o_venue_order_id ord)
      else if truthy (parent_attached_venue_id s ord) then ''venue:'' @ the (parent_attached_venue_id s ord)
      else ''order:'' @ uuid_str (o_id ord))"

definition order_geometry ::
    "order \<Rightarrow> order_side \<times> order_kind \<times> decimal option \<times> decimal option \<times> decimal option" where
  "order_geometry ord =
     (o_side ord, o_kind ord, o_stop_trigger_price ord, o_take_profit_price ord, o_price ord)"

definition prefer_duplicate :: "order \<Rightarrow> order \<Rightarrow> order" where
  "prefer_duplicate left right =
     (let smaller = (if remaining_quantity left \<le> remaining_quantity right then left else right);
          conflict = smaller\<lparr>o_status := UNKNOWN, o_venue_observed_at := None\<rparr>
      in if order_geometry left \<noteq> order_geometry right \<or> o_quantity left \<noteq> o_quantity right then conflict
         else case (venue_observed left, venue_observed right) of
           (Some left_time, Some right_time) \<Rightarrow>
             if left_time = right_time then if o_status left = o_status right then smaller else conflict
             else let (newer, older) = (if left_time > right_time then (left, right) else (right, left))
             in if o_status older \<notin> ACTIVE_STATUSES \<and> o_status newer \<in> ACTIVE_STATUSES then conflict
                else if remaining_quantity newer > remaining_quantity older then conflict
                else newer
         | _ \<Rightarrow> conflict)"

text \<open>\<open>datetime.min\<close> in UTC, the sort key of an order with no venue receipt.\<close>

definition DATETIME_MIN :: datetime where
  "DATETIME_MIN = - 62135596800 * SECOND"

definition dedupe_step ::
    "deployment_snapshot \<Rightarrow> (string \<times> order) list \<times> bool \<Rightarrow> order \<Rightarrow> (string \<times> order) list \<times> bool" where
  "dedupe_step s acc ord =
     (let (chosen, duplicate) = acc; key = cover_identity s ord
      in case map_of chosen key of
           None \<Rightarrow> (AList.update key ord chosen, duplicate)
         | Some prior \<Rightarrow> (AList.update key (prefer_duplicate prior ord) chosen, True))"

definition deduped_active :: "deployment_snapshot \<Rightarrow> string \<Rightarrow> order list \<times> bool" where
  "deduped_active s product_id =
     (let active = filter (\<lambda>ord. resolved_product_id (o_product_id ord) (s_deployment s) = product_id) (s_orders s);
          ordered = sort_key (\<lambda>ord. or_else (venue_observed ord) DATETIME_MIN) active;
          (chosen, duplicate) = foldl (dedupe_step s) ([], False) ordered
      in (map snd chosen, duplicate))"

definition wrong_side_flags :: "order \<Rightarrow> (uuid \<rightharpoonup> intent_purpose) \<Rightarrow> string set" where
  "wrong_side_flags ord purposes =
     (case purposes (o_intent_id ord) of
        Some purpose \<Rightarrow>
          if purpose \<in> STOP_PURPOSES \<or> purpose = TAKE_PROFIT \<or> is_venue_protection (o_kind ord)
          then {''closing_side_mismatch''} else {}
      | None \<Rightarrow> if is_venue_protection (o_kind ord) then {''closing_side_mismatch''} else {})"

definition unreadable_role :: "order \<Rightarrow> string set \<Rightarrow> hit_role" where
  "unreadable_role ord flags =
     (if ''stop_geometry_unknown'' \<in> flags then Unknown_Hit
      else if o_status ord = UNKNOWN \<and> ''unknown_not_confirmed'' \<in> flags then Unknown_Hit
      else Ignored)"

definition open_role :: "order \<Rightarrow> hit_role" where
  "open_role ord =
     (if o_status ord = OPEN then Confirmed
      else if o_status ord = PENDING then Pending_Hit
      else if o_status ord = UNKNOWN then Unknown_Hit
      else Ignored)"

definition missing_trigger_flags :: "order \<Rightarrow> string set" where
  "missing_trigger_flags ord =
     (if o_status ord = UNKNOWN then {''unknown_not_confirmed''} else {''stop_geometry_invalid''})"

definition price_mismatch_flags :: "order \<Rightarrow> string set" where
  "price_mismatch_flags ord =
     (if o_kind ord = TRIGGER_BRACKET \<or> o_take_profit_price ord \<noteq> None
      then {''stop_price_mismatch'', ''stale_bracket''} else {''stop_price_mismatch''})"

definition bracket_target :: "order \<Rightarrow> decimal option" where
  "bracket_target ord =
     (if o_take_profit_price ord \<noteq> None then o_take_profit_price ord
      else if o_kind ord = TRIGGER_BRACKET then o_price ord
      else None)"

definition target_matches :: "order \<Rightarrow> position \<Rightarrow> bool" where
  "target_matches ord pos =
     (if o_kind ord = STOP_LIMIT then o_take_profit_price ord = None
      else case bracket_target ord of
             None \<Rightarrow> o_kind ord \<noteq> TRIGGER_BRACKET
           | Some observed \<Rightarrow>
               if p_target_price pos = None \<or> Some observed \<noteq> p_target_price pos then False
               else o_price ord = None \<or> o_price ord = p_target_price pos)"

definition stop_limit_flags :: "order \<Rightarrow> position \<Rightarrow> string set" where
  "stop_limit_flags ord pos =
     (case (o_price ord, o_stop_trigger_price ord) of
        (Some limit, Some trigger) \<Rightarrow>
          if limit \<le> 0 \<or> trigger \<le> 0 then {''stop_geometry_invalid''}
          else if (if p_side pos = SHORT then limit \<ge> trigger else limit \<le> trigger) then {}
          else {''stop_geometry_invalid''}
      | _ \<Rightarrow> {''stop_geometry_unknown''})"

definition geometry_flags :: "order \<Rightarrow> position \<Rightarrow> bool option \<Rightarrow> string set" where
  "geometry_flags ord pos book_ok =
     (if book_ok = Some False then {''stop_geometry_invalid''}
      else case o_stop_trigger_price ord of
             None \<Rightarrow> missing_trigger_flags ord
           | Some trigger \<Rightarrow>
               if trigger \<noteq> p_stop_price pos then price_mismatch_flags ord
               else if \<not> target_matches ord pos then {''stale_bracket''}
               else if o_kind ord = STOP_LIMIT then stop_limit_flags ord pos
               else if book_ok = None then {''stop_geometry_unknown''}
               else {})"

definition take_profit_only ::
    "order \<Rightarrow> (uuid \<rightharpoonup> intent_purpose) \<Rightarrow> bool" where
  "take_profit_only ord purposes =
     (if purposes (o_intent_id ord) = Some TAKE_PROFIT then True
      else if o_stop_trigger_price ord \<noteq> None \<or> is_venue_protection (o_kind ord) then False
      else purposes (o_intent_id ord) = None \<and> o_kind ord = POST_ONLY_LIMIT)"

definition stop_shaped :: "order \<Rightarrow> bool" where
  "stop_shaped ord = is_venue_protection (o_kind ord)"

definition unsupported_kind_flags :: "order \<Rightarrow> (uuid \<rightharpoonup> intent_purpose) \<Rightarrow> string set" where
  "unsupported_kind_flags ord purposes =
     (if (case purposes (o_intent_id ord) of None \<Rightarrow> False | Some purpose \<Rightarrow> purpose \<in> STOP_PURPOSES)
         \<or> o_stop_trigger_price ord \<noteq> None
      then {''unsupported_stop_kind''} else {})"

definition observation_flags :: "datetime option \<Rightarrow> datetime \<Rightarrow> bool \<Rightarrow> string set" where
  "observation_flags observed now venue_identity =
     (if venue_identity then {} else {''venue_identity_missing''})
     \<union> (case observed of
          None \<Rightarrow> {''observation_time_unknown''}
        | Some t \<Rightarrow>
            if t > now then {''observation_time_future''}
            else if now - t > LOCAL_EVIDENCE_MAX_AGE then {''venue_evidence_stale''}
            else {})"

definition ignored_hit :: "string set \<Rightarrow> hit" where
  "ignored_hit flags =
     \<lparr>h_remaining = 0, h_role = Ignored, h_flags = flags, h_observed_at = None,
      h_side_valid = False, h_geometry_valid = False\<rparr>"

definition classify_order ::
    "order \<Rightarrow> position \<Rightarrow> order_side \<Rightarrow> bool option \<Rightarrow> (uuid \<rightharpoonup> intent_purpose) \<Rightarrow> bool \<Rightarrow> datetime \<Rightarrow> hit" where
  "classify_order ord pos closing book_ok purposes venue_identity now =
     (let observed = venue_observed ord
      in if o_status ord \<notin> ACTIVE_STATUSES then ignored_hit {}
         else if o_side ord \<noteq> closing then ignored_hit (wrong_side_flags ord purposes)
         else if take_profit_only ord purposes then ignored_hit {''take_profit_only''}
         else if \<not> stop_shaped ord then
           let flags = unsupported_kind_flags ord purposes
           in (ignored_hit flags)\<lparr>h_role := if o_status ord = UNKNOWN \<and> flags \<noteq> {} then Unknown_Hit else Ignored\<rparr>
         else let geometry = geometry_flags ord pos book_ok
         in if o_status ord = UNKNOWN then
              \<lparr>h_remaining = 0, h_role = Unknown_Hit,
               h_flags = observation_flags observed now venue_identity \<union> geometry \<union> {''unknown_not_confirmed''},
               h_observed_at = observed, h_side_valid = True, h_geometry_valid = (geometry = {})\<rparr>
            else if geometry \<noteq> {} then
              (ignored_hit geometry)\<lparr>h_role := unreadable_role ord geometry, h_side_valid := True\<rparr>
            else let remaining = remaining_quantity ord
            in if remaining \<le> 0 then
                 (ignored_hit {''stop_quantity_short''})\<lparr>h_side_valid := True, h_geometry_valid := True\<rparr>
               else let flags = observation_flags observed now venue_identity;
                        role = (if flags \<noteq> {} \<and> open_role ord = Confirmed then Unknown_Hit else open_role ord)
               in \<lparr>h_remaining = remaining, h_role = role,
                   h_flags = (if observed = None then flags \<union> {''local_observation_only''} else flags),
                   h_observed_at = observed, h_side_valid = True, h_geometry_valid = True\<rparr>)"

definition later :: "datetime option \<Rightarrow> datetime option \<Rightarrow> datetime option" where
  "later current candidate =
     (case candidate of
        None \<Rightarrow> current
      | Some c \<Rightarrow> (case current of None \<Rightarrow> candidate | Some t \<Rightarrow> if c > t then candidate else current))"

definition min_instant :: "datetime list \<Rightarrow> datetime option" where
  "min_instant ts = (case ts of [] \<Rightarrow> None | t # rest \<Rightarrow> Some (foldl min t rest))"

definition fold_hits :: "hit list \<Rightarrow> bool \<Rightarrow> hit_fold" where
  "fold_hits hits duplicate =
     \<lparr>fo_confirmed = dsum (map h_remaining (filter (\<lambda>h. h_role h = Confirmed) hits)),
      fo_pending = (\<exists>h \<in> set hits. h_role h = Pending_Hit),
      fo_unknown = (\<exists>h \<in> set hits. h_role h = Unknown_Hit),
      fo_flags = (if duplicate then {''duplicate_order_ignored''} else {}) \<union> (\<Union>h \<in> set hits. h_flags h),
      fo_observed_at = foldl (\<lambda>acc h. later acc (h_observed_at h)) None hits,
      fo_verified_at = min_instant (List.map_filter
        (\<lambda>h. if h_role h = Confirmed then h_observed_at h else None) hits),
      fo_side_valid = (\<exists>h \<in> set hits. h_side_valid h),
      fo_geometry_valid = (\<exists>h \<in> set hits. h_geometry_valid h)\<rparr>"

section \<open>Evidence builders\<close>

definition closing_side :: "position \<Rightarrow> order_side" where
  "closing_side pos = (if p_side pos = SHORT then BUY else SELL)"

definition book_stop_on_protective_side :: "position \<Rightarrow> bool option" where
  "book_stop_on_protective_side pos =
     (if p_stop_price pos \<le> 0 then Some False
      else case p_target_price pos of
             None \<Rightarrow> None
           | Some target \<Rightarrow>
               if target \<le> 0 then Some False
               else if p_side pos = SHORT then Some (p_stop_price pos > target)
               else Some (p_stop_price pos < target))"

definition ordered_reasons :: "string set \<Rightarrow> string list" where
  "ordered_reasons found =
     filter (\<lambda>code. code \<in> found) PROTECTION_REASONS
     @ sorted_list_of_set (found - set PROTECTION_REASONS)"

definition max_age_seconds :: int where
  "max_age_seconds = LOCAL_EVIDENCE_MAX_AGE div SECOND"

definition flat_evidence :: "datetime \<Rightarrow> protection_evidence" where
  "flat_evidence now =
     \<lparr>v_status = PROT_FLAT, v_required_quantity = Some 0, v_covered_quantity = Some 0,
      v_uncovered_quantity = Some 0, v_stop_side = None, v_stop_side_valid = False,
      v_stop_geometry_valid = False, v_mechanism = MECHANISM_NONE, v_venue_resting = False,
      v_worker_dependent = False, v_observed_at = None, v_verified_at = None,
      v_observation_source = no_source, v_freshness = unknown_freshness, v_evaluated_at = now,
      v_freshness_max_age_seconds = max_age_seconds, v_geometry_basis = unknown_basis,
      v_reasons = [''flat'']\<rparr>"

definition unresolved_evidence :: "datetime \<Rightarrow> string list \<Rightarrow> protection_evidence" where
  "unresolved_evidence now reasons =
     (flat_evidence now)\<lparr>v_status := PROT_UNKNOWN, v_required_quantity := None,
        v_covered_quantity := None, v_uncovered_quantity := None, v_mechanism := UNVERIFIED,
        v_reasons := reasons\<rparr>"

definition paper_evidence :: "position \<Rightarrow> datetime \<Rightarrow> protection_evidence" where
  "paper_evidence pos now =
     (let geometry_ok = book_stop_on_protective_side pos;
          reasons = {''synthetic_worker_dependent''}
            \<union> (case geometry_ok of None \<Rightarrow> {''stop_geometry_unknown''}
                 | Some ok \<Rightarrow> if \<not> ok then {''stop_geometry_invalid''} else {})
      in \<lparr>v_status = COVERED, v_required_quantity = Some (p_quantity pos),
          v_covered_quantity = Some (p_quantity pos), v_uncovered_quantity = Some 0,
          v_stop_side = Some (closing_side pos), v_stop_side_valid = True,
          v_stop_geometry_valid = (geometry_ok = Some True), v_mechanism = SYNTHETIC,
          v_venue_resting = False, v_worker_dependent = True, v_observed_at = None,
          v_verified_at = None, v_observation_source = synthetic_worker,
          v_freshness = unknown_freshness, v_evaluated_at = now,
          v_freshness_max_age_seconds = max_age_seconds,
          v_geometry_basis = (if geometry_ok \<noteq> None then working_target else unknown_basis),
          v_reasons = ordered_reasons reasons\<rparr>)"

definition live_status :: "decimal \<Rightarrow> decimal \<Rightarrow> hit_fold \<Rightarrow> protection_status" where
  "live_status covered required fo =
     (if covered \<ge> required then COVERED
      else if fo_pending fo \<or> fo_unknown fo then PROT_UNKNOWN
      else UNPROTECTED)"

definition live_mechanism :: "protection_status \<Rightarrow> hit_fold \<Rightarrow> protection_mechanism" where
  "live_mechanism status fo =
     (if status = COVERED \<or> fo_confirmed fo > 0 then VENUE
      else if status = PROT_UNKNOWN then UNVERIFIED
      else MECHANISM_NONE)"

definition live_reasons :: "protection_status \<Rightarrow> hit_fold \<Rightarrow> decimal \<Rightarrow> string list" where
  "live_reasons status fo covered =
     ordered_reasons (fo_flags fo
       \<union> (if status = COVERED then {''venue_stop_resting''}
          else if covered > 0 then {''partial_stop_quantity''} else {})
       \<union> (if fo_pending fo then {''pending_not_confirmed''} else {})
       \<union> (if fo_unknown fo then {''unknown_not_confirmed''} else {})
       \<union> (if status = UNPROTECTED \<and> covered = 0 then {''no_resting_stop''} else {}))"

definition fold_freshness :: "hit_fold \<Rightarrow> evidence_freshness" where
  "fold_freshness fo =
     (if ''venue_evidence_stale'' \<in> fo_flags fo then stale
      else if fo_verified_at fo = None
              \<or> ''observation_time_unknown'' \<in> fo_flags fo \<or> ''observation_time_future'' \<in> fo_flags fo
              \<or> ''venue_identity_missing'' \<in> fo_flags fo
      then unknown_freshness
      else recent_venue)"

definition evidence_from_fold ::
    "position \<Rightarrow> order_side \<Rightarrow> hit_fold \<Rightarrow> datetime \<Rightarrow> protection_evidence" where
  "evidence_from_fold pos closing fo now =
     (let required = p_quantity pos;
          covered = (if fo_confirmed fo < required then fo_confirmed fo else required);
          uncovered = dsub required covered;
          status = live_status covered required fo
      in \<lparr>v_status = status, v_required_quantity = Some required, v_covered_quantity = Some covered,
          v_uncovered_quantity = Some uncovered, v_stop_side = Some closing,
          v_stop_side_valid = fo_side_valid fo, v_stop_geometry_valid = fo_geometry_valid fo,
          v_mechanism = live_mechanism status fo, v_venue_resting = (fo_confirmed fo > 0),
          v_worker_dependent = False, v_observed_at = fo_observed_at fo,
          v_verified_at = fo_verified_at fo,
          v_observation_source = (if fo_observed_at fo \<noteq> None then venue_order_state
                                  else if fo_flags fo \<noteq> {} then persisted_order else no_source),
          v_freshness = fold_freshness fo, v_evaluated_at = now,
          v_freshness_max_age_seconds = max_age_seconds,
          v_geometry_basis = (if fo_geometry_valid fo
             then if p_target_price pos \<noteq> None then working_target else stop_limit_trigger
             else unknown_basis),
          v_reasons = live_reasons status fo covered\<rparr>)"

definition scoped_product :: "deployment_snapshot \<Rightarrow> string \<Rightarrow> position \<Rightarrow> string" where
  "scoped_product s product_id pos =
     resolved_product_id (if product_id \<noteq> [] then product_id else p_product_id pos) (s_deployment s)"

definition live_hits :: "deployment_snapshot \<Rightarrow> string \<Rightarrow> position \<Rightarrow> datetime \<Rightarrow> hit list" where
  "live_hits s product_id pos now =
     map (\<lambda>ord. classify_order ord pos (closing_side pos) (book_stop_on_protective_side pos)
             (intent_purposes (s_intents s)) (startswith (cover_identity s ord) ''venue:'') now)
       (fst (deduped_active s (scoped_product s product_id pos)))"

definition live_evidence ::
    "deployment_snapshot \<Rightarrow> string \<Rightarrow> position \<Rightarrow> datetime \<Rightarrow> protection_evidence" where
  "live_evidence s product_id pos now =
     evidence_from_fold pos (closing_side pos)
       (fold_hits (live_hits s product_id pos now)
          (snd (deduped_active s (scoped_product s product_id pos)))) now"

section \<open>Public entry points\<close>

definition missing_occupied_inventory_products :: "deployment_snapshot \<Rightarrow> string list" where
  "missing_occupied_inventory_products s =
     (let d = s_deployment s;
          occupied = {PHASE_OPEN, PENDING_EXIT};
          projected = map (\<lambda>pos. resolved_product_id (p_product_id pos) d)
                        (filter (\<lambda>pos. p_quantity pos > 0) (snapshot_positions s));
          missing = map (\<lambda>r. resolved_product_id (r_product_id r) d)
                      (filter (\<lambda>r. r_phase r \<in> occupied
                          \<and> resolved_product_id (r_product_id r) d \<notin> set projected) (s_instrument_runtimes s))
      in sorted_set (missing @ (if projected = [] \<and> d_phase d \<in> occupied then [d_product_id d] else [])))"

definition book_inventory_reasons :: "deployment_snapshot \<Rightarrow> string \<Rightarrow> string list" where
  "book_inventory_reasons s product_id =
     (let product = resolved_product_id product_id (s_deployment s);
          orders = filter (\<lambda>ord. resolved_product_id (o_product_id ord) (s_deployment s) = product) (s_orders s);
          fills = filter (\<lambda>fl. f_order_id fl \<in> o_id ` set orders \<or> f_order_id fl \<notin> o_id ` set (s_orders s)) (s_fills s)
      in (if product \<in> set (unprojected_inventory_products s) then [''inventory_projection_unresolved''] else [])
         @ (if product \<in> set (missing_occupied_inventory_products s) then [''runtime_position_unresolved''] else [])
         @ (if unsettled_fill_evidence (s\<lparr>s_orders := orders, s_fills := fills\<rparr>)
            then [''fill_economics_unsettled''] else []))"

definition book_protection_evidence ::
    "deployment_snapshot \<Rightarrow> string \<Rightarrow> position option \<Rightarrow> datetime \<Rightarrow> protection_evidence" where
  "book_protection_evidence s product_id position now =
     (let reasons0 = book_inventory_reasons s product_id;
          reasons = (if reasons0 = [] \<and> position = None \<and> \<not> s_accounting_complete s
                     then [''inventory_evidence_incomplete''] else reasons0)
      in if reasons \<noteq> [] then unresolved_evidence now reasons
         else case position of
                None \<Rightarrow> flat_evidence now
              | Some pos \<Rightarrow>
                  if p_quantity pos \<le> 0 then flat_evidence now
                  else if d_mode (s_deployment s) = PAPER then paper_evidence pos now
                  else live_evidence s product_id pos now)"

definition book_exit_in_flight :: "deployment_snapshot \<Rightarrow> string \<Rightarrow> position option \<Rightarrow> bool" where
  "book_exit_in_flight s product_id position =
     (case position of
        None \<Rightarrow> False
      | Some pos \<Rightarrow>
          if d_lifecycle_command (s_deployment s) = FLATTEN then True
          else if p_signal_exit_bar pos \<noteq> None then True
          else \<exists>ord \<in> set (s_orders s).
                 o_kind ord = MARKETABLE \<and> o_side ord = closing_side pos \<and> o_status ord \<in> ACTIVE_STATUSES
                 \<and> resolved_product_id (o_product_id ord) (s_deployment s) = scoped_product s product_id pos)"

definition book_position_state ::
    "deployment_snapshot \<Rightarrow> string \<Rightarrow> position option \<Rightarrow> runtime_phase \<Rightarrow> protection_evidence option
     \<Rightarrow> datetime \<Rightarrow> position_state" where
  "book_position_state s product_id position phase evidence now =
     (let observed = or_else evidence (book_protection_evidence s product_id position now)
      in if book_exit_in_flight s product_id position then EXITING
         else if v_required_quantity observed = None then OPEN_UNVERIFIED
         else if position = None then if phase = PENDING_ENTRY then ENTERING else STATE_FLAT
         else if d_mode (s_deployment s) = PAPER then OPEN_PROTECTED
         else OPEN_STATE (v_status observed))"

definition deployment_states :: "deployment_snapshot \<Rightarrow> datetime \<Rightarrow> position_state list" where
  "deployment_states s now =
     map (\<lambda>pos. book_position_state s (resolved_product_id (p_product_id pos) (s_deployment s)) (Some pos)
              (d_phase (s_deployment s)) None now) (snapshot_positions s)
     @ (if unprojected_inventory_products s \<noteq> [] \<or> missing_occupied_inventory_products s \<noteq> []
           \<or> unsettled_fill_evidence s \<or> \<not> s_accounting_complete s
        then [OPEN_UNVERIFIED] else [])"

definition deployment_position_state :: "deployment_snapshot \<Rightarrow> datetime \<Rightarrow> position_state" where
  "deployment_position_state s now =
     (case List.find (\<lambda>state. state \<in> set (deployment_states s now)) STATE_PRIORITY of
        Some state \<Rightarrow> state
      | None \<Rightarrow> if d_phase (s_deployment s) = PENDING_ENTRY then ENTERING else STATE_FLAT)"

definition deployment_exit_in_flight :: "deployment_snapshot \<Rightarrow> datetime \<Rightarrow> bool" where
  "deployment_exit_in_flight s now \<longleftrightarrow> deployment_position_state s now = EXITING"

definition live_stop_absent ::
    "deployment_snapshot \<Rightarrow> string \<Rightarrow> position option \<Rightarrow> datetime \<Rightarrow> bool" where
  "live_stop_absent s product_id position now =
     (if d_mode (s_deployment s) \<noteq> LIVE then False
      else case position of
             None \<Rightarrow> False
           | Some pos \<Rightarrow>
               if p_quantity pos \<le> 0 then False
               else ''no_resting_stop'' \<in> set (v_reasons (live_evidence s product_id pos now)))"

definition book_protection_status ::
    "deployment_snapshot \<Rightarrow> string \<Rightarrow> position option \<Rightarrow> datetime \<Rightarrow> protection_status" where
  "book_protection_status s product_id position now =
     v_status (book_protection_evidence s product_id position now)"

definition working_order_count :: "order list \<Rightarrow> int" where
  "working_order_count orders = int (length (filter (\<lambda>ord. o_status ord \<in> ACTIVE_STATUSES) orders))"

section \<open>Duplicates\<close>

lemma remaining_nonneg [simp]: "0 \<le> remaining_quantity ord"
  by (simp add: remaining_quantity_def Let_def)

lemma remaining_marked [simp]:
  "remaining_quantity (ord\<lparr>o_status := a, o_venue_observed_at := b\<rparr>) = remaining_quantity ord"
  by (simp add: remaining_quantity_def)

lemma cover_identity_marked [simp]:
  "cover_identity s (ord\<lparr>o_status := a, o_venue_observed_at := b\<rparr>) = cover_identity s ord"
  by (simp add: cover_identity_def parent_attached_venue_id_def)

text \<open>The outcomes of \<open>prefer_duplicate\<close>: one of the rows, kept only when both have a receipt and
  the same geometry, or the smaller row marked unknown.\<close>

lemma prefer_duplicate_cases:
  obtains (conflict) row where "row \<in> {left, right}" "remaining_quantity row = min (remaining_quantity left) (remaining_quantity right)"
      "prefer_duplicate left right = row\<lparr>o_status := UNKNOWN, o_venue_observed_at := None\<rparr>"
  | (kept) "prefer_duplicate left right \<in> {left, right}"
      "remaining_quantity (prefer_duplicate left right) = min (remaining_quantity left) (remaining_quantity right)"
      "order_geometry left = order_geometry right" "o_quantity left = o_quantity right"
      "venue_observed left \<noteq> None" "venue_observed right \<noteq> None"
proof -
  define sm where "sm = (if remaining_quantity left \<le> remaining_quantity right then left else right)"
  define c where "c = sm\<lparr>o_status := UNKNOWN, o_venue_observed_at := None\<rparr>"
  have sm: "sm \<in> {left, right}" "remaining_quantity sm = min (remaining_quantity left) (remaining_quantity right)"
    by (auto simp: sm_def min_def)
  note pd = prefer_duplicate_def [of left right, unfolded Let_def, folded sm_def, folded c_def]
  show thesis
  proof (cases "prefer_duplicate left right = c")
    case True
    with sm show thesis by (intro conflict [of sm]) (simp_all add: c_def)
  next
    case False
    have geo: "order_geometry left = order_geometry right" "o_quantity left = o_quantity right"
      by (rule ccontr, use False in \<open>simp add: pd\<close>)+
    from False geo obtain lt rt where t: "venue_observed left = Some lt" "venue_observed right = Some rt"
      by (cases "venue_observed left"; cases "venue_observed right") (simp_all add: pd)
    have "prefer_duplicate left right = sm
        \<or> prefer_duplicate left right = left \<and> remaining_quantity left \<le> remaining_quantity right
        \<or> prefer_duplicate left right = right \<and> remaining_quantity right \<le> remaining_quantity left"
      using False by (auto simp: pd geo t not_less split: if_splits)
    then show thesis using sm by (intro kept [OF _ _ geo]) (auto simp: t min_def)
  qed
qed

lemma prefer_duplicate_remaining:
  "remaining_quantity (prefer_duplicate left right) = min (remaining_quantity left) (remaining_quantity right)"
  by (rule prefer_duplicate_cases [of left right]) auto

lemma prefer_duplicate_identity:
  "cover_identity s left = k \<Longrightarrow> cover_identity s right = k \<Longrightarrow> cover_identity s (prefer_duplicate left right) = k"
  by (rule prefer_duplicate_cases [of left right]) auto

lemma prefer_duplicate_member:
  "prefer_duplicate left right \<in> {left, right} \<or> o_status (prefer_duplicate left right) = UNKNOWN"
  by (rule prefer_duplicate_cases [of left right]) auto

text \<open>The invariant of the fold in \<open>deduped_active\<close> after the orders \<open>seen\<close>.\<close>

definition dedupe_inv :: "deployment_snapshot \<Rightarrow> order list \<Rightarrow> (string \<times> order) list \<Rightarrow> bool" where
  "dedupe_inv s seen chosen \<longleftrightarrow>
     distinct (map fst chosen)
     \<and> (\<forall>k row. map_of chosen k = Some row \<longrightarrow> cover_identity s row = k \<and> (row \<in> set seen \<or> o_status row = UNKNOWN))
     \<and> (\<forall>row \<in> set seen. \<exists>c. map_of chosen (cover_identity s row) = Some c \<and> remaining_quantity c \<le> remaining_quantity row)"

lemma dedupe_step_inv:
  assumes "dedupe_inv s seen chosen" "dedupe_step s (chosen, dup) row = (chosen', dup')"
  shows "dedupe_inv s (seen @ [row]) chosen'"
proof -
  let ?k = "cover_identity s row"
  have d: "distinct (map fst chosen)" and id: "\<And>k c. map_of chosen k = Some c \<Longrightarrow> cover_identity s c = k"
    and mem: "\<And>k c. map_of chosen k = Some c \<Longrightarrow> c \<in> set seen \<or> o_status c = UNKNOWN"
    and cov: "\<And>x. x \<in> set seen \<Longrightarrow> \<exists>c. map_of chosen (cover_identity s x) = Some c \<and> remaining_quantity c \<le> remaining_quantity x"
    using assms(1) by (auto simp: dedupe_inv_def)
  show ?thesis
  proof (cases "map_of chosen ?k")
    case None
    with assms(2) have c': "chosen' = AList.update ?k row chosen" by (simp add: dedupe_step_def)
    have fresh: "cover_identity s x \<noteq> ?k" if "x \<in> set seen" for x using cov [OF that] None by auto
    show ?thesis
      unfolding dedupe_inv_def c' using id mem cov d fresh
      by (auto simp: AList.update_conv AList.distinct_update)
  next
    case (Some prior)
    let ?w = "prefer_duplicate prior row"
    from Some assms(2) have c': "chosen' = AList.update ?k ?w chosen" by (simp add: dedupe_step_def)
    have w: "cover_identity s ?w = ?k" using id [OF Some] by (intro prefer_duplicate_identity) auto
    have "?w \<in> set (seen @ [row]) \<or> o_status ?w = UNKNOWN"
      using prefer_duplicate_member [of prior row] mem [OF Some] by auto
    moreover have "remaining_quantity ?w \<le> remaining_quantity x" if "x \<in> set (seen @ [row])" "cover_identity s x = ?k" for x
      using that cov [of x] Some by (auto simp: prefer_duplicate_remaining)
    ultimately show ?thesis
      unfolding dedupe_inv_def c' using id mem cov d w
      by (auto simp: AList.update_conv AList.distinct_update)
  qed
qed

lemma dedupe_fold_inv:
  "dedupe_inv s seen chosen \<Longrightarrow> foldl (dedupe_step s) (chosen, dup) os = (chosen', dup') \<Longrightarrow> dedupe_inv s (seen @ os) chosen'"
proof (induction os arbitrary: seen chosen dup)
  case (Cons row os)
  obtain c1 d1 where step: "dedupe_step s (chosen, dup) row = (c1, d1)" by fastforce
  from Cons.IH [OF dedupe_step_inv [OF Cons.prems(1) step]] Cons.prems(2) step show ?case by simp
qed simp

lemma deduped_active_spec:
  fixes s p
  defines "rows \<equiv> filter (\<lambda>ord. resolved_product_id (o_product_id ord) (s_deployment s) = p) (s_orders s)"
  shows "distinct (map (cover_identity s) (fst (deduped_active s p)))"
    and "row \<in> set (fst (deduped_active s p)) \<Longrightarrow> row \<in> set rows \<or> o_status row = UNKNOWN"
    and "row \<in> set (fst (deduped_active s p)) \<Longrightarrow> r \<in> set rows \<Longrightarrow> cover_identity s r = cover_identity s row
         \<Longrightarrow> remaining_quantity row \<le> remaining_quantity r"
proof -
  let ?sorted = "sort_key (\<lambda>ord. or_else (venue_observed ord) DATETIME_MIN) rows"
  obtain chosen dup where run: "foldl (dedupe_step s) ([], False) ?sorted = (chosen, dup)" by fastforce
  have fst_eq: "fst (deduped_active s p) = map snd chosen"
    using run by (simp add: deduped_active_def Let_def rows_def)
  have "dedupe_inv s [] []" by (simp add: dedupe_inv_def)
  from dedupe_fold_inv [OF this run] have inv: "dedupe_inv s ?sorted chosen" by simp
  have pair: "map_of chosen k = Some c" if "(k, c) \<in> set chosen" for k c
    using inv that by (simp add: dedupe_inv_def)
  have keys: "map (cover_identity s) (map snd chosen) = map fst chosen"
    using inv pair by (auto simp: dedupe_inv_def)
  show "distinct (map (cover_identity s) (fst (deduped_active s p)))"
    unfolding fst_eq keys using inv by (simp add: dedupe_inv_def)
  show "row \<in> set rows \<or> o_status row = UNKNOWN" if "row \<in> set (fst (deduped_active s p))"
    using that inv pair unfolding fst_eq by (fastforce simp: dedupe_inv_def)
  show "remaining_quantity row \<le> remaining_quantity r"
    if "row \<in> set (fst (deduped_active s p))" "r \<in> set rows" "cover_identity s r = cover_identity s row"
  proof -
    from that(1) obtain k where k: "map_of chosen k = Some row" unfolding fst_eq using pair by fastforce
    then have key: "cover_identity s row = k" using inv unfolding dedupe_inv_def by blast
    have "r \<in> set (sort_key (\<lambda>ord. or_else (venue_observed ord) DATETIME_MIN) rows)" using that(2) by simp
    then obtain c where "map_of chosen (cover_identity s r) = Some c" "remaining_quantity c \<le> remaining_quantity r"
      using inv unfolding dedupe_inv_def by blast
    with key k that(3) show ?thesis by simp
  qed
qed

section \<open>Confirmed cover\<close>

text \<open>What the evidence calls a confirmed stop: an open venue order on the closing side, of a
  protective kind, with a venue identity, triggered at the book's stop, with quantity left, and seen
  by the venue no more than the recency bound ago and not in the future.\<close>

definition confirmed_stop :: "deployment_snapshot \<Rightarrow> position \<Rightarrow> datetime \<Rightarrow> order \<Rightarrow> bool" where
  "confirmed_stop s pos now ord \<longleftrightarrow>
     o_status ord = OPEN \<and> o_side ord = closing_side pos \<and> is_venue_protection (o_kind ord)
     \<and> startswith (cover_identity s ord) ''venue:'' \<and> o_stop_trigger_price ord = Some (p_stop_price pos)
     \<and> 0 < remaining_quantity ord
     \<and> (\<exists>t. o_venue_observed_at ord = Some t \<and> t \<le> now \<and> now - t \<le> LOCAL_EVIDENCE_MAX_AGE)"

lemma geometry_flags_empty:
  "geometry_flags ord pos book_ok = {} \<Longrightarrow> o_stop_trigger_price ord = Some (p_stop_price pos)"
  by (auto simp: geometry_flags_def missing_trigger_flags_def price_mismatch_flags_def
      split: if_splits option.splits)

lemma observation_flags_empty:
  "observation_flags observed now venue_identity = {} \<Longrightarrow>
     venue_identity \<and> (\<exists>t. observed = Some t \<and> t \<le> now \<and> now - t \<le> LOCAL_EVIDENCE_MAX_AGE)"
  by (auto simp: observation_flags_def not_less split: if_splits option.splits)

lemma unreadable_not_confirmed [simp]: "unreadable_role ord flags \<noteq> Confirmed"
  by (simp add: unreadable_role_def)

lemma open_role_Confirmed [simp]: "open_role ord = Confirmed \<longleftrightarrow> o_status ord = OPEN"
  by (auto simp: open_role_def)

lemma classify_order_Confirmed:
  assumes "h_role (classify_order ord pos closing book_ok purposes venue_identity now) = Confirmed"
  shows "o_status ord = OPEN" "o_side ord = closing" "is_venue_protection (o_kind ord)"
    "geometry_flags ord pos book_ok = {}" "0 < remaining_quantity ord"
    "observation_flags (venue_observed ord) now venue_identity = {}"
    "h_remaining (classify_order ord pos closing book_ok purposes venue_identity now) = remaining_quantity ord"
  using assms
  by (auto simp: classify_order_def ignored_hit_def Let_def stop_shaped_def not_le split: if_splits)

lemma confirmed_hit_stop:
  assumes "h_role (classify_order ord pos (closing_side pos) book_ok purposes
      (startswith (cover_identity s ord) ''venue:'') now) = Confirmed"
  shows "confirmed_stop s pos now ord"
proof -
  note c = classify_order_Confirmed [OF assms]
  from observation_flags_empty [OF c(6)] c show ?thesis
    by (auto simp: confirmed_stop_def geometry_flags_empty venue_observed_def)
qed

text \<open>The rows the fold sums, as orders of the snapshot.\<close>

definition covering_orders :: "deployment_snapshot \<Rightarrow> string \<Rightarrow> position \<Rightarrow> datetime \<Rightarrow> order list" where
  "covering_orders s product_id pos now =
     filter (\<lambda>ord. h_role (classify_order ord pos (closing_side pos) (book_stop_on_protective_side pos)
                (intent_purposes (s_intents s)) (startswith (cover_identity s ord) ''venue:'') now) = Confirmed)
       (fst (deduped_active s (scoped_product s product_id pos)))"

lemma fold_confirmed_eq:
  "fo_confirmed (fold_hits (live_hits s product_id pos now) dup)
     = dsum (map remaining_quantity (covering_orders s product_id pos now))"
proof -
  let ?c = "\<lambda>ord. classify_order ord pos (closing_side pos) (book_stop_on_protective_side pos)
    (intent_purposes (s_intents s)) (startswith (cover_identity s ord) ''venue:'') now"
  have "map h_remaining (filter (\<lambda>h. h_role h = Confirmed) (map ?c os))
      = map remaining_quantity (filter (\<lambda>ord. h_role (?c ord) = Confirmed) os)" for os
    by (induction os) (auto simp: classify_order_Confirmed(7))
  then show ?thesis by (simp add: fold_hits_def live_hits_def covering_orders_def)
qed

lemma covering_orders_sound:
  "distinct (map (cover_identity s) (covering_orders s product_id pos now))"
  "row \<in> set (covering_orders s product_id pos now) \<Longrightarrow> confirmed_stop s pos now row \<and> row \<in> set (s_orders s)
     \<and> resolved_product_id (o_product_id row) (s_deployment s) = scoped_product s product_id pos"
proof -
  show "distinct (map (cover_identity s) (covering_orders s product_id pos now))"
    unfolding covering_orders_def by (intro distinct_map_filter deduped_active_spec)
  assume r: "row \<in> set (covering_orders s product_id pos now)"
  then have c: "confirmed_stop s pos now row" by (auto simp: covering_orders_def intro: confirmed_hit_stop)
  with deduped_active_spec(2) [where row = row and s = s and p = "scoped_product s product_id pos"] r
  show "confirmed_stop s pos now row \<and> row \<in> set (s_orders s)
     \<and> resolved_product_id (o_product_id row) (s_deployment s) = scoped_product s product_id pos"
    by (auto simp: covering_orders_def confirmed_stop_def)
qed

lemma live_evidence_covered:
  assumes "v_status (live_evidence s product_id pos now) = COVERED"
  shows "p_quantity pos \<le> dsum (map remaining_quantity (covering_orders s product_id pos now))"
  using assms
  by (auto simp: live_evidence_def evidence_from_fold_def Let_def live_status_def fold_confirmed_eq
      split: if_splits)

lemma book_evidence_live:
  assumes "d_mode (s_deployment s) = LIVE" "0 < p_quantity pos"
  shows "book_protection_evidence s product_id (Some pos) now
     = (if book_inventory_reasons s product_id = [] then live_evidence s product_id pos now
        else unresolved_evidence now (book_inventory_reasons s product_id))"
  using assms by (simp add: book_protection_evidence_def Let_def)

section \<open>Properties\<close>


text \<open>Contradictory copies of one venue order fail closed. Combining two rows never yields more
  remaining quantity than either of them, and the combination is a usable (not \<open>UNKNOWN\<close>) order
  only if it is one of the rows, both agree on geometry and original quantity, and both carry a venue
  receipt; a row that was terminal at the earlier receipt is never reopened by a later active one.\<close>

theorem prefer_duplicate_fails_closed:
  "remaining_quantity (prefer_duplicate left right) = min (remaining_quantity left) (remaining_quantity right)
   \<and> (o_status (prefer_duplicate left right) \<noteq> UNKNOWN \<longrightarrow>
        prefer_duplicate left right \<in> {left, right}
        \<and> order_geometry left = order_geometry right \<and> o_quantity left = o_quantity right
        \<and> venue_observed left \<noteq> None \<and> venue_observed right \<noteq> None)
   \<and> (\<forall>a b. venue_observed left = Some a \<and> venue_observed right = Some b \<and> a < b
        \<and> o_status left \<notin> ACTIVE_STATUSES \<and> o_status right \<in> ACTIVE_STATUSES
        \<longrightarrow> o_status (prefer_duplicate left right) = UNKNOWN)"
proof (intro conjI allI impI)
  show "remaining_quantity (prefer_duplicate left right) = min (remaining_quantity left) (remaining_quantity right)"
    by (rule prefer_duplicate_remaining)
  assume n: "o_status (prefer_duplicate left right) \<noteq> UNKNOWN"
  show "prefer_duplicate left right \<in> {left, right}" "order_geometry left = order_geometry right"
    "o_quantity left = o_quantity right" "venue_observed left \<noteq> None" "venue_observed right \<noteq> None"
    by (rule prefer_duplicate_cases [of left right]; use n in simp)+
next
  fix a b assume h: "venue_observed left = Some a \<and> venue_observed right = Some b \<and> a < b
    \<and> o_status left \<notin> ACTIVE_STATUSES \<and> o_status right \<in> ACTIVE_STATUSES"
  show "o_status (prefer_duplicate left right) = UNKNOWN"
  proof (cases "order_geometry left \<noteq> order_geometry right \<or> o_quantity left \<noteq> o_quantity right")
    case True
    then show ?thesis by (simp add: prefer_duplicate_def Let_def)
  next
    case False
    with h show ?thesis by (simp add: prefer_duplicate_def Let_def)
  qed
qed

definition quantities_add_up :: "protection_evidence \<Rightarrow> bool" where
  "quantities_add_up e =
     (case v_required_quantity e of
        None \<Rightarrow> v_status e = PROT_UNKNOWN \<and> v_covered_quantity e = None \<and> v_uncovered_quantity e = None
      | Some required \<Rightarrow> (\<exists>covered. v_covered_quantity e = Some covered \<and> covered \<le> required
          \<and> v_uncovered_quantity e = Some (dsub required covered)
          \<and> (v_status e \<in> {COVERED, PROT_FLAT} \<longleftrightarrow> covered = required)))"

lemma quantities_unresolved: "quantities_add_up (unresolved_evidence now reasons)"
  by (simp add: quantities_add_up_def unresolved_evidence_def)

lemma quantities_flat: "quantities_add_up (flat_evidence now)"
  by (simp add: quantities_add_up_def flat_evidence_def ctx_sub_def)

lemma quantities_paper: "quantities_add_up (paper_evidence pos now)"
  by (simp add: quantities_add_up_def paper_evidence_def Let_def ctx_sub_def)

lemma quantities_live: "quantities_add_up (live_evidence s product_id pos now)"
  by (auto simp: quantities_add_up_def live_evidence_def evidence_from_fold_def Let_def live_status_def)

text \<open>The reported quantities add up. When the required quantity is known, the covered quantity is
  known and never exceeds it, the uncovered quantity is their difference, and the book is reported
  covered (or flat) exactly when nothing is uncovered; when inventory is unresolved, every quantity is
  unknown and the status is \<open>unknown\<close>, never \<open>covered\<close> or \<open>flat\<close>.\<close>

theorem protection_quantities:
  "quantities_add_up (book_protection_evidence s product_id position now)"
  unfolding book_protection_evidence_def Let_def
  by (auto simp: quantities_unresolved quantities_flat quantities_paper quantities_live split: option.split)

lemma unsettled_restricted:
  fixes s product
  defines "d \<equiv> s_deployment s"
  defines "orders \<equiv> filter (\<lambda>ord. resolved_product_id (o_product_id ord) d = product) (s_orders s)"
  defines "fills \<equiv> filter (\<lambda>fl. f_order_id fl \<in> o_id ` set orders \<or> f_order_id fl \<notin> o_id ` set (s_orders s)) (s_fills s)"
  shows "fl \<in> set fills \<Longrightarrow> f_economics_applied_at fl = None \<Longrightarrow>
           unsettled_fill_evidence (s\<lparr>s_orders := orders, s_fills := fills\<rparr>)"
    and "ord \<in> set orders \<Longrightarrow> applied_fill_quantity s (o_id ord) < owed_quantity ord \<Longrightarrow>
           unsettled_fill_evidence (s\<lparr>s_orders := orders, s_fills := fills\<rparr>)"
proof -
  show "unsettled_fill_evidence (s\<lparr>s_orders := orders, s_fills := fills\<rparr>)"
    if "fl \<in> set fills" "f_economics_applied_at fl = None"
    using that not_unsettled_iff [of "s\<lparr>s_orders := orders, s_fills := fills\<rparr>"] by (auto simp: list_all_iff)
  have same: "applied_fill_quantity (s\<lparr>s_orders := orders, s_fills := fills\<rparr>) (o_id ord) = applied_fill_quantity s (o_id ord)"
    if "ord \<in> set orders" for ord
  proof -
    have "filter (\<lambda>fl. f_order_id fl = o_id ord \<and> f_economics_applied_at fl \<noteq> None) fills
        = filter (\<lambda>fl. f_order_id fl = o_id ord \<and> f_economics_applied_at fl \<noteq> None) (s_fills s)"
      unfolding fills_def filter_filter using that by (intro filter_cong) auto
    then show ?thesis by (simp add: applied_fill_quantity_def)
  qed
  show "unsettled_fill_evidence (s\<lparr>s_orders := orders, s_fills := fills\<rparr>)"
    if "ord \<in> set orders" "applied_fill_quantity s (o_id ord) < owed_quantity ord"
    using that same [OF that(1)] not_unsettled_iff [of "s\<lparr>s_orders := orders, s_fills := fills\<rparr>"]
    by (auto simp: list_all_iff)
qed

text \<open>No unsettled evidence falls between the books: whenever the deployment as a whole has
  unsettled fills, some product book discloses \<open>fill_economics_unsettled\<close>, including the case of
  a fill whose order is unknown.\<close>

theorem unsettled_evidence_is_disclosed:
  assumes "unsettled_fill_evidence s"
  shows "\<exists>product. ''fill_economics_unsettled'' \<in> set (book_inventory_reasons s product)"
proof -
  let ?d = "s_deployment s"
  have reason: "''fill_economics_unsettled'' \<in> set (book_inventory_reasons s (resolved_product_id x ?d))"
    if "unsettled_fill_evidence (s\<lparr>s_orders := filter (\<lambda>ord. resolved_product_id (o_product_id ord) ?d = resolved_product_id x ?d) (s_orders s),
          s_fills := filter (\<lambda>fl. f_order_id fl \<in> o_id ` set (filter (\<lambda>ord. resolved_product_id (o_product_id ord) ?d = resolved_product_id x ?d) (s_orders s))
             \<or> f_order_id fl \<notin> o_id ` set (s_orders s)) (s_fills s)\<rparr>)" for x
    using that by (simp add: book_inventory_reasons_def Let_def)
  from assms not_unsettled_iff [of s] consider
      (fill) fl where "fl \<in> set (s_fills s)" "f_economics_applied_at fl = None"
    | (ord) ord where "ord \<in> set (s_orders s)" "applied_fill_quantity s (o_id ord) < owed_quantity ord"
    by (auto simp: list_all_iff not_le)
  then show ?thesis
  proof cases
    case fill
    obtain x where "f_order_id fl \<in> o_id ` set (filter (\<lambda>ord. resolved_product_id (o_product_id ord) ?d = resolved_product_id x ?d) (s_orders s))
        \<or> f_order_id fl \<notin> o_id ` set (s_orders s)"
      by auto
    with fill show ?thesis
      by - (rule exI, rule reason [of x], rule unsettled_restricted(1) [where fl = fl], auto)
  next
    case ord
    then show ?thesis
      by - (rule exI, rule reason [of "o_product_id ord"], rule unsettled_restricted(2) [where ord = ord], auto)
  qed
qed

text \<open>A deployment is reported protected only on complete evidence: \<open>open_protected\<close>,
  \<open>flat\<close> and \<open>entering\<close> are never reported while accounting is incomplete, recorded
  inventory is not projected, an occupied runtime has no position or a fill is unsettled; and when it
  is \<open>open_protected\<close> no book is exiting, unprotected or unverified.\<close>

theorem deployment_state_fails_closed:
  assumes "deployment_position_state s now \<in> {OPEN_PROTECTED, STATE_FLAT, ENTERING}"
  shows "s_accounting_complete s \<and> unprojected_inventory_products s = []
       \<and> missing_occupied_inventory_products s = [] \<and> \<not> unsettled_fill_evidence s
       \<and> set (deployment_states s now) \<inter> {EXITING, OPEN_UNPROTECTED, OPEN_UNVERIFIED} = {}"
proof -
  have none: "set (deployment_states s now) \<inter> {EXITING, OPEN_UNPROTECTED, OPEN_UNVERIFIED} = {}"
    using assms by (auto simp: deployment_position_state_def STATE_PRIORITY_def split: if_splits)
  then have "OPEN_UNVERIFIED \<notin> set (deployment_states s now)" by blast
  then have "\<not> (unprojected_inventory_products s \<noteq> [] \<or> missing_occupied_inventory_products s \<noteq> []
      \<or> unsettled_fill_evidence s \<or> \<not> s_accounting_complete s)"
    by (auto simp: deployment_states_def)
  with none show ?thesis by blast
qed

section \<open>Worked instances\<close>

text \<open>A live long of half a coin with a resting stop-limit that the venue confirmed a second ago.\<close>

definition ex_stop_order :: order where
  "ex_stop_order = ex_order\<lparr>o_id := 13, o_intent_id := 23, o_client_order_id := ''c-3'', o_side := SELL,
     o_kind := STOP_LIMIT, o_quantity := 1 / 2, o_price := Some 92, o_stop_trigger_price := Some 97,
     o_venue_order_id := Some ''V1'', o_venue_observed_at := Some 1000000\<rparr>"

definition ex_open_position :: position where
  "ex_open_position = ex_sibling\<lparr>p_quantity := 1 / 2, p_entry_price := 100, p_stop_price := 97,
     p_product_id := ''BTC-USD''\<rparr>"

definition ex_live :: deployment_snapshot where
  "ex_live = ex_snapshot\<lparr>s_deployment := ex_deployment\<lparr>d_mode := LIVE, d_phase := PHASE_OPEN\<rparr>,
     s_position := Some ex_open_position, s_positions := [ex_open_position], s_orders := [ex_stop_order]\<rparr>"


theorem prefer_duplicate_fails_closed_witness:
  "o_status (prefer_duplicate (ex_stop_order\<lparr>o_status := CANCELED\<rparr>)
     (ex_stop_order\<lparr>o_venue_observed_at := Some 1500000\<rparr>)) = UNKNOWN"
  using prefer_duplicate_fails_closed [of "ex_stop_order\<lparr>o_status := CANCELED\<rparr>"
      "ex_stop_order\<lparr>o_venue_observed_at := Some 1500000\<rparr>"]
  by (simp add: venue_observed_def ACTIVE_STATUSES_def ex_stop_order_def ex_order_def)

theorem unsettled_evidence_is_disclosed_witness:
  "\<exists>product. ''fill_economics_unsettled''
     \<in> set (book_inventory_reasons (ex_live\<lparr>s_fills := [ex_fill\<lparr>f_order_id := 99\<rparr>]\<rparr>) product)"
proof -
  have "unsettled_fill_evidence (ex_live\<lparr>s_fills := [ex_fill\<lparr>f_order_id := 99\<rparr>]\<rparr>)"
    by (simp add: unsettled_fill_evidence_def ex_fill_def)
  then show ?thesis by (rule unsettled_evidence_is_disclosed)
qed

theorem deployment_state_fails_closed_witness:
  "deployment_position_state ex_live 2000000 = OPEN_PROTECTED \<and> \<not> unsettled_fill_evidence ex_live"
proof -
  have run: "deployment_position_state ex_live 2000000 = OPEN_PROTECTED" by code_simp
  then have "deployment_position_state ex_live 2000000 \<in> {OPEN_PROTECTED, STATE_FLAT, ENTERING}" by simp
  from deployment_state_fails_closed [OF this] run show ?thesis by blast
qed

end
