(* ===== verification/Ledger.thy ===== *)
theory Ledger
  imports Protection
begin

text \<open>
  Mark-to-market profit and loss from recorded fills (\<open>trading/ledger.py\<close>): paper fees, the
  average-cost lot fold, drawdown over disclosed marks, per-product books and the checks that keep a
  ledger from certifying totals whose evidence is incomplete. Text rendering of decimals
  (\<open>canonical_decimal\<close>) is not modelled.
\<close>

section \<open>Records and paper fees\<close>

definition PAPER_MAKER_FEE_RATE :: decimal where "PAPER_MAKER_FEE_RATE = 1 / 1000"
definition PAPER_TAKER_FEE_RATE :: decimal where "PAPER_TAKER_FEE_RATE = 2 / 1000"
definition MAX_PAPER_FEE_RATE :: decimal where "MAX_PAPER_FEE_RATE = 1 / 10"
definition MAX_POSITION_FEE_FILLS :: nat where "MAX_POSITION_FEE_FILLS = 1000"

record ledger_fill =
  lf_side :: order_side
  lf_price :: decimal
  lf_quantity :: decimal
  lf_fee :: decimal
  lf_filled_at :: datetime

record product_book_ledger =
  b_product_id :: string
  b_base_quantity :: "decimal option"
  b_mark_price :: "decimal option"
  b_realized_net_pnl :: decimal
  b_unrealized_net_pnl :: "decimal option"
  b_total_net_pnl :: "decimal option"
  b_trade_count :: int
  b_mark_complete :: bool

record deployment_ledger =
  lg_starting_cash :: decimal
  lg_cash :: decimal
  lg_base_quantity :: "decimal option"
  lg_mark_price :: "decimal option"
  lg_equity :: "decimal option"
  lg_realized_net_pnl :: decimal
  lg_unrealized_net_pnl :: "decimal option"
  lg_total_net_pnl :: "decimal option"
  lg_total_return_fraction :: "decimal option"
  lg_total_fees :: decimal
  lg_maximum_drawdown :: "decimal option"
  lg_maximum_drawdown_fraction :: "decimal option"
  lg_trade_count :: int
  lg_mark_complete :: bool
  lg_books :: "product_book_ledger list"
  lg_marked_exposure :: "decimal option"
  lg_accounting_complete :: bool

definition require_paper_fee_pair :: "decimal \<Rightarrow> decimal \<Rightarrow> unit result" where
  "require_paper_fee_pair maker taker =
     (if \<exists>rate \<in> {maker, taker}. \<not> dec_is_finite rate \<or> rate < 0 \<or> rate > MAX_PAPER_FEE_RATE
      then Inl (ValueError ''Paper fee rates must be finite decimals in [0, 0.1].'')
      else if maker > taker then Inl (ValueError ''maker_fee_rate must not exceed taker_fee_rate.'')
      else Inr ())"

definition resolve_paper_fee_schedule ::
    "bool \<Rightarrow> decimal option \<Rightarrow> decimal option \<Rightarrow> (decimal option \<times> decimal option) result" where
  "resolve_paper_fee_schedule live maker_fee_rate taker_fee_rate =
     (if live then
        if maker_fee_rate \<noteq> None \<or> taker_fee_rate \<noteq> None
        then Inl (ValueError ''Live deployments do not accept paper fee rates.'')
        else Inr (None, None)
      else if (maker_fee_rate = None) \<noteq> (taker_fee_rate = None)
      then Inl (ValueError ''Paper fee rates require both maker_fee_rate and taker_fee_rate.'')
      else case (maker_fee_rate, taker_fee_rate) of
             (Some maker, Some taker) \<Rightarrow>
               rbind (require_paper_fee_pair maker taker) (\<lambda>_. Inr (Some maker, Some taker))
           | _ \<Rightarrow> Inr (Some PAPER_MAKER_FEE_RATE, Some PAPER_TAKER_FEE_RATE))"

definition effective_paper_fee_rates :: "decimal option \<Rightarrow> decimal option \<Rightarrow> decimal \<times> decimal" where
  "effective_paper_fee_rates maker_fee_rate taker_fee_rate =
     (case (maker_fee_rate, taker_fee_rate) of
        (Some maker, Some taker) \<Rightarrow> (maker, taker)
      | _ \<Rightarrow> (PAPER_MAKER_FEE_RATE, PAPER_TAKER_FEE_RATE))"

definition paper_fill_fee :: "order_kind \<Rightarrow> decimal \<Rightarrow> decimal \<Rightarrow> decimal \<Rightarrow> decimal \<Rightarrow> decimal" where
  "paper_fill_fee kind price quantity maker_fee_rate taker_fee_rate =
     dmul (dmul price quantity) (if kind = POST_ONLY_LIMIT then maker_fee_rate else taker_fee_rate)"

section \<open>Joining fills to orders\<close>

definition fill_sort_key :: "fill \<Rightarrow> datetime \<times> string" where
  "fill_sort_key fl = (f_filled_at fl, f_venue_fill_id fl)"

definition ledger_fill_of :: "order \<Rightarrow> fill \<Rightarrow> ledger_fill" where
  "ledger_fill_of ord fl =
     \<lparr>lf_side = o_side ord, lf_price = f_price fl, lf_quantity = f_quantity fl, lf_fee = f_fee fl,
      lf_filled_at = f_filled_at fl\<rparr>"

definition ledger_fills_for_product :: "deployment_snapshot \<Rightarrow> string \<Rightarrow> ledger_fill list" where
  "ledger_fills_for_product s product_id =
     (let order_ids = o_id ` set (filter (\<lambda>ord. resolved_product_id (o_product_id ord) (s_deployment s) = product_id) (s_orders s));
          orders = dict_by o_id (filter (\<lambda>ord. o_id ord \<in> order_ids) (s_orders s))
      in List.map_filter (\<lambda>fl. if f_order_id fl \<notin> order_ids then None
            else map_option (\<lambda>ord. ledger_fill_of ord fl) (orders (f_order_id fl)))
          (sort_key fill_sort_key (s_fills s)))"

definition ledger_fills_from_snapshot :: "deployment_snapshot \<Rightarrow> ledger_fill list" where
  "ledger_fills_from_snapshot s =
     (let orders = dict_by o_id (s_orders s)
      in List.map_filter (\<lambda>fl. map_option (\<lambda>ord. ledger_fill_of ord fl) (orders (f_order_id fl)))
          (sort_key fill_sort_key (s_fills s)))"

section \<open>Lots\<close>

record lot_state =
  lo_quantity :: decimal
  lo_entry_price :: "decimal option"
  lo_entry_fees :: decimal
  lo_realized :: decimal
  lo_trade_count :: int

definition empty_lot :: lot_state where
  "empty_lot = \<lparr>lo_quantity = 0, lo_entry_price = None, lo_entry_fees = 0, lo_realized = 0, lo_trade_count = 0\<rparr>"

definition flatten_lot :: "lot_state \<Rightarrow> lot_state" where
  "flatten_lot st =
     \<lparr>lo_quantity = 0, lo_entry_price = None, lo_entry_fees = 0, lo_realized = lo_realized st,
      lo_trade_count = lo_trade_count st + 1\<rparr>"

definition fold_buy :: "lot_state \<Rightarrow> ledger_fill \<Rightarrow> lot_state result" where
  "fold_buy st fl =
     (if lo_quantity st = 0 then
        Inr (st\<lparr>lo_quantity := lf_quantity fl, lo_entry_price := Some (lf_price fl), lo_entry_fees := lf_fee fl\<rparr>)
      else if lo_quantity st > 0 then
        let combined = dadd (lo_quantity st) (lf_quantity fl);
            basis = or_else (lo_entry_price st) (lf_price fl)
        in rbind (ddiv_checked (dadd (dmul basis (lo_quantity st)) (dmul (lf_price fl) (lf_quantity fl))) combined)
             (\<lambda>entry_price.
           Inr (st\<lparr>lo_quantity := combined, lo_entry_price := Some entry_price,
                   lo_entry_fees := dadd (lo_entry_fees st) (lf_fee fl)\<rparr>))
      else
        let covered = min (lf_quantity fl) (dneg (lo_quantity st))
        in rbind (case lo_entry_price st of
                    None \<Rightarrow> Inr (lo_realized st, lo_entry_fees st)
                  | Some entry \<Rightarrow>
                      rbind (ddiv_checked (dmul (lo_entry_fees st) covered) (dneg (lo_quantity st))) (\<lambda>allocated.
                      rbind (ddiv_checked (dmul (lf_fee fl) covered) (lf_quantity fl)) (\<lambda>fee_share.
                      Inr (dadd (lo_realized st)
                             (dsub (dsub (dsub (dmul entry covered) (dmul (lf_price fl) covered)) fee_share) allocated),
                           dsub (lo_entry_fees st) allocated)))) (\<lambda>(realized, entry_fees).
           let quantity = dadd (lo_quantity st) (lf_quantity fl);
               updated = st\<lparr>lo_quantity := quantity, lo_entry_fees := entry_fees, lo_realized := realized\<rparr>
           in Inr (if quantity \<ge> 0 then flatten_lot updated else updated)))"

definition fold_sell :: "lot_state \<Rightarrow> ledger_fill \<Rightarrow> lot_state result" where
  "fold_sell st fl =
     (let exit_notional = dmul (lf_price fl) (lf_quantity fl)
      in if lo_quantity st = 0 then
           Inr (st\<lparr>lo_quantity := dneg (lf_quantity fl), lo_entry_price := Some (lf_price fl), lo_entry_fees := lf_fee fl\<rparr>)
         else if lo_quantity st < 0 then
           let combined = dadd (dneg (lo_quantity st)) (lf_quantity fl);
               basis = or_else (lo_entry_price st) (lf_price fl)
           in rbind (ddiv_checked (dadd (dmul basis (dneg (lo_quantity st))) (dmul (lf_price fl) (lf_quantity fl))) combined)
                (\<lambda>entry_price.
              Inr (st\<lparr>lo_quantity := dsub (lo_quantity st) (lf_quantity fl), lo_entry_price := Some entry_price,
                      lo_entry_fees := dadd (lo_entry_fees st) (lf_fee fl)\<rparr>))
         else
           rbind (case lo_entry_price st of
                    None \<Rightarrow> Inr (lo_realized st, lo_entry_fees st)
                  | Some entry \<Rightarrow>
                      rbind (ddiv_checked (dmul (lo_entry_fees st) (lf_quantity fl)) (lo_quantity st)) (\<lambda>allocated.
                      Inr (dsub (dadd (lo_realized st)
                                   (dsub (dsub exit_notional (lf_fee fl)) (dmul entry (lf_quantity fl)))) allocated,
                           dsub (lo_entry_fees st) allocated))) (\<lambda>(realized, entry_fees).
           let quantity = dsub (lo_quantity st) (lf_quantity fl);
               updated = st\<lparr>lo_quantity := quantity, lo_entry_fees := entry_fees, lo_realized := realized\<rparr>
           in Inr (if quantity \<le> 0 then flatten_lot updated else updated)))"

definition fold_lot :: "lot_state \<Rightarrow> ledger_fill \<Rightarrow> lot_state result" where
  "fold_lot st fl = (if lf_side fl = BUY then fold_buy st fl else fold_sell st fl)"

text \<open>The loop of \<open>_fold_fills\<close> over its running cash, lot and equity curve.\<close>

fun fold_fills_loop ::
    "decimal \<Rightarrow> lot_state \<Rightarrow> decimal list \<Rightarrow> ledger_fill list \<Rightarrow> (lot_state \<times> decimal list) result" where
  "fold_fills_loop cash st equities [] = Inr (st, equities)"
| "fold_fills_loop cash st equities (fl # fls) =
     (let notional = dmul (lf_price fl) (lf_quantity fl);
          cash' = (if lf_side fl = BUY then dsub cash (dadd notional (lf_fee fl))
                   else dadd cash (dsub notional (lf_fee fl)))
      in rbind (fold_lot st fl) (\<lambda>st'.
           fold_fills_loop cash' st' (equities @ [dadd cash' (dmul (lo_quantity st') (lf_price fl))]) fls))"

definition fold_fills ::
    "decimal \<Rightarrow> ledger_fill list \<Rightarrow> (decimal \<times> int \<times> decimal \<times> decimal option \<times> decimal list) result" where
  "fold_fills starting_cash fills =
     rbind (fold_fills_loop starting_cash empty_lot [starting_cash] fills) (\<lambda>(st, equities).
       Inr (lo_realized st, lo_trade_count st, lo_quantity st, lo_entry_price st, equities))"

definition signed_quantity :: "position \<Rightarrow> decimal" where
  "signed_quantity pos = (if p_side pos = SHORT then dneg (p_quantity pos) else p_quantity pos)"

fun replay_lot :: "datetime \<Rightarrow> lot_state \<Rightarrow> ledger_fill list \<Rightarrow> lot_state option result" where
  "replay_lot entered_bar st [] = Inr (Some st)"
| "replay_lot entered_bar st (fl # fls) =
     (if lf_filled_at fl < entered_bar then Inr None
      else rbind (fold_lot st fl) (\<lambda>st'. replay_lot entered_bar st' fls))"

definition remaining_position_entry_fees :: "position \<Rightarrow> ledger_fill list \<Rightarrow> decimal option result" where
  "remaining_position_entry_fees pos fills =
     (if fills = [] \<or> length fills > MAX_POSITION_FEE_FILLS then Inr None
      else rbind (replay_lot (p_entered_bar pos) empty_lot fills) (\<lambda>replayed.
        case replayed of
          None \<Rightarrow> Inr None
        | Some st \<Rightarrow>
            if lo_quantity st \<noteq> signed_quantity pos \<or> lo_entry_price st \<noteq> Some (p_entry_price pos)
            then Inr None else Inr (Some (lo_entry_fees st))))"

section \<open>Drawdown\<close>

fun drawdown_loop :: "decimal \<Rightarrow> decimal \<Rightarrow> decimal \<Rightarrow> decimal list \<Rightarrow> decimal \<times> decimal" where
  "drawdown_loop peak md mdf [] = (md, mdf)"
| "drawdown_loop peak md mdf (equity # es) =
     (let peak' = max peak equity
      in if peak' \<le> 0 then drawdown_loop peak' md mdf es
         else let dd = dsub peak' equity
              in drawdown_loop peak' (max md dd) (max mdf (ddiv dd peak')) es)"

definition drawdown :: "decimal list \<Rightarrow> decimal option \<times> decimal option" where
  "drawdown equities =
     (case equities of
        [] \<Rightarrow> (None, None)
      | e # _ \<Rightarrow> let (md, mdf) = drawdown_loop e 0 0 equities in (Some md, Some mdf))"

section \<open>Books\<close>

definition mark_deployment_ledger ::
    "decimal \<Rightarrow> decimal \<Rightarrow> ledger_fill list \<Rightarrow> decimal \<Rightarrow> decimal option \<Rightarrow> decimal option
     \<Rightarrow> deployment_ledger result" where
  "mark_deployment_ledger starting_cash cash fills position_quantity position_entry_price mark_price =
     rbind (fold_fills starting_cash fills)
       (\<lambda>(realized, trade_count, reconstructed_qty, reconstructed_entry, fill_equities).
     let base_quantity = (if position_quantity = 0 then reconstructed_qty else position_quantity);
         entry_price = (if position_quantity \<noteq> 0 then position_entry_price else reconstructed_entry);
         needs_mark = (base_quantity \<noteq> 0);
         marked = (case (mark_price, entry_price) of
            (Some mark, Some entry) \<Rightarrow>
              if needs_mark then Some (dmul base_quantity (dsub mark entry), dadd cash (dmul base_quantity mark)) else None
          | _ \<Rightarrow> None);
         unrealized = (case marked of Some (u, _) \<Rightarrow> Some u | None \<Rightarrow> if needs_mark then None else Some 0);
         equity = (case marked of Some (_, e) \<Rightarrow> Some e | None \<Rightarrow> if needs_mark then None else Some cash);
         total_net_pnl = map_option (\<lambda>e. dsub e starting_cash) equity;
         (maximum_drawdown, maximum_drawdown_fraction) =
           drawdown (fill_equities @ (case equity of None \<Rightarrow> [] | Some e \<Rightarrow> [e]))
     in Inr \<lparr>lg_starting_cash = starting_cash, lg_cash = cash, lg_base_quantity = Some base_quantity,
             lg_mark_price = mark_price, lg_equity = equity, lg_realized_net_pnl = realized,
             lg_unrealized_net_pnl = unrealized, lg_total_net_pnl = total_net_pnl,
             lg_total_return_fraction =
               (if starting_cash > 0 then map_option (\<lambda>t. ddiv t starting_cash) total_net_pnl else None),
             lg_total_fees = dsum (map lf_fee fills), lg_maximum_drawdown = maximum_drawdown,
             lg_maximum_drawdown_fraction = maximum_drawdown_fraction, lg_trade_count = trade_count,
             lg_mark_complete = (\<not> needs_mark \<or> mark_price \<noteq> None), lg_books = [],
             lg_marked_exposure = None, lg_accounting_complete = True\<rparr>)"

definition book_ledger_of :: "string \<Rightarrow> deployment_ledger \<Rightarrow> product_book_ledger" where
  "book_ledger_of product_id ledger =
     \<lparr>b_product_id = product_id, b_base_quantity = lg_base_quantity ledger,
      b_mark_price = lg_mark_price ledger, b_realized_net_pnl = lg_realized_net_pnl ledger,
      b_unrealized_net_pnl = lg_unrealized_net_pnl ledger, b_total_net_pnl = lg_total_net_pnl ledger,
      b_trade_count = lg_trade_count ledger, b_mark_complete = lg_mark_complete ledger\<rparr>"

definition setdefault :: "('k \<rightharpoonup> 'v) \<Rightarrow> 'k \<Rightarrow> 'v \<Rightarrow> ('k \<rightharpoonup> 'v)" where
  "setdefault m k v = (case m k of None \<Rightarrow> m(k \<mapsto> v) | Some _ \<Rightarrow> m)"

definition resolve_marks ::
    "deployment \<Rightarrow> (string \<rightharpoonup> decimal) option \<Rightarrow> decimal option \<Rightarrow> position list \<Rightarrow> (string \<rightharpoonup> decimal)" where
  "resolve_marks d marks mark_price positions =
     (let resolved = or_else marks Map.empty
      in case mark_price of
           None \<Rightarrow> resolved
         | Some mark \<Rightarrow>
             foldl (\<lambda>m pos. setdefault m (resolved_product_id (p_product_id pos) d) mark)
               (setdefault resolved (d_product_id d) mark) positions)"

definition single_book_ledger ::
    "deployment_snapshot \<Rightarrow> decimal \<Rightarrow> decimal \<Rightarrow> position list \<Rightarrow> (string \<rightharpoonup> decimal) \<Rightarrow> decimal option
     \<Rightarrow> deployment_ledger result" where
  "single_book_ledger s starting_cash cash positions marks_map mark_price =
     (let d = s_deployment s;
          position = (case positions of pos # _ \<Rightarrow> Some pos | [] \<Rightarrow> s_position s);
          quantity = (case position of None \<Rightarrow> 0 | Some pos \<Rightarrow> signed_quantity pos);
          product_id = (case position of None \<Rightarrow> d_product_id d
                          | Some pos \<Rightarrow> resolved_product_id (p_product_id pos) d);
          fills = (if position \<noteq> None then ledger_fills_for_product s product_id
                   else ledger_fills_from_snapshot s);
          mark = (case marks_map product_id of
                    Some m \<Rightarrow> Some m
                  | None \<Rightarrow> if product_id = d_product_id d then mark_price else None)
      in rbind (mark_deployment_ledger starting_cash cash fills quantity (map_option p_entry_price position) mark)
           (\<lambda>ledger.
         if position \<noteq> None \<and> quantity \<noteq> 0
         then Inr (ledger\<lparr>lg_books := [book_ledger_of product_id ledger],
                          lg_marked_exposure := map_option (\<lambda>m. dmul quantity m) mark\<rparr>)
         else Inr ledger))"

record multi_fold =
  mf_books :: "product_book_ledger list"
  mf_marked_exposure :: decimal
  mf_unrealized_total :: decimal
  mf_mark_complete :: bool
  mf_needs_mark :: bool
  mf_primary_quantity :: decimal
  mf_primary_mark :: "decimal option"

definition multi_book_step ::
    "deployment_snapshot \<Rightarrow> decimal \<Rightarrow> decimal \<Rightarrow> (string \<rightharpoonup> decimal) \<Rightarrow> multi_fold \<Rightarrow> position
     \<Rightarrow> multi_fold result" where
  "multi_book_step s starting_cash cash marks_map acc pos =
     (let product_id = resolved_product_id (p_product_id pos) (s_deployment s);
          quantity = signed_quantity pos;
          mark = marks_map product_id
      in rbind (mark_deployment_ledger starting_cash cash (ledger_fills_for_product s product_id) quantity
                  (Some (p_entry_price pos)) mark) (\<lambda>book.
         let acc1 = acc\<lparr>mf_books := mf_books acc @ [book_ledger_of product_id book]\<rparr>
         in if quantity = 0 then Inr acc1
            else let acc2 = acc1\<lparr>mf_needs_mark := True\<rparr>
            in case mark of
                 None \<Rightarrow> Inr (acc2\<lparr>mf_mark_complete := False\<rparr>)
               | Some m \<Rightarrow>
                   let acc3 = acc2\<lparr>mf_marked_exposure := dadd (mf_marked_exposure acc2) (dmul quantity m),
                                   mf_unrealized_total := dadd (mf_unrealized_total acc2)
                                      (or_else (lg_unrealized_net_pnl book) 0)\<rparr>
                   in Inr (if product_id = d_product_id (s_deployment s)
                           then acc3\<lparr>mf_primary_quantity := quantity, mf_primary_mark := Some m\<rparr> else acc3)))"

fun foldM :: "('a \<Rightarrow> 'b \<Rightarrow> 'a result) \<Rightarrow> 'a \<Rightarrow> 'b list \<Rightarrow> 'a result" where
  "foldM f a [] = Inr a"
| "foldM f a (x # xs) = rbind (f a x) (\<lambda>b. foldM f b xs)"

definition multi_book_ledger ::
    "deployment_snapshot \<Rightarrow> decimal \<Rightarrow> decimal \<Rightarrow> position list \<Rightarrow> (string \<rightharpoonup> decimal)
     \<Rightarrow> deployment_ledger result" where
  "multi_book_ledger s starting_cash cash positions marks_map =
     (let all_fills = ledger_fills_from_snapshot s
      in rbind (fold_fills starting_cash all_fills) (\<lambda>(realized, trade_count, _, _, fill_equities).
         rbind (foldM (multi_book_step s starting_cash cash marks_map)
                  \<lparr>mf_books = [], mf_marked_exposure = 0, mf_unrealized_total = 0, mf_mark_complete = True,
                   mf_needs_mark = False, mf_primary_quantity = 0, mf_primary_mark = None\<rparr> positions) (\<lambda>acc.
         let equity = (if \<not> mf_needs_mark acc then Some cash
                       else if mf_mark_complete acc then Some (dadd cash (mf_marked_exposure acc)) else None);
             total_net_pnl = map_option (\<lambda>e. dsub e starting_cash) equity;
             (maximum_drawdown, maximum_drawdown_fraction) =
               drawdown (fill_equities @ (case equity of None \<Rightarrow> [] | Some e \<Rightarrow> [e]));
             (primary_quantity, primary_mark) =
               (case mf_books acc of
                  book # _ \<Rightarrow> if mf_primary_quantity acc = 0 then (b_base_quantity book, b_mark_price book)
                              else (Some (mf_primary_quantity acc), mf_primary_mark acc)
                | [] \<Rightarrow> (Some (mf_primary_quantity acc), mf_primary_mark acc))
         in Inr \<lparr>lg_starting_cash = starting_cash, lg_cash = cash, lg_base_quantity = primary_quantity,
                 lg_mark_price = primary_mark, lg_equity = equity, lg_realized_net_pnl = realized,
                 lg_unrealized_net_pnl =
                   (if mf_mark_complete acc then Some (mf_unrealized_total acc) else None),
                 lg_total_net_pnl = total_net_pnl,
                 lg_total_return_fraction =
                   (if starting_cash > 0 then map_option (\<lambda>t. ddiv t starting_cash) total_net_pnl else None),
                 lg_total_fees = dsum (map lf_fee all_fills), lg_maximum_drawdown = maximum_drawdown,
                 lg_maximum_drawdown_fraction = maximum_drawdown_fraction, lg_trade_count = trade_count,
                 lg_mark_complete = mf_mark_complete acc, lg_books = mf_books acc,
                 lg_marked_exposure = (if mf_mark_complete acc then Some (mf_marked_exposure acc) else None),
                 lg_accounting_complete = True\<rparr>)))"

section \<open>Completeness and normalization\<close>

definition accounting_evidence_complete :: "deployment_snapshot \<Rightarrow> bool" where
  "accounting_evidence_complete s \<longleftrightarrow>
     s_accounting_complete s \<and> unprojected_inventory_products s = []
     \<and> missing_occupied_inventory_products s = [] \<and> \<not> unsettled_fill_evidence s"

definition inventory_checked_ledger :: "deployment_snapshot \<Rightarrow> deployment_ledger \<Rightarrow> deployment_ledger" where
  "inventory_checked_ledger s ledger =
     (if accounting_evidence_complete s then ledger
      else ledger\<lparr>lg_base_quantity := None, lg_equity := None, lg_unrealized_net_pnl := None,
                  lg_total_net_pnl := None, lg_total_return_fraction := None,
                  lg_maximum_drawdown := None, lg_maximum_drawdown_fraction := None,
                  lg_mark_complete := False, lg_marked_exposure := None,
                  lg_books := map (\<lambda>book.
                     if book_inventory_reasons s (b_product_id book) \<noteq> []
                     then book\<lparr>b_base_quantity := None, b_unrealized_net_pnl := None,
                               b_total_net_pnl := None, b_mark_complete := False\<rparr>
                     else book) (lg_books ledger),
                  lg_accounting_complete := False\<rparr>)"

text \<open>The replay of \<open>_capital_fill_equities\<close>: cash, the insertion-ordered quantities, the last
  price per product, and the curve.\<close>

record capital_replay =
  cr_cash :: decimal
  cr_quantities :: "(string \<times> decimal) list"
  cr_prices :: "string \<rightharpoonup> decimal"
  cr_equities :: "decimal list"

definition capital_replay_step :: "deployment_snapshot \<Rightarrow> capital_replay \<Rightarrow> fill \<Rightarrow> capital_replay" where
  "capital_replay_step s acc fl =
     (case dict_by o_id (s_orders s) (f_order_id fl) of
        None \<Rightarrow> acc
      | Some ord \<Rightarrow>
          let product_id = resolved_product_id (o_product_id ord) (s_deployment s);
              signed = (if o_side ord = BUY then f_quantity fl else dneg (f_quantity fl));
              cash = dsub (cr_cash acc) (dadd (dmul signed (f_price fl)) (f_fee fl));
              quantities = AList.update product_id
                (dadd (or_else (map_of (cr_quantities acc) product_id) 0) signed) (cr_quantities acc);
              prices = (cr_prices acc)(product_id \<mapsto> f_price fl);
              inventory = dsum (map (\<lambda>(product, quantity). dmul quantity (or_else (prices product) 0)) quantities)
          in \<lparr>cr_cash = cash, cr_quantities = quantities, cr_prices = prices,
              cr_equities = cr_equities acc @ [dadd cash inventory]\<rparr>)"

definition capital_fill_equities :: "deployment_snapshot \<Rightarrow> decimal \<Rightarrow> decimal list" where
  "capital_fill_equities s capital =
     cr_equities (foldl (capital_replay_step s)
       \<lparr>cr_cash = capital, cr_quantities = [], cr_prices = Map.empty, cr_equities = [capital]\<rparr>
       (sort_key fill_sort_key (s_fills s)))"

definition capital_normalized_ledger :: "deployment_snapshot \<Rightarrow> deployment_ledger \<Rightarrow> deployment_ledger" where
  "capital_normalized_ledger s ledger =
     (case (performance_capital (s_deployment s), lg_equity ledger) of
        (Some capital, Some equity) \<Rightarrow>
          if \<not> lg_mark_complete ledger
          then ledger\<lparr>lg_total_return_fraction := None, lg_maximum_drawdown_fraction := None\<rparr>
          else
            let curve = capital_fill_equities s capital @ [dsub (dadd capital equity) (lg_starting_cash ledger)];
                (absolute, fraction) = drawdown curve;
                observed = current_drawdown (s_deployment s) equity;
                maximum = max (max (or_else fraction 0) (or_else observed 0))
                  (or_else (d_performance_maximum_drawdown_fraction (s_deployment s)) 0)
            in ledger\<lparr>lg_total_return_fraction := map_option (\<lambda>t. ddiv t capital) (lg_total_net_pnl ledger),
                      lg_maximum_drawdown := absolute, lg_maximum_drawdown_fraction := Some maximum\<rparr>
      | _ \<Rightarrow> ledger\<lparr>lg_total_return_fraction := None, lg_maximum_drawdown_fraction := None\<rparr>)"

definition ledger_from_snapshot ::
    "deployment_snapshot \<Rightarrow> (string \<rightharpoonup> decimal) option \<Rightarrow> decimal option \<Rightarrow> deployment_ledger result" where
  "ledger_from_snapshot s marks mark_price =
     (let d = s_deployment s;
          starting = ledger_starting_equity d;
          positions = snapshot_positions s;
          marks_map = resolve_marks d marks mark_price positions
      in rbind (if length positions \<le> 1
                then single_book_ledger s starting (d_cash d) positions marks_map mark_price
                else multi_book_ledger s starting (d_cash d) positions marks_map) (\<lambda>ledger.
         Inr (capital_normalized_ledger s (inventory_checked_ledger s ledger))))"

section \<open>Drawdown\<close>

lemma drawdown_loop_grows: "drawdown_loop peak md mdf es = (md', mdf') \<Longrightarrow> md \<le> md' \<and> mdf \<le> mdf'"
proof (induction es arbitrary: peak md mdf)
  case (Cons e es)
  then show ?case by (fastforce simp: Let_def split: if_splits)
qed simp

lemma drawdown_loop_bounds:
  assumes "drawdown_loop peak md mdf (xs @ e # ys) = (md', mdf')" "x \<in> insert peak (set (xs @ [e]))" "0 < x"
  shows "dsub x e \<le> md'"
  using assms
proof (induction xs arbitrary: peak md mdf x)
  case Nil
  then have "x \<le> max peak e" by auto
  then have "dsub x e \<le> dsub (max peak e) e" unfolding ctx_sub_def by (intro d28.rnd_mono) simp
  moreover have "dsub (max peak e) e \<le> md'"
  proof -
    have "0 < max peak e" using Nil(2,3) by auto
    then have "\<exists>f. drawdown_loop (max peak e) (max md (dsub (max peak e) e)) f ys = (md', mdf')"
      using Nil(1) by (auto simp: Let_def less_max_iff_disj split: if_splits)
    then show ?thesis by (auto dest: drawdown_loop_grows)
  qed
  ultimately show ?case by simp
next
  case (Cons a xs)
  let ?p = "max peak a"
  have step: "\<exists>m f. drawdown_loop ?p m f (xs @ e # ys) = (md', mdf')"
    using Cons.prems(1) by (auto simp: Let_def split: if_splits)
  have "\<exists>x'. x' \<in> insert ?p (set (xs @ [e])) \<and> x \<le> x'" using Cons.prems(2) by auto
  then obtain x' where x': "x' \<in> insert ?p (set (xs @ [e]))" "x \<le> x'" by blast
  have "0 < x'" using x'(2) Cons.prems(3) by simp
  with step Cons.IH x'(1) have "dsub x' e \<le> md'" by blast
  moreover have "dsub x e \<le> dsub x' e" unfolding ctx_sub_def using x'(2) by (intro d28.rnd_mono) simp
  ultimately show ?case by simp
qed

lemma drawdown_loop_attained:
  "drawdown_loop peak md mdf es = (md', mdf') \<Longrightarrow>
     md' = md \<or> (\<exists>xs e ys x. es = xs @ e # ys \<and> x \<in> insert peak (set (xs @ [e])) \<and> md' = dsub x e)"
proof (induction es arbitrary: peak md mdf)
  case (Cons a es)
  let ?p = "max peak a"
  from Cons.prems obtain m f where step: "drawdown_loop ?p m f es = (md', mdf')" "m = md \<or> m = dsub ?p a"
    by (auto simp: Let_def max_def split: if_splits)
  from Cons.IH [OF step(1)] show ?case
  proof
    assume "md' = m"
    then show ?thesis using step(2) by (metis append_Nil insertCI list.set_intros(1) max_def)
  next
    assume "\<exists>xs e ys x. es = xs @ e # ys \<and> x \<in> insert ?p (set (xs @ [e])) \<and> md' = dsub x e"
    then obtain xs e ys x where *: "es = xs @ e # ys" "x \<in> insert ?p (set (xs @ [e]))" "md' = dsub x e" by blast
    have "a # es = (a # xs) @ e # ys" "x \<in> insert peak (set ((a # xs) @ [e]))" using * by (auto simp: max_def split: if_splits)
    with *(3) show ?thesis by blast
  qed
qed simp

lemma drawdown_fraction_le_1:
  assumes "drawdown_loop peak md mdf es = (md', mdf')" "mdf \<le> 1"
    and "\<forall>e \<in> insert peak (set es). 0 \<le> e \<and> fixp 28 e = e"
  shows "mdf' \<le> 1"
  using assms
proof (induction es arbitrary: peak md mdf)
  case (Cons a es)
  let ?p = "max peak a"
  have p: "fixp 28 ?p = ?p" using Cons.prems(3) by (simp add: max_def)
  have one: "fixp 28 1 = 1" using fixp_int [of 1 28] by simp
  have "ddiv (dsub ?p a) ?p \<le> 1" if "0 < ?p"
  proof -
    have "dsub ?p a \<le> ?p" unfolding ctx_sub_def using Cons.prems(3) p by (intro d28.rnd_upper) auto
    then show ?thesis unfolding ctx_div_def using that one by (intro d28.rnd_upper) (auto simp: divide_le_eq)
  qed
  with Cons.prems obtain m f where "drawdown_loop ?p m f es = (md', mdf')" "f \<le> 1"
    by (auto simp: Let_def not_le split: if_splits)
  with Cons.IH [of ?p m f] Cons.prems(3) show ?case by (auto simp: max_def split: if_splits)
qed simp

text \<open>C39: The drawdown scan is the maximum fall from an earlier mark: over a non-empty curve it returns
  an amount that is non-negative, at least the fall from every earlier positive mark to every later
  one, and either zero or the fall between two marks of the curve; the fraction is non-negative, and
  at most one when the marks are non-negative amounts that fit the context.\<close>

theorem drawdown_is_maximum_fall:
  assumes "curve \<noteq> []"
  shows "\<exists>md mdf. drawdown curve = (Some md, Some mdf) \<and> 0 \<le> md \<and> 0 \<le> mdf
       \<and> (\<forall>xs e ys x. curve = xs @ e # ys \<and> x \<in> set (xs @ [e]) \<and> 0 < x \<longrightarrow> dsub x e \<le> md)
       \<and> (md = 0 \<or> (\<exists>xs e ys x. curve = xs @ e # ys \<and> x \<in> set (xs @ [e]) \<and> md = dsub x e))
       \<and> ((\<forall>e \<in> set curve. 0 \<le> e \<and> fixp 28 e = e) \<longrightarrow> mdf \<le> 1)"
proof -
  from assms obtain c cs where curve: "curve = c # cs" by (cases curve) auto
  obtain md mdf where run: "drawdown_loop c 0 0 curve = (md, mdf)" by fastforce
  have head: "c \<in> set (xs @ [e])" if "curve = xs @ e # ys" for xs e ys using that curve by (cases xs) auto
  show ?thesis
  proof (intro exI conjI allI impI)
    show "drawdown curve = (Some md, Some mdf)" using run by (simp add: drawdown_def curve)
    show "0 \<le> md" "0 \<le> mdf" using drawdown_loop_grows [OF run] by auto
    show "dsub x e \<le> md" if "curve = xs @ e # ys \<and> x \<in> set (xs @ [e]) \<and> 0 < x" for xs e ys x
      using drawdown_loop_bounds [of c 0 0 xs e ys md mdf x] run that by auto
    show "md = 0 \<or> (\<exists>xs e ys x. curve = xs @ e # ys \<and> x \<in> set (xs @ [e]) \<and> md = dsub x e)"
      using drawdown_loop_attained [OF run] head by (metis insert_iff)
    show "mdf \<le> 1" if "\<forall>e \<in> set curve. 0 \<le> e \<and> fixp 28 e = e"
      using drawdown_fraction_le_1 [OF run] that by (auto simp: curve)
  qed
qed

theorem drawdown_is_maximum_fall_witness:
  "drawdown [100, 120, 90, 110] = (Some 30, Some (1 / 4)) \<and> dsub 120 90 \<le> 30"
proof -
  have run: "drawdown [100, 120, 90, 110] = (Some 30, Some (1 / 4))" by code_simp
  have "[100, 120, 90, 110 :: decimal] \<noteq> []" by simp
  from drawdown_is_maximum_fall [OF this] run
  have "\<forall>xs e ys x. [100, 120, 90, 110] = xs @ e # ys \<and> x \<in> set (xs @ [e]) \<and> 0 < x \<longrightarrow> dsub x e \<le> 30"
    by (elim exE conjE) simp
  from this [rule_format, of "[100, 120]" 90 "[110]" 120] run show ?thesis by simp
qed

section \<open>The lot fold never raises and never flips\<close>

definition lot_ok :: "lot_state \<Rightarrow> bool" where
  "lot_ok st \<longleftrightarrow> (if lo_quantity st = 0 then lo_entry_price st = None \<and> lo_entry_fees st = 0
                else lo_entry_price st \<noteq> None)"

lemma ddiv_checked_nz: "y \<noteq> 0 \<Longrightarrow> ddiv_checked x y = Inr (ddiv x y)"
  by simp

lemma lot_ok_empty [simp]: "lot_ok empty_lot"
  by (simp add: lot_ok_def empty_lot_def)

lemma lot_ok_flatten [simp]: "lot_ok (flatten_lot st)" "lo_quantity (flatten_lot st) = 0"
  "lo_entry_price (flatten_lot st) = None" "lo_entry_fees (flatten_lot st) = 0"
  by (simp_all add: lot_ok_def flatten_lot_def)

lemma fold_buy_ok:
  assumes "lot_ok st" "0 < lf_quantity fl"
  shows "\<exists>st'. fold_buy st fl = Inr st' \<and> lot_ok st' \<and> (lo_quantity st < 0 \<longrightarrow> lo_quantity st' \<le> 0)
       \<and> (0 \<le> lo_quantity st \<longrightarrow> 0 < lo_quantity st')"
proof -
  consider "lo_quantity st = 0" | "0 < lo_quantity st" | "lo_quantity st < 0" by linarith
  then show ?thesis
  proof cases
    case 1
    with assms show ?thesis by (simp add: fold_buy_def lot_ok_def)
  next
    case 2
    have "0 < dadd (lo_quantity st) (lf_quantity fl)" using 2 assms(2) by (simp add: ctx_add_def)
    with 2 show ?thesis by (simp add: fold_buy_def Let_def ddiv_checked_nz lot_ok_def)
  next
    case 3
    then obtain e where e: "lo_entry_price st = Some e" using assms(1) by (auto simp: lot_ok_def)
    have nz: "dneg (lo_quantity st) \<noteq> 0" using 3 by (simp add: ctx_neg_def)
    have f: "\<not> 0 \<le> dadd (lo_quantity st) (lf_quantity fl) \<Longrightarrow> dadd (lo_quantity st) (lf_quantity fl) < 0" by linarith
    show ?thesis
      using 3 assms(2) nz f e by (auto simp: fold_buy_def Let_def ddiv_checked_nz lot_ok_def)
  qed
qed

lemma fold_sell_ok:
  assumes "lot_ok st" "0 < lf_quantity fl"
  shows "\<exists>st'. fold_sell st fl = Inr st' \<and> lot_ok st' \<and> (0 < lo_quantity st \<longrightarrow> 0 \<le> lo_quantity st')
       \<and> (lo_quantity st \<le> 0 \<longrightarrow> lo_quantity st' < 0)"
proof -
  consider "lo_quantity st = 0" | "lo_quantity st < 0" | "0 < lo_quantity st" by linarith
  then show ?thesis
  proof cases
    case 1
    with assms show ?thesis by (simp add: fold_sell_def lot_ok_def ctx_neg_def)
  next
    case 2
    have "0 < dadd (dneg (lo_quantity st)) (lf_quantity fl)" "dsub (lo_quantity st) (lf_quantity fl) < 0"
      using 2 assms(2) by (simp_all add: ctx_defs add_pos_pos)
    with 2 show ?thesis by (simp add: fold_sell_def Let_def ddiv_checked_nz lot_ok_def)
  next
    case 3
    then obtain e where e: "lo_entry_price st = Some e" using assms(1) by (auto simp: lot_ok_def)
    show ?thesis
      using 3 assms(2) e by (auto simp: fold_sell_def Let_def ddiv_checked_nz lot_ok_def not_le)
  qed
qed

lemma fold_lot_ok:
  assumes "lot_ok st" "0 < lf_quantity fl"
  obtains st' where "fold_lot st fl = Inr st'" "lot_ok st'"
proof (cases "lf_side fl")
  case BUY
  with fold_buy_ok [OF assms] that show thesis by (auto simp: fold_lot_def)
next
  case SELL
  with fold_sell_ok [OF assms] that show thesis by (auto simp: fold_lot_def)
qed

lemma fold_fills_loop_total:
  "lot_ok st \<Longrightarrow> list_all (\<lambda>fl. 0 < lf_quantity fl) fls \<Longrightarrow>
     \<exists>st' eqs. fold_fills_loop cash st equities fls = Inr (st', equities @ eqs) \<and> lot_ok st' \<and> length eqs = length fls"
proof (induction fls arbitrary: cash st equities)
  case (Cons fl fls)
  then obtain st1 where st1: "fold_lot st fl = Inr st1" "lot_ok st1" by (auto elim: fold_lot_ok)
  let ?cash = "if lf_side fl = BUY then dsub cash (dadd (dmul (lf_price fl) (lf_quantity fl)) (lf_fee fl))
    else dadd cash (dsub (dmul (lf_price fl) (lf_quantity fl)) (lf_fee fl))"
  let ?e = "dadd ?cash (dmul (lo_quantity st1) (lf_price fl))"
  from Cons.IH [OF st1(2), of ?cash "equities @ [?e]"] Cons.prems(2) obtain st' eqs where
    "fold_fills_loop ?cash st1 (equities @ [?e]) fls = Inr (st', (equities @ [?e]) @ eqs)" "lot_ok st'"
    "length eqs = length fls" by auto
  then show ?case by (intro exI [of _ st'] exI [of _ "?e # eqs"]) (simp add: st1 Let_def)
qed simp

text \<open>C38: Replaying fills always succeeds: on fills of positive quantity the average-cost fold never
  raises (no division by zero can occur), ends with an entry price exactly when a lot is open, and
  discloses one equity mark per fill after the starting cash.\<close>

theorem fold_fills_total:
  assumes "list_all (\<lambda>fl. 0 < lf_quantity fl) fills"
  shows "\<exists>realized count quantity entry equities.
       fold_fills starting_cash fills = Inr (realized, count, quantity, entry, starting_cash # equities)
     \<and> (entry = None \<longleftrightarrow> quantity = 0) \<and> length equities = length fills"
proof -
  from fold_fills_loop_total [OF lot_ok_empty assms, of starting_cash "[starting_cash]"] obtain st eqs where
    "fold_fills_loop starting_cash empty_lot [starting_cash] fills = Inr (st, [starting_cash] @ eqs)"
    "lot_ok st" "length eqs = length fills" by blast
  then show ?thesis by (auto simp: fold_fills_def lot_ok_def split: if_splits)
qed

section \<open>The accounting identity\<close>

text \<open>
  A symmetric reference for the lot fold in exact arithmetic, for fills that never close more than
  the lot holds: \<open>s\<close> is the signed quantity of the fill. It has the shape of the code's loop, so
  the decimal fold agrees with it whenever no operation had to round.
\<close>

definition signed_lot :: "ledger_fill \<Rightarrow> rat" where
  "signed_lot fl = (if lf_side fl = BUY then lf_quantity fl else - lf_quantity fl)"

definition ref_lot :: "lot_state \<Rightarrow> ledger_fill \<Rightarrow> lot_state" where
  "ref_lot st fl =
     (let q = lo_quantity st; s = signed_lot fl; entry = or_else (lo_entry_price st) (lf_price fl)
      in if q = 0 then st\<lparr>lo_quantity := s, lo_entry_price := Some (lf_price fl), lo_entry_fees := lf_fee fl\<rparr>
         else if 0 < q * s then
           st\<lparr>lo_quantity := q + s, lo_entry_price := Some ((entry * q + lf_price fl * s) / (q + s)),
              lo_entry_fees := lo_entry_fees st + lf_fee fl\<rparr>
         else
           let allocated = lo_entry_fees st * \<bar>s\<bar> / \<bar>q\<bar>;
               closed = st\<lparr>lo_quantity := q + s, lo_entry_fees := lo_entry_fees st - allocated,
                           lo_realized := lo_realized st + (entry - lf_price fl) * s - lf_fee fl - allocated\<rparr>
           in if q + s = 0 then flatten_lot closed else closed)"

definition ref_cash :: "rat \<Rightarrow> ledger_fill \<Rightarrow> rat" where
  "ref_cash cash fl = cash - lf_price fl * signed_lot fl - lf_fee fl"

fun ref_fold_loop :: "rat \<Rightarrow> lot_state \<Rightarrow> rat list \<Rightarrow> ledger_fill list \<Rightarrow> lot_state \<times> rat list" where
  "ref_fold_loop cash st equities [] = (st, equities)"
| "ref_fold_loop cash st equities (fl # fls) =
     ref_fold_loop (ref_cash cash fl) (ref_lot st fl)
       (equities @ [ref_cash cash fl + lo_quantity (ref_lot st fl) * lf_price fl]) fls"

fun closes_within :: "lot_state \<Rightarrow> ledger_fill list \<Rightarrow> bool" where
  "closes_within st [] = True"
| "closes_within st (fl # fls) =
     (0 < lf_quantity fl \<and> (lo_quantity st * signed_lot fl < 0 \<longrightarrow> \<bar>signed_lot fl\<bar> \<le> \<bar>lo_quantity st\<bar>)
      \<and> closes_within (ref_lot st fl) fls)"

definition lot_books :: "rat \<Rightarrow> rat \<Rightarrow> lot_state \<Rightarrow> bool" where
  "lot_books start cash st \<longleftrightarrow>
     cash - start = lo_realized st - or_else (lo_entry_price st) 0 * lo_quantity st - lo_entry_fees st"

lemma ref_lot_books:
  assumes "lot_ok st" "lot_books start cash st" "0 < lf_quantity fl"
    and "lo_quantity st * signed_lot fl < 0 \<longrightarrow> \<bar>signed_lot fl\<bar> \<le> \<bar>lo_quantity st\<bar>"
  shows "lot_ok (ref_lot st fl) \<and> lot_books start (ref_cash cash fl) (ref_lot st fl)"
proof (cases "lo_quantity st = 0")
  case True
  with assms show ?thesis
    by (auto simp: ref_lot_def Let_def lot_ok_def lot_books_def ref_cash_def signed_lot_def)
next
  case False
  then obtain e where e: "lo_entry_price st = Some e" using assms(1) by (auto simp: lot_ok_def)
  let ?q = "lo_quantity st" and ?s = "signed_lot fl"
  have s0: "?s \<noteq> 0" using assms(3) by (simp add: signed_lot_def)
  show ?thesis
  proof (cases "0 < ?q * ?s")
    case True
    then have nz: "?q + ?s \<noteq> 0" by (auto simp: zero_less_mult_iff)
    have avg: "(x + y) / (?q + ?s) * (?q + ?s) = x + y" for x y :: rat using nz by simp
    show ?thesis
      using True False e nz assms(2) avg
      by (simp add: ref_lot_def Let_def lot_ok_def lot_books_def ref_cash_def)
  next
    case closing: False
    then have "?q * ?s < 0" using False s0 by (simp add: not_less order.not_eq_order_implies_strict)
    with assms(4) have le: "\<bar>?s\<bar> \<le> \<bar>?q\<bar>" by simp
    show ?thesis
    proof (cases "?q + ?s = 0")
      case True
      then have sq: "?s = - ?q" by (simp add: eq_neg_iff_add_eq_0 add.commute)
      show ?thesis
        using False e assms(2)
        by (simp add: sq not_less ref_lot_def Let_def lot_books_def ref_cash_def flatten_lot_def lot_ok_def algebra_simps)
    next
      case nz: False
      show ?thesis
        using nz False closing e assms(2)
        by (simp add: ref_lot_def Let_def lot_ok_def lot_books_def ref_cash_def algebra_simps)
    qed
  qed
qed

lemma ref_fold_books:
  "ref_fold_loop cash st equities fls = (st', eqs) \<Longrightarrow> lot_ok st \<Longrightarrow> lot_books start cash st \<Longrightarrow> closes_within st fls
   \<Longrightarrow> fls \<noteq> [] \<Longrightarrow> lot_ok st' \<and> (\<exists>cash'. lot_books start cash' st' \<and> last eqs = cash' + lo_quantity st' * lf_price (last fls))"
proof (induction fls arbitrary: cash st equities)
  case (Cons fl fls)
  have step: "lot_ok (ref_lot st fl)" "lot_books start (ref_cash cash fl) (ref_lot st fl)"
    using ref_lot_books [of st start cash fl] Cons.prems by auto
  show ?case
  proof (cases "fls = []")
    case True
    with Cons.prems(1) step show ?thesis by auto
  next
    case False
    with Cons.IH [OF _ step] Cons.prems(1,4) show ?thesis by auto
  qed
qed simp


section \<open>What the ledger certifies\<close>

lemma mark_deployment_ledger_marked:
  assumes "mark_deployment_ledger starting cash fills quantity entry mark = Inr l"
  shows "lg_accounting_complete l" "lg_equity l \<noteq> None \<Longrightarrow> quantity \<noteq> 0 \<Longrightarrow> mark \<noteq> None"
  using assms
  by (cases mark; auto simp: mark_deployment_ledger_def Let_def case_prod_beta)+

lemma single_book_ledger_complete:
  "single_book_ledger s starting cash positions marks mark_price = Inr l \<Longrightarrow> lg_accounting_complete l"
  by (auto simp: single_book_ledger_def Let_def dest!: mark_deployment_ledger_marked(1) split: option.splits if_splits)

lemma single_book_ledger_marked:
  assumes "single_book_ledger s starting cash positions marks mark_price = Inr l"
    and covered: "mark_price \<noteq> None \<Longrightarrow> marks (d_product_id (s_deployment s)) \<noteq> None"
    and *: "lg_equity l \<noteq> None" "positions = [pos]" "signed_quantity pos \<noteq> 0"
  shows "marks (resolved_product_id (p_product_id pos) (s_deployment s)) \<noteq> None"
proof -
  let ?p = "resolved_product_id (p_product_id pos) (s_deployment s)"
  let ?mark = "case marks ?p of Some m \<Rightarrow> Some m
    | None \<Rightarrow> if ?p = d_product_id (s_deployment s) then mark_price else None"
  obtain b where b: "mark_deployment_ledger starting cash (ledger_fills_for_product s ?p) (signed_quantity pos)
      (Some (p_entry_price pos)) ?mark = Inr b" "lg_equity b = lg_equity l"
    using assms(1) *(2,3) by (cases "marks ?p") (auto simp: single_book_ledger_def Let_def)
  have "?mark \<noteq> None" using mark_deployment_ledger_marked(2) [OF b(1)] b(2) *(1,3) by simp
  then show "marks ?p \<noteq> None" using covered by (auto split: option.splits if_splits)
qed

lemma multi_book_step_marked:
  assumes "multi_book_step s starting cash marks acc pos = Inr acc'"
  shows "mf_mark_complete acc' \<Longrightarrow> mf_mark_complete acc"
    "mf_needs_mark acc \<Longrightarrow> mf_needs_mark acc'"
    "signed_quantity pos \<noteq> 0 \<Longrightarrow> mf_needs_mark acc'
       \<and> (mf_mark_complete acc' \<longrightarrow> marks (resolved_product_id (p_product_id pos) (s_deployment s)) \<noteq> None)"
  using assms by (auto simp: multi_book_step_def Let_def split: option.splits if_splits)

lemma multi_book_fold_marked:
  "foldM (multi_book_step s starting cash marks) acc positions = Inr acc' \<Longrightarrow>
     (mf_mark_complete acc' \<longrightarrow> mf_mark_complete acc) \<and> (mf_needs_mark acc \<longrightarrow> mf_needs_mark acc')
   \<and> (\<forall>pos \<in> set positions. signed_quantity pos \<noteq> 0 \<longrightarrow> mf_needs_mark acc'
        \<and> (mf_mark_complete acc' \<longrightarrow> marks (resolved_product_id (p_product_id pos) (s_deployment s)) \<noteq> None))"
proof (induction positions arbitrary: acc)
  case (Cons pos positions)
  then obtain acc1 where step: "multi_book_step s starting cash marks acc pos = Inr acc1"
    "foldM (multi_book_step s starting cash marks) acc1 positions = Inr acc'" by auto
  from Cons.IH [OF step(2)] multi_book_step_marked [OF step(1)] show ?case by auto
qed simp

lemma multi_book_ledger_marked:
  assumes "multi_book_ledger s starting cash positions marks = Inr l"
  shows "lg_accounting_complete l"
    "lg_equity l \<noteq> None \<Longrightarrow> pos \<in> set positions \<Longrightarrow> signed_quantity pos \<noteq> 0
       \<Longrightarrow> marks (resolved_product_id (p_product_id pos) (s_deployment s)) \<noteq> None"
proof -
  obtain acc init where fold: "foldM (multi_book_step s starting cash marks) init positions = Inr acc"
    and l: "lg_accounting_complete l"
      "lg_equity l = (if \<not> mf_needs_mark acc then Some cash
         else if mf_mark_complete acc then Some (dadd cash (mf_marked_exposure acc)) else None)"
    using assms by (fastforce simp: multi_book_ledger_def Let_def case_prod_beta)
  show "lg_accounting_complete l" by (rule l(1))
  show "marks (resolved_product_id (p_product_id pos) (s_deployment s)) \<noteq> None"
    if "lg_equity l \<noteq> None" "pos \<in> set positions" "signed_quantity pos \<noteq> 0"
    using multi_book_fold_marked [OF fold] l(2) that by (auto split: if_splits)
qed

lemma resolve_marks_primary:
  assumes "mark_price \<noteq> None"
  shows "resolve_marks d marks mark_price positions (d_product_id d) \<noteq> None"
proof -
  obtain v where v: "mark_price = Some v" using assms by auto
  have kept: "d_product_id d \<in> dom m \<Longrightarrow>
      d_product_id d \<in> dom (foldl (\<lambda>m pos. setdefault m (resolved_product_id (p_product_id pos) d) v) m ps)"
    for m and ps :: "position list"
    by (induction ps arbitrary: m) (auto simp: setdefault_def split: option.splits)
  have "d_product_id d \<in> dom (setdefault (or_else marks Map.empty) (d_product_id d) v)"
    by (auto simp: setdefault_def split: option.splits)
  from kept [OF this, of positions] show ?thesis by (auto simp: resolve_marks_def v)
qed

lemma capital_normalized_keeps [simp]:
  "lg_accounting_complete (capital_normalized_ledger s l) = lg_accounting_complete l"
  "lg_equity (capital_normalized_ledger s l) = lg_equity l"
  "lg_total_net_pnl (capital_normalized_ledger s l) = lg_total_net_pnl l"
  "lg_mark_complete (capital_normalized_ledger s l) = lg_mark_complete l"
  "lg_realized_net_pnl (capital_normalized_ledger s l) = lg_realized_net_pnl l"
  "lg_books (capital_normalized_ledger s l) = lg_books l"
  by (simp_all add: capital_normalized_ledger_def Let_def split: option.split prod.split)

lemma capital_normalized_needs_equity:
  "lg_equity l = None \<Longrightarrow> lg_total_return_fraction (capital_normalized_ledger s l) = None
     \<and> lg_maximum_drawdown_fraction (capital_normalized_ledger s l) = None"
  by (simp add: capital_normalized_ledger_def split: option.split)

text \<open>C40: The ledger never certifies totals on incomplete evidence. It reports complete accounting
  exactly when the snapshot is complete, no inventory is unprojected or missing and no fill is
  unsettled; otherwise equity, profit, return and drawdown fraction are all absent. And equity is reported only if
  every open position has a disclosed mark.\<close>

theorem ledger_certifies_complete_evidence:
  assumes "ledger_from_snapshot s marks mark_price = Inr ledger"
  shows "(lg_accounting_complete ledger \<longleftrightarrow> accounting_evidence_complete s)
   \<and> (\<not> accounting_evidence_complete s \<longrightarrow> lg_equity ledger = None \<and> lg_total_net_pnl ledger = None
        \<and> lg_total_return_fraction ledger = None \<and> lg_maximum_drawdown_fraction ledger = None
        \<and> \<not> lg_mark_complete ledger)
   \<and> (lg_equity ledger \<noteq> None \<longrightarrow> (\<forall>pos \<in> set (snapshot_positions s). signed_quantity pos \<noteq> 0 \<longrightarrow>
        resolve_marks (s_deployment s) marks mark_price (snapshot_positions s)
          (resolved_product_id (p_product_id pos) (s_deployment s)) \<noteq> None))"
proof -
  let ?ps = "snapshot_positions s" and ?d = "s_deployment s"
  let ?m = "resolve_marks ?d marks mark_price ?ps"
  obtain l where l: "(if length ?ps \<le> 1
      then single_book_ledger s (ledger_starting_equity ?d) (d_cash ?d) ?ps ?m mark_price
      else multi_book_ledger s (ledger_starting_equity ?d) (d_cash ?d) ?ps ?m) = Inr l"
    and ledger: "ledger = capital_normalized_ledger s (inventory_checked_ledger s l)"
    using assms by (auto simp: ledger_from_snapshot_def Let_def)
  have complete: "lg_accounting_complete l"
    using l single_book_ledger_complete multi_book_ledger_marked(1) by (auto split: if_splits)
  have marked: "?m (resolved_product_id (p_product_id pos) ?d) \<noteq> None"
    if "lg_equity l \<noteq> None" "pos \<in> set ?ps" "signed_quantity pos \<noteq> 0" for pos
  proof (cases "length ?ps \<le> 1")
    case True
    with that(2) have one: "?ps = [pos]" by (cases ?ps) auto
    have "single_book_ledger s (ledger_starting_equity ?d) (d_cash ?d) ?ps ?m mark_price = Inr l"
      using l True by simp
    then show ?thesis
      by (rule single_book_ledger_marked [OF _ _ that(1) one that(3)]) (rule resolve_marks_primary)
  next
    case False
    with l multi_book_ledger_marked(2) that show ?thesis by auto
  qed
  show ?thesis
    using complete marked capital_normalized_needs_equity [of "inventory_checked_ledger s l" s]
    by (auto simp: ledger inventory_checked_ledger_def)
qed

text \<open>A disclosed maximum drawdown never forgets a loss: whenever the ledger reports a drawdown
  fraction, it is at least the persisted maximum and at least the drawdown of the current equity,
  and it is reported only with complete evidence and known performance capital.\<close>

theorem ledger_drawdown_retained:
  assumes "ledger_from_snapshot s marks mark_price = Inr ledger"
    and "lg_maximum_drawdown_fraction ledger = Some m"
  shows "accounting_evidence_complete s \<and> performance_capital (s_deployment s) \<noteq> None
     \<and> or_else (d_performance_maximum_drawdown_fraction (s_deployment s)) 0 \<le> m
     \<and> (\<exists>equity. lg_equity ledger = Some equity
          \<and> or_else (current_drawdown (s_deployment s) equity) 0 \<le> m)"
proof -
  obtain l where ledger: "ledger = capital_normalized_ledger s (inventory_checked_ledger s l)"
    using assms(1) by (auto simp: ledger_from_snapshot_def Let_def)
  show ?thesis
    using assms(2) unfolding ledger
    by (auto simp: capital_normalized_ledger_def Let_def le_max_iff_disj inventory_checked_ledger_def
        split: option.splits if_splits prod.splits)
qed

text \<open>Paper fees are bounded and live books carry none: a resolved schedule is either two absent
  rates (live) or a maker rate and a taker rate with 0 \<open>\<le>\<close> maker \<open>\<le>\<close> taker \<open>\<le>\<close> 1/10, and supplying
  valid rates for a paper book returns exactly those.\<close>

theorem paper_fee_schedule_bounds:
  "(resolve_paper_fee_schedule live maker taker = Inr (m, t) \<longrightarrow>
      (live \<and> maker = None \<and> taker = None \<and> m = None \<and> t = None)
    \<or> (\<not> live \<and> (\<exists>a b. m = Some a \<and> t = Some b \<and> 0 \<le> a \<and> a \<le> b \<and> b \<le> 1 / 10
         \<and> (maker \<noteq> None \<longrightarrow> maker = m \<and> taker = t))))
   \<and> (\<forall>a b. 0 \<le> a \<and> a \<le> b \<and> b \<le> 1 / 10 \<longrightarrow>
        resolve_paper_fee_schedule False (Some a) (Some b) = Inr (Some a, Some b))"
proof -
  have "0 \<le> PAPER_MAKER_FEE_RATE" "PAPER_MAKER_FEE_RATE \<le> PAPER_TAKER_FEE_RATE" "PAPER_TAKER_FEE_RATE \<le> 1 / 10"
    by (simp_all add: PAPER_MAKER_FEE_RATE_def PAPER_TAKER_FEE_RATE_def)
  then show ?thesis
    by (auto simp: resolve_paper_fee_schedule_def require_paper_fee_pair_def MAX_PAPER_FEE_RATE_def
        dec_is_finite_def split: option.splits if_splits)
qed

section \<open>Witnesses and concrete books\<close>

definition ex_lots :: "ledger_fill list" where
  "ex_lots =
     [\<lparr>lf_side = BUY, lf_price = 100, lf_quantity = 2, lf_fee = 1, lf_filled_at = 1\<rparr>,
      \<lparr>lf_side = BUY, lf_price = 110, lf_quantity = 2, lf_fee = 1, lf_filled_at = 2\<rparr>,
      \<lparr>lf_side = SELL, lf_price = 120, lf_quantity = 1, lf_fee = 1, lf_filled_at = 3\<rparr>,
      \<lparr>lf_side = SELL, lf_price = 125, lf_quantity = 3, lf_fee = 1, lf_filled_at = 4\<rparr>]"

theorem fold_fills_total_witness:
  "\<exists>realized count quantity entry equities.
     fold_fills 1000 ex_lots = Inr (realized, count, quantity, entry, 1000 # equities) \<and> length equities = 4"
proof -
  have "list_all (\<lambda>fl. 0 < lf_quantity fl) ex_lots" by code_simp
  from fold_fills_total [OF this, of 1000] show ?thesis by (auto simp: ex_lots_def)
qed


definition ex_book :: deployment_snapshot where
  "ex_book = ex_snapshot
     \<lparr>s_deployment := ex_deployment\<lparr>d_performance_maximum_drawdown_fraction := Some (1 / 5)\<rparr>\<rparr>"

theorem ledger_certifies_complete_evidence_witness:
  "\<exists>ledger. ledger_from_snapshot (ex_book\<lparr>s_accounting_complete := False\<rparr>) None (Some 100) = Inr ledger
     \<and> \<not> lg_accounting_complete ledger \<and> lg_equity ledger = None"
proof -
  let ?s = "ex_book\<lparr>s_accounting_complete := False\<rparr>"
  have "\<not> isl (ledger_from_snapshot ?s None (Some 100))" by code_simp
  then obtain ledger where run: "ledger_from_snapshot ?s None (Some 100) = Inr ledger" by (rule not_isl_Inr)
  have "\<not> accounting_evidence_complete ?s" by (simp add: accounting_evidence_complete_def)
  with ledger_certifies_complete_evidence [OF run] run show ?thesis by blast
qed

theorem ledger_drawdown_retained_witness:
  "\<exists>ledger. ledger_from_snapshot ex_book None (Some 100) = Inr ledger
     \<and> 1 / 5 \<le> or_else (lg_maximum_drawdown_fraction ledger) 0"
proof -
  have "\<not> isl (ledger_from_snapshot ex_book None (Some 100))" by code_simp
  then obtain ledger where run: "ledger_from_snapshot ex_book None (Some 100) = Inr ledger" by (rule not_isl_Inr)
  have "map_sum id (\<lambda>l. lg_maximum_drawdown_fraction l = None) (ledger_from_snapshot ex_book None (Some 100)) = Inr False"
    by code_simp
  with run obtain m where m: "lg_maximum_drawdown_fraction ledger = Some m" by auto
  from ledger_drawdown_retained [OF run m] have "or_else (d_performance_maximum_drawdown_fraction (s_deployment ex_book)) 0 \<le> m"
    by blast
  with run m show ?thesis by (auto simp: ex_book_def)
qed

theorem paper_fee_schedule_bounds_witness:
  "resolve_paper_fee_schedule False (Some (1 / 1000)) (Some (1 / 100)) = Inr (Some (1 / 1000), Some (1 / 100))"
  using paper_fee_schedule_bounds [of False "Some (1 / 1000)" "Some (1 / 100)"] by simp

text \<open>Closing a lot is not symmetric in the code. Covering a short with a larger buy realizes profit
  on the covered quantity only, while selling more than a long holds realizes it on the whole sale: a
  long of 1 bought at 100 and sold as 2 at 110 books 20, its mirror image (a short of 1 at 110 covered by
  a buy of 2 at 100) books 10. Both end flat.\<close>

theorem over_close_not_clipped:
  "fold_fills 0 [\<lparr>lf_side = BUY, lf_price = 100, lf_quantity = 1, lf_fee = 0, lf_filled_at = 1\<rparr>,
                 \<lparr>lf_side = SELL, lf_price = 110, lf_quantity = 2, lf_fee = 0, lf_filled_at = 2\<rparr>]
     = Inr (20, 1, 0, None, [0, 0, 120])
   \<and> fold_fills 0 [\<lparr>lf_side = SELL, lf_price = 110, lf_quantity = 1, lf_fee = 0, lf_filled_at = 1\<rparr>,
                   \<lparr>lf_side = BUY, lf_price = 100, lf_quantity = 2, lf_fee = 0, lf_filled_at = 2\<rparr>]
     = Inr (10, 1, 0, None, [0, 0, - 90])"
  by code_simp

text \<open>
  A book with two products: 1 BTC bought at 100 and still held, 2 ETH bought at 10 of which 1 was sold
  at 10. No fill made or lost money.
\<close>

definition ex_two_books :: deployment_snapshot where
  "ex_two_books = ex_snapshot
     \<lparr>s_orders := [ex_order, ex_order\<lparr>o_id := 12, o_product_id := ''ETH-USD''\<rparr>,
                   ex_order\<lparr>o_id := 13, o_product_id := ''ETH-USD'', o_side := SELL\<rparr>],
      s_positions := [ex_sibling\<lparr>p_product_id := ''BTC-USD'', p_quantity := 1, p_entry_price := 100\<rparr>,
                      ex_sibling\<lparr>p_product_id := ''ETH-USD'', p_quantity := 1, p_entry_price := 10\<rparr>],
      s_fills := [ex_fill\<lparr>f_id := 1, f_order_id := 11, f_venue_fill_id := ''a'', f_price := 100, f_quantity := 1,
                          f_fee := 0, f_filled_at := 1\<rparr>,
                  ex_fill\<lparr>f_id := 2, f_order_id := 12, f_venue_fill_id := ''b'', f_price := 10, f_quantity := 2,
                          f_fee := 0, f_filled_at := 2\<rparr>,
                  ex_fill\<lparr>f_id := 3, f_order_id := 13, f_venue_fill_id := ''c'', f_price := 10, f_quantity := 1,
                          f_fee := 0, f_filled_at := 3\<rparr>]\<rparr>"

text \<open>The realized profit of a book with several open products mixes their costs. The multi-product
  ledger replays the fills of all products through one average-cost lot, so an even sale of ETH is booked
  against an average that includes BTC: the account-level realized profit is -30 while every per-product
  book reports 0.\<close>

theorem multi_book_realized_mixes_products:
  "map_sum id (\<lambda>ledger. (lg_realized_net_pnl ledger, map b_realized_net_pnl (lg_books ledger)))
     (ledger_from_snapshot ex_two_books (Some [''BTC-USD'' \<mapsto> 100, ''ETH-USD'' \<mapsto> 10]) None) = Inr (- 30, [0, 0])"
  by code_simp

end
