(* ===== verification/Fleet_Latch.thy ===== *)
theory Fleet_Latch
  imports Lifecycle
begin

text \<open>
  The fleet's entry-inhibition latch as the memory backend keeps it
  (\<open>InMemoryFleetControlStore\<close> of \<open>fleet_control/store.py\<close>, with the refusal text of
  \<open>fleet_control/admission.py\<close>). The two-key dictionaries over \<open>paper\<close> and \<open>live\<close> are
  functions of the mode; the asyncio lock is not modelled, since each operation is one step here.
\<close>

section \<open>State\<close>

record fleet_latch =
  fl_inhibited :: "deployment_mode \<Rightarrow> bool"
  fl_revisions :: "deployment_mode \<Rightarrow> int"
  fl_updated_at :: "datetime option"

definition new_fleet_latch :: fleet_latch where
  "new_fleet_latch = \<lparr>fl_inhibited = (\<lambda>_. False), fl_revisions = (\<lambda>_. 0), fl_updated_at = None\<rparr>"

record inhibition_snapshot =
  h_paper_inhibited :: bool
  h_live_inhibited :: bool
  h_paper_revision :: int
  h_live_revision :: int
  h_updated_at :: "datetime option"

definition latch_snapshot :: "fleet_latch \<Rightarrow> inhibition_snapshot" where
  "latch_snapshot latch =
     \<lparr>h_paper_inhibited = fl_inhibited latch PAPER, h_live_inhibited = fl_inhibited latch LIVE,
      h_paper_revision = fl_revisions latch PAPER, h_live_revision = fl_revisions latch LIVE,
      h_updated_at = fl_updated_at latch\<rparr>"

section \<open>Operations\<close>

definition ENTRY_INHIBITED_PREFIX :: string where
  "ENTRY_INHIBITED_PREFIX = ''ENTRY_INHIBITED''"

definition entry_inhibited_detail :: "string \<Rightarrow> string \<Rightarrow> string" where
  "entry_inhibited_detail mode action =
     ENTRY_INHIBITED_PREFIX @ '': New '' @ mode @ '' ''
     @ (if action = ''start'' then ''starts'' else ''entries'')
     @ '' are refused until an explicit fleet rearm. Disarm does not flatten, cancel, or pause residual positions.''"

definition raise_if_inhibited :: "fleet_latch \<Rightarrow> deployment_mode \<Rightarrow> string \<Rightarrow> unit result" where
  "raise_if_inhibited latch mode action =
     (if fl_inhibited latch mode
      then Inl (ExecutionConflictError (entry_inhibited_detail (mode_value mode) action)) else Inr ())"

fun set_latch :: "bool \<Rightarrow> datetime \<Rightarrow> deployment_mode list \<Rightarrow> fleet_latch \<Rightarrow> fleet_latch" where
  "set_latch inhibited now [] latch = latch"
| "set_latch inhibited now (mode # modes) latch =
     set_latch inhibited now modes
       (if fl_inhibited latch mode = inhibited then latch
        else \<lparr>fl_inhibited = (fl_inhibited latch)(mode := inhibited),
              fl_revisions = (fl_revisions latch)(mode := fl_revisions latch mode + 1),
              fl_updated_at = Some now\<rparr>)"

definition inhibit :: "deployment_mode list \<Rightarrow> datetime \<Rightarrow> fleet_latch \<Rightarrow> inhibition_snapshot \<times> fleet_latch" where
  "inhibit modes now latch = (let latch' = set_latch True now modes latch in (latch_snapshot latch', latch'))"

definition release :: "deployment_mode list \<Rightarrow> datetime \<Rightarrow> fleet_latch \<Rightarrow> inhibition_snapshot \<times> fleet_latch" where
  "release modes now latch = (let latch' = set_latch False now modes latch in (latch_snapshot latch', latch'))"

definition modes_for :: "string \<Rightarrow> deployment_mode list result" where
  "modes_for scope =
     (if scope = ''all'' then Inr [PAPER, LIVE]
      else if scope = ''paper'' then Inr [PAPER]
      else if scope = ''live'' then Inr [LIVE]
      else Inl (ExecutionConflictError (''Unsupported fleet mode scope: '' @ scope @ ''.'')))"

record expected_inhibition =
  xi_paper_revision :: "int option"
  xi_live_revision :: "int option"

text \<open>The conflict carries the mode only; the rendered revision numbers of its text are left out.\<close>

fun require_inhibition_revisions ::
    "inhibition_snapshot \<Rightarrow> expected_inhibition \<Rightarrow> deployment_mode list \<Rightarrow> unit result" where
  "require_inhibition_revisions snapshot expected [] = Inr ()"
| "require_inhibition_revisions snapshot expected (mode # modes) =
     (let actual = (case mode of PAPER \<Rightarrow> h_paper_revision snapshot | LIVE \<Rightarrow> h_live_revision snapshot);
          confirmed = (case mode of PAPER \<Rightarrow> xi_paper_revision expected | LIVE \<Rightarrow> xi_live_revision expected)
      in if confirmed \<noteq> Some actual
         then Inl (ExecutionConflictError (''inhibition_revision_conflict: '' @ mode_value mode))
         else require_inhibition_revisions snapshot expected modes)"

section \<open>Properties\<close>

lemma set_latch_inhibited:
  "fl_inhibited (set_latch inhibited now modes latch) mode
     = (if mode \<in> set modes then inhibited else fl_inhibited latch mode)"
  by (induction modes arbitrary: latch) auto

lemma set_latch_revision:
  "fl_revisions (set_latch inhibited now modes latch) mode
     = fl_revisions latch mode + (if mode \<in> set modes \<and> fl_inhibited latch mode \<noteq> inhibited then 1 else 0)"
  by (induction modes arbitrary: latch) auto

lemma require_revisions_Inr:
  "require_inhibition_revisions (latch_snapshot latch) expected modes = Inr () \<longleftrightarrow>
     (\<forall>mode \<in> set modes. (case mode of PAPER \<Rightarrow> xi_paper_revision expected | LIVE \<Rightarrow> xi_live_revision expected)
        = Some (fl_revisions latch mode))"
proof (induction modes)
  case (Cons mode modes)
  then show ?case by (cases mode) (auto simp: latch_snapshot_def)
qed simp

text \<open>The latch bits are exact and their revisions fence stale confirmations: inhibiting or releasing
  a list of modes sets exactly those bits, bumps a revision exactly when its bit changed, and a
  confirmation that matched a mode's revision before a change is refused after it.\<close>

theorem latch_revision_fences:
  "(\<forall>mode. fl_inhibited (set_latch inhibited now modes latch) mode
        = (if mode \<in> set modes then inhibited else fl_inhibited latch mode))
   \<and> (\<forall>mode. fl_revisions (set_latch inhibited now modes latch) mode
        = fl_revisions latch mode + (if mode \<in> set modes \<and> fl_inhibited latch mode \<noteq> inhibited then 1 else 0))
   \<and> (mode \<in> set modes \<and> fl_inhibited latch mode \<noteq> inhibited
       \<and> require_inhibition_revisions (latch_snapshot latch) expected [mode] = Inr ()
      \<longrightarrow> isl (require_inhibition_revisions (latch_snapshot (set_latch inhibited now modes latch)) expected [mode]))"
proof (intro conjI impI allI)
  assume a: "mode \<in> set modes \<and> fl_inhibited latch mode \<noteq> inhibited
       \<and> require_inhibition_revisions (latch_snapshot latch) expected [mode] = Inr ()"
  then have "require_inhibition_revisions (latch_snapshot (set_latch inhibited now modes latch)) expected [mode] \<noteq> Inr ()"
    unfolding require_revisions_Inr by (auto simp: set_latch_revision)
  then show "isl (require_inhibition_revisions (latch_snapshot (set_latch inhibited now modes latch)) expected [mode])"
    by (cases "require_inhibition_revisions (latch_snapshot (set_latch inhibited now modes latch)) expected [mode]") auto
qed (simp_all add: set_latch_inhibited set_latch_revision)

theorem latch_revision_fences_witness:
  "isl (require_inhibition_revisions (latch_snapshot (set_latch True 5 [PAPER] new_fleet_latch))
      \<lparr>xi_paper_revision = Some 0, xi_live_revision = None\<rparr> [PAPER])"
  using latch_revision_fences [of True 5 "[PAPER]" new_fleet_latch PAPER "\<lparr>xi_paper_revision = Some 0, xi_live_revision = None\<rparr>"]
  by (simp add: new_fleet_latch_def latch_snapshot_def)

end
