(* ===== verification/Execution_Store.thy ===== *)
theory Execution_Store
  imports Ledger Fleet_Latch "HOL-Library.AList"
begin

text \<open>
  The in-memory execution store (\<open>trading/memory.py\<close>), the clients that ingest and replay fills
  through a store (\<open>ingest_fill\<close> and \<open>replay_unapplied_fills\<close> of
  \<open>trading/fill_ledger.py\<close>) and the product-scoped wrapper (\<open>InstrumentScopedStore\<close> of
  \<open>trading/overlay.py\<close>).

  A Python dictionary is an association list in insertion order (\<open>AList.update\<close> assigns in
  place or appends, \<open>AList.delete\<close> pops). An operation takes the store and returns its result
  together with the store it leaves behind, also when it raises: a write made before an exception
  stays. No operation of this store yields between its checks and its writes, so each is one step; the
  locks that order concurrent tasks are not part of the state.
\<close>

section \<open>State\<close>

record execution_store =
  es_deployments :: "(uuid \<times> deployment) list"
  es_intents :: "(uuid \<times> order_intent) list"
  es_orders :: "(uuid \<times> order) list"
  es_fills :: "(uuid \<times> fill) list"
  es_positions :: "((uuid \<times> string) \<times> position) list"
  es_runtimes :: "((uuid \<times> string) \<times> instrument_runtime) list"
  es_funding :: "((uuid \<times> string \<times> datetime) \<times> funding_cash_flow) list"
  es_fill_keys :: "(uuid \<times> string) list"
  es_applied_fill_keys :: "(uuid \<times> string) list"
  es_gate :: "fleet_latch option"

definition new_execution_store :: execution_store where
  "new_execution_store =
     \<lparr>es_deployments = [], es_intents = [], es_orders = [], es_fills = [], es_positions = [], es_runtimes = [],
      es_funding = [], es_fill_keys = [], es_applied_fill_keys = [], es_gate = None\<rparr>"

type_synonym 'a store_op = "execution_store \<Rightarrow> 'a result \<times> execution_store"

definition bind_entry_gate :: "fleet_latch \<Rightarrow> execution_store \<Rightarrow> execution_store" where
  "bind_entry_gate gate st = st\<lparr>es_gate := Some gate\<rparr>"

definition not_found :: py_error where
  "not_found = ExecutionStoreError ''Deployment was not found.''"

definition revision_conflict :: py_error where
  "revision_conflict = ExecutionConflictError ''Deployment revision conflict.''"

definition put_deployment :: "deployment \<Rightarrow> execution_store \<Rightarrow> execution_store" where
  "put_deployment d st = st\<lparr>es_deployments := AList.update (d_id d) d (es_deployments st)\<rparr>"

section \<open>Reads\<close>

definition focused_position :: "position list \<Rightarrow> string \<Rightarrow> position option" where
  "focused_position positions primary_product_id =
     (case positions of
        [] \<Rightarrow> None
      | [pos] \<Rightarrow> Some pos
      | _ \<Rightarrow> List.find (\<lambda>pos. p_product_id pos \<in> {'''', primary_product_id}) positions)"

definition get_deployment :: "uuid \<Rightarrow> execution_store \<Rightarrow> deployment_snapshot result" where
  "get_deployment deployment_id st =
     (case map_of (es_deployments st) deployment_id of
        None \<Rightarrow> Inl not_found
      | Some d \<Rightarrow>
          let positions = map snd (filter (\<lambda>((stored_id, _), _). stored_id = deployment_id) (es_positions st));
              runtimes = map snd (filter (\<lambda>((stored_id, _), _). stored_id = deployment_id) (es_runtimes st))
          in Inr \<lparr>s_deployment = d, s_position = focused_position positions (d_product_id d),
                  s_orders = filter (\<lambda>ord. o_deployment_id ord = deployment_id) (map snd (es_orders st)),
                  s_fills = filter (\<lambda>fl. f_deployment_id fl = deployment_id) (map snd (es_fills st)),
                  s_intents = filter (\<lambda>intent. i_deployment_id intent = deployment_id) (map snd (es_intents st)),
                  s_positions = positions, s_instrument_runtimes = runtimes, s_accounting_complete = True,
                  s_funding = sort_key (\<lambda>flow. (c_product_id flow, c_funding_time flow))
                    (filter (\<lambda>flow. c_deployment_id flow = deployment_id) (map snd (es_funding st)))\<rparr>)"

definition get_accounting_snapshot :: "uuid \<Rightarrow> execution_store \<Rightarrow> deployment_snapshot result" where
  "get_accounting_snapshot deployment_id st = get_deployment deployment_id st"

definition get_deployment_summary :: "uuid \<Rightarrow> execution_store \<Rightarrow> deployment_summary_snapshot result" where
  "get_deployment_summary deployment_id st =
     rbind (get_deployment deployment_id st) (\<lambda>s.
       Inr \<lparr>y_deployment = s_deployment s, y_position = s_position s, y_positions = s_positions s,
            y_instrument_runtimes = s_instrument_runtimes s,
            y_book_totals = \<lparr>t_open_books = int (length (s_positions s)),
                             t_working_orders = working_order_count (s_orders s),
                             t_fill_count = int (length (s_fills s))\<rparr>,
            y_open_orders = filter (\<lambda>ord. o_status ord \<in> {OPEN, PENDING, UNKNOWN}) (s_orders s)\<rparr>)"

text \<open>Newest-updated first; \<open>sorted(..., reverse=True)\<close> keeps the order of equal keys.\<close>

definition list_deployments :: "nat option \<Rightarrow> nat \<Rightarrow> execution_store \<Rightarrow> deployment list" where
  "list_deployments limit offset st =
     (let rows = drop offset (sort_key (\<lambda>d. - d_updated_at d) (map snd (es_deployments st)))
      in case limit of None \<Rightarrow> rows | Some n \<Rightarrow> take n rows)"

definition list_by_strategy :: "uuid \<Rightarrow> execution_store \<Rightarrow> deployment list" where
  "list_by_strategy strategy_id st =
     sort_key (\<lambda>d. - d_updated_at d)
       (filter (\<lambda>d. d_strategy_id d = Some strategy_id) (map snd (es_deployments st)))"

definition get_position_entry_fees :: "position \<Rightarrow> string \<Rightarrow> execution_store \<Rightarrow> decimal option result" where
  "get_position_entry_fees pos product_id st =
     (case map_of (es_deployments st) (p_deployment_id pos) of
        None \<Rightarrow> Inl not_found
      | Some d \<Rightarrow>
          let selected = take (MAX_POSITION_FEE_FILLS + 1) (sort_key fill_sort_key (filter (\<lambda>fl.
                f_deployment_id fl = p_deployment_id pos \<and> f_economics_applied_at fl \<noteq> None
                \<and> f_filled_at fl \<ge> p_entered_bar pos
                \<and> (case map_of (es_orders st) (f_order_id fl) of
                     None \<Rightarrow> False
                   | Some ord \<Rightarrow> o_deployment_id ord = p_deployment_id pos
                       \<and> resolved_product_id (o_product_id ord) d = product_id))
                (map snd (es_fills st))))
          in remaining_position_entry_fees pos
               (List.map_filter (\<lambda>fl. map_option (\<lambda>ord. ledger_fill_of ord fl) (map_of (es_orders st) (f_order_id fl)))
                  selected))"

definition list_open_orders :: "uuid \<Rightarrow> execution_store \<Rightarrow> order list" where
  "list_open_orders deployment_id st =
     filter (\<lambda>ord. o_deployment_id ord = deployment_id \<and> o_status ord \<in> {OPEN, UNKNOWN, PENDING})
       (map snd (es_orders st))"

definition get_intent_by_idempotency_key :: "string \<Rightarrow> execution_store \<Rightarrow> order_intent option" where
  "get_intent_by_idempotency_key key st =
     List.find (\<lambda>intent. i_idempotency_key intent = Some key) (map snd (es_intents st))"

definition read_entry_inhibition :: "execution_store \<Rightarrow> (string \<rightharpoonup> bool)" where
  "read_entry_inhibition st =
     (case es_gate st of
        None \<Rightarrow> [''paper'' \<mapsto> False, ''live'' \<mapsto> False]
      | Some gate \<Rightarrow> [''paper'' \<mapsto> h_paper_inhibited (latch_snapshot gate),
                      ''live'' \<mapsto> h_live_inhibited (latch_snapshot gate)])"

section \<open>Deployment writes\<close>

definition create_deployment :: "deployment \<Rightarrow> deployment store_op" where
  "create_deployment d st =
     (case es_gate st of
        None \<Rightarrow> (Inr d, put_deployment d st)
      | Some gate \<Rightarrow>
          (case raise_if_inhibited gate (d_mode d) ''start'' of
             Inl e \<Rightarrow> (Inl e, st)
           | Inr _ \<Rightarrow> (Inr d, put_deployment d st)))"

definition funding_key :: "funding_cash_flow \<Rightarrow> uuid \<times> string \<times> datetime" where
  "funding_key flow = (c_deployment_id flow, c_product_id flow, c_funding_time flow)"

definition apply_funding_transaction ::
    "uuid \<Rightarrow> funding_cash_flow list \<Rightarrow> int option \<Rightarrow> (nat \<times> deployment_snapshot) store_op" where
  "apply_funding_transaction deployment_id flows expected_revision st =
     (case map_of (es_deployments st) deployment_id of
        None \<Rightarrow> (Inl not_found, st)
      | Some current \<Rightarrow>
          if expected_revision \<noteq> None \<and> Some (d_revision current) \<noteq> expected_revision
          then (Inl revision_conflict, st)
          else
            let fresh = filter (\<lambda>flow. map_of (es_funding st) (funding_key flow) = None) flows
            in if \<exists>flow \<in> set fresh. c_deployment_id flow \<noteq> deployment_id
               then (Inl (ExecutionStoreError ''Funding belongs to a different deployment.''), st)
               else
                 let st' = (if fresh = [] then st
                       else st\<lparr>es_funding := foldl (\<lambda>m flow. AList.update (funding_key flow) flow m) (es_funding st) fresh,
                               es_deployments := AList.update deployment_id
                                 (current\<lparr>d_cash := dadd (d_cash current) (dsum (map c_amount fresh)),
                                          d_revision := d_revision current + 1,
                                          d_updated_at := Max (set (map c_applied_at fresh))\<rparr>)
                                 (es_deployments st)\<rparr>)
                 in (rbind (get_deployment deployment_id st') (\<lambda>s. Inr (length fresh, s)), st'))"

definition save_deployment ::
    "deployment \<Rightarrow> int option \<Rightarrow> instrument_runtime option \<Rightarrow> deployment store_op" where
  "save_deployment d expected_revision runtime st =
     (if runtime \<noteq> None \<and> expected_revision = None
      then (Inl (ExecutionStoreError ''Atomic runtime saves require an expected revision.''), st)
      else case map_of (es_deployments st) (d_id d) of
             None \<Rightarrow> (Inl not_found, st)
           | Some current \<Rightarrow>
               if expected_revision \<noteq> None \<and> Some (d_revision current) \<noteq> expected_revision
               then (Inl revision_conflict, st)
               else
                 let saved = d\<lparr>d_revision := d_revision current + 1\<rparr>;
                     st' = put_deployment saved st
                 in case runtime of
                      Some row \<Rightarrow>
                        (Inr saved, st'\<lparr>es_runtimes := AList.update (d_id d, r_product_id row) row (es_runtimes st')\<rparr>)
                    | None \<Rightarrow>
                        let own = (d_id d, d_product_id d);
                            rows = map snd (filter (\<lambda>((stored_id, _), _). stored_id = d_id d) (es_runtimes st'))
                        in if map_of (es_runtimes st') own \<noteq> None \<and> mirrors_primary_runtime saved rows
                           then (Inr saved, st'\<lparr>es_runtimes :=
                                   AList.update own (runtime_from_deployment saved (d_product_id d)) (es_runtimes st')\<rparr>)
                           else (Inr saved, st'))"

definition save_breaker_pause :: "uuid \<Rightarrow> int \<Rightarrow> string \<Rightarrow> bool \<Rightarrow> datetime \<Rightarrow> deployment store_op" where
  "save_breaker_pause deployment_id expected_revision detail daily_loss_latched now st =
     (case map_of (es_deployments st) deployment_id of
        None \<Rightarrow> (Inl not_found, st)
      | Some current \<Rightarrow>
          if d_revision current \<noteq> expected_revision then (Inl revision_conflict, st)
          else
            let running = (d_status current = RUNNING);
                saved = current\<lparr>d_status := (if running then PAUSED else d_status current),
                                d_mismatch_detail := (if running then Some detail else d_mismatch_detail current),
                                d_daily_loss_latched := (d_daily_loss_latched current \<or> daily_loss_latched),
                                d_updated_at := now, d_revision := d_revision current + 1\<rparr>
            in (Inr saved, st\<lparr>es_deployments := AList.update deployment_id saved (es_deployments st)\<rparr>))"

definition acquire_worker_lease ::
    "uuid \<Rightarrow> string \<Rightarrow> datetime \<Rightarrow> timedelta \<Rightarrow> deployment option store_op" where
  "acquire_worker_lease deployment_id holder now ttl st =
     (case map_of (es_deployments st) deployment_id of
        None \<Rightarrow> (Inl not_found, st)
      | Some current \<Rightarrow>
          let holder_ok = (d_worker_lease_holder current = None
                \<or> (case d_worker_lease_expires_at current of None \<Rightarrow> True | Some expires_at \<Rightarrow> expires_at \<le> now)
                \<or> d_worker_lease_holder current = Some holder)
          in if \<not> holder_ok then (Inr None, st)
             else
               let saved = current\<lparr>d_worker_lease_holder := Some holder,
                                   d_worker_lease_expires_at := Some (now + ttl),
                                   d_revision := d_revision current + 1\<rparr>
               in (Inr (Some saved), st\<lparr>es_deployments := AList.update deployment_id saved (es_deployments st)\<rparr>))"

section \<open>Intents\<close>

definition insert_leased_intent :: "fence_state \<Rightarrow> order_intent \<Rightarrow> unit store_op" where
  "insert_leased_intent fence intent st =
     (let current = map_of (es_deployments st) (i_deployment_id intent)
      in case require_lease_holder fence (i_deployment_id intent)
                (case current of None \<Rightarrow> None | Some d \<Rightarrow> d_worker_lease_holder d) of
           Inl e \<Rightarrow> (Inl e, st)
         | Inr _ \<Rightarrow> (Inr (), st\<lparr>es_intents := AList.update (i_id intent) intent (es_intents st)\<rparr>))"

definition insert_intent :: "fence_state \<Rightarrow> order_intent \<Rightarrow> order_intent store_op" where
  "insert_intent fence intent st =
     (if (case i_idempotency_key intent of
            None \<Rightarrow> False | Some key \<Rightarrow> get_intent_by_idempotency_key key st \<noteq> None)
      then (Inl (ExecutionConflictError ''idempotency_key already used''), st)
      else
        let insert = (case insert_leased_intent fence intent st of
              (Inl e, st') \<Rightarrow> (Inl e, st') | (Inr _, st') \<Rightarrow> (Inr intent, st'))
        in case es_gate st of
             Some gate \<Rightarrow>
               if i_purpose intent = ENTRY then
                 case map_of (es_deployments st) (i_deployment_id intent) of
                   None \<Rightarrow> (Inl (ExecutionStoreError ''Entry deployment was not found.''), st)
                 | Some d \<Rightarrow>
                     (case raise_if_inhibited gate (d_mode d) ''entry'' of
                        Inl e \<Rightarrow> (Inl e, st)
                      | Inr _ \<Rightarrow> insert)
               else insert
           | None \<Rightarrow> insert)"

text \<open>A live spot entry first names its base currency to wait for that base's adoption lock.\<close>

definition save_intent :: "fence_state \<Rightarrow> order_intent \<Rightarrow> order_intent store_op" where
  "save_intent fence intent st =
     (case map_of (es_deployments st) (i_deployment_id intent) of
        Some d \<Rightarrow>
          let product_id = resolved_product_id (i_product_id intent) d
          in if i_purpose intent = ENTRY \<and> d_mode d = LIVE \<and> is_spot_product_id product_id then
               case spot_base_currency product_id of
                 Inl e \<Rightarrow> (Inl e, st)
               | Inr _ \<Rightarrow> insert_intent fence intent st
             else insert_intent fence intent st
      | None \<Rightarrow> insert_intent fence intent st)"

section \<open>Orders and fills\<close>

definition find_client_order :: "string \<Rightarrow> execution_store \<Rightarrow> order option" where
  "find_client_order client_order_id st =
     List.find (\<lambda>item. o_client_order_id item = client_order_id) (map snd (es_orders st))"

definition put_order :: "order \<Rightarrow> order option \<Rightarrow> execution_store \<Rightarrow> execution_store" where
  "put_order ord existing st =
     (let rows = (case existing of None \<Rightarrow> es_orders st | Some item \<Rightarrow> AList.delete (o_id item) (es_orders st))
      in st\<lparr>es_orders := AList.update (o_id ord) ord rows\<rparr>)"

definition restore_order :: "order \<Rightarrow> order store_op" where
  "restore_order ord st = (Inr ord, put_order ord (find_client_order (o_client_order_id ord) st) st)"

definition save_order :: "order \<Rightarrow> order store_op" where
  "save_order ord st =
     (let existing = find_client_order (o_client_order_id ord) st;
          stored = with_cancel_time ord existing
      in (Inr stored, put_order stored existing st))"

definition fill_key :: "fill \<Rightarrow> uuid \<times> string" where
  "fill_key fl = (f_deployment_id fl, f_venue_fill_id fl)"

definition save_fill :: "fill \<Rightarrow> fill store_op" where
  "save_fill fl st =
     (if fill_key fl \<in> set (es_fill_keys st) then
        (Inr (or_else (List.find (same_fill fl) (map snd (es_fills st))) fl), st)
      else (Inr fl, st\<lparr>es_fill_keys := List.insert (fill_key fl) (es_fill_keys st),
                       es_fills := AList.update (f_id fl) fl (es_fills st),
                       es_applied_fill_keys := (if f_economics_applied_at fl \<noteq> None
                          then List.insert (fill_key fl) (es_applied_fill_keys st) else es_applied_fill_keys st)\<rparr>))"

text \<open>The order row after a fill is applied.\<close>

definition applied_order :: "deployment_snapshot \<Rightarrow> fill \<Rightarrow> fill \<Rightarrow> order \<Rightarrow> order" where
  "applied_order s fl stamped ord =
     (let filled = dadd (applied_fill_quantity s (o_id ord)) (f_quantity fl)
      in ord\<lparr>o_status := (if filled \<ge> o_quantity ord then FILLED else o_status ord),
             o_filled_quantity := max (o_filled_quantity ord) filled,
             o_updated_at := or_else (f_economics_applied_at stamped) (o_updated_at ord)\<rparr>)"

text \<open>The writes of \<open>apply_fill_transaction\<close> after a successful projection.\<close>

definition commit_fill ::
    "uuid \<Rightarrow> deployment_snapshot \<Rightarrow> deployment_snapshot \<Rightarrow> fill \<Rightarrow> fill \<Rightarrow> order \<Rightarrow> execution_store \<Rightarrow> execution_store" where
  "commit_fill deployment_id s projected fl stamped ord st =
     (let st1 = st\<lparr>es_fills := AList.update (f_id stamped) stamped (es_fills st),
                   es_applied_fill_keys := List.insert (fill_key fl) (es_applied_fill_keys st)\<rparr>;
          applied_fill = applied_order s fl stamped ord;
          existing_order = find_client_order (o_client_order_id applied_fill) st1;
          st2 = put_order (with_cancel_time applied_fill existing_order) existing_order st1;
          saved = (fill_projection_deployment s projected)\<lparr>d_revision := d_revision (s_deployment s) + 1\<rparr>;
          st3 = put_deployment saved st2;
          st4 = st3\<lparr>es_runtimes := foldl (\<lambda>m runtime. AList.update (deployment_id, r_product_id runtime) runtime m)
                      (es_runtimes st3) (s_instrument_runtimes projected)\<rparr>;
          product_id = (if o_product_id ord \<noteq> [] then o_product_id ord else d_product_id (s_deployment projected))
      in case s_position projected of
           Some pos \<Rightarrow> st4\<lparr>es_positions := AList.update (deployment_id, product_id) pos (es_positions st4)\<rparr>
         | None \<Rightarrow>
             if d_phase (s_deployment projected) = FLAT
             then st4\<lparr>es_positions := AList.delete (deployment_id, product_id) (es_positions st4)\<rparr> else st4)"

definition apply_fill_transaction ::
    "uuid \<Rightarrow> int \<Rightarrow> string option \<Rightarrow> clock \<Rightarrow> fill \<Rightarrow> order \<Rightarrow> (bool \<times> deployment_snapshot) store_op" where
  "apply_fill_transaction deployment_id cooldown_bars timeframe ck fl ord st =
     (case get_deployment deployment_id st of
        Inl e \<Rightarrow> (Inl e, st)
      | Inr s \<Rightarrow>
          let existing = List.find (same_fill fl) (s_fills s)
          in if (case existing of None \<Rightarrow> False | Some item \<Rightarrow> f_economics_applied_at item \<noteq> None)
             then (Inr (False, s), st)
             else
               let st1 = (if fill_key fl \<in> set (es_fill_keys st) then st
                     else st\<lparr>es_fill_keys := List.insert (fill_key fl) (es_fill_keys st),
                             es_fills := AList.update (f_id fl) fl (es_fills st)\<rparr>)
               in case project_fill_economics cooldown_bars timeframe ck s (or_else existing fl) ord of
                    Inl e \<Rightarrow> (Inl e, st1)
                  | Inr (projected, stamped) \<Rightarrow>
                      let st2 = commit_fill deployment_id s projected fl stamped ord st1
                      in (rbind (get_deployment deployment_id st2) (\<lambda>s'. Inr (True, s')), st2))"

section \<open>Positions and runtime rows\<close>

definition save_position :: "position option \<Rightarrow> uuid \<Rightarrow> string option \<Rightarrow> unit store_op" where
  "save_position pos deployment_id product_id st =
     (let key_product = (case product_id of
            Some p \<Rightarrow> if p \<noteq> [] then p else (case pos of None \<Rightarrow> [] | Some x \<Rightarrow> p_product_id x)
          | None \<Rightarrow> (case pos of None \<Rightarrow> [] | Some x \<Rightarrow> p_product_id x))
      in case pos of
           None \<Rightarrow>
             if product_id = None
             then (Inr (), st\<lparr>es_positions := filter (\<lambda>((stored_id, _), _). stored_id \<noteq> deployment_id) (es_positions st)\<rparr>)
             else (Inr (), st\<lparr>es_positions := AList.delete (deployment_id, key_product) (es_positions st)\<rparr>)
         | Some x \<Rightarrow>
             let stamped = (if p_product_id x \<noteq> [] then x else x\<lparr>p_product_id := key_product\<rparr>)
             in (Inr (), st\<lparr>es_positions := AList.update (deployment_id, p_product_id stamped) stamped (es_positions st)\<rparr>))"

definition save_instrument_runtime :: "instrument_runtime \<Rightarrow> uuid \<Rightarrow> unit store_op" where
  "save_instrument_runtime runtime deployment_id st =
     (Inr (), st\<lparr>es_runtimes := AList.update (deployment_id, r_product_id runtime) runtime (es_runtimes st)\<rparr>)"

section \<open>Ingesting and replaying fills through a store\<close>

text \<open>
  \<open>ingest_fill\<close> and \<open>replay_unapplied_fills\<close> are given a store by its
  \<open>apply_fill_transaction\<close>, already bound to the deployment. \<open>clock_of\<close> supplies the
  instants \<open>utc_now\<close> returns while one fill is applied.
\<close>

type_synonym 'st apply_fill =
  "int \<Rightarrow> string option \<Rightarrow> clock \<Rightarrow> fill \<Rightarrow> order \<Rightarrow> 'st \<Rightarrow> (bool \<times> deployment_snapshot) result \<times> 'st"

definition ingest_fill ::
    "'st apply_fill \<Rightarrow> deployment_snapshot \<Rightarrow> fill \<Rightarrow> order \<Rightarrow> int \<Rightarrow> string option \<Rightarrow> clock \<Rightarrow> 'st
     \<Rightarrow> fill_ingest_result result \<times> 'st" where
  "ingest_fill apply s fl ord cooldown_bars timeframe ck st =
     (case apply cooldown_bars (str_or (d_timeframe (s_deployment s)) timeframe) ck fl ord st of
        (Inl e, st') \<Rightarrow> (Inl e, st')
      | (Inr (applied, updated), st') \<Rightarrow> (Inr \<lparr>ir_applied = applied, ir_snapshot = updated\<rparr>, st'))"

definition replay_key :: "deployment_snapshot \<Rightarrow> fill \<Rightarrow> datetime \<times> bool \<times> uuid" where
  "replay_key s fl =
     (f_filled_at fl,
      f_order_id fl \<in> o_id ` set (filter (\<lambda>ord. o_parent_order_id ord \<noteq> None) (s_orders s)),
      f_id fl)"

definition pending_fills :: "deployment_snapshot \<Rightarrow> fill list" where
  "pending_fills s = sort_key (replay_key s) (filter (\<lambda>fl. f_economics_applied_at fl = None) (s_fills s))"

definition order_of_fill :: "deployment_snapshot \<Rightarrow> fill \<Rightarrow> order option" where
  "order_of_fill s fl = List.find (\<lambda>item. o_id item = f_order_id fl) (s_orders s)"

fun replay_loop ::
    "'st apply_fill \<Rightarrow> int \<Rightarrow> string option \<Rightarrow> (fill \<Rightarrow> clock) \<Rightarrow> deployment_snapshot \<Rightarrow> fill list \<Rightarrow> 'st
     \<Rightarrow> deployment_snapshot result \<times> 'st" where
  "replay_loop apply cooldown_bars timeframe clock_of current [] st = (Inr current, st)"
| "replay_loop apply cooldown_bars timeframe clock_of current (fl # fls) st =
     (case order_of_fill current fl of
        None \<Rightarrow> replay_loop apply cooldown_bars timeframe clock_of current fls st
      | Some ord \<Rightarrow>
          if o_kind ord = KIND_ADOPTION then replay_loop apply cooldown_bars timeframe clock_of current fls st
          else case ingest_fill apply current fl ord cooldown_bars timeframe (clock_of fl) st of
                 (Inl e, st') \<Rightarrow> (Inl e, st')
               | (Inr outcome, st') \<Rightarrow>
                   replay_loop apply cooldown_bars timeframe clock_of (ir_snapshot outcome) fls st')"

definition replay_unapplied_fills ::
    "'st apply_fill \<Rightarrow> deployment_snapshot \<Rightarrow> int \<Rightarrow> string option \<Rightarrow> (fill \<Rightarrow> clock) \<Rightarrow> 'st
     \<Rightarrow> deployment_snapshot result \<times> 'st" where
  "replay_unapplied_fills apply s cooldown_bars timeframe clock_of st =
     replay_loop apply cooldown_bars timeframe clock_of s (pending_fills s) st"

section \<open>The product-scoped store\<close>

definition stamp_intent :: "string \<Rightarrow> order_intent \<Rightarrow> order_intent" where
  "stamp_intent product_id intent = (if i_product_id intent \<noteq> [] then intent else intent\<lparr>i_product_id := product_id\<rparr>)"

definition stamp_order :: "string \<Rightarrow> order \<Rightarrow> order" where
  "stamp_order product_id ord = (if o_product_id ord \<noteq> [] then ord else ord\<lparr>o_product_id := product_id\<rparr>)"

definition scoped_get_deployment :: "string \<Rightarrow> uuid \<Rightarrow> execution_store \<Rightarrow> deployment_snapshot result" where
  "scoped_get_deployment product_id deployment_id st =
     rbind (get_deployment deployment_id st) (\<lambda>s. Inr (overlay_snapshot s product_id))"

definition scoped_save_deployment ::
    "string \<Rightarrow> deployment \<Rightarrow> int option \<Rightarrow> instrument_runtime option \<Rightarrow> deployment store_op" where
  "scoped_save_deployment product_id d expected_revision runtime st =
     (case runtime of
        Some row \<Rightarrow> save_deployment d expected_revision (Some row) st
      | None \<Rightarrow>
          (case get_accounting_snapshot (d_id d) st of
             Inl e \<Rightarrow> (Inl e, st)
           | Inr current \<Rightarrow>
               (case save_deployment (scoped_parent current product_id d)
                       (Some (or_else expected_revision (d_revision d)))
                       (Some (runtime_from_deployment d product_id)) st of
                  (Inl e, st') \<Rightarrow> (Inl e, st')
                | (Inr saved, st') \<Rightarrow> (Inr (d\<lparr>d_revision := d_revision saved\<rparr>), st'))))"

definition scoped_save_intent :: "string \<Rightarrow> fence_state \<Rightarrow> order_intent \<Rightarrow> order_intent store_op" where
  "scoped_save_intent product_id fence intent st = save_intent fence (stamp_intent product_id intent) st"

definition scoped_save_order :: "string \<Rightarrow> order \<Rightarrow> order store_op" where
  "scoped_save_order product_id ord st = save_order (stamp_order product_id ord) st"

definition scoped_apply_fill_transaction ::
    "string \<Rightarrow> uuid \<Rightarrow> int \<Rightarrow> string option \<Rightarrow> clock \<Rightarrow> fill \<Rightarrow> order \<Rightarrow> (bool \<times> deployment_snapshot) store_op" where
  "scoped_apply_fill_transaction product_id deployment_id cooldown_bars timeframe ck fl ord st =
     (case apply_fill_transaction deployment_id cooldown_bars timeframe ck fl (stamp_order product_id ord) st of
        (Inl e, st') \<Rightarrow> (Inl e, st')
      | (Inr (applied, s), st') \<Rightarrow> (Inr (applied, overlay_snapshot s product_id), st'))"

definition scoped_save_position :: "string \<Rightarrow> position option \<Rightarrow> uuid \<Rightarrow> unit store_op" where
  "scoped_save_position product_id pos deployment_id st =
     save_position (map_option (\<lambda>x. if p_product_id x \<noteq> [] then x else x\<lparr>p_product_id := product_id\<rparr>) pos)
       deployment_id (Some product_id) st"

definition scoped_list_open_orders :: "string \<Rightarrow> uuid \<Rightarrow> execution_store \<Rightarrow> order list result" where
  "scoped_list_open_orders product_id deployment_id st =
     rbind (scoped_get_deployment product_id deployment_id st) (\<lambda>s.
       Inr (filter (\<lambda>ord. o_status ord \<in> {OPEN, UNKNOWN, PENDING}) (s_orders s)))"

section \<open>Dictionaries keyed by a field of their values\<close>

definition keyed :: "('v \<Rightarrow> 'k) \<Rightarrow> ('k \<times> 'v) list \<Rightarrow> bool" where
  "keyed f xs \<longleftrightarrow> distinct (map fst xs) \<and> (\<forall>(k, v) \<in> set xs. f v = k)"

lemma keyed_Nil [simp]: "keyed f []"
  by (simp add: keyed_def)

lemma keyed_Cons: "keyed f (x # xs) \<longleftrightarrow> fst x = f (snd x) \<and> fst x \<notin> fst ` set xs \<and> keyed f xs"
  by (auto simp: keyed_def)

lemma keyed_values: "keyed f xs \<Longrightarrow> xs = map (\<lambda>v. (f v, v)) (map snd xs)"
  by (induction xs) (auto simp: keyed_Cons)

lemma keyed_map_values: "keyed f (map (\<lambda>v. (f v, v)) vs) \<longleftrightarrow> distinct (map f vs)"
  by (simp add: keyed_def comp_def)

lemma keyed_distinct: "keyed f xs \<Longrightarrow> distinct (map f (map snd xs))"
  by (metis keyed_map_values keyed_values)

lemma update_values:
  "AList.update (f v) v (map (\<lambda>x. (f x, x)) vs) = map (\<lambda>x. (f x, x)) (upsert_by (\<lambda>x. f x = f v) v vs)"
  by (induction vs) auto

lemma delete_values:
  "AList.delete k (map (\<lambda>x. (f x, x)) vs) = map (\<lambda>x. (f x, x)) (filter (\<lambda>x. f x \<noteq> k) vs)"
  by (induction vs) (auto simp: AList.delete_eq)

lemma keyed_update:
  assumes "keyed f xs" "f v = k"
  shows "keyed f (AList.update k v xs)"
    "map snd (AList.update k v xs) = upsert_by (\<lambda>x. f x = k) v (map snd xs)"
proof -
  note vs = keyed_values [OF assms(1)]
  have upd: "AList.update k v xs = map (\<lambda>x. (f x, x)) (upsert_by (\<lambda>x. f x = k) v (map snd xs))"
    using update_values [of f v "map snd xs"] vs assms(2) by simp
  have "distinct (map f (upsert_by (\<lambda>x. f x = k) v (map snd xs)))"
    by (rule upsert_by_distinct) (use assms(2) keyed_distinct [OF assms(1)] in auto)
  then show "keyed f (AList.update k v xs)" unfolding upd keyed_map_values .
  show "map snd (AList.update k v xs) = upsert_by (\<lambda>x. f x = k) v (map snd xs)"
    unfolding upd by (simp add: comp_def)
qed

lemma keyed_delete:
  assumes "keyed f xs"
  shows "keyed f (AList.delete k xs)" "map snd (AList.delete k xs) = filter (\<lambda>x. f x \<noteq> k) (map snd xs)"
proof -
  have del: "AList.delete k xs = map (\<lambda>x. (f x, x)) (filter (\<lambda>x. f x \<noteq> k) (map snd xs))"
    using delete_values [of k f "map snd xs"] keyed_values [OF assms] by simp
  show "keyed f (AList.delete k xs)" unfolding del keyed_map_values
    using keyed_distinct [OF assms] by (rule distinct_map_filter)
  show "map snd (AList.delete k xs) = filter (\<lambda>x. f x \<noteq> k) (map snd xs)"
    unfolding del by (simp add: comp_def)
qed

lemma keyed_map_of: "keyed f xs \<Longrightarrow> map_of xs k = Some v \<longleftrightarrow> v \<in> set (map snd xs) \<and> f v = k"
  by (auto simp: keyed_def map_of_eq_Some_iff image_iff) force

lemma upsert_by_distinct_other:
  assumes "distinct (map g xs)" "distinct (map f xs)" "\<forall>x \<in> set xs. g x = g y \<longrightarrow> f x = f y"
  shows "distinct (map g (upsert_by (\<lambda>x. f x = f y) y xs))"
  using assms
proof (induction xs)
  case (Cons x xs)
  show ?case
  proof (cases "f x = f y")
    case True
    with Cons.prems have "g y \<notin> g ` set xs" by (auto simp: image_iff)
    with True Cons.prems show ?thesis by auto
  next
    case False
    then have "g x \<noteq> g y" using Cons.prems(3) by auto
    moreover have "set (upsert_by (\<lambda>x. f x = f y) y xs) \<subseteq> insert y (set xs)" by (rule set_upsert_by_subset)
    ultimately have "g x \<notin> g ` set (upsert_by (\<lambda>x. f x = f y) y xs)" using Cons.prems(1) by auto
    with False Cons show ?thesis by auto
  qed
qed simp

lemma upsert_by_replaced: "distinct (map f xs) \<Longrightarrow>
    x \<in> set (upsert_by (\<lambda>x. f x = f y) y xs) \<longleftrightarrow> x = y \<or> x \<in> set xs \<and> f x \<noteq> f y"
proof (induction xs)
  case (Cons a xs)
  then have "f z \<noteq> f a" if "z \<in> set xs" for z using that by (auto simp: image_iff)
  with Cons show ?case by auto
qed simp

lemma find_SomeD: "List.find P xs = Some x \<Longrightarrow> x \<in> set xs \<and> P x"
  by (auto simp: find_Some_iff)

lemma find_unique:
  assumes "x \<in> set xs" "P x" "\<And>y. y \<in> set xs \<Longrightarrow> P y \<Longrightarrow> y = x"
  shows "List.find P xs = Some x"
proof (cases "List.find P xs")
  case None
  with assms(1,2) show ?thesis by (auto simp: find_None_iff)
next
  case (Some y)
  then have "y \<in> set xs" "P y" by (auto simp: find_Some_iff)
  with assms(3) Some show ?thesis by simp
qed

lemma distinct_mapD: "distinct (map g xs) \<Longrightarrow> x \<in> set xs \<Longrightarrow> y \<in> set xs \<Longrightarrow> g x = g y \<Longrightarrow> x = y"
  by (auto simp: distinct_map inj_on_def)

section \<open>The store invariant\<close>

abbreviation fills_of :: "execution_store \<Rightarrow> fill list" where
  "fills_of st \<equiv> map snd (es_fills st)"

abbreviation orders_of :: "execution_store \<Rightarrow> order list" where
  "orders_of st \<equiv> map snd (es_orders st)"

abbreviation intents_of :: "execution_store \<Rightarrow> order_intent list" where
  "intents_of st \<equiv> map snd (es_intents st)"

text \<open>
  Rows are stored under their own identity; a venue fill is recorded once and remembered in the key
  set; client order ids and idempotency keys are unique.
\<close>

definition fills_ok :: "execution_store \<Rightarrow> bool" where
  "fills_ok st \<longleftrightarrow> keyed f_id (es_fills st) \<and> distinct (map fill_key (fills_of st))
     \<and> fill_key ` set (fills_of st) \<subseteq> set (es_fill_keys st)"

definition orders_ok :: "execution_store \<Rightarrow> bool" where
  "orders_ok st \<longleftrightarrow> keyed o_id (es_orders st) \<and> distinct (map o_client_order_id (orders_of st))"

definition intents_ok :: "execution_store \<Rightarrow> bool" where
  "intents_ok st \<longleftrightarrow> keyed i_id (es_intents st)
     \<and> distinct (List.map_filter i_idempotency_key (intents_of st))"

definition store_ok :: "execution_store \<Rightarrow> bool" where
  "store_ok st \<longleftrightarrow> keyed d_id (es_deployments st) \<and> fills_ok st \<and> orders_ok st \<and> intents_ok st"

lemma new_store_ok: "store_ok new_execution_store"
  by (simp add: store_ok_def fills_ok_def orders_ok_def intents_ok_def new_execution_store_def map_filter_def)

lemma put_order_ok:
  assumes "orders_ok st"
  shows "orders_ok (put_order ord (find_client_order (o_client_order_id ord) st) st)"
proof -
  let ?ex = "find_client_order (o_client_order_id ord) st"
  define rows where "rows = (case ?ex of None \<Rightarrow> es_orders st | Some item \<Rightarrow> AList.delete (o_id item) (es_orders st))"
  have base: "keyed o_id (es_orders st)" "distinct (map o_client_order_id (orders_of st))"
    using assms by (simp_all add: orders_ok_def)
  have rows: "keyed o_id rows" "distinct (map o_client_order_id (map snd rows))"
    using base by (cases ?ex; simp only: rows_def option.case keyed_delete [OF base(1)] distinct_map_filter)+
  have fresh: "o_client_order_id x \<noteq> o_client_order_id ord" if "x \<in> set (map snd rows)" for x
  proof (cases ?ex)
    case None
    then have "\<forall>y \<in> set (orders_of st). o_client_order_id y \<noteq> o_client_order_id ord"
      by (auto simp: find_client_order_def find_None_iff)
    with None that show ?thesis by (auto simp: rows_def)
  next
    case (Some item)
    then have item: "item \<in> set (orders_of st)" "o_client_order_id item = o_client_order_id ord"
      using find_SomeD [of _ "orders_of st" item] by (auto simp: find_client_order_def)
    have "x \<in> set (orders_of st)" "o_id x \<noteq> o_id item"
      using that Some keyed_delete(2) [OF base(1), of "o_id item"] by (auto simp: rows_def)
    then show ?thesis using distinct_mapD [OF base(2) _ item(1)] item(2) by auto
  qed
  have "distinct (map o_client_order_id (upsert_by (\<lambda>x. o_id x = o_id ord) ord (map snd rows)))"
    using upsert_by_distinct_other [OF rows(2) keyed_distinct [OF rows(1)]] fresh by auto
  then show ?thesis using keyed_update [OF rows(1) refl, of ord]
    by (simp add: orders_ok_def put_order_def rows_def [symmetric])
qed

lemma with_cancel_time_keeps [simp]:
  "o_id (with_cancel_time ord previous) = o_id ord"
  "o_client_order_id (with_cancel_time ord previous) = o_client_order_id ord"
  "o_deployment_id (with_cancel_time ord previous) = o_deployment_id ord"
  "o_kind (with_cancel_time ord previous) = o_kind ord"
  "o_product_id (with_cancel_time ord previous) = o_product_id ord"
  by (simp_all add: with_cancel_time_def Let_def)

lemma applied_order_keeps [simp]:
  "o_id (applied_order s fl stamped ord) = o_id ord"
  "o_client_order_id (applied_order s fl stamped ord) = o_client_order_id ord"
  "o_deployment_id (applied_order s fl stamped ord) = o_deployment_id ord"
  "o_kind (applied_order s fl stamped ord) = o_kind ord"
  "o_product_id (applied_order s fl stamped ord) = o_product_id ord"
  by (simp_all add: applied_order_def Let_def)

lemma put_fill_ok:
  assumes "fills_ok st" "\<forall>x \<in> set (fills_of st). fill_key x = fill_key fl \<longrightarrow> f_id x = f_id fl"
    and "es_fills st' = AList.update (f_id fl) fl (es_fills st)"
    and "set (es_fill_keys st') = insert (fill_key fl) (set (es_fill_keys st))"
  shows "fills_ok st'"
proof -
  have k: "keyed f_id (es_fills st)" "distinct (map fill_key (fills_of st))"
    "fill_key ` set (fills_of st) \<subseteq> set (es_fill_keys st)" using assms(1) by (auto simp: fills_ok_def)
  have vals: "fills_of st' = upsert_by (\<lambda>x. f_id x = f_id fl) fl (fills_of st)"
    unfolding assms(3) by (rule keyed_update(2) [OF k(1) refl])
  have "distinct (map fill_key (fills_of st'))"
    unfolding vals by (rule upsert_by_distinct_other [OF k(2) keyed_distinct [OF k(1)] assms(2)])
  moreover have "fill_key ` set (fills_of st') \<subseteq> set (es_fill_keys st')"
    unfolding vals assms(4) using k(3) set_upsert_by_subset [of "\<lambda>x. f_id x = f_id fl" fl "fills_of st"] by blast
  moreover have "keyed f_id (es_fills st')" unfolding assms(3) by (rule keyed_update(1) [OF k(1) refl])
  ultimately show ?thesis by (simp add: fills_ok_def)
qed

lemma fills_ok_cong: "es_fills st' = es_fills st \<Longrightarrow> es_fill_keys st' = es_fill_keys st \<Longrightarrow> fills_ok st' = fills_ok st"
  by (simp add: fills_ok_def)

lemma orders_ok_cong: "es_orders st' = es_orders st \<Longrightarrow> orders_ok st' = orders_ok st"
  by (simp add: orders_ok_def)

lemma intents_ok_cong: "es_intents st' = es_intents st \<Longrightarrow> intents_ok st' = intents_ok st"
  by (simp add: intents_ok_def)

lemmas store_ok_congs = fills_ok_cong orders_ok_cong intents_ok_cong

text \<open>What the writes of one applied fill do, field by field.\<close>

lemma commit_fill_fields:
  fixes deployment_id s projected fl stamped ord st
  defines "st' \<equiv> commit_fill deployment_id s projected fl stamped ord st"
  defines "ex \<equiv> find_client_order (o_client_order_id ord) st"
  shows "es_fills st' = AList.update (f_id stamped) stamped (es_fills st)"
    "es_fill_keys st' = es_fill_keys st" "es_intents st' = es_intents st"
    "es_orders st' = es_orders (put_order (with_cancel_time (applied_order s fl stamped ord) ex) ex st)"
    "es_deployments st' = AList.update (d_id (fill_projection_deployment s projected))
        ((fill_projection_deployment s projected)\<lparr>d_revision := d_revision (s_deployment s) + 1\<rparr>) (es_deployments st)"
    "es_funding st' = es_funding st" "es_gate st' = es_gate st"
  unfolding assms
  by (simp_all add: commit_fill_def Let_def put_order_def put_deployment_def find_client_order_def split: option.split)

lemma get_deployment_SomeD:
  assumes "store_ok st" "get_deployment dep st = Inr s"
  shows "map_of (es_deployments st) dep = Some (s_deployment s)" "d_id (s_deployment s) = dep"
    "s_fills s = filter (\<lambda>fl. f_deployment_id fl = dep) (fills_of st)"
    "s_orders s = filter (\<lambda>ord. o_deployment_id ord = dep) (orders_of st)"
proof -
  show m: "map_of (es_deployments st) dep = Some (s_deployment s)"
    and "s_fills s = filter (\<lambda>fl. f_deployment_id fl = dep) (fills_of st)"
    and "s_orders s = filter (\<lambda>ord. o_deployment_id ord = dep) (orders_of st)"
    using assms(2) by (auto simp: get_deployment_def Let_def split: option.splits)
  show "d_id (s_deployment s) = dep" using assms(1) m keyed_map_of [of d_id "es_deployments st" dep]
    by (simp add: store_ok_def)
qed

lemma fill_projection_id:
  "d_id (s_deployment projected) = d_id (s_deployment s) \<Longrightarrow> d_id (fill_projection_deployment s projected) = d_id (s_deployment s)"
  by (simp add: fill_projection_deployment_def)

text \<open>The three outcomes of \<open>apply_fill_transaction\<close> on a well-formed store.\<close>

lemma apply_fillE:
  assumes "apply_fill_transaction dep cooldown_bars timeframe ck fl ord st = (r, st')" "store_ok st"
  obtains (missing) e where "r = Inl e" "st' = st" "get_deployment dep st = Inl e"
  | (applied) s where "get_deployment dep st = Inr s" "r = Inr (False, s)" "st' = st"
      "\<exists>item. List.find (same_fill fl) (s_fills s) = Some item \<and> f_economics_applied_at item \<noteq> None"
  | (failed) s st1 e where "get_deployment dep st = Inr s" "r = Inl e" "st' = st1"
      "st1 = (if fill_key fl \<in> set (es_fill_keys st) then st
         else st\<lparr>es_fill_keys := List.insert (fill_key fl) (es_fill_keys st),
                 es_fills := AList.update (f_id fl) fl (es_fills st)\<rparr>)"
      "project_fill_economics cooldown_bars timeframe ck s (or_else (List.find (same_fill fl) (s_fills s)) fl) ord = Inl e"
  | (committed) s st1 projected stamped s' where "get_deployment dep st = Inr s" "r = Inr (True, s')"
      "st1 = (if fill_key fl \<in> set (es_fill_keys st) then st
         else st\<lparr>es_fill_keys := List.insert (fill_key fl) (es_fill_keys st),
                 es_fills := AList.update (f_id fl) fl (es_fills st)\<rparr>)"
      "project_fill_economics cooldown_bars timeframe ck s (or_else (List.find (same_fill fl) (s_fills s)) fl) ord
         = Inr (projected, stamped)"
      "st' = commit_fill dep s projected fl stamped ord st1" "get_deployment dep st' = Inr s'"
      "\<forall>item. List.find (same_fill fl) (s_fills s) = Some item \<longrightarrow> f_economics_applied_at item = None"
proof (cases "get_deployment dep st")
  case (Inl e)
  with assms(1) show thesis by (intro missing) (auto simp: apply_fill_transaction_def)
next
  case (Inr s)
  let ?existing = "List.find (same_fill fl) (s_fills s)"
  define st1 where "st1 = (if fill_key fl \<in> set (es_fill_keys st) then st
         else st\<lparr>es_fill_keys := List.insert (fill_key fl) (es_fill_keys st),
                 es_fills := AList.update (f_id fl) fl (es_fills st)\<rparr>)"
  note run = assms(1) [unfolded apply_fill_transaction_def Inr sum.case Let_def, folded st1_def]
  show thesis
  proof (cases "case ?existing of None \<Rightarrow> False | Some item \<Rightarrow> f_economics_applied_at item \<noteq> None")
    case True
    show thesis by (rule applied [OF Inr]) (use run True in \<open>auto split: option.splits\<close>)
  next
    case False
    then have un: "\<forall>item. ?existing = Some item \<longrightarrow> f_economics_applied_at item = None" by (auto split: option.splits)
    note run = run [unfolded if_not_P [OF False]]
    show thesis
    proof (cases "project_fill_economics cooldown_bars timeframe ck s (or_else ?existing fl) ord")
      case e: (Inl e)
      show thesis by (rule failed [OF Inr _ _ st1_def e]) (use run e in auto)
    next
      case ok: (Inr outcome)
      obtain projected stamped where outcome: "outcome = (projected, stamped)" by fastforce
      note ok = ok [unfolded outcome]
      let ?st2 = "commit_fill dep s projected fl stamped ord st1"
      have "map_of (es_deployments ?st2) dep \<noteq> None"
        using get_deployment_SomeD(1,2) [OF assms(2) Inr] fill_economics_frame(2) [OF ok]
        by (simp add: commit_fill_fields(5) fill_projection_id update_conv')
      then obtain s' where s': "get_deployment dep ?st2 = Inr s'"
        by (auto simp: get_deployment_def Let_def)
      show thesis by (rule committed [OF Inr _ st1_def ok _ _ un]) (use run ok s' in auto)
    qed
  qed
qed

lemma apply_fill_recorded_ok:
  assumes "store_ok st" "f_deployment_id fl = dep"
    and "get_deployment dep st = Inr s"
    and "st1 = (if fill_key fl \<in> set (es_fill_keys st) then st
         else st\<lparr>es_fill_keys := List.insert (fill_key fl) (es_fill_keys st),
                 es_fills := AList.update (f_id fl) fl (es_fills st)\<rparr>)"
  shows "store_ok st1" "es_deployments st1 = es_deployments st" "es_orders st1 = es_orders st"
    "fill_key fl \<in> set (es_fill_keys st1)"
    "\<forall>x \<in> set (fills_of st1). fill_key x = fill_key fl
       \<longrightarrow> f_id x = f_id (or_else (List.find (same_fill fl) (s_fills s)) fl)"
proof -
  have ok: "keyed d_id (es_deployments st)" "fills_ok st" "orders_ok st" "intents_ok st"
    using assms(1) by (auto simp: store_ok_def)
  show keep: "es_deployments st1 = es_deployments st" "es_orders st1 = es_orders st"
    "fill_key fl \<in> set (es_fill_keys st1)" using assms(4) by auto
  have unseen: "fill_key x \<noteq> fill_key fl" if "x \<in> set (fills_of st)" "fill_key fl \<notin> set (es_fill_keys st)" for x
    using ok(2) that unfolding fills_ok_def by (metis image_subset_iff)
  show "store_ok st1"
  proof (cases "fill_key fl \<in> set (es_fill_keys st)")
    case True
    with assms(1,4) show ?thesis by simp
  next
    case False
    with assms(4) unseen have "fills_ok st1" by (intro put_fill_ok [OF ok(2), of fl]) auto
    moreover have "es_intents st1 = es_intents st" using assms(4) False by simp
    ultimately show ?thesis
      using ok keep by (simp add: store_ok_def orders_ok_cong [of st1 st] intents_ok_cong [of st1 st])
  qed
  show "\<forall>x \<in> set (fills_of st1). fill_key x = fill_key fl
       \<longrightarrow> f_id x = f_id (or_else (List.find (same_fill fl) (s_fills s)) fl)"
  proof (intro ballI impI)
    fix x assume x: "x \<in> set (fills_of st1)" "fill_key x = fill_key fl"
    have upd: "fills_of (st\<lparr>es_fills := AList.update (f_id fl) fl (es_fills st)\<rparr>)
        = upsert_by (\<lambda>x. f_id x = f_id fl) fl (fills_of st)"
      using keyed_update(2) [of f_id "es_fills st" fl "f_id fl"] ok(2) by (simp add: fills_ok_def)
    have "set (fills_of st1) \<subseteq> insert fl (set (fills_of st))"
      using assms(4) upd set_upsert_by_subset [of "\<lambda>x. f_id x = f_id fl" fl "fills_of st"]
      by (cases "fill_key fl \<in> set (es_fill_keys st)") (simp_all del: set_map, blast)
    with x(1) have vals: "x \<in> set (fills_of st) \<or> x = fl" by blast
    have s: "s_fills s = filter (\<lambda>fl. f_deployment_id fl = dep) (fills_of st)"
      by (rule get_deployment_SomeD(3) [OF assms(1,3)])
    show "f_id x = f_id (or_else (List.find (same_fill fl) (s_fills s)) fl)"
    proof (cases "List.find (same_fill fl) (s_fills s)")
      case None
      have "x \<notin> set (fills_of st)"
      proof
        assume "x \<in> set (fills_of st)"
        then have "x \<in> set (s_fills s)" "same_fill fl x" using x(2) assms(2) by (auto simp: s fill_key_def same_fill_def)
        with None show False by (auto simp: find_None_iff)
      qed
      with vals None show ?thesis by simp
    next
      case (Some item)
      then have item: "item \<in> set (fills_of st)" "fill_key item = fill_key fl"
        using find_SomeD [OF Some] by (auto simp: s same_fill_def fill_key_def)
      then have "fill_key fl \<in> set (es_fill_keys st)" using ok(2) unfolding fills_ok_def by (metis image_subset_iff)
      with x(1) assms(4) have "x \<in> set (fills_of st)" by simp
      with item x(2) ok(2) have "x = item" by (intro distinct_mapD [of fill_key "fills_of st"]) (auto simp: fills_ok_def)
      with Some show ?thesis by simp
    qed
  qed
qed

lemma commit_fill_ok:
  assumes "store_ok st" "fill_key fl \<in> set (es_fill_keys st)" "fill_key stamped = fill_key fl"
    and "\<forall>x \<in> set (fills_of st). fill_key x = fill_key fl \<longrightarrow> f_id x = f_id stamped"
  shows "store_ok (commit_fill dep s projected fl stamped ord st)"
proof -
  let ?st' = "commit_fill dep s projected fl stamped ord st"
  let ?ex = "find_client_order (o_client_order_id ord) st"
  let ?new = "with_cancel_time (applied_order s fl stamped ord) ?ex"
  have "fills_ok ?st'"
    by (rule put_fill_ok [of st stamped]) (use assms in \<open>auto simp: store_ok_def commit_fill_fields\<close>)
  moreover have "orders_ok ?st'"
    using put_order_ok [of st ?new] assms(1)
    by (simp add: store_ok_def orders_ok_cong [OF commit_fill_fields(4)])
  moreover have "intents_ok ?st'" using assms(1) by (simp add: store_ok_def intents_ok_cong [OF commit_fill_fields(3)])
  moreover have "keyed d_id (es_deployments ?st')"
    using assms(1) by (simp add: store_ok_def commit_fill_fields(5) keyed_update(1))
  ultimately show ?thesis by (simp add: store_ok_def)
qed

lemma same_fill_key: "same_fill fl item \<longleftrightarrow> fill_key item = fill_key fl"
  by (auto simp: same_fill_def fill_key_def)

lemma stamped_key:
  assumes "project_fill_economics cooldown_bars timeframe ck s (or_else (List.find (same_fill fl) fills) fl) ord
      = Inr (projected, stamped)"
  shows "f_id stamped = f_id (or_else (List.find (same_fill fl) fills) fl)" "fill_key stamped = fill_key fl"
    "f_economics_applied_at stamped \<noteq> None"
  using fill_economics_frame(4-6) [OF assms] find_SomeD [of "same_fill fl" fills]
  by (cases "List.find (same_fill fl) fills"; auto simp: same_fill_key)+

lemma apply_fill_store_ok:
  assumes "apply_fill_transaction dep cooldown_bars timeframe ck fl ord st = (r, st')" "store_ok st"
    and "f_deployment_id fl = dep"
  shows "store_ok st'"
  using assms(1,2)
proof (cases rule: apply_fillE)
  case (failed s st1 e)
  then show ?thesis using apply_fill_recorded_ok(1) [OF assms(2,3)] by blast
next
  case (committed s st1 projected stamped s')
  note rec = apply_fill_recorded_ok [OF assms(2,3) committed(1,3)]
  note key = stamped_key [OF committed(4)]
  show ?thesis unfolding committed(5)
    by (rule commit_fill_ok [OF rec(1,4) key(2)]) (use rec(5) key(1) in auto)
qed (use assms(2) in auto)

text \<open>After a successful call the fill is recorded as applied, whichever call applied it.\<close>

lemma apply_fill_applied:
  assumes "apply_fill_transaction dep cooldown_bars timeframe ck fl ord st = (Inr (b, s'), st')" "store_ok st"
    and "f_deployment_id fl = dep"
  shows "get_deployment dep st' = Inr s'"
    "\<exists>item. List.find (same_fill fl) (s_fills s') = Some item \<and> f_economics_applied_at item \<noteq> None"
proof -
  have "get_deployment dep st' = Inr s'
    \<and> (\<exists>item. List.find (same_fill fl) (s_fills s') = Some item \<and> f_economics_applied_at item \<noteq> None)"
    using assms(1,2)
  proof (cases rule: apply_fillE)
    case (committed s st1 projected stamped s'')
    note ok = apply_fill_store_ok [OF assms]
    note s'' = get_deployment_SomeD [OF ok committed(6)]
    have "stamped \<in> set (fills_of st')"
      using keyed_update(2) [of f_id "es_fills st1" stamped "f_id stamped"]
        apply_fill_recorded_ok(1) [OF assms(2,3) committed(1,3)]
      by (simp add: committed(5) commit_fill_fields(1) store_ok_def fills_ok_def)
    with stamped_key(2) [OF committed(4)] assms(3) have mem: "stamped \<in> set (s_fills s'')" "same_fill fl stamped"
      by (auto simp: s''(3) same_fill_key fill_key_def)
    have "List.find (same_fill fl) (s_fills s'') = Some stamped"
    proof (rule find_unique [of stamped _ "same_fill fl", OF mem])
      fix y assume "y \<in> set (s_fills s'')" "same_fill fl y"
      with mem ok show "y = stamped"
        by (intro distinct_mapD [of fill_key "fills_of st'"]) (auto simp: s''(3) same_fill_key store_ok_def fills_ok_def)
    qed
    with committed stamped_key(3) [OF committed(4)] show ?thesis by auto
  qed auto
  then show "get_deployment dep st' = Inr s'"
    "\<exists>item. List.find (same_fill fl) (s_fills s') = Some item \<and> f_economics_applied_at item \<noteq> None" by auto
qed

section \<open>Replaying through a fill store\<close>

definition unapplied :: "deployment_snapshot \<Rightarrow> fill set" where
  "unapplied s = {fl \<in> set (s_fills s). f_economics_applied_at fl = None}"

definition has_kind :: "deployment_snapshot \<Rightarrow> uuid \<Rightarrow> order_kind \<Rightarrow> bool" where
  "has_kind s i k \<longleftrightarrow> (\<exists>ord \<in> set (s_orders s). o_id ord = i \<and> o_kind ord = k)"

definition replayable :: "deployment_snapshot \<Rightarrow> fill \<Rightarrow> bool" where
  "replayable s fl \<longleftrightarrow> (\<exists>k. has_kind s (f_order_id fl) k \<and> k \<noteq> KIND_ADOPTION)"

text \<open>
  What \<open>replay_unapplied_fills\<close> relies on: applying a fill of the loaded snapshot to one of its
  orders returns what a reload returns, settles exactly that fill, and keeps the identity and kind of
  every order.
\<close>

locale fill_store =
  fixes load :: "'st \<Rightarrow> deployment_snapshot result"
    and apply_fill :: "'st apply_fill"
    and inv :: "'st \<Rightarrow> bool"
  assumes distinct_rows: "inv st \<Longrightarrow> load st = Inr s \<Longrightarrow>
      distinct (map fill_key (s_fills s)) \<and> distinct (map o_id (s_orders s))"
    and keeps_inv: "inv st \<Longrightarrow> load st = Inr s \<Longrightarrow> fl \<in> set (s_fills s) \<Longrightarrow>
      apply_fill cooldown_bars timeframe ck fl ord st = (r, st') \<Longrightarrow> inv st'"
    and settles: "inv st \<Longrightarrow> load st = Inr s \<Longrightarrow> fl \<in> set (s_fills s) \<Longrightarrow> ord \<in> set (s_orders s) \<Longrightarrow>
      apply_fill cooldown_bars timeframe ck fl ord st = (Inr (b, s'), st') \<Longrightarrow>
      load st' = Inr s' \<and> unapplied s' = {g \<in> unapplied s. fill_key g \<noteq> fill_key fl}
      \<and> has_kind s' = has_kind s"
begin

lemma order_of_fill_kind:
  assumes "inv st" "load st = Inr s"
  shows "order_of_fill s fl = None \<longleftrightarrow> (\<forall>k. \<not> has_kind s (f_order_id fl) k)"
    "order_of_fill s fl = Some ord \<Longrightarrow> ord \<in> set (s_orders s) \<and> o_id ord = f_order_id fl
       \<and> (replayable s fl \<longleftrightarrow> o_kind ord \<noteq> KIND_ADOPTION)"
proof -
  show "order_of_fill s fl = None \<longleftrightarrow> (\<forall>k. \<not> has_kind s (f_order_id fl) k)"
    by (auto simp: order_of_fill_def has_kind_def find_None_iff)
  assume "order_of_fill s fl = Some ord"
  then have ord: "ord \<in> set (s_orders s)" "o_id ord = f_order_id fl"
    by (auto simp: order_of_fill_def dest: find_SomeD)
  moreover have "k = o_kind ord" if "has_kind s (f_order_id fl) k" for k
    using that ord distinct_rows [OF assms] unfolding has_kind_def by (metis distinct_mapD)
  ultimately show "ord \<in> set (s_orders s) \<and> o_id ord = f_order_id fl \<and> (replayable s fl \<longleftrightarrow> o_kind ord \<noteq> KIND_ADOPTION)"
    unfolding replayable_def by (metis has_kind_def)
qed

lemma replay_loop_settles:
  "replay_loop apply_fill cooldown_bars timeframe clock_of s fls st = (Inr s', st') \<Longrightarrow> inv st \<Longrightarrow> load st = Inr s \<Longrightarrow>
   set fls \<subseteq> unapplied s \<Longrightarrow> distinct (map fill_key fls) \<Longrightarrow>
   inv st' \<and> load st' = Inr s' \<and> has_kind s' = has_kind s
   \<and> unapplied s' = {g \<in> unapplied s. \<not> (replayable s g \<and> fill_key g \<in> fill_key ` set fls)}"
proof (induction fls arbitrary: s st)
  case (Cons fl fls)
  have fl: "fl \<in> unapplied s" "fl \<in> set (s_fills s)" using Cons.prems(4) by (auto simp: unapplied_def)
  have same: "g = fl" if "g \<in> unapplied s" "fill_key g = fill_key fl" for g
    using that fl distinct_mapD [of fill_key "s_fills s"] distinct_rows [OF Cons.prems(2,3)] by (auto simp: unapplied_def)
  show ?case
  proof (cases "replayable s fl")
    case False
    have skip: "replay_loop apply_fill cooldown_bars timeframe clock_of s fls st = (Inr s', st')"
      using Cons.prems(1) order_of_fill_kind(2) [OF Cons.prems(2,3), of fl] False
      by (cases "order_of_fill s fl") auto
    from Cons.IH [OF skip Cons.prems(2,3)] Cons.prems(4,5) same False show ?thesis by auto
  next
    case True
    then obtain ord where ord: "order_of_fill s fl = Some ord"
      using order_of_fill_kind(1) [OF Cons.prems(2,3)] by (auto simp: replayable_def)
    note o = order_of_fill_kind(2) [OF Cons.prems(2,3) ord]
    from Cons.prems(1) ord o True obtain b s1 st1 tf where run:
        "apply_fill cooldown_bars tf (clock_of fl) fl ord st = (Inr (b, s1), st1)"
        "replay_loop apply_fill cooldown_bars timeframe clock_of s1 fls st1 = (Inr s', st')"
      by (auto simp: ingest_fill_def split: prod.splits sum.splits)
    have ord_in: "ord \<in> set (s_orders s)" using o by blast
    note S = settles [OF Cons.prems(2,3) fl(2) ord_in run(1)]
    have rest: "set fls \<subseteq> unapplied s1" using S Cons.prems(4,5) by (auto simp: image_iff)
    have "replayable s1 = replayable s" using S by (auto simp: replayable_def fun_eq_iff)
    with Cons.IH [OF run(2) keeps_inv [OF Cons.prems(2,3) fl(2) run(1)] _ rest] S Cons.prems(5) True same
    show ?thesis by auto
  qed
qed auto

lemma replay_loop_skips:
  "inv st \<Longrightarrow> load st = Inr s \<Longrightarrow> \<forall>fl \<in> set fls. \<not> replayable s fl \<Longrightarrow>
   replay_loop apply_fill cooldown_bars timeframe clock_of s fls st = (Inr s, st)"
proof (induction fls)
  case (Cons fl fls)
  then show ?case
    using order_of_fill_kind(2) [OF Cons.prems(1,2), of fl] by (cases "order_of_fill s fl") auto
qed simp

lemma pending_rows:
  assumes "inv st" "load st = Inr s"
  shows "set (pending_fills s) = unapplied s" "distinct (map fill_key (pending_fills s))"
proof -
  show "set (pending_fills s) = unapplied s" by (auto simp: pending_fills_def unapplied_def)
  have "distinct (map fill_key (filter (\<lambda>fl. f_economics_applied_at fl = None) (s_fills s)))"
    using distinct_rows [OF assms] by (auto intro: distinct_map_filter)
  then show "distinct (map fill_key (pending_fills s))"
    unfolding pending_fills_def by (simp add: distinct_map)
qed

lemma replay_settles:
  assumes "replay_unapplied_fills apply_fill s cooldown_bars timeframe clock_of st = (Inr s', st')"
    and "inv st" "load st = Inr s"
  shows "inv st' \<and> load st' = Inr s' \<and> unapplied s' = {g \<in> unapplied s. \<not> replayable s g}
     \<and> replay_unapplied_fills apply_fill s' cooldown_bars' timeframe' clock_of' st' = (Inr s', st')"
proof -
  note pend = pending_rows [OF assms(2,3)]
  have R: "inv st'" "load st' = Inr s'" "has_kind s' = has_kind s"
    "unapplied s' = {g \<in> unapplied s. \<not> (replayable s g \<and> fill_key g \<in> fill_key ` set (pending_fills s))}"
    using replay_loop_settles [OF assms(1) [unfolded replay_unapplied_fills_def] assms(2,3)] pend by auto
  have left: "unapplied s' = {g \<in> unapplied s. \<not> replayable s g}" using R(4) pend(1) by auto
  have "replayable s' = replayable s" using R(3) by (simp add: replayable_def fun_eq_iff)
  then have "\<forall>fl \<in> set (pending_fills s'). \<not> replayable s' fl"
    using pending_rows(1) [OF R(1,2)] left by auto
  with replay_loop_skips [OF R(1,2)] left R(1,2) show ?thesis by (auto simp: replay_unapplied_fills_def)
qed

end

section \<open>The memory store and the scoped store are fill stores\<close>

lemma put_order_members:
  assumes "orders_ok st" "ord0 \<in> set (orders_of st)" "o_client_order_id ord0 = o_client_order_id ord" "o_id ord0 = o_id ord"
  shows "set (orders_of (put_order ord (find_client_order (o_client_order_id ord) st) st))
       = insert ord {x \<in> set (orders_of st). o_id x \<noteq> o_id ord}"
proof -
  have base: "keyed o_id (es_orders st)" "distinct (map o_client_order_id (orders_of st))"
    using assms(1) by (simp_all add: orders_ok_def)
  have ex: "find_client_order (o_client_order_id ord) st = Some ord0"
    unfolding find_client_order_def
  proof (rule find_unique [OF assms(2)])
    fix y assume "y \<in> set (orders_of st)" "o_client_order_id y = o_client_order_id ord"
    then show "y = ord0" using distinct_mapD [OF base(2) _ assms(2)] assms(3) by simp
  qed (rule assms(3))
  note del = keyed_delete [OF base(1), of "o_id ord"]
  have "orders_of (put_order ord (Some ord0) st)
      = upsert_by (\<lambda>x. o_id x = o_id ord) ord (filter (\<lambda>x. o_id x \<noteq> o_id ord) (orders_of st))"
    using keyed_update(2) [OF del(1) refl, of ord] del(2) by (simp add: put_order_def assms(4) del: map_map)
  moreover have "distinct (map o_id (filter (\<lambda>x. o_id x \<noteq> o_id ord) (orders_of st)))"
    using keyed_distinct [OF base(1)] by (rule distinct_map_filter)
  ultimately show ?thesis unfolding ex by (auto simp: upsert_by_replaced simp del: set_map)
qed

lemma apply_fill_effect:
  assumes "apply_fill_transaction dep cooldown_bars timeframe ck fl ord st = (Inr (b, s'), st')" "store_ok st"
    and "get_deployment dep st = Inr s" "fl \<in> set (s_fills s)" "ord0 \<in> set (s_orders s)"
    and "o_id ord0 = o_id ord" "o_client_order_id ord0 = o_client_order_id ord" "o_deployment_id ord = dep"
  shows "get_deployment dep st' = Inr s'" "unapplied s' = {g \<in> unapplied s. fill_key g \<noteq> fill_key fl}"
    "d_product_id (s_deployment s') = d_product_id (s_deployment s)"
    "s' = s \<or> (\<exists>new. set (s_orders s') = insert new {x \<in> set (s_orders s). o_id x \<noteq> o_id ord}
        \<and> o_id new = o_id ord \<and> o_kind new = o_kind ord \<and> o_product_id new = o_product_id ord)"
proof -
  note S = get_deployment_SomeD [OF assms(2,3)]
  have ok: "fills_ok st" "orders_ok st" using assms(2) by (simp_all add: store_ok_def)
  have fl: "fl \<in> set (fills_of st)" "f_deployment_id fl = dep" using assms(4) by (auto simp: S(3))
  have ord0: "ord0 \<in> set (orders_of st)" using assms(5) by (auto simp: S(4))
  have same: "x = fl" if "x \<in> set (fills_of st)" "fill_key x = fill_key fl" for x
    using that fl ok(1) distinct_mapD [of fill_key "fills_of st" x fl] by (auto simp: fills_ok_def)
  have unap: "unapplied s = {g \<in> unapplied s. fill_key g \<noteq> fill_key fl}" if ap: "f_economics_applied_at fl \<noteq> None"
  proof -
    have "fill_key g \<noteq> fill_key fl" if "g \<in> unapplied s" for g
    proof
      assume "fill_key g = fill_key fl"
      moreover have "g \<in> set (fills_of st)" "f_economics_applied_at g = None"
        using that by (simp_all add: unapplied_def S(3) del: set_map)
      ultimately show False using same [of g] ap by simp
    qed
    then show ?thesis by auto
  qed
  show "get_deployment dep st' = Inr s'" by (rule apply_fill_applied(1) [OF assms(1,2) fl(2)])
  have "unapplied s' = {g \<in> unapplied s. fill_key g \<noteq> fill_key fl}
     \<and> d_product_id (s_deployment s') = d_product_id (s_deployment s)
     \<and> (s' = s \<or> (\<exists>new. set (s_orders s') = insert new {x \<in> set (s_orders s). o_id x \<noteq> o_id ord}
        \<and> o_id new = o_id ord \<and> o_kind new = o_kind ord \<and> o_product_id new = o_product_id ord))"
    using assms(1,2)
  proof (cases rule: apply_fillE)
    case (applied s0)
    then obtain item where "List.find (same_fill fl) (s_fills s0) = Some item" "f_economics_applied_at item \<noteq> None" by blast
    moreover have "s0 = s" using applied(1) assms(3) by simp
    ultimately have "f_economics_applied_at fl \<noteq> None"
      using same [of item] find_SomeD [of "same_fill fl" "s_fills s" item] by (auto simp: S(3) same_fill_key)
    with unap applied \<open>s0 = s\<close> show ?thesis by auto
  next
    case (committed s0 st1 projected stamped s1)
    then have eqs: "s0 = s" "s1 = s'" using assms(3) by auto
    have "fill_key fl \<in> set (es_fill_keys st)" using ok(1) fl(1) unfolding fills_ok_def by (metis image_subset_iff)
    with committed(3) have st1: "st1 = st" by simp
    note S' = get_deployment_SomeD [OF apply_fill_store_ok [OF assms(1,2) fl(2)] committed(6), unfolded eqs]
    note key = stamped_key [OF committed(4)]
    have "List.find (same_fill fl) (s_fills s) = Some fl"
      by (rule find_unique) (use assms(4) same in \<open>auto simp: S(3) same_fill_key\<close>)
    with key(1) eqs have id: "f_id stamped = f_id fl" by simp
    have "fills_of st' = upsert_by (\<lambda>x. f_id x = f_id stamped) stamped (fills_of st)"
      using keyed_update(2) [of f_id "es_fills st" stamped "f_id stamped"] ok(1)
      by (simp add: committed(5) st1 commit_fill_fields(1) fills_ok_def del: map_map)
    then have fills': "x \<in> set (fills_of st') \<longleftrightarrow> x = stamped \<or> x \<in> set (fills_of st) \<and> f_id x \<noteq> f_id fl" for x
      using upsert_by_replaced [of f_id "fills_of st" x stamped] keyed_distinct [of f_id "es_fills st"] ok(1) id
      by (simp add: fills_ok_def del: map_map set_map)
    have idkey: "f_id x = f_id fl \<longleftrightarrow> fill_key x = fill_key fl" if "x \<in> set (fills_of st)" for x
      using that same fl(1) ok(1) keyed_distinct [of f_id "es_fills st"] distinct_mapD [of f_id "fills_of st" x fl]
      by (auto simp: fills_ok_def simp del: map_map set_map)
    have "unapplied s' = {g \<in> unapplied s. fill_key g \<noteq> fill_key fl}"
      using fills' idkey key(3) by (auto simp: unapplied_def S(3) S'(3) simp del: set_map)
    moreover have "d_product_id (s_deployment s') = d_product_id (s_deployment s)"
    proof -
      have "s_deployment s' = (fill_projection_deployment s projected)\<lparr>d_revision := d_revision (s_deployment s) + 1\<rparr>"
        using S'(1) S(2) fill_projection_id [of projected s] fill_economics_frame(2) [OF committed(4)]
        by (simp add: committed(5) st1 eqs commit_fill_fields(5) update_conv')
      then show ?thesis using fill_economics_frame(3) [OF committed(4)] eqs by (simp add: fill_projection_deployment_def)
    qed
    moreover have "\<exists>new. set (s_orders s') = insert new {x \<in> set (s_orders s). o_id x \<noteq> o_id ord}
        \<and> o_id new = o_id ord \<and> o_kind new = o_kind ord \<and> o_product_id new = o_product_id ord"
    proof -
      let ?new = "with_cancel_time (applied_order s fl stamped ord) (find_client_order (o_client_order_id ord) st)"
      have "set (orders_of st') = insert ?new {x \<in> set (orders_of st). o_id x \<noteq> o_id ord}"
        using put_order_members [OF ok(2) ord0, of ?new] assms(6,7)
        by (simp add: committed(5) st1 eqs commit_fill_fields(4) del: set_map)
      then have "set (s_orders s') = insert ?new {x \<in> set (s_orders s). o_id x \<noteq> o_id ord}"
        using assms(8) by (auto simp: S(4) S'(4) simp del: set_map)
      then show ?thesis by (intro exI [of _ ?new]) simp
    qed
    ultimately show ?thesis by blast
  qed auto
  then show "unapplied s' = {g \<in> unapplied s. fill_key g \<noteq> fill_key fl}"
    "d_product_id (s_deployment s') = d_product_id (s_deployment s)"
    "s' = s \<or> (\<exists>new. set (s_orders s') = insert new {x \<in> set (s_orders s). o_id x \<noteq> o_id ord}
        \<and> o_id new = o_id ord \<and> o_kind new = o_kind ord \<and> o_product_id new = o_product_id ord)" by blast+
qed

lemma loaded_rows_distinct:
  assumes "store_ok st" "get_deployment dep st = Inr s"
  shows "distinct (map fill_key (s_fills s))" "distinct (map o_id (s_orders s))"
  using assms(1) keyed_distinct [of o_id "es_orders st"]
  by (auto simp: get_deployment_SomeD [OF assms] store_ok_def fills_ok_def orders_ok_def simp del: map_map
      intro: distinct_map_filter)

lemma has_kind_replace:
  assumes "distinct (map o_id (s_orders s))" "ord \<in> set (s_orders s)"
    and "set (s_orders s') = set (s_orders s)
      \<or> (\<exists>new. set (s_orders s') = insert new {x \<in> set (s_orders s). o_id x \<noteq> o_id ord}
           \<and> o_id new = o_id ord \<and> o_kind new = o_kind ord)"
  shows "has_kind s' = has_kind s"
proof (intro ext)
  fix i k
  have uniq: "x = ord" if "x \<in> set (s_orders s)" "o_id x = o_id ord" for x
    by (rule distinct_mapD [OF assms(1) that(1) assms(2) that(2)])
  show "has_kind s' i k = has_kind s i k"
  proof (cases "i = o_id ord")
    case True
    have "has_kind s i k \<longleftrightarrow> k = o_kind ord" unfolding has_kind_def True using uniq assms(2) by blast
    moreover have "has_kind s' i k \<longleftrightarrow> k = o_kind ord" if ne: "set (s_orders s') \<noteq> set (s_orders s)"
    proof -
      from ne assms(3) obtain new where new: "set (s_orders s') = insert new {x \<in> set (s_orders s). o_id x \<noteq> o_id ord}"
        "o_id new = o_id ord" "o_kind new = o_kind ord" by blast
      show ?thesis unfolding has_kind_def True new(1) using new(2,3) by auto
    qed
    moreover have "has_kind s' i k = has_kind s i k" if "set (s_orders s') = set (s_orders s)"
      unfolding has_kind_def that ..
    ultimately show ?thesis by metis
  next
    case False
    then show ?thesis using assms(3) unfolding has_kind_def by auto
  qed
qed

interpretation memory_fills: fill_store "get_deployment dep" "apply_fill_transaction dep" store_ok
proof unfold_locales
  fix st s assume "store_ok st" "get_deployment dep st = Inr s"
  then show "distinct (map fill_key (s_fills s)) \<and> distinct (map o_id (s_orders s))"
    using loaded_rows_distinct by blast
next
  fix st s fl cooldown_bars timeframe ck ord r st'
  assume a: "store_ok st" "get_deployment dep st = Inr s" "fl \<in> set (s_fills s)"
    "apply_fill_transaction dep cooldown_bars timeframe ck fl ord st = (r, st')"
  then have "f_deployment_id fl = dep" by (auto simp: get_deployment_SomeD(3) [OF a(1,2)])
  with apply_fill_store_ok [OF a(4,1)] show "store_ok st'" by blast
next
  fix st s fl cooldown_bars timeframe ck ord b s' st'
  assume a: "store_ok st" "get_deployment dep st = Inr s" "fl \<in> set (s_fills s)" "ord \<in> set (s_orders s)"
    "apply_fill_transaction dep cooldown_bars timeframe ck fl ord st = (Inr (b, s'), st')"
  have "o_deployment_id ord = dep" using a(4) by (auto simp: get_deployment_SomeD(4) [OF a(1,2)])
  note E = apply_fill_effect [OF a(5,1,2,3,4) refl refl this]
  have "has_kind s' = has_kind s"
    by (rule has_kind_replace [OF loaded_rows_distinct(2) [OF a(1,2)] a(4)]) (use E(4) in auto)
  then show "get_deployment dep st' = Inr s' \<and> unapplied s' = {g \<in> unapplied s. fill_key g \<noteq> fill_key fl}
      \<and> has_kind s' = has_kind s" using E(1,2) by auto
qed

lemma stamp_order_keeps [simp]:
  "o_id (stamp_order p ord) = o_id ord" "o_client_order_id (stamp_order p ord) = o_client_order_id ord"
  "o_deployment_id (stamp_order p ord) = o_deployment_id ord" "o_kind (stamp_order p ord) = o_kind ord"
  by (simp_all add: stamp_order_def)

lemma stamp_order_resolved:
  "resolved_product_id (o_product_id ord) d = p \<Longrightarrow> resolved_product_id (o_product_id (stamp_order p ord)) d = p"
  by (auto simp: stamp_order_def resolved_product_id_def)

lemma scoped_effect:
  assumes "d_product_id (s_deployment s1) = d_product_id (s_deployment s0)" "ord \<in> set (orders_for s0 p)"
    and "unapplied s1 = {g \<in> unapplied s0. fill_key g \<noteq> k}"
    and "s1 = s0 \<or> (\<exists>new. set (s_orders s1) = insert new {x \<in> set (s_orders s0). o_id x \<noteq> o_id ord}
        \<and> o_id new = o_id ord \<and> o_kind new = o_kind ord \<and> o_product_id new = o_product_id (stamp_order p ord))"
  shows "unapplied (overlay_snapshot s1 p) = {g \<in> unapplied (overlay_snapshot s0 p). fill_key g \<noteq> k}"
    "set (orders_for s1 p) = set (orders_for s0 p)
      \<or> (\<exists>new. set (orders_for s1 p) = insert new {x \<in> set (orders_for s0 p). o_id x \<noteq> o_id ord}
           \<and> o_id new = o_id ord \<and> o_kind new = o_kind ord)"
proof -
  have res: "resolved_product_id x (s_deployment s1) = resolved_product_id x (s_deployment s0)" for x
    using assms(1) by (simp add: resolved_product_id_def)
  have ord: "resolved_product_id (o_product_id (stamp_order p ord)) (s_deployment s0) = p"
    using assms(2) by (intro stamp_order_resolved) (simp add: orders_for_def)
  show orders: "set (orders_for s1 p) = set (orders_for s0 p)
      \<or> (\<exists>new. set (orders_for s1 p) = insert new {x \<in> set (orders_for s0 p). o_id x \<noteq> o_id ord}
           \<and> o_id new = o_id ord \<and> o_kind new = o_kind ord)"
    using assms(4)
  proof (elim disjE exE conjE)
    fix new assume new: "set (s_orders s1) = insert new {x \<in> set (s_orders s0). o_id x \<noteq> o_id ord}"
      "o_id new = o_id ord" "o_kind new = o_kind ord" "o_product_id new = o_product_id (stamp_order p ord)"
    have "set (orders_for s1 p) = insert new {x \<in> set (orders_for s0 p). o_id x \<noteq> o_id ord}"
      using new ord by (auto simp: orders_for_def res)
    with new show ?thesis by blast
  qed simp
  then have ids: "o_id ` set (orders_for s1 p) = o_id ` set (orders_for s0 p)"
  proof (elim disjE exE conjE)
    fix new assume new: "set (orders_for s1 p) = insert new {x \<in> set (orders_for s0 p). o_id x \<noteq> o_id ord}"
      "o_id new = o_id ord"
    have "o_id ` insert new {x \<in> A. o_id x \<noteq> o_id ord} = o_id ` A" if "ord \<in> A" for A
      using that new(2) by (auto simp: image_iff)
    from this [OF assms(2)] new(1) show ?thesis by simp
  qed simp
  have view: "unapplied (overlay_snapshot s p) = {g \<in> unapplied s. f_order_id g \<in> o_id ` set (orders_for s p)}" for s
    by (auto simp: unapplied_def fills_for_def)
  show "unapplied (overlay_snapshot s1 p) = {g \<in> unapplied (overlay_snapshot s0 p). fill_key g \<noteq> k}"
    unfolding view ids assms(3) by auto
qed

interpretation scoped_fills: fill_store "scoped_get_deployment product_id dep"
    "scoped_apply_fill_transaction product_id dep" store_ok
proof unfold_locales
  fix st s assume a: "store_ok st" "scoped_get_deployment product_id dep st = Inr s"
  then obtain s0 where s0: "get_deployment dep st = Inr s0" "s = overlay_snapshot s0 product_id"
    by (auto simp: scoped_get_deployment_def)
  with loaded_rows_distinct [OF a(1) s0(1)]
  show "distinct (map fill_key (s_fills s)) \<and> distinct (map o_id (s_orders s))"
    by (auto simp: fills_for_def orders_for_def intro: distinct_map_filter)
next
  fix st s fl cooldown_bars timeframe ck ord r st'
  assume a: "store_ok st" "scoped_get_deployment product_id dep st = Inr s" "fl \<in> set (s_fills s)"
    "scoped_apply_fill_transaction product_id dep cooldown_bars timeframe ck fl ord st = (r, st')"
  then obtain s0 where s0: "get_deployment dep st = Inr s0" "s = overlay_snapshot s0 product_id"
    by (auto simp: scoped_get_deployment_def)
  obtain r0 where "apply_fill_transaction dep cooldown_bars timeframe ck fl (stamp_order product_id ord) st = (r0, st')"
    using a(4) by (auto simp: scoped_apply_fill_transaction_def split: prod.splits sum.splits)
  then show "store_ok st'"
    using a(1,3) s0 by (intro memory_fills.keeps_inv [OF a(1) s0(1)]) (auto simp: fills_for_def)
next
  fix st s fl cooldown_bars timeframe ck ord b s' st'
  assume a: "store_ok st" "scoped_get_deployment product_id dep st = Inr s" "fl \<in> set (s_fills s)" "ord \<in> set (s_orders s)"
    "scoped_apply_fill_transaction product_id dep cooldown_bars timeframe ck fl ord st = (Inr (b, s'), st')"
  then obtain s0 where s0: "get_deployment dep st = Inr s0" "s = overlay_snapshot s0 product_id"
    by (auto simp: scoped_get_deployment_def)
  obtain s1 where run: "apply_fill_transaction dep cooldown_bars timeframe ck fl (stamp_order product_id ord) st
      = (Inr (b, s1), st')" "s' = overlay_snapshot s1 product_id"
    using a(5) by (auto simp: scoped_apply_fill_transaction_def split: prod.splits sum.splits)
  have fl: "fl \<in> set (s_fills s0)" using a(3) s0(2) by (auto simp: fills_for_def)
  have ord: "ord \<in> set (orders_for s0 product_id)" "ord \<in> set (s_orders s0)"
    using a(4) s0(2) by (auto simp: orders_for_def)
  have "o_deployment_id (stamp_order product_id ord) = dep"
    using ord(2) by (auto simp: get_deployment_SomeD(4) [OF a(1) s0(1)])
  note E = apply_fill_effect [OF run(1) a(1) s0(1) fl ord(2) _ _ this, simplified]
  note F = scoped_effect [OF E(3) ord(1) E(2,4)]
  have "has_kind s' = has_kind s"
    by (rule has_kind_replace [of s ord])
      (use loaded_rows_distinct(2) [OF a(1) s0(1)] ord(1) F(2) s0(2) run(2) in
        \<open>auto simp: orders_for_def intro: distinct_map_filter\<close>)
  with E(1) F(1) run(2) s0(2)
  show "scoped_get_deployment product_id dep st' = Inr s'
      \<and> unapplied s' = {g \<in> unapplied s. fill_key g \<noteq> fill_key fl} \<and> has_kind s' = has_kind s"
    by (simp add: scoped_get_deployment_def)
qed

section \<open>Exactly-once application\<close>

text \<open>C24: A fill's economics are applied exactly once. When a fill transaction succeeds, the snapshot it
  returns is what the store then holds; it either found the fill already applied and changed nothing,
  or it moved the book's cash by the recorded fill's economics and raised the revision by one; and every
  later transaction for the same venue fill, whatever its order, clock and recorded details, changes
  nothing and answers that it was already applied.\<close>

theorem fill_applied_exactly_once:
  assumes "apply_fill_transaction dep cooldown_bars timeframe ck fl ord st = (Inr (applied, s'), st')"
    and "store_ok st" "f_deployment_id fl = dep"
  shows "get_deployment dep st' = Inr s' \<and> store_ok st'
   \<and> (\<not> applied \<longrightarrow> st' = st)
   \<and> (applied \<longrightarrow> (\<exists>s. get_deployment dep st = Inr s
        \<and> d_cash (s_deployment s') = cash_after_fill (d_cash (s_deployment s))
            (or_else (List.find (same_fill fl) (s_fills s)) fl) (o_side ord)
        \<and> d_revision (s_deployment s') = d_revision (s_deployment s) + 1))
   \<and> (fill_key fl' = fill_key fl \<longrightarrow>
        apply_fill_transaction dep cooldown_bars' timeframe' ck' fl' ord' st' = (Inr (False, s'), st'))"
proof (intro conjI impI)
  note A = apply_fill_applied [OF assms]
  show "get_deployment dep st' = Inr s'" by (rule A(1))
  show "store_ok st'" by (rule apply_fill_store_ok [OF assms])
  show "st' = st" if "\<not> applied" using assms(1,2) by (rule apply_fillE) (use that in auto)
  show "\<exists>s. get_deployment dep st = Inr s
        \<and> d_cash (s_deployment s') = cash_after_fill (d_cash (s_deployment s))
            (or_else (List.find (same_fill fl) (s_fills s)) fl) (o_side ord)
        \<and> d_revision (s_deployment s') = d_revision (s_deployment s) + 1" if "applied"
    using assms(1,2)
  proof (cases rule: apply_fillE)
    case (committed s st1 projected stamped s1)
    note P = fill_economics_frame [OF committed(4)]
    have "s_deployment s' = (fill_projection_deployment s projected)\<lparr>d_revision := d_revision (s_deployment s) + 1\<rparr>"
      using get_deployment_SomeD(1) [OF apply_fill_store_ok [OF assms] A(1)]
        get_deployment_SomeD(2) [OF assms(2) committed(1)] fill_projection_id [OF P(2)]
        apply_fill_recorded_ok(2) [OF assms(2,3) committed(1,3)]
      by (simp add: committed(5) commit_fill_fields(5) update_conv')
    then show ?thesis using committed(1) P(1) by (auto simp: fill_projection_deployment_def)
  qed (use that in auto)
  show "apply_fill_transaction dep cooldown_bars' timeframe' ck' fl' ord' st' = (Inr (False, s'), st')"
    if "fill_key fl' = fill_key fl"
  proof -
    have "same_fill fl' = same_fill fl" using that by (auto simp: same_fill_key fun_eq_iff)
    with A show ?thesis by (auto simp: apply_fill_transaction_def)
  qed
qed


text \<open>The same holds through a product scope: a scoped replay settles every replayable fill of its product
  and repeating it changes nothing.\<close>

theorem scoped_replay_settles_pending_fills:
  assumes "replay_unapplied_fills (scoped_apply_fill_transaction product_id dep) s cooldown_bars timeframe clock_of st
      = (Inr s', st')"
    and "store_ok st" "scoped_get_deployment product_id dep st = Inr s"
  shows "store_ok st' \<and> scoped_get_deployment product_id dep st' = Inr s'
     \<and> unapplied s' = {fl \<in> unapplied s. \<not> replayable s fl}
     \<and> replay_unapplied_fills (scoped_apply_fill_transaction product_id dep) s' cooldown_bars' timeframe' clock_of' st'
         = (Inr s', st')"
  by (rule scoped_fills.replay_settles [OF assms])

section \<open>Reachable stores\<close>

lemma map_filter_mem: "key \<in> set (List.map_filter f ys) \<longleftrightarrow> (\<exists>y \<in> set ys. f y = Some key)"
  by (induction ys) (auto simp: map_filter_simps split: option.splits)

lemma upsert_map_filter_distinct:
  assumes "distinct (List.map_filter f xs)" "\<And>key x. f y = Some key \<Longrightarrow> x \<in> set xs \<Longrightarrow> f x \<noteq> Some key"
  shows "distinct (List.map_filter f (upsert_by same y xs))"
  using assms
proof (induction xs)
  case Nil
  then show ?case by (simp add: map_filter_simps split: option.split)
next
  case (Cons x xs)
  have sub: "z = y \<or> z \<in> set xs" if "z \<in> set (upsert_by same y xs)" for z
    using that set_upsert_by_subset [of same y xs] by blast
  have IH: "distinct (List.map_filter f (upsert_by same y xs))"
    using Cons.prems by (intro Cons.IH) (auto simp: map_filter_simps split: option.splits)
  have other: "key \<notin> set (List.map_filter f (upsert_by same y xs))" if "f x = Some key" for key
  proof -
    have "\<forall>w \<in> set xs. f w \<noteq> Some key" using Cons.prems(1) that(1) by (auto simp: map_filter_simps map_filter_mem)
    moreover have "f y \<noteq> Some key" using Cons.prems(2) [of key x] that(1) by auto
    ultimately show ?thesis unfolding map_filter_mem using sub by blast
  qed
  have new: "key \<notin> set (List.map_filter f xs)" if "f y = Some key" for key
    unfolding map_filter_mem using Cons.prems(2) [OF that] by auto
  have rest: "distinct (List.map_filter f xs)" using Cons.prems(1) by (simp add: map_filter_simps split: option.splits)
  show ?case
    by (cases "same x"; cases "f x"; cases "f y")
      (use IH rest other new in \<open>simp_all add: map_filter_simps\<close>)
qed

lemma insert_intent_ok:
  assumes "intents_ok st" "\<forall>key. i_idempotency_key intent = Some key \<longrightarrow> get_intent_by_idempotency_key key st = None"
    and "es_intents st' = AList.update (i_id intent) intent (es_intents st)"
  shows "intents_ok st'"
proof -
  have k: "keyed i_id (es_intents st)" "distinct (List.map_filter i_idempotency_key (intents_of st))"
    using assms(1) by (auto simp: intents_ok_def)
  have fresh: "\<forall>x \<in> set (intents_of st). i_idempotency_key x = Some key \<longrightarrow> False" if "i_idempotency_key intent = Some key" for key
    using assms(2) that by (auto simp: get_intent_by_idempotency_key_def find_None_iff)
  have "distinct (List.map_filter i_idempotency_key (upsert_by (\<lambda>x. i_id x = i_id intent) intent (intents_of st)))"
    by (rule upsert_map_filter_distinct [OF k(2)]) (use fresh in blast)
  with keyed_update [OF k(1) refl, of intent] assms(3) show ?thesis by (simp add: intents_ok_def)
qed

lemma put_deployment_ok:
  assumes "store_ok st" "d_id d = k"
  shows "store_ok (st\<lparr>es_deployments := AList.update k d (es_deployments st)\<rparr>)"
  using assms by (simp add: store_ok_def fills_ok_def orders_ok_def intents_ok_def keyed_update(1))

lemma store_ok_rows [simp]:
  "store_ok (st\<lparr>es_runtimes := x\<rparr>) = store_ok st" "store_ok (st\<lparr>es_positions := y\<rparr>) = store_ok st"
  "store_ok (st\<lparr>es_funding := z\<rparr>) = store_ok st" "store_ok (st\<lparr>es_gate := g\<rparr>) = store_ok st"
  by (simp_all add: store_ok_def fills_ok_def orders_ok_def intents_ok_def)

lemma deployment_key: "store_ok st \<Longrightarrow> map_of (es_deployments st) k = Some d \<Longrightarrow> d_id d = k"
  using keyed_map_of [of d_id "es_deployments st" k d] by (simp add: store_ok_def)

lemma create_deployment_ok: "store_ok st \<Longrightarrow> store_ok (snd (create_deployment d st))"
  by (auto simp: create_deployment_def put_deployment_def put_deployment_ok split: option.split sum.split)

lemma apply_funding_ok:
  assumes "store_ok st"
  shows "store_ok (snd (apply_funding_transaction dep flows expected st))"
proof -
  have "store_ok (st\<lparr>es_funding := m, es_deployments := AList.update dep d (es_deployments st)\<rparr>)" if "d_id d = dep" for m d
    using put_deployment_ok [of "st\<lparr>es_funding := m\<rparr>" d dep] assms that by simp
  then show ?thesis using assms deployment_key [OF assms, of dep]
    by (auto simp: apply_funding_transaction_def Let_def split: option.split)
qed

lemma save_deployment_ok: "store_ok st \<Longrightarrow> store_ok (snd (save_deployment d expected row st))"
  by (auto simp: save_deployment_def Let_def put_deployment_def put_deployment_ok split: option.split)

lemma save_breaker_pause_ok: "store_ok st \<Longrightarrow> store_ok (snd (save_breaker_pause dep expected detail latched now st))"
  by (auto simp: save_breaker_pause_def Let_def intro!: put_deployment_ok dest: deployment_key split: option.split)

lemma acquire_worker_lease_ok: "store_ok st \<Longrightarrow> store_ok (snd (acquire_worker_lease dep holder now ttl st))"
  by (auto simp: acquire_worker_lease_def Let_def intro!: put_deployment_ok dest: deployment_key split: option.split)

lemma insert_intent_result:
  "insert_intent fence intent st = (r, st') \<Longrightarrow>
     st' = st \<or> st' = st\<lparr>es_intents := AList.update (i_id intent) intent (es_intents st)\<rparr>
       \<and> (\<forall>key. i_idempotency_key intent = Some key \<longrightarrow> get_intent_by_idempotency_key key st = None)"
  by (auto simp: insert_intent_def insert_leased_intent_def Let_def split: option.splits sum.splits if_splits)

lemma save_intent_result:
  "save_intent fence intent st = (r, st') \<Longrightarrow> st' = st \<or> insert_intent fence intent st = (r, st')"
  by (auto simp: save_intent_def Let_def split: option.splits sum.splits if_splits)

lemma save_intent_ok:
  assumes "store_ok st"
  shows "store_ok (snd (save_intent fence intent st))"
proof -
  obtain r st' where run: "save_intent fence intent st = (r, st')" by fastforce
  consider "st' = st" | "st' = st\<lparr>es_intents := AList.update (i_id intent) intent (es_intents st)\<rparr>"
      "\<forall>key. i_idempotency_key intent = Some key \<longrightarrow> get_intent_by_idempotency_key key st = None"
    using save_intent_result [OF run] insert_intent_result [of fence intent st r st'] by blast
  then have "store_ok st'"
  proof cases
    case 2
    have "intents_ok st'" by (rule insert_intent_ok [OF _ 2(2)]) (use assms 2(1) in \<open>simp_all add: store_ok_def\<close>)
    moreover have "fills_ok st' = fills_ok st" "orders_ok st' = orders_ok st" "es_deployments st' = es_deployments st"
      using 2(1) by (simp_all add: fills_ok_def orders_ok_def)
    ultimately show ?thesis using assms by (simp add: store_ok_def)
  qed (use assms in simp)
  with run show ?thesis by simp
qed

lemma put_order_store_ok:
  "store_ok st \<Longrightarrow> store_ok (put_order ord (find_client_order (o_client_order_id ord) st) st)"
  using put_order_ok [of st ord] by (simp add: store_ok_def fills_ok_def intents_ok_def put_order_def Let_def)

lemma save_order_ok: "store_ok st \<Longrightarrow> store_ok (snd (save_order ord st))"
  using put_order_store_ok [of st "with_cancel_time ord (find_client_order (o_client_order_id ord) st)"]
  by (simp add: save_order_def Let_def)

lemma save_fill_ok:
  assumes "store_ok st"
  shows "store_ok (snd (save_fill fl st))"
proof (cases "fill_key fl \<in> set (es_fill_keys st)")
  case True
  with assms show ?thesis by (simp add: save_fill_def)
next
  case False
  let ?st' = "snd (save_fill fl st)"
  have "fill_key x \<noteq> fill_key fl" if "x \<in> set (fills_of st)" for x
    using assms False that unfolding store_ok_def fills_ok_def by (metis image_subset_iff)
  then have other: "\<forall>x \<in> set (fills_of st). fill_key x = fill_key fl \<longrightarrow> f_id x = f_id fl" by blast
  have fields: "es_fills ?st' = AList.update (f_id fl) fl (es_fills st)" "es_orders ?st' = es_orders st"
    "set (es_fill_keys ?st') = insert (fill_key fl) (set (es_fill_keys st))" "es_intents ?st' = es_intents st"
    "es_deployments ?st' = es_deployments st"
    using False by (simp_all add: save_fill_def)
  have "fills_ok ?st'" by (rule put_fill_ok [OF _ other fields(1,3)]) (use assms in \<open>simp add: store_ok_def\<close>)
  then show ?thesis
    using assms by (simp add: store_ok_def fields(5) orders_ok_cong [OF fields(2)] intents_ok_cong [OF fields(4)])
qed

text \<open>
  The stores that calls of the operations can lead to, from an empty store. A fill transaction is called
  for the deployment its fill belongs to, as every caller does.
\<close>

inductive reachable_store :: "execution_store \<Rightarrow> bool" where
  "reachable_store new_execution_store"
| "reachable_store st \<Longrightarrow> reachable_store (bind_entry_gate gate st)"
| "reachable_store st \<Longrightarrow> reachable_store (snd (create_deployment d st))"
| "reachable_store st \<Longrightarrow> reachable_store (snd (apply_funding_transaction dep flows expected st))"
| "reachable_store st \<Longrightarrow> reachable_store (snd (save_deployment d expected row st))"
| "reachable_store st \<Longrightarrow> reachable_store (snd (save_breaker_pause dep erev detail latched now st))"
| "reachable_store st \<Longrightarrow> reachable_store (snd (acquire_worker_lease dep holder now ttl st))"
| "reachable_store st \<Longrightarrow> reachable_store (snd (save_intent fence intent st))"
| "reachable_store st \<Longrightarrow> reachable_store (snd (restore_order ord st))"
| "reachable_store st \<Longrightarrow> reachable_store (snd (save_order ord st))"
| "reachable_store st \<Longrightarrow> reachable_store (snd (save_fill fl st))"
| "reachable_store st \<Longrightarrow> f_deployment_id fl = dep \<Longrightarrow>
     reachable_store (snd (apply_fill_transaction dep cooldown_bars timeframe ck fl ord st))"
| "reachable_store st \<Longrightarrow> reachable_store (snd (save_position pos dep product_id st))"
| "reachable_store st \<Longrightarrow> reachable_store (snd (save_instrument_runtime runtime dep st))"


section \<open>Concurrency fences\<close>

text \<open>Saves are fenced by revision. A save that expects a stale revision raises and changes nothing; a save
  that succeeds stores the given row under the next revision and touches no other deployment, order, fill
  or intent; and of two writers that read the same revision, the second one to save is refused.\<close>

theorem save_deployment_fenced:
  assumes "map_of (es_deployments st) (d_id d) = Some current"
  shows "(expected \<noteq> None \<and> expected \<noteq> Some (d_revision current) \<longrightarrow>
            save_deployment d expected row st = (Inl revision_conflict, st))
   \<and> (save_deployment d expected row st = (Inr saved, st') \<longrightarrow>
        saved = d\<lparr>d_revision := d_revision current + 1\<rparr>
        \<and> map_of (es_deployments st') = (map_of (es_deployments st))(d_id d \<mapsto> saved)
        \<and> es_orders st' = es_orders st \<and> es_fills st' = es_fills st \<and> es_intents st' = es_intents st
        \<and> es_positions st' = es_positions st
        \<and> (expected = Some (d_revision current) \<and> d_id d' = d_id d \<longrightarrow>
             save_deployment d' expected row' st' = (Inl revision_conflict, st')))"
proof (intro conjI impI)
  assume "expected \<noteq> None \<and> expected \<noteq> Some (d_revision current)"
  then show "save_deployment d expected row st = (Inl revision_conflict, st)"
    using assms by (cases expected) (auto simp: save_deployment_def)
next
  assume run: "save_deployment d expected row st = (Inr saved, st')"
  have saved: "saved = d\<lparr>d_revision := d_revision current + 1\<rparr>"
    and deps: "es_deployments st' = AList.update (d_id d) saved (es_deployments st)"
    and rest: "es_orders st' = es_orders st" "es_fills st' = es_fills st" "es_intents st' = es_intents st"
      "es_positions st' = es_positions st"
    using run assms
    by (auto simp: save_deployment_def Let_def put_deployment_def split: option.splits if_splits)
  then show "saved = d\<lparr>d_revision := d_revision current + 1\<rparr>" "es_orders st' = es_orders st"
    "es_fills st' = es_fills st" "es_intents st' = es_intents st" "es_positions st' = es_positions st" by auto
  show map: "map_of (es_deployments st') = (map_of (es_deployments st))(d_id d \<mapsto> saved)"
    unfolding deps by (rule update_conv')
  assume e: "expected = Some (d_revision current) \<and> d_id d' = d_id d"
  then show "save_deployment d' expected row' st' = (Inl revision_conflict, st')"
    by (auto simp: save_deployment_def map saved)
qed

text \<open>A lease excludes other workers. While a lease acquired by one worker has not expired, another worker's
  acquisition is refused without changing the store, and an intent written inside that other worker's
  fence is refused as taken, without changing the store; the holder can renew.\<close>

theorem lease_excludes_others:
  assumes "acquire_worker_lease dep holder now ttl st = (Inr (Some d), st')"
    and "other \<noteq> holder" "moment < now + ttl"
  shows "acquire_worker_lease dep other moment ttl' st' = (Inr None, st')
   \<and> (\<exists>d' st''. acquire_worker_lease dep holder moment ttl' st' = (Inr (Some d'), st''))
   \<and> (i_deployment_id intent = dep \<longrightarrow>
        insert_leased_intent (Some (dep, other)) intent st' = (Inl (LeaseTakenError LEASE_TAKEN_DETAIL), st'))"
proof -
  have d: "map_of (es_deployments st') dep = Some d" "d_worker_lease_holder d = Some holder"
    "d_worker_lease_expires_at d = Some (now + ttl)"
    using assms(1) by (auto simp: acquire_worker_lease_def Let_def update_conv' split: option.splits if_splits)
  then show ?thesis
    using assms(2,3) by (simp add: acquire_worker_lease_def Let_def insert_leased_intent_def
        require_lease_holder_def fenced_holder_def)
qed

text \<open>Disarming a mode blocks entries and starts, and nothing else: with a bound latch inhibiting the mode of
  an intent's deployment, saving an entry intent raises and leaves the store as it was, creating a
  deployment of that mode raises and leaves the store as it was, and an intent with any other purpose
  is treated exactly as if no latch were bound.\<close>

theorem disarm_blocks_entries_only:
  assumes "es_gate st = Some gate" "map_of (es_deployments st) (i_deployment_id intent) = Some d"
    and "fl_inhibited gate (d_mode d)"
  shows "(i_purpose intent = ENTRY \<longrightarrow> isl (fst (save_intent fence intent st)) \<and> snd (save_intent fence intent st) = st)
   \<and> (d_mode new = d_mode d \<longrightarrow> isl (fst (create_deployment new st)) \<and> snd (create_deployment new st) = st)
   \<and> (i_purpose intent \<noteq> ENTRY \<longrightarrow>
        fst (save_intent fence intent st) = fst (save_intent fence intent (st\<lparr>es_gate := None\<rparr>))
        \<and> snd (save_intent fence intent st) = (snd (save_intent fence intent (st\<lparr>es_gate := None\<rparr>)))\<lparr>es_gate := Some gate\<rparr>)"
proof (intro conjI impI)
  have refused: "isl (fst (insert_intent fence intent st)) \<and> snd (insert_intent fence intent st) = st"
    if "i_purpose intent = ENTRY"
    using assms that by (simp add: insert_intent_def Let_def raise_if_inhibited_def split: option.split)
  show "isl (fst (save_intent fence intent st))" "snd (save_intent fence intent st) = st" if "i_purpose intent = ENTRY"
    using refused [OF that] assms(2) by (auto simp: save_intent_def Let_def split: sum.split)
  show "isl (fst (create_deployment new st))" "snd (create_deployment new st) = st" if "d_mode new = d_mode d"
    using assms that by (simp_all add: create_deployment_def raise_if_inhibited_def)
  assume "i_purpose intent \<noteq> ENTRY"
  moreover have "st = st\<lparr>es_gate := Some gate\<rparr>" using assms(1) by simp
  moreover have "get_intent_by_idempotency_key key (st\<lparr>es_gate := None\<rparr>) = get_intent_by_idempotency_key key st" for key
    by (simp add: get_intent_by_idempotency_key_def)
  ultimately show "fst (save_intent fence intent st) = fst (save_intent fence intent (st\<lparr>es_gate := None\<rparr>))"
    "snd (save_intent fence intent st) = (snd (save_intent fence intent (st\<lparr>es_gate := None\<rparr>)))\<lparr>es_gate := Some gate\<rparr>"
    using assms(1,2)
    by (auto simp: save_intent_def insert_intent_def insert_leased_intent_def Let_def split: option.split sum.split)
qed

section \<open>Funding\<close>

lemma foldl_update_dom:
  "dom (map_of (foldl (\<lambda>m x. AList.update (f x) x m) m xs)) = dom (map_of m) \<union> f ` set xs"
  by (induction xs arbitrary: m) (auto simp: update_conv')

text \<open>Funding hours are charged once across calls: a successful transaction adds the amounts of the hours it
  had not recorded, records them and answers their count; repeating it applies nothing, answers zero
  and leaves the store unchanged.\<close>

theorem funding_replay_charges_once:
  assumes "apply_funding_transaction dep flows expected st = (Inr (n, s'), st')"
  shows "(\<exists>current. map_of (es_deployments st) dep = Some current
        \<and> n = length (filter (\<lambda>flow. map_of (es_funding st) (funding_key flow) = None) flows)
        \<and> d_cash (s_deployment s') = (if n = 0 then d_cash current else dadd (d_cash current)
             (dsum (map c_amount (filter (\<lambda>flow. map_of (es_funding st) (funding_key flow) = None) flows)))))
   \<and> apply_funding_transaction dep flows None st' = (Inr (0, s'), st')"
proof -
  let ?fresh = "filter (\<lambda>flow. map_of (es_funding st) (funding_key flow) = None) flows"
  obtain current where c: "map_of (es_deployments st) dep = Some current"
    using assms by (auto simp: apply_funding_transaction_def split: option.splits)
  let ?d = "current\<lparr>d_cash := dadd (d_cash current) (dsum (map c_amount ?fresh)), d_revision := d_revision current + 1,
      d_updated_at := Max (set (map c_applied_at ?fresh))\<rparr>"
  have st': "st' = (if ?fresh = [] then st
      else st\<lparr>es_funding := foldl (\<lambda>m flow. AList.update (funding_key flow) flow m) (es_funding st) ?fresh,
              es_deployments := AList.update dep ?d (es_deployments st)\<rparr>)"
    and s': "get_deployment dep st' = Inr s'" and n: "n = length ?fresh"
    using assms c by (auto simp: apply_funding_transaction_def Let_def split: if_splits)
  have "funding_key flow \<in> dom (map_of (es_funding st'))" if "flow \<in> set flows" for flow
    using that foldl_update_dom [of funding_key "es_funding st" ?fresh] unfolding st'
    by (cases "map_of (es_funding st) (funding_key flow)") auto
  then have none: "filter (\<lambda>flow. map_of (es_funding st') (funding_key flow) = None) flows = []"
    by (auto simp: filter_empty_conv)
  have d': "map_of (es_deployments st') dep = Some (if ?fresh = [] then current else ?d)"
    using c by (simp add: st' update_conv')
  have "apply_funding_transaction dep flows None st' = (Inr (0, s'), st')"
    using d' none s' by (simp add: apply_funding_transaction_def Let_def)
  moreover have "s_deployment s' = (if ?fresh = [] then current else ?d)"
    using s' d' by (auto simp: get_deployment_def Let_def)
  ultimately show ?thesis using c n by auto
qed

section \<open>Scoped saves\<close>

definition runtimes_ok :: "execution_store \<Rightarrow> bool" where
  "runtimes_ok st \<longleftrightarrow> distinct (map fst (es_runtimes st)) \<and> (\<forall>((_, p), row) \<in> set (es_runtimes st). r_product_id row = p)"

abbreviation runtimes_of :: "uuid \<Rightarrow> execution_store \<Rightarrow> instrument_runtime list" where
  "runtimes_of dep st \<equiv> map snd (filter (\<lambda>((stored_id, _), _). stored_id = dep) (es_runtimes st))"

lemma runtime_rows_update:
  assumes "\<forall>((_, p), row) \<in> set rows. r_product_id row = p" "r_product_id row = p"
  shows "map snd (filter (\<lambda>((stored_id, _), _). stored_id = dep) (AList.update (dep, p) row rows))
       = upsert_by (\<lambda>r. r_product_id r = p) row (map snd (filter (\<lambda>((stored_id, _), _). stored_id = dep) rows))"
  using assms by (induction rows) auto

lemma find_upsert: "P y \<Longrightarrow> List.find P (upsert_by P y xs) = Some y"
  by (induction xs) auto

lemma aggregate_single:
  assumes "runtimes \<noteq> []" "\<forall>r \<in> set runtimes. r = row"
  shows "aggregate_phase runtimes = r_phase row"
proof -
  have "r_phase ` set runtimes = {r_phase row}" using assms by (cases runtimes) auto
  then show ?thesis by (cases "r_phase row") (simp_all add: aggregate_phase_def)
qed

lemma scoped_parent_simps [simp]:
  "d_id (scoped_parent current p d) = d_id (s_deployment current)"
  "d_product_id (scoped_parent current p d) = d_product_id (s_deployment current)"
  "d_cash (scoped_parent current p d) = d_cash d" "d_status (scoped_parent current p d) = d_status d"
  by (simp_all add: scoped_parent_def Let_def)

lemma scoped_parent_owned:
  assumes "p = d_product_id (s_deployment current)"
    and "mirrors_primary_runtime (s_deployment current) (s_instrument_runtimes current)"
  shows "runtime_from_deployment ((scoped_parent current p d)\<lparr>d_revision := n\<rparr>) p = runtime_from_deployment d p"
proof -
  let ?rows = "scoped_runtimes (s_instrument_runtimes current) (runtime_from_deployment d p)"
  have "\<forall>r \<in> set ?rows. r = runtime_from_deployment d p" "?rows \<noteq> []"
    using assms by (auto simp: scoped_runtimes_def Let_def mirrors_primary_runtime_def)
  from aggregate_single [OF this(2,1)] show ?thesis
    using assms by (simp add: scoped_parent_def Let_def runtime_from_deployment_def)
qed

text \<open>C36: A scoped save is read back, and only by its own product: after a successful save through a product
  scope, loading that scope shows exactly the saved runtime fields, cash and status under the next
  revision, and the stored runtime row of every other product and deployment is untouched.\<close>

theorem scoped_save_reads_back:
  assumes "scoped_save_deployment p d expected None st = (Inr saved, st')" "store_ok st" "runtimes_ok st"
  shows "\<exists>s'. scoped_get_deployment p (d_id d) st' = Inr s'
     \<and> runtime_from_deployment (s_deployment s') p = runtime_from_deployment d p
     \<and> d_cash (s_deployment s') = d_cash d \<and> d_status (s_deployment s') = d_status d
     \<and> d_revision (s_deployment s') = or_else expected (d_revision d) + 1
     \<and> (\<forall>key. key \<noteq> (d_id d, p) \<longrightarrow> map_of (es_runtimes st') key = map_of (es_runtimes st) key)
     \<and> (\<forall>i. i \<noteq> d_id d \<longrightarrow> map_of (es_deployments st') i = map_of (es_deployments st) i)"
proof -
  obtain current where cur: "get_deployment (d_id d) st = Inr current"
    using assms(1) by (auto simp: scoped_save_deployment_def get_accounting_snapshot_def split: sum.splits)
  note C = get_deployment_SomeD(1,2) [OF assms(2) cur]
  let ?row = "runtime_from_deployment d p" and ?rev = "or_else expected (d_revision d)"
  let ?saved = "(scoped_parent current p d)\<lparr>d_revision := ?rev + 1\<rparr>"
  have deps: "es_deployments st' = AList.update (d_id d) ?saved (es_deployments st)"
    and rows: "es_runtimes st' = AList.update (d_id d, p) ?row (es_runtimes st)"
    using assms(1) C cur
    by (auto simp: scoped_save_deployment_def get_accounting_snapshot_def save_deployment_def Let_def put_deployment_def
        split: if_splits sum.splits)
  obtain s1 where s1: "get_deployment (d_id d) st' = Inr s1" "s_deployment s1 = ?saved"
      "s_instrument_runtimes s1 = runtimes_of (d_id d) st'"
    by (auto simp: get_deployment_def Let_def deps update_conv')
  have rows1: "s_instrument_runtimes s1 = upsert_by (\<lambda>r. r_product_id r = p) ?row (runtimes_of (d_id d) st)"
    using runtime_rows_update [of "es_runtimes st" ?row p "d_id d"] assms(3) s1(3) rows by (simp add: runtimes_ok_def)
  have curr: "s_instrument_runtimes current = runtimes_of (d_id d) st"
    using cur by (auto simp: get_deployment_def Let_def split: option.splits)
  have "runtime_for s1 p = ?row"
  proof (cases "p = d_product_id (s_deployment s1) \<and> mirrors_primary_runtime (s_deployment s1) (s_instrument_runtimes s1)")
    case True
    then have p: "p = d_product_id (s_deployment current)" by (simp add: s1(2))
    have all: "\<forall>r \<in> set (s_instrument_runtimes s1). r_product_id r = p"
      using True unfolding mirrors_primary_runtime_def by metis
    have "r_product_id r = p" if "r \<in> set (s_instrument_runtimes current)" for r
    proof (rule ccontr)
      assume "r_product_id r \<noteq> p"
      with that have "r \<in> set (s_instrument_runtimes s1)" unfolding rows1 curr by (intro upsert_by_other) simp_all
      with all \<open>r_product_id r \<noteq> p\<close> show False by blast
    qed
    then have "mirrors_primary_runtime (s_deployment current) (s_instrument_runtimes current)"
      unfolding mirrors_primary_runtime_def p [symmetric] by blast
    note owned = scoped_parent_owned [OF p this]
    have "runtime_for s1 p = runtime_from_deployment (s_deployment s1) p" by (simp only: runtime_for_def if_P [OF True])
    then show ?thesis unfolding s1(2) owned .
  next
    case False
    then show ?thesis by (auto simp: runtime_for_def rows1 find_upsert)
  qed
  then show ?thesis
    using s1 by (auto simp: scoped_get_deployment_def deps rows update_conv')
qed

lemma runtimes_ok_put:
  assumes "runtimes_ok st" "es_runtimes st' = AList.update (dep, r_product_id row) row (es_runtimes st)"
  shows "runtimes_ok st'"
proof -
  have sub: "set (AList.update k v rows) \<subseteq> insert (k, v) (set rows)"
    for k and v :: instrument_runtime and rows :: "((uuid \<times> string) \<times> instrument_runtime) list"
    by (induction rows) auto
  have "r_product_id r = p" if "((i, p), r) \<in> set (es_runtimes st')" for i p r
  proof -
    have "((i, p), r) = ((dep, r_product_id row), row) \<or> ((i, p), r) \<in> set (es_runtimes st)"
      using that sub unfolding assms(2) by blast
    then show ?thesis using assms(1) by (auto simp: runtimes_ok_def)
  qed
  moreover have "distinct (map fst (es_runtimes st'))"
    using assms by (simp add: runtimes_ok_def distinct_update)
  ultimately show ?thesis by (auto simp: runtimes_ok_def)
qed

lemma runtimes_ok_same: "es_runtimes st' = es_runtimes st \<Longrightarrow> runtimes_ok st \<Longrightarrow> runtimes_ok st'"
  by (simp add: runtimes_ok_def)

lemma runtimes_ok_foldl:
  "runtimes_ok st \<Longrightarrow> es_runtimes st' = foldl (\<lambda>m row. AList.update (dep, r_product_id row) row m) (es_runtimes st) rows \<Longrightarrow> runtimes_ok st'"
proof (induction rows arbitrary: st)
  case (Cons row rows)
  show ?case
    by (rule Cons.IH [of "st\<lparr>es_runtimes := AList.update (dep, r_product_id row) row (es_runtimes st)\<rparr>"])
      (use Cons.prems in \<open>auto intro: runtimes_ok_put\<close>)
qed (simp add: runtimes_ok_def)

lemma save_deployment_runtimes:
  assumes "runtimes_ok st"
  shows "runtimes_ok (snd (save_deployment d expected row st))"
proof -
  let ?st' = "snd (save_deployment d expected row st)"
  have "es_runtimes ?st' = es_runtimes st \<or> (\<exists>dep row. es_runtimes ?st' = AList.update (dep, r_product_id row) row (es_runtimes st))"
    by (auto simp: save_deployment_def Let_def put_deployment_def split: option.split)
      (metis runtime_from_product)+
  then show ?thesis using runtimes_ok_same [of ?st' st] runtimes_ok_put [OF assms, of ?st'] assms by blast
qed

lemma apply_fill_runtimes:
  assumes "runtimes_ok st"
  shows "runtimes_ok (snd (apply_fill_transaction dep cooldown_bars timeframe ck fl ord st))"
proof -
  let ?st' = "snd (apply_fill_transaction dep cooldown_bars timeframe ck fl ord st)"
  have "es_runtimes (commit_fill dep s projected fl stamped ord st1)
      = foldl (\<lambda>m row. AList.update (dep, r_product_id row) row m) (es_runtimes st1) (s_instrument_runtimes projected)"
    for s projected stamped st1
    by (simp add: commit_fill_def Let_def put_order_def put_deployment_def split: option.split)
  then have "\<exists>rows. es_runtimes ?st' = foldl (\<lambda>m row. AList.update (dep, r_product_id row) row m) (es_runtimes st) rows"
    by (auto simp: apply_fill_transaction_def Let_def split: sum.split option.split prod.split intro: exI [of _ "[]"])
  then show ?thesis using runtimes_ok_foldl [OF assms] by blast
qed

text \<open>Every reachable store keeps its runtime rows under their own product.\<close>

lemma reachable_runtimes_ok:
  assumes "reachable_store st"
  shows "runtimes_ok st"
  using assms
proof induction
  case (8 st fence intent)
  obtain r st' where run: "save_intent fence intent st = (r, st')" by fastforce
  have "es_runtimes st' = es_runtimes st"
    using save_intent_result [OF run] insert_intent_result [of fence intent st r st'] by (elim disjE) auto
  then show ?case using run 8 by (auto intro: runtimes_ok_same)
next
  case (14 st runtime dep)
  then show ?case by (auto simp: save_instrument_runtime_def intro: runtimes_ok_put)
next
  case (5 st d expected row)
  then show ?case by (simp add: save_deployment_runtimes)
next
  case (12 st fl dep cooldown_bars timeframe ck ord)
  then show ?case by (simp add: apply_fill_runtimes)
qed (auto simp: new_execution_store_def bind_entry_gate_def create_deployment_def
    apply_funding_transaction_def save_breaker_pause_def acquire_worker_lease_def restore_order_def save_order_def
    save_fill_def save_position_def put_order_def put_deployment_def runtimes_ok_def Let_def
    split: option.split sum.split)

section \<open>Worked instances\<close>

text \<open>A store with the book waiting for an entry, its order and a sibling position; a recorded but unapplied
  fill; and a bound latch.\<close>

definition ex_store :: execution_store where
  "ex_store = new_execution_store
     \<lparr>es_deployments := [(1, s_deployment ex_pending)], es_orders := [(11, ex_order)],
      es_positions := [((1, ''ETH-USD''), ex_sibling)]\<rparr>"

definition ex_recorded :: execution_store where
  "ex_recorded = snd (save_fill ex_fill ex_store)"

lemma ex_store_ok: "store_ok ex_store" "store_ok ex_recorded"
proof -
  show ok: "store_ok ex_store"
    by (simp add: store_ok_def fills_ok_def orders_ok_def intents_ok_def ex_store_def new_execution_store_def
        keyed_def map_filter_simps ex_order_def ex_pending_def ex_snapshot_def ex_deployment_def)
  show "store_ok ex_recorded" unfolding ex_recorded_def by (rule save_fill_ok [OF ok])
qed

lemma fst_snd_run:
  assumes "\<not> isl (fst run)"
  obtains x st' where "run = (Inr x, st')"
  using assms by (cases run; cases "fst run") auto

theorem fill_applied_exactly_once_witness:
  "\<exists>s' st'. apply_fill_transaction 1 2 None ex_clock ex_fill ex_order ex_store = (Inr (True, s'), st')
     \<and> apply_fill_transaction 1 0 None ex_clock (ex_fill\<lparr>f_id := 99, f_price := 7\<rparr>) ex_order st' = (Inr (False, s'), st')"
proof -
  let ?run = "apply_fill_transaction 1 2 None ex_clock ex_fill ex_order"
  have ok: "\<not> isl (fst (?run ex_store))" "map_sum id fst (fst (?run ex_store)) = Inr True" by code_simp+
  from ok(1) obtain x st' where "?run ex_store = (Inr x, st')" by (rule fst_snd_run)
  with ok(2) obtain s' where run: "?run ex_store = (Inr (True, s'), st')" by (cases x) auto
  have "f_deployment_id ex_fill = 1" by (simp add: ex_fill_def)
  from fill_applied_exactly_once [OF run ex_store_ok(1) this, of "ex_fill\<lparr>f_id := 99, f_price := 7\<rparr>" 0 None ex_clock ex_order]
  show ?thesis using run by (auto simp: fill_key_def)
qed


theorem scoped_replay_settles_pending_fills_witness:
  "\<exists>s s' st'. scoped_get_deployment ''BTC-USD'' 1 ex_recorded = Inr s
     \<and> replay_unapplied_fills (scoped_apply_fill_transaction ''BTC-USD'' 1) s 2 None (\<lambda>_. ex_clock) ex_recorded = (Inr s', st')
     \<and> store_ok st'"
proof -
  have "\<not> isl (scoped_get_deployment ''BTC-USD'' 1 ex_recorded)" by code_simp
  then obtain s where s: "scoped_get_deployment ''BTC-USD'' 1 ex_recorded = Inr s" by (rule not_isl_Inr)
  let ?run = "replay_unapplied_fills (scoped_apply_fill_transaction ''BTC-USD'' 1) s 2 None (\<lambda>_. ex_clock)"
  have "\<not> isl (rbind (scoped_get_deployment ''BTC-USD'' 1 ex_recorded)
      (\<lambda>s. fst (replay_unapplied_fills (scoped_apply_fill_transaction ''BTC-USD'' 1) s 2 None (\<lambda>_. ex_clock) ex_recorded)))"
    by code_simp
  then have "\<not> isl (fst (?run ex_recorded))" unfolding s rbind_Inr .
  then obtain s' st' where run: "?run ex_recorded = (Inr s', st')" by (rule fst_snd_run)
  with scoped_replay_settles_pending_fills [OF run ex_store_ok(2) s] s show ?thesis by auto
qed


theorem save_deployment_fenced_witness:
  "save_deployment (s_deployment ex_pending) (Some 7) None ex_store = (Inl revision_conflict, ex_store)"
proof -
  have "map_of (es_deployments ex_store) (d_id (s_deployment ex_pending)) = Some (s_deployment ex_pending)"
    "d_revision (s_deployment ex_pending) \<noteq> 7"
    by (simp_all add: ex_store_def ex_pending_def ex_snapshot_def ex_deployment_def)
  with save_deployment_fenced [OF this(1), of "Some 7" None] show ?thesis by simp
qed

theorem lease_excludes_others_witness:
  "\<exists>d st'. acquire_worker_lease 1 ''a'' 100 50 ex_store = (Inr (Some d), st')
     \<and> acquire_worker_lease 1 ''b'' 120 50 st' = (Inr None, st')"
proof -
  have "map_of (es_deployments ex_store) 1 = Some (s_deployment ex_pending)"
    "d_worker_lease_holder (s_deployment ex_pending) = None"
    by (simp_all add: ex_store_def ex_pending_def ex_snapshot_def ex_deployment_def)
  then obtain d st' where run: "acquire_worker_lease 1 ''a'' 100 50 ex_store = (Inr (Some d), st')"
    by (simp add: acquire_worker_lease_def Let_def)
  from lease_excludes_others [OF run, of "''b''" 120 50] run show ?thesis by auto
qed

definition disarmed :: fleet_latch where
  "disarmed = set_latch True 5 [PAPER] new_fleet_latch"

theorem disarm_blocks_entries_only_witness:
  "isl (fst (save_intent None ex_intent (bind_entry_gate disarmed ex_store)))"
proof -
  have "es_gate (bind_entry_gate disarmed ex_store) = Some disarmed"
    "map_of (es_deployments (bind_entry_gate disarmed ex_store)) (i_deployment_id ex_intent) = Some (s_deployment ex_pending)"
    "fl_inhibited disarmed (d_mode (s_deployment ex_pending))" "i_purpose ex_intent = ENTRY"
    by (simp_all add: bind_entry_gate_def ex_store_def ex_intent_def ex_pending_def ex_snapshot_def ex_deployment_def
        disarmed_def new_fleet_latch_def)
  with disarm_blocks_entries_only [OF this(1-3)] show ?thesis by blast
qed

definition ex_flow :: funding_cash_flow where
  "ex_flow = \<lparr>c_deployment_id = 1, c_product_id = ''BTC-USD'', c_funding_time = 3600, c_signed_quantity = 1,
     c_mark_price = 100, c_rate = 1 / 1000, c_amount = - 1 / 10, c_applied_at = 4000\<rparr>"

theorem funding_replay_charges_once_witness:
  "\<exists>s' st'. apply_funding_transaction 1 [ex_flow] None ex_store = (Inr (1, s'), st')
     \<and> apply_funding_transaction 1 [ex_flow] None st' = (Inr (0, s'), st')"
proof -
  have ok: "\<not> isl (fst (apply_funding_transaction 1 [ex_flow] None ex_store))"
    "map_sum id fst (fst (apply_funding_transaction 1 [ex_flow] None ex_store)) = Inr 1" by code_simp+
  from ok(1) obtain x st' where "apply_funding_transaction 1 [ex_flow] None ex_store = (Inr x, st')" by (rule fst_snd_run)
  with ok(2) obtain s' where run: "apply_funding_transaction 1 [ex_flow] None ex_store = (Inr (1, s'), st')" by (cases x) auto
  with funding_replay_charges_once [OF run] show ?thesis by blast
qed

text \<open>Inside one call the hours are not deduplicated: the same funding hour given twice is recorded once but
  charged twice.\<close>

theorem funding_batch_charges_twice:
  "map_sum id (\<lambda>(n, s). (n, length (s_funding s), d_cash (s_deployment s) - d_cash (s_deployment ex_pending)))
     (fst (apply_funding_transaction 1 [ex_flow, ex_flow] None ex_store)) = Inr (2, 1, 2 * c_amount ex_flow)"
  by code_simp

theorem scoped_save_reads_back_witness:
  "\<exists>saved st' s'. scoped_save_deployment ''BTC-USD'' (s_deployment ex_pending) None None ex_store = (Inr saved, st')
     \<and> scoped_get_deployment ''BTC-USD'' 1 st' = Inr s'
     \<and> d_pending_stop_price (s_deployment s') = Some 97"
proof -
  let ?run = "scoped_save_deployment ''BTC-USD'' (s_deployment ex_pending) None None"
  have "\<not> isl (fst (?run ex_store))" by code_simp
  then obtain saved st' where run: "?run ex_store = (Inr saved, st')" by (rule fst_snd_run)
  have ok: "runtimes_ok ex_store" by (simp add: runtimes_ok_def ex_store_def new_execution_store_def)
  have id: "d_id (s_deployment ex_pending) = 1" by (simp add: ex_pending_def ex_snapshot_def ex_deployment_def)
  from scoped_save_reads_back [OF run ex_store_ok(1) ok, unfolded id] obtain s' where
    s': "scoped_get_deployment ''BTC-USD'' 1 st' = Inr s'"
    "runtime_from_deployment (s_deployment s') ''BTC-USD'' = runtime_from_deployment (s_deployment ex_pending) ''BTC-USD''"
    by blast
  then have "d_pending_stop_price (s_deployment s') = d_pending_stop_price (s_deployment ex_pending)"
    by (simp add: runtime_from_deployment_def)
  with run s'(1) show ?thesis by (simp add: ex_pending_def)
qed

end
