(* ===== verification/Inventory_Claims.thy ===== *)
theory Inventory_Claims
  imports Execution_Store
begin

text \<open>
  The claims live books have on one venue base currency, and the quantity a live book may adopt
  (\<open>trading/inventory_claims.py\<close>, with \<open>ExchangeBalance\<close> of
  \<open>exchanges/models.py\<close>).

  Every amount is a default-context decimal and every sum is folded in the order of the code, so a sum
  may round. \<open>exact_claims\<close> is the specification: the rational sum of what each live book owns
  or will own of the base, written pointwise over the rows and without the set of products the code
  collects first. \<open>tracks\<close> relates the two: on a grid of \<open>k\<close> places a rounded sum is
  the exact one as long as it fits the context, and stays at least as large as the context's bound once
  it does not, so that too large a claim can never be read as a small one.
\<close>

section \<open>Balances and claims\<close>

record exchange_balance =
  eb_currency :: string
  eb_name :: string
  eb_available :: decimal
  eb_hold :: decimal

definition eb_total :: "exchange_balance \<Rightarrow> decimal" where
  "eb_total row = dadd (eb_available row) (eb_hold row)"

datatype base_unresolved_reason =
    UNKNOWN_ORDER | FILL_ECONOMICS_UNSETTLED | ACCOUNTING_UNRESOLVED | BALANCE_MISSING | DUPLICATE_BALANCE_ROWS

record base_claims =
  mc_base :: string
  mc_managed_long :: decimal
  mc_working_buys :: decimal
  mc_working_short_entry_sells :: decimal
  mc_unresolved :: "base_unresolved_reason list"

definition claimed :: "base_claims \<Rightarrow> decimal" where
  "claimed c = dadd (dadd (mc_managed_long c) (mc_working_buys c)) (mc_working_short_entry_sells c)"

record availability =
  ba_base :: string
  ba_claims :: base_claims
  ba_total :: "decimal option"
  ba_available :: "decimal option"
  ba_unmanaged :: "decimal option"
  ba_adoptable :: "decimal option"
  ba_reasons :: "base_unresolved_reason list"

text \<open>\<open>tuple(dict.fromkeys(xs))\<close>: each value once, at its first place.\<close>

definition fromkeys :: "'a list \<Rightarrow> 'a list" where
  "fromkeys xs = rev (remdups (rev xs))"

lemma set_fromkeys [simp]: "set (fromkeys xs) = set xs"
  by (simp add: fromkeys_def)

lemma fromkeys_eq_Nil [simp]: "fromkeys xs = [] \<longleftrightarrow> xs = []"
  by (simp add: fromkeys_def)

definition WORKING_STATUSES :: "order_status set" where
  "WORKING_STATUSES = {OPEN, PENDING, UNKNOWN}"

section \<open>One book's claims\<close>

text \<open>The spot products of one book whose base currency is \<open>base\<close>. The frozenset is read by
  membership and in sorted order only, so a list with repetitions stands for it.\<close>

definition base_products :: "deployment_snapshot \<Rightarrow> string \<Rightarrow> string list" where
  "base_products s base =
     (let d = s_deployment s;
          products = d_product_id d
            # map (\<lambda>row. resolved_product_id (o_product_id row) d) (s_orders s)
            @ map (\<lambda>row. resolved_product_id (i_product_id row) d) (s_intents s)
            @ map (\<lambda>row. resolved_product_id (p_product_id row) d) (snapshot_positions s)
            @ map r_product_id (s_instrument_runtimes s)
      in filter (\<lambda>product. is_spot_product_id product \<and> spot_base_currency product = Inr base) products)"

definition book_reasons :: "deployment_snapshot \<Rightarrow> string list \<Rightarrow> base_unresolved_reason list" where
  "book_reasons s products =
     (if s_accounting_complete s then [] else [ACCOUNTING_UNRESOLVED])
     @ concat (map (\<lambda>product.
         let found = book_inventory_reasons s product
         in (if ''fill_economics_unsettled'' \<in> set found then [FILL_ECONOMICS_UNSETTLED] else [])
            @ (if \<exists>reason \<in> set found. reason \<noteq> ''fill_economics_unsettled'' then [ACCOUNTING_UNRESOLVED] else []))
         (sorted_set products))
     @ (if \<exists>ord \<in> set (s_orders s). o_status ord = UNKNOWN
            \<and> resolved_product_id (o_product_id ord) (s_deployment s) \<in> set products
        then [UNKNOWN_ORDER] else [])"

definition claim :: "order_side \<Rightarrow> decimal \<Rightarrow> decimal \<times> decimal \<Rightarrow> decimal \<times> decimal" where
  "claim side amount acc =
     (if side = BUY then (dadd (fst acc) amount, snd acc) else (fst acc, dadd (snd acc) amount))"

text \<open>A missing intent counts as an entry.\<close>

definition order_purpose :: "deployment_snapshot \<Rightarrow> order \<Rightarrow> intent_purpose" where
  "order_purpose s ord =
     (case dict_by i_id (s_intents s) (o_intent_id ord) of None \<Rightarrow> ENTRY | Some intent \<Rightarrow> i_purpose intent)"

definition order_claim_step ::
    "deployment_snapshot \<Rightarrow> string list \<Rightarrow> decimal \<times> decimal \<Rightarrow> order \<Rightarrow> decimal \<times> decimal" where
  "order_claim_step s products acc ord =
     (if o_status ord \<notin> WORKING_STATUSES
         \<or> resolved_product_id (o_product_id ord) (s_deployment s) \<notin> set products
      then acc
      else
        let remaining = dsub (o_quantity ord) (o_filled_quantity ord)
        in if remaining \<le> 0 then acc
           else if order_purpose s ord \<notin> INVENTORY_OPENING_PURPOSES then acc
           else claim (o_side ord) remaining acc)"

definition unordered_openings :: "deployment_snapshot \<Rightarrow> order_intent list" where
  "unordered_openings s =
     filter (\<lambda>intent. i_purpose intent = ENTRY \<and> i_id intent \<notin> o_intent_id ` set (s_orders s)
         \<and> i_status intent \<in> WORKING_STATUSES) (s_intents s)"

definition intent_claim_step ::
    "deployment_snapshot \<Rightarrow> string list \<Rightarrow> decimal \<times> decimal \<Rightarrow> order_intent \<Rightarrow> decimal \<times> decimal" where
  "intent_claim_step s products acc intent =
     (if resolved_product_id (i_product_id intent) (s_deployment s) \<notin> set products then acc
      else claim (i_side intent) (i_quantity intent) acc)"

definition working_claims :: "deployment_snapshot \<Rightarrow> string list \<Rightarrow> decimal \<times> decimal" where
  "working_claims s products =
     foldl (intent_claim_step s products)
       (foldl (order_claim_step s products) (0, 0) (s_orders s)) (unordered_openings s)"

definition book_long :: "deployment_snapshot \<Rightarrow> string list \<Rightarrow> decimal" where
  "book_long s products =
     dsum (map p_quantity (filter (\<lambda>pos. p_side pos = LONG
         \<and> resolved_product_id (p_product_id pos) (s_deployment s) \<in> set products) (snapshot_positions s)))"

section \<open>The claims of every live book\<close>

definition claims_step :: "string \<Rightarrow> base_claims \<Rightarrow> deployment_snapshot \<Rightarrow> base_claims" where
  "claims_step base c s =
     (if d_mode (s_deployment s) \<noteq> LIVE then c
      else
        let products = base_products s base
        in if products = [] then c
           else
             let (buys, sells) = working_claims s products
             in c\<lparr>mc_managed_long := dadd (mc_managed_long c) (book_long s products),
                  mc_working_buys := dadd (mc_working_buys c) buys,
                  mc_working_short_entry_sells := dadd (mc_working_short_entry_sells c) sells,
                  mc_unresolved := mc_unresolved c @ book_reasons s products\<rparr>)"

definition managed_base_claims :: "deployment_snapshot list \<Rightarrow> string \<Rightarrow> base_claims" where
  "managed_base_claims snapshots base =
     (let c = foldl (claims_step base)
            \<lparr>mc_base = base, mc_managed_long = 0, mc_working_buys = 0, mc_working_short_entry_sells = 0,
             mc_unresolved = []\<rparr> snapshots
      in c\<lparr>mc_unresolved := fromkeys (mc_unresolved c)\<rparr>)"

definition base_availability ::
    "exchange_balance list \<Rightarrow> base_claims \<Rightarrow> decimal option \<Rightarrow> availability" where
  "base_availability balances c base_increment =
     (let rows = filter (\<lambda>row. eb_currency row = mc_base c) balances;
          reasons = mc_unresolved c
            @ (if rows = [] then [BALANCE_MISSING]
               else if length rows > 1 then [DUPLICATE_BALANCE_ROWS] else []);
          row = (if length rows = 1 then Some (hd rows) else None)
      in case row of
           Some r \<Rightarrow>
             if reasons \<noteq> []
             then \<lparr>ba_base = mc_base c, ba_claims = c, ba_total = Some (eb_total r),
                   ba_available = Some (eb_available r), ba_unmanaged = None, ba_adoptable = None,
                   ba_reasons = fromkeys reasons\<rparr>
             else
               let unmanaged = dsub (eb_total r) (claimed c);
                   adoptable0 = max 0 (min (eb_available r) unmanaged);
                   adoptable = (case base_increment of
                       Some inc \<Rightarrow> if inc > 0
                         then dmul (to_integral_value ROUND_DOWN (ddiv adoptable0 inc)) inc else adoptable0
                     | None \<Rightarrow> adoptable0)
               in \<lparr>ba_base = mc_base c, ba_claims = c, ba_total = Some (eb_total r),
                   ba_available = Some (eb_available r), ba_unmanaged = Some unmanaged,
                   ba_adoptable = Some adoptable, ba_reasons = []\<rparr>
         | None \<Rightarrow>
             \<lparr>ba_base = mc_base c, ba_claims = c, ba_total = None, ba_available = None, ba_unmanaged = None,
              ba_adoptable = None, ba_reasons = fromkeys reasons\<rparr>)"

definition unmanaged_available_base ::
    "exchange_balance list \<Rightarrow> deployment_snapshot list \<Rightarrow> string \<Rightarrow> decimal option" where
  "unmanaged_available_base balances snapshots base =
     ba_adoptable (base_availability balances (managed_base_claims snapshots base) None)"

section \<open>What a base's books own, exactly\<close>

definition names_base :: "string \<Rightarrow> deployment \<Rightarrow> string \<Rightarrow> bool" where
  "names_base base d product_id \<longleftrightarrow>
     is_spot_product_id (resolved_product_id product_id d)
     \<and> spot_base_currency (resolved_product_id product_id d) = Inr base"

definition position_claim :: "string \<Rightarrow> deployment \<Rightarrow> position \<Rightarrow> rat" where
  "position_claim base d pos =
     (if p_side pos = LONG \<and> names_base base d (p_product_id pos) then p_quantity pos else 0)"

definition order_claim :: "string \<Rightarrow> deployment_snapshot \<Rightarrow> order \<Rightarrow> rat" where
  "order_claim base s ord =
     (if o_status ord \<in> WORKING_STATUSES \<and> names_base base (s_deployment s) (o_product_id ord)
         \<and> order_purpose s ord \<in> INVENTORY_OPENING_PURPOSES
      then max 0 (o_quantity ord - o_filled_quantity ord) else 0)"

definition intent_claim :: "string \<Rightarrow> deployment_snapshot \<Rightarrow> order_intent \<Rightarrow> rat" where
  "intent_claim base s intent =
     (if i_purpose intent = ENTRY \<and> i_id intent \<notin> o_intent_id ` set (s_orders s)
         \<and> i_status intent \<in> WORKING_STATUSES \<and> names_base base (s_deployment s) (i_product_id intent)
      then i_quantity intent else 0)"

definition book_claims :: "string \<Rightarrow> deployment_snapshot \<Rightarrow> rat" where
  "book_claims base s =
     (if d_mode (s_deployment s) \<noteq> LIVE then 0
      else (\<Sum>pos \<leftarrow> snapshot_positions s. position_claim base (s_deployment s) pos)
         + (\<Sum>ord \<leftarrow> s_orders s. order_claim base s ord)
         + (\<Sum>intent \<leftarrow> s_intents s. intent_claim base s intent))"

definition exact_claims :: "string \<Rightarrow> deployment_snapshot list \<Rightarrow> rat" where
  "exact_claims base snapshots = (\<Sum>s \<leftarrow> snapshots. book_claims base s)"

section \<open>Rounded sums on a grid\<close>

definition cap :: "nat \<Rightarrow> rat" where
  "cap k = 10 ^ 28 / 10 ^ k"

definition tracks :: "nat \<Rightarrow> rat \<Rightarrow> rat \<Rightarrow> bool" where
  "tracks k x S \<longleftrightarrow> on_grid k S \<and> 0 \<le> S \<and> 0 \<le> x \<and> (if S \<le> cap k then x = S else cap k \<le> x)"

lemma cap_pos [simp]: "0 < cap k" "0 \<le> cap k"
  by (simp_all add: cap_def)

lemma grid_exact:
  assumes "on_grid k S" "\<bar>S\<bar> \<le> cap k"
  shows "fixp 28 S = S"
proof -
  from assms(1) obtain c where c: "S * 10 ^ k = of_int c" by (rule on_gridE)
  have "of_int \<bar>c\<bar> = \<bar>S\<bar> * 10 ^ k" by (simp add: c [symmetric] abs_mult)
  also have "\<dots> \<le> of_int (10 ^ 28)" using assms(2) by (simp add: cap_def field_simps)
  finally have "\<bar>c\<bar> \<le> 10 ^ 28" by (simp only: of_int_le_iff)
  moreover have "S = of_int c * 10 powi (- int k)" using c by (simp add: power_int_minus field_simps)
  ultimately show ?thesis using fixp_exact [of S c "- int k" 28] by simp
qed

lemma on_grid_cap: "on_grid k (cap k)"
  by (rule on_gridI [of _ _ "10 ^ 28"]) (simp add: cap_def)

lemma tracks_self: "on_grid k S \<Longrightarrow> 0 \<le> S \<Longrightarrow> tracks k S S"
  by (simp add: tracks_def)

lemma tracks_round: "tracks k x S \<Longrightarrow> tracks k (fixp 28 x) S"
  using grid_exact [of k S] d28.rnd_lower [of "cap k" x] grid_exact [OF on_grid_cap, of k]
  by (auto simp: tracks_def split: if_splits)

lemma tracks_plus: "tracks k x S \<Longrightarrow> tracks k y T \<Longrightarrow> tracks k (x + y) (S + T)"
  by (auto simp: tracks_def on_grid_add split: if_splits)

lemma tracks_dadd: "tracks k x S \<Longrightarrow> tracks k y T \<Longrightarrow> tracks k (dadd x y) (S + T)"
  unfolding ctx_add_def by (intro tracks_round tracks_plus)

lemma tracks_zero [simp]: "tracks k 0 0"
  by (simp add: tracks_def)

lemma tracks_exact: "tracks k x S \<Longrightarrow> x < cap k \<Longrightarrow> x = S"
  by (auto simp: tracks_def split: if_splits)

lemma tracks_dsum:
  "(\<And>x. x \<in> set xs \<Longrightarrow> on_grid k (f x) \<and> 0 \<le> f x) \<Longrightarrow> tracks k (dsum (map f xs)) (\<Sum>x \<leftarrow> xs. f x)"
proof (induction xs rule: rev_induct)
  case (snoc x xs)
  then show ?case using tracks_dadd [OF snoc.IH tracks_self [of k "f x"]] by simp
qed simp

text \<open>Both loops of \<open>_working_claims\<close> have this shape: a row either leaves the two sums or adds
  its amount to one of them.\<close>

lemma fold_claims:
  assumes "\<And>x acc. x \<in> set xs \<Longrightarrow> step acc x = (if P x then claim (side x) (amt x) acc else acc)"
    and "\<And>x. x \<in> set xs \<Longrightarrow> P x \<Longrightarrow> tracks k (amt x) (e x)"
    and "\<And>x. x \<in> set xs \<Longrightarrow> \<not> P x \<Longrightarrow> e x = 0"
    and "tracks k (fst acc) B" "tracks k (snd acc) S"
  shows "\<exists>B' S'. tracks k (fst (foldl step acc xs)) B' \<and> tracks k (snd (foldl step acc xs)) S'
      \<and> B' + S' = B + S + (\<Sum>x \<leftarrow> xs. e x)"
  using assms
proof (induction xs arbitrary: acc B S)
  case (Cons x xs)
  have step: "step acc x = (if P x then claim (side x) (amt x) acc else acc)" using Cons.prems(1) by simp
  obtain B1 S1 where one: "tracks k (fst (step acc x)) B1" "tracks k (snd (step acc x)) S1" "B1 + S1 = B + S + e x"
  proof (cases "P x")
    case True
    note t = Cons.prems(2) [of x, OF _ True, simplified]
    show ?thesis
      using that [of "B + (if side x = BUY then e x else 0)" "S + (if side x = BUY then 0 else e x)"]
        tracks_dadd [OF Cons.prems(4) t] tracks_dadd [OF Cons.prems(5) t] Cons.prems(4,5) True
      by (simp add: step claim_def split: if_splits)
  next
    case False
    then show ?thesis using that [of B S] Cons.prems(3) [of x] Cons.prems(4,5) by (simp add: step)
  qed
  have "\<exists>B' S'. tracks k (fst (foldl step (step acc x) xs)) B' \<and> tracks k (snd (foldl step (step acc x) xs)) S'
      \<and> B' + S' = B1 + S1 + (\<Sum>x \<leftarrow> xs. e x)"
    by (rule Cons.IH) (use Cons.prems one in auto)
  then show ?case using one(3) by (simp add: add.assoc)
qed auto

section \<open>The code's claims are the exact ones\<close>

text \<open>The rows of a book have quantities on a grid of \<open>k\<close> places, none of them negative.\<close>

definition grid_book :: "nat \<Rightarrow> deployment_snapshot \<Rightarrow> bool" where
  "grid_book k s \<longleftrightarrow>
     list_all (\<lambda>pos. on_grid k (p_quantity pos) \<and> 0 \<le> p_quantity pos) (snapshot_positions s)
     \<and> list_all (\<lambda>ord. on_grid k (o_quantity ord) \<and> on_grid k (o_filled_quantity ord)) (s_orders s)
     \<and> list_all (\<lambda>intent. on_grid k (i_quantity intent) \<and> 0 \<le> i_quantity intent) (s_intents s)"

lemma base_products_mem:
  "ord \<in> set (s_orders s) \<Longrightarrow> resolved_product_id (o_product_id ord) (s_deployment s) \<in> set (base_products s base)
     \<longleftrightarrow> names_base base (s_deployment s) (o_product_id ord)"
  "intent \<in> set (s_intents s) \<Longrightarrow> resolved_product_id (i_product_id intent) (s_deployment s) \<in> set (base_products s base)
     \<longleftrightarrow> names_base base (s_deployment s) (i_product_id intent)"
  "pos \<in> set (snapshot_positions s) \<Longrightarrow> resolved_product_id (p_product_id pos) (s_deployment s) \<in> set (base_products s base)
     \<longleftrightarrow> names_base base (s_deployment s) (p_product_id pos)"
  by (auto simp: base_products_def names_base_def Let_def)

lemma sum_list_filter: "(\<Sum>x \<leftarrow> filter P xs. f x) = (\<Sum>x \<leftarrow> xs. if P x then f x else (0::rat))"
  by (induction xs) auto

lemma sum_list_cong: "(\<And>x. x \<in> set xs \<Longrightarrow> f x = g x) \<Longrightarrow> (\<Sum>x \<leftarrow> xs. f x) = (\<Sum>x \<leftarrow> xs. g x :: rat)"
  by (induction xs) auto

lemma book_long_tracks:
  assumes "grid_book k s"
  shows "tracks k (book_long s (base_products s base)) (\<Sum>pos \<leftarrow> snapshot_positions s. position_claim base (s_deployment s) pos)"
proof -
  let ?P = "\<lambda>pos. p_side pos = LONG
      \<and> resolved_product_id (p_product_id pos) (s_deployment s) \<in> set (base_products s base)"
  have "tracks k (book_long s (base_products s base)) (\<Sum>pos \<leftarrow> filter ?P (snapshot_positions s). p_quantity pos)"
    unfolding book_long_def using assms by (intro tracks_dsum) (auto simp: grid_book_def list_all_iff)
  moreover have "(\<Sum>pos \<leftarrow> filter ?P (snapshot_positions s). p_quantity pos)
      = (\<Sum>pos \<leftarrow> snapshot_positions s. position_claim base (s_deployment s) pos)"
    unfolding sum_list_filter by (rule sum_list_cong) (simp add: position_claim_def base_products_mem(3))
  ultimately show ?thesis by simp
qed

lemma working_claims_track:
  assumes "grid_book k s"
  shows "\<exists>B S. tracks k (fst (working_claims s (base_products s base))) B
      \<and> tracks k (snd (working_claims s (base_products s base))) S
      \<and> B + S = (\<Sum>ord \<leftarrow> s_orders s. order_claim base s ord) + (\<Sum>intent \<leftarrow> s_intents s. intent_claim base s intent)"
proof -
  let ?ps = "base_products s base" and ?d = "s_deployment s"
  let ?acc = "foldl (order_claim_step s ?ps) (0, 0) (s_orders s)"
  have "\<exists>B S. tracks k (fst ?acc) B \<and> tracks k (snd ?acc) S
      \<and> B + S = 0 + 0 + (\<Sum>ord \<leftarrow> s_orders s. order_claim base s ord)"
  proof (rule fold_claims [where side = o_side and amt = "\<lambda>ord. dsub (o_quantity ord) (o_filled_quantity ord)"
        and P = "\<lambda>ord. o_status ord \<in> WORKING_STATUSES \<and> names_base base ?d (o_product_id ord)
          \<and> o_filled_quantity ord < o_quantity ord \<and> order_purpose s ord \<in> INVENTORY_OPENING_PURPOSES"])
    fix ord acc assume "ord \<in> set (s_orders s)"
    then show "order_claim_step s ?ps acc ord =
        (if o_status ord \<in> WORKING_STATUSES \<and> names_base base ?d (o_product_id ord)
            \<and> o_filled_quantity ord < o_quantity ord \<and> order_purpose s ord \<in> INVENTORY_OPENING_PURPOSES
         then claim (o_side ord) (dsub (o_quantity ord) (o_filled_quantity ord)) acc else acc)"
      by (auto simp: order_claim_step_def base_products_mem(1) Let_def ctx_sub_def)
  next
    fix ord assume "ord \<in> set (s_orders s)" and p: "o_status ord \<in> WORKING_STATUSES
        \<and> names_base base ?d (o_product_id ord) \<and> o_filled_quantity ord < o_quantity ord
        \<and> order_purpose s ord \<in> INVENTORY_OPENING_PURPOSES"
    with assms have "on_grid k (o_quantity ord - o_filled_quantity ord)"
      by (auto simp: grid_book_def list_all_iff intro: on_grid_diff)
    then show "tracks k (dsub (o_quantity ord) (o_filled_quantity ord)) (order_claim base s ord)"
      unfolding ctx_sub_def using p by (intro tracks_round) (simp add: order_claim_def tracks_self)
  qed (auto simp: order_claim_def)
  then obtain B S where o: "tracks k (fst ?acc) B" "tracks k (snd ?acc) S"
      "B + S = (\<Sum>ord \<leftarrow> s_orders s. order_claim base s ord)" by auto
  have "\<exists>B' S'. tracks k (fst (working_claims s ?ps)) B' \<and> tracks k (snd (working_claims s ?ps)) S'
      \<and> B' + S' = B + S + (\<Sum>intent \<leftarrow> unordered_openings s. intent_claim base s intent)"
    unfolding working_claims_def
  proof (rule fold_claims [where side = i_side and amt = i_quantity
        and P = "\<lambda>intent. names_base base ?d (i_product_id intent)"])
    fix intent assume "intent \<in> set (unordered_openings s)" "names_base base ?d (i_product_id intent)"
    with assms show "tracks k (i_quantity intent) (intent_claim base s intent)"
      by (auto simp: unordered_openings_def intent_claim_def grid_book_def list_all_iff intro: tracks_self)
  qed (auto simp: intent_claim_step_def unordered_openings_def base_products_mem(2) intent_claim_def o)
  moreover have "(\<Sum>intent \<leftarrow> unordered_openings s. intent_claim base s intent)
      = (\<Sum>intent \<leftarrow> s_intents s. intent_claim base s intent)"
    unfolding unordered_openings_def sum_list_filter by (rule sum_list_cong) (auto simp: intent_claim_def)
  ultimately show ?thesis using o(3) by auto
qed

lemma sum_list_zero: "(\<And>x. x \<in> set xs \<Longrightarrow> f x = 0) \<Longrightarrow> (\<Sum>x \<leftarrow> xs. f x) = (0::rat)"
  by (induction xs) auto

lemma unnamed_base_unclaimed:
  assumes "base_products s base = []"
  shows "book_claims base s = 0"
proof -
  have "(\<Sum>pos \<leftarrow> snapshot_positions s. position_claim base (s_deployment s) pos) = 0"
    "(\<Sum>ord \<leftarrow> s_orders s. order_claim base s ord) = 0" "(\<Sum>intent \<leftarrow> s_intents s. intent_claim base s intent) = 0"
    using base_products_mem [of _ s base] assms
    by (auto simp: position_claim_def order_claim_def intent_claim_def intro!: sum_list_zero)
  then show ?thesis unfolding book_claims_def by simp
qed

text \<open>The three sums of a fold, seen as one exact amount.\<close>

definition claims_track :: "nat \<Rightarrow> base_claims \<Rightarrow> rat \<Rightarrow> bool" where
  "claims_track k c S \<longleftrightarrow>
     (\<exists>L B T. tracks k (mc_managed_long c) L \<and> tracks k (mc_working_buys c) B
        \<and> tracks k (mc_working_short_entry_sells c) T \<and> L + B + T = S)"

lemma claims_step_track:
  assumes "claims_track k c S" "grid_book k s"
  shows "claims_track k (claims_step base c s) (S + book_claims base s)"
proof (cases "d_mode (s_deployment s) = LIVE \<and> base_products s base \<noteq> []")
  case True
  let ?w = "working_claims s (base_products s base)"
  obtain B T where w: "tracks k (fst ?w) B" "tracks k (snd ?w) T"
      "B + T = (\<Sum>ord \<leftarrow> s_orders s. order_claim base s ord) + (\<Sum>intent \<leftarrow> s_intents s. intent_claim base s intent)"
    using working_claims_track [OF assms(2)] by blast
  obtain L' B' T' where c: "tracks k (mc_managed_long c) L'" "tracks k (mc_working_buys c) B'"
      "tracks k (mc_working_short_entry_sells c) T'" "L' + B' + T' = S"
    using assms(1) unfolding claims_track_def by blast
  let ?L = "\<Sum>pos \<leftarrow> snapshot_positions s. position_claim base (s_deployment s) pos"
  have "claims_step base c s = c\<lparr>mc_managed_long := dadd (mc_managed_long c) (book_long s (base_products s base)),
      mc_working_buys := dadd (mc_working_buys c) (fst ?w),
      mc_working_short_entry_sells := dadd (mc_working_short_entry_sells c) (snd ?w),
      mc_unresolved := mc_unresolved c @ book_reasons s (base_products s base)\<rparr>"
    using True by (simp add: claims_step_def Let_def case_prod_unfold)
  moreover have "S + book_claims base s = (L' + ?L) + (B' + B) + (T' + T)"
    using True c(4) w(3) by (simp add: book_claims_def)
  ultimately show ?thesis
    unfolding claims_track_def
    using tracks_dadd [OF c(1) book_long_tracks [OF assms(2), of base]] tracks_dadd [OF c(2) w(1)] tracks_dadd [OF c(3) w(2)]
    by (intro exI [of _ "L' + ?L"] exI [of _ "B' + B"] exI [of _ "T' + T"]) simp
next
  case False
  then have "book_claims base s = 0"
    using unnamed_base_unclaimed [of s base] by (cases "d_mode (s_deployment s) = LIVE") (auto simp: book_claims_def)
  moreover have "claims_step base c s = c" using False by (auto simp: claims_step_def)
  ultimately show ?thesis using assms(1) by simp
qed

lemma claims_fold_track:
  "claims_track k c S \<Longrightarrow> list_all (grid_book k) snapshots
   \<Longrightarrow> claims_track k (foldl (claims_step base) c snapshots) (S + exact_claims base snapshots)"
  by (induction snapshots arbitrary: c S)
    (auto simp: exact_claims_def add.assoc [symmetric] dest: claims_step_track [of _ _ _ _ base])

lemma mc_base_step [simp]: "mc_base (claims_step base c s) = mc_base c"
  by (simp add: claims_step_def Let_def case_prod_unfold)

lemma mc_base_fold [simp]: "mc_base (foldl (claims_step base) c ss) = mc_base c"
  by (induction ss arbitrary: c) simp_all

lemma mc_base_managed [simp]: "mc_base (managed_base_claims ss base) = base"
  by (simp add: managed_base_claims_def Let_def)

lemma claimed_tracks:
  assumes "list_all (grid_book k) snapshots"
  shows "tracks k (claimed (managed_base_claims snapshots base)) (exact_claims base snapshots)"
proof -
  let ?c0 = "\<lparr>mc_base = base, mc_managed_long = 0, mc_working_buys = 0, mc_working_short_entry_sells = 0,
      mc_unresolved = []\<rparr>"
  have "claims_track k ?c0 0"
    unfolding claims_track_def by (intro exI [of _ 0]) simp
  from claims_fold_track [OF this assms, of base] obtain L B T where
    t: "tracks k (mc_managed_long (managed_base_claims snapshots base)) L"
      "tracks k (mc_working_buys (managed_base_claims snapshots base)) B"
      "tracks k (mc_working_short_entry_sells (managed_base_claims snapshots base)) T"
      "L + B + T = exact_claims base snapshots"
    by (auto simp: claims_track_def managed_base_claims_def Let_def)
  show ?thesis unfolding claimed_def t(4) [symmetric] by (intro tracks_dadd t(1-3))
qed

section \<open>Rounding down to the increment\<close>

text \<open>Division may round its quotient up; on a grid it never rounds it past the next integer as long as
  the dividend has at most 27 digits, so the rounded-down amount never exceeds the dividend.\<close>

lemma round_down_to_increment:
  assumes "on_grid k x" "0 \<le> x" "x \<le> cap k / 10" "on_grid k inc" "0 < inc"
  shows "of_int (round_int ROUND_DOWN (ddiv x inc)) * inc \<le> x"
    and "dmul (to_integral_value ROUND_DOWN (ddiv x inc)) inc = of_int (round_int ROUND_DOWN (ddiv x inc)) * inc"
    and "on_grid k (of_int (round_int ROUND_DOWN (ddiv x inc)) * inc)"
proof -
  obtain b where b: "x * 10 ^ k = of_int b" using assms(1) by (rule on_gridE)
  obtain a where a: "inc * 10 ^ k = of_int a" using assms(4) by (rule on_gridE)
  have apos: "0 < a" using assms(5) a by (metis mult_pos_pos of_int_0_less_iff zero_less_numeral zero_less_power)
  have bnn: "0 \<le> b" using assms(2) b by (metis mult_nonneg_nonneg of_int_0_le_iff zero_le_numeral zero_le_power)
  have bmax: "of_int b \<le> (10 ^ 27 :: rat)" using assms(3) unfolding b [symmetric] cap_def by (simp add: field_simps)
  let ?q = "of_int b / of_int a :: rat" and ?n = "b div a"
  have q: "x / inc = ?q" using assms(5) unfolding a [symmetric] b [symmetric] by simp
  have below: "fixp 28 ?q < of_int (?n + 1)"
  proof -
    have "b + 1 \<le> a * (?n + 1)"
      using pos_mod_bound [OF apos, of b] mult_div_mod_eq [of a b] unfolding distrib_left by linarith
    then have "of_int (b + 1) \<le> (of_int (a * (?n + 1)) :: rat)" by (simp only: of_int_le_iff)
    then have gap: "?q + 1 / of_int a \<le> of_int (?n + 1)" using apos by (simp add: field_simps)
    have "fixp 28 ?q \<le> ?q + ?q * 10 powi (1 - int 28) / 2"
      using fixp_error [of 28 ?q] apos bnn by (simp add: abs_le_iff)
    also have "?q * 10 powi (1 - int 28) / 2 = of_int b / (2 * 10 ^ 27) / of_int a"
      by (simp add: power_int_def power_one_over field_simps)
    also have "\<dots> < 1 / of_int a"
    proof (rule divide_strict_right_mono)
      show "of_int b / (2 * 10 ^ 27) < (1 :: rat)" using bmax by (simp add: field_simps)
    qed (use apos in simp)
    finally show ?thesis using gap by linarith
  qed
  have nn: "0 \<le> fixp 28 ?q" using apos bnn by simp
  let ?m = "\<lfloor>fixp 28 ?q\<rfloor>"
  have r: "round_int ROUND_DOWN (ddiv x inc) = ?m" using nn by (simp add: ctx_div_def q)
  have "?m < ?n + 1" using below unfolding floor_less_iff .
  then have "?m * a \<le> ?n * a" using apos by simp
  also have "\<dots> \<le> b" using apos by (metis div_mult_mod_eq pos_mod_sign le_add_same_cancel1)
  finally have ab: "?m * a \<le> b" .
  then have "of_int (?m * a) \<le> (of_int b :: rat)" by (simp only: of_int_le_iff)
  then have "(of_int ?m * inc) * 10 ^ k \<le> x * 10 ^ k" unfolding b by (simp add: a [symmetric] mult.assoc)
  then show le: "of_int (round_int ROUND_DOWN (ddiv x inc)) * inc \<le> x" unfolding r by simp
  have "of_int ?m * inc * 10 ^ k = of_int (?m * a)" by (simp add: a [symmetric] mult.assoc)
  then show grid: "on_grid k (of_int (round_int ROUND_DOWN (ddiv x inc)) * inc)" unfolding r by (rule on_gridI)
  have "0 \<le> of_int ?m * inc" using nn assms(5) by simp
  moreover have "of_int ?m * inc \<le> cap k" using le assms(3) cap_pos(2) [of k] unfolding r by linarith
  ultimately have "fixp 28 (of_int ?m * inc) = of_int ?m * inc" using grid_exact [OF grid] unfolding r by simp
  then show "dmul (to_integral_value ROUND_DOWN (ddiv x inc)) inc = of_int (round_int ROUND_DOWN (ddiv x inc)) * inc"
    unfolding ctx_mul_def to_integral_value_def r .
qed

section \<open>What may be adopted\<close>

text \<open>A balance row on a grid of \<open>k\<close> places whose total has at most 27 digits there.\<close>

definition grid_balance :: "nat \<Rightarrow> exchange_balance \<Rightarrow> bool" where
  "grid_balance k row \<longleftrightarrow>
     on_grid k (eb_available row) \<and> on_grid k (eb_hold row) \<and> 0 \<le> eb_available row \<and> 0 \<le> eb_hold row
     \<and> eb_available row + eb_hold row \<le> cap k / 10"

lemma grid_total: "grid_balance k row \<Longrightarrow> eb_total row = eb_available row + eb_hold row"
  unfolding eb_total_def ctx_add_def
  by (rule grid_exact [of k]) (use cap_pos(2) [of k] in \<open>auto simp: grid_balance_def on_grid_add\<close>)

lemma unmanaged_exact:
  assumes "grid_balance k row" "list_all (grid_book k) books" "0 < dsub (eb_total row) (claimed (managed_base_claims books base))"
  shows "dsub (eb_total row) (claimed (managed_base_claims books base))
      = eb_available row + eb_hold row - exact_claims base books"
    and "on_grid k (eb_available row + eb_hold row - exact_claims base books)"
    and "0 \<le> exact_claims base books"
proof -
  let ?c = "claimed (managed_base_claims books base)" and ?t = "eb_available row + eb_hold row"
  note t = claimed_tracks [OF assms(2), of base]
  have small: "?t \<le> cap k / 10" using assms(1) by (simp add: grid_balance_def)
  then have below: "?t < cap k" using cap_pos(1) [of k] by linarith
  have lt: "?c < ?t" using assms(3) unfolding ctx_sub_def grid_total [OF assms(1)] by simp
  then have c: "?c = exact_claims base books" using tracks_exact [OF t] below by simp
  show nn: "0 \<le> exact_claims base books" using t by (simp add: tracks_def)
  show grid: "on_grid k (?t - exact_claims base books)"
    using t assms(1) by (intro on_grid_diff on_grid_add) (auto simp: tracks_def grid_balance_def)
  show "dsub (eb_total row) ?c = ?t - exact_claims base books"
    unfolding ctx_sub_def grid_total [OF assms(1)] c using grid lt nn below c by (intro grid_exact) auto
qed

text \<open>A positive adoptable quantity comes from exactly one balance row with resolved claims; it is a whole
  number of increments and fits both the available balance and what no book claims.\<close>

lemma adoptable_bounds:
  assumes avail: "ba_adoptable (base_availability balances (managed_base_claims books base) (Some inc)) = Some q"
    and grid: "list_all (grid_balance k) balances" "list_all (grid_book k) books" "on_grid k inc" "0 < inc"
    and pos: "0 < q"
  obtains row n where "filter (\<lambda>row. eb_currency row = base) balances = [row]"
    "mc_unresolved (managed_base_claims books base) = []" "q = of_int n * inc"
    "q \<le> eb_available row" "q + exact_claims base books \<le> eb_available row + eb_hold row" "on_grid k q"
proof -
  let ?c = "managed_base_claims books base"
  let ?rows = "filter (\<lambda>row. eb_currency row = base) balances"
  obtain row where rows: "?rows = [row]"
    using avail by (cases ?rows; cases "tl ?rows") (auto simp: base_availability_def Let_def)
  have resolved: "mc_unresolved ?c = []"
    using avail by (auto simp: base_availability_def Let_def rows split: if_splits)
  let ?u = "dsub (eb_total row) (claimed ?c)"
  let ?x = "max 0 (min (eb_available row) ?u)"
  have q: "q = dmul (to_integral_value ROUND_DOWN (ddiv ?x inc)) inc"
    using avail grid(4) by (simp add: base_availability_def Let_def rows resolved)
  have "row \<in> set ?rows" unfolding rows by simp
  then have row: "grid_balance k row" using grid(1) by (auto simp: list_all_iff)
  have "?x \<noteq> 0"
  proof
    assume "?x = 0"
    with q pos show False by (simp add: ctx_defs to_integral_value_def)
  qed
  then have x: "0 < ?u" "0 < eb_available row" "?x = min (eb_available row) ?u" by auto
  note u = unmanaged_exact [OF row grid(2) x(1)]
  have "on_grid k (min (eb_available row) ?u)" "min (eb_available row) ?u \<le> cap k / 10"
    using row u(2) u(1) by (auto simp: grid_balance_def min_def)
  then have xg: "on_grid k ?x" "?x \<le> cap k / 10" by (simp_all only: x(3))
  have "0 \<le> ?x" by (rule max.cobounded1)
  note r = round_down_to_increment [OF xg(1) this xg(2) grid(3,4)]
  have qn: "q = of_int (round_int ROUND_DOWN (ddiv ?x inc)) * inc" unfolding q by (rule r(2))
  have "q \<le> ?x" unfolding qn by (rule r(1))
  then have "q \<le> min (eb_available row) ?u" by (simp only: x(3))
  then have le: "q \<le> eb_available row" "q \<le> ?u" by simp_all
  then have "q + exact_claims base books \<le> eb_available row + eb_hold row" unfolding u(1) by linarith
  moreover have "on_grid k q" unfolding qn by (rule r(3))
  ultimately show ?thesis by (rule that [OF rows resolved qn le(1)])
qed

end
