(* ===== verification/Adoption.thy ===== *)
theory Adoption
  imports Inventory_Claims
begin

text \<open>
  In-kind inventory adoption: a live book takes ownership of coins the venue account already holds
  (\<open>trading/adoption.py\<close>, \<open>trading/adoption_write.py\<close>) and the in-memory store that
  commits it (\<open>trading/memory_adoption.py\<close>).

  The values \<open>uuid7\<close> returns are arguments (\<open>adoption_ids\<close>, in the order of the calls),
  as are the instants \<open>utc_now\<close> returns while the fill is projected. The balance reader is its
  outcome: the rows it returned, or nothing when it failed or timed out. A refusal is its stable reason
  code; the text after the code is not modelled. Every instant is timezone-aware. The lock around an adoption makes it one step of the
  store.
\<close>

section \<open>Records and errors\<close>

datatype adoption_error = Refused string | Raised py_error

type_synonym 'a adoption_result = "adoption_error + 'a"

definition ADOPTION_BASE_UNRESOLVED :: string where
  "ADOPTION_BASE_UNRESOLVED = ''ADOPTION_BASE_UNRESOLVED''"

definition ADOPTION_QUANTITY_UNAVAILABLE :: string where
  "ADOPTION_QUANTITY_UNAVAILABLE = ''ADOPTION_QUANTITY_UNAVAILABLE''"

definition ADOPTION_BALANCE_UNAVAILABLE :: string where
  "ADOPTION_BALANCE_UNAVAILABLE = ''ADOPTION_BALANCE_UNAVAILABLE''"

definition ADOPTION_REFUSED :: string where
  "ADOPTION_REFUSED = ''ADOPTION_REFUSED''"

definition ADOPTION_CLIENT_ORDER_PREFIX :: string where
  "ADOPTION_CLIENT_ORDER_PREFIX = ''adopt:''"

record adoption_ids =
  ai_client :: uuid
  ai_intent :: uuid
  ai_order :: uuid
  ai_fill :: uuid

record adoption_evidence =
  ar_intent :: order_intent
  ar_order :: order
  ar_fill :: fill

record adoption_write =
  aw_deployment_id :: uuid
  aw_product_id :: string
  aw_quantity :: "decimal option"
  aw_mark :: decimal
  aw_mark_bar_starts_at :: datetime
  aw_now :: datetime
  aw_origin :: intent_origin
  aw_stop_price :: decimal
  aw_target_price :: "decimal option"
  aw_base_increment :: decimal
  aw_idempotency_key :: "string option"
  aw_new_deployment :: "deployment option"
  aw_expected_revision :: "int option"
  aw_respect_entry_latch :: bool

record prepared_adoption =
  pa_records :: adoption_evidence
  pa_projected :: deployment_snapshot
  pa_fill :: fill
  pa_availability :: availability

record adoption_commit =
  co_snapshot :: deployment_snapshot
  co_records :: adoption_evidence
  co_availability :: availability

definition aw_base :: "adoption_write \<Rightarrow> string result" where
  "aw_base w = spot_base_currency (aw_product_id w)"

section \<open>The records of one adoption\<close>

definition require_positive :: "decimal \<Rightarrow> unit result" where
  "require_positive x =
     (if \<not> dec_is_finite x \<or> x \<le> 0 then Inl (ValueError ''Adoption amount must be a positive finite decimal.'')
      else Inr ())"

definition adoption_client_order_id :: "uuid \<Rightarrow> uuid \<Rightarrow> string" where
  "adoption_client_order_id deployment_id client =
     ADOPTION_CLIENT_ORDER_PREFIX @ uuid_str deployment_id @ '':'' @ uuid_str client"

definition adoption_intent ::
    "adoption_ids \<Rightarrow> uuid \<Rightarrow> string \<Rightarrow> decimal \<Rightarrow> decimal \<Rightarrow> datetime \<Rightarrow> datetime \<Rightarrow> intent_origin \<Rightarrow> string option
     \<Rightarrow> order_intent" where
  "adoption_intent ids deployment_id product_id quantity mark mark_bar_starts_at now origin idempotency_key =
     \<lparr>i_id = ai_intent ids, i_deployment_id = deployment_id,
      i_client_order_id = adoption_client_order_id deployment_id (ai_client ids), i_purpose = ADOPTION,
      i_side = BUY, i_kind = KIND_ADOPTION, i_quantity = quantity, i_created_at = now,
      i_candle_starts_at = mark_bar_starts_at, i_price = Some mark, i_stop_trigger_price = None,
      i_take_profit_price = None, i_status = FILLED, i_origin = origin, i_idempotency_key = idempotency_key,
      i_product_id = product_id\<rparr>"

definition adoption_order :: "adoption_ids \<Rightarrow> uuid \<Rightarrow> string \<Rightarrow> decimal \<Rightarrow> decimal \<Rightarrow> datetime \<Rightarrow> order" where
  "adoption_order ids deployment_id product_id quantity mark now =
     \<lparr>o_id = ai_order ids, o_deployment_id = deployment_id, o_intent_id = ai_intent ids,
      o_client_order_id = adoption_client_order_id deployment_id (ai_client ids), o_side = BUY,
      o_kind = KIND_ADOPTION, o_quantity = quantity, o_status = FILLED, o_created_at = now, o_updated_at = now,
      o_price = Some mark, o_filled_quantity = quantity, o_venue_order_id = None, o_reject_reason = None,
      o_stop_trigger_price = None, o_take_profit_price = None, o_product_id = product_id,
      o_parent_order_id = None, o_attached_child_venue_order_id = None, o_pyramid_add = False,
      o_venue_observed_at = None, o_canceled_at = None, o_settled_at = None\<rparr>"

definition adoption_fill :: "adoption_ids \<Rightarrow> uuid \<Rightarrow> decimal \<Rightarrow> decimal \<Rightarrow> datetime \<Rightarrow> fill" where
  "adoption_fill ids deployment_id quantity mark now =
     \<lparr>f_id = ai_fill ids, f_deployment_id = deployment_id, f_order_id = ai_order ids,
      f_venue_fill_id = adoption_client_order_id deployment_id (ai_client ids) @ '':fill'', f_price = mark,
      f_quantity = quantity, f_fee = 0, f_filled_at = now, f_venue_order_id = None,
      f_economics_applied_at = Some now\<rparr>"

definition adoption_records ::
    "adoption_ids \<Rightarrow> uuid \<Rightarrow> string \<Rightarrow> decimal \<Rightarrow> decimal \<Rightarrow> datetime \<Rightarrow> datetime \<Rightarrow> intent_origin \<Rightarrow> string option
     \<Rightarrow> adoption_evidence result" where
  "adoption_records ids deployment_id product_id quantity mark mark_bar_starts_at now origin idempotency_key =
     rbind (require_positive quantity) (\<lambda>_. rbind (require_positive mark) (\<lambda>_.
       if mark_bar_starts_at > now then Inl (ValueError ''The adoption mark bar must start before the adoption.'')
       else if product_id = [] then Inl (ValueError ''An adoption needs a product id.'')
       else Inr \<lparr>ar_intent = adoption_intent ids deployment_id product_id quantity mark mark_bar_starts_at now origin
                   idempotency_key,
                 ar_order = adoption_order ids deployment_id product_id quantity mark now,
                 ar_fill = adoption_fill ids deployment_id quantity mark now\<rparr>))"

definition project_adoption ::
    "clock \<Rightarrow> deployment_snapshot \<Rightarrow> adoption_evidence \<Rightarrow> decimal \<Rightarrow> decimal option
     \<Rightarrow> (deployment_snapshot \<times> fill) result" where
  "project_adoption ck s records stop_price target_price =
     (let d = s_deployment s; ord = ar_order records; product_id = resolved_product_id (o_product_id ord) d
      in if d_mode d \<noteq> LIVE then Inl (ValueError ''Inventory adoption is live-only.'')
         else if o_kind ord \<noteq> KIND_ADOPTION \<or> i_purpose (ar_intent records) \<noteq> ADOPTION
             \<or> {i_deployment_id (ar_intent records), o_deployment_id ord, f_deployment_id (ar_fill records)} \<noteq> {d_id d}
         then Inl (ValueError ''The records are not an adoption for this book.'')
         else if \<exists>pos \<in> set (snapshot_positions s). resolved_product_id (p_product_id pos) d = product_id
         then Inl (ValueError ''Adoption needs a flat product book.'')
         else rbind (require_positive stop_price) (\<lambda>_.
           let mark = f_price (ar_fill records); instant = f_filled_at (ar_fill records);
               mark_bar = i_candle_starts_at (ar_intent records)
           in if stop_price \<ge> mark \<or> (case target_price of None \<Rightarrow> False | Some target \<Rightarrow> target \<le> mark)
              then Inl (ValueError ''An adopted long needs a stop below and a target above the mark.'')
              else
                let cleared = with_runtime d instant (no_update\<lparr>u_clear_pending_levels := True\<rparr>);
                    staged = with_runtime cleared instant
                      (no_update\<lparr>u_pending_stop_price := Some stop_price, u_pending_target_price := target_price,
                         u_last_evaluated_bar := (case d_last_evaluated_bar d of
                             None \<Rightarrow> Some mark_bar
                           | Some previous \<Rightarrow> if previous < mark_bar then Some mark_bar else None)\<rparr>);
                    pending = s\<lparr>s_deployment := staged, s_intents := s_intents s @ [ar_intent records],
                                s_orders := s_orders s @ [ord]\<rparr>
                in project_fill_economics 0 (d_timeframe d) ck pending (ar_fill records) ord))"

definition adoption_evidence_complete :: "deployment_snapshot \<Rightarrow> order \<Rightarrow> bool" where
  "adoption_evidence_complete s ord \<longleftrightarrow>
     (let fills = filter (\<lambda>fl. f_order_id fl = o_id ord) (s_fills s)
      in o_kind ord = KIND_ADOPTION \<and> o_status ord = FILLED \<and> o_venue_order_id ord = None \<and> fills \<noteq> []
         \<and> (\<forall>fl \<in> set fills. f_economics_applied_at fl \<noteq> None)
         \<and> dsum (map f_quantity fills) = o_quantity ord \<and> o_quantity ord = o_filled_quantity ord)"

section \<open>Preparing an adoption\<close>

text \<open>\<open>x % y\<close> of two decimals: the remainder of the truncated quotient, rounded; the quotient must
  fit the context.\<close>

definition dmod :: "decimal \<Rightarrow> decimal \<Rightarrow> decimal result" where
  "dmod x y =
     (let n = round_int ROUND_DOWN (x / y)
      in if \<bar>n\<bar> \<ge> 10 ^ 28 then Inl InvalidOperation else Inr (fixp 28 (x - of_int n * y)))"

definition adopted_quantity :: "adoption_write \<Rightarrow> decimal \<Rightarrow> decimal adoption_result" where
  "adopted_quantity w adoptable =
     (let quantity = or_else (aw_quantity w) adoptable; increment = aw_base_increment w;
          admitted = (if quantity > adoptable then Inl (Refused ADOPTION_QUANTITY_UNAVAILABLE) else Inr quantity)
      in if quantity \<le> 0 then Inl (Refused ADOPTION_QUANTITY_UNAVAILABLE)
         else if increment > 0 then
           (case dmod quantity increment of
              Inl e \<Rightarrow> Inl (Raised e)
            | Inr rest \<Rightarrow> if rest \<noteq> 0 then Inl (Refused ADOPTION_QUANTITY_UNAVAILABLE) else admitted)
         else admitted)"

definition prepare_adoption ::
    "adoption_ids \<Rightarrow> clock \<Rightarrow> adoption_write \<Rightarrow> deployment_snapshot \<Rightarrow> deployment_snapshot list
     \<Rightarrow> exchange_balance list \<Rightarrow> prepared_adoption adoption_result" where
  "prepare_adoption ids ck w book live_books balances =
     (if d_id (s_deployment book) \<noteq> aw_deployment_id w then Inl (Refused ADOPTION_REFUSED)
      else case aw_base w of
        Inl e \<Rightarrow> Inl (Raised e)
      | Inr base \<Rightarrow>
          let availability = base_availability balances (managed_base_claims live_books base)
                (Some (aw_base_increment w))
          in case ba_adoptable availability of
               None \<Rightarrow> Inl (Refused ADOPTION_BASE_UNRESOLVED)
             | Some adoptable \<Rightarrow>
                 (case adopted_quantity w adoptable of
                    Inl e \<Rightarrow> Inl e
                  | Inr quantity \<Rightarrow>
                      (case adoption_records ids (aw_deployment_id w) (aw_product_id w) quantity (aw_mark w)
                              (aw_mark_bar_starts_at w) (aw_now w) (aw_origin w) (aw_idempotency_key w) of
                         Inl e \<Rightarrow> Inl (Raised e)
                       | Inr records \<Rightarrow>
                           (case project_adoption ck book records (aw_stop_price w) (aw_target_price w) of
                              Inl (ValueError _) \<Rightarrow> Inl (Refused ADOPTION_REFUSED)
                            | Inl e \<Rightarrow> Inl (Raised e)
                            | Inr (projected, fl) \<Rightarrow>
                                Inr \<lparr>pa_records = records, pa_projected = projected, pa_fill = fl,
                                     pa_availability = availability\<rparr>))))"

definition read_venue_balances :: "exchange_balance list option \<Rightarrow> exchange_balance list adoption_result" where
  "read_venue_balances outcome =
     (case outcome of None \<Rightarrow> Inl (Refused ADOPTION_BALANCE_UNAVAILABLE) | Some rows \<Rightarrow> Inr rows)"

definition flat_snapshot :: "deployment \<Rightarrow> deployment_snapshot" where
  "flat_snapshot d =
     \<lparr>s_deployment = d, s_position = None, s_orders = [], s_fills = [], s_intents = [], s_positions = [],
      s_instrument_runtimes = [], s_accounting_complete = True, s_funding = []\<rparr>"

section \<open>The in-memory adoption store\<close>

fun load_books :: "uuid list \<Rightarrow> execution_store \<Rightarrow> deployment_snapshot list result" where
  "load_books [] st = Inr []"
| "load_books (i # is) st =
     rbind (get_deployment i st) (\<lambda>s. rbind (load_books is st) (\<lambda>ss. Inr (s # ss)))"

definition live_ids :: "execution_store \<Rightarrow> uuid list" where
  "live_ids st = map d_id (filter (\<lambda>d. d_mode d = LIVE) (map snd (es_deployments st)))"

definition target_book :: "adoption_write \<Rightarrow> execution_store \<Rightarrow> deployment_snapshot result" where
  "target_book w st =
     (case aw_new_deployment w of
        Some created \<Rightarrow>
          if d_id created \<noteq> aw_deployment_id w \<or> map_of (es_deployments st) (d_id created) \<noteq> None
          then Inl (ExecutionConflictError ''The new book is not the adoption book.'')
          else Inr (flat_snapshot created)
      | None \<Rightarrow>
          rbind (get_deployment (aw_deployment_id w) st) (\<lambda>book.
            if aw_expected_revision w \<noteq> None \<and> Some (d_revision (s_deployment book)) \<noteq> aw_expected_revision w
            then Inl revision_conflict else Inr book))"

definition insert_book :: "adoption_write \<Rightarrow> unit store_op" where
  "insert_book w st =
     (case aw_new_deployment w of
        None \<Rightarrow> (Inr (), st)
      | Some created \<Rightarrow>
          if aw_respect_entry_latch w
          then (case create_deployment created st of (Inl e, st') \<Rightarrow> (Inl e, st') | (Inr _, st') \<Rightarrow> (Inr (), st'))
          else (Inr (), put_deployment created st))"

text \<open>One awaited store call after another: an exception stops the sequence and keeps what was written.\<close>

definition and_then :: "'a store_op \<Rightarrow> ('a \<Rightarrow> 'b store_op) \<Rightarrow> 'b store_op" where
  "and_then op k st = (case op st of (Inl e, st') \<Rightarrow> (Inl e, st') | (Inr x, st') \<Rightarrow> k x st')"

fun save_runtimes :: "uuid \<Rightarrow> instrument_runtime list \<Rightarrow> unit store_op" where
  "save_runtimes deployment_id [] st = (Inr (), st)"
| "save_runtimes deployment_id (r # rs) st =
     and_then (save_instrument_runtime r deployment_id) (\<lambda>_. save_runtimes deployment_id rs) st"

definition write_adoption ::
    "fence_state \<Rightarrow> deployment_snapshot \<Rightarrow> prepared_adoption \<Rightarrow> deployment_snapshot store_op" where
  "write_adoption fence book prepared =
     (let records = pa_records prepared; projected = pa_projected prepared;
          deployment_id = d_id (s_deployment book);
          product_id = resolved_product_id (o_product_id (ar_order records)) (s_deployment book)
      in and_then (save_intent fence (ar_intent records)) (\<lambda>_.
         and_then (save_order (ar_order records)) (\<lambda>_.
         and_then (save_fill (pa_fill prepared)) (\<lambda>_.
         and_then (save_position (s_position projected) deployment_id (Some product_id)) (\<lambda>_.
         and_then (save_runtimes deployment_id (s_instrument_runtimes projected)) (\<lambda>_.
         and_then (save_deployment (fill_projection_deployment book projected) None None) (\<lambda>_.
           (\<lambda>st. (get_deployment deployment_id st, st)))))))))"

definition adopt_inventory ::
    "fence_state \<Rightarrow> adoption_ids \<Rightarrow> clock \<Rightarrow> adoption_write \<Rightarrow> exchange_balance list option
     \<Rightarrow> execution_store \<Rightarrow> adoption_commit adoption_result \<times> execution_store" where
  "adopt_inventory fence ids ck w read_balances st =
     (case aw_base w of
        Inl e \<Rightarrow> (Inl (Raised e), st)
      | Inr _ \<Rightarrow>
     (case load_books (live_ids st) st of
        Inl e \<Rightarrow> (Inl (Raised e), st)
      | Inr live_books \<Rightarrow>
     (case read_venue_balances read_balances of
        Inl e \<Rightarrow> (Inl e, st)
      | Inr balances \<Rightarrow>
     (case target_book w st of
        Inl e \<Rightarrow> (Inl (Raised e), st)
      | Inr book \<Rightarrow>
     (case prepare_adoption ids ck w book live_books balances of
        Inl e \<Rightarrow> (Inl e, st)
      | Inr prepared \<Rightarrow>
          if (case aw_idempotency_key w of None \<Rightarrow> False | Some key \<Rightarrow> get_intent_by_idempotency_key key st \<noteq> None)
          then (Inl (Raised (ExecutionConflictError ''idempotency_key already used'')), st)
          else
            (case and_then (insert_book w) (\<lambda>_. write_adoption fence book prepared) st of
               (Inl e, st') \<Rightarrow> (Inl (Raised e), st')
             | (Inr s, st') \<Rightarrow>
                 (Inr \<lparr>co_snapshot = s, co_records = pa_records prepared,
                       co_availability = pa_availability prepared\<rparr>, st')))))))"

end
