(* ===== verification/Adoption_Safety.thy ===== *)
theory Adoption_Safety
  imports Adoption
begin

text \<open>
  What an adoption guarantees: it takes only base that no live book claims, a refusal writes nothing, and
  a committed adoption leaves a protected long with complete evidence whose claim is counted from then on.
\<close>

section \<open>A prepared adoption\<close>

lemma dmod_zero: "dmod x y = Inr 0 \<Longrightarrow> \<exists>n. x = of_int n * y"
  by (auto simp: dmod_def Let_def split: if_splits)

lemma adopted_quantityD:
  assumes "adopted_quantity w adoptable = Inr q"
  shows "0 < q" "q \<le> adoptable" "0 < aw_base_increment w \<Longrightarrow> \<exists>n. q = of_int n * aw_base_increment w"
    "q = or_else (aw_quantity w) adoptable"
  using assms by (auto simp: adopted_quantity_def Let_def split: if_splits sum.splits dest: dmod_zero)

lemma adoption_recordsD:
  assumes "adoption_records ids dep product q mark bar now origin key = Inr records"
  shows "records = \<lparr>ar_intent = adoption_intent ids dep product q mark bar now origin key,
      ar_order = adoption_order ids dep product q mark now, ar_fill = adoption_fill ids dep q mark now\<rparr>"
    "product \<noteq> []" "0 < mark" "bar \<le> now"
  using assms by (auto simp: adoption_records_def require_positive_def split: if_splits)

lemma prepareE:
  assumes "prepare_adoption ids ck w book live_books balances = Inr prepared"
  obtains base adoptable q where
    "spot_base_currency (aw_product_id w) = Inr base" "d_id (s_deployment book) = aw_deployment_id w"
    "pa_availability prepared = base_availability balances (managed_base_claims live_books base) (Some (aw_base_increment w))"
    "ba_adoptable (pa_availability prepared) = Some adoptable" "adopted_quantity w adoptable = Inr q"
    "adoption_records ids (aw_deployment_id w) (aw_product_id w) q (aw_mark w) (aw_mark_bar_starts_at w) (aw_now w)
       (aw_origin w) (aw_idempotency_key w) = Inr (pa_records prepared)"
    "project_adoption ck book (pa_records prepared) (aw_stop_price w) (aw_target_price w)
       = Inr (pa_projected prepared, pa_fill prepared)"
  using assms
  by (auto simp: prepare_adoption_def aw_base_def Let_def split: if_splits sum.splits option.splits py_error.splits)

text \<open>The amount a prepared adoption takes.\<close>

definition adopted_amount :: "prepared_adoption \<Rightarrow> decimal" where
  "adopted_amount prepared = f_quantity (ar_fill (pa_records prepared))"

lemma records_amount:
  "adoption_records ids dep product q mark bar now origin key = Inr (pa_records prepared) \<Longrightarrow> adopted_amount prepared = q"
  by (auto dest!: adoption_recordsD(1) simp: adopted_amount_def adoption_fill_def)

lemma prepared_bounds:
  assumes "prepare_adoption ids ck w book live_books balances = Inr prepared"
    "spot_base_currency (aw_product_id w) = Inr base"
    "list_all (grid_balance k) balances" "list_all (grid_book k) live_books"
    "on_grid k (aw_base_increment w)" "0 < aw_base_increment w"
  obtains row n where "filter (\<lambda>row. eb_currency row = base) balances = [row]"
    "mc_unresolved (managed_base_claims live_books base) = []"
    "adopted_amount prepared = of_int n * aw_base_increment w" "0 < adopted_amount prepared"
    "adopted_amount prepared \<le> eb_available row"
    "exact_claims base live_books + adopted_amount prepared \<le> eb_available row + eb_hold row"
    "on_grid k (adopted_amount prepared)" "adopted_amount prepared \<le> cap k"
proof -
  from assms(1) obtain b adoptable q where p: "spot_base_currency (aw_product_id w) = Inr b"
      "pa_availability prepared = base_availability balances (managed_base_claims live_books b) (Some (aw_base_increment w))"
      "ba_adoptable (pa_availability prepared) = Some adoptable" "adopted_quantity w adoptable = Inr q"
      "adopted_amount prepared = q"
    by (elim prepareE) (simp add: records_amount)
  note q = adopted_quantityD [OF p(4)]
  have b: "b = base" using p(1) assms(2) by simp
  obtain row n where a: "filter (\<lambda>row. eb_currency row = base) balances = [row]"
      "mc_unresolved (managed_base_claims live_books base) = []" "adoptable \<le> eb_available row"
      "adoptable + exact_claims base live_books \<le> eb_available row + eb_hold row"
    by (rule adoptable_bounds [OF p(3) [unfolded p(2) b] assms(3-6)]) (use q in auto)
  obtain m where m: "q = of_int m * aw_base_increment w" using q(3) assms(6) by blast
  obtain c where c: "aw_base_increment w * 10 ^ k = of_int c" using assms(5) by (rule on_gridE)
  have grid: "on_grid k q" by (rule on_gridI [of _ _ "m * c"]) (simp add: m c [symmetric] mult.assoc)
  have "row \<in> set (filter (\<lambda>row. eb_currency row = base) balances)" unfolding a(1) by simp
  then have "eb_available row \<le> cap k" using assms(3) cap_pos(2) [of k] by (auto simp: list_all_iff grid_balance_def)
  then show ?thesis using that [OF a(1,2)] a(3,4) q(1,2) m grid p(5) by auto
qed

section \<open>The projection of an adoption\<close>

text \<open>A book the callers adopt into: its one product is the adopted one and it has a timeframe.\<close>

definition single_product_book :: "string \<Rightarrow> deployment_snapshot \<Rightarrow> bool" where
  "single_product_book product_id s \<longleftrightarrow>
     product_id = d_product_id (s_deployment s) \<and> mirrors_primary_runtime (s_deployment s) (s_instrument_runtimes s)
     \<and> (case d_timeframe (s_deployment s) of None \<Rightarrow> False | Some timeframe \<Rightarrow> timeframe \<noteq> [])"

lemma adoption_not_excess:
  assumes "project_excess_reduction s fl ord now = Inr r" "o_kind ord = KIND_ADOPTION"
  shows "r = None"
  using assms by (auto simp: project_excess_reduction_def split: option.splits if_splits)

lemma project_adoptionE:
  assumes "project_adoption ck s records stop target = Inr (s', fl)"
  obtains staged where
    "d_mode (s_deployment s) = LIVE" "o_kind (ar_order records) = KIND_ADOPTION" "0 < stop" "stop < f_price (ar_fill records)"
    "case target of None \<Rightarrow> True | Some t \<Rightarrow> f_price (ar_fill records) < t"
    "\<forall>pos \<in> set (snapshot_positions s). resolved_product_id (p_product_id pos) (s_deployment s)
       \<noteq> resolved_product_id (o_product_id (ar_order records)) (s_deployment s)"
    "project_fill_economics 0 (d_timeframe (s_deployment s)) ck
       (s\<lparr>s_deployment := staged, s_intents := s_intents s @ [ar_intent records],
          s_orders := s_orders s @ [ar_order records]\<rparr>) (ar_fill records) (ar_order records) = Inr (s', fl)"
    "d_id staged = d_id (s_deployment s)" "d_product_id staged = d_product_id (s_deployment s)" "d_cash staged = d_cash (s_deployment s)"
    "d_timeframe staged = d_timeframe (s_deployment s)" "d_status staged = d_status (s_deployment s)"
    "d_mode staged = d_mode (s_deployment s)" "d_revision staged = d_revision (s_deployment s)"
    "d_pending_stop_price staged = Some stop" "d_pending_target_price staged = target"
  using assms
  by (auto simp: project_adoption_def require_positive_def Let_def runtime_defs not_le split: if_splits option.splits)

lemma adoption_opens:
  assumes run: "project_adoption ck s records stop target = Inr (s', fl)"
    and records: "records = \<lparr>ar_intent = adoption_intent ids dep product q mark bar now origin key,
      ar_order = adoption_order ids dep product q mark now, ar_fill = adoption_fill ids dep q mark now\<rparr>"
    and single: "single_product_book product s" and "product \<noteq> []"
  obtains pos where "s_position s' = Some pos" "p_quantity pos = q" "p_entry_price pos = mark" "p_stop_price pos = stop"
    "p_target_price pos = target" "p_side pos = LONG" "p_product_id pos = product" "fl = adoption_fill ids dep q mark now"
    "d_cash (s_deployment s') = dsub (dsub (d_cash (s_deployment s)) (dmul mark q)) 0"
    "d_status (s_deployment s') = d_status (s_deployment s)" "d_id (s_deployment s') = d_id (s_deployment s)"
    "d_mode (s_deployment s') = LIVE" "d_product_id (s_deployment s') = d_product_id (s_deployment s)"
    "d_phase (s_deployment s') = PHASE_OPEN"
proof -
  from run obtain staged where a: "d_mode (s_deployment s) = LIVE"
    "\<forall>pos \<in> set (snapshot_positions s). resolved_product_id (p_product_id pos) (s_deployment s)
       \<noteq> resolved_product_id (o_product_id (ar_order records)) (s_deployment s)"
    "project_fill_economics 0 (d_timeframe (s_deployment s)) ck
       (s\<lparr>s_deployment := staged, s_intents := s_intents s @ [ar_intent records],
          s_orders := s_orders s @ [ar_order records]\<rparr>) (ar_fill records) (ar_order records) = Inr (s', fl)"
    and st: "d_id staged = d_id (s_deployment s)" "d_product_id staged = d_product_id (s_deployment s)" "d_cash staged = d_cash (s_deployment s)"
    "d_timeframe staged = d_timeframe (s_deployment s)" "d_status staged = d_status (s_deployment s)"
    "d_mode staged = d_mode (s_deployment s)" "d_pending_stop_price staged = Some stop" "d_pending_target_price staged = target"
    by (rule project_adoptionE)
  let ?p = "s\<lparr>s_deployment := staged, s_intents := s_intents s @ [ar_intent records],
      s_orders := s_orders s @ [ar_order records]\<rparr>"
  have r: "ar_order records = adoption_order ids dep product q mark now" "ar_fill records = adoption_fill ids dep q mark now"
    by (simp_all add: records)
  have kind: "o_kind (ar_order records) = KIND_ADOPTION" by (simp add: r adoption_order_def)
  have prod: "fill_product ?p (ar_order records) = product"
    using assms(4) by (simp add: fill_product_def r adoption_order_def resolved_product_id_def)
  have pd: "product = d_product_id staged" and mir: "mirrors_primary_runtime staged (s_instrument_runtimes s)"
    using single st(2) by (simp_all add: single_product_book_def mirrors_primary_runtime_def)
  obtain tf where tf: "d_timeframe (s_deployment s) = Some tf" "tf \<noteq> []"
    using single by (auto simp: single_product_book_def split: option.splits)
  have rt: "runtime_for ?p product = runtime_from_deployment staged product"
    using pd mir by (simp add: runtime_for_def)
  have flat: "position_for ?p product = None"
    using a(2) assms(4) st(2) unfolding position_for_def find_None_iff
    by (auto simp: r adoption_order_def resolved_product_id_def snapshot_positions_def split: if_splits option.splits)
  from a(3) obtain p where inv: "project_inventory 0 (d_timeframe (s_deployment s)) (ck_project ck)
      (overlay_snapshot ?p product) (ar_fill records) (ar_order records) = Inr (p, fl)" and c: "carries p s' ck"
  proof (cases rule: fill_economicsE)
    case (repaired p)
    then show ?thesis using adoption_not_excess [OF repaired(1) kind] by simp
  next
    case (ordinary p)
    then show ?thesis using that prod by simp
  qed
  define ov where "ov = overlay_snapshot ?p product"
  have ov: "s_position ov = None" "d_pending_stop_price (s_deployment ov) = Some stop"
    "d_pending_target_price (s_deployment ov) = target" "d_timeframe (s_deployment ov) = Some tf"
    "d_cash (s_deployment ov) = d_cash staged" "d_status (s_deployment ov) = d_status staged"
    "d_id (s_deployment ov) = d_id staged" "d_mode (s_deployment ov) = d_mode staged"
    "d_product_id (s_deployment ov) = d_product_id staged"
    unfolding ov_def overlay_snapshot_def Let_def rt flat
    using st tf by (simp_all add: focus_runtime_def runtime_from_deployment_def)
  have applied: "f_economics_applied_at (adoption_fill ids dep q mark now) = Some now" by (simp add: adoption_fill_def)
  have entry: "project_entry (Some tf) (ck_project ck) ov (adoption_fill ids dep q mark now)
      (adoption_order ids dep product q mark now) = Inr p" "fl = adoption_fill ids dep q mark now"
    using inv [folded ov_def, unfolded r] applied by (auto simp add: project_inventory_def ov(1) tf Let_def)
  have fields: "f_quantity (adoption_fill ids dep q mark now) = q" "f_price (adoption_fill ids dep q mark now) = mark"
    "o_side (adoption_order ids dep product q mark now) = BUY"
    "o_product_id (adoption_order ids dep product q mark now) = product"
    by (simp_all add: adoption_fill_def adoption_order_def)
  obtain pos where e: "s_position p = Some pos" "p_quantity pos = q" "p_entry_price pos = mark" "p_stop_price pos = stop"
    "p_target_price pos = target" "p_side pos = LONG" "p_product_id pos = product" "fl = adoption_fill ids dep q mark now"
    "d_cash (s_deployment p) = cash_after_fill (d_cash staged) (adoption_fill ids dep q mark now) BUY"
    "d_status (s_deployment p) = d_status staged" "d_id (s_deployment p) = d_id staged"
    "d_mode (s_deployment p) = d_mode staged" "d_product_id (s_deployment p) = d_product_id staged"
    "d_phase (s_deployment p) = PHASE_OPEN"
    using entry(1) tf(2) assms(4)
    by (auto simp: project_entry_def Let_def ov str_or_def fields runtime_defs resolved_product_id_def entry(2))
  show ?thesis
    by (rule that [of pos])
      (use c e st a(1) in \<open>simp_all add: carries_def cash_after_fill_def adoption_fill_def Let_def\<close>)
qed

section \<open>The writes of an adoption\<close>

lemma save_runtimes_eq:
  "save_runtimes dep rs st
     = (Inr (), st\<lparr>es_runtimes := foldl (\<lambda>m r. AList.update (dep, r_product_id r) r m) (es_runtimes st) rs\<rparr>)"
  by (induction rs arbitrary: st) (simp_all add: and_then_def save_instrument_runtime_def)

lemma save_position_eq:
  "p_product_id pos \<noteq> [] \<Longrightarrow> save_position (Some pos) dep product st
     = (Inr (), st\<lparr>es_positions := AList.update (dep, p_product_id pos) pos (es_positions st)\<rparr>)"
  by (simp add: save_position_def Let_def)

lemma save_deployment_total:
  assumes "map_of (es_deployments st) (d_id d) = Some current"
  obtains rts where "save_deployment d None None st = (Inr (d\<lparr>d_revision := d_revision current + 1\<rparr>),
      st\<lparr>es_deployments := AList.update (d_id d) (d\<lparr>d_revision := d_revision current + 1\<rparr>) (es_deployments st),
         es_runtimes := rts\<rparr>)"
proof -
  have "\<exists>rts. save_deployment d None None st = (Inr (d\<lparr>d_revision := d_revision current + 1\<rparr>),
      st\<lparr>es_deployments := AList.update (d_id d) (d\<lparr>d_revision := d_revision current + 1\<rparr>) (es_deployments st),
         es_runtimes := rts\<rparr>)"
  proof (cases "map_of (es_runtimes st) (d_id d, d_product_id d) \<noteq> None
      \<and> mirrors_primary_runtime (d\<lparr>d_revision := d_revision current + 1\<rparr>)
          (map snd (filter (\<lambda>((stored_id, _), _). stored_id = d_id d) (es_runtimes st)))")
    case True
    then show ?thesis using assms by (auto simp: save_deployment_def put_deployment_def Let_def)
  next
    case False
    then have "save_deployment d None None st = (Inr (d\<lparr>d_revision := d_revision current + 1\<rparr>),
        put_deployment (d\<lparr>d_revision := d_revision current + 1\<rparr>) st)"
      using assms by (auto simp: save_deployment_def put_deployment_def Let_def)
    then show ?thesis by (intro exI [of _ "es_runtimes st"]) (simp add: put_deployment_def)
  qed
  then show ?thesis using that by blast
qed

lemma save_intent_adoption:
  assumes "i_purpose intent = ADOPTION"
  shows "save_intent fence intent st =
     (if (case i_idempotency_key intent of None \<Rightarrow> False | Some key \<Rightarrow> get_intent_by_idempotency_key key st \<noteq> None)
      then (Inl (ExecutionConflictError ''idempotency_key already used''), st)
      else case require_lease_holder fence (i_deployment_id intent)
             (case map_of (es_deployments st) (i_deployment_id intent) of None \<Rightarrow> None | Some d \<Rightarrow> d_worker_lease_holder d) of
        Inl e \<Rightarrow> (Inl e, st)
      | Inr _ \<Rightarrow> (Inr intent, st\<lparr>es_intents := AList.update (i_id intent) intent (es_intents st)\<rparr>))"
proof -
  have "save_intent fence intent st = insert_intent fence intent st"
    using assms by (simp add: save_intent_def split: option.splits)
  then show ?thesis
    using assms by (auto simp: insert_intent_def insert_leased_intent_def Let_def split: option.splits sum.splits)
qed

text \<open>Once the intent is written nothing can raise: the rest of the writes run to the end.\<close>

lemma write_adoption_run:
  assumes "i_purpose (ar_intent (pa_records prepared)) = ADOPTION"
    and "d_id (s_deployment (pa_projected prepared)) = d_id (s_deployment book)"
    and "map_of (es_deployments st) (d_id (s_deployment book)) = Some current"
    and idem: "\<not> (case i_idempotency_key (ar_intent (pa_records prepared)) of
           None \<Rightarrow> False | Some key \<Rightarrow> get_intent_by_idempotency_key key st \<noteq> None)"
  shows "(\<exists>e. write_adoption fence book prepared st = (Inl e, st)
        \<and> require_lease_holder fence (i_deployment_id (ar_intent (pa_records prepared)))
            (case map_of (es_deployments st) (i_deployment_id (ar_intent (pa_records prepared))) of
               None \<Rightarrow> None | Some d \<Rightarrow> d_worker_lease_holder d) = Inl e)
    \<or> (\<exists>s st'. write_adoption fence book prepared st = (Inr s, st') \<and> get_deployment (d_id (s_deployment book)) st' = Inr s
        \<and> es_deployments st' = AList.update (d_id (s_deployment book))
            ((fill_projection_deployment book (pa_projected prepared))\<lparr>d_revision := d_revision current + 1\<rparr>) (es_deployments st)
        \<and> es_intents st' = AList.update (i_id (ar_intent (pa_records prepared))) (ar_intent (pa_records prepared)) (es_intents st)
        \<and> es_orders st' = es_orders (snd (save_order (ar_order (pa_records prepared)) st))
        \<and> es_fills st' = es_fills (snd (save_fill (pa_fill prepared) st))
        \<and> es_positions st' = es_positions (snd (save_position (s_position (pa_projected prepared)) (d_id (s_deployment book))
            (Some (resolved_product_id (o_product_id (ar_order (pa_records prepared))) (s_deployment book))) st)))"
proof -
  let ?i = "ar_intent (pa_records prepared)" and ?dep = "d_id (s_deployment book)"
  let ?d = "fill_projection_deployment book (pa_projected prepared)"
  let ?lease = "require_lease_holder fence (i_deployment_id ?i)
      (case map_of (es_deployments st) (i_deployment_id ?i) of None \<Rightarrow> None | Some d \<Rightarrow> d_worker_lease_holder d)"
  show ?thesis
  proof (cases ?lease)
    case (Inl e)
    then have "save_intent fence ?i st = (Inl e, st)" using save_intent_adoption [OF assms(1)] idem by simp
    then show ?thesis using Inl by (auto simp: write_adoption_def Let_def and_then_def)
  next
    case (Inr u)
    define st1 where "st1 = st\<lparr>es_intents := AList.update (i_id ?i) ?i (es_intents st)\<rparr>"
    have 1: "save_intent fence ?i st = (Inr ?i, st1)" using save_intent_adoption [OF assms(1)] idem Inr by (simp add: st1_def)
    define st2 where "st2 = snd (save_order (ar_order (pa_records prepared)) st1)"
    obtain x2 where 2: "save_order (ar_order (pa_records prepared)) st1 = (Inr x2, st2)" by (simp add: st2_def save_order_def Let_def)
    define st3 where "st3 = snd (save_fill (pa_fill prepared) st2)"
    obtain x3 where 3: "save_fill (pa_fill prepared) st2 = (Inr x3, st3)" 
      by (cases "fill_key (pa_fill prepared) \<in> set (es_fill_keys st2)") (auto simp: st3_def save_fill_def)
    let ?prod = "resolved_product_id (o_product_id (ar_order (pa_records prepared))) (s_deployment book)"
    define st4 where "st4 = snd (save_position (s_position (pa_projected prepared)) ?dep (Some ?prod) st3)"
    have 4: "save_position (s_position (pa_projected prepared)) ?dep (Some ?prod) st3 = (Inr (), st4)"
      by (simp add: st4_def save_position_def Let_def split: option.splits)
    define st5 where "st5 = st4\<lparr>es_runtimes := foldl (\<lambda>m r. AList.update (?dep, r_product_id r) r m) (es_runtimes st4)
        (s_instrument_runtimes (pa_projected prepared))\<rparr>"
    have 5: "save_runtimes ?dep (s_instrument_runtimes (pa_projected prepared)) st4 = (Inr (), st5)"
      by (simp add: save_runtimes_eq st5_def)
    have keep: "es_deployments st5 = es_deployments st" "es_intents st5 = es_intents st1" "es_orders st5 = es_orders st2"
        "es_fills st5 = es_fills st3" "es_positions st5 = es_positions st4" "es_positions st3 = es_positions st"
        "es_fills st2 = es_fills st" "es_fill_keys st2 = es_fill_keys st" "es_orders st1 = es_orders st"
      by (auto simp: st5_def st4_def st3_def st2_def st1_def save_position_def save_fill_def save_order_def put_order_def Let_def
          split: option.splits)
    have id: "d_id ?d = ?dep" by (rule fill_projection_id [OF assms(2)])
    obtain rts where 6: "save_deployment ?d None None st5 = (Inr (?d\<lparr>d_revision := d_revision current + 1\<rparr>),
        st5\<lparr>es_deployments := AList.update (d_id ?d) (?d\<lparr>d_revision := d_revision current + 1\<rparr>) (es_deployments st5),
            es_runtimes := rts\<rparr>)"
      using save_deployment_total [of st5 ?d current] assms(3) keep(1) id by auto
    define st6 where "st6 = st5\<lparr>es_deployments := AList.update ?dep (?d\<lparr>d_revision := d_revision current + 1\<rparr>) (es_deployments st5),
            es_runtimes := rts\<rparr>"
    have run: "write_adoption fence book prepared st = (get_deployment ?dep st6, st6)"
      by (simp add: write_adoption_def Let_def and_then_def 1 2 3 4 5 6 [unfolded id, folded st6_def])
    have "map_of (es_deployments st6) ?dep = Some (?d\<lparr>d_revision := d_revision current + 1\<rparr>)"
      by (simp add: st6_def update_conv')
    then obtain s where s: "get_deployment ?dep st6 = Inr s" by (simp add: get_deployment_def Let_def)
    have "es_orders st2 = es_orders (snd (save_order (ar_order (pa_records prepared)) st))"
      using keep(9) by (simp add: st2_def save_order_def put_order_def find_client_order_def Let_def split: option.splits)
    moreover have "es_fills st3 = es_fills (snd (save_fill (pa_fill prepared) st))"
      using keep(7,8) by (simp add: st3_def save_fill_def)
    moreover have "es_positions st4 = es_positions (snd (save_position (s_position (pa_projected prepared)) ?dep (Some ?prod) st))"
      using keep(6) by (simp add: st4_def save_position_def Let_def split: option.splits)
    ultimately have "es_deployments st6 = AList.update ?dep (?d\<lparr>d_revision := d_revision current + 1\<rparr>) (es_deployments st)"
        "es_intents st6 = AList.update (i_id ?i) ?i (es_intents st)"
        "es_orders st6 = es_orders (snd (save_order (ar_order (pa_records prepared)) st))"
        "es_fills st6 = es_fills (snd (save_fill (pa_fill prepared) st))"
        "es_positions st6 = es_positions (snd (save_position (s_position (pa_projected prepared)) ?dep (Some ?prod) st))"
      using keep by (simp_all add: st6_def st1_def)
    with run s show ?thesis by auto
  qed
qed

section \<open>The run of an adoption\<close>

lemma adoptE:
  assumes "adopt_inventory fence ids ck w read_balances st = (r, st')"
  obtains (refused) "isl r" "st' = st"
  | (writing) base live_books balances book prepared where
      "spot_base_currency (aw_product_id w) = Inr base" "load_books (live_ids st) st = Inr live_books"
      "read_balances = Some balances" "target_book w st = Inr book"
      "prepare_adoption ids ck w book live_books balances = Inr prepared"
      "\<not> (case aw_idempotency_key w of None \<Rightarrow> False | Some key \<Rightarrow> get_intent_by_idempotency_key key st \<noteq> None)"
      "(case and_then (insert_book w) (\<lambda>_. write_adoption fence book prepared) st of
          (Inl e, st') \<Rightarrow> (Inl (Raised e), st')
        | (Inr s, st') \<Rightarrow> (Inr \<lparr>co_snapshot = s, co_records = pa_records prepared,
            co_availability = pa_availability prepared\<rparr>, st')) = (r, st')"
proof -
  consider (base) e where "aw_base w = Inl e" | (books) base e where "aw_base w = Inr base" "load_books (live_ids st) st = Inl e"
    | (loaded) base live_books where "aw_base w = Inr base" "load_books (live_ids st) st = Inr live_books"
    by (cases "aw_base w"; cases "load_books (live_ids st) st") auto
  then show thesis
  proof cases
    case (loaded base live_books)
    note l = loaded
    show thesis
    proof (cases "read_balances = None \<or> isl (target_book w st)")
      case True
      then show thesis using assms l
        by (intro refused) (auto simp: adopt_inventory_def read_venue_balances_def split: sum.splits option.splits)
    next
      case False
      then obtain balances book where b: "read_balances = Some balances" "target_book w st = Inr book"
        by (cases "target_book w st") auto
      show thesis
      proof (cases "prepare_adoption ids ck w book live_books balances")
        case (Inl e)
        then show thesis using assms l b by (intro refused) (auto simp: adopt_inventory_def read_venue_balances_def)
      next
        case (Inr prepared)
        let ?used = "case aw_idempotency_key w of None \<Rightarrow> False | Some key \<Rightarrow> get_intent_by_idempotency_key key st \<noteq> None"
        show thesis
        proof (cases ?used)
          case True
          then show thesis using assms l b Inr by (intro refused) (auto simp: adopt_inventory_def read_venue_balances_def)
        next
          case False
          then show thesis using assms l b Inr by (intro writing) (simp_all add: adopt_inventory_def read_venue_balances_def aw_base_def)
        qed
      qed
    qed
  qed (use assms in \<open>auto simp: adopt_inventory_def intro: refused\<close>)
qed

text \<open>The book written to: after the insert, the store has its row.\<close>

lemma insert_bookD:
  assumes "insert_book w st = (r, st1)"
  shows "r = Inl e \<Longrightarrow> st1 = st"
    and "r = Inr u \<Longrightarrow> st1 = (case aw_new_deployment w of None \<Rightarrow> st | Some created \<Rightarrow> put_deployment created st)"
  using assms
  by (auto simp: insert_book_def create_deployment_def split: option.splits if_splits sum.splits prod.splits)

lemma target_bookD:
  assumes "target_book w st = Inr book" "store_ok st"
  shows "d_id (s_deployment book) = aw_deployment_id w"
    and "aw_new_deployment w = None \<Longrightarrow> get_deployment (aw_deployment_id w) st = Inr book"
    and "aw_new_deployment w = Some created \<Longrightarrow> book = flat_snapshot created \<and> map_of (es_deployments st) (d_id created) = None"
  using assms(1)
  by (auto simp: target_book_def flat_snapshot_def split: option.splits if_splits dest: get_deployment_SomeD(2) [OF assms(2)])

lemma prepared_identity:
  assumes "prepare_adoption ids ck w book live_books balances = Inr prepared"
  shows "i_purpose (ar_intent (pa_records prepared)) = ADOPTION"
    "i_idempotency_key (ar_intent (pa_records prepared)) = aw_idempotency_key w"
    "i_deployment_id (ar_intent (pa_records prepared)) = aw_deployment_id w"
    "d_id (s_deployment (pa_projected prepared)) = d_id (s_deployment book)"
proof -
  from assms obtain q where r: "adoption_records ids (aw_deployment_id w) (aw_product_id w) q (aw_mark w)
        (aw_mark_bar_starts_at w) (aw_now w) (aw_origin w) (aw_idempotency_key w) = Inr (pa_records prepared)"
    and p: "project_adoption ck book (pa_records prepared) (aw_stop_price w) (aw_target_price w)
       = Inr (pa_projected prepared, pa_fill prepared)"
    by (rule prepareE)
  show "i_purpose (ar_intent (pa_records prepared)) = ADOPTION"
    "i_idempotency_key (ar_intent (pa_records prepared)) = aw_idempotency_key w"
    "i_deployment_id (ar_intent (pa_records prepared)) = aw_deployment_id w"
    unfolding adoption_recordsD(1) [OF r] by (simp_all add: adoption_intent_def)
  from p obtain staged where "project_fill_economics 0 (d_timeframe (s_deployment book)) ck
       (book\<lparr>s_deployment := staged, s_intents := s_intents book @ [ar_intent (pa_records prepared)],
          s_orders := s_orders book @ [ar_order (pa_records prepared)]\<rparr>) (ar_fill (pa_records prepared))
       (ar_order (pa_records prepared)) = Inr (pa_projected prepared, pa_fill prepared)" "d_id staged = d_id (s_deployment book)"
    by (rule project_adoptionE)
  then show "d_id (s_deployment (pa_projected prepared)) = d_id (s_deployment book)"
    using fill_economics_frame(2) by fastforce
qed

text \<open>C22: 
  An adoption that is refused or raises leaves the store as it was, also when it would have inserted a
  new book: every check runs before the first write and the writes themselves cannot fail. A new book is
  created without a worker lease; an existing one may be fenced.
\<close>

theorem adoption_refusal_writes_nothing:
  assumes "adopt_inventory fence ids ck w read_balances st = (Inl e, st')" "store_ok st"
    "\<forall>created. aw_new_deployment w = Some created \<longrightarrow> d_worker_lease_holder created = None"
  shows "st' = st"
  using assms(1)
proof (cases rule: adoptE)
  case (writing base live_books balances book prepared)
  obtain r1 st1 where ins: "insert_book w st = (r1, st1)" by fastforce
  show ?thesis
  proof (cases r1)
    case (Inl e1)
    then show ?thesis using writing(7) ins insert_bookD(1) [OF ins] by (simp add: and_then_def)
  next
    case (Inr u)
    note st1 = insert_bookD(2) [OF ins Inr] and book = target_bookD [OF writing(4) assms(2)]
    note ident = prepared_identity [OF writing(5)]
    have run: "write_adoption fence book prepared st1 = (Inl e', st') \<Longrightarrow> st' = st" for e'
    proof -
      assume w: "write_adoption fence book prepared st1 = (Inl e', st')"
      have intents: "es_intents st1 = es_intents st" using st1 by (simp add: put_deployment_def split: option.splits)
      then have idem: "\<not> (case i_idempotency_key (ar_intent (pa_records prepared)) of
           None \<Rightarrow> False | Some key \<Rightarrow> get_intent_by_idempotency_key key st1 \<noteq> None)"
        using writing(6) ident(2) by (simp add: get_intent_by_idempotency_key_def split: option.splits)
      show ?thesis
      proof (cases "aw_new_deployment w")
        case None
        then have here: "st1 = st" "map_of (es_deployments st1) (d_id (s_deployment book)) = Some (s_deployment book)"
          using st1 book(1) book(2) get_deployment_SomeD(1) [OF assms(2)] by auto
        from write_adoption_run [OF ident(1,4) here(2) idem, of fence] w here(1) show ?thesis by auto
      next
        case (Some created)
        then have here: "st1 = put_deployment created st" "book = flat_snapshot created" using st1 book(3) by auto
        have row: "map_of (es_deployments st1) (d_id (s_deployment book)) = Some created"
          by (simp add: here put_deployment_def flat_snapshot_def update_conv')
        then have "require_lease_holder fence (aw_deployment_id w) (case map_of (es_deployments st1) (aw_deployment_id w) of
               None \<Rightarrow> None | Some d \<Rightarrow> d_worker_lease_holder d) = Inr ()"
          using assms(3) Some book(1) by (simp add: require_lease_holder_def split: option.splits)
        with write_adoption_run [OF ident(1,4) row idem, of fence] w ident(3) show ?thesis by auto
      qed
    qed
    then show ?thesis using writing(7) ins Inr by (auto simp: and_then_def split: sum.splits prod.splits)
  qed
qed

section \<open>Claims of a whole store\<close>

definition key_claims :: "string \<Rightarrow> execution_store \<Rightarrow> uuid \<Rightarrow> rat" where
  "key_claims base st i = (case get_deployment i st of Inl _ \<Rightarrow> 0 | Inr s \<Rightarrow> book_claims base s)"

definition store_claims :: "string \<Rightarrow> execution_store \<Rightarrow> rat" where
  "store_claims base st = (\<Sum>i \<leftarrow> map fst (es_deployments st). key_claims base st i)"

definition positions_of :: "uuid \<Rightarrow> execution_store \<Rightarrow> position list" where
  "positions_of dep st = map snd (filter (\<lambda>((stored_id, _), _). stored_id = dep) (es_positions st))"

lemma loaded_positions:
  assumes "get_deployment dep st = Inr s"
  shows "snapshot_positions s = positions_of dep st" "s_intents s = filter (\<lambda>i. i_deployment_id i = dep) (intents_of st)"
    "s_orders s = filter (\<lambda>ord. o_deployment_id ord = dep) (orders_of st)"
    "s_fills s = filter (\<lambda>fl. f_deployment_id fl = dep) (fills_of st)"
    "map_of (es_deployments st) dep = Some (s_deployment s)"
  using assms
  by (auto simp: get_deployment_def Let_def snapshot_positions_def positions_of_def focused_position_def split: option.splits)

lemma load_books_claims:
  assumes "load_books (map d_id (filter (\<lambda>d. d_mode d = LIVE) (map snd xs))) st = Inr bs"
    and "\<forall>(i, d) \<in> set xs. d_id d = i \<and> map_of (es_deployments st) i = Some d"
  shows "exact_claims base bs = (\<Sum>i \<leftarrow> map fst xs. key_claims base st i)"
  using assms
proof (induction xs arbitrary: bs)
  case (Cons x xs)
  obtain i d where x: "x = (i, d)" by (cases x)
  with Cons.prems(2) have i: "d_id d = i" "map_of (es_deployments st) i = Some d" by auto
  show ?case
  proof (cases "d_mode d = LIVE")
    case True
    then obtain s ss where s: "get_deployment i st = Inr s" "bs = s # ss"
        "load_books (map d_id (filter (\<lambda>d. d_mode d = LIVE) (map snd xs))) st = Inr ss"
      using Cons.prems(1) x i by auto
    then show ?thesis using Cons.IH [OF s(3)] Cons.prems(2) x by (simp add: exact_claims_def key_claims_def)
  next
    case False
    obtain s where s: "get_deployment i st = Inr s" "s_deployment s = d"
      using i by (auto simp: get_deployment_def Let_def)
    have "key_claims base st i = 0" using False s by (simp add: key_claims_def book_claims_def)
    then show ?thesis using Cons False x by simp
  qed
qed (simp add: exact_claims_def)

lemma live_books_claims:
  assumes "store_ok st" "load_books (live_ids st) st = Inr bs"
  shows "exact_claims base bs = store_claims base st"
  unfolding store_claims_def
proof (rule load_books_claims [OF assms(2) [unfolded live_ids_def]])
  show "\<forall>(i, d) \<in> set (es_deployments st). d_id d = i \<and> map_of (es_deployments st) i = Some d"
    using assms(1) by (auto simp: store_ok_def keyed_def)
qed

lemma sum_list_bump:
  assumes "distinct ks" "a \<in> set ks" "f' a = f a + (q :: rat)" "\<And>i. i \<in> set ks \<Longrightarrow> i \<noteq> a \<Longrightarrow> f' i = f i"
  shows "(\<Sum>i \<leftarrow> ks. f' i) = (\<Sum>i \<leftarrow> ks. f i) + q"
  using assms
proof (induction ks)
  case (Cons b ks)
  show ?case
  proof (cases "b = a")
    case True
    then have "(\<Sum>i \<leftarrow> ks. f' i) = (\<Sum>i \<leftarrow> ks. f i)" using Cons.prems by (intro sum_list_cong) auto
    then show ?thesis using True Cons.prems(3) by simp
  next
    case False
    then show ?thesis using Cons by simp
  qed
qed simp

lemma update_absent: "i \<notin> fst ` set xs \<Longrightarrow> AList.update i v xs = xs @ [(i, v)]"
  by (induction xs) auto

lemma update_keys_present: "i \<in> fst ` set xs \<Longrightarrow> map fst (AList.update i v xs) = map fst xs"
  by (induction xs) auto

text \<open>A book's claims depend on its rows and on the mode and product of its deployment only.\<close>

lemma book_claims_cong:
  assumes "snapshot_positions s' = snapshot_positions s" "s_orders s' = s_orders s" "s_intents s' = s_intents s"
    "d_mode (s_deployment s') = d_mode (s_deployment s)" "d_product_id (s_deployment s') = d_product_id (s_deployment s)"
  shows "book_claims base s' = book_claims base s"
proof -
  have n: "names_base base (s_deployment s') p = names_base base (s_deployment s) p" for p
    using assms(5) by (simp add: names_base_def resolved_product_id_def)
  have "position_claim base (s_deployment s') = position_claim base (s_deployment s)"
    "order_claim base s' = order_claim base s" "intent_claim base s' = intent_claim base s"
    by (auto simp: fun_eq_iff position_claim_def order_claim_def intent_claim_def order_purpose_def n assms)
  then show ?thesis using assms by (simp add: book_claims_def)
qed

text \<open>Adding a long of the base, a filled order and an adoption intent with new identities adds the long's
  quantity and nothing else.\<close>

lemma book_claims_adopted:
  assumes rows: "snapshot_positions s' = snapshot_positions s @ [pos]" "s_orders s' = s_orders s @ [ord]"
      "s_intents s' = s_intents s @ [intent]"
    and d: "d_mode (s_deployment s') = LIVE" "d_mode (s_deployment s) = LIVE"
      "d_product_id (s_deployment s') = d_product_id (s_deployment s)"
    and pos: "p_side pos = LONG" "names_base base (s_deployment s) (p_product_id pos)"
    and ord: "o_status ord = FILLED" "o_intent_id ord = i_id intent" and intent: "i_purpose intent = ADOPTION"
    and fresh: "i_id intent \<notin> o_intent_id ` set (s_orders s)" "i_id intent \<notin> i_id ` set (s_intents s)"
  shows "book_claims base s' = book_claims base s + p_quantity pos"
proof -
  have n: "names_base base (s_deployment s') p = names_base base (s_deployment s) p" for p
    using d(3) by (simp add: names_base_def resolved_product_id_def)
  have "(\<Sum>x \<leftarrow> snapshot_positions s'. position_claim base (s_deployment s') x)
      = (\<Sum>x \<leftarrow> snapshot_positions s. position_claim base (s_deployment s) x) + p_quantity pos"
    using pos by (simp add: rows position_claim_def n)
  moreover have "(\<Sum>x \<leftarrow> s_orders s'. order_claim base s' x) = (\<Sum>x \<leftarrow> s_orders s. order_claim base s x)"
  proof -
    have "order_purpose s' x = order_purpose s x" if "x \<in> set (s_orders s)" for x
    proof -
      have "o_intent_id x \<noteq> i_id intent" using that fresh(1) by (metis imageI)
      then show ?thesis by (simp add: order_purpose_def rows)
    qed
    then have "(\<Sum>x \<leftarrow> s_orders s. order_claim base s' x) = (\<Sum>x \<leftarrow> s_orders s. order_claim base s x)"
      by (intro sum_list_cong) (simp add: order_claim_def n)
    then show ?thesis using ord(1) by (simp add: rows order_claim_def WORKING_STATUSES_def)
  qed
  moreover have "(\<Sum>x \<leftarrow> s_intents s'. intent_claim base s' x) = (\<Sum>x \<leftarrow> s_intents s. intent_claim base s x)"
  proof -
    have "(\<Sum>x \<leftarrow> s_intents s. intent_claim base s' x) = (\<Sum>x \<leftarrow> s_intents s. intent_claim base s x)"
    proof (rule sum_list_cong)
      fix x assume "x \<in> set (s_intents s)"
      then have "i_id x \<noteq> i_id intent" using fresh(2) by (metis imageI)
      then show "intent_claim base s' x = intent_claim base s x" by (simp add: intent_claim_def n rows ord(2))
    qed
    then show ?thesis using intent by (simp add: rows intent_claim_def)
  qed
  ultimately show ?thesis using d by (simp add: book_claims_def)
qed

section \<open>The store after a committed adoption\<close>

text \<open>The new identities are new: no row of the store has them or refers to them.\<close>

definition fresh_ids :: "adoption_ids \<Rightarrow> uuid \<Rightarrow> execution_store \<Rightarrow> bool" where
  "fresh_ids ids dep st \<longleftrightarrow>
     ai_intent ids \<notin> set (map fst (es_intents st)) \<and> ai_intent ids \<notin> set (map i_id (intents_of st))
     \<and> ai_intent ids \<notin> set (map o_intent_id (orders_of st)) \<and> ai_order ids \<notin> set (map fst (es_orders st))
     \<and> ai_order ids \<notin> set (map f_order_id (fills_of st)) \<and> ai_fill ids \<notin> set (map fst (es_fills st))
     \<and> adoption_client_order_id dep (ai_client ids) \<notin> set (map o_client_order_id (orders_of st))
     \<and> (dep, adoption_client_order_id dep (ai_client ids) @ '':fill'') \<notin> set (es_fill_keys st)"

text \<open>A position is stored under its own product, and no row belongs to a book the store does not have.\<close>

definition rows_owned :: "execution_store \<Rightarrow> bool" where
  "rows_owned st \<longleftrightarrow>
     list_all (\<lambda>((dep, product), pos). p_product_id pos = product \<and> dep \<in> set (map fst (es_deployments st))) (es_positions st)
     \<and> list_all (\<lambda>ord. o_deployment_id ord \<in> set (map fst (es_deployments st))) (orders_of st)
     \<and> list_all (\<lambda>fl. f_deployment_id fl \<in> set (map fst (es_deployments st))) (fills_of st)
     \<and> list_all (\<lambda>i. i_deployment_id i \<in> set (map fst (es_deployments st))) (intents_of st)"

lemma new_book_rows:
  assumes "rows_owned st" "dep \<notin> set (map fst (es_deployments st))"
  shows "positions_of dep st = []" "filter (\<lambda>i. i_deployment_id i = dep) (intents_of st) = []"
    "filter (\<lambda>ord. o_deployment_id ord = dep) (orders_of st) = []"
    "filter (\<lambda>fl. f_deployment_id fl = dep) (fills_of st) = []"
  using assms by (auto simp: rows_owned_def positions_of_def list_all_iff filter_empty_conv)

text \<open>The book as the store has it just before the writes: the row is there and its rows are those of
  the book that was checked.\<close>

definition ready :: "adoption_write \<Rightarrow> deployment_snapshot \<Rightarrow> execution_store \<Rightarrow> execution_store \<Rightarrow> bool" where
  "ready w book st st1 \<longleftrightarrow>
     map_of (es_deployments st1) (aw_deployment_id w) = Some (s_deployment book)
     \<and> snapshot_positions book = positions_of (aw_deployment_id w) st1
     \<and> s_orders book = filter (\<lambda>ord. o_deployment_id ord = aw_deployment_id w) (orders_of st1)
     \<and> s_fills book = filter (\<lambda>fl. f_deployment_id fl = aw_deployment_id w) (fills_of st1)
     \<and> s_intents book = filter (\<lambda>i. i_deployment_id i = aw_deployment_id w) (intents_of st1)
     \<and> (\<exists>ds. st1 = st\<lparr>es_deployments := ds\<rparr>) \<and> distinct (map fst (es_deployments st1))
     \<and> (\<forall>base. store_claims base st1 = store_claims base st)"

lemma insert_book_ready:
  assumes "insert_book w st = (Inr u, st1)" "target_book w st = Inr book" "store_ok st" "rows_owned st"
  shows "ready w book st st1"
proof (cases "aw_new_deployment w")
  case None
  then have "st1 = st" "get_deployment (aw_deployment_id w) st = Inr book"
    using insert_bookD(2) [OF assms(1)] target_bookD(2) [OF assms(2,3)] by auto
  then show ?thesis using loaded_positions [of _ st book] assms(3)
    by (auto simp: ready_def store_ok_def keyed_def intro: exI [of _ "es_deployments st"])
next
  case (Some created)
  note b = target_bookD [OF assms(2,3)]
  have st1: "st1 = put_deployment created st" and book: "book = flat_snapshot created"
    and new: "map_of (es_deployments st) (d_id created) = None" and id: "d_id created = aw_deployment_id w"
    using insert_bookD(2) [OF assms(1)] b Some by (auto simp: flat_snapshot_def)
  let ?dep = "aw_deployment_id w"
  have absent: "?dep \<notin> set (map fst (es_deployments st))" using new id by (simp add: map_of_eq_None_iff)
  then have ds: "es_deployments st1 = es_deployments st @ [(?dep, created)]"
    by (simp add: st1 put_deployment_def id update_absent)
  have st1': "st1 = st\<lparr>es_deployments := es_deployments st @ [(?dep, created)]\<rparr>" using ds by (simp add: st1 put_deployment_def)
  note none = new_book_rows [OF assms(4) absent]
  have row: "map_of (es_deployments st1) ?dep = Some created"
    using absent unfolding ds map_of_append by (simp add: map_add_def map_of_eq_None_iff [symmetric])
  have other: "key_claims base st1 i = key_claims base st i" if "i \<noteq> ?dep" for base i
  proof -
    have "map_of (es_deployments st1) i = map_of (es_deployments st) i"
      using that unfolding ds map_of_append by (simp add: map_add_def split: option.splits)
    then have "get_deployment i st1 = get_deployment i st" by (simp add: get_deployment_def st1' Let_def split: option.splits)
    then show ?thesis by (simp add: key_claims_def)
  qed
  have own: "key_claims base st1 ?dep = 0" for base
  proof -
    obtain s where s: "get_deployment ?dep st1 = Inr s" using row by (simp add: get_deployment_def Let_def)
    have "snapshot_positions s = []" "s_orders s = []" "s_intents s = []"
      using loaded_positions [OF s] none by (simp_all add: st1' positions_of_def)
    then show ?thesis by (simp add: key_claims_def s book_claims_def)
  qed
  have "store_claims base st1 = store_claims base st" for base
  proof -
    have "(\<Sum>i \<leftarrow> map fst (es_deployments st). key_claims base st1 i)
        = (\<Sum>i \<leftarrow> map fst (es_deployments st). key_claims base st i)"
    proof (rule sum_list_cong, rule other)
      fix i assume "i \<in> set (map fst (es_deployments st))"
      then show "i \<noteq> ?dep" using absent by metis
    qed
    then show ?thesis using own by (simp add: store_claims_def ds)
  qed
  then show ?thesis using row none absent assms(3)
    by (auto simp: ready_def book flat_snapshot_def snapshot_positions_def st1' positions_of_def store_ok_def keyed_def)
qed

text \<open>Rows with new identities are appended.\<close>

lemma appended_rows:
  assumes "fresh_ids ids dep st"
  shows "map snd (AList.update (ai_intent ids) intent (es_intents st)) = intents_of st @ [intent]"
    "orders_of (snd (save_order (adoption_order ids dep product q mark now) st))
       = orders_of st @ [adoption_order ids dep product q mark now]"
    "fills_of (snd (save_fill (adoption_fill ids dep q mark now) st)) = fills_of st @ [adoption_fill ids dep q mark now]"
proof -
  have fresh: "ai_intent ids \<notin> fst ` set (es_intents st)" "ai_order ids \<notin> fst ` set (es_orders st)"
      "ai_fill ids \<notin> fst ` set (es_fills st)" "find_client_order (adoption_client_order_id dep (ai_client ids)) st = None"
      "(dep, adoption_client_order_id dep (ai_client ids) @ '':fill'') \<notin> set (es_fill_keys st)"
    using assms by (auto simp: fresh_ids_def find_client_order_def find_None_iff image_iff Ball_def) metis
  show "map snd (AList.update (ai_intent ids) intent (es_intents st)) = intents_of st @ [intent]"
    using fresh(1) by (simp add: update_absent)
  show "orders_of (snd (save_order (adoption_order ids dep product q mark now) st))
      = orders_of st @ [adoption_order ids dep product q mark now]"
    using fresh(2,4)
    by (simp add: adoption_order_def save_order_def put_order_def with_cancel_time_def Let_def update_absent)
  show "fills_of (snd (save_fill (adoption_fill ids dep q mark now) st)) = fills_of st @ [adoption_fill ids dep q mark now]"
    using fresh(3,5) by (simp add: adoption_fill_def save_fill_def fill_key_def update_absent)
qed

text \<open>A flat product has no position row in a store whose rows are owned.\<close>

lemma flat_product_unstored:
  assumes "project_adoption ck book records stop target = Inr (s', fl)" "rows_owned st" "ready w book st st1"
    "o_product_id (ar_order records) = product"
  shows "(aw_deployment_id w, product) \<notin> fst ` set (es_positions st1)"
proof
  assume "(aw_deployment_id w, product) \<in> fst ` set (es_positions st1)"
  then obtain old where o: "((aw_deployment_id w, product), old) \<in> set (es_positions st1)" by auto
  obtain ds where st1: "st1 = st\<lparr>es_deployments := ds\<rparr>" using assms(3) by (auto simp: ready_def)
  have "old \<in> set (snapshot_positions book)" using assms(3) o by (force simp: ready_def positions_of_def)
  moreover have "p_product_id old = product" using o assms(2) by (auto simp: rows_owned_def list_all_iff st1)
  moreover have "\<forall>pos \<in> set (snapshot_positions book). resolved_product_id (p_product_id pos) (s_deployment book)
     \<noteq> resolved_product_id (o_product_id (ar_order records)) (s_deployment book)"
    using assms(1) by (rule project_adoptionE)
  ultimately show False using assms(4) by metis
qed

lemma key_claims_cong:
  assumes "map_of (es_deployments st') i = map_of (es_deployments st) i" "positions_of i st' = positions_of i st"
    "filter (\<lambda>ord. o_deployment_id ord = i) (orders_of st') = filter (\<lambda>ord. o_deployment_id ord = i) (orders_of st)"
    "filter (\<lambda>it. i_deployment_id it = i) (intents_of st') = filter (\<lambda>it. i_deployment_id it = i) (intents_of st)"
  shows "key_claims base st' i = key_claims base st i"
proof (cases "map_of (es_deployments st) i")
  case None
  then show ?thesis using assms(1) by (simp add: key_claims_def get_deployment_def)
next
  case (Some d)
  then obtain s s1 where s: "get_deployment i st' = Inr s" "get_deployment i st = Inr s1"
    using assms(1) by (simp add: get_deployment_def Let_def)
  note l = loaded_positions [OF s(1)] and l1 = loaded_positions [OF s(2)]
  have "book_claims base s = book_claims base s1"
    using assms l(5) l1(5) by (intro book_claims_cong) (simp_all add: l l1)
  then show ?thesis by (simp add: key_claims_def s)
qed

text \<open>The rows of the book after the commit: one order, intent, fill and long more, in the store the
  commit leaves.\<close>

lemma committedE:
  assumes run: "adopt_inventory fence ids ck w (Some balances) st = (Inr commit, st')"
    and ok: "store_ok st" "rows_owned st" "fresh_ids ids (aw_deployment_id w) st"
    and book: "target_book w st = Inr book" "single_product_book (aw_product_id w) book"
  obtains live_books prepared st1 pos where "load_books (live_ids st) st = Inr live_books"
    "prepare_adoption ids ck w book live_books balances = Inr prepared" "ready w book st st1"
    "co_records commit = pa_records prepared" "get_deployment (aw_deployment_id w) st' = Inr (co_snapshot commit)"
    "snapshot_positions (co_snapshot commit) = snapshot_positions book @ [pos]"
    "s_orders (co_snapshot commit) = s_orders book @ [ar_order (pa_records prepared)]"
    "s_intents (co_snapshot commit) = s_intents book @ [ar_intent (pa_records prepared)]"
    "s_fills (co_snapshot commit) = s_fills book @ [ar_fill (pa_records prepared)]"
    "p_quantity pos = adopted_amount prepared" "p_side pos = LONG" "p_product_id pos = aw_product_id w"
    "p_entry_price pos = aw_mark w" "p_stop_price pos = aw_stop_price w" "p_target_price pos = aw_target_price w"
    "d_cash (s_deployment (co_snapshot commit)) = dsub (dsub (d_cash (s_deployment book)) (dmul (aw_mark w) (adopted_amount prepared))) 0"
    "d_status (s_deployment (co_snapshot commit)) = d_status (s_deployment book)"
    "d_mode (s_deployment (co_snapshot commit)) = LIVE" "d_mode (s_deployment book) = LIVE"
    "d_product_id (s_deployment (co_snapshot commit)) = d_product_id (s_deployment book)"
    "d_revision (s_deployment (co_snapshot commit)) = d_revision (s_deployment book) + 1"
    "map fst (es_deployments st') = map fst (es_deployments st1)"
    "\<forall>i base. i \<noteq> aw_deployment_id w \<longrightarrow> key_claims base st' i = key_claims base st1 i"
proof -
  from run obtain base live_books prepared where a: "load_books (live_ids st) st = Inr live_books"
      "prepare_adoption ids ck w book live_books balances = Inr prepared"
      "\<not> (case aw_idempotency_key w of None \<Rightarrow> False | Some key \<Rightarrow> get_intent_by_idempotency_key key st \<noteq> None)"
      "(case and_then (insert_book w) (\<lambda>_. write_adoption fence book prepared) st of
          (Inl e, st') \<Rightarrow> (Inl (Raised e), st')
        | (Inr s, st') \<Rightarrow> (Inr \<lparr>co_snapshot = s, co_records = pa_records prepared,
            co_availability = pa_availability prepared\<rparr>, st')) = (Inr commit, st')"
    using book(1) by (cases rule: adoptE) auto
  obtain st1 u where ins: "insert_book w st = (Inr u, st1)"
    and wr: "write_adoption fence book prepared st1 = (Inr (co_snapshot commit), st')" "co_records commit = pa_records prepared"
    using a(4) by (auto simp: and_then_def split: prod.splits sum.splits)
  note rdy = insert_book_ready [OF ins book(1) ok(1,2)]
  obtain ds where st1: "st1 = st\<lparr>es_deployments := ds\<rparr>" using rdy by (auto simp: ready_def)
  note ident = prepared_identity [OF a(2)] and dep = target_bookD(1) [OF book(1) ok(1)]
  obtain q where rec: "adoption_records ids (aw_deployment_id w) (aw_product_id w) q (aw_mark w)
        (aw_mark_bar_starts_at w) (aw_now w) (aw_origin w) (aw_idempotency_key w) = Inr (pa_records prepared)"
    and proj: "project_adoption ck book (pa_records prepared) (aw_stop_price w) (aw_target_price w)
       = Inr (pa_projected prepared, pa_fill prepared)"
    using a(2) by (rule prepareE)
  note R = adoption_recordsD [OF rec]
  have q: "q = adopted_amount prepared" using records_amount [OF rec] by simp
  have live: "d_mode (s_deployment book) = LIVE" using proj by (rule project_adoptionE)
  obtain pos where P: "s_position (pa_projected prepared) = Some pos" "p_quantity pos = q" "p_entry_price pos = aw_mark w"
    "p_stop_price pos = aw_stop_price w" "p_target_price pos = aw_target_price w" "p_side pos = LONG"
    "p_product_id pos = aw_product_id w" "pa_fill prepared = adoption_fill ids (aw_deployment_id w) q (aw_mark w) (aw_now w)"
    "d_cash (s_deployment (pa_projected prepared)) = dsub (dsub (d_cash (s_deployment book)) (dmul (aw_mark w) q)) 0"
    "d_status (s_deployment (pa_projected prepared)) = d_status (s_deployment book)"
    "d_mode (s_deployment (pa_projected prepared)) = LIVE"
    "d_product_id (s_deployment (pa_projected prepared)) = d_product_id (s_deployment book)"
    by (rule adoption_opens [OF proj R(1) book(2) R(2)])
  have row: "map_of (es_deployments st1) (d_id (s_deployment book)) = Some (s_deployment book)"
    using rdy dep by (simp add: ready_def)
  have idem: "\<not> (case i_idempotency_key (ar_intent (pa_records prepared)) of
       None \<Rightarrow> False | Some key \<Rightarrow> get_intent_by_idempotency_key key st1 \<noteq> None)"
    using a(3) ident(2) by (simp add: get_intent_by_idempotency_key_def st1 split: option.splits)
  let ?dep = "aw_deployment_id w"
  let ?saved = "(fill_projection_deployment book (pa_projected prepared))\<lparr>d_revision := d_revision (s_deployment book) + 1\<rparr>"
  have W: "get_deployment ?dep st' = Inr (co_snapshot commit)"
      "es_deployments st' = AList.update ?dep ?saved (es_deployments st1)"
      "es_intents st' = AList.update (i_id (ar_intent (pa_records prepared))) (ar_intent (pa_records prepared)) (es_intents st1)"
      "es_orders st' = es_orders (snd (save_order (ar_order (pa_records prepared)) st1))"
      "es_fills st' = es_fills (snd (save_fill (pa_fill prepared) st1))"
      "es_positions st' = es_positions (snd (save_position (s_position (pa_projected prepared)) ?dep
          (Some (resolved_product_id (o_product_id (ar_order (pa_records prepared))) (s_deployment book))) st1))"
    using write_adoption_run [OF ident(1,4) row idem, of fence] wr(1) dep by auto
  have "fresh_ids ids ?dep st1" using ok(3) by (simp add: fresh_ids_def st1)
  note app = appended_rows [OF this]
  have rows: "intents_of st' = intents_of st1 @ [ar_intent (pa_records prepared)]"
      "orders_of st' = orders_of st1 @ [ar_order (pa_records prepared)]"
      "fills_of st' = fills_of st1 @ [ar_fill (pa_records prepared)]"
    by (simp_all add: W R(1) P(8) app) (simp add: adoption_intent_def app)
  have "(?dep, aw_product_id w) \<notin> fst ` set (es_positions st1)"
    by (rule flat_product_unstored [OF proj ok(2) rdy]) (simp add: R(1) adoption_order_def)
  then have posn: "es_positions st' = es_positions st1 @ [((?dep, aw_product_id w), pos)]"
    using R(2) P(7) by (simp add: W(6) P(1) save_position_eq update_absent)
  note L = loaded_positions [OF W(1)]
  have present: "?dep \<in> fst ` set (es_deployments st1)" using row dep by (metis map_of_eq_None_iff option.distinct(1))
  have dsn: "s_deployment (co_snapshot commit) = ?saved" using L(5) by (simp add: W(2) update_conv')
  have keep: "d_cash ?saved = d_cash (s_deployment (pa_projected prepared))" "d_status ?saved = d_status (s_deployment (pa_projected prepared))"
      "d_mode ?saved = LIVE" "d_product_id ?saved = d_product_id (s_deployment book)"
    using P(11,12) live by (simp_all add: fill_projection_deployment_def)
  have other: "key_claims base st' i = key_claims base st1 i" if "i \<noteq> ?dep" for i base
    by (rule key_claims_cong)
      (use that in \<open>simp_all add: W(2) update_conv' positions_of_def posn rows R(1) adoption_order_def adoption_intent_def\<close>)
  show ?thesis
    by (rule that [OF a(1,2) rdy wr(2) W(1), of pos])
      (use rdy P q keep live other present in \<open>simp_all add: L(1-4) rows dsn positions_of_def posn ready_def W(2)
         update_keys_present R(1) adoption_order_def adoption_intent_def adoption_fill_def\<close>)
qed

lemma spot_base_is_spot: "spot_base_currency p = Inr base \<Longrightarrow> is_spot_product_id p"
  by (auto simp: spot_base_currency_def parse_spot_product_id_def normalize_spot_product_id_def is_spot_product_id_def Let_def
      split: if_splits)

section \<open>Properties\<close>

text \<open>C20: 
  A prepared adoption takes a positive whole number of base increments that the venue's one balance row of
  the base has available, and together with everything the live books own or will own of the base it never
  exceeds what the venue holds. Quantities are on a grid of \<open>k\<close> decimal places and the balance
  has at most 27 digits there; the claims may be of any size. No claim is unresolved.
\<close>

theorem adoption_takes_only_unmanaged_base:
  assumes "prepare_adoption ids ck w book live_books balances = Inr prepared"
    "spot_base_currency (aw_product_id w) = Inr base"
    "list_all (grid_balance k) balances" "list_all (grid_book k) live_books"
    "on_grid k (aw_base_increment w)" "0 < aw_base_increment w"
  shows "\<exists>row n. filter (\<lambda>row. eb_currency row = base) balances = [row]
      \<and> mc_unresolved (managed_base_claims live_books base) = []
      \<and> adopted_amount prepared = of_int n * aw_base_increment w \<and> 0 < adopted_amount prepared
      \<and> adopted_amount prepared \<le> eb_available row
      \<and> exact_claims base live_books + adopted_amount prepared \<le> eb_available row + eb_hold row"
  by (rule prepared_bounds [OF assms]) blast

text \<open>C19: 
  A committed adoption is counted: the claims the live books of the store have on the base grow by exactly
  the adopted amount, and what they claim afterwards is still within what the venue holds. Adopting again
  against the same balance therefore cannot take the same coins twice.
\<close>

theorem adoption_counts_against_the_base:
  assumes run: "adopt_inventory fence ids ck w (Some balances) st = (Inr commit, st')"
    and ok: "store_ok st" "rows_owned st" "fresh_ids ids (aw_deployment_id w) st"
    and book: "target_book w st = Inr book" "single_product_book (aw_product_id w) book"
    and base: "spot_base_currency (aw_product_id w) = Inr base"
    and books: "load_books (live_ids st) st = Inr live_books" "list_all (grid_book k) live_books"
    and grid: "list_all (grid_balance k) balances" "on_grid k (aw_base_increment w)" "0 < aw_base_increment w"
  shows "\<exists>row. filter (\<lambda>row. eb_currency row = base) balances = [row]
      \<and> 0 < f_quantity (ar_fill (co_records commit))
      \<and> store_claims base st' = store_claims base st + f_quantity (ar_fill (co_records commit))
      \<and> store_claims base st' \<le> eb_available row + eb_hold row"
proof -
  let ?dep = "aw_deployment_id w"
  obtain lb prepared st1 pos where c: "load_books (live_ids st) st = Inr lb"
      "prepare_adoption ids ck w book lb balances = Inr prepared" "ready w book st st1"
      "co_records commit = pa_records prepared" "get_deployment ?dep st' = Inr (co_snapshot commit)"
      "snapshot_positions (co_snapshot commit) = snapshot_positions book @ [pos]"
      "s_orders (co_snapshot commit) = s_orders book @ [ar_order (pa_records prepared)]"
      "s_intents (co_snapshot commit) = s_intents book @ [ar_intent (pa_records prepared)]"
      "p_quantity pos = adopted_amount prepared" "p_side pos = LONG" "p_product_id pos = aw_product_id w"
      "d_mode (s_deployment (co_snapshot commit)) = LIVE" "d_mode (s_deployment book) = LIVE"
      "d_product_id (s_deployment (co_snapshot commit)) = d_product_id (s_deployment book)"
      "map fst (es_deployments st') = map fst (es_deployments st1)"
      "\<forall>i base. i \<noteq> ?dep \<longrightarrow> key_claims base st' i = key_claims base st1 i"
    by (rule committedE [OF run ok book])
  have lb: "lb = live_books" using c(1) books(1) by simp
  obtain row where row: "filter (\<lambda>row. eb_currency row = base) balances = [row]" "0 < adopted_amount prepared"
      "exact_claims base live_books + adopted_amount prepared \<le> eb_available row + eb_hold row"
    by (rule prepared_bounds [OF c(2) [unfolded lb] base grid(1) books(2) grid(2,3)])
  obtain q where rec: "adoption_records ids ?dep (aw_product_id w) q (aw_mark w)
        (aw_mark_bar_starts_at w) (aw_now w) (aw_origin w) (aw_idempotency_key w) = Inr (pa_records prepared)"
    using c(2) by (rule prepareE)
  note R = adoption_recordsD [OF rec]
  have rdy: "map_of (es_deployments st1) ?dep = Some (s_deployment book)"
      "snapshot_positions book = positions_of ?dep st1" "s_orders book = filter (\<lambda>ord. o_deployment_id ord = ?dep) (orders_of st1)"
      "s_intents book = filter (\<lambda>i. i_deployment_id i = ?dep) (intents_of st1)"
      "distinct (map fst (es_deployments st1))" "store_claims base st1 = store_claims base st"
    using c(3) by (simp_all add: ready_def)
  obtain ds where st1: "st1 = st\<lparr>es_deployments := ds\<rparr>" using c(3) by (auto simp: ready_def)
  obtain s1 where s1: "get_deployment ?dep st1 = Inr s1" using rdy(1) by (simp add: get_deployment_def Let_def)
  have "book_claims base s1 = book_claims base book"
    using loaded_positions [OF s1] rdy by (intro book_claims_cong) simp_all
  then have old: "key_claims base st1 ?dep = book_claims base book" by (simp add: key_claims_def s1)
  have "book_claims base (co_snapshot commit) = book_claims base book + p_quantity pos"
  proof (rule book_claims_adopted [OF c(6-8) c(12-14) c(10)])
    show "names_base base (s_deployment book) (p_product_id pos)"
      using base spot_base_is_spot [OF base] R(2) by (simp add: c(11) names_base_def resolved_product_id_def)
  qed (use ok(3) in \<open>auto simp: R(1) adoption_order_def adoption_intent_def fresh_ids_def rdy(3,4) st1\<close>)
  then have "key_claims base st' ?dep = key_claims base st1 ?dep + adopted_amount prepared"
    unfolding old by (simp add: key_claims_def c(5,9))
  moreover have "?dep \<in> set (map fst (es_deployments st1))" using rdy(1) by (metis map_of_eq_None_iff option.distinct(1) set_map)
  ultimately have "store_claims base st' = store_claims base st1 + adopted_amount prepared"
    unfolding store_claims_def c(15) using c(16) by (intro sum_list_bump [OF rdy(5)]) auto
  then show ?thesis
    using row rdy(6) live_books_claims [OF ok(1) books(1), of base] by (simp add: c(4) adopted_amount_def add.commute)
qed

text \<open>C21: 
  A committed adoption leaves complete evidence and a protected long: the adoption order is filled, never went
  to the venue and is covered exactly by its applied fill, so reconciliation finds nothing to ask the venue; the
  book gains a long of the adopted amount at the mark with the requested stop below and target above it; its
  cash is debited by the notional with no fee; its status stays, its revision moves on by one, and no fill is
  left for replay that was not there before.
\<close>

theorem committed_adoption_is_complete:
  assumes run: "adopt_inventory fence ids ck w (Some balances) st = (Inr commit, st')"
    and ok: "store_ok st" "rows_owned st" "fresh_ids ids (aw_deployment_id w) st"
    and book: "target_book w st = Inr book" "single_product_book (aw_product_id w) book"
    and base: "spot_base_currency (aw_product_id w) = Inr base"
    and books: "load_books (live_ids st) st = Inr live_books" "list_all (grid_book k) live_books"
    and grid: "list_all (grid_balance k) balances" "on_grid k (aw_base_increment w)" "0 < aw_base_increment w"
  shows "let s = co_snapshot commit; ord = ar_order (co_records commit); q = o_quantity ord
     in get_deployment (aw_deployment_id w) st' = Inr s
      \<and> ord \<in> set (s_orders s) \<and> adoption_evidence_complete s ord
      \<and> (\<exists>pos. snapshot_positions s = snapshot_positions book @ [pos] \<and> p_side pos = LONG \<and> p_quantity pos = q
           \<and> p_product_id pos = aw_product_id w \<and> p_entry_price pos = aw_mark w \<and> p_stop_price pos = aw_stop_price w
           \<and> p_stop_price pos < p_entry_price pos
           \<and> (case p_target_price pos of None \<Rightarrow> True | Some t \<Rightarrow> p_entry_price pos < t))
      \<and> d_cash (s_deployment s) = dsub (d_cash (s_deployment book)) (dmul (aw_mark w) q)
      \<and> d_status (s_deployment s) = d_status (s_deployment book)
      \<and> d_revision (s_deployment s) = d_revision (s_deployment book) + 1
      \<and> unapplied s = unapplied book"
proof -
  let ?dep = "aw_deployment_id w"
  obtain lb prepared st1 pos where c: "load_books (live_ids st) st = Inr lb"
      "prepare_adoption ids ck w book lb balances = Inr prepared" "ready w book st st1"
      "co_records commit = pa_records prepared" "get_deployment ?dep st' = Inr (co_snapshot commit)"
      "snapshot_positions (co_snapshot commit) = snapshot_positions book @ [pos]"
      "s_orders (co_snapshot commit) = s_orders book @ [ar_order (pa_records prepared)]"
      "s_fills (co_snapshot commit) = s_fills book @ [ar_fill (pa_records prepared)]"
      "p_quantity pos = adopted_amount prepared" "p_side pos = LONG" "p_product_id pos = aw_product_id w"
      "p_entry_price pos = aw_mark w" "p_stop_price pos = aw_stop_price w" "p_target_price pos = aw_target_price w"
      "d_cash (s_deployment (co_snapshot commit)) = dsub (dsub (d_cash (s_deployment book)) (dmul (aw_mark w) (adopted_amount prepared))) 0"
      "d_status (s_deployment (co_snapshot commit)) = d_status (s_deployment book)"
      "d_revision (s_deployment (co_snapshot commit)) = d_revision (s_deployment book) + 1"
    by (rule committedE [OF run ok book])
  have lb: "lb = live_books" using c(1) books(1) by simp
  have "on_grid k (adopted_amount prepared) \<and> adopted_amount prepared \<le> cap k \<and> 0 < adopted_amount prepared"
    by (rule prepared_bounds [OF c(2) [unfolded lb] base grid(1) books(2) grid(2,3)]) blast
  then have exact: "on_grid k (adopted_amount prepared)" "adopted_amount prepared \<le> cap k" "0 < adopted_amount prepared"
    by blast+
  obtain q where rec: "adoption_records ids ?dep (aw_product_id w) q (aw_mark w)
        (aw_mark_bar_starts_at w) (aw_now w) (aw_origin w) (aw_idempotency_key w) = Inr (pa_records prepared)"
    and proj: "project_adoption ck book (pa_records prepared) (aw_stop_price w) (aw_target_price w)
       = Inr (pa_projected prepared, pa_fill prepared)"
    using c(2) by (rule prepareE)
  note R = adoption_recordsD [OF rec]
  have q: "q = adopted_amount prepared" using records_amount [OF rec] by simp
  have levels: "aw_stop_price w < f_price (ar_fill (pa_records prepared))
      \<and> (case aw_target_price w of None \<Rightarrow> True | Some t \<Rightarrow> f_price (ar_fill (pa_records prepared)) < t)"
    using proj by (rule project_adoptionE) (rule conjI)
  have "f_order_id fl \<noteq> ai_order ids" if "fl \<in> set (s_fills book)" for fl
  proof -
    have "fl \<in> set (fills_of st)" using that c(3) by (auto simp: ready_def)
    then have "f_order_id fl \<in> set (map f_order_id (fills_of st))" unfolding set_map by (rule imageI)
    then show ?thesis using ok(3) unfolding fresh_ids_def by metis
  qed
  then have "filter (\<lambda>fl. f_order_id fl = ai_order ids) (s_fills book) = []" by (simp add: filter_empty_conv)
  moreover have "dadd 0 q = q" using exact grid_exact [OF exact(1)] by (simp add: ctx_add_def q)
  ultimately have "adoption_evidence_complete (co_snapshot commit) (ar_order (co_records commit))"
    using c(8) by (simp add: adoption_evidence_complete_def c(4) R(1) adoption_order_def adoption_fill_def dsum_def)
  moreover have "unapplied (co_snapshot commit) = unapplied book"
    using c(8) by (auto simp: unapplied_def R(1) adoption_fill_def)
  moreover have "dsub (dsub x y) 0 = dsub x y" for x y by (simp add: ctx_sub_def fixp_idem)
  moreover have fields: "o_quantity (ar_order (co_records commit)) = adopted_amount prepared"
      "f_price (ar_fill (pa_records prepared)) = aw_mark w"
    by (simp_all add: c(4) R(1) adoption_order_def adoption_fill_def q)
  moreover have "ar_order (co_records commit) \<in> set (s_orders (co_snapshot commit))" by (simp add: c(4,7))
  ultimately show ?thesis
    unfolding Let_def fields(1) using c(5,6,9-17) levels [unfolded fields(2)]
    by (intro conjI exI [of _ pos]) (simp_all split: option.splits)
qed

section \<open>A concrete adoption\<close>

definition ex_live_deployment :: deployment where
  "ex_live_deployment = ex_deployment\<lparr>d_mode := LIVE, d_cash := 0\<rparr>"

definition ex_live_store :: execution_store where
  "ex_live_store = put_deployment ex_live_deployment new_execution_store"

definition ex_ids :: adoption_ids where
  "ex_ids = \<lparr>ai_client = 101, ai_intent = 102, ai_order = 103, ai_fill = 104\<rparr>"

definition ex_balances :: "exchange_balance list" where
  "ex_balances =
     [\<lparr>eb_currency = ''USD'', eb_name = ''US Dollar'', eb_available = 500, eb_hold = 0\<rparr>,
      \<lparr>eb_currency = ''BTC'', eb_name = ''Bitcoin'', eb_available = 3 / 2, eb_hold = 1 / 2\<rparr>]"

definition ex_write :: adoption_write where
  "ex_write =
     \<lparr>aw_deployment_id = 1, aw_product_id = ''BTC-USD'', aw_quantity = None, aw_mark = 100,
      aw_mark_bar_starts_at = 3600, aw_now = 7300, aw_origin = HUMAN, aw_stop_price = 90,
      aw_target_price = Some 120, aw_base_increment = 1 / 100000000, aw_idempotency_key = Some ''k-1'',
      aw_new_deployment = None, aw_expected_revision = Some 1, aw_respect_entry_latch = False\<rparr>"

text \<open>The same adoption into a new book, and with a quantity the venue does not have.\<close>

definition ex_greedy :: adoption_write where
  "ex_greedy = ex_write\<lparr>aw_quantity := Some 2, aw_deployment_id := 2, aw_expected_revision := None,
     aw_new_deployment := Some (ex_live_deployment\<lparr>d_id := 2\<rparr>)\<rparr>"

lemma ex_live_store_ok: "store_ok ex_live_store"
  by (simp add: store_ok_def fills_ok_def orders_ok_def intents_ok_def ex_live_store_def put_deployment_def
      new_execution_store_def map_filter_def keyed_def)

lemma ex_adoption_run: "\<not> isl (fst (adopt_inventory None ex_ids ex_clock ex_write (Some ex_balances) ex_live_store))"
  by code_simp

definition ex_adopter :: deployment_snapshot where
  "ex_adopter = flat_snapshot ex_live_deployment"

lemma ex_adoption_target: "target_book ex_write ex_live_store = Inr ex_adopter"
  by code_simp

lemma ex_live_books: "load_books (live_ids ex_live_store) ex_live_store = Inr [ex_adopter]"
  by code_simp

lemma ex_adoption_hypotheses:
  "rows_owned ex_live_store" "fresh_ids ex_ids (aw_deployment_id ex_write) ex_live_store"
  "single_product_book (aw_product_id ex_write) ex_adopter" "spot_base_currency (aw_product_id ex_write) = Inr ''BTC''"
  "list_all (grid_book 8) [ex_adopter]" "list_all (grid_balance 8) ex_balances" "on_grid 8 (aw_base_increment ex_write)"
  "0 < aw_base_increment ex_write"
  by code_simp+

theorem adoption_counts_against_the_base_witness:
  "case adopt_inventory None ex_ids ex_clock ex_write (Some ex_balances) ex_live_store of
     (Inr commit, st') \<Rightarrow> store_claims ''BTC'' st' = store_claims ''BTC'' ex_live_store + f_quantity (ar_fill (co_records commit))
       \<and> store_claims ''BTC'' st' \<le> 2
   | (Inl _, _) \<Rightarrow> False"
proof -
  obtain commit st' where run: "adopt_inventory None ex_ids ex_clock ex_write (Some ex_balances) ex_live_store = (Inr commit, st')"
    using ex_adoption_run by (cases "adopt_inventory None ex_ids ex_clock ex_write (Some ex_balances) ex_live_store")
      (auto elim: not_isl_Inr)
  have "filter (\<lambda>row. eb_currency row = ''BTC'') ex_balances = [row] \<Longrightarrow> eb_available row + eb_hold row = 2" for row
    by (auto simp: ex_balances_def)
  with adoption_counts_against_the_base [OF run ex_live_store_ok ex_adoption_hypotheses(1,2) ex_adoption_target ex_adoption_hypotheses(3,4)
      ex_live_books ex_adoption_hypotheses(5-8)]
  have "store_claims ''BTC'' st' = store_claims ''BTC'' ex_live_store + f_quantity (ar_fill (co_records commit))
      \<and> store_claims ''BTC'' st' \<le> 2" by auto
  then show ?thesis unfolding run by simp
qed

theorem committed_adoption_is_complete_witness:
  "case adopt_inventory None ex_ids ex_clock ex_write (Some ex_balances) ex_live_store of
     (Inr commit, st') \<Rightarrow> adoption_evidence_complete (co_snapshot commit) (ar_order (co_records commit))
       \<and> d_status (s_deployment (co_snapshot commit)) = RUNNING
   | (Inl _, _) \<Rightarrow> False"
proof -
  obtain commit st' where run: "adopt_inventory None ex_ids ex_clock ex_write (Some ex_balances) ex_live_store = (Inr commit, st')"
    using ex_adoption_run by (cases "adopt_inventory None ex_ids ex_clock ex_write (Some ex_balances) ex_live_store")
      (auto elim: not_isl_Inr)
  have running: "d_status (s_deployment ex_adopter) = RUNNING" by code_simp
  from committed_adoption_is_complete [OF run ex_live_store_ok ex_adoption_hypotheses(1,2) ex_adoption_target ex_adoption_hypotheses(3,4)
      ex_live_books ex_adoption_hypotheses(5-8)]
  have "adoption_evidence_complete (co_snapshot commit) (ar_order (co_records commit))
      \<and> d_status (s_deployment (co_snapshot commit)) = RUNNING"
    unfolding Let_def running by blast
  then show ?thesis unfolding run by simp
qed

theorem adoption_takes_only_unmanaged_base_witness:
  "case prepare_adoption ex_ids ex_clock ex_write ex_adopter [ex_adopter] ex_balances of
     Inr prepared \<Rightarrow> 0 < adopted_amount prepared \<and> exact_claims ''BTC'' [ex_adopter] + adopted_amount prepared \<le> 2
   | Inl _ \<Rightarrow> False"
proof -
  have "\<not> isl (prepare_adoption ex_ids ex_clock ex_write ex_adopter [ex_adopter] ex_balances)" by code_simp
  then obtain prepared where run: "prepare_adoption ex_ids ex_clock ex_write ex_adopter [ex_adopter] ex_balances = Inr prepared"
    by (cases "prepare_adoption ex_ids ex_clock ex_write ex_adopter [ex_adopter] ex_balances") simp_all
  have "filter (\<lambda>row. eb_currency row = ''BTC'') ex_balances = [row] \<Longrightarrow> eb_available row + eb_hold row = 2" for row
    by (auto simp: ex_balances_def)
  with adoption_takes_only_unmanaged_base [OF run ex_adoption_hypotheses(4,6,5,7,8)]
  have "0 < adopted_amount prepared \<and> exact_claims ''BTC'' [ex_adopter] + adopted_amount prepared \<le> 2" by auto
  then show ?thesis unfolding run by simp
qed

theorem adoption_refusal_writes_nothing_witness:
  "fst (adopt_inventory None ex_ids ex_clock ex_greedy (Some ex_balances) ex_live_store)
     = Inl (Refused ADOPTION_QUANTITY_UNAVAILABLE)
   \<and> snd (adopt_inventory None ex_ids ex_clock ex_greedy (Some ex_balances) ex_live_store) = ex_live_store"
proof -
  have refused: "fst (adopt_inventory None ex_ids ex_clock ex_greedy (Some ex_balances) ex_live_store)
      = Inl (Refused ADOPTION_QUANTITY_UNAVAILABLE)" by code_simp
  then have run: "adopt_inventory None ex_ids ex_clock ex_greedy (Some ex_balances) ex_live_store
      = (Inl (Refused ADOPTION_QUANTITY_UNAVAILABLE),
         snd (adopt_inventory None ex_ids ex_clock ex_greedy (Some ex_balances) ex_live_store))"
    by (metis prod.collapse)
  have "\<forall>created. aw_new_deployment ex_greedy = Some created \<longrightarrow> d_worker_lease_holder created = None"
    by (simp add: ex_greedy_def ex_write_def ex_live_deployment_def ex_deployment_def)
  from adoption_refusal_writes_nothing [OF run ex_live_store_ok this] refused show ?thesis by simp
qed

text \<open>
  Outside a single-product book the staged levels are lost: the projection reads the product's own runtime
  row, which has no pending stop. The adoption is not refused: cash is debited, no position is opened and the
  book pauses. The callers adopt into single-product books only.
\<close>

definition ex_two_products :: deployment_snapshot where
  "ex_two_products = (flat_snapshot (ex_live_deployment\<lparr>d_product_id := ''ETH-USD''\<rparr>))
     \<lparr>s_instrument_runtimes := [InstrumentRuntime ''ETH-USD'' FLAT, InstrumentRuntime ''BTC-USD'' FLAT]\<rparr>"

theorem adoption_into_second_product_faults:
  "case prepare_adoption ex_ids ex_clock ex_write ex_two_products [ex_two_products] ex_balances of
     Inr prepared \<Rightarrow> s_position (pa_projected prepared) = None
       \<and> d_status (s_deployment (pa_projected prepared)) = PAUSED \<and> d_cash (s_deployment (pa_projected prepared)) = - 150
   | Inl _ \<Rightarrow> False"
  by code_simp

end
