(* ===== verification/Backtest_Broker.thy ===== *)
theory Backtest_Broker
  imports Trailing
begin

text \<open>
  Bar-level broker pricing of the backtest (\<open>backtest/broker.py\<close>) and the declared execution
  stresses (\<open>evaluation/stress.py\<close>). Everything runs in the simulation context of 64 digits.
  A resting maker limit fills at its posted price; a taker leg crosses half the declared spread
  and then pays adverse slippage. The lemmas show that no modelled taker price is better than the
  reference it starts from, and that a stop triggers exactly on the side it protects.
\<close>

section \<open>Quotes\<close>

datatype quote_side = Ask | Bid

record fill_quote =
  fq_reference_price :: decimal
  fq_price :: decimal
  fq_executable_side :: "quote_side option"
  fq_spread_cost :: decimal

record fill_model =
  fm_spread_bps :: decimal

definition spread_stressed :: "fill_model \<Rightarrow> bool" where
  "spread_stressed m \<longleftrightarrow> fm_spread_bps m > 0"

definition half_spread_fraction :: "fill_model \<Rightarrow> decimal" where
  "half_spread_fraction m = div64 (fm_spread_bps m) 20000"

definition maker :: "decimal \<Rightarrow> fill_quote" where
  "maker limit_price = \<lparr>fq_reference_price = limit_price, fq_price = limit_price,
     fq_executable_side = None, fq_spread_cost = 0\<rparr>"

definition bid :: "fill_model \<Rightarrow> decimal \<Rightarrow> decimal" where
  "bid m raw_price =
     (if \<not> spread_stressed m then raw_price else mul64 raw_price (sub64 1 (half_spread_fraction m)))"

definition ask :: "fill_model \<Rightarrow> decimal \<Rightarrow> decimal" where
  "ask m raw_price =
     (if \<not> spread_stressed m then raw_price else mul64 raw_price (add64 1 (half_spread_fraction m)))"

definition quote :: "fill_model \<Rightarrow> decimal \<Rightarrow> decimal \<Rightarrow> quote_side \<Rightarrow> decimal \<Rightarrow> fill_quote" where
  "quote m reference_price price side spread_cost =
     (if \<not> spread_stressed m
      then \<lparr>fq_reference_price = reference_price, fq_price = price, fq_executable_side = None, fq_spread_cost = 0\<rparr>
      else \<lparr>fq_reference_price = reference_price, fq_price = price,
            fq_executable_side = Some side, fq_spread_cost = spread_cost\<rparr>)"

definition taker_buy :: "fill_model \<Rightarrow> decimal \<Rightarrow> decimal \<Rightarrow> fill_quote" where
  "taker_buy m reference_price slippage_bps =
     (let a = ask m reference_price;
          price = mul64 a (add64 1 (div64 slippage_bps 10000))
      in quote m reference_price price Ask (sub64 a reference_price))"

definition taker_sell :: "fill_model \<Rightarrow> decimal \<Rightarrow> decimal \<Rightarrow> fill_quote" where
  "taker_sell m reference_price slippage_bps =
     (let b = bid m reference_price;
          price = mul64 b (sub64 1 (div64 slippage_bps 10000))
      in quote m reference_price price Bid (sub64 reference_price b))"

text \<open>The inverse maps divide by \<open>1 - half\<close> and \<open>1 + half\<close>; the first raises when the
  declared spread is 20000 basis points.\<close>

definition raw_for_bid :: "fill_model \<Rightarrow> decimal \<Rightarrow> decimal result" where
  "raw_for_bid m bid_price =
     (if \<not> spread_stressed m then Inr bid_price
      else ctx_div_checked 64 bid_price (sub64 1 (half_spread_fraction m)))"

definition raw_for_ask :: "fill_model \<Rightarrow> decimal \<Rightarrow> decimal result" where
  "raw_for_ask m ask_price =
     (if \<not> spread_stressed m then Inr ask_price
      else ctx_div_checked 64 ask_price (add64 1 (half_spread_fraction m)))"

definition mark :: "fill_model \<Rightarrow> decimal \<Rightarrow> position_side \<Rightarrow> decimal" where
  "mark m raw_price side = (if side = SHORT then ask m raw_price else bid m raw_price)"

section \<open>Execution stress\<close>

record execution_stress =
  xs_entry_latency_bars :: int
  xs_maker_penetration_bps :: decimal
  xs_entry_fill_fraction :: decimal

definition bounded_penetration :: "decimal \<Rightarrow> decimal result" where
  "bounded_penetration v =
     (if v > 1000 then Inl (ValueError ''maker_penetration_bps must be at most 1000'') else Inr v)"

definition bounded_fill :: "decimal \<Rightarrow> decimal result" where
  "bounded_fill v =
     (if \<not> (0 < v \<and> v \<le> 1)
      then Inl (ValueError ''entry_fill_fraction must be greater than 0 and at most 1'') else Inr v)"

definition maker_touched :: "decimal \<Rightarrow> decimal \<Rightarrow> decimal \<Rightarrow> bool \<Rightarrow> execution_stress option \<Rightarrow> bool" where
  "maker_touched high low price buy stress \<longleftrightarrow>
     (let buffer = (case stress of None \<Rightarrow> 0 | Some x \<Rightarrow> div64 (xs_maker_penetration_bps x) 10000)
      in if buy then low \<le> mul64 price (sub64 1 buffer) else high \<ge> mul64 price (add64 1 buffer))"

definition stress_valid :: "execution_stress \<Rightarrow> bool" where
  "stress_valid x \<longleftrightarrow> 0 \<le> xs_entry_latency_bars x \<and> 0 \<le> xs_maker_penetration_bps x
     \<and> bounded_penetration (xs_maker_penetration_bps x) = Inr (xs_maker_penetration_bps x)
     \<and> bounded_fill (xs_entry_fill_fraction x) = Inr (xs_entry_fill_fraction x)"

section \<open>Adverse pricing\<close>

text \<open>Representable prices are those the 64-digit context leaves unchanged.\<close>

abbreviation rep64 :: "decimal \<Rightarrow> bool" where "rep64 x \<equiv> fixp 64 x = x"

lemma scale_up64: "0 \<le> x \<Longrightarrow> rep64 x \<Longrightarrow> 1 \<le> f \<Longrightarrow> x \<le> mul64 x f"
  unfolding ctx_mul_def by (rule d64.rnd_lower) (auto simp: mult_left_mono [of 1 f x, simplified])

lemma scale_down64: "0 \<le> x \<Longrightarrow> rep64 x \<Longrightarrow> f \<le> 1 \<Longrightarrow> mul64 x f \<le> x"
  unfolding ctx_mul_def by (rule d64.rnd_upper) (auto simp: mult_left_mono [of f 1 x, simplified])

lemma rep64_mul [simp]: "rep64 (mul64 x y)" and rep64_add [simp]: "rep64 (add64 x y)"
  and rep64_sub [simp]: "rep64 (sub64 x y)" and rep64_div [simp]: "rep64 (div64 x y)"
  by (simp_all add: ctx_defs d64.rnd_idem)

lemma rep64_one [simp]: "rep64 1"
  by (rule fixp_grid [of 0 1 0]) (auto intro: on_gridI [of _ _ 1])

lemma one_plus64: "0 \<le> x \<Longrightarrow> 1 \<le> add64 1 x"
  unfolding ctx_add_def by (rule d64.rnd_lower) auto

lemma one_minus64: "0 \<le> x \<Longrightarrow> sub64 1 x \<le> 1"
  unfolding ctx_sub_def by (rule d64.rnd_upper) auto

lemma div64_nonneg: "0 \<le> x \<Longrightarrow> 0 \<le> y \<Longrightarrow> 0 \<le> div64 x y"
  by (simp add: ctx_div_def)

lemma half_spread_nonneg: "spread_stressed m \<Longrightarrow> 0 \<le> half_spread_fraction m"
  by (simp add: half_spread_fraction_def spread_stressed_def ctx_div_def)

lemma quote_price [simp]: "fq_price (quote m r p s c) = p"
  by (simp add: quote_def)

lemma ask_above: "0 \<le> x \<Longrightarrow> rep64 x \<Longrightarrow> x \<le> ask m x"
  by (auto simp: ask_def intro: scale_up64 one_plus64 half_spread_nonneg)

lemma bid_below: "0 \<le> x \<Longrightarrow> rep64 x \<Longrightarrow> bid m x \<le> x"
  by (auto simp: bid_def intro: scale_down64 one_minus64 half_spread_nonneg)

lemma ask_rep: "rep64 x \<Longrightarrow> rep64 (ask m x)" and bid_rep: "rep64 x \<Longrightarrow> rep64 (bid m x)"
  by (simp_all add: ask_def bid_def)

lemma bid_mono: "x \<le> y \<Longrightarrow> fm_spread_bps m \<le> 20000 \<Longrightarrow> bid m x \<le> bid m y"
proof -
  assume xy: "x \<le> y" and s: "fm_spread_bps m \<le> 20000"
  have "half_spread_fraction m \<le> 1" unfolding half_spread_fraction_def ctx_div_def
    by (rule d64.rnd_upper) (use s in simp_all)
  then have "0 \<le> sub64 1 (half_spread_fraction m)" by (simp add: ctx_sub_def)
  with xy show ?thesis by (auto simp: bid_def ctx_mul_def intro!: d64.rnd_mono mult_right_mono)
qed

lemma bid_nonneg: "0 \<le> x \<Longrightarrow> fm_spread_bps m \<le> 20000 \<Longrightarrow> 0 \<le> bid m x"
  using bid_mono [of 0 x m] by (simp add: bid_def [of _ 0] ctx_mul_def split: if_splits)

lemma ask_mono: "x \<le> y \<Longrightarrow> ask m x \<le> ask m y"
proof -
  assume xy: "x \<le> y"
  have "0 \<le> add64 1 (half_spread_fraction m)" if "spread_stressed m"
    using one_plus64 [OF half_spread_nonneg [OF that]] by linarith
  with xy show ?thesis by (auto simp: ask_def ctx_mul_def intro!: d64.rnd_mono mult_right_mono)
qed

text \<open>A taker leg is never priced better than its reference: buys pay at least it, sells receive at
  most it, and the executable side with slippage is worse than the executable side alone.\<close>

lemma taker_prices_adverse:
  assumes "0 \<le> ref" "rep64 ref" "0 \<le> slip"
  shows "ref \<le> ask m ref \<and> ask m ref \<le> fq_price (taker_buy m ref slip)"
    and "fm_spread_bps m \<le> 20000 \<Longrightarrow> fq_price (taker_sell m ref slip) \<le> bid m ref \<and> bid m ref \<le> ref"
proof -
  have s: "0 \<le> div64 slip 10000" using assms(3) by (simp add: div64_nonneg)
  show "ref \<le> ask m ref \<and> ask m ref \<le> fq_price (taker_buy m ref slip)"
    using ask_above [OF assms(1,2), of m] ask_rep [OF assms(2), of m] assms(1) s
    by (simp add: taker_buy_def Let_def scale_up64 one_plus64)
  show "fq_price (taker_sell m ref slip) \<le> bid m ref \<and> bid m ref \<le> ref" if "fm_spread_bps m \<le> 20000"
    using bid_below [OF assms(1,2), of m] bid_rep [OF assms(2), of m] bid_nonneg [OF assms(1) that] s
    by (simp add: taker_sell_def Let_def scale_down64 one_minus64)
qed

text \<open>A stressed maker order is never touched more easily than an unstressed one.\<close>

lemma stress_only_delays:
  assumes "maker_touched high low price buy (Some x)" "0 \<le> price" "rep64 price" "0 \<le> xs_maker_penetration_bps x"
  shows "maker_touched high low price buy None"
proof -
  let ?b = "div64 (xs_maker_penetration_bps x) 10000"
  have b: "0 \<le> ?b" using assms(4) by (simp add: div64_nonneg)
  have n: "mul64 price (sub64 1 0) = price" "mul64 price (add64 1 0) = price"
    using assms(3) by (simp_all add: ctx_defs)
  show ?thesis
  proof (cases buy)
    case True
    with assms(1) have "low \<le> mul64 price (sub64 1 ?b)" by (simp add: maker_touched_def Let_def)
    also have "\<dots> \<le> price" by (rule scale_down64 [OF assms(2,3) one_minus64 [OF b]])
    finally show ?thesis using True n by (simp add: maker_touched_def)
  next
    case False
    have "price \<le> mul64 price (add64 1 ?b)" by (rule scale_up64 [OF assms(2,3) one_plus64 [OF b]])
    also have "\<dots> \<le> high" using assms(1) False by (simp add: maker_touched_def Let_def)
    finally show ?thesis using False n by (simp add: maker_touched_def)
  qed
qed

end
