(* ===== verification/Signal_Record.thy ===== *)
theory Signal_Record
  imports Market
begin

text \<open>
  One record of a signal trace (\<open>evaluation/trace.py\<close>): what the evaluator publishes for a completed
  bar and what the simulation reads. A canonical decimal text is the decimal it spells.
\<close>

datatype entry_condition_outcome = MATCHED | NOT_MATCHED | UNDEFINED

record signal_trace_record =
  tr_candle_starts_at :: datetime
  tr_indicator_values :: "(string \<times> decimal option) list"
  tr_entry_condition :: entry_condition_outcome
  tr_exit_condition :: "entry_condition_outcome option"

end
