(* ===== verification/Backtest_State.thy ===== *)
theory Backtest_State
  imports Backtest_Broker Signal_Record
begin

text \<open>
  The state of the backtest kernel (\<open>backtest/kernel_state.py\<close>), the evidence records it emits
  (\<open>backtest/models.py\<close>), the signal trace it consumes (\<open>evaluation/trace.py\<close>) and the
  strategy document fields it reads. A result's decimal text is the decimal it spells
  (\<open>canonical_decimal\<close> renders a value and parsing it back is exact). Content fingerprints are
  not modelled.
\<close>

section \<open>Strategy document and signal trace\<close>

datatype unfilled_policy = Cancel_Entry | Reprice_Entry

record strategy_document = strategy_definition +
  sd_side :: position_side
  sd_cooldown_bars :: int
  sd_max_open_positions :: int
  sd_pyramiding :: bool
  sd_max_entry_wait_bars :: int
  sd_on_unfilled_entry :: unfilled_policy
  sd_signal_exit :: bool
  sd_is_future :: bool

definition can_pyramid_add :: "strategy_document \<Rightarrow> position_side \<Rightarrow> decimal \<Rightarrow> decimal \<Rightarrow> int \<Rightarrow> bool" where
  "can_pyramid_add strategy side entry_price mark_price add_count \<longleftrightarrow>
     (if \<not> sd_pyramiding strategy \<or> add_count < 1 \<or> add_count \<ge> sd_max_open_positions strategy then False
      else if side = LONG then mark_price > entry_price
      else mark_price < entry_price)"

section \<open>Fills, trades, equity points\<close>

record backtest_fill =
  bf_candle_starts_at :: datetime
  bf_price :: decimal
  bf_quantity :: decimal
  bf_notional :: decimal
  bf_fee :: decimal
  bf_fee_rate :: decimal
  bf_reference_price :: "decimal option"
  bf_executable_side :: "quote_side option"
  bf_spread_cost :: "decimal option"

datatype exit_reason =
  Stop_Loss | Take_Profit | Time_Exit | Signal_Exit | Evaluation_End | Liquidation | Expiry

definition exit_reason_value :: "exit_reason \<Rightarrow> string" where
  "exit_reason_value r =
     (case r of Stop_Loss \<Rightarrow> ''stop_loss'' | Take_Profit \<Rightarrow> ''take_profit'' | Time_Exit \<Rightarrow> ''time_exit''
      | Signal_Exit \<Rightarrow> ''signal'' | Evaluation_End \<Rightarrow> ''evaluation_end'' | Liquidation \<Rightarrow> ''liquidation''
      | Expiry \<Rightarrow> ''expiry'')"

record backtest_exit_fill = backtest_fill +
  xf_reason :: exit_reason

record backtest_trade =
  bt_entry :: backtest_fill
  bt_exit :: backtest_exit_fill
  bt_gross_pnl :: decimal
  bt_net_pnl :: decimal
  bt_holding_bars :: int
  bt_funding :: "decimal option"

text \<open>The constructor's validator: an exit before its entry is refused.\<close>

definition require_ordered_fills :: "backtest_trade \<Rightarrow> backtest_trade result" where
  "require_ordered_fills t =
     (if bf_candle_starts_at (bt_exit t) < bf_candle_starts_at (bt_entry t)
      then Inl (ValueError ''trade exit cannot precede entry'') else Inr t)"

record equity_point =
  eq_candle_starts_at :: datetime
  eq_cash :: decimal
  eq_base_quantity :: decimal
  eq_mark_price :: decimal
  eq_equity :: decimal

section \<open>Resting entries, positions, books\<close>

record pending_entry =
  pe_signal :: signal_trace_record
  pe_limit_price :: decimal
  pe_quantity :: decimal
  pe_stop_price :: decimal
  pe_target_price :: "decimal option"
  pe_waited_bars :: int
  pe_side :: position_side
  pe_is_pyramid_add :: bool
  pe_size_capped :: bool

record sim_position =
  ps_entry :: backtest_fill
  ps_stop_price :: decimal
  ps_target_price :: "decimal option"
  ps_entered_bar_index :: int
  ps_take_profit_resting :: bool
  ps_trail_extreme :: "decimal option"
  ps_side :: position_side
  ps_add_count :: int
  ps_unit_fee :: "decimal option"
  ps_funding :: "decimal option"

record sim_book =
  bk_product_id :: string
  bk_candle_by_start :: "datetime \<Rightarrow> candle option"
  bk_records :: "datetime \<Rightarrow> signal_trace_record option"
  bk_pending :: "pending_entry option"
  bk_position :: "sim_position option"
  bk_cooldown_bars :: int

definition is_open :: "sim_book \<Rightarrow> bool" where
  "is_open b \<longleftrightarrow> bk_position b \<noteq> None \<or> bk_pending b \<noteq> None"

section \<open>Costs and futures terms\<close>

record futures_terms =
  tm_margin :: futures_margin_terms
  tm_funding_rates :: "(datetime \<times> decimal) list option"
  tm_constant_funding_rate :: "decimal option"
  tm_flatten_at :: "datetime option"

definition perpetual :: "futures_terms \<Rightarrow> bool" where
  "perpetual terms \<longleftrightarrow> tm_funding_rates terms \<noteq> None \<or> tm_constant_funding_rate terms \<noteq> None"

record sim_costs =
  co_maker_fee_rate :: decimal
  co_taker_fee_rate :: decimal
  co_slippage_bps :: decimal
  co_fill_model :: fill_model
  co_execution_stress :: "execution_stress option"
  co_futures :: "futures_terms option"

section \<open>The entry funnel\<close>

datatype backtest_gate_reason = PENDING_ENTRY | COOLDOWN | MAX_POSITIONS | IN_POSITION | EXPIRY_WINDOW

datatype funnel_reason = Gate backtest_gate_reason | Sizing_Refusal entry_skip_reason

text \<open>A counting dictionary: \<open>d[k] = d.get(k, 0) + 1\<close> keeps the insertion order.\<close>

fun bump :: "'k \<Rightarrow> ('k \<times> int) list \<Rightarrow> ('k \<times> int) list" where
  "bump k [] = [(k, 1)]"
| "bump k ((k', n) # xs) = (if k' = k then (k', n + 1) # xs else (k', n) # bump k xs)"

record tally =
  ty_signals_matched :: int
  ty_entries_rested :: int
  ty_entries_filled :: int
  ty_entries_expired :: int
  ty_entries_repriced :: int
  ty_entries_refused_at_fill :: int
  ty_entries_unfilled_at_end :: int
  ty_entries_size_capped :: int
  ty_warmup_bars :: int
  ty_skipped :: "(funnel_reason \<times> int) list"
  ty_exits :: "(exit_reason \<times> int) list"

definition new_tally :: tally where
  "new_tally = \<lparr>ty_signals_matched = 0, ty_entries_rested = 0, ty_entries_filled = 0, ty_entries_expired = 0,
     ty_entries_repriced = 0, ty_entries_refused_at_fill = 0, ty_entries_unfilled_at_end = 0,
     ty_entries_size_capped = 0, ty_warmup_bars = 0, ty_skipped = [], ty_exits = []\<rparr>"

definition tally_skip :: "funnel_reason \<Rightarrow> tally \<Rightarrow> tally" where
  "tally_skip reason t = t\<lparr>ty_skipped := bump reason (ty_skipped t)\<rparr>"

definition tally_closed :: "backtest_trade \<Rightarrow> tally \<Rightarrow> tally" where
  "tally_closed trade t = t\<lparr>ty_exits := bump (xf_reason (bt_exit trade)) (ty_exits t)\<rparr>"

definition tally_rested :: "pending_entry \<Rightarrow> tally \<Rightarrow> tally" where
  "tally_rested pending t =
     (let t = t\<lparr>ty_entries_rested := ty_entries_rested t + 1\<rparr>
      in if pe_size_capped pending then t\<lparr>ty_entries_size_capped := ty_entries_size_capped t + 1\<rparr> else t)"

text \<open>The text of a reason, by which diagnostics sort.\<close>

definition gate_reason_value :: "backtest_gate_reason \<Rightarrow> string" where
  "gate_reason_value r =
     (case r of PENDING_ENTRY \<Rightarrow> ''pending_entry'' | COOLDOWN \<Rightarrow> ''cooldown'' | MAX_POSITIONS \<Rightarrow> ''max_positions''
      | IN_POSITION \<Rightarrow> ''in_position'' | EXPIRY_WINDOW \<Rightarrow> ''expiry_window'')"

definition skip_reason_value :: "entry_skip_reason \<Rightarrow> string" where
  "skip_reason_value r =
     (case r of ENTRY_PRICE_NOT_POSITIVE \<Rightarrow> ''entry_price_not_positive''
      | STOP_DISTANCE_NOT_POSITIVE \<Rightarrow> ''stop_distance_not_positive''
      | STOP_NOT_POSITIVE \<Rightarrow> ''stop_not_positive''
      | TARGET_NOT_POSITIVE \<Rightarrow> ''target_not_positive''
      | STOP_WITHIN_PRICE_INCREMENT \<Rightarrow> ''stop_within_price_increment''
      | TARGET_WITHIN_PRICE_INCREMENT \<Rightarrow> ''target_within_price_increment''
      | NET_TARGET_BELOW_MINIMUM \<Rightarrow> ''net_target_below_minimum''
      | ECONOMICS_FEE_UNAVAILABLE \<Rightarrow> ''economics_fee_unavailable''
      | SIZING_CASH_UNAVAILABLE \<Rightarrow> ''sizing_cash_unavailable''
      | NO_OPEN_POSITION \<Rightarrow> ''no_open_position''
      | INSUFFICIENT_CASH \<Rightarrow> ''insufficient_cash''
      | NOTIONAL_BELOW_MINIMUM \<Rightarrow> ''notional_below_minimum''
      | QUANTITY_BELOW_VENUE_MINIMUM \<Rightarrow> ''quantity_below_venue_minimum''
      | NOTIONAL_BELOW_VENUE_MINIMUM \<Rightarrow> ''notional_below_venue_minimum''
      | BELOW_ONE_CONTRACT \<Rightarrow> ''below_one_contract'')"

fun funnel_reason_value :: "funnel_reason \<Rightarrow> string" where
  "funnel_reason_value (Gate r) = gate_reason_value r"
| "funnel_reason_value (Sizing_Refusal r) = skip_reason_value r"

record backtest_diagnostics =
  dg_signals_matched :: int
  dg_entries_rested :: int
  dg_entries_filled :: int
  dg_entries_expired :: int
  dg_entries_repriced :: int
  dg_entries_refused_at_fill :: int
  dg_entries_unfilled_at_end :: int
  dg_entries_size_capped :: int
  dg_warmup_bars :: int
  dg_skipped :: "(funnel_reason \<times> int) list"
  dg_exit_reasons :: "(exit_reason \<times> int) list"

text \<open>
  The validators of \<open>BacktestDiagnostics\<close>: every counter is non-negative, every listed count is
  at least one, the two dictionaries are bounded and unique, and the funnel adds up.
\<close>

definition require_unique_exit_reasons :: "backtest_diagnostics \<Rightarrow> bool" where
  "require_unique_exit_reasons d \<longleftrightarrow> distinct (map fst (dg_exit_reasons d))"

definition require_coherent_funnel :: "backtest_diagnostics \<Rightarrow> bool" where
  "require_coherent_funnel d \<longleftrightarrow>
     dg_signals_matched d = dg_entries_rested d + sum_list (map snd (dg_skipped d))
     \<and> dg_entries_rested d = dg_entries_filled d + dg_entries_expired d + dg_entries_refused_at_fill d
         + dg_entries_unfilled_at_end d
     \<and> distinct (map fst (dg_skipped d))"

definition diagnostics_fields_valid :: "backtest_diagnostics \<Rightarrow> bool" where
  "diagnostics_fields_valid d \<longleftrightarrow>
     (\<forall>n \<in> {dg_signals_matched d, dg_entries_rested d, dg_entries_filled d, dg_entries_expired d,
         dg_entries_repriced d, dg_entries_refused_at_fill d, dg_entries_unfilled_at_end d,
         dg_entries_size_capped d, dg_warmup_bars d}. 0 \<le> n)
     \<and> (\<forall>(_, n) \<in> set (dg_skipped d). 1 \<le> n) \<and> (\<forall>(_, n) \<in> set (dg_exit_reasons d). 1 \<le> n)
     \<and> length (dg_skipped d) \<le> 32 \<and> length (dg_exit_reasons d) \<le> 8"

definition diagnostics :: "tally \<Rightarrow> backtest_diagnostics result" where
  "diagnostics t =
     (let d = \<lparr>dg_signals_matched = ty_signals_matched t, dg_entries_rested = ty_entries_rested t,
          dg_entries_filled = ty_entries_filled t, dg_entries_expired = ty_entries_expired t,
          dg_entries_repriced = ty_entries_repriced t, dg_entries_refused_at_fill = ty_entries_refused_at_fill t,
          dg_entries_unfilled_at_end = ty_entries_unfilled_at_end t,
          dg_entries_size_capped = ty_entries_size_capped t, dg_warmup_bars = ty_warmup_bars t,
          dg_skipped = sort_key (\<lambda>(reason, _). funnel_reason_value reason) (ty_skipped t),
          dg_exit_reasons = sort_key (\<lambda>(reason, _). exit_reason_value reason) (ty_exits t)\<rparr>
      in if diagnostics_fields_valid d \<and> require_unique_exit_reasons d \<and> require_coherent_funnel d
         then Inr d else Inl (ValueError ''backtest diagnostics are incoherent''))"

end
