(* ===== verification/Backtest_Kernel.thy ===== *)
theory Backtest_Kernel
  imports Backtest_State
begin

text \<open>
  The bar-level simulator: fills (\<open>backtest/kernel_fills.py\<close>), ATR reads and the trail
  (\<open>backtest/kernel_atr.py\<close>), exits (\<open>backtest/kernel_exits.py\<close>), entries
  (\<open>backtest/kernel_entries.py\<close>), the futures rules (\<open>backtest/kernel_futures.py\<close>) and one
  bar of one book (\<open>_process_bar\<close> of \<open>backtest/kernel.py\<close>).

  Python mutates the book and the tally in place and returns cash; here each function takes them
  and returns them. A raised exception abandons the whole simulation, so an error carries no state.
\<close>

section \<open>Fills\<close>

text \<open>\<open>int((exit - entry) / bar)\<close>: both ends lie on the bar grid, where the quotient is exact.\<close>

definition holding_bars :: "datetime \<Rightarrow> datetime \<Rightarrow> timedelta \<Rightarrow> int" where
  "holding_bars entry exit bar_duration = (exit - entry) div bar_duration"

definition open_position ::
    "sim_costs \<Rightarrow> int \<Rightarrow> pending_entry \<Rightarrow> candle \<Rightarrow> decimal \<Rightarrow> (sim_position option \<times> decimal) result" where
  "open_position costs entry_bar_index pending candle cash =
     (let short = (pe_side pending = SHORT);
          q = maker (pe_limit_price pending);
          terms = co_futures costs
      in rbind (case terms of
            None \<Rightarrow> Inr (Some (pe_quantity pending, None))
          | Some t \<Rightarrow>
              rbind (whole_contracts_in 64 (tm_margin t) (pe_quantity pending)) (\<lambda>quantity.
              if quantity \<le> 0 then Inr None
              else rbind (ctx_div_checked 64 (ft_fee_per_contract (tm_margin t)) (ft_contract_size (tm_margin t)))
                     (\<lambda>unit_fee. Inr (Some (quantity, Some unit_fee)))))
         (\<lambda>sized. case sized of None \<Rightarrow> Inr (None, cash)
          | Some (quantity, unit_fee) \<Rightarrow>
              let notional = mul64 quantity (fq_price q);
                  maker_fee = mul64 notional (co_maker_fee_rate costs);
                  fee = (case unit_fee of None \<Rightarrow> maker_fee | Some u \<Rightarrow> add64 maker_fee (mul64 quantity u))
              in if terms = None \<and> \<not> short \<and> add64 notional fee > cash then Inr (None, cash)
                 else
                   let entry = \<lparr>bf_candle_starts_at = k_starts_at candle, bf_price = fq_price q,
                         bf_quantity = quantity, bf_notional = notional, bf_fee = fee,
                         bf_fee_rate = co_maker_fee_rate costs, bf_reference_price = None,
                         bf_executable_side = None, bf_spread_cost = None\<rparr>;
                       next_cash = (if short then sub64 (add64 cash notional) fee
                                    else sub64 (sub64 cash notional) fee)
                   in Inr (Some \<lparr>ps_entry = entry, ps_stop_price = pe_stop_price pending,
                         ps_target_price = pe_target_price pending, ps_entered_bar_index = entry_bar_index,
                         ps_take_profit_resting = False, ps_trail_extreme = None, ps_side = pe_side pending,
                         ps_add_count = 1, ps_unit_fee = unit_fee,
                         ps_funding = (case terms of None \<Rightarrow> None
                            | Some t \<Rightarrow> if perpetual t then Some 0 else None)\<rparr>, next_cash)))"

text \<open>\<open>_scale_in\<close> hands the position back unchanged when cash cannot fund the add, and the caller
  tests identity; \<open>None\<close> is that case.\<close>

definition scale_in ::
    "sim_costs \<Rightarrow> pending_entry \<Rightarrow> sim_position \<Rightarrow> decimal \<Rightarrow> (sim_position option \<times> decimal) result" where
  "scale_in costs pending position cash =
     (let short = (pe_side pending = SHORT);
          q = maker (pe_limit_price pending);
          add_quantity = pe_quantity pending;
          notional = mul64 add_quantity (fq_price q);
          fee = mul64 notional (co_maker_fee_rate costs)
      in if \<not> short \<and> add64 notional fee > cash then Inr (None, cash)
         else
           let old = ps_entry position;
               quantity = add64 (bf_quantity old) add_quantity
           in rbind (ctx_div_checked 64
                  (add64 (mul64 (bf_price old) (bf_quantity old)) (mul64 (fq_price q) add_quantity)) quantity)
                (\<lambda>entry_price.
                   let entry = \<lparr>bf_candle_starts_at = bf_candle_starts_at old, bf_price = entry_price,
                         bf_quantity = quantity, bf_notional = mul64 quantity entry_price,
                         bf_fee = add64 (bf_fee old) fee, bf_fee_rate = bf_fee_rate old,
                         bf_reference_price = None, bf_executable_side = None, bf_spread_cost = None\<rparr>;
                       next_cash = (if short then sub64 (add64 cash notional) fee
                                    else sub64 (sub64 cash notional) fee)
                   in Inr (Some (position\<lparr>ps_entry := entry, ps_add_count := ps_add_count position + 1\<rparr>),
                           next_cash)))"

definition fill_resting_entry ::
    "sim_costs \<Rightarrow> int \<Rightarrow> pending_entry \<Rightarrow> candle \<Rightarrow> sim_book \<Rightarrow> decimal \<Rightarrow> tally
     \<Rightarrow> (sim_book \<times> decimal \<times> tally) result" where
  "fill_resting_entry costs offset pending candle book cash t =
     (case bk_position book of
        Some position \<Rightarrow>
          rbind (scale_in costs pending position cash) (\<lambda>(scaled, cash').
            case scaled of
              None \<Rightarrow> Inr (book, cash', t\<lparr>ty_entries_refused_at_fill := ty_entries_refused_at_fill t + 1\<rparr>)
            | Some p \<Rightarrow> Inr (book\<lparr>bk_position := Some p\<rparr>, cash',
                             t\<lparr>ty_entries_filled := ty_entries_filled t + 1\<rparr>))
      | None \<Rightarrow>
          rbind (open_position costs offset pending candle cash) (\<lambda>(opened, cash').
            case opened of
              None \<Rightarrow> Inr (book\<lparr>bk_position := None\<rparr>, cash',
                         t\<lparr>ty_entries_refused_at_fill := ty_entries_refused_at_fill t + 1\<rparr>)
            | Some p \<Rightarrow> Inr (book\<lparr>bk_position := Some p\<rparr>, cash',
                         t\<lparr>ty_entries_filled := ty_entries_filled t + 1\<rparr>)))"

definition close_position ::
    "sim_position \<Rightarrow> candle \<Rightarrow> decimal \<Rightarrow> fill_quote \<Rightarrow> exit_reason \<Rightarrow> decimal \<Rightarrow> timedelta
     \<Rightarrow> (backtest_trade \<times> decimal) result" where
  "close_position position candle cash q reason fee_rate bar_duration =
     (let short = (ps_side position = SHORT);
          entry = ps_entry position;
          quantity = bf_quantity entry;
          exit_notional = mul64 quantity (fq_price q);
          taker_fee = mul64 exit_notional fee_rate;
          exit_fee = (case ps_unit_fee position of None \<Rightarrow> taker_fee | Some u \<Rightarrow> add64 taker_fee (mul64 quantity u));
          evidence = fq_executable_side q \<noteq> None;
          exit_fill = \<lparr>bf_candle_starts_at = k_starts_at candle, bf_price = fq_price q, bf_quantity = quantity,
            bf_notional = exit_notional, bf_fee = exit_fee, bf_fee_rate = fee_rate,
            bf_reference_price = (if evidence then Some (fq_reference_price q) else None),
            bf_executable_side = fq_executable_side q,
            bf_spread_cost = (if evidence then Some (fq_spread_cost q) else None), xf_reason = reason\<rparr>;
          net_pnl = (if short then sub64 (sub64 (sub64 (bf_notional entry) (bf_fee entry)) exit_notional) exit_fee
                     else sub64 (sub64 (sub64 exit_notional exit_fee) (bf_notional entry)) (bf_fee entry));
          gross_pnl = (if short then sub64 (bf_notional entry) exit_notional
                       else sub64 exit_notional (bf_notional entry));
          next_cash = (if short then sub64 (sub64 cash exit_notional) exit_fee
                       else sub64 (add64 cash exit_notional) exit_fee);
          net_pnl = (case ps_funding position of None \<Rightarrow> net_pnl | Some f \<Rightarrow> add64 net_pnl f)
      in rbind (require_ordered_fills \<lparr>bt_entry = entry, bt_exit = exit_fill, bt_gross_pnl = gross_pnl,
              bt_net_pnl = net_pnl,
              bt_holding_bars = holding_bars (bf_candle_starts_at entry) (k_starts_at candle) bar_duration,
              bt_funding = ps_funding position\<rparr>)
           (\<lambda>trade. Inr (trade, next_cash)))"

section \<open>ATR reads and the trailing stop\<close>

definition optional_indicator_value :: "signal_trace_record option \<Rightarrow> string \<Rightarrow> decimal option" where
  "optional_indicator_value record_opt indicator_id =
     (case record_opt of None \<Rightarrow> None
      | Some r \<Rightarrow> Option.bind (List.find (\<lambda>(name, v). name = indicator_id \<and> v \<noteq> None) (tr_indicator_values r)) snd)"

definition indicator_value :: "signal_trace_record \<Rightarrow> string \<Rightarrow> decimal result" where
  "indicator_value r indicator_id =
     (case optional_indicator_value (Some r) indicator_id of
        None \<Rightarrow> Inl (BacktestSimulationError ''Backtest entry signal lacks its required ATR value.'')
      | Some v \<Rightarrow> Inr v)"

definition trail_position ::
    "strategy_document \<Rightarrow> signal_trace_record option \<Rightarrow> bool \<Rightarrow> candle \<Rightarrow> sim_position \<Rightarrow> sim_position result" where
  "trail_position strategy record_opt is_fill_bar candle position =
     (case atr_trailing_stop (sd_exits strategy) of
        None \<Rightarrow> Inr position
      | Some (atr_indicator, multiple) \<Rightarrow>
          let atr = optional_indicator_value record_opt atr_indicator
          in rbind (if ps_side position = SHORT
                then ratcheted_short_stop_in 64 (ps_stop_price position) (ps_trail_extreme position) (k_low candle)
                       atr multiple None (\<not> is_fill_bar)
                else ratcheted_long_stop_in 64 (ps_stop_price position) (ps_trail_extreme position) (k_high candle)
                       atr multiple None (\<not> is_fill_bar))
             (\<lambda>state. Inr (position\<lparr>ps_stop_price := ts_stop_price state,
                                    ps_trail_extreme := Some (ts_trail_extreme state)\<rparr>)))"

section \<open>Exits\<close>

definition signal_exit_matched :: "signal_trace_record option \<Rightarrow> bool" where
  "signal_exit_matched record_opt \<longleftrightarrow>
     (case record_opt of None \<Rightarrow> False | Some r \<Rightarrow> tr_exit_condition r = Some MATCHED)"

definition stop_hit :: "fill_model \<Rightarrow> sim_position \<Rightarrow> candle \<Rightarrow> bool" where
  "stop_hit m position candle \<longleftrightarrow>
     (if ps_side position = SHORT then ask m (k_high candle) \<ge> ps_stop_price position
      else bid m (k_low candle) \<le> ps_stop_price position)"

definition stop_reference :: "sim_costs \<Rightarrow> sim_position \<Rightarrow> candle \<Rightarrow> decimal result" where
  "stop_reference costs position candle =
     (if ps_side position = SHORT
      then rbind (raw_for_ask (co_fill_model costs) (ps_stop_price position)) (\<lambda>raw. Inr (max (k_open candle) raw))
      else rbind (raw_for_bid (co_fill_model costs) (ps_stop_price position)) (\<lambda>raw. Inr (min (k_open candle) raw)))"

definition taker_exit_quote :: "sim_costs \<Rightarrow> sim_position \<Rightarrow> decimal \<Rightarrow> fill_quote" where
  "taker_exit_quote costs position reference_price =
     (if ps_side position = SHORT then taker_buy (co_fill_model costs) reference_price (co_slippage_bps costs)
      else taker_sell (co_fill_model costs) reference_price (co_slippage_bps costs))"

text \<open>A book after an exit attempt, the trade it closed (if any) and cash.\<close>

type_synonym exit_outcome = "(sim_book \<times> backtest_trade option \<times> decimal) result"

text \<open>Close the book's position as a taker from one reference price.\<close>

definition taker_close ::
    "sim_costs \<Rightarrow> timedelta \<Rightarrow> exit_reason \<Rightarrow> decimal \<Rightarrow> sim_position \<Rightarrow> candle \<Rightarrow> sim_book \<Rightarrow> decimal \<Rightarrow> exit_outcome" where
  "taker_close costs bar_duration reason reference position candle book cash =
     rbind (close_position position candle cash (taker_exit_quote costs position reference) reason
              (co_taker_fee_rate costs) bar_duration)
       (\<lambda>(trade, cash'). Inr (book\<lparr>bk_position := None\<rparr>, Some trade, cash'))"

definition stop_out :: "sim_costs \<Rightarrow> timedelta \<Rightarrow> candle \<Rightarrow> sim_book \<Rightarrow> decimal \<Rightarrow> exit_outcome" where
  "stop_out costs bar_duration candle book cash =
     (case bk_position book of
        None \<Rightarrow> Inr (book, None, cash)
      | Some position \<Rightarrow>
          if \<not> ps_take_profit_resting position then Inr (book, None, cash)
          else if \<not> stop_hit (co_fill_model costs) position candle then Inr (book, None, cash)
          else rbind (stop_reference costs position candle) (\<lambda>reference.
                 taker_close costs bar_duration Stop_Loss reference position candle book cash))"

definition match_take_profit :: "sim_costs \<Rightarrow> timedelta \<Rightarrow> candle \<Rightarrow> sim_book \<Rightarrow> decimal \<Rightarrow> exit_outcome" where
  "match_take_profit costs bar_duration candle book cash =
     (case bk_position book of
        None \<Rightarrow> Inr (book, None, cash)
      | Some position \<Rightarrow>
          if \<not> ps_take_profit_resting position then Inr (book, None, cash)
          else case ps_target_price position of
                 None \<Rightarrow> Inr (book, None, cash)
               | Some target \<Rightarrow>
                   if \<not> maker_touched (k_high candle) (k_low candle) target (ps_side position = SHORT)
                          (co_execution_stress costs)
                   then Inr (book, None, cash)
                   else rbind (close_position position candle cash (maker target) Take_Profit
                                (co_maker_fee_rate costs) bar_duration)
                          (\<lambda>(trade, cash'). Inr (book\<lparr>bk_position := None\<rparr>, Some trade, cash')))"

definition manage_position ::
    "strategy_document \<Rightarrow> sim_costs \<Rightarrow> timedelta \<Rightarrow> int \<Rightarrow> candle \<Rightarrow> sim_book \<Rightarrow> decimal \<Rightarrow> exit_outcome" where
  "manage_position strategy costs bar_duration offset candle book cash =
     (case bk_position book of
        None \<Rightarrow> Inr (book, None, cash)
      | Some position \<Rightarrow>
          if stop_hit (co_fill_model costs) position candle then
            rbind (stop_reference costs position candle) (\<lambda>reference.
              taker_close costs bar_duration Stop_Loss reference position candle book cash)
          else
            let is_fill_bar = (offset = ps_entered_bar_index position);
                record_opt = bk_records book (k_starts_at candle)
            in rbind (trail_position strategy record_opt is_fill_bar candle position) (\<lambda>position.
               if \<not> is_fill_bar \<and> signal_exit_matched record_opt then
                 taker_close costs bar_duration Signal_Exit (k_close candle) position candle book cash
               else if offset - ps_entered_bar_index position \<ge> x_max_bars_held (sd_exits strategy) then
                 taker_close costs bar_duration Time_Exit (k_close candle) position candle book cash
               else Inr (book\<lparr>bk_position := Some (position\<lparr>ps_take_profit_resting := True\<rparr>)\<rparr>, None, cash)))"

section \<open>Futures\<close>

definition in_expiry_window :: "sim_costs \<Rightarrow> datetime \<Rightarrow> bool" where
  "in_expiry_window costs instant \<longleftrightarrow>
     (case co_futures costs of None \<Rightarrow> False
      | Some t \<Rightarrow> (case tm_flatten_at t of None \<Rightarrow> False | Some flatten_at \<Rightarrow> instant \<ge> flatten_at))"

definition flatten_for_expiry ::
    "sim_costs \<Rightarrow> timedelta \<Rightarrow> candle \<Rightarrow> sim_book \<Rightarrow> decimal \<Rightarrow> tally
     \<Rightarrow> (sim_book \<times> backtest_trade option \<times> decimal \<times> tally) result" where
  "flatten_for_expiry costs bar_duration candle book cash t =
     (let t' = (if bk_pending book \<noteq> None then t\<lparr>ty_entries_expired := ty_entries_expired t + 1\<rparr> else t);
          book = book\<lparr>bk_pending := None\<rparr>
      in case bk_position book of
           None \<Rightarrow> Inr (book, None, cash, t')
         | Some position \<Rightarrow>
             rbind (taker_close costs bar_duration Expiry (k_open candle) position candle book cash)
               (\<lambda>(book, trade, cash). Inr (book, trade, cash, t')))"

definition signed_quantity :: "sim_position \<Rightarrow> decimal" where
  "signed_quantity position =
     (let quantity = bf_quantity (ps_entry position)
      in if ps_side position = SHORT then ctx_neg 64 quantity else quantity)"

definition liquidate :: "sim_costs \<Rightarrow> timedelta \<Rightarrow> candle \<Rightarrow> sim_book \<Rightarrow> decimal \<Rightarrow> exit_outcome" where
  "liquidate costs bar_duration candle book cash =
     (case (co_futures costs, bk_position book) of
        (Some t, Some position) \<Rightarrow>
          let adverse = (if ps_side position = SHORT then k_high candle else k_low candle);
              equity = add64 cash (mul64 (signed_quantity position)
                         (mark (co_fill_model costs) adverse (ps_side position)))
          in if equity \<ge> maintenance_in 64 (tm_margin t) (bf_quantity (ps_entry position)) adverse (ps_side position)
             then Inr (book, None, cash)
             else taker_close costs bar_duration Liquidation adverse position candle book cash
      | _ \<Rightarrow> Inr (book, None, cash))"

text \<open>\<open>funding_hours\<close> of \<open>evaluation/futures_spec.py\<close>: the hours in \<open>(starts_at, ends_at]\<close>.\<close>

definition funding_hours :: "datetime \<Rightarrow> datetime \<Rightarrow> datetime list" where
  "funding_hours starts_at ends_at = hours_until ((starts_at div HOUR + 1) * HOUR) ends_at"

definition funding_rate :: "futures_terms \<Rightarrow> datetime \<Rightarrow> decimal result" where
  "funding_rate t hour =
     (case tm_constant_funding_rate t of Some rate \<Rightarrow> Inr rate
      | None \<Rightarrow>
          (case Option.bind (tm_funding_rates t) (\<lambda>rates. map_of rates hour) of
             Some rate \<Rightarrow> Inr rate
           | None \<Rightarrow> Inl (BacktestSimulationError ''FUNDING_HISTORY_MISSING'')))"

fun funding_sum :: "futures_terms \<Rightarrow> decimal \<Rightarrow> decimal \<Rightarrow> datetime list \<Rightarrow> decimal \<Rightarrow> decimal result" where
  "funding_sum t signed close [] acc = Inr acc"
| "funding_sum t signed close (hour # hours) acc =
     rbind (funding_rate t hour) (\<lambda>rate.
       funding_sum t signed close hours (add64 acc (mul64 (mul64 signed close) rate)))"

definition charge_funding ::
    "sim_costs \<Rightarrow> timedelta \<Rightarrow> candle \<Rightarrow> sim_book \<Rightarrow> decimal \<Rightarrow> (sim_book \<times> decimal) result" where
  "charge_funding costs bar_duration candle book cash =
     (case (co_futures costs, bk_position book) of
        (Some t, Some position) \<Rightarrow>
          if \<not> perpetual t then Inr (book, cash)
          else let hours = funding_hours (k_starts_at candle) (k_starts_at candle + bar_duration)
          in if hours = [] then Inr (book, cash)
             else rbind (funding_sum t (signed_quantity position) (k_close candle) hours 0) (\<lambda>charged.
                    let flow = ctx_neg 64 charged
                    in Inr (book\<lparr>bk_position := Some (position\<lparr>ps_funding :=
                              Some (add64 (or_else (ps_funding position) 0) flow)\<rparr>)\<rparr>,
                            add64 cash flow))
      | _ \<Rightarrow> Inr (book, cash))"

section \<open>Entries\<close>

definition CASH_CAP_HEADROOM :: decimal where
  "CASH_CAP_HEADROOM = 1 / 10 ^ 12"

record sized_notional =
  sn_notional :: decimal
  sn_capped :: bool

definition bounded_notional ::
    "strategy_document \<Rightarrow> decimal \<Rightarrow> decimal \<Rightarrow> decimal \<Rightarrow> decimal \<Rightarrow> sized_notional or_skip result" where
  "bounded_notional strategy cash distance limit_price maker_fee_rate =
     rbind (ctx_div_checked 64 (mul64 cash (z_risk_fraction (sd_sizing strategy))) distance) (\<lambda>risk_quantity.
     rbind (ctx_div_checked 64 cash (add64 1 maker_fee_rate)) (\<lambda>funded.
       let maximum_notional = min (min (z_max_quote_notional (sd_sizing strategy))
              (mul64 cash (l_max_strategy_exposure_fraction (sd_portfolio_limits strategy))))
              (mul64 funded (sub64 1 CASH_CAP_HEADROOM));
           requested = mul64 risk_quantity limit_price;
           notional = min requested maximum_notional
       in if notional < z_min_quote_notional (sd_sizing strategy) then Inr (Skip NOTIONAL_BELOW_MINIMUM)
          else Inr (Take \<lparr>sn_notional = notional, sn_capped = (requested > maximum_notional)\<rparr>)))"

definition kernel_size_contracts ::
    "futures_terms \<Rightarrow> strategy_document \<Rightarrow> decimal \<Rightarrow> position_side \<Rightarrow> decimal \<Rightarrow> decimal \<Rightarrow> decimal
     \<Rightarrow> (decimal \<times> bool) or_skip result" where
  "kernel_size_contracts t strategy cash side limit_price requested_notional maker_fee_rate =
     size_contracts_in 64 (tm_margin t)
       \<lparr>cl_max_quote_notional = z_max_quote_notional (sd_sizing strategy),
        cl_min_quote_notional = z_min_quote_notional (sd_sizing strategy),
        cl_max_exposure_fraction = l_max_strategy_exposure_fraction (sd_portfolio_limits strategy)\<rparr>
       cash side limit_price requested_notional maker_fee_rate"

definition kernel_size_entry ::
    "sim_costs \<Rightarrow> strategy_document \<Rightarrow> signal_trace_record \<Rightarrow> decimal \<Rightarrow> decimal \<Rightarrow> pending_entry or_skip result" where
  "kernel_size_entry costs strategy signal cash limit_price =
     rbind (indicator_value signal (as_atr_indicator (x_initial_stop (sd_exits strategy)))) (\<lambda>atr.
       let distance = mul64 atr (as_multiple (x_initial_stop (sd_exits strategy)));
           side = sd_side strategy;
           maker_fee_rate = co_maker_fee_rate costs
       in rbind (entry_levels_in 64 side limit_price distance (reward_risk_multiple (sd_exits strategy)) None)
          (\<lambda>levels. case levels of Skip reason \<Rightarrow> Inr (Skip reason)
           | Take lv \<Rightarrow>
             rbind (target_guard_allows (sd_economic_guard strategy) side limit_price (lv_target_price lv) maker_fee_rate)
             (\<lambda>allowed. if \<not> allowed then Inr (Skip NET_TARGET_BELOW_MINIMUM)
              else rbind (case co_futures costs of
                  Some t \<Rightarrow>
                    rbind (ctx_div_checked 64 (mul64 cash (z_risk_fraction (sd_sizing strategy))) distance) (\<lambda>units.
                      kernel_size_contracts t strategy cash side limit_price (mul64 units limit_price) maker_fee_rate)
                | None \<Rightarrow>
                    rbind (bounded_notional strategy cash distance limit_price maker_fee_rate) (\<lambda>sized.
                      case sized of Skip reason \<Rightarrow> Inr (Skip reason)
                      | Take sn \<Rightarrow> rbind (ctx_div_checked 64 (sn_notional sn) limit_price) (\<lambda>quantity.
                                    Inr (Take (quantity, sn_capped sn)))))
                (\<lambda>sized. case sized of Skip reason \<Rightarrow> Inr (Skip reason)
                 | Take (quantity, capped) \<Rightarrow>
                     Inr (Take \<lparr>pe_signal = signal, pe_limit_price = limit_price, pe_quantity = quantity,
                        pe_stop_price = lv_stop_price lv, pe_target_price = lv_target_price lv, pe_waited_bars = 0,
                        pe_side = side, pe_is_pyramid_add = False, pe_size_capped = capped\<rparr>)))))"

definition size_pyramid_add ::
    "sim_costs \<Rightarrow> strategy_document \<Rightarrow> signal_trace_record \<Rightarrow> decimal \<Rightarrow> decimal \<Rightarrow> sim_position
     \<Rightarrow> pending_entry or_skip result" where
  "size_pyramid_add costs strategy signal cash limit_price position =
     rbind (target_guard_allows (sd_economic_guard strategy) (ps_side position) limit_price (ps_target_price position)
              (co_maker_fee_rate costs))
     (\<lambda>allowed. if \<not> allowed then Inr (Skip NET_TARGET_BELOW_MINIMUM)
      else
        let distance = (if ps_side position = LONG then sub64 limit_price (ps_stop_price position)
                             else sub64 (ps_stop_price position) limit_price)
        in if limit_price \<le> 0 then Inr (Skip ENTRY_PRICE_NOT_POSITIVE)
           else if distance \<le> 0 then Inr (Skip STOP_DISTANCE_NOT_POSITIVE)
           else if cash \<le> 0 then Inr (Skip INSUFFICIENT_CASH)
           else rbind (bounded_notional strategy cash distance limit_price (co_maker_fee_rate costs)) (\<lambda>sized.
                case sized of Skip reason \<Rightarrow> Inr (Skip reason)
                | Take sn \<Rightarrow> rbind (ctx_div_checked 64 (sn_notional sn) limit_price) (\<lambda>quantity.
                    Inr (Take \<lparr>pe_signal = signal, pe_limit_price = limit_price, pe_quantity = quantity,
                       pe_stop_price = ps_stop_price position, pe_target_price = ps_target_price position,
                       pe_waited_bars = 0, pe_side = ps_side position, pe_is_pyramid_add = True,
                       pe_size_capped = sn_capped sn\<rparr>))))"

definition entry_gate :: "strategy_document \<Rightarrow> decimal \<Rightarrow> bool \<Rightarrow> bool \<Rightarrow> sim_book \<Rightarrow> backtest_gate_reason option" where
  "entry_gate strategy limit_price may_open_book expiry_window book =
     (if expiry_window then Some EXPIRY_WINDOW
      else if bk_pending book \<noteq> None then Some PENDING_ENTRY
      else if bk_cooldown_bars book > 0 then Some COOLDOWN
      else case bk_position book of
             None \<Rightarrow> if may_open_book then None else Some MAX_POSITIONS
           | Some position \<Rightarrow>
               if can_pyramid_add strategy (ps_side position) (bf_price (ps_entry position)) limit_price
                    (ps_add_count position)
               then None else Some IN_POSITION)"

definition maybe_rest_entry ::
    "strategy_document \<Rightarrow> sim_costs \<Rightarrow> signal_trace_record \<Rightarrow> decimal \<Rightarrow> decimal \<Rightarrow> bool \<Rightarrow> bool \<Rightarrow> sim_book
     \<Rightarrow> tally \<Rightarrow> (sim_book \<times> tally) result" where
  "maybe_rest_entry strategy costs r cash limit_price may_open_book expiry_window book t =
     (if tr_entry_condition r = UNDEFINED then Inr (book, t\<lparr>ty_warmup_bars := ty_warmup_bars t + 1\<rparr>)
      else if tr_entry_condition r \<noteq> MATCHED then Inr (book, t)
      else
        let t = t\<lparr>ty_signals_matched := ty_signals_matched t + 1\<rparr>
        in case entry_gate strategy limit_price may_open_book expiry_window book of
             Some gate \<Rightarrow> Inr (book, tally_skip (Gate gate) t)
           | None \<Rightarrow>
               rbind (case bk_position book of
                   None \<Rightarrow> kernel_size_entry costs strategy r cash limit_price
                 | Some position \<Rightarrow> size_pyramid_add costs strategy r cash limit_price position)
               (\<lambda>sized. case sized of
                   Skip reason \<Rightarrow> Inr (book, tally_skip (Sizing_Refusal reason) t)
                 | Take pending \<Rightarrow> Inr (book\<lparr>bk_pending := Some pending\<rparr>, tally_rested pending t)))"

definition entry_latency :: "sim_costs \<Rightarrow> int" where
  "entry_latency costs = (case co_execution_stress costs of None \<Rightarrow> 0 | Some x \<Rightarrow> xs_entry_latency_bars x)"

definition expire_entry :: "strategy_document \<Rightarrow> sim_book \<Rightarrow> tally \<Rightarrow> sim_book \<times> tally" where
  "expire_entry strategy book t =
     (book\<lparr>bk_pending := None, bk_cooldown_bars := max (sd_cooldown_bars strategy) 1\<rparr>,
      t\<lparr>ty_entries_expired := ty_entries_expired t + 1\<rparr>)"

definition match_entry ::
    "strategy_document \<Rightarrow> sim_costs \<Rightarrow> int \<Rightarrow> candle \<Rightarrow> sim_book \<Rightarrow> decimal \<Rightarrow> tally
     \<Rightarrow> (sim_book \<times> decimal \<times> tally) result" where
  "match_entry strategy costs offset candle book cash t =
     (case bk_pending book of
        None \<Rightarrow> Inr (book, cash, t)
      | Some pending \<Rightarrow>
          if bk_position book \<noteq> None \<and> \<not> pe_is_pyramid_add pending then Inr (book, cash, t)
          else if pe_waited_bars pending < entry_latency costs then
            Inr (book\<lparr>bk_pending := Some (pending\<lparr>pe_waited_bars := pe_waited_bars pending + 1\<rparr>)\<rparr>, cash, t)
          else if maker_touched (k_high candle) (k_low candle) (pe_limit_price pending) (pe_side pending = LONG)
                    (co_execution_stress costs) then
            let filled = (case co_execution_stress costs of None \<Rightarrow> pending
                   | Some x \<Rightarrow> pending\<lparr>pe_quantity := mul64 (pe_quantity pending) (xs_entry_fill_fraction x)\<rparr>)
            in fill_resting_entry costs offset filled candle (book\<lparr>bk_pending := None\<rparr>) cash t
          else
            let waited = pe_waited_bars pending + 1
            in if waited - entry_latency costs < sd_max_entry_wait_bars strategy then
                 Inr (book\<lparr>bk_pending := Some (pending\<lparr>pe_waited_bars := waited\<rparr>)\<rparr>, cash, t)
               else if sd_on_unfilled_entry strategy = Reprice_Entry then
                 rbind (target_guard_allows (sd_economic_guard strategy) (pe_side pending) (k_close candle)
                          (pe_target_price pending) (co_maker_fee_rate costs))
                 (\<lambda>allowed.
                    if \<not> allowed then (case expire_entry strategy book t of (book', t') \<Rightarrow> Inr (book', cash, t'))
                    else Inr (book\<lparr>bk_pending := Some (pending\<lparr>pe_limit_price := k_close candle,
                                    pe_waited_bars := entry_latency costs\<rparr>)\<rparr>, cash,
                              t\<lparr>ty_entries_repriced := ty_entries_repriced t + 1\<rparr>))
               else (case expire_entry strategy book t of (book', t') \<Rightarrow> Inr (book', cash, t')))"

section \<open>One bar of one book\<close>

text \<open>The shared quote book, the recorded trades and the funnel.\<close>

record sim_state =
  sm_cash :: decimal
  sm_trades :: "backtest_trade list"
  sm_tally :: tally

definition record_close ::
    "strategy_document \<Rightarrow> backtest_trade option \<Rightarrow> sim_book \<Rightarrow> sim_state \<Rightarrow> sim_book \<times> sim_state" where
  "record_close strategy trade_opt book sm =
     (case trade_opt of None \<Rightarrow> (book, sm)
      | Some trade \<Rightarrow> (book\<lparr>bk_cooldown_bars := sd_cooldown_bars strategy\<rparr>,
          sm\<lparr>sm_trades := sm_trades sm @ [trade], sm_tally := tally_closed trade (sm_tally sm)\<rparr>))"

text \<open>Run an exit rule only when no earlier rule of this bar closed a trade.\<close>

definition or_exit :: "exit_outcome \<Rightarrow> (sim_book \<Rightarrow> decimal \<Rightarrow> exit_outcome) \<Rightarrow> exit_outcome" where
  "or_exit m f = rbind m (\<lambda>(book, trade, cash).
     case trade of Some x \<Rightarrow> Inr (book, Some x, cash) | None \<Rightarrow> f book cash)"

definition bar_exit ::
    "strategy_document \<Rightarrow> sim_costs \<Rightarrow> timedelta \<Rightarrow> int \<Rightarrow> candle \<Rightarrow> sim_book \<Rightarrow> decimal \<Rightarrow> exit_outcome" where
  "bar_exit strategy costs bar_duration offset candle book cash =
     or_exit (or_exit (or_exit (liquidate costs bar_duration candle book cash)
       (stop_out costs bar_duration candle))
       (match_take_profit costs bar_duration candle))
       (manage_position strategy costs bar_duration offset candle)"

definition process_bar ::
    "strategy_document \<Rightarrow> sim_costs \<Rightarrow> timedelta \<Rightarrow> int \<Rightarrow> candle \<Rightarrow> sim_book \<Rightarrow> sim_state
     \<Rightarrow> (sim_book \<times> sim_state) result" where
  "process_bar strategy costs bar_duration offset candle book sm =
     (let book = (if bk_cooldown_bars book > 0 then book\<lparr>bk_cooldown_bars := bk_cooldown_bars book - 1\<rparr> else book)
      in if in_expiry_window costs (k_starts_at candle) then
           rbind (flatten_for_expiry costs bar_duration candle book (sm_cash sm) (sm_tally sm))
             (\<lambda>(book, trade, cash, t). Inr (record_close strategy trade book (sm\<lparr>sm_cash := cash, sm_tally := t\<rparr>)))
         else
           rbind (match_entry strategy costs offset candle book (sm_cash sm) (sm_tally sm)) (\<lambda>(book, cash, t).
           rbind (bar_exit strategy costs bar_duration offset candle book cash) (\<lambda>(book, trade, cash).
             case record_close strategy trade book (sm\<lparr>sm_cash := cash, sm_tally := t\<rparr>) of (book, sm) \<Rightarrow>
               rbind (charge_funding costs bar_duration candle book (sm_cash sm)) (\<lambda>(book, cash).
                 Inr (book, sm\<lparr>sm_cash := cash\<rparr>)))))"

end
