(* ===== verification/Backtest_Run.thy ===== *)
theory Backtest_Run
  imports Backtest_Kernel
begin

text \<open>
  A whole simulation: the bar grid (\<open>backtest/kernel_bars.py\<close>), result assembly
  (\<open>backtest/kernel_results.py\<close>, \<open>backtest/research_validity.py\<close>) and the shared-cash loop
  over the covered products (\<open>_simulate_books\<close> of \<open>backtest/kernel.py\<close>). The signal traces are
  inputs, as they are of \<open>_simulate_books\<close>; run, strategy and trace fingerprints of the result are
  not modelled.
\<close>

section \<open>The bar grid\<close>

record run_specification =
  rn_warmup_starts_at :: datetime
  rn_starts_at :: datetime
  rn_ends_at :: datetime
  rn_initial_quote_balance :: decimal
  rn_costs :: sim_costs

definition candle_values_valid :: "candle \<Rightarrow> bool" where
  "candle_values_valid c \<longleftrightarrow>
     \<not> (k_open c \<le> 0 \<or> k_high c \<le> 0 \<or> k_low c \<le> 0 \<or> k_close c \<le> 0 \<or> k_volume c < 0
        \<or> k_high c < max (k_open c) (k_close c) \<or> k_low c > min (k_open c) (k_close c) \<or> k_high c < k_low c)"

definition validate_candle_values :: "candle \<Rightarrow> unit result" where
  "validate_candle_values c =
     (if candle_values_valid c then Inr () else Inl (ValueError ''Candle OHLCV values are semantically invalid.''))"

text \<open>\<open>{candle.starts_at: candle}\<close> over the selected candles, after the coverage checks.\<close>

definition candle_map :: "run_specification \<Rightarrow> timedelta \<Rightarrow> candle list \<Rightarrow> (datetime \<Rightarrow> candle option) result" where
  "candle_map spec bar candles =
     (let starts_at = rn_warmup_starts_at spec;
          ends_at = rn_ends_at spec + bar;
          selected = filter (\<lambda>c. starts_at \<le> k_starts_at c \<and> k_starts_at c < ends_at) candles;
          expected_count = (ends_at - starts_at) div bar;
          mapped = dict_by k_starts_at selected
      in if \<not> list_all candle_values_valid selected
         then Inl (BacktestSimulationError ''Backtest candles have invalid timestamps or values.'')
         else if int (length selected) \<noteq> expected_count
         then Inl (BacktestSimulationError ''Backtest candle coverage is incomplete or duplicated.'')
         else if int (length (remdups (map k_starts_at selected))) \<noteq> expected_count
         then Inl (BacktestSimulationError ''Backtest candle coverage is duplicated.'')
         else if list_ex (\<lambda>offset. case mapped (starts_at + bar * int offset) of None \<Rightarrow> True
                | Some c \<Rightarrow> k_open c \<le> 0 \<or> k_high c < k_low c) [0 ..< nat expected_count]
         then Inl (BacktestSimulationError ''Backtest candles are not valid contiguous OHLC bars.'')
         else Inr mapped)"

definition bar_interval ::
    "candle_interval \<Rightarrow> candle_interval \<Rightarrow> run_specification \<Rightarrow> candle_interval result" where
  "bar_interval strategy_interval spec_interval spec =
     (if strategy_interval \<noteq> spec_interval
      then Inl (BacktestSimulationError ''Backtest timeframe does not match the strategy and run windows.'')
      else let span = rn_ends_at spec - rn_starts_at spec
      in if span < interval_duration strategy_interval \<or> span mod interval_duration strategy_interval \<noteq> 0
         then Inl (BacktestSimulationError
                ''Backtest evaluation window is not a positive multiple of the strategy timeframe.'')
         else Inr strategy_interval)"

definition new_book :: "string \<Rightarrow> (datetime \<Rightarrow> candle option) \<Rightarrow> signal_trace_record list \<Rightarrow> sim_book" where
  "new_book product_id candles records =
     \<lparr>bk_product_id = product_id, bk_candle_by_start = candles, bk_records = dict_by tr_candle_starts_at records,
      bk_pending = None, bk_position = None, bk_cooldown_bars = 0\<rparr>"

section \<open>Equity marks and the summary\<close>

definition get_key :: "('k \<Rightarrow> 'v option) \<Rightarrow> 'k \<Rightarrow> 'v result" where
  "get_key m k = (case m k of None \<Rightarrow> Inl KeyError | Some v \<Rightarrow> Inr v)"

fun book_marks :: "fill_model \<Rightarrow> bool \<Rightarrow> datetime \<Rightarrow> sim_book list \<Rightarrow> (sim_position option \<times> decimal) list result" where
  "book_marks m use_open starts_at [] = Inr []"
| "book_marks m use_open starts_at (b # bs) =
     rbind (get_key (bk_candle_by_start b) starts_at) (\<lambda>c.
       let raw = (if use_open then k_open c else k_close c);
           mk = (case bk_position b of None \<Rightarrow> raw | Some position \<Rightarrow> mark m raw (ps_side position))
       in rbind (book_marks m use_open starts_at bs) (\<lambda>rest. Inr ((bk_position b, mk) # rest)))"

definition mark_equity :: "decimal \<Rightarrow> (sim_position \<times> decimal) list \<Rightarrow> decimal" where
  "mark_equity cash open_books =
     foldl (\<lambda>equity (position, mk). add64 equity (mul64 (signed_quantity position) mk)) cash open_books"

definition equity_point_of :: "datetime \<Rightarrow> decimal \<Rightarrow> sim_book list \<Rightarrow> fill_model \<Rightarrow> bool \<Rightarrow> equity_point result" where
  "equity_point_of starts_at cash books m use_open =
     rbind (book_marks m use_open starts_at books) (\<lambda>marks.
       let open_books = List.map_filter (\<lambda>(p, mk). map_option (\<lambda>position. (position, mk)) p) marks;
           first_mark = (case marks of [] \<Rightarrow> 0 | (_, mk) # _ \<Rightarrow> mk);
           (base_quantity, mk) = (case open_books of [(position, mk)] \<Rightarrow> (signed_quantity position, mk)
                                  | _ \<Rightarrow> (0, first_mark))
       in Inr \<lparr>eq_candle_starts_at = starts_at, eq_cash = cash, eq_base_quantity = base_quantity,
               eq_mark_price = mk, eq_equity = mark_equity cash open_books\<rparr>)"

definition is_no_trade_bar :: "candle \<Rightarrow> bool" where
  "is_no_trade_bar c \<longleftrightarrow> k_volume c = 0"

definition collect_backtest_validity_limits ::
    "strategy_document \<Rightarrow> int \<Rightarrow> execution_stress option \<Rightarrow> string list \<Rightarrow> string list" where
  "collect_backtest_validity_limits strategy no_trade_bars stress futures_limits =
     [if stress = None then ''maker_touch_full_fill'' else ''execution_stress'', ''stop_before_tp_same_bar'']
     @ (if sd_side strategy = SHORT \<and> \<not> sd_is_future strategy then [''spot_short_synthetic''] else [])
     @ (if sd_signal_exit strategy then [''signal_exit_at_close''] else [])
     @ (if no_trade_bars > 0 then [''synthetic_no_trade_bars''] else [])
     @ futures_limits"

definition futures_validity_limits :: "futures_terms option \<Rightarrow> timedelta \<Rightarrow> string list" where
  "futures_validity_limits terms bar_duration =
     (case terms of None \<Rightarrow> []
      | Some t \<Rightarrow> [''futures_constant_margin'', ''futures_conservative_liquidation'', ''futures_shared_usdc_collateral'']
          @ (if tm_constant_funding_rate t \<noteq> None then [''futures_constant_funding''] else [])
          @ (if perpetual t \<and> bar_duration > HOUR then [''futures_funding_at_bar_close''] else []))"

record backtest_summary =
  su_initial_equity :: decimal
  su_final_equity :: decimal
  su_total_net_pnl :: decimal
  su_total_return_fraction :: decimal
  su_gross_profit :: decimal
  su_gross_loss :: decimal
  su_win_rate :: decimal
  su_profit_factor :: "decimal option"
  su_average_win :: "decimal option"
  su_average_loss :: "decimal option"
  su_trade_count :: int
  su_winning_trade_count :: int
  su_maximum_drawdown :: decimal
  su_maximum_drawdown_fraction :: decimal
  su_exposure_bars :: int
  su_evaluation_bars :: int
  su_total_spread_cost :: "decimal option"
  su_validity_limits :: "string list"
  su_total_funding :: "decimal option"

definition sum64 :: "decimal list \<Rightarrow> decimal" where
  "sum64 xs = foldl add64 0 xs"

fun summary_drawdown :: "decimal \<Rightarrow> decimal \<Rightarrow> decimal \<Rightarrow> decimal list \<Rightarrow> (decimal \<times> decimal) result" where
  "summary_drawdown peak md mdf [] = Inr (md, mdf)"
| "summary_drawdown peak md mdf (equity # es) =
     (let peak' = max peak equity; dd = sub64 peak' equity
      in rbind (ctx_div_checked 64 dd peak') (\<lambda>fraction.
           summary_drawdown peak' (max md dd) (max mdf fraction) es))"

definition count_ratio :: "decimal \<Rightarrow> nat \<Rightarrow> decimal" where
  "count_ratio x n = div64 x (of_nat n)"

definition spread_charge :: "'x backtest_fill_scheme \<Rightarrow> decimal" where
  "spread_charge fl = mul64 (or_else (bf_spread_cost fl) 0) (bf_quantity fl)"

definition summary ::
    "decimal \<Rightarrow> decimal \<Rightarrow> backtest_trade list \<Rightarrow> equity_point list \<Rightarrow> bool \<Rightarrow> int \<Rightarrow> bool \<Rightarrow> string list
     \<Rightarrow> backtest_summary result" where
  "summary initial_cash final_cash trades equity_curve include_spread_cost evaluation_bars include_funding
      validity_limits =
     rbind (summary_drawdown initial_cash 0 0 (map eq_equity equity_curve)) (\<lambda>(md, mdf).
     rbind (ctx_div_checked 64 (sub64 final_cash initial_cash) initial_cash) (\<lambda>total_return.
       let net_pnls = map bt_net_pnl trades;
           wins = filter (\<lambda>x. x > 0) net_pnls;
           losses = filter (\<lambda>x. x < 0) net_pnls;
           gross_profit = sum64 wins;
           gross_loss = ctx_neg 64 (sum64 losses)
       in Inr \<lparr>su_initial_equity = initial_cash, su_final_equity = final_cash,
            su_total_net_pnl = sub64 final_cash initial_cash, su_total_return_fraction = total_return,
            su_gross_profit = gross_profit, su_gross_loss = gross_loss,
            su_win_rate = (if trades = [] then 0 else count_ratio (of_nat (length wins)) (length trades)),
            su_profit_factor = (if gross_loss = 0 then None else Some (div64 gross_profit gross_loss)),
            su_average_win = (if wins = [] then None else Some (count_ratio gross_profit (length wins))),
            su_average_loss = (if losses = [] then None else Some (count_ratio gross_loss (length losses))),
            su_trade_count = int (length trades), su_winning_trade_count = int (length wins),
            su_maximum_drawdown = md, su_maximum_drawdown_fraction = mdf,
            su_exposure_bars = sum_list (map (\<lambda>t. max 1 (bt_holding_bars t)) trades),
            su_evaluation_bars = evaluation_bars,
            su_total_spread_cost = (if include_spread_cost
              then Some (sum64 (concat (map (\<lambda>t. [spread_charge (bt_entry t), spread_charge (bt_exit t)]) trades)))
              else None),
            su_validity_limits = validity_limits,
            su_total_funding = (if include_funding then Some (sum64 (map (\<lambda>t. or_else (bt_funding t) 0) trades))
              else None)\<rparr>))"

section \<open>The shared-cash loop\<close>

definition open_books :: "sim_book list \<Rightarrow> nat" where
  "open_books books = length (filter is_open books)"

text \<open>One bar over the products in lexicographic order. \<open>before\<close> are the books already processed
  on this bar; the open-book count sees them updated and the later ones as they were.\<close>

fun run_products ::
    "strategy_document \<Rightarrow> sim_costs \<Rightarrow> timedelta \<Rightarrow> int \<Rightarrow> datetime \<Rightarrow> sim_book list \<Rightarrow> sim_book list \<Rightarrow> sim_state
     \<Rightarrow> (sim_book list \<times> sim_state) result" where
  "run_products strategy costs bar offset starts_at before [] sm = Inr (before, sm)"
| "run_products strategy costs bar offset starts_at before (b # bs) sm =
     rbind (get_key (bk_candle_by_start b) starts_at) (\<lambda>c.
     rbind (process_bar strategy costs bar offset c b sm) (\<lambda>(b1, sm1).
     rbind (get_key (bk_records b1) starts_at) (\<lambda>r.
     rbind (maybe_rest_entry strategy costs r (sm_cash sm1) (k_close c)
              (int (open_books (before @ b1 # bs)) < l_max_concurrent_positions (sd_portfolio_limits strategy))
              (in_expiry_window costs (starts_at + bar)) b1 (sm_tally sm1)) (\<lambda>(b2, t2).
       run_products strategy costs bar offset starts_at (before @ [b2]) bs (sm1\<lparr>sm_tally := t2\<rparr>)))))"

fun run_bars ::
    "strategy_document \<Rightarrow> sim_costs \<Rightarrow> timedelta \<Rightarrow> datetime \<Rightarrow> nat list \<Rightarrow> sim_book list \<Rightarrow> sim_state
     \<Rightarrow> equity_point list \<Rightarrow> (sim_book list \<times> sim_state \<times> equity_point list) result" where
  "run_bars strategy costs bar starts [] books sm curve = Inr (books, sm, curve)"
| "run_bars strategy costs bar starts (offset # offsets) books sm curve =
     (let starts_at = starts + bar * int offset
      in rbind (run_products strategy costs bar (int offset) starts_at [] books sm) (\<lambda>(books', sm').
         rbind (equity_point_of starts_at (sm_cash sm') books' (co_fill_model costs) False) (\<lambda>point.
           run_bars strategy costs bar starts offsets books' sm' (curve @ [point]))))"

text \<open>The terminal bar: resting entries are counted as unfilled and open inventory is sold at its
  open as a taker.\<close>

fun close_books ::
    "sim_costs \<Rightarrow> timedelta \<Rightarrow> datetime \<Rightarrow> sim_book list \<Rightarrow> sim_state \<Rightarrow> (sim_book list \<times> sim_state) result" where
  "close_books costs bar ends_at [] sm = Inr ([], sm)"
| "close_books costs bar ends_at (b # bs) sm =
     (let t = sm_tally sm;
          sm1 = (if bk_pending b = None then sm
                 else sm\<lparr>sm_tally := t\<lparr>ty_entries_unfilled_at_end := ty_entries_unfilled_at_end t + 1\<rparr>\<rparr>);
          b1 = b\<lparr>bk_pending := None\<rparr>
      in rbind (case bk_position b of
            None \<Rightarrow> Inr (b1, sm1)
          | Some position \<Rightarrow>
              rbind (get_key (bk_candle_by_start b) ends_at) (\<lambda>c.
              rbind (close_position position c (sm_cash sm1) (taker_exit_quote costs position (k_open c)) Evaluation_End
                       (co_taker_fee_rate costs) bar) (\<lambda>(trade, cash).
                Inr (b1\<lparr>bk_position := None\<rparr>,
                     sm1\<lparr>sm_cash := cash, sm_trades := sm_trades sm1 @ [trade],
                         sm_tally := tally_closed trade (sm_tally sm1)\<rparr>))))
         (\<lambda>(b2, sm2). rbind (close_books costs bar ends_at bs sm2) (\<lambda>(bs', sm'). Inr (b2 # bs', sm'))))"

record backtest_result =
  re_trades :: "backtest_trade list"
  re_equity_curve :: "equity_point list"
  re_summary :: backtest_summary

definition evaluation_bars_of :: "run_specification \<Rightarrow> timedelta \<Rightarrow> nat" where
  "evaluation_bars_of spec bar = nat ((rn_ends_at spec - rn_starts_at spec) div bar)"

definition evaluated_no_trade_bars :: "sim_book list \<Rightarrow> datetime \<Rightarrow> timedelta \<Rightarrow> nat \<Rightarrow> int" where
  "evaluated_no_trade_bars books starts_at bar evaluation_bars =
     int (length (filter is_no_trade_bar (concat (map (\<lambda>offset.
       List.map_filter (\<lambda>b. bk_candle_by_start b (starts_at + bar * int offset)) books) [0 ..< evaluation_bars]))))"

definition new_sim :: "decimal \<Rightarrow> sim_state" where
  "new_sim cash = \<lparr>sm_cash = cash, sm_trades = [], sm_tally = new_tally\<rparr>"

text \<open>The books after every bar and the terminal close, before the result is assembled.\<close>

definition run_books ::
    "run_specification \<Rightarrow> strategy_document \<Rightarrow> timedelta \<Rightarrow> sim_book list
     \<Rightarrow> (sim_book list \<times> sim_state \<times> equity_point list) result" where
  "run_books spec strategy bar books =
     (let costs = rn_costs spec
      in rbind (run_bars strategy costs bar (rn_starts_at spec) [0 ..< evaluation_bars_of spec bar] books
                  (new_sim (rn_initial_quote_balance spec)) []) (\<lambda>(books1, sm1, curve).
         rbind (close_books costs bar (rn_ends_at spec) books1 sm1) (\<lambda>(books2, sm2).
         rbind (equity_point_of (rn_ends_at spec) (sm_cash sm2) books2 (co_fill_model costs) True) (\<lambda>point.
           Inr (books2, sm2, curve @ [point])))))"

definition simulate_books ::
    "run_specification \<Rightarrow> strategy_document \<Rightarrow> timedelta \<Rightarrow> sim_book list
     \<Rightarrow> (backtest_result \<times> backtest_diagnostics) result" where
  "simulate_books spec strategy bar books =
     rbind (run_books spec strategy bar books) (\<lambda>(books', sm, curve).
       let costs = rn_costs spec;
           n = evaluation_bars_of spec bar
       in rbind (summary (rn_initial_quote_balance spec) (sm_cash sm) (sm_trades sm) curve
                  (spread_stressed (co_fill_model costs)) (int n)
                  (case co_futures costs of None \<Rightarrow> False | Some t \<Rightarrow> perpetual t)
                  (collect_backtest_validity_limits strategy (evaluated_no_trade_bars books' (rn_starts_at spec) bar n)
                     (co_execution_stress costs) (futures_validity_limits (co_futures costs) bar)))
          (\<lambda>su. rbind (diagnostics (sm_tally sm)) (\<lambda>d.
             Inr (\<lparr>re_trades = sm_trades sm, re_equity_curve = curve, re_summary = su\<rparr>, d))))"

end
