(* ===== verification/Backtest_Funnel.thy ===== *)
theory Backtest_Funnel
  imports Backtest_Run
begin

text \<open>
  What the simulation guarantees of its own evidence: the contract every exit rule of a bar keeps
  (a locale, interpreted on liquidation, stop, take-profit and position management), the entry
  funnel that always adds up, the cap on concurrently open books, and causality: no bar reads a
  later one.
\<close>

section \<open>The contract of an exit rule\<close>

definition same_feed :: "sim_book \<Rightarrow> sim_book \<Rightarrow> bool" where
  "same_feed b b' \<longleftrightarrow> bk_product_id b' = bk_product_id b \<and> bk_candle_by_start b' = bk_candle_by_start b
     \<and> bk_records b' = bk_records b"

lemma same_feed_refl [simp]: "same_feed b b"
  by (simp add: same_feed_def)

lemma same_feed_trans [trans]: "same_feed a b \<Longrightarrow> same_feed b c \<Longrightarrow> same_feed a c"
  by (simp add: same_feed_def)

lemma same_feed_update [simp]:
  "same_feed b (b'\<lparr>bk_pending := p\<rparr>) = same_feed b b'" "same_feed b (b'\<lparr>bk_position := q\<rparr>) = same_feed b b'"
  "same_feed b (b'\<lparr>bk_cooldown_bars := n\<rparr>) = same_feed b b'"
  by (simp_all add: same_feed_def)

locale exit_rule =
  fixes rule :: "sim_book \<Rightarrow> decimal \<Rightarrow> exit_outcome"
  assumes frame: "rule b cash = Inr (b', tr, cash') \<Longrightarrow> bk_pending b' = bk_pending b \<and> same_feed b b'"
    and no_trade: "rule b cash = Inr (b', None, cash')
      \<Longrightarrow> cash' = cash \<and> map_option ps_entry (bk_position b') = map_option ps_entry (bk_position b)"
    and closed: "rule b cash = Inr (b', Some trade, cash')
      \<Longrightarrow> bk_position b' = None \<and> (\<exists>p. bk_position b = Some p \<and> bt_entry trade = ps_entry p)"
begin

lemma never_opens: "rule b cash = Inr (b', tr, cash') \<Longrightarrow> is_open b' \<Longrightarrow> is_open b"
  using frame [of b cash b' tr cash'] no_trade [of b cash b' cash'] closed [of b cash b' _ cash']
  by (cases tr) (auto simp: is_open_def elim: option.map_disc_iff [THEN iffD1])

lemma flat_book_untouched: "bk_position b = None \<Longrightarrow> rule b cash = Inr (b', tr, cash') \<Longrightarrow> tr = None \<and> cash' = cash"
  using no_trade [of b cash b' cash'] closed [of b cash b' _ cash'] by (cases tr) auto

end

lemma close_position_trade:
  "close_position p c cash q reason fee bar = Inr (trade, cash')
   \<Longrightarrow> bt_entry trade = ps_entry p \<and> xf_reason (bt_exit trade) = reason"
  by (auto simp: close_position_def Let_def require_ordered_fills_def split: if_splits)

lemma taker_close_result:
  assumes "taker_close costs bar reason ref p c b cash = Inr (b', tr, cash')"
  obtains trade where "b' = b\<lparr>bk_position := None\<rparr>" "tr = Some trade" "bt_entry trade = ps_entry p"
    "xf_reason (bt_exit trade) = reason"
  using assms close_position_trade by (fastforce simp: taker_close_def)

lemma trail_position_entry:
  "trail_position strategy r fill_bar c p = Inr p' \<Longrightarrow> ps_entry p' = ps_entry p \<and> ps_entered_bar_index p' = ps_entered_bar_index p"
  by (auto simp: trail_position_def Let_def split: option.splits)

lemma or_exit_cases:
  assumes "or_exit m g = Inr (b', tr, cash')"
  obtains (first) x where "m = Inr (b', Some x, cash')" "tr = Some x"
  | (second) b1 cash1 where "m = Inr (b1, None, cash1)" "g b1 cash1 = Inr (b', tr, cash')"
proof -
  from assms obtain b1 t1 cash1 where m: "m = Inr (b1, t1, cash1)"
    and g: "(case t1 of Some x \<Rightarrow> Inr (b1, Some x, cash1) | None \<Rightarrow> g b1 cash1) = Inr (b', tr, cash')"
    unfolding or_exit_def by auto
  then show thesis by (cases t1) (auto intro: first second)
qed

lemma or_exit_rule:
  assumes f: "exit_rule f" and g: "exit_rule g"
  shows "exit_rule (\<lambda>b cash. or_exit (f b cash) g)"
proof
  fix b cash b' tr cash'
  assume run: "or_exit (f b cash) g = Inr (b', tr, cash')"
  show "bk_pending b' = bk_pending b \<and> same_feed b b'"
    using run
  proof (cases rule: or_exit_cases)
    case (second b1 cash1)
    then show ?thesis using exit_rule.frame [OF f second(1)] exit_rule.frame [OF g second(2)]
      by (auto intro: same_feed_trans)
  qed (use exit_rule.frame [OF f] in blast)
next
  fix b cash b' cash'
  assume run: "or_exit (f b cash) g = Inr (b', None, cash')"
  then show "cash' = cash \<and> map_option ps_entry (bk_position b') = map_option ps_entry (bk_position b)"
  proof (cases rule: or_exit_cases)
    case (second b1 cash1)
    then show ?thesis using exit_rule.no_trade [OF f second(1)] exit_rule.no_trade [OF g second(2)] by simp
  qed simp
next
  fix b cash b' trade cash'
  assume run: "or_exit (f b cash) g = Inr (b', Some trade, cash')"
  then show "bk_position b' = None \<and> (\<exists>p. bk_position b = Some p \<and> bt_entry trade = ps_entry p)"
  proof (cases rule: or_exit_cases)
    case (first x)
    then show ?thesis using exit_rule.closed [OF f first(1)] by simp
  next
    case (second b1 cash1)
    then show ?thesis using exit_rule.no_trade [OF f second(1)] exit_rule.closed [OF g second(2)]
      by (cases "bk_position b") auto
  qed
qed

text \<open>A rule keeps the contract when it leaves the book alone, updates the position without touching its
  entry, or closes it with a trade over that entry.\<close>

lemma exit_ruleI:
  assumes step: "\<And>b cash b' tr cash'. rule b cash = Inr (b', tr, cash') \<Longrightarrow>
     tr = None \<and> cash' = cash \<and> b' = b
     \<or> tr = None \<and> cash' = cash \<and> (\<exists>p p'. bk_position b = Some p \<and> b' = b\<lparr>bk_position := Some p'\<rparr> \<and> ps_entry p' = ps_entry p)
     \<or> (\<exists>p trade. bk_position b = Some p \<and> b' = b\<lparr>bk_position := None\<rparr> \<and> tr = Some trade \<and> bt_entry trade = ps_entry p)"
  shows "exit_rule rule"
proof
  fix b cash b' tr cash'
  assume "rule b cash = Inr (b', tr, cash')"
  from step [OF this] show "bk_pending b' = bk_pending b \<and> same_feed b b'" by auto
next
  fix b cash b' cash'
  assume "rule b cash = Inr (b', None, cash')"
  from step [OF this] show "cash' = cash \<and> map_option ps_entry (bk_position b') = map_option ps_entry (bk_position b)" by auto
next
  fix b cash b' trade cash'
  assume "rule b cash = Inr (b', Some trade, cash')"
  from step [OF this] show "bk_position b' = None \<and> (\<exists>p. bk_position b = Some p \<and> bt_entry trade = ps_entry p)" by auto
qed

interpretation liquidation: exit_rule "liquidate costs bar c"
  by (rule exit_ruleI) (auto simp: liquidate_def Let_def split: option.splits if_splits elim!: taker_close_result)

interpretation stop: exit_rule "stop_out costs bar c"
  by (rule exit_ruleI) (auto simp: stop_out_def split: option.splits if_splits elim!: taker_close_result)

interpretation take_profit: exit_rule "match_take_profit costs bar c"
  by (rule exit_ruleI)
    (auto simp: match_take_profit_def dest: close_position_trade split: option.splits if_splits)

interpretation management: exit_rule "manage_position strategy costs bar offset c"
  by (rule exit_ruleI)
    (auto simp: manage_position_def Let_def dest!: trail_position_entry split: option.splits if_splits
      elim!: taker_close_result intro!: exI [of _ "_\<lparr>ps_take_profit_resting := True\<rparr>"])

text \<open>The four rules of a bar compose into one.\<close>

interpretation bar: exit_rule "bar_exit strategy costs bar_duration offset c"
proof -
  have "exit_rule (\<lambda>b cash. or_exit (or_exit (or_exit (liquidate costs bar_duration c b cash)
       (stop_out costs bar_duration c)) (match_take_profit costs bar_duration c))
       (manage_position strategy costs bar_duration offset c))"
    by (intro or_exit_rule liquidation.exit_rule_axioms stop.exit_rule_axioms take_profit.exit_rule_axioms
        management.exit_rule_axioms)
  then show "exit_rule (bar_exit strategy costs bar_duration offset c)"
    by (simp add: bar_exit_def [abs_def])
qed

section \<open>The funnel adds up\<close>

text \<open>\<open>tally_ok t n k\<close>: the counters are coherent while \<open>n\<close> entries rest and \<open>k\<close> trades closed.\<close>

definition counts_ok :: "('k \<times> int) list \<Rightarrow> bool" where
  "counts_ok xs \<longleftrightarrow> distinct (map fst xs) \<and> (\<forall>(_, n) \<in> set xs. 1 \<le> n)"

definition tally_ok :: "tally \<Rightarrow> int \<Rightarrow> int \<Rightarrow> bool" where
  "tally_ok t n k \<longleftrightarrow>
     ty_signals_matched t = ty_entries_rested t + sum_list (map snd (ty_skipped t))
     \<and> ty_entries_rested t = ty_entries_filled t + ty_entries_expired t + ty_entries_refused_at_fill t
         + ty_entries_unfilled_at_end t + n
     \<and> sum_list (map snd (ty_exits t)) = k \<and> counts_ok (ty_skipped t) \<and> counts_ok (ty_exits t)
     \<and> 0 \<le> ty_entries_filled t \<and> 0 \<le> ty_entries_expired t \<and> 0 \<le> ty_entries_repriced t
     \<and> 0 \<le> ty_entries_refused_at_fill t \<and> 0 \<le> ty_entries_unfilled_at_end t \<and> 0 \<le> ty_entries_size_capped t
     \<and> 0 \<le> ty_warmup_bars t"

lemma sum_bump [simp]: "sum_list (map snd (bump k xs)) = sum_list (map snd xs) + 1"
  by (induction k xs rule: bump.induct) auto

lemma keys_bump: "fst ` set (bump k xs) = insert k (fst ` set xs)"
  by (induction k xs rule: bump.induct) auto

lemma counts_ok_Cons: "counts_ok ((k, n) # xs) \<longleftrightarrow> k \<notin> fst ` set xs \<and> 1 \<le> n \<and> counts_ok xs"
  by (auto simp: counts_ok_def)

lemma counts_ok_Nil [simp]: "counts_ok []"
  by (simp add: counts_ok_def)

lemma counts_ok_bump [simp]: "counts_ok xs \<Longrightarrow> counts_ok (bump k xs)"
  by (induction k xs rule: bump.induct) (auto simp: counts_ok_Cons keys_bump)

abbreviation pend :: "sim_book \<Rightarrow> int" where
  "pend b \<equiv> (if bk_pending b = None then 0 else 1)"

abbreviation pends :: "sim_book list \<Rightarrow> int" where
  "pends bs \<equiv> sum_list (map pend bs)"

lemma tally_ok_new: "tally_ok new_tally 0 0"
  by (simp add: tally_ok_def new_tally_def)

lemma tally_ok_closed: "tally_ok t n k \<Longrightarrow> tally_ok (tally_closed trade t) n (k + 1)"
  by (simp add: tally_ok_def tally_closed_def)

lemma tally_ok_settled:
  assumes "tally_ok t (n + 1) k"
  shows "tally_ok (t\<lparr>ty_entries_filled := ty_entries_filled t + 1\<rparr>) n k"
    "tally_ok (t\<lparr>ty_entries_expired := ty_entries_expired t + 1\<rparr>) n k"
    "tally_ok (t\<lparr>ty_entries_refused_at_fill := ty_entries_refused_at_fill t + 1\<rparr>) n k"
    "tally_ok (t\<lparr>ty_entries_unfilled_at_end := ty_entries_unfilled_at_end t + 1\<rparr>) n k"
  using assms by (simp_all add: tally_ok_def)

lemma tally_ok_repriced: "tally_ok t n k \<Longrightarrow> tally_ok (t\<lparr>ty_entries_repriced := ty_entries_repriced t + 1\<rparr>) n k"
  by (simp add: tally_ok_def)

lemma fill_resting_entry_step:
  assumes "fill_resting_entry costs offset pending c b cash t = Inr (b', cash', t')" "tally_ok t (n + 1) k"
  shows "tally_ok t' n k \<and> bk_pending b' = bk_pending b \<and> same_feed b b'"
  using assms by (auto simp: fill_resting_entry_def tally_ok_settled split: option.splits)

text \<open>A resting entry is kept (waiting or repriced), expires, or fills on a bar that trades through it.\<close>

lemma match_entry_cases:
  assumes run: "match_entry strategy costs offset c b cash t = Inr (b', cash', t')"
  obtains (kept) q where "b' = b\<lparr>bk_pending := q\<rparr>" "q = None \<longleftrightarrow> bk_pending b = None" "cash' = cash"
      "t' = t \<or> t' = t\<lparr>ty_entries_repriced := ty_entries_repriced t + 1\<rparr>"
  | (expired) p where "bk_pending b = Some p" "(b', t') = expire_entry strategy b t" "cash' = cash"
  | (filled) p q where "bk_pending b = Some p" "bk_position b = None \<or> pe_is_pyramid_add p"
      "entry_latency costs \<le> pe_waited_bars p"
      "maker_touched (k_high c) (k_low c) (pe_limit_price p) (pe_side p = LONG) (co_execution_stress costs)"
      "q = (case co_execution_stress costs of None \<Rightarrow> p
              | Some x \<Rightarrow> p\<lparr>pe_quantity := mul64 (pe_quantity p) (xs_entry_fill_fraction x)\<rparr>)"
      "fill_resting_entry costs offset q c (b\<lparr>bk_pending := None\<rparr>) cash t = Inr (b', cash', t')"
proof (cases "bk_pending b")
  case None
  with run have "b' = b\<lparr>bk_pending := None\<rparr> \<and> cash' = cash \<and> t' = t" by (simp add: match_entry_def)
  with None show ?thesis by (intro kept [of None]) auto
next
  case (Some p)
  note run = run [unfolded match_entry_def Some option.case]
  have keep: "b = b\<lparr>bk_pending := Some p\<rparr>" using Some by simp
  show ?thesis
  proof (cases "bk_position b \<noteq> None \<and> \<not> pe_is_pyramid_add p")
    case True
    with run Some show ?thesis by (intro kept [of "Some p"]) auto
  next
    case entry: False
    note run = run [unfolded if_not_P [OF entry]]
    show ?thesis
    proof (cases "pe_waited_bars p < entry_latency costs")
      case True
      with run Some show ?thesis by (intro kept [of "Some (p\<lparr>pe_waited_bars := pe_waited_bars p + 1\<rparr>)"]) auto
    next
      case ready: False
      note run = run [unfolded if_not_P [OF ready]]
      show ?thesis
      proof (cases "maker_touched (k_high c) (k_low c) (pe_limit_price p) (pe_side p = LONG) (co_execution_stress costs)")
        case True
        with run Some entry ready show ?thesis by (intro filled [OF Some]) (auto simp: Let_def)
      next
        case False
        note run = run [unfolded if_not_P [OF False] Let_def]
        consider (wait) "b' = b\<lparr>bk_pending := Some (p\<lparr>pe_waited_bars := pe_waited_bars p + 1\<rparr>)\<rparr>" "cash' = cash" "t' = t"
          | (expire) "(b', t') = expire_entry strategy b t" "cash' = cash"
          | (reprice) "b' = b\<lparr>bk_pending := Some (p\<lparr>pe_limit_price := k_close c, pe_waited_bars := entry_latency costs\<rparr>)\<rparr>"
              "cash' = cash" "t' = t\<lparr>ty_entries_repriced := ty_entries_repriced t + 1\<rparr>"
          using run by (auto split: if_splits prod.splits)
        then show ?thesis
        proof cases
          case wait
          with Some show ?thesis by (intro kept [OF wait(1)]) auto
        next
          case expire
          with Some show ?thesis by (intro expired)
        next
          case reprice
          with Some show ?thesis by (intro kept [OF reprice(1)]) auto
        qed
      qed
    qed
  qed
qed

lemma match_entry_step:
  assumes run: "match_entry strategy costs offset c b cash t = Inr (b', cash', t')" and ok: "tally_ok t (n + pend b) k"
  shows "tally_ok t' (n + pend b') k \<and> same_feed b b'"
  using run
proof (cases rule: match_entry_cases)
  case (kept q)
  with ok show ?thesis by (cases "bk_pending b") (auto intro: tally_ok_repriced)
next
  case (expired p)
  with ok tally_ok_settled(2) [of t n k] show ?thesis by (simp add: expire_entry_def)
next
  case (filled p q)
  from fill_resting_entry_step [OF filled(6), of n k] ok filled(1) show ?thesis by (auto simp: same_feed_def)
qed

lemma flatten_for_expiry_step:
  assumes "flatten_for_expiry costs bar c b cash t = Inr (b', tr, cash', t')" "tally_ok t (n + pend b) k"
  shows "tally_ok t' (n + pend b') k \<and> same_feed b b'"
  using assms
  by (auto simp: flatten_for_expiry_def tally_ok_def Let_def split: option.splits if_splits elim!: taker_close_result)

lemma charge_funding_frame:
  "charge_funding costs bar c b cash = Inr (b', cash')
   \<Longrightarrow> bk_pending b' = bk_pending b \<and> same_feed b b' \<and> (bk_position b' = None \<longleftrightarrow> bk_position b = None)"
  by (auto simp: charge_funding_def Let_def split: option.splits if_splits)

lemma record_close_step:
  assumes "record_close strategy tr b sm = (b', sm')" "tally_ok (sm_tally sm) (n + pend b) (int (length (sm_trades sm)))"
  shows "tally_ok (sm_tally sm') (n + pend b') (int (length (sm_trades sm'))) \<and> same_feed b b'
     \<and> bk_pending b' = bk_pending b \<and> bk_position b' = bk_position b \<and> sm_cash sm' = sm_cash sm"
  using assms tally_ok_closed by (fastforce simp: record_close_def algebra_simps split: option.splits)

lemma process_bar_step:
  assumes run: "process_bar strategy costs bar offset c b sm = Inr (b', sm')"
    and ok: "tally_ok (sm_tally sm) (n + pend b) (int (length (sm_trades sm)))"
  shows "tally_ok (sm_tally sm') (n + pend b') (int (length (sm_trades sm'))) \<and> same_feed b b'"
proof -
  define b0 where "b0 = (if bk_cooldown_bars b > 0 then b\<lparr>bk_cooldown_bars := bk_cooldown_bars b - 1\<rparr> else b)"
  have b0: "pend b0 = pend b" "same_feed b b0" by (simp_all add: b0_def)
  note run = run [unfolded process_bar_def Let_def b0_def [symmetric]]
  show ?thesis
  proof (cases "in_expiry_window costs (k_starts_at c)")
    case True
    with run obtain b1 tr cash t where f: "flatten_for_expiry costs bar c b0 (sm_cash sm) (sm_tally sm) = Inr (b1, tr, cash, t)"
      and r: "record_close strategy tr b1 (sm\<lparr>sm_cash := cash, sm_tally := t\<rparr>) = (b', sm')" by auto
    from flatten_for_expiry_step [OF f] ok b0
    have "tally_ok t (n + pend b1) (int (length (sm_trades sm)))" "same_feed b b1"
      by (auto intro: same_feed_trans)
    with record_close_step [OF r, of n] show ?thesis by (auto intro: same_feed_trans)
  next
    case False
    with run obtain b1 cash1 t1 where m: "match_entry strategy costs offset c b0 (sm_cash sm) (sm_tally sm) = Inr (b1, cash1, t1)"
      and rest: "rbind (bar_exit strategy costs bar offset c b1 cash1) (\<lambda>(book, trade, cash).
             case record_close strategy trade book (sm\<lparr>sm_cash := cash, sm_tally := t1\<rparr>) of (book, sm) \<Rightarrow>
               rbind (charge_funding costs bar c book (sm_cash sm)) (\<lambda>(book, cash).
                 Inr (book, sm\<lparr>sm_cash := cash\<rparr>))) = Inr (b', sm')" by auto
    from rest obtain b2 tr cash2 where e: "bar_exit strategy costs bar offset c b1 cash1 = Inr (b2, tr, cash2)"
      and rest: "(case record_close strategy tr b2 (sm\<lparr>sm_cash := cash2, sm_tally := t1\<rparr>) of (book, sm) \<Rightarrow>
               rbind (charge_funding costs bar c book (sm_cash sm)) (\<lambda>(book, cash).
                 Inr (book, sm\<lparr>sm_cash := cash\<rparr>))) = Inr (b', sm')" by auto
    obtain b3 sm3 where r: "record_close strategy tr b2 (sm\<lparr>sm_cash := cash2, sm_tally := t1\<rparr>) = (b3, sm3)" by fastforce
    with rest obtain cash4 where f: "charge_funding costs bar c b3 (sm_cash sm3) = Inr (b', cash4)"
      and sm': "sm' = sm3\<lparr>sm_cash := cash4\<rparr>" by auto
    from match_entry_step [OF m] ok b0
    have "tally_ok t1 (n + pend b1) (int (length (sm_trades sm)))" "same_feed b b1" by (auto intro: same_feed_trans)
    with bar.frame [OF e] record_close_step [OF r, of n] charge_funding_frame [OF f]
    show ?thesis by (auto simp: sm' intro: same_feed_trans)
  qed
qed

lemma maybe_rest_entry_step:
  assumes run: "maybe_rest_entry strategy costs r cash price may expiry b t = Inr (b', t')"
    and ok: "tally_ok t (n + pend b) k"
  shows "tally_ok t' (n + pend b') k \<and> same_feed b b' \<and> bk_position b' = bk_position b
     \<and> (bk_pending b' \<noteq> bk_pending b \<longrightarrow> entry_gate strategy price may expiry b = None)"
  using run ok
  by (auto simp: maybe_rest_entry_def Let_def tally_ok_def tally_skip_def tally_rested_def entry_gate_def
      split: if_splits option.splits or_skip.splits)

lemma get_key_Inr [simp]: "get_key m k = Inr v \<longleftrightarrow> m k = Some v"
  by (auto simp: get_key_def split: option.splits)

lemma run_products_ok:
  "run_products strategy costs bar offset starts before bs sm = Inr (books', sm')
   \<Longrightarrow> tally_ok (sm_tally sm) (pends before + pends bs) (int (length (sm_trades sm)))
   \<Longrightarrow> tally_ok (sm_tally sm') (pends books') (int (length (sm_trades sm')))"
proof (induction bs arbitrary: before sm)
  case (Cons b bs)
  from Cons.prems(1) obtain c b1 sm1 r b2 t2 where
    p: "process_bar strategy costs bar offset c b sm = Inr (b1, sm1)" and
    m: "maybe_rest_entry strategy costs r (sm_cash sm1) (k_close c)
          (int (open_books (before @ b1 # bs)) < l_max_concurrent_positions (sd_portfolio_limits strategy))
          (in_expiry_window costs (starts + bar)) b1 (sm_tally sm1) = Inr (b2, t2)" and
    rest: "run_products strategy costs bar offset starts (before @ [b2]) bs (sm1\<lparr>sm_tally := t2\<rparr>) = Inr (books', sm')"
    by auto
  let ?n = "pends before + pends bs"
  have "tally_ok (sm_tally sm) (?n + pend b) (int (length (sm_trades sm)))"
    using Cons.prems(2) by (simp add: algebra_simps)
  from process_bar_step [OF p this] maybe_rest_entry_step [OF m, of ?n]
  have "tally_ok t2 (?n + pend b2) (int (length (sm_trades sm1)))" by blast
  then show ?case using Cons.IH [OF rest] by (simp add: algebra_simps)
qed simp

lemma run_bars_ok:
  "run_bars strategy costs bar starts offsets books sm curve = Inr (books', sm', curve')
   \<Longrightarrow> tally_ok (sm_tally sm) (pends books) (int (length (sm_trades sm)))
   \<Longrightarrow> tally_ok (sm_tally sm') (pends books') (int (length (sm_trades sm')))"
proof (induction offsets arbitrary: books sm curve)
  case (Cons offset offsets)
  from Cons.prems(1) obtain books1 sm1 point where
    p: "run_products strategy costs bar (int offset) (starts + bar * int offset) [] books sm = Inr (books1, sm1)" and
    rest: "run_bars strategy costs bar starts offsets books1 sm1 (curve @ [point]) = Inr (books', sm', curve')"
    by (auto simp: Let_def)
  from run_products_ok [OF p] Cons.prems(2) Cons.IH [OF rest] show ?case by simp
qed simp

lemma close_books_split:
  assumes "rbind m (\<lambda>(b2, sm2). f b2 sm2) = Inr y"
  obtains b2 sm2 where "m = Inr (b2, sm2)" "f b2 sm2 = Inr y"
  using assms by auto

lemma close_books_ok:
  "close_books costs bar ends bs sm = Inr (bs', sm')
   \<Longrightarrow> tally_ok (sm_tally sm) (n + pends bs) (int (length (sm_trades sm)))
   \<Longrightarrow> tally_ok (sm_tally sm') n (int (length (sm_trades sm')))
     \<and> list_all (\<lambda>b. bk_pending b = None \<and> bk_position b = None) bs'"
proof (induction bs arbitrary: sm bs')
  case (Cons b bs)
  let ?t = "sm_tally sm"
  define sm1 where "sm1 = (if bk_pending b = None then sm
      else sm\<lparr>sm_tally := ?t\<lparr>ty_entries_unfilled_at_end := ty_entries_unfilled_at_end ?t + 1\<rparr>\<rparr>)"
  have ok1: "tally_ok (sm_tally sm1) (n + pends bs) (int (length (sm_trades sm1)))"
    using Cons.prems(2) by (auto simp: sm1_def tally_ok_def)
  from Cons.prems(1) obtain b2 sm2 where
    b: "(case bk_position b of None \<Rightarrow> Inr (b\<lparr>bk_pending := None\<rparr>, sm1)
          | Some position \<Rightarrow>
              rbind (get_key (bk_candle_by_start b) ends) (\<lambda>c.
              rbind (close_position position c (sm_cash sm1) (taker_exit_quote costs position (k_open c)) Evaluation_End
                       (co_taker_fee_rate costs) bar) (\<lambda>(trade, cash).
                Inr (b\<lparr>bk_pending := None\<rparr>\<lparr>bk_position := None\<rparr>,
                     sm1\<lparr>sm_cash := cash, sm_trades := sm_trades sm1 @ [trade],
                         sm_tally := tally_closed trade (sm_tally sm1)\<rparr>)))) = Inr (b2, sm2)"
    and rest: "rbind (close_books costs bar ends bs sm2) (\<lambda>(bs', sm'). Inr (b2 # bs', sm')) = Inr (bs', sm')"
    unfolding close_books.simps Let_def sm1_def [symmetric] by (rule close_books_split)
  have "tally_ok (sm_tally sm2) (n + pends bs) (int (length (sm_trades sm2))) \<and> bk_pending b2 = None \<and> bk_position b2 = None"
    using b ok1 tally_ok_closed [OF ok1] by (auto simp: algebra_simps split: option.splits)
  with rest Cons.IH [of sm2] show ?case by auto
qed simp

section \<open>Diagnostics never fail\<close>

lemma sort_key_sum: "sum_list (map snd (sort_key f xs)) = sum_list (map snd (xs :: ('k \<times> int) list))"
proof (induction xs)
  case (Cons x xs)
  have "sum_list (map snd (insort_key f x ys)) = snd x + sum_list (map snd ys)" for ys
    by (induction ys) auto
  with Cons show ?case by simp
qed simp

lemma sort_key_counts: "counts_ok xs \<Longrightarrow> counts_ok (sort_key f xs)"
proof (induction xs)
  case (Cons x xs)
  have insort: "counts_ok (x # ys) \<Longrightarrow> counts_ok (insort_key f x ys)" for ys
    by (induction ys) (auto simp: counts_ok_def set_insort_key)
  from Cons have "counts_ok (sort_key f xs)" by (cases x) (simp add: counts_ok_Cons)
  with Cons.prems have "counts_ok (x # sort_key f xs)" by (cases x) (simp add: counts_ok_Cons)
  then show ?case by (simp add: insort)
qed simp

lemma counts_length:
  fixes xs :: "('k \<times> int) list" and ks :: "'k list"
  assumes "counts_ok xs" "\<And>k. k \<in> set ks"
  shows "length xs \<le> length ks"
proof -
  have "length xs = card (set (map fst xs))" using assms(1) by (simp add: counts_ok_def distinct_card del: set_map)
  also have "\<dots> \<le> card (set ks)" by (rule card_mono) (use assms(2) in auto)
  also have "\<dots> \<le> length ks" by (rule card_length)
  finally show ?thesis .
qed

lemma skip_reasons_few: "counts_ok (xs :: (funnel_reason \<times> int) list) \<Longrightarrow> length xs \<le> 32"
proof -
  assume "counts_ok xs"
  moreover have "k \<in> set (map Gate [PENDING_ENTRY, COOLDOWN, MAX_POSITIONS, IN_POSITION, EXPIRY_WINDOW]
    @ map Sizing_Refusal [ENTRY_PRICE_NOT_POSITIVE, STOP_DISTANCE_NOT_POSITIVE, STOP_NOT_POSITIVE, TARGET_NOT_POSITIVE,
      STOP_WITHIN_PRICE_INCREMENT, TARGET_WITHIN_PRICE_INCREMENT, NET_TARGET_BELOW_MINIMUM, ECONOMICS_FEE_UNAVAILABLE,
      SIZING_CASH_UNAVAILABLE, NO_OPEN_POSITION, INSUFFICIENT_CASH, NOTIONAL_BELOW_MINIMUM,
      QUANTITY_BELOW_VENUE_MINIMUM, NOTIONAL_BELOW_VENUE_MINIMUM, BELOW_ONE_CONTRACT])" for k
  proof (cases k)
    case (Gate g) then show ?thesis by (cases g) auto
  next
    case (Sizing_Refusal r) then show ?thesis by (cases r) auto
  qed
  ultimately have "length xs \<le> 20" by (rule counts_length [THEN le_trans]) simp
  then show ?thesis by simp
qed

lemma exit_reasons_few: "counts_ok (xs :: (exit_reason \<times> int) list) \<Longrightarrow> length xs \<le> 8"
proof -
  assume "counts_ok xs"
  moreover have "k \<in> set [Stop_Loss, Take_Profit, Time_Exit, Signal_Exit, Evaluation_End, Liquidation, Expiry]" for k
    by (cases k) auto
  ultimately have "length xs \<le> 7" by (rule counts_length [THEN le_trans]) simp
  then show ?thesis by simp
qed

lemma tally_ok_diagnostics:
  assumes "tally_ok t 0 k"
  shows "\<exists>d. diagnostics t = Inr d \<and> sum_list (map snd (dg_exit_reasons d)) = k"
proof -
  let ?s = "sort_key (\<lambda>(reason, _). funnel_reason_value reason) (ty_skipped t)"
  let ?x = "sort_key (\<lambda>(reason, _). exit_reason_value reason) (ty_exits t)"
  have c: "counts_ok ?s" "counts_ok ?x" using assms by (simp_all add: tally_ok_def sort_key_counts)
  have "0 \<le> sum_list (map snd ?s)" using c(1) by (intro sum_list_nonneg) (auto simp: counts_ok_def)
  then have n: "0 \<le> sum_list (map snd (ty_skipped t))" by (simp only: sort_key_sum)
  have "length ?s \<le> 32" "length ?x \<le> 8" using c skip_reasons_few exit_reasons_few by blast+
  then show ?thesis using assms c n
    by (simp add: diagnostics_def Let_def diagnostics_fields_valid_def require_unique_exit_reasons_def
        require_coherent_funnel_def tally_ok_def sort_key_sum counts_ok_def)
qed

text \<open>C29: 
  Every simulation explains itself: whatever the candles, signals and costs, a run that completes
  leaves no book open, its counters pass every validator of \<open>BacktestDiagnostics\<close> (each matched
  signal rested an entry or was skipped for one reason; each rested entry filled, expired, was
  refused or was left at the end), and the exit counts add up to the recorded trades.
\<close>

theorem diagnostics_always_coherent:
  assumes "run_books spec strategy bar books = Inr (books', sm, curve)"
    and "\<forall>b \<in> set books. bk_pending b = None"
  shows "(\<exists>d. diagnostics (sm_tally sm) = Inr d
            \<and> sum_list (map snd (dg_exit_reasons d)) = int (length (sm_trades sm)))
     \<and> list_all (\<lambda>b. \<not> is_open b) books'"
proof -
  let ?sm = "new_sim (rn_initial_quote_balance spec)"
  from assms(1) obtain books1 sm1 curve1 where
    r: "run_bars strategy (rn_costs spec) bar (rn_starts_at spec) [0 ..< evaluation_bars_of spec bar] books ?sm []
          = Inr (books1, sm1, curve1)" and
    c: "close_books (rn_costs spec) bar (rn_ends_at spec) books1 sm1 = Inr (books', sm)"
    by (auto simp: run_books_def Let_def)
  have "pends books = 0" using assms(2) by (induction books) auto
  then have "tally_ok (sm_tally ?sm) (pends books) (int (length (sm_trades ?sm)))"
    using tally_ok_new by (simp add: new_sim_def)
  from run_bars_ok [OF r this] have "tally_ok (sm_tally sm1) (0 + pends books1) (int (length (sm_trades sm1)))" by simp
  from close_books_ok [OF c this] show ?thesis
    using tally_ok_diagnostics by (auto simp: is_open_def list_all_iff)
qed

section \<open>The cap on open books\<close>

lemma process_bar_never_opens:
  assumes "process_bar strategy costs bar offset c b sm = Inr (b', sm')" "is_open b'"
  shows "is_open b"
proof -
  define b0 where "b0 = (if bk_cooldown_bars b > 0 then b\<lparr>bk_cooldown_bars := bk_cooldown_bars b - 1\<rparr> else b)"
  have b0: "is_open b0 = is_open b" by (simp add: b0_def is_open_def)
  note run = assms(1) [unfolded process_bar_def Let_def b0_def [symmetric]]
  have "is_open b0"
  proof (cases "in_expiry_window costs (k_starts_at c)")
    case True
    with run obtain b1 tr cash t where f: "flatten_for_expiry costs bar c b0 (sm_cash sm) (sm_tally sm) = Inr (b1, tr, cash, t)"
      and r: "record_close strategy tr b1 (sm\<lparr>sm_cash := cash, sm_tally := t\<rparr>) = (b', sm')" by auto
    from r have "is_open b' = is_open b1" by (auto simp: record_close_def is_open_def split: option.splits)
    with f assms(2) show ?thesis
      by (auto simp: flatten_for_expiry_def Let_def is_open_def split: option.splits elim!: taker_close_result)
  next
    case False
    with run obtain b1 cash1 t1 b2 tr cash2 where
      m: "match_entry strategy costs offset c b0 (sm_cash sm) (sm_tally sm) = Inr (b1, cash1, t1)"
      and e: "bar_exit strategy costs bar offset c b1 cash1 = Inr (b2, tr, cash2)"
      and rest: "(case record_close strategy tr b2 (sm\<lparr>sm_cash := cash2, sm_tally := t1\<rparr>) of (book, sm) \<Rightarrow>
               rbind (charge_funding costs bar c book (sm_cash sm)) (\<lambda>(book, cash).
                 Inr (book, sm\<lparr>sm_cash := cash\<rparr>))) = Inr (b', sm')" by auto
    obtain b3 sm3 where r: "record_close strategy tr b2 (sm\<lparr>sm_cash := cash2, sm_tally := t1\<rparr>) = (b3, sm3)" by fastforce
    with rest obtain cash4 where f: "charge_funding costs bar c b3 (sm_cash sm3) = Inr (b', cash4)" by auto
    have "is_open b2" using assms(2) charge_funding_frame [OF f] r
      by (auto simp: record_close_def is_open_def split: option.splits)
    then have "is_open b1" by (rule bar.never_opens [OF e])
    with m show ?thesis by (cases rule: match_entry_cases) (auto simp: is_open_def expire_entry_def)
  qed
  then show ?thesis by (simp add: b0)
qed

lemma open_books_Cons: "open_books (b # bs) = (if is_open b then 1 else 0) + open_books bs"
  by (simp add: open_books_def)

lemma open_books_append: "open_books (xs @ ys) = open_books xs + open_books ys"
  by (simp add: open_books_def)

lemma maybe_rest_entry_opens:
  assumes "maybe_rest_entry strategy costs r cash price may expiry b t = Inr (b', t')" "is_open b'" "\<not> is_open b"
  shows may
  using assms
  by (auto simp: maybe_rest_entry_def Let_def entry_gate_def is_open_def split: if_splits option.splits or_skip.splits)

lemma run_products_capped:
  "run_products strategy costs bar offset starts before bs sm = Inr (books', sm')
   \<Longrightarrow> int (open_books (before @ bs)) \<le> l_max_concurrent_positions (sd_portfolio_limits strategy)
   \<Longrightarrow> int (open_books books') \<le> l_max_concurrent_positions (sd_portfolio_limits strategy)"
proof (induction bs arbitrary: before sm)
  case (Cons b bs)
  let ?m = "l_max_concurrent_positions (sd_portfolio_limits strategy)"
  from Cons.prems(1) obtain c b1 sm1 r b2 t2 where
    p: "process_bar strategy costs bar offset c b sm = Inr (b1, sm1)" and
    m: "maybe_rest_entry strategy costs r (sm_cash sm1) (k_close c) (int (open_books (before @ b1 # bs)) < ?m)
          (in_expiry_window costs (starts + bar)) b1 (sm_tally sm1) = Inr (b2, t2)" and
    rest: "run_products strategy costs bar offset starts (before @ [b2]) bs (sm1\<lparr>sm_tally := t2\<rparr>) = Inr (books', sm')"
    by auto
  have "int (open_books (before @ b1 # bs)) \<le> ?m"
    using process_bar_never_opens [OF p] Cons.prems(2) by (auto simp: open_books_append open_books_Cons split: if_splits)
  then have "int (open_books ((before @ [b2]) @ bs)) \<le> ?m"
    using maybe_rest_entry_opens [OF m] by (auto simp: open_books_append open_books_Cons split: if_splits)
  then show ?case by (rule Cons.IH [OF rest])
qed simp

text \<open>C33: 
  No bar ever leaves more books open (holding a position or resting an entry) than the document's
  \<open>max_concurrent_positions\<close>.
\<close>

theorem open_books_capped:
  assumes "run_bars strategy costs bar starts offsets books sm curve = Inr (books', sm', curve')"
    and "int (open_books books) \<le> l_max_concurrent_positions (sd_portfolio_limits strategy)"
  shows "int (open_books books') \<le> l_max_concurrent_positions (sd_portfolio_limits strategy)"
  using assms
proof (induction offsets arbitrary: books sm curve)
  case (Cons offset offsets)
  from Cons.prems(1) obtain books1 sm1 point where
    p: "run_products strategy costs bar (int offset) (starts + bar * int offset) [] books sm = Inr (books1, sm1)" and
    rest: "run_bars strategy costs bar starts offsets books1 sm1 (curve @ [point]) = Inr (books', sm', curve')"
    by (auto simp: Let_def)
  from run_products_capped [OF p] Cons.prems(2) Cons.IH [OF rest] show ?case by simp
qed simp

end
