(* ===== verification/Backtest_Causality.thy ===== *)
theory Backtest_Causality
  imports Backtest_Funnel
begin

text \<open>
  The simulator is causal: what it does on a bar depends only on candles and signal records up to
  that bar. A book is \<open>refeed\<close> when only its candle and record maps are replaced; every step of
  a bar commutes with that, as long as the replaced record of the bar itself is the same.
\<close>

section \<open>Replacing a book's feed\<close>

definition refeed :: "(datetime \<Rightarrow> candle option) \<Rightarrow> (datetime \<Rightarrow> signal_trace_record option) \<Rightarrow> sim_book \<Rightarrow> sim_book" where
  "refeed f g b = b\<lparr>bk_candle_by_start := f, bk_records := g\<rparr>"

lemma refeed_simps [simp]:
  "bk_pending (refeed f g b) = bk_pending b" "bk_position (refeed f g b) = bk_position b"
  "bk_cooldown_bars (refeed f g b) = bk_cooldown_bars b" "bk_candle_by_start (refeed f g b) = f"
  "bk_records (refeed f g b) = g" "is_open (refeed f g b) = is_open b"
  "(refeed f g b)\<lparr>bk_pending := p\<rparr> = refeed f g (b\<lparr>bk_pending := p\<rparr>)"
  "(refeed f g b)\<lparr>bk_position := q\<rparr> = refeed f g (b\<lparr>bk_position := q\<rparr>)"
  "(refeed f g b)\<lparr>bk_cooldown_bars := n\<rparr> = refeed f g (b\<lparr>bk_cooldown_bars := n\<rparr>)"
  by (simp_all add: refeed_def is_open_def)

text \<open>A result whose book is refed.\<close>

abbreviation refed :: "(datetime \<Rightarrow> candle option) \<Rightarrow> (datetime \<Rightarrow> signal_trace_record option)
    \<Rightarrow> (sim_book \<times> 'a) result \<Rightarrow> (sim_book \<times> 'a) result" where
  "refed f g m \<equiv> rbind m (\<lambda>(b, x). Inr (refeed f g b, x))"

lemmas commute_simps = rbind_assoc case_prod_unfold

lemma rbind_if: "rbind (if c then m else n) k = (if c then rbind m k else rbind n k)"
  by simp

lemma rbind_cong: "(\<And>x. f x = g x) \<Longrightarrow> rbind m f = rbind m g"
  by (cases m) simp_all

lemma taker_close_refeed:
  "taker_close costs bar reason ref p c (refeed f g b) cash = refed f g (taker_close costs bar reason ref p c b cash)"
  by (simp add: taker_close_def rbind_assoc case_prod_unfold)

lemma liquidate_refeed: "liquidate costs bar c (refeed f g b) cash = refed f g (liquidate costs bar c b cash)"
  by (simp add: liquidate_def Let_def taker_close_refeed split: option.split)

lemma stop_out_refeed: "stop_out costs bar c (refeed f g b) cash = refed f g (stop_out costs bar c b cash)"
  by (simp add: stop_out_def taker_close_refeed rbind_assoc split: option.split)

lemma match_take_profit_refeed:
  "match_take_profit costs bar c (refeed f g b) cash = refed f g (match_take_profit costs bar c b cash)"
  by (simp add: match_take_profit_def rbind_assoc case_prod_unfold split: option.split)

lemma manage_position_refeed:
  assumes "g (k_starts_at c) = bk_records b (k_starts_at c)"
  shows "manage_position strategy costs bar offset c (refeed f g b) cash
     = refed f g (manage_position strategy costs bar offset c b cash)"
  using assms
  by (auto simp: manage_position_def Let_def taker_close_refeed rbind_assoc intro!: rbind_cong split: option.split)

lemma charge_funding_refeed:
  "charge_funding costs bar c (refeed f g b) cash = refed f g (charge_funding costs bar c b cash)"
  by (simp add: charge_funding_def Let_def rbind_assoc split: option.split)

lemma fill_resting_entry_refeed:
  "fill_resting_entry costs offset p c (refeed f g b) cash t = refed f g (fill_resting_entry costs offset p c b cash t)"
  by (auto simp: fill_resting_entry_def rbind_assoc case_prod_unfold intro!: rbind_cong split: option.split)

lemma match_entry_refeed:
  "match_entry strategy costs offset c (refeed f g b) cash t = refed f g (match_entry strategy costs offset c b cash t)"
  by (auto simp: match_entry_def Let_def fill_resting_entry_refeed expire_entry_def rbind_assoc rbind_if
      intro!: rbind_cong split: option.split)

lemma flatten_for_expiry_refeed:
  "flatten_for_expiry costs bar c (refeed f g b) cash t = refed f g (flatten_for_expiry costs bar c b cash t)"
  by (auto simp: flatten_for_expiry_def Let_def taker_close_refeed rbind_assoc case_prod_unfold intro!: rbind_cong
      split: option.split)

lemma or_exit_refeed:
  assumes "m' = refed f g m"
    and "\<And>b cash. m = Inr (b, None, cash) \<Longrightarrow> rule (refeed f g b) cash = refed f g (rule b cash)"
  shows "or_exit m' rule = refed f g (or_exit m rule)"
  using assms by (cases m) (auto simp: or_exit_def split: option.split)

lemma feed_kept:
  assumes "run (refeed (bk_candle_by_start b) (bk_records b) b) = refed (bk_candle_by_start b) (bk_records b) (run b)"
    and "run b = Inr (b', x)"
  shows "bk_candle_by_start b' = bk_candle_by_start b" "bk_records b' = bk_records b"
proof -
  have "refeed (bk_candle_by_start b) (bk_records b) b = b" by (simp add: refeed_def)
  with assms have "b' = refeed (bk_candle_by_start b) (bk_records b) b'" by simp
  then show "bk_candle_by_start b' = bk_candle_by_start b" "bk_records b' = bk_records b"
    by (metis refeed_simps(4), metis refeed_simps(5))
qed

lemma bar_exit_refeed:
  assumes g: "g (k_starts_at c) = bk_records b (k_starts_at c)"
  shows "bar_exit strategy costs bar offset c (refeed f g b) cash = refed f g (bar_exit strategy costs bar offset c b cash)"
proof -
  let ?l = "liquidate costs bar c" and ?s = "stop_out costs bar c" and ?t = "match_take_profit costs bar c"
  have rule: "exit_rule (\<lambda>b cash. or_exit (or_exit (?l b cash) ?s) ?t)"
    by (intro or_exit_rule liquidation.exit_rule_axioms stop.exit_rule_axioms take_profit.exit_rule_axioms)
  have early: "or_exit (or_exit (?l (refeed f g b) cash) ?s) ?t = refed f g (or_exit (or_exit (?l b cash) ?s) ?t)"
    by (intro or_exit_refeed) (simp_all add: liquidate_refeed stop_out_refeed match_take_profit_refeed)
  show ?thesis unfolding bar_exit_def
  proof (rule or_exit_refeed [OF early])
    fix b1 cash1
    assume "or_exit (or_exit (?l b cash) ?s) ?t = Inr (b1, None, cash1)"
    from exit_rule.frame [OF rule this] have "bk_records b1 = bk_records b" by (simp add: same_feed_def)
    with g show "manage_position strategy costs bar offset c (refeed f g b1) cash1
        = refed f g (manage_position strategy costs bar offset c b1 cash1)"
      by (intro manage_position_refeed) simp
  qed
qed

lemma record_close_refeed:
  "record_close strategy tr (refeed f g b) sm = (case record_close strategy tr b sm of (b', sm') \<Rightarrow> (refeed f g b', sm'))"
  by (simp add: record_close_def split: option.split)

lemma process_bar_refeed:
  assumes g: "g (k_starts_at c) = bk_records b (k_starts_at c)"
  shows "process_bar strategy costs bar offset c (refeed f g b) sm = refed f g (process_bar strategy costs bar offset c b sm)"
proof -
  define b0 where "b0 = (if bk_cooldown_bars b > 0 then b\<lparr>bk_cooldown_bars := bk_cooldown_bars b - 1\<rparr> else b)"
  have eq: "(if bk_cooldown_bars (refeed f g b) > 0
      then (refeed f g b)\<lparr>bk_cooldown_bars := bk_cooldown_bars (refeed f g b) - 1\<rparr> else refeed f g b) = refeed f g b0"
    by (simp add: b0_def)
  have r0: "bk_records b0 = bk_records b" by (simp add: b0_def)
  show ?thesis
  proof (cases "in_expiry_window costs (k_starts_at c)")
    case True
    then show ?thesis unfolding process_bar_def Let_def eq b0_def [symmetric]
      by (auto simp: flatten_for_expiry_refeed record_close_refeed rbind_assoc case_prod_unfold intro!: rbind_cong)
  next
    case False
    show ?thesis
    proof (cases "match_entry strategy costs offset c b0 (sm_cash sm) (sm_tally sm)")
      case (Inl e)
      with False show ?thesis unfolding process_bar_def Let_def eq b0_def [symmetric] by (simp add: match_entry_refeed)
    next
      case (Inr y)
      obtain b1 cash1 t1 where y: "y = (b1, cash1, t1)" by (cases y)
      have "bk_records b1 = bk_records b0"
        by (rule feed_kept(2) [of "\<lambda>b. match_entry strategy costs offset c b (sm_cash sm) (sm_tally sm)"])
          (use Inr y in \<open>simp_all add: match_entry_refeed\<close>)
      then have "g (k_starts_at c) = bk_records b1 (k_starts_at c)" using g r0 by simp
      from bar_exit_refeed [of g c b1 strategy costs bar offset f, OF this] False Inr y show ?thesis
        unfolding process_bar_def Let_def eq b0_def [symmetric]
        by (auto simp: match_entry_refeed record_close_refeed charge_funding_refeed rbind_assoc case_prod_unfold
            intro!: rbind_cong)
    qed
  qed
qed

lemma maybe_rest_entry_refeed:
  "maybe_rest_entry strategy costs r cash price may expiry (refeed f g b) t
   = refed f g (maybe_rest_entry strategy costs r cash price may expiry b t)"
proof -
  have "entry_gate strategy price may expiry (refeed f g b) = entry_gate strategy price may expiry b"
    by (simp add: entry_gate_def split: option.split)
  then show ?thesis
    by (auto simp: maybe_rest_entry_def Let_def rbind_assoc intro!: rbind_cong split: option.split or_skip.split)
qed

section \<open>Books that agree before an instant\<close>

definition agree_before :: "datetime \<Rightarrow> sim_book \<Rightarrow> sim_book \<Rightarrow> bool" where
  "agree_before horizon b b' \<longleftrightarrow> b' = refeed (bk_candle_by_start b') (bk_records b') b
     \<and> (\<forall>t < horizon. bk_candle_by_start b' t = bk_candle_by_start b t \<and> bk_records b' t = bk_records b t)"

definition candles_keyed :: "sim_book \<Rightarrow> bool" where
  "candles_keyed b \<longleftrightarrow> (\<forall>t c. bk_candle_by_start b t = Some c \<longrightarrow> k_starts_at c = t)"

lemma agree_beforeI:
  assumes "agree_before horizon b b'" "bk_candle_by_start b1 = bk_candle_by_start b" "bk_records b1 = bk_records b"
  shows "agree_before horizon b1 (refeed (bk_candle_by_start b') (bk_records b') b1)"
  using assms by (auto simp: agree_before_def)

lemma agree_open_books: "list_all2 (agree_before h) bs bs' \<Longrightarrow> open_books bs' = open_books bs"
proof (induction rule: list_all2_induct)
  case (Cons b bs b' bs')
  then have "is_open b' = is_open b" unfolding agree_before_def by (metis refeed_simps(6))
  with Cons show ?case by (simp add: open_books_Cons)
qed simp

lemma process_bar_feed:
  assumes "process_bar strategy costs bar offset c b sm = Inr (b', sm')"
  shows "bk_candle_by_start b' = bk_candle_by_start b" "bk_records b' = bk_records b"
  using assms by (rule feed_kept [of "\<lambda>b. process_bar strategy costs bar offset c b sm", rotated]; simp add: process_bar_refeed)+

lemma maybe_rest_entry_feed:
  assumes "maybe_rest_entry strategy costs r cash price may expiry b t = Inr (b', t')"
  shows "bk_candle_by_start b' = bk_candle_by_start b" "bk_records b' = bk_records b"
  using assms
  by (rule feed_kept [of "\<lambda>b. maybe_rest_entry strategy costs r cash price may expiry b t", rotated];
      simp add: maybe_rest_entry_refeed)+

text \<open>One bar over agreeing books: the same error, or the same cash, trades and funnel and books that
  still agree.\<close>

lemma run_products_agree:
  assumes "starts < horizon" "list_all2 (agree_before horizon) before before'" "list_all2 (agree_before horizon) bs bs'"
    "list_all candles_keyed (before @ bs)"
  shows "rel_sum (=) (rel_prod (\<lambda>xs ys. list_all2 (agree_before horizon) xs ys \<and> list_all candles_keyed xs) (=))
     (run_products strategy costs bar offset starts before bs sm) (run_products strategy costs bar offset starts before' bs' sm)"
  using assms(3,2,4)
proof (induction bs bs' arbitrary: before before' sm rule: list_all2_induct)
  case (Cons b bs b' bs')
  let ?f = "bk_candle_by_start b'" and ?g = "bk_records b'"
  have b': "b' = refeed ?f ?g b" and at: "?f starts = bk_candle_by_start b starts" "?g starts = bk_records b starts"
    using Cons.hyps(1) assms(1) by (auto simp: agree_before_def)
  show ?case
  proof (cases "bk_candle_by_start b starts")
    case None
    with at show ?thesis by (simp add: get_key_def)
  next
    case (Some c)
    with Cons.prems(2) have c: "k_starts_at c = starts" by (simp add: candles_keyed_def)
    have g: "?g (k_starts_at c) = bk_records b (k_starts_at c)" using at c by simp
    have p': "process_bar strategy costs bar offset c b' sm = refed ?f ?g (process_bar strategy costs bar offset c b sm)"
      by (subst b') (rule process_bar_refeed [where g = ?g, OF g])
    show ?thesis
    proof (cases "process_bar strategy costs bar offset c b sm")
      case (Inl e)
      with Some at p' show ?thesis by (simp add: get_key_def)
    next
      case (Inr y)
      obtain b1 sm1 where y: "y = (b1, sm1)" by (cases y)
      note feed1 = process_bar_feed [OF Inr [unfolded y]]
      let ?b1 = "refeed ?f ?g b1"
      have p'': "process_bar strategy costs bar offset c b' sm = Inr (?b1, sm1)" using p' Inr y by simp
      have agree1: "agree_before horizon b1 ?b1" by (rule agree_beforeI [OF Cons.hyps(1) feed1])
      have count: "open_books (before' @ ?b1 # bs') = open_books (before @ b1 # bs)"
        by (rule agree_open_books [of horizon])
          (simp add: list_all2_appendI Cons.prems(1) Cons.hyps(2) agree1)
      let ?may = "int (open_books (before @ b1 # bs)) < l_max_concurrent_positions (sd_portfolio_limits strategy)"
      let ?rest = "\<lambda>r b. maybe_rest_entry strategy costs r (sm_cash sm1) (k_close c) ?may
          (in_expiry_window costs (starts + bar)) b (sm_tally sm1)"
      show ?thesis
      proof (cases "bk_records b starts")
        case None
        with Some Inr y p'' at feed1 show ?thesis by (simp add: get_key_def)
      next
        case r: (Some r)
        have rest': "?rest r ?b1 = refed ?f ?g (?rest r b1)" by (rule maybe_rest_entry_refeed)
        show ?thesis
        proof (cases "?rest r b1")
          case (Inl e)
          with Some Inr y p'' at feed1 r rest' count show ?thesis by (simp add: get_key_def)
        next
          case r2: (Inr z)
          obtain b2 t2 where z: "z = (b2, t2)" by (cases z)
          note feed2 = maybe_rest_entry_feed [OF r2 [unfolded z]]
          have agree2: "agree_before horizon b2 (refeed ?f ?g b2)"
            by (rule agree_beforeI [OF Cons.hyps(1)]) (simp_all add: feed1 feed2)
          have "list_all2 (agree_before horizon) (before @ [b2]) (before' @ [refeed ?f ?g b2])"
            by (simp add: list_all2_appendI Cons.prems(1) agree2)
          moreover have "list_all candles_keyed ((before @ [b2]) @ bs)"
            using Cons.prems(2) feed1 feed2 by (simp add: candles_keyed_def [of b] candles_keyed_def [of b2])
          ultimately have "rel_sum (=) (rel_prod (\<lambda>xs ys. list_all2 (agree_before horizon) xs ys \<and> list_all candles_keyed xs) (=))
              (run_products strategy costs bar offset starts (before @ [b2]) bs (sm1\<lparr>sm_tally := t2\<rparr>))
              (run_products strategy costs bar offset starts (before' @ [refeed ?f ?g b2]) bs' (sm1\<lparr>sm_tally := t2\<rparr>))"
            by (rule Cons.IH)
          with Some Inr y p'' at feed1 r rest' count r2 z show ?thesis by (simp add: get_key_def)
        qed
      qed
    qed
  qed
qed simp

lemma book_marks_agree:
  assumes "starts < horizon" "list_all2 (agree_before horizon) bs bs'"
  shows "book_marks m use_open starts bs' = book_marks m use_open starts bs"
  using assms(2)
proof (induction rule: list_all2_induct)
  case (Cons b bs b' bs')
  then have "bk_candle_by_start b' starts = bk_candle_by_start b starts" "bk_position b' = bk_position b"
    using assms(1) unfolding agree_before_def by (blast, metis refeed_simps(2))
  with Cons.IH show ?case by (simp add: get_key_def)
qed simp

lemma run_bars_agree:
  assumes bar: "0 < bar" and below: "\<forall>k \<in> set offsets. starts + bar * int k < horizon"
    and agree: "list_all2 (agree_before horizon) books books'" "list_all candles_keyed books"
  shows "map_sum id snd (run_bars strategy costs bar starts offsets books sm curve)
     = map_sum id snd (run_bars strategy costs bar starts offsets books' sm curve)"
  using below agree
proof (induction offsets arbitrary: books books' sm curve)
  case (Cons k offsets)
  let ?at = "starts + bar * int k"
  let ?run = "\<lambda>bs. run_products strategy costs bar (int k) ?at [] bs sm"
  have at: "?at < horizon" using Cons.prems(1) by simp
  have rel: "rel_sum (=) (rel_prod (\<lambda>xs ys. list_all2 (agree_before horizon) xs ys \<and> list_all candles_keyed xs) (=))
      (?run books) (?run books')"
    by (rule run_products_agree [OF at _ Cons.prems(2)]) (simp_all add: Cons.prems(3))
  show ?case
  proof (cases "?run books")
    case (Inl e)
    with rel have "?run books' = Inl e" by (cases "?run books'") auto
    with Inl show ?thesis by (simp add: Let_def)
  next
    case (Inr y)
    obtain books1 sm1 where y: "y = (books1, sm1)" by (cases y)
    with rel Inr obtain books2 where run': "?run books' = Inr (books2, sm1)"
      and agree1: "list_all2 (agree_before horizon) books1 books2" "list_all candles_keyed books1"
      by (cases "?run books'") (auto simp: rel_prod_sel)
    have eq: "equity_point_of ?at (sm_cash sm1) books2 m False = equity_point_of ?at (sm_cash sm1) books1 m False" for m
      by (simp add: equity_point_of_def book_marks_agree [OF at agree1(1)])
    show ?thesis using Inr y run' eq Cons.IH [OF _ agree1] Cons.prems(1)
      by (cases "equity_point_of ?at (sm_cash sm1) books1 (co_fill_model costs) False") (simp_all add: Let_def)
  qed
qed simp

text \<open>The candle maps the kernel builds are keyed by their own start.\<close>

lemma candle_map_keyed:
  "candle_map spec bar candles = Inr m \<Longrightarrow> candles_keyed (new_book product_id m records)"
  by (auto simp: candle_map_def Let_def candles_keyed_def new_book_def dest: dict_by_SomeD split: if_splits)

text \<open>
  No look-ahead: take two runs of the same strategy and costs whose books hold the same state and
  whose candles and signal records coincide on every bar before the \<open>n\<close>-th. After \<open>n\<close> bars both
  have failed with the same error, or both have the same cash, the same trades, the same funnel
  and the same equity curve, whatever the later candles are.
\<close>

theorem no_look_ahead:
  assumes "0 < bar" "list_all2 (agree_before (starts + bar * int n)) books books'" "list_all candles_keyed books"
  shows "map_sum id snd (run_bars strategy costs bar starts [0 ..< n] books sm curve)
     = map_sum id snd (run_bars strategy costs bar starts [0 ..< n] books' sm curve)"
proof (rule run_bars_agree [OF assms(1) _ assms(2,3)])
  show "\<forall>k \<in> set [0 ..< n]. starts + bar * int k < starts + bar * int n" using assms(1) by simp
qed

end
