(* ===== verification/Backtest_Trades.thy ===== *)
theory Backtest_Trades
  imports Backtest_Causality
begin

text \<open>
  Single trades of the simulator: the cash a completed spot trade leaves agrees with its recorded
  profit, an entry sized from the available cash always funds at its fill, a touched stop wins
  every tie on its bar, and worked instances of the whole-run theorems. One worked run shows an
  add that outlives its position.
\<close>

section \<open>Rounding error of the simulation context\<close>

definition e64 :: rat where "e64 = 1 / (2 * 10 ^ 63)"

lemma fixp64_error: "\<bar>fixp 64 x - x\<bar> \<le> \<bar>x\<bar> * e64"
proof -
  have "(10::rat) powi (1 - int 64) / 2 = e64" by (simp add: e64_def power_int_def power_one_over)
  with fixp_error [of 64 x] show ?thesis by (simp only: times_divide_eq_right [symmetric])
qed

lemma fixp64_bounds:
  assumes "0 \<le> x"
  shows "fixp 64 x \<le> x * (1 + e64)" "x * (1 - e64) \<le> fixp 64 x"
  using fixp64_error [of x] assms by (auto simp: algebra_simps abs_le_iff)

lemma e64_pos [simp]: "0 < e64" "e64 \<le> 1 / 10 ^ 63" "e64 < 1"
  by (simp_all add: e64_def)

lemma add64_error: "\<bar>x + y\<bar> \<le> 4 * M \<Longrightarrow> \<bar>add64 x y - (x + y)\<bar> \<le> 4 * M * e64"
  unfolding ctx_add_def using fixp64_error [of "x + y"] by (rule order_trans) (simp add: mult_right_mono)

lemma sub64_error: "\<bar>x - y\<bar> \<le> 4 * M \<Longrightarrow> \<bar>sub64 x y - (x - y)\<bar> \<le> 4 * M * e64"
  unfolding ctx_sub_def using fixp64_error [of "x - y"] by (rule order_trans) (simp add: mult_right_mono)

text \<open>Two roundings: \<open>(x + s y) - z\<close> computed left to right stays close to the exact sum.\<close>

lemma small_e64: "0 \<le> M \<Longrightarrow> 4 * M * e64 \<le> M / 10 ^ 62"
  using mult_left_mono [OF e64_pos(2), of "4 * M"] by simp

lemma two_steps:
  assumes "\<bar>x\<bar> + \<bar>y\<bar> + \<bar>z\<bar> \<le> 2 * M"
  shows "\<bar>sub64 (sub64 x y) z - (x - y - z)\<bar> \<le> 2 * M / 10 ^ 62"
    "\<bar>sub64 (add64 x y) z - (x + y - z)\<bar> \<le> 2 * M / 10 ^ 62"
proof -
  have M: "0 \<le> M" using assms by linarith
  have s: "4 * M * e64 \<le> M / 10 ^ 62" "M / 10 ^ 62 \<le> M" using small_e64 [OF M] M by simp_all
  have a: "\<bar>sub64 x y - (x - y)\<bar> \<le> M / 10 ^ 62"
    using sub64_error [of x y M] assms s by linarith
  have b: "\<bar>add64 x y - (x + y)\<bar> \<le> M / 10 ^ 62"
    using add64_error [of x y M] assms s by linarith
  have "\<bar>sub64 (sub64 x y) z - (sub64 x y - z)\<bar> \<le> M / 10 ^ 62"
    using sub64_error [of "sub64 x y" z M] assms s a by linarith
  with a show "\<bar>sub64 (sub64 x y) z - (x - y - z)\<bar> \<le> 2 * M / 10 ^ 62" by linarith
  have "\<bar>sub64 (add64 x y) z - (add64 x y - z)\<bar> \<le> M / 10 ^ 62"
    using sub64_error [of "add64 x y" z M] assms s b by linarith
  with b show "\<bar>sub64 (add64 x y) z - (x + y - z)\<bar> \<le> 2 * M / 10 ^ 62" by linarith
qed

lemma three_steps:
  assumes "\<bar>x\<bar> + \<bar>y\<bar> + \<bar>z\<bar> + \<bar>w\<bar> \<le> M"
  shows "\<bar>sub64 (sub64 (sub64 x y) z) w - (x - y - z - w)\<bar> \<le> 3 * M / 10 ^ 62"
proof -
  have M: "0 \<le> M" using assms by linarith
  have s: "4 * M * e64 \<le> M / 10 ^ 62" "M / 10 ^ 62 \<le> M / 4" using small_e64 [OF M] M by simp_all
  have a: "\<bar>sub64 (sub64 x y) z - (x - y - z)\<bar> \<le> 2 * M / 10 ^ 62"
    by (rule two_steps(1)) (use assms M in linarith)
  have "\<bar>sub64 (sub64 (sub64 x y) z) w - (sub64 (sub64 x y) z - w)\<bar> \<le> M / 10 ^ 62"
    using sub64_error [of "sub64 (sub64 x y) z" w M] assms s a M by linarith
  with a show ?thesis by linarith
qed

section \<open>A completed trade accounts for its cash\<close>

lemma open_position_spot:
  assumes "open_position costs i p c cash = Inr (Some pos, cash1)" "co_futures costs = None"
  shows "ps_side pos = pe_side p \<and> ps_unit_fee pos = None \<and> ps_funding pos = None
     \<and> bf_price (ps_entry pos) = pe_limit_price p \<and> bf_quantity (ps_entry pos) = pe_quantity p
     \<and> bf_notional (ps_entry pos) = mul64 (pe_quantity p) (pe_limit_price p)
     \<and> bf_fee (ps_entry pos) = mul64 (bf_notional (ps_entry pos)) (co_maker_fee_rate costs)
     \<and> cash1 = (if pe_side p = SHORT then sub64 (add64 cash (bf_notional (ps_entry pos))) (bf_fee (ps_entry pos))
                else sub64 (sub64 cash (bf_notional (ps_entry pos))) (bf_fee (ps_entry pos)))"
  using assms by (auto simp: open_position_def Let_def maker_def split: if_splits)

text \<open>C31: 
  A spot trade's recorded net profit is the cash it moved: from the cash before the entry filled to
  the cash after the exit, the difference is the trade's net PnL up to \<open>10 ^ -61\<close> of the amounts
  involved, long or short, for every exit reason.
\<close>

theorem round_trip_accounts:
  assumes op: "open_position costs i p c cash = Inr (Some pos, cash1)" and spot: "co_futures costs = None"
    and cl: "close_position pos c' cash1 q reason fee_rate bar = Inr (trade, cash2)"
    and M: "\<bar>cash\<bar> + \<bar>bf_notional (bt_entry trade)\<bar> + \<bar>bf_fee (bt_entry trade)\<bar>
       + \<bar>bf_notional (bt_exit trade)\<bar> + \<bar>bf_fee (bt_exit trade)\<bar> \<le> M"
  shows "\<bar>(cash2 - cash) - bt_net_pnl trade\<bar> \<le> M / 10 ^ 61"
proof -
  define n f xn xf where "n = bf_notional (bt_entry trade)" and "f = bf_fee (bt_entry trade)"
    and "xn = bf_notional (bt_exit trade)" and "xf = bf_fee (bt_exit trade)"
  note o = open_position_spot [OF op spot]
  have t: "bt_entry trade = ps_entry pos"
    "bt_net_pnl trade = (if ps_side pos = SHORT then sub64 (sub64 (sub64 n f) xn) xf else sub64 (sub64 (sub64 xn xf) n) f)"
    "cash2 = (if ps_side pos = SHORT then sub64 (sub64 cash1 xn) xf else sub64 (add64 cash1 xn) xf)"
    using cl o by (auto simp: close_position_def Let_def require_ordered_fills_def n_def f_def xn_def xf_def split: if_splits)
  have bound: "\<bar>cash\<bar> + \<bar>n\<bar> + \<bar>f\<bar> + \<bar>xn\<bar> + \<bar>xf\<bar> \<le> M" using M by (simp add: n_def f_def xn_def xf_def)
  then have M0: "0 \<le> M" by linarith
  define d where "d = M / 10 ^ 62"
  have d: "2 * M / 10 ^ 62 = 2 * d" "3 * M / 10 ^ 62 = 3 * d" "M / 10 ^ 61 = 10 * d" "0 \<le> d" "4 * d \<le> M"
    using M0 by (simp_all add: d_def)
  show ?thesis
  proof (cases "ps_side pos = SHORT")
    case True
    then have c1: "cash1 = sub64 (add64 cash n) f" using o t(1) by (simp add: n_def f_def)
    have e1: "\<bar>cash1 - (cash + n - f)\<bar> \<le> 2 * M / 10 ^ 62" unfolding c1 by (rule two_steps(2)) (use bound in linarith)
    have "\<bar>cash1\<bar> + \<bar>xn\<bar> + \<bar>xf\<bar> \<le> 2 * M" using e1 bound d by linarith
    then have e2: "\<bar>cash2 - (cash1 - xn - xf)\<bar> \<le> 2 * M / 10 ^ 62" using t(3) True two_steps(1) by simp
    have e3: "\<bar>bt_net_pnl trade - (n - f - xn - xf)\<bar> \<le> 3 * M / 10 ^ 62"
      using t(2) True three_steps [of n f xn xf M] bound by simp
    from e1 e2 e3 d(4) show ?thesis unfolding d(1-3) by linarith
  next
    case False
    then have c1: "cash1 = sub64 (sub64 cash n) f" using o t(1) by (simp add: n_def f_def)
    have e1: "\<bar>cash1 - (cash - n - f)\<bar> \<le> 2 * M / 10 ^ 62" unfolding c1 by (rule two_steps(1)) (use bound in linarith)
    have "\<bar>cash1\<bar> + \<bar>xn\<bar> + \<bar>xf\<bar> \<le> 2 * M" using e1 bound d by linarith
    then have e2: "\<bar>cash2 - (cash1 + xn - xf)\<bar> \<le> 2 * M / 10 ^ 62" using t(3) False two_steps(2) by simp
    have e3: "\<bar>bt_net_pnl trade - (xn - xf - n - f)\<bar> \<le> 3 * M / 10 ^ 62"
      using t(2) False three_steps [of xn xf n f M] bound by simp
    from e1 e2 e3 d(4) show ?thesis unfolding d(1-3) by linarith
  qed
qed

section \<open>A sized entry funds at its fill\<close>

lemma mul64_upper: "0 \<le> x \<Longrightarrow> 0 \<le> y \<Longrightarrow> mul64 x y \<le> x * y * (1 + e64)"
  unfolding ctx_mul_def by (rule fixp64_bounds) simp

lemma div64_upper: "0 \<le> x \<Longrightarrow> 0 < y \<Longrightarrow> div64 x y \<le> x / y * (1 + e64)"
  unfolding ctx_div_def by (rule fixp64_bounds) simp

lemma add64_upper: "0 \<le> x \<Longrightarrow> 0 \<le> y \<Longrightarrow> add64 x y \<le> (x + y) * (1 + e64)"
  unfolding ctx_add_def by (rule fixp64_bounds) simp

lemma step_growth:
  assumes "0 \<le> e" "e \<le> 1 / 100" "0 \<le> a" "0 \<le> b" "a * b \<le> 10"
  shows "(1 + a * e) * (1 + b * e) \<le> 1 + (a + b + 1 / 10) * (e :: rat)"
proof -
  have "a * b * (e * e) \<le> 10 * (e * (1 / 100))" using assms by (intro mult_mono) auto
  then show ?thesis by (simp add: algebra_simps)
qed

lemma power6_eq: "(u :: rat) ^ 6 = u * u * u * u * u * u"
  by (simp add: eval_nat_numeral)

lemma seven_roundings: "0 \<le> e \<Longrightarrow> e \<le> 1 / 100 \<Longrightarrow> (1 + e) ^ 6 * (1 + e) \<le> 1 + 8 * (e :: rat)"
proof -
  assume e: "0 \<le> e" "e \<le> 1 / 100"
  have u: "0 \<le> 1 + e" using e by linarith
  have g2: "(1 + e) * (1 + e) \<le> 1 + 21 / 10 * e" using step_growth [OF e, of 1 1] by simp
  then have "(1 + e) * (1 + e) * (1 + e) \<le> (1 + 21 / 10 * e) * (1 + e)" by (rule mult_right_mono [OF _ u])
  also have "\<dots> \<le> 1 + 32 / 10 * e" using step_growth [OF e, of "21 / 10" 1] by simp
  finally have g3: "(1 + e) * (1 + e) * (1 + e) \<le> 1 + 32 / 10 * e" .
  have "(1 + e) ^ 6 * (1 + e) = ((1 + e) * (1 + e) * (1 + e)) * ((1 + e) * (1 + e) * (1 + e)) * (1 + e)"
    by (simp add: power6_eq mult.assoc)
  also have "\<dots> \<le> ((1 + 32 / 10 * e) * (1 + 32 / 10 * e)) * (1 + e)"
    using g3 u e by (intro mult_right_mono mult_mono) auto
  also have "(1 + 32 / 10 * e) * (1 + 32 / 10 * e) \<le> 1 + 66 / 10 * e"
    using mult_mono [of e "1 / 100" e e] e by (simp add: algebra_simps)
  also have "(1 + 66 / 10 * e) * (1 + e) \<le> 1 + 77 / 10 * e" using step_growth [OF e, of "66 / 10" 1] by simp
  finally show ?thesis using e u by (auto intro: mult_right_mono)
qed

lemma headroom_covers_rounding: "(1 + e64) ^ 6 * (1 - CASH_CAP_HEADROOM) * (1 + e64) \<le> 1 - e64"
proof -
  have e: "0 \<le> e64" "e64 \<le> 1 / 100" using e64_pos by (simp_all add: e64_def)
  have h: "0 \<le> 1 - CASH_CAP_HEADROOM" "9 * e64 \<le> CASH_CAP_HEADROOM" "0 \<le> CASH_CAP_HEADROOM"
    by (simp_all add: CASH_CAP_HEADROOM_def e64_def)
  have "(1 + e64) ^ 6 * (1 - CASH_CAP_HEADROOM) * (1 + e64) = (1 + e64) ^ 6 * (1 + e64) * (1 - CASH_CAP_HEADROOM)" by simp
  also have "\<dots> \<le> (1 + 8 * e64) * (1 - CASH_CAP_HEADROOM)" by (rule mult_right_mono [OF seven_roundings [OF e] h(1)])
  also have "\<dots> \<le> 1 - e64" using h(2) mult_nonneg_nonneg [OF e(1) h(3)] by (simp add: algebra_simps)
  finally show ?thesis .
qed

text \<open>The chain of roundings from the cash bound to the amount due at the fill: each step loses at
  most a relative \<open>e64\<close>, and the headroom is larger than all of them.\<close>

lemma funded_notional:
  assumes cash: "0 < cash" and f: "0 \<le> f" and P: "0 < P" and N: "0 \<le> N"
    "N \<le> mul64 (div64 cash (add64 1 f)) (sub64 1 CASH_CAP_HEADROOM)"
  defines "n \<equiv> mul64 (div64 N P) P"
  shows "n + mul64 n f \<le> cash"
proof -
  let ?u = "1 + e64" and ?h = "1 - CASH_CAP_HEADROOM"
  have u: "0 \<le> ?u" using e64_pos(1) by linarith
  have h: "0 \<le> ?h" "sub64 1 CASH_CAP_HEADROOM \<le> ?h * ?u" "0 \<le> sub64 1 CASH_CAP_HEADROOM"
    using fixp64_bounds(1) [of ?h] by (simp_all add: ctx_sub_def CASH_CAP_HEADROOM_def)
  have D: "0 < add64 1 f" "(1 + f) * (1 - e64) \<le> add64 1 f"
    using fixp64_bounds(2) [of "1 + f"] f by (simp_all add: ctx_add_def)
  have e: "0 < 1 - e64" by simp
  have "cash / add64 1 f \<le> cash / ((1 + f) * (1 - e64))"
    using D f cash e by (intro divide_left_mono mult_pos_pos) auto
  then have funded: "div64 cash (add64 1 f) \<le> cash / ((1 + f) * (1 - e64)) * ?u"
    using div64_upper [of cash "add64 1 f"] cash D(1) by (meson e64_pos(1) less_imp_le mult_right_mono order_trans add_nonneg_nonneg zero_le_one)
  have "0 \<le> div64 cash (add64 1 f)" using cash D by (simp add: ctx_div_def)
  then have "mul64 (div64 cash (add64 1 f)) (sub64 1 CASH_CAP_HEADROOM) \<le> div64 cash (add64 1 f) * (?h * ?u) * ?u"
    using mul64_upper [of "div64 cash (add64 1 f)" "sub64 1 CASH_CAP_HEADROOM"] h
    by (meson e64_pos(1) add_nonneg_nonneg less_imp_le mult_left_mono mult_right_mono order_trans zero_le_one)
  also have "\<dots> \<le> cash / ((1 + f) * (1 - e64)) * ?u * (?h * ?u) * ?u"
    using funded h(1) u by (intro mult_right_mono mult_nonneg_nonneg) auto
  finally have N': "N \<le> cash / ((1 + f) * (1 - e64)) * ?u * (?h * ?u) * ?u" using N(2) by linarith
  have q: "0 \<le> div64 N P" using N(1) P by (simp add: ctx_div_def)
  have n0: "0 \<le> n" using q P by (simp add: n_def ctx_mul_def)
  have "n \<le> div64 N P * P * ?u" unfolding n_def by (rule mul64_upper [OF q]) (use P in simp)
  also have "\<dots> \<le> N / P * ?u * P * ?u" using div64_upper [OF N(1) P] P u by (intro mult_right_mono mult_nonneg_nonneg) auto
  also have "\<dots> = N * (?u * ?u)" using P by simp
  finally have n: "n \<le> N * (?u * ?u)" .
  have "n + mul64 n f \<le> n + n * f * ?u" using mul64_upper [OF n0 f] by simp
  also have "\<dots> \<le> n * (1 + f) * ?u" using n0 f mult_nonneg_nonneg [OF less_imp_le [OF e64_pos(1)] n0] by (simp add: algebra_simps)
  also have "\<dots> \<le> N * (?u * ?u) * (1 + f) * ?u" using n f u by (intro mult_right_mono mult_nonneg_nonneg) auto
  also have "\<dots> \<le> (cash / ((1 + f) * (1 - e64)) * ?u * (?h * ?u) * ?u) * (?u * ?u) * (1 + f) * ?u"
    using N' f u by (intro mult_right_mono mult_nonneg_nonneg) auto
  also have "\<dots> = cash * ((?u ^ 6 * ?h * 1) / (1 - e64))"
  proof -
    have shape: "(c / (g * k) * u * (h * u) * u) * (u * u) * g * u = c * (u ^ 6 * h * 1 / k)" if "g \<noteq> 0"
      for c g k u h :: rat using that by (simp add: power6_eq)
    show ?thesis by (rule shape) (use f in simp)
  qed
  also have "\<dots> \<le> cash * 1"
  proof (rule mult_left_mono)
    have "?u ^ 6 * ?h * 1 \<le> ?u ^ 6 * ?h * ?u" using h(1) u less_imp_le [OF e64_pos(1)]
      by (intro mult_left_mono mult_nonneg_nonneg zero_le_power) auto
    with headroom_covers_rounding show "?u ^ 6 * ?h * 1 / (1 - e64) \<le> 1" using e by (simp add: divide_le_eq)
  qed (use cash in simp)
  finally show ?thesis by simp
qed

lemma kernel_size_entry_spot:
  assumes "kernel_size_entry costs strategy r cash limit = Inr (Take p)" "co_futures costs = None"
  obtains N where "0 < limit" "pe_side p = sd_side strategy" "pe_limit_price p = limit" "pe_quantity p = div64 N limit"
    "z_min_quote_notional (sd_sizing strategy) \<le> N"
    "N \<le> mul64 (div64 cash (add64 1 (co_maker_fee_rate costs))) (sub64 1 CASH_CAP_HEADROOM)"
    "N \<le> mul64 cash (l_max_strategy_exposure_fraction (sd_portfolio_limits strategy))"
    "N \<le> z_max_quote_notional (sd_sizing strategy)"
proof -
  from assms obtain atr lv sn where
    lv: "entry_levels_in 64 (sd_side strategy) limit (mul64 atr (as_multiple (x_initial_stop (sd_exits strategy))))
           (reward_risk_multiple (sd_exits strategy)) None = Inr (Take lv)" and
    sn: "bounded_notional strategy cash (mul64 atr (as_multiple (x_initial_stop (sd_exits strategy)))) limit
           (co_maker_fee_rate costs) = Inr (Take sn)" and
    p: "pe_side p = sd_side strategy" "pe_limit_price p = limit" "pe_quantity p = div64 (sn_notional sn) limit"
    by (auto simp: kernel_size_entry_def Let_def split: if_splits)
  have "0 < limit" using lv by (auto simp: entry_levels_in_def split: if_splits)
  moreover have "z_min_quote_notional (sd_sizing strategy) \<le> sn_notional sn"
    "sn_notional sn \<le> mul64 (div64 cash (add64 1 (co_maker_fee_rate costs))) (sub64 1 CASH_CAP_HEADROOM)"
    "sn_notional sn \<le> mul64 cash (l_max_strategy_exposure_fraction (sd_portfolio_limits strategy))"
    "sn_notional sn \<le> z_max_quote_notional (sd_sizing strategy)"
    using sn by (auto simp: bounded_notional_def Let_def split: if_splits)
  ultimately show thesis using p that by blast
qed

text \<open>C30: 
  The headroom claim of the sizing code: a long spot entry sized from the cash at hand is never
  refused at its fill while that cash is still there, and the fill leaves cash non-negative. The
  bound survives all eight roundings between the sizing and the fill.
\<close>

theorem sized_entry_always_funds:
  assumes sized: "kernel_size_entry costs strategy r cash limit = Inr (Take p)"
    and spot: "co_futures costs = None" and long: "sd_side strategy = LONG"
    and f: "0 \<le> co_maker_fee_rate costs" and cash: "0 < cash" "rep64 cash"
    and minimum: "0 < z_min_quote_notional (sd_sizing strategy)"
  shows "\<exists>pos cash'. open_position costs i p c cash = Inr (Some pos, cash') \<and> 0 \<le> cash'
     \<and> bf_price (ps_entry pos) = limit"
proof -
  obtain N where N: "0 < limit" "pe_side p = LONG" "pe_limit_price p = limit" "pe_quantity p = div64 N limit" "0 \<le> N"
    "N \<le> mul64 (div64 cash (add64 1 (co_maker_fee_rate costs))) (sub64 1 CASH_CAP_HEADROOM)"
    using kernel_size_entry_spot [OF sized spot] long minimum by (metis less_imp_le order_trans)
  let ?n = "mul64 (div64 N limit) limit"
  let ?fee = "mul64 ?n (co_maker_fee_rate costs)"
  have due: "?n + ?fee \<le> cash" by (rule funded_notional [OF cash(1) f N(1,5,6)])
  have "add64 ?n ?fee \<le> cash" unfolding ctx_add_def by (rule d64.rnd_upper [OF due cash(2)])
  moreover have "?fee \<le> sub64 cash ?n"
    using d64.rnd_mono [of ?fee "cash - ?n"] due by (simp add: ctx_sub_def)
  then have "0 \<le> sub64 (sub64 cash ?n) ?fee" by (simp add: ctx_sub_def [of _ "sub64 _ _"])
  ultimately show ?thesis using N spot by (simp add: open_position_def Let_def maker_def)
qed

section \<open>The stop wins its bar\<close>

lemma taker_close_reason:
  "taker_close costs bar reason ref p c b cash = Inr (b', tr, cash')
   \<Longrightarrow> \<exists>trade. tr = Some trade \<and> xf_reason (bt_exit trade) = reason
        \<and> bf_price (bt_exit trade) = fq_price (taker_exit_quote costs p ref)"
  by (auto simp: taker_close_def close_position_def Let_def require_ordered_fills_def split: if_splits)

lemma unstressed_stop_price:
  assumes "\<not> spread_stressed (co_fill_model costs)" "0 \<le> co_slippage_bps costs" "0 \<le> ref" "rep64 ref"
  shows "ps_side p = LONG \<Longrightarrow> fq_price (taker_exit_quote costs p ref) \<le> ref"
    "ps_side p = SHORT \<Longrightarrow> ref \<le> fq_price (taker_exit_quote costs p ref)"
proof -
  have s: "fm_spread_bps (co_fill_model costs) \<le> 20000" using assms(1) by (simp add: spread_stressed_def)
  note adverse = taker_prices_adverse [OF assms(3,4,2), of "co_fill_model costs"]
  show "ps_side p = LONG \<Longrightarrow> fq_price (taker_exit_quote costs p ref) \<le> ref"
    using adverse(2) [OF s] by (simp add: taker_exit_quote_def)
  show "ps_side p = SHORT \<Longrightarrow> ref \<le> fq_price (taker_exit_quote costs p ref)"
    using adverse(1) by (simp add: taker_exit_quote_def)
qed

text \<open>What a stop exit of position \<open>p\<close> on bar \<open>c\<close> may look like.\<close>

definition stop_exit_ok :: "sim_costs \<Rightarrow> sim_position \<Rightarrow> candle \<Rightarrow> backtest_trade \<Rightarrow> bool" where
  "stop_exit_ok costs p c trade \<longleftrightarrow> xf_reason (bt_exit trade) \<in> {Stop_Loss, Liquidation}
     \<and> (co_futures costs = None \<longrightarrow> xf_reason (bt_exit trade) = Stop_Loss
        \<and> (\<not> spread_stressed (co_fill_model costs) \<and> 0 \<le> co_slippage_bps costs
             \<and> 0 \<le> k_open c \<and> 0 \<le> ps_stop_price p \<and> rep64 (k_open c) \<and> rep64 (ps_stop_price p)
           \<longrightarrow> (if ps_side p = LONG then bf_price (bt_exit trade) \<le> min (k_open c) (ps_stop_price p)
                else max (k_open c) (ps_stop_price p) \<le> bf_price (bt_exit trade))))"

lemma stop_close_ok:
  assumes ref: "stop_reference costs p c = Inr ref"
    and close: "taker_close costs bar Stop_Loss ref p c b cash = Inr (b', tr, cash')"
  shows "\<exists>trade. tr = Some trade \<and> stop_exit_ok costs p c trade"
proof -
  from taker_close_reason [OF close] obtain trade where t: "tr = Some trade" "xf_reason (bt_exit trade) = Stop_Loss"
    "bf_price (bt_exit trade) = fq_price (taker_exit_quote costs p ref)" by blast
  have "if ps_side p = LONG then fq_price (taker_exit_quote costs p ref) \<le> min (k_open c) (ps_stop_price p)
      else max (k_open c) (ps_stop_price p) \<le> fq_price (taker_exit_quote costs p ref)"
    if a: "\<not> spread_stressed (co_fill_model costs)" "0 \<le> co_slippage_bps costs" "0 \<le> k_open c" "0 \<le> ps_stop_price p"
      "rep64 (k_open c)" "rep64 (ps_stop_price p)"
  proof -
    have r: "ref = (if ps_side p = SHORT then max (k_open c) (ps_stop_price p) else min (k_open c) (ps_stop_price p))"
      using ref a(1) by (auto simp: stop_reference_def raw_for_ask_def raw_for_bid_def split: if_splits)
    then have "0 \<le> ref" "rep64 ref" using a by (auto simp: min_def max_def)
    note u = unstressed_stop_price [OF a(1,2) this, of p]
    show ?thesis by (cases "ps_side p") (use u r in simp_all)
  qed
  then show ?thesis unfolding stop_exit_ok_def using t by auto
qed

lemma early_exit_ok:
  assumes p: "bk_position b = Some p" and hit: "stop_hit (co_fill_model costs) p c"
    and run: "or_exit (liquidate costs bar c b cash) (stop_out costs bar c) = Inr (b', tr, cash')"
  shows "(\<exists>trade. tr = Some trade \<and> stop_exit_ok costs p c trade)
     \<or> tr = None \<and> b' = b \<and> \<not> ps_take_profit_resting p"
  using run
proof (cases rule: or_exit_cases)
  case (first x)
  then obtain t ref where "co_futures costs = Some t" "taker_close costs bar Liquidation ref p c b cash = Inr (b', tr, cash')"
    using p by (auto simp: liquidate_def Let_def split: option.splits if_splits)
  then show ?thesis unfolding stop_exit_ok_def using taker_close_reason by fastforce
next
  case (second b1 cash1)
  then have "b1 = b" using p
    by (auto simp: liquidate_def Let_def split: option.splits if_splits elim!: taker_close_result)
  with second(2) p hit consider "tr = None" "b' = b" "\<not> ps_take_profit_resting p"
    | ref where "stop_reference costs p c = Inr ref" "taker_close costs bar Stop_Loss ref p c b cash1 = Inr (b', tr, cash')"
    by (auto simp: stop_out_def split: if_splits)
  then show ?thesis using stop_close_ok by cases auto
qed


section \<open>Worked runs\<close>

text \<open>A long document that pyramids, with a signal exit and a cooldown of five bars; hourly candles.\<close>

definition ex_document :: strategy_document where
  "ex_document = \<lparr>sd_economic_guard = None,
     sd_sizing = \<lparr>z_risk_fraction = 1 / 100, z_min_quote_notional = 10, z_max_quote_notional = 2500\<rparr>,
     sd_portfolio_limits = \<lparr>l_max_strategy_exposure_fraction = 1 / 2, l_max_concurrent_positions = 1\<rparr>,
     sd_exits = \<lparr>x_initial_stop = \<lparr>as_atr_indicator = ''atr'', as_multiple = 2\<rparr>,
       x_take_profit = RewardRiskTakeProfit 2, x_trailing_stop = DisabledTrailingStop, x_max_bars_held = 48\<rparr>,
     sd_side = LONG, sd_cooldown_bars = 5, sd_max_open_positions = 3, sd_pyramiding = True,
     sd_max_entry_wait_bars = 10, sd_on_unfilled_entry = Cancel_Entry, sd_signal_exit = True, sd_is_future = False\<rparr>"

definition ex_costs :: sim_costs where
  "ex_costs = \<lparr>co_maker_fee_rate = 0, co_taker_fee_rate = 2 / 1000, co_slippage_bps = 5,
     co_fill_model = \<lparr>fm_spread_bps = 0\<rparr>, co_execution_stress = None, co_futures = None\<rparr>"

definition ex_bar :: "int \<Rightarrow> decimal \<Rightarrow> decimal \<Rightarrow> decimal \<Rightarrow> decimal \<Rightarrow> candle" where
  "ex_bar n open_price high low close = \<lparr>k_starts_at = HOUR * n, k_open = open_price, k_high = high, k_low = low,
     k_close = close, k_volume = 1\<rparr>"

definition ex_record :: "int \<Rightarrow> entry_condition_outcome \<Rightarrow> entry_condition_outcome option \<Rightarrow> signal_trace_record" where
  "ex_record n entry exit = \<lparr>tr_candle_starts_at = HOUR * n, tr_indicator_values = [(''atr'', Some 5)],
     tr_entry_condition = entry, tr_exit_condition = exit\<rparr>"

definition ex_feed :: "candle list" where
  "ex_feed = [ex_bar 0 100 101 99 100, ex_bar 1 100 112 99 110, ex_bar 2 112 115 111 113, ex_bar 3 112 113 109 111,
     ex_bar 4 111 112 110 111]"

definition ex_signals :: "signal_trace_record list" where
  "ex_signals = [ex_record 0 MATCHED None, ex_record 1 MATCHED None, ex_record 2 NOT_MATCHED (Some MATCHED),
     ex_record 3 NOT_MATCHED None]"

definition ex_spec :: run_specification where
  "ex_spec = \<lparr>rn_warmup_starts_at = 0, rn_starts_at = 0, rn_ends_at = HOUR * 4, rn_initial_quote_balance = 10000,
     rn_costs = ex_costs\<rparr>"

definition ex_book :: sim_book where
  "ex_book = new_book ''BTC-USD'' (dict_by k_starts_at ex_feed) ex_signals"

lemma ex_run:
  "map_sum id (\<lambda>(books, sm, curve). map (\<lambda>t. (bf_candle_starts_at (bt_entry t), bf_price (bt_entry t), xf_reason (bt_exit t))) (sm_trades sm))
     (run_books ex_spec ex_document HOUR [ex_book])
   = Inr [(HOUR, 100, Signal_Exit), (HOUR * 3, 110, Evaluation_End)]"
  by code_simp


lemma ex_run_completes:
  obtains books' sm curve where "run_books ex_spec ex_document HOUR [ex_book] = Inr (books', sm, curve)" "length (sm_trades sm) = 2"
proof -
  from ex_run obtain y where y: "run_books ex_spec ex_document HOUR [ex_book] = Inr y"
    by (cases "run_books ex_spec ex_document HOUR [ex_book]") auto
  obtain books' sm curve where yy: "y = (books', sm, curve)" by (cases y)
  from ex_run have "map_sum id (\<lambda>(books, sm, curve). length (sm_trades sm)) (run_books ex_spec ex_document HOUR [ex_book]) = Inr 2"
    unfolding y yy by (auto dest!: arg_cong [of _ _ length])
  then have "length (sm_trades sm) = 2" unfolding y yy by simp
  with y yy show thesis by (intro that) simp_all
qed

theorem diagnostics_always_coherent_witness:
  "\<exists>books' sm curve d. run_books ex_spec ex_document HOUR [ex_book] = Inr (books', sm, curve)
     \<and> diagnostics (sm_tally sm) = Inr d \<and> sum_list (map snd (dg_exit_reasons d)) = 2"
proof -
  obtain books' sm curve where run: "run_books ex_spec ex_document HOUR [ex_book] = Inr (books', sm, curve)"
    "length (sm_trades sm) = 2" by (rule ex_run_completes)
  have "\<forall>b \<in> set [ex_book]. bk_pending b = None" by (simp add: ex_book_def new_book_def)
  from diagnostics_always_coherent [OF run(1) this] run show ?thesis by auto
qed

theorem open_books_capped_witness:
  "\<exists>books' sm' curve'. run_bars ex_document ex_costs HOUR 0 [0 ..< 4] [ex_book] (new_sim 10000) [] = Inr (books', sm', curve')
     \<and> open_books books' \<le> 1"
proof -
  obtain books2 sm2 curve2 where "run_books ex_spec ex_document HOUR [ex_book] = Inr (books2, sm2, curve2)"
    by (rule ex_run_completes)
  moreover have "evaluation_bars_of ex_spec HOUR = 4" "rn_costs ex_spec = ex_costs" "rn_starts_at ex_spec = 0"
    "rn_initial_quote_balance ex_spec = 10000"
    by (simp_all add: evaluation_bars_of_def ex_spec_def HOUR_def MINUTE_def SECOND_def)
  ultimately obtain books' sm' curve' where
    run: "run_bars ex_document ex_costs HOUR 0 [0 ..< 4] [ex_book] (new_sim 10000) [] = Inr (books', sm', curve')"
    by (auto simp: run_books_def Let_def)
  have "int (open_books [ex_book]) \<le> l_max_concurrent_positions (sd_portfolio_limits ex_document)"
    "l_max_concurrent_positions (sd_portfolio_limits ex_document) = 1"
    by (simp_all add: open_books_def is_open_def ex_book_def new_book_def ex_document_def)
  with open_books_capped [OF run] run show ?thesis by auto
qed

text \<open>The same first three bars, followed by a crash that the first run never saw.\<close>

definition ex_other_book :: sim_book where
  "ex_other_book = new_book ''BTC-USD'' (dict_by k_starts_at (take 3 ex_feed @ [ex_bar 3 50 51 49 50]))
     (take 3 ex_signals @ [ex_record 3 MATCHED None])"

theorem no_look_ahead_witness:
  "map_sum id snd (run_bars ex_document ex_costs HOUR 0 [0 ..< 3] [ex_book] (new_sim 10000) [])
     = map_sum id snd (run_bars ex_document ex_costs HOUR 0 [0 ..< 3] [ex_other_book] (new_sim 10000) [])"
proof (rule no_look_ahead)
  show "0 < HOUR" by (simp add: HOUR_def MINUTE_def SECOND_def)
  show "list_all2 (agree_before (0 + HOUR * int 3)) [ex_book] [ex_other_book]"
    by (auto simp: agree_before_def refeed_def ex_book_def ex_other_book_def new_book_def dict_by_code ex_feed_def
        ex_signals_def ex_bar_def ex_record_def HOUR_def MINUTE_def SECOND_def)
  show "list_all candles_keyed [ex_book]"
    by (auto simp: candles_keyed_def ex_book_def new_book_def dest: dict_by_SomeD)
qed

definition ex_resting :: pending_entry where
  "ex_resting = \<lparr>pe_signal = ex_record 0 MATCHED None, pe_limit_price = 100, pe_quantity = 10, pe_stop_price = 90,
     pe_target_price = Some 120, pe_waited_bars = 0, pe_side = LONG, pe_is_pyramid_add = False, pe_size_capped = False\<rparr>"

definition ex_held :: sim_position where
  "ex_held = \<lparr>ps_entry = \<lparr>bf_candle_starts_at = HOUR, bf_price = 100, bf_quantity = 10, bf_notional = 1000, bf_fee = 0,
       bf_fee_rate = 0, bf_reference_price = None, bf_executable_side = None, bf_spread_cost = None\<rparr>,
     ps_stop_price = 90, ps_target_price = Some 120, ps_entered_bar_index = 1, ps_take_profit_resting = False,
     ps_trail_extreme = None, ps_side = LONG, ps_add_count = 1, ps_unit_fee = None, ps_funding = None\<rparr>"

lemma ex_open: "open_position ex_costs 1 ex_resting (ex_bar 1 100 112 99 110) 10000 = Inr (Some ex_held, 9000)"
  by code_simp

theorem round_trip_accounts_witness:
  "\<exists>trade cash2. close_position ex_held (ex_bar 2 112 115 111 113) 9000 (maker 120) Take_Profit 0 HOUR = Inr (trade, cash2)
     \<and> \<bar>(cash2 - 10000) - bt_net_pnl trade\<bar> \<le> 20000 / 10 ^ 61"
proof -
  let ?run = "close_position ex_held (ex_bar 2 112 115 111 113) 9000 (maker 120) Take_Profit 0 HOUR"
  have "map_sum id (\<lambda>(t, _). (bf_notional (bt_entry t), bf_fee (bt_entry t), bf_notional (bt_exit t), bf_fee (bt_exit t))) ?run
      = Inr (1000, 0, 1200, 0)" by code_simp
  then obtain trade cash2 where run: "?run = Inr (trade, cash2)" and v: "bf_notional (bt_entry trade) = 1000"
    "bf_fee (bt_entry trade) = 0" "bf_notional (bt_exit trade) = 1200" "bf_fee (bt_exit trade) = 0"
    by (cases ?run) auto
  have "co_futures ex_costs = None" by (simp add: ex_costs_def)
  from round_trip_accounts [OF ex_open this run, of 20000] v run show ?thesis by simp
qed

theorem sized_entry_always_funds_witness:
  "\<exists>p pos cash'. kernel_size_entry ex_costs ex_document (ex_record 0 MATCHED None) 10000 100 = Inr (Take p)
     \<and> open_position ex_costs 1 p (ex_bar 1 100 112 99 110) 10000 = Inr (Some pos, cash') \<and> 0 \<le> cash'"
proof -
  have "kernel_size_entry ex_costs ex_document (ex_record 0 MATCHED None) 10000 100 = Inr (Take ex_resting)" by code_simp
  moreover have "co_futures ex_costs = None" "sd_side ex_document = LONG" "0 \<le> co_maker_fee_rate ex_costs"
    "0 < z_min_quote_notional (sd_sizing ex_document)" by (simp_all add: ex_costs_def ex_document_def)
  moreover have "rep64 10000" by code_simp
  ultimately show ?thesis
    using sized_entry_always_funds [of ex_costs ex_document "ex_record 0 MATCHED None" 10000 100 ex_resting 1 "ex_bar 1 100 112 99 110"]
    by auto
qed


end
