(* ===== verification/Indicator_Core.thy ===== *)
theory Indicator_Core
  imports Market Complex_Main
begin

text \<open>
  The indicator engine: its decimal context, the shape of its loops, and what makes a series
  calculation usable for trading decisions.

  \<^item> The engine context (\<open>evaluation/indicators.py\<close>) has 64 digits, half-even;
    \<open>eadd\<close> \<dots> \<open>ediv\<close> are its operations, \<open>esum\<close> is \<open>sum(xs, start=Decimal(0))\<close>.
    \<open>math.isqrt\<close> and \<open>Decimal.sqrt\<close> are executable; \<open>Decimal.ln\<close> and \<open>Decimal.log10\<close> are the
    real functions rounded half-even to 64 digits, which is what the library documents.
  \<^item> The loops of \<open>evaluation/indicator_math\<close> are of three kinds: a comprehension over the bar
    indices (\<open>per_bar\<close>), a window per bar (\<open>rolling\<close>), and a loop that carries state from bar to
    bar (\<open>scan\<close>, over an index range).
  \<^item> The locale \<open>causal\<close> is the contract of a series calculation: one output per bar, and the
    output of a prefix is the prefix of the output, so no bar depends on a later one. It is
    closed under the combinators; each indicator is shown causal by composing them.
\<close>

section \<open>The engine context\<close>

abbreviation eadd :: "decimal \<Rightarrow> decimal \<Rightarrow> decimal" where "eadd \<equiv> ctx_add 64"
abbreviation esub :: "decimal \<Rightarrow> decimal \<Rightarrow> decimal" where "esub \<equiv> ctx_sub 64"
abbreviation emul :: "decimal \<Rightarrow> decimal \<Rightarrow> decimal" where "emul \<equiv> ctx_mul 64"
abbreviation ediv :: "decimal \<Rightarrow> decimal \<Rightarrow> decimal" where "ediv \<equiv> ctx_div 64"
abbreviation eneg :: "decimal \<Rightarrow> decimal" where "eneg \<equiv> ctx_neg 64"
abbreviation eabs :: "decimal \<Rightarrow> decimal" where "eabs \<equiv> ctx_abs 64"

definition esum :: "decimal list \<Rightarrow> decimal" where
  "esum xs = foldl eadd 0 xs"

lemma esum_Nil [simp]: "esum [] = 0"
  by (simp add: esum_def)

lemma esum_snoc [simp]: "esum (xs @ [x]) = eadd (esum xs) x"
  by (simp add: esum_def)

lemma esum_nonneg: "(\<And>x. x \<in> set xs \<Longrightarrow> 0 \<le> x) \<Longrightarrow> 0 \<le> esum xs"
  by (induction xs rule: rev_induct) (auto simp: ctx_defs)

text \<open>\<open>math.isqrt\<close>: the floor of the square root.\<close>

fun isqrt :: "nat \<Rightarrow> nat" where
  "isqrt n =
     (if n = 0 then 0
      else let r = 2 * isqrt (n div 4) in if (r + 1) * (r + 1) \<le> n then r + 1 else r)"

declare isqrt.simps [simp del]

lemma isqrt_bounds: "isqrt n * isqrt n \<le> n \<and> n < (isqrt n + 1) * (isqrt n + 1)"
proof (induction n rule: isqrt.induct)
  case (1 n)
  show ?case
  proof (cases "n = 0")
    case True
    then show ?thesis by (simp add: isqrt.simps)
  next
    case False
    let ?s = "isqrt (n div 4)"
    from 1 False have IH: "?s * ?s \<le> n div 4" "n div 4 < (?s + 1) * (?s + 1)" by auto
    have lo: "(2 * ?s) * (2 * ?s) \<le> n" using IH(1) by simp
    have "n div 4 + 1 \<le> (?s + 1) * (?s + 1)" using IH(2) by simp
    then have "4 * (n div 4) + 4 \<le> (2 * ?s + 2) * (2 * ?s + 2)" by simp
    then have hi: "n < (2 * ?s + 2) * (2 * ?s + 2)" by linarith
    from False lo hi show ?thesis
      by (simp add: isqrt.simps [of n] Let_def)
  qed
qed

lemma isqrt_mono: "m \<le> n \<Longrightarrow> isqrt m \<le> isqrt n"
proof (rule ccontr)
  assume "m \<le> n" "\<not> isqrt m \<le> isqrt n"
  then have "(isqrt n + 1) * (isqrt n + 1) \<le> isqrt m * isqrt m" by (intro mult_le_mono) auto
  with isqrt_bounds [of n] isqrt_bounds [of m] \<open>m \<le> n\<close> show False by linarith
qed

lemma isqrt_pos: "1 \<le> n \<Longrightarrow> 1 \<le> isqrt n"
proof (rule ccontr)
  assume "1 \<le> n" "\<not> 1 \<le> isqrt n"
  with isqrt_bounds [of n] show False by (simp add: not_less_eq_eq)
qed

text \<open>
  \<open>Decimal.sqrt\<close>: the square root rounded half-even to \<open>p\<close> digits. The root of a value whose
  first digit has exponent \<open>a\<close> has its first digit at \<open>a div 2\<close>, which fixes the unit \<open>u\<close> of the
  last digit; the integer root of \<open>x / u\<^sup>2\<close> is then rounded by comparing squares.
\<close>

definition root_unit :: "nat \<Rightarrow> decimal \<Rightarrow> decimal" where
  "root_unit p x = 10 powi (adjusted x div 2 + 1 - int p)"

definition half_even_root :: "decimal \<Rightarrow> int" where
  "half_even_root y =
     (let n = int (isqrt (nat \<lfloor>y\<rfloor>)); m = of_int n + 1 / 2
      in if y < m * m then n else if m * m < y then n + 1 else if even n then n else n + 1)"

definition dsqrt :: "nat \<Rightarrow> decimal \<Rightarrow> decimal" where
  "dsqrt p x =
     (if x \<le> 0 then 0
      else let u = root_unit p x in of_int (half_even_root (x / (u * u))) * u)"

abbreviation esqrt :: "decimal \<Rightarrow> decimal" where "esqrt \<equiv> dsqrt 64"

lemma root_unit_pos [simp]: "0 < root_unit p x"
  by (simp add: root_unit_def)

lemma half_even_root_nonneg: "0 \<le> half_even_root y"
  by (simp add: half_even_root_def Let_def)

lemma isqrt_floor:
  assumes "0 \<le> y"
  shows "of_int (int (isqrt (nat \<lfloor>y\<rfloor>))) * of_int (int (isqrt (nat \<lfloor>y\<rfloor>))) \<le> (y :: rat)"
    and "y < (of_int (int (isqrt (nat \<lfloor>y\<rfloor>))) + 1) * (of_int (int (isqrt (nat \<lfloor>y\<rfloor>))) + 1)"
proof -
  let ?n = "isqrt (nat \<lfloor>y\<rfloor>)"
  have f: "int (nat \<lfloor>y\<rfloor>) = \<lfloor>y\<rfloor>" using assms by simp
  from isqrt_bounds [of "nat \<lfloor>y\<rfloor>"]
  have "int (?n * ?n) \<le> \<lfloor>y\<rfloor>" "\<lfloor>y\<rfloor> + 1 \<le> int ((?n + 1) * (?n + 1))" using f by linarith+
  then have "of_int (int (?n * ?n)) \<le> (of_int \<lfloor>y\<rfloor> :: rat)"
      "(of_int (\<lfloor>y\<rfloor> + 1) :: rat) \<le> of_int (int ((?n + 1) * (?n + 1)))"
    by (simp_all only: of_int_le_iff)
  moreover have "of_int \<lfloor>y\<rfloor> \<le> y" "y < of_int \<lfloor>y\<rfloor> + 1" by linarith+
  ultimately have "of_int (int (?n * ?n)) \<le> y" "y < of_int (int ((?n + 1) * (?n + 1)))"
    by linarith+
  then show "of_int (int ?n) * of_int (int ?n) \<le> y"
      "y < (of_int (int ?n) + 1) * (of_int (int ?n) + 1)"
    by (simp_all add: algebra_simps)
qed

lemma half_even_root_nearest:
  assumes "0 \<le> y"
  shows "y \<le> (of_int (half_even_root y) + 1 / 2) * (of_int (half_even_root y) + 1 / 2)"
    and "0 < half_even_root y \<Longrightarrow>
      (of_int (half_even_root y) - 1 / 2) * (of_int (half_even_root y) - 1 / 2) \<le> y"
proof -
  define n where "n = int (isqrt (nat \<lfloor>y\<rfloor>))"
  let ?r = "of_int n :: rat"
  have b: "?r * ?r \<le> y" "y < (?r + 1) * (?r + 1)" using isqrt_floor [OF assms] by (simp_all add: n_def)
  have n: "0 \<le> ?r" by (simp add: n_def)
  have up: "(?r + 1) * (?r + 1) \<le> (?r + 1 + 1 / 2) * (?r + 1 + 1 / 2)"
    using n by (intro mult_mono) auto
  have lo: "0 < n \<Longrightarrow> (?r - 1 / 2) * (?r - 1 / 2) \<le> ?r * ?r" by (intro mult_mono) auto
  show "y \<le> (of_int (half_even_root y) + 1 / 2) * (of_int (half_even_root y) + 1 / 2)"
    using b up by (auto simp: half_even_root_def Let_def simp flip: n_def)
  show "0 < half_even_root y \<Longrightarrow>
      (of_int (half_even_root y) - 1 / 2) * (of_int (half_even_root y) - 1 / 2) \<le> y"
    using b lo by (auto simp: half_even_root_def Let_def add.commute simp flip: n_def split: if_splits)
qed

lemma dsqrt_nonneg [simp]: "0 \<le> dsqrt p x"
  using half_even_root_nonneg by (simp add: dsqrt_def Let_def less_imp_le)

text \<open>The rounded root is within half a unit of its last digit of the exact one.\<close>

lemma dsqrt_nearest:
  assumes "0 < x"
  shows "x \<le> (dsqrt p x + root_unit p x / 2)\<^sup>2"
    and "0 < dsqrt p x \<Longrightarrow> (dsqrt p x - root_unit p x / 2)\<^sup>2 \<le> x"
proof -
  let ?u = "root_unit p x" and ?h = "half_even_root (x / (root_unit p x * root_unit p x))"
  have u: "0 < ?u" by simp
  have y: "0 \<le> x / (?u * ?u)" using assms by simp
  have d: "dsqrt p x = of_int ?h * ?u" using assms by (simp add: dsqrt_def Let_def)
  have sq: "(of_int ?h * ?u + c * ?u)\<^sup>2 = (of_int ?h + c) * (of_int ?h + c) * (?u * ?u)" for c
    by (simp add: power2_eq_square algebra_simps)
  show "x \<le> (dsqrt p x + ?u / 2)\<^sup>2"
    using half_even_root_nearest(1) [OF y] sq [of "1 / 2"] u
    by (simp add: d pos_divide_le_eq)
  assume "0 < dsqrt p x"
  then have "0 < ?h" using u by (simp add: d zero_less_mult_iff)
  from half_even_root_nearest(2) [OF y this] sq [of "- 1 / 2"] u
  show "(dsqrt p x - ?u / 2)\<^sup>2 \<le> x"
    by (simp add: d pos_le_divide_eq)
qed

text \<open>The transcendental functions are rounded from the exact real value.\<close>

definition half_even_real :: "real \<Rightarrow> int" where
  "half_even_real y =
     (let n = \<lfloor>y\<rfloor>; f = y - of_int n
      in if f < 1 / 2 then n else if 1 / 2 < f then n + 1 else if even n then n else n + 1)"

definition fixp_real :: "nat \<Rightarrow> real \<Rightarrow> decimal" where
  "fixp_real p x =
     (if x = 0 then 0
      else let e = \<lfloor>log 10 \<bar>x\<bar>\<rfloor> + 1 - int p
           in of_int (half_even_real (x / 10 powi e)) * 10 powi e)"

definition dec_ln :: "decimal \<Rightarrow> decimal" where
  "dec_ln x = fixp_real 64 (ln (of_rat x))"

definition dec_log10 :: "decimal \<Rightarrow> decimal" where
  "dec_log10 x = fixp_real 64 (log 10 (of_rat x))"

section \<open>Loops over the bars\<close>

text \<open>\<open>window values period index\<close> is \<open>values[index + 1 - period : index + 1]\<close>; \<open>rolling\<close> is the
  loop that leaves the bars before a full window undefined.\<close>

definition per_bar :: "('a list \<Rightarrow> nat \<Rightarrow> 'b) \<Rightarrow> 'a list \<Rightarrow> 'b list" where
  "per_bar f xs = map (f xs) [0..<length xs]"

definition window :: "'a list \<Rightarrow> nat \<Rightarrow> nat \<Rightarrow> 'a list" where
  "window values period index = take period (drop (index + 1 - period) values)"

definition rolling :: "nat \<Rightarrow> ('a list \<Rightarrow> 'b option) \<Rightarrow> 'a list \<Rightarrow> 'b option list" where
  "rolling period f = per_bar (\<lambda>values index.
     if index + 1 < period then None else f (window values period index))"

fun scan :: "('s \<Rightarrow> 'a \<Rightarrow> 's \<times> 'b) \<Rightarrow> 's \<Rightarrow> 'a list \<Rightarrow> 'b list" where
  "scan step s [] = []"
| "scan step s (x # xs) = (case step s x of (s', y) \<Rightarrow> y # scan step s' xs)"

definition bar_scan :: "('a list \<Rightarrow> 's \<Rightarrow> nat \<Rightarrow> 's \<times> 'b) \<Rightarrow> 's \<Rightarrow> 'a list \<Rightarrow> 'b list" where
  "bar_scan step s xs = scan (step xs) s [0..<length xs]"

definition led_scan ::
    "nat \<Rightarrow> ('a list \<Rightarrow> 's \<Rightarrow> nat \<Rightarrow> 's \<times> 'b option) \<Rightarrow> ('a list \<Rightarrow> 's) \<Rightarrow> 'a list \<Rightarrow> 'b option list" where
  "led_scan k step start xs =
     replicate (min k (length xs)) None @ scan (step xs) (start xs) [k..<length xs]"

fun somes :: "'a option list \<Rightarrow> 'a list" where
  "somes [] = []"
| "somes (None # xs) = somes xs"
| "somes (Some x # xs) = x # somes xs"

definition opt2 :: "('a \<Rightarrow> 'b \<Rightarrow> 'c option) \<Rightarrow> 'a option \<Rightarrow> 'b option \<Rightarrow> 'c option" where
  "opt2 f x y = (case (x, y) of (Some a, Some b) \<Rightarrow> f a b | _ \<Rightarrow> None)"

lemma opt2_simps [simp]: "opt2 f None y = None" "opt2 f x None = None" "opt2 f (Some a) (Some b) = f a b"
  by (simp_all add: opt2_def split: option.splits)

lemma opt2_eq_Some: "opt2 f x y = Some z \<longleftrightarrow> (\<exists>a b. x = Some a \<and> y = Some b \<and> f a b = Some z)"
  by (auto simp: opt2_def split: option.splits)

lemma length_per_bar [simp]: "length (per_bar f xs) = length xs"
  by (simp add: per_bar_def)

lemma nth_per_bar [simp]: "i < length xs \<Longrightarrow> per_bar f xs ! i = f xs i"
  by (simp add: per_bar_def)

lemma length_scan [simp]: "length (scan step s xs) = length xs"
  by (induction xs arbitrary: s) (auto split: prod.splits)

lemma take_scan: "take n (scan step s xs) = scan step s (take n xs)"
  by (induction xs arbitrary: s n) (auto simp: take_Cons' split: prod.splits)

lemma scan_cong:
  "xs = ys \<Longrightarrow> (\<And>s x. x \<in> set ys \<Longrightarrow> f s x = g s x) \<Longrightarrow> scan f s xs = scan g s ys"
  by (hypsubst_thin, induction ys arbitrary: s) (auto split: prod.splits)

lemma window_take: "i < n \<Longrightarrow> period \<le> i + 1 \<Longrightarrow> window (take n xs) period i = window xs period i"
  by (simp add: window_def drop_take min_absorb1)

lemma length_window: "i < length xs \<Longrightarrow> period \<le> i + 1 \<Longrightarrow> length (window xs period i) = period"
  by (simp add: window_def)

lemma set_window: "set (window xs period i) \<subseteq> set xs"
  unfolding window_def by (meson order_trans set_drop_subset set_take_subset)

lemma last_window: "i < length xs \<Longrightarrow> period \<le> i + 1 \<Longrightarrow> 0 < period \<Longrightarrow> last (window xs period i) = xs ! i"
  by (simp add: window_def last_conv_nth)

text \<open>An inner loop over earlier positions reads the same values from a longer history.\<close>

lemma foldl_upt_cong:
  "(\<And>acc x. a \<le> x \<Longrightarrow> x < b \<Longrightarrow> f acc x = g acc x) \<Longrightarrow> foldl f s [a..<b] = foldl g s [a..<b]"
  by (rule foldl_cong) auto

lemma filter_upt_cong:
  "(\<And>x. a \<le> x \<Longrightarrow> x < b \<Longrightarrow> P x = Q x) \<Longrightarrow> filter P [a..<b] = filter Q [a..<b]"
  by (rule filter_cong) auto

section \<open>Causal series\<close>

locale causal =
  fixes f :: "'a list \<Rightarrow> 'b list"
  assumes aligned: "length (f xs) = length xs"
    and prefix: "f (take n xs) = take n (f xs)"
begin

text \<open>The value of a bar is decided by the bars up to it: two histories that agree so far agree
  on the value.\<close>

lemma settled_value:
  assumes "take (Suc i) xs = take (Suc i) ys" "i < length xs" "i < length ys"
  shows "f xs ! i = f ys ! i"
proof -
  have "f xs ! i = take (Suc i) (f xs) ! i" by simp
  also have "\<dots> = take (Suc i) (f ys) ! i" using assms(1) by (simp flip: prefix)
  finally show ?thesis by simp
qed

text \<open>A new bar leaves every published value in place.\<close>

lemma appended: "f (xs @ [x]) = f xs @ [last (f (xs @ [x]))]"
proof -
  have l: "length (f (xs @ [x])) = Suc (length xs)" by (simp add: aligned)
  have "take (length xs) (f (xs @ [x])) = f xs" using prefix [of "length xs" "xs @ [x]"] by simp
  moreover have "butlast (f (xs @ [x])) = take (length xs) (f (xs @ [x]))" using l by (simp add: butlast_conv_take)
  ultimately show ?thesis using l by (metis append_butlast_last_id list.size(3) nat.distinct(1))
qed

end

named_theorems causal_intros \<open>closure of causality under the loops of the engine\<close>

lemma causalI:
  "(\<And>xs. length (f xs) = length xs) \<Longrightarrow> (\<And>n xs. f (take n xs) = take n (f xs)) \<Longrightarrow> causal f"
  by unfold_locales

lemma causal_id [causal_intros]: "causal (\<lambda>xs. xs)"
  by (rule causalI) simp_all

lemma causal_map [causal_intros]: "causal F \<Longrightarrow> causal (\<lambda>xs. map g (F xs))"
  by (rule causalI) (simp_all add: causal.aligned causal.prefix take_map)

lemma causal_zip [causal_intros]: "causal F \<Longrightarrow> causal G \<Longrightarrow> causal (\<lambda>xs. zip (F xs) (G xs))"
  by (rule causalI) (simp_all add: causal.aligned causal.prefix take_zip)

lemma causal_comp: "causal G \<Longrightarrow> causal F \<Longrightarrow> causal (\<lambda>xs. G (F xs))"
  by (rule causalI) (simp_all add: causal.aligned causal.prefix)

lemma causal_per_bar:
  assumes "\<And>xs n i. i < n \<Longrightarrow> i < length xs \<Longrightarrow> f (take n xs) i = f xs i"
  shows "causal (per_bar f)"
proof (rule causalI)
  show "per_bar f (take n xs) = take n (per_bar f xs)" for n xs
    by (rule nth_equalityI) (auto simp: assms)
qed simp

lemma causal_on_per_bar:
  "causal F \<Longrightarrow> (\<And>xs n i. i < n \<Longrightarrow> i < length xs \<Longrightarrow> f (take n xs) i = f xs i) \<Longrightarrow> causal (\<lambda>xs. per_bar f (F xs))"
  by (rule causal_comp [OF causal_per_bar])

lemma causal_rolling [causal_intros]: "causal F \<Longrightarrow> causal (\<lambda>xs. rolling period f (F xs))"
  unfolding rolling_def by (erule causal_on_per_bar) (simp add: window_take)

lemma causal_scan [causal_intros]: "causal F \<Longrightarrow> causal (\<lambda>xs. scan step s (F xs))"
  by (rule causalI) (simp_all add: causal.aligned causal.prefix take_scan)

text \<open>A loop that starts at bar \<open>k\<close>, after \<open>k\<close> undefined bars, from a state read off the first
  \<open>k + 1\<close> bars.\<close>

lemma causal_led_scan:
  assumes step: "\<And>xs n s i. k \<le> i \<Longrightarrow> i < n \<Longrightarrow> i < length xs \<Longrightarrow> step (take n xs) s i = step xs s i"
    and start: "\<And>xs n. k < n \<Longrightarrow> k < length xs \<Longrightarrow> start (take n xs) = start xs"
  shows "causal (led_scan k step start)"
proof (rule causalI)
  fix n xs
  show "length (led_scan k step start xs) = length xs" by (simp add: led_scan_def)
  show "led_scan k step start (take n xs) = take n (led_scan k step start xs)"
  proof (cases "k < n \<and> k < length xs")
    case True
    define m where "m = min n (length xs)"
    have 1: "scan (step (take n xs)) (start (take n xs)) [k..<m] = scan (step xs) (start xs) [k..<m]"
      using True by (simp add: start, intro scan_cong refl step) (auto simp: m_def)
    have 2: "take (n - k) [k..<length xs] = [k..<m]" using True by (auto simp: m_def min_def)
    show ?thesis using True 1 2 by (simp add: led_scan_def take_scan m_def min.absorb1 min.commute)
  next
    case False
    then show ?thesis by (auto simp: led_scan_def min_def not_less take_scan)
  qed
qed

lemma causal_bar_scan:
  assumes "causal F"
    and step: "\<And>xs n s i. i < n \<Longrightarrow> i < length xs \<Longrightarrow> step (take n xs) s i = step xs s i"
  shows "causal (\<lambda>xs. bar_scan step s0 (F xs))"
proof (rule causal_comp [OF _ assms(1)], rule causalI)
  show "bar_scan step s0 (take n xs) = take n (bar_scan step s0 xs)" for n xs
    unfolding bar_scan_def
    by (simp add: take_scan min_def, intro scan_cong impI conjI) (auto simp: step)
qed (simp add: bar_scan_def)

section \<open>Causal indicators\<close>

text \<open>An indicator either rejects its declaration whatever the bars are, or is a causal series; a
  multi-output indicator is a list of named causal series.\<close>

definition causal_result :: "('a list \<Rightarrow> 'b list result) \<Rightarrow> bool" where
  "causal_result F \<longleftrightarrow> (\<exists>e. \<forall>xs. F xs = Inl e) \<or> (\<exists>f. causal f \<and> (\<forall>xs. F xs = Inr (f xs)))"

definition causal_named :: "('a list \<Rightarrow> (string \<times> 'b list) list result) \<Rightarrow> bool" where
  "causal_named F \<longleftrightarrow>
     (\<exists>e. \<forall>xs. F xs = Inl e)
     \<or> (\<exists>fs. (\<forall>(name, f) \<in> set fs. causal f) \<and> (\<forall>xs. F xs = Inr (map (\<lambda>(name, f). (name, f xs)) fs)))"

lemma causal_result_intros:
  "causal_result (\<lambda>xs. Inl e)"
  "causal f \<Longrightarrow> causal_result (\<lambda>xs. Inr (f xs))"
  by (auto simp: causal_result_def)

lemma causal_named_intros:
  "causal_named (\<lambda>xs. Inl e)"
  "causal f \<Longrightarrow> causal g \<Longrightarrow> causal_named (\<lambda>xs. Inr [(a, f xs), (b, g xs)])"
  "causal f \<Longrightarrow> causal g \<Longrightarrow> causal h \<Longrightarrow> causal_named (\<lambda>xs. Inr [(a, f xs), (b, g xs), (c, h xs)])"
  "causal f \<Longrightarrow> causal g \<Longrightarrow> causal h \<Longrightarrow> causal k
     \<Longrightarrow> causal_named (\<lambda>xs. Inr [(a, f xs), (b, g xs), (c, h xs), (d, k xs)])"
proof -
  show "causal_named (\<lambda>xs. Inl e)" by (simp add: causal_named_def)
  show "causal f \<Longrightarrow> causal g \<Longrightarrow> causal_named (\<lambda>xs. Inr [(a, f xs), (b, g xs)])"
    unfolding causal_named_def by (rule disjI2, rule exI [of _ "[(a, f), (b, g)]"]) simp
  show "causal f \<Longrightarrow> causal g \<Longrightarrow> causal h \<Longrightarrow> causal_named (\<lambda>xs. Inr [(a, f xs), (b, g xs), (c, h xs)])"
    unfolding causal_named_def by (rule disjI2, rule exI [of _ "[(a, f), (b, g), (c, h)]"]) simp
  show "causal f \<Longrightarrow> causal g \<Longrightarrow> causal h \<Longrightarrow> causal k
     \<Longrightarrow> causal_named (\<lambda>xs. Inr [(a, f xs), (b, g xs), (c, h xs), (d, k xs)])"
    unfolding causal_named_def by (rule disjI2, rule exI [of _ "[(a, f), (b, g), (c, h), (d, k)]"]) simp
qed

end
