(* ===== verification/Indicator_Schema.thy ===== *)
theory Indicator_Schema
  imports Indicator_Core
begin

text \<open>
  The declarative side of indicators: the kinds and their parameter blocks
  (\<open>strategies/schema/indicator_parameters.py\<close>), one declared indicator with its validators, its
  output series and its value keys (\<open>indicator_definition.py\<close>), and the closed bars it needs
  before its first value (\<open>indicator_warmup.py\<close>). Integer parameters are naturals: every bound
  starts at one or two. Error texts that only name the offending kind are dropped.
\<close>

section \<open>Kinds and parameter blocks\<close>

datatype indicator_kind =
    EMA | SMA | RSI | ATR | VOLUME_SMA | HIGHEST | LOWEST | STDEV | ROC | WILLIAMS_R | CCI | IDENTITY
  | CONSTANT | WMA | MOMENTUM | MFI | MACD | BOLLINGER | STDEV_SAMPLE | STOCHASTIC | ADX | DEMA | TEMA
  | HMA | KAMA | VWMA | SUPERTREND | PARABOLIC_SAR | AROON | ICHIMOKU | VORTEX | LINEAR_REGRESSION
  | TRIX | STOCHASTIC_RSI | PPO | ULTIMATE_OSCILLATOR | AWESOME_OSCILLATOR | CMO | TSI | KELTNER
  | DONCHIAN | BOLLINGER_PERCENT_B | BOLLINGER_BANDWIDTH | NATR | CHOPPINESS | HISTORICAL_VOLATILITY
  | OBV | CMF | ACCUMULATION_DISTRIBUTION | VWAP | FORCE_INDEX | ZSCORE | PERCENT_RANK

text \<open>The blocks in the order of their classes; fields are in declaration order.\<close>

datatype indicator_parameter_block =
    IndicatorParameters nat
  | MacdIndicatorParameters nat nat nat
  | BollingerIndicatorParameters nat decimal
  | StochasticIndicatorParameters nat nat
  | ConstantIndicatorParameters decimal
  | EmptyIndicatorParameters
  | KamaIndicatorParameters nat nat nat
  | SupertrendIndicatorParameters nat decimal
  | ParabolicSarIndicatorParameters decimal decimal
  | IchimokuIndicatorParameters nat nat nat
  | StochasticRsiIndicatorParameters nat nat nat nat
  | UltimateOscillatorIndicatorParameters nat nat nat
  | AwesomeOscillatorIndicatorParameters nat nat
  | TsiIndicatorParameters nat nat nat
  | KeltnerIndicatorParameters nat nat decimal
  | HistoricalVolatilityIndicatorParameters nat nat
  | SignalLineIndicatorParameters nat

definition between :: "nat \<Rightarrow> nat \<Rightarrow> nat \<Rightarrow> bool" where
  "between lo hi n \<longleftrightarrow> lo \<le> n \<and> n \<le> hi"

definition require_band_multiplier :: "decimal \<Rightarrow> bool" where
  "require_band_multiplier value \<longleftrightarrow> 0 < value \<and> value \<le> 10"

fun parameters_valid :: "indicator_parameter_block \<Rightarrow> bool" where
  "parameters_valid (IndicatorParameters period) = between 2 500 period"
| "parameters_valid (MacdIndicatorParameters fast_period slow_period signal_period) =
     (between 2 500 fast_period \<and> between 2 500 slow_period \<and> between 2 500 signal_period
      \<and> fast_period < slow_period)"
| "parameters_valid (BollingerIndicatorParameters period stdev_multiplier) =
     (between 2 500 period \<and> require_band_multiplier stdev_multiplier)"
| "parameters_valid (StochasticIndicatorParameters k_period d_period) =
     (between 2 100 k_period \<and> between 2 500 d_period)"
| "parameters_valid (ConstantIndicatorParameters value) = True"
| "parameters_valid EmptyIndicatorParameters = True"
| "parameters_valid (KamaIndicatorParameters period fast_period slow_period) =
     (between 2 100 period \<and> between 2 100 fast_period \<and> between 2 500 slow_period
      \<and> fast_period < slow_period)"
| "parameters_valid (SupertrendIndicatorParameters period multiplier) =
     (between 2 100 period \<and> require_band_multiplier multiplier)"
| "parameters_valid (ParabolicSarIndicatorParameters step max_step) =
     (0 < step \<and> max_step \<le> 1 \<and> step \<le> max_step)"
| "parameters_valid (IchimokuIndicatorParameters tenkan_period kijun_period senkou_b_period) =
     (between 2 500 tenkan_period \<and> between 2 500 kijun_period \<and> between 2 500 senkou_b_period
      \<and> tenkan_period < kijun_period \<and> kijun_period < senkou_b_period)"
| "parameters_valid (StochasticRsiIndicatorParameters rsi_period stoch_period k_period d_period) =
     (between 2 100 rsi_period \<and> between 2 100 stoch_period \<and> between 1 100 k_period
      \<and> between 1 100 d_period)"
| "parameters_valid (UltimateOscillatorIndicatorParameters short_period medium_period long_period) =
     (between 2 100 short_period \<and> between 2 100 medium_period \<and> between 2 100 long_period
      \<and> short_period < medium_period \<and> medium_period < long_period)"
| "parameters_valid (AwesomeOscillatorIndicatorParameters fast_period slow_period) =
     (between 2 500 fast_period \<and> between 2 500 slow_period \<and> fast_period < slow_period)"
| "parameters_valid (TsiIndicatorParameters long_period short_period signal_period) =
     (between 2 500 long_period \<and> between 2 500 short_period \<and> between 2 500 signal_period
      \<and> short_period < long_period)"
| "parameters_valid (KeltnerIndicatorParameters period atr_period multiplier) =
     (between 2 500 period \<and> between 2 100 atr_period \<and> require_band_multiplier multiplier)"
| "parameters_valid (HistoricalVolatilityIndicatorParameters period annualization_periods) =
     (between 2 500 period \<and> between 1 525600 annualization_periods)"
| "parameters_valid (SignalLineIndicatorParameters signal_period) = between 2 500 signal_period"

section \<open>One declared indicator\<close>

datatype indicator_input = FieldInput string | TupleInput "string list"

record indicator_definition =
  ind_id :: string
  ind_kind :: indicator_kind
  ind_input :: "indicator_input option"
  ind_parameters :: indicator_parameter_block
  ind_timeframe :: "string option"
  ind_offset :: "nat option"
  ind_source :: "string option"

definition HLC_INPUT :: "string list" where "HLC_INPUT = [''high'', ''low'', ''close'']"
definition HLCV_INPUT :: "string list" where "HLCV_INPUT = [''high'', ''low'', ''close'', ''volume'']"
definition HL_INPUT :: "string list" where "HL_INPUT = [''high'', ''low'']"
definition CLOSE_VOLUME_INPUT :: "string list" where "CLOSE_VOLUME_INPUT = [''close'', ''volume'']"
definition MAX_INDICATOR_OFFSET :: nat where "MAX_INDICATOR_OFFSET = 500"

definition IDENTITY_INPUTS :: "string list" where
  "IDENTITY_INPUTS = [''open'', ''high'', ''low'', ''close'', ''volume'']"

fun SINGLE_SOURCE_INPUT :: "indicator_kind \<Rightarrow> string option" where
  "SINGLE_SOURCE_INPUT RSI = Some ''close''"
| "SINGLE_SOURCE_INPUT VOLUME_SMA = Some ''volume''"
| "SINGLE_SOURCE_INPUT MACD = Some ''close''"
| "SINGLE_SOURCE_INPUT BOLLINGER = Some ''close''"
| "SINGLE_SOURCE_INPUT TRIX = Some ''close''"
| "SINGLE_SOURCE_INPUT STOCHASTIC_RSI = Some ''close''"
| "SINGLE_SOURCE_INPUT PPO = Some ''close''"
| "SINGLE_SOURCE_INPUT CMO = Some ''close''"
| "SINGLE_SOURCE_INPUT TSI = Some ''close''"
| "SINGLE_SOURCE_INPUT BOLLINGER_PERCENT_B = Some ''close''"
| "SINGLE_SOURCE_INPUT BOLLINGER_BANDWIDTH = Some ''close''"
| "SINGLE_SOURCE_INPUT HISTORICAL_VOLATILITY = Some ''close''"
| "SINGLE_SOURCE_INPUT _ = None"

definition CONFIGURABLE_SINGLE_SOURCE_KINDS :: "indicator_kind list" where
  "CONFIGURABLE_SINGLE_SOURCE_KINDS =
     [EMA, SMA, HIGHEST, LOWEST, STDEV, STDEV_SAMPLE, ROC, WMA, MOMENTUM, DEMA, TEMA, HMA, KAMA,
      LINEAR_REGRESSION, ZSCORE, PERCENT_RANK]"

fun indicator_output_series :: "indicator_kind \<Rightarrow> string list option" where
  "indicator_output_series MACD = Some [''macd'', ''signal'', ''histogram'']"
| "indicator_output_series BOLLINGER = Some [''middle'', ''upper'', ''lower'']"
| "indicator_output_series STOCHASTIC = Some [''k'', ''d'']"
| "indicator_output_series ADX = Some [''adx'', ''plus_di'', ''minus_di'']"
| "indicator_output_series SUPERTREND = Some [''value'', ''direction'']"
| "indicator_output_series AROON = Some [''up'', ''down'', ''oscillator'']"
| "indicator_output_series ICHIMOKU = Some [''tenkan'', ''kijun'', ''senkou_a'', ''senkou_b'']"
| "indicator_output_series VORTEX = Some [''plus'', ''minus'']"
| "indicator_output_series LINEAR_REGRESSION = Some [''value'', ''slope'']"
| "indicator_output_series STOCHASTIC_RSI = Some [''k'', ''d'']"
| "indicator_output_series PPO = Some [''ppo'', ''signal'', ''histogram'']"
| "indicator_output_series TSI = Some [''tsi'', ''signal'']"
| "indicator_output_series KELTNER = Some [''upper'', ''middle'', ''lower'']"
| "indicator_output_series DONCHIAN = Some [''upper'', ''middle'', ''lower'']"
| "indicator_output_series OBV = Some [''obv'', ''signal'']"
| "indicator_output_series ACCUMULATION_DISTRIBUTION = Some [''ad'', ''signal'']"
| "indicator_output_series _ = None"

fun LOCKED_TUPLE_INPUT :: "indicator_kind \<Rightarrow> string list option" where
  "LOCKED_TUPLE_INPUT ATR = Some HLC_INPUT"
| "LOCKED_TUPLE_INPUT WILLIAMS_R = Some HLC_INPUT"
| "LOCKED_TUPLE_INPUT CCI = Some HLC_INPUT"
| "LOCKED_TUPLE_INPUT STOCHASTIC = Some HLC_INPUT"
| "LOCKED_TUPLE_INPUT ADX = Some HLC_INPUT"
| "LOCKED_TUPLE_INPUT MFI = Some HLCV_INPUT"
| "LOCKED_TUPLE_INPUT VWMA = Some CLOSE_VOLUME_INPUT"
| "LOCKED_TUPLE_INPUT SUPERTREND = Some HLC_INPUT"
| "LOCKED_TUPLE_INPUT PARABOLIC_SAR = Some HL_INPUT"
| "LOCKED_TUPLE_INPUT AROON = Some HL_INPUT"
| "LOCKED_TUPLE_INPUT ICHIMOKU = Some HL_INPUT"
| "LOCKED_TUPLE_INPUT VORTEX = Some HLC_INPUT"
| "LOCKED_TUPLE_INPUT ULTIMATE_OSCILLATOR = Some HLC_INPUT"
| "LOCKED_TUPLE_INPUT AWESOME_OSCILLATOR = Some HL_INPUT"
| "LOCKED_TUPLE_INPUT KELTNER = Some HLC_INPUT"
| "LOCKED_TUPLE_INPUT DONCHIAN = Some HL_INPUT"
| "LOCKED_TUPLE_INPUT NATR = Some HLC_INPUT"
| "LOCKED_TUPLE_INPUT CHOPPINESS = Some HLC_INPUT"
| "LOCKED_TUPLE_INPUT OBV = Some CLOSE_VOLUME_INPUT"
| "LOCKED_TUPLE_INPUT CMF = Some HLCV_INPUT"
| "LOCKED_TUPLE_INPUT ACCUMULATION_DISTRIBUTION = Some HLCV_INPUT"
| "LOCKED_TUPLE_INPUT VWAP = Some HLCV_INPUT"
| "LOCKED_TUPLE_INPUT FORCE_INDEX = Some CLOSE_VOLUME_INPUT"
| "LOCKED_TUPLE_INPUT _ = None"

definition SHORT_PERIOD_KINDS :: "indicator_kind list" where
  "SHORT_PERIOD_KINDS = [RSI, ATR, WILLIAMS_R, CCI, MFI, ADX, CMO, NATR]"

text \<open>\<open>_PARAMETER_SHAPES\<close>: which blocks a kind accepts when it is not the plain period block;
  \<open>None\<close> means the kind is not in the table.\<close>

fun parameter_shape :: "indicator_kind \<Rightarrow> indicator_parameter_block \<Rightarrow> bool option" where
  "parameter_shape MACD p = Some (case p of MacdIndicatorParameters _ _ _ \<Rightarrow> True | _ \<Rightarrow> False)"
| "parameter_shape PPO p = Some (case p of MacdIndicatorParameters _ _ _ \<Rightarrow> True | _ \<Rightarrow> False)"
| "parameter_shape BOLLINGER p = Some (case p of BollingerIndicatorParameters _ _ \<Rightarrow> True | _ \<Rightarrow> False)"
| "parameter_shape BOLLINGER_PERCENT_B p =
     Some (case p of BollingerIndicatorParameters _ _ \<Rightarrow> True | _ \<Rightarrow> False)"
| "parameter_shape BOLLINGER_BANDWIDTH p =
     Some (case p of BollingerIndicatorParameters _ _ \<Rightarrow> True | _ \<Rightarrow> False)"
| "parameter_shape STOCHASTIC p = Some (case p of StochasticIndicatorParameters _ _ \<Rightarrow> True | _ \<Rightarrow> False)"
| "parameter_shape KAMA p = Some (case p of KamaIndicatorParameters _ _ _ \<Rightarrow> True | _ \<Rightarrow> False)"
| "parameter_shape SUPERTREND p = Some (case p of SupertrendIndicatorParameters _ _ \<Rightarrow> True | _ \<Rightarrow> False)"
| "parameter_shape PARABOLIC_SAR p =
     Some (case p of ParabolicSarIndicatorParameters _ _ \<Rightarrow> True | _ \<Rightarrow> False)"
| "parameter_shape ICHIMOKU p = Some (case p of IchimokuIndicatorParameters _ _ _ \<Rightarrow> True | _ \<Rightarrow> False)"
| "parameter_shape STOCHASTIC_RSI p =
     Some (case p of StochasticRsiIndicatorParameters _ _ _ _ \<Rightarrow> True | _ \<Rightarrow> False)"
| "parameter_shape ULTIMATE_OSCILLATOR p =
     Some (case p of UltimateOscillatorIndicatorParameters _ _ _ \<Rightarrow> True | _ \<Rightarrow> False)"
| "parameter_shape AWESOME_OSCILLATOR p =
     Some (case p of AwesomeOscillatorIndicatorParameters _ _ \<Rightarrow> True | _ \<Rightarrow> False)"
| "parameter_shape TSI p = Some (case p of TsiIndicatorParameters _ _ _ \<Rightarrow> True | _ \<Rightarrow> False)"
| "parameter_shape KELTNER p = Some (case p of KeltnerIndicatorParameters _ _ _ \<Rightarrow> True | _ \<Rightarrow> False)"
| "parameter_shape HISTORICAL_VOLATILITY p =
     Some (case p of IndicatorParameters _ \<Rightarrow> True
           | HistoricalVolatilityIndicatorParameters _ _ \<Rightarrow> True | _ \<Rightarrow> False)"
| "parameter_shape OBV p = Some (case p of SignalLineIndicatorParameters _ \<Rightarrow> True | _ \<Rightarrow> False)"
| "parameter_shape ACCUMULATION_DISTRIBUTION p =
     Some (case p of SignalLineIndicatorParameters _ \<Rightarrow> True | _ \<Rightarrow> False)"
| "parameter_shape _ p = None"

definition identity_input :: "indicator_input option \<Rightarrow> bool" where
  "identity_input i \<longleftrightarrow> (case i of Some (FieldInput f) \<Rightarrow> f \<in> set IDENTITY_INPUTS | _ \<Rightarrow> False)"

definition require_identity_indicator :: "indicator_definition \<Rightarrow> unit result" where
  "require_identity_indicator indicator =
     (if ind_parameters indicator \<noteq> EmptyIndicatorParameters
      then Inl (ValueError ''identity parameters must be an empty object'')
      else if \<not> identity_input (ind_input indicator)
      then Inl (ValueError ''identity input must be one of open, high, low, close, volume'')
      else Inr ())"

definition require_constant_indicator :: "indicator_definition \<Rightarrow> unit result" where
  "require_constant_indicator indicator =
     (case ind_parameters indicator of
        ConstantIndicatorParameters _ \<Rightarrow>
          (if ind_input indicator \<noteq> None then Inl (ValueError ''constant must omit input'')
           else if ind_timeframe indicator \<noteq> None then Inl (ValueError ''constant must omit timeframe'')
           else if ind_offset indicator \<noteq> None then Inl (ValueError ''constant must omit offset'')
           else if ind_source indicator \<noteq> None then Inl (ValueError ''constant must omit source'')
           else Inr ())
      | _ \<Rightarrow> Inl (ValueError ''constant parameters must declare value''))"

definition require_locked_source :: "indicator_definition \<Rightarrow> unit result" where
  "require_locked_source indicator =
     (case LOCKED_TUPLE_INPUT (ind_kind indicator) of
        Some locked \<Rightarrow>
          (if ind_input indicator \<noteq> Some (TupleInput locked)
           then Inl (ValueError ''input must be the locked fields in canonical order'') else Inr ())
      | None \<Rightarrow>
          if ind_kind indicator \<in> set CONFIGURABLE_SINGLE_SOURCE_KINDS
          then (if \<not> identity_input (ind_input indicator)
                then Inl (ValueError ''input must be one of open, high, low, close, volume'')
                else Inr ())
          else (case SINGLE_SOURCE_INPUT (ind_kind indicator) of
                  None \<Rightarrow> Inl KeyError
                | Some expected \<Rightarrow>
                    if ind_input indicator \<noteq> Some (FieldInput expected)
                    then Inl (ValueError ''input must be the locked field'') else Inr ()))"

definition require_period_indicator :: "indicator_definition \<Rightarrow> unit result" where
  "require_period_indicator indicator =
     (case ind_parameters indicator of
        IndicatorParameters period \<Rightarrow>
          (if (if ind_kind indicator \<in> set SHORT_PERIOD_KINDS then 100 else 500) < period
           then Inl (ValueError ''period exceeds its maximum'')
           else require_locked_source indicator)
      | _ \<Rightarrow> Inl (ValueError ''parameters must declare period''))"

definition validate_kind_period :: "indicator_definition \<Rightarrow> unit result" where
  "validate_kind_period indicator =
     (if ind_source indicator \<noteq> None \<and> ind_timeframe indicator \<noteq> None
      then Inl (ValueError ''an indicator with source must omit timeframe'')
      else if ind_kind indicator = IDENTITY then require_identity_indicator indicator
      else if ind_kind indicator = CONSTANT then require_constant_indicator indicator
      else case parameter_shape (ind_kind indicator) (ind_parameters indicator) of
             None \<Rightarrow> require_period_indicator indicator
           | Some accepted \<Rightarrow>
               if \<not> accepted then Inl (ValueError ''parameters do not declare the shape of the kind'')
               else require_locked_source indicator)"

text \<open>The identifier pattern \<open>[a-z][a-z0-9_]{0,n}\<close>.\<close>

definition lower_letter :: "char \<Rightarrow> bool" where
  "lower_letter c \<longleftrightarrow> 97 \<le> (of_char c :: nat) \<and> (of_char c :: nat) \<le> 122"

definition id_char :: "char \<Rightarrow> bool" where
  "id_char c \<longleftrightarrow> lower_letter c \<or> is_digit c \<or> c = CHR ''_''"

definition id_pattern :: "nat \<Rightarrow> string \<Rightarrow> bool" where
  "id_pattern n s \<longleftrightarrow>
     (case s of [] \<Rightarrow> False | c # rest \<Rightarrow> lower_letter c \<and> list_all id_char rest \<and> length rest \<le> n)"

definition optional :: "('a \<Rightarrow> bool) \<Rightarrow> 'a option \<Rightarrow> bool" where
  "optional P x \<longleftrightarrow> (case x of None \<Rightarrow> True | Some y \<Rightarrow> P y)"

text \<open>A validated definition: field patterns and bounds, the normalised lag, the parameter block's
  own validators, and the kind's.\<close>

definition indicator_valid :: "indicator_definition \<Rightarrow> bool" where
  "indicator_valid indicator \<longleftrightarrow>
     id_pattern 63 (ind_id indicator)
     \<and> optional (\<lambda>t. t \<in> set EXECUTION_TIMEFRAMES) (ind_timeframe indicator)
     \<and> optional (between 1 MAX_INDICATOR_OFFSET) (ind_offset indicator)
     \<and> optional (id_pattern 31) (ind_source indicator)
     \<and> parameters_valid (ind_parameters indicator)
     \<and> validate_kind_period indicator = Inr ()"

definition indicator_value_keys :: "indicator_definition \<Rightarrow> string list" where
  "indicator_value_keys indicator =
     (case indicator_output_series (ind_kind indicator) of
        None \<Rightarrow> [ind_id indicator]
      | Some series \<Rightarrow> map (\<lambda>name. ind_id indicator @ ''.'' @ name) series)"

definition indicator_offset :: "indicator_definition \<Rightarrow> nat" where
  "indicator_offset indicator = or_else (ind_offset indicator) 0"

definition indicator_input_fields :: "indicator_definition \<Rightarrow> string list" where
  "indicator_input_fields indicator =
     (case ind_input indicator of None \<Rightarrow> [] | Some (FieldInput f) \<Rightarrow> [f] | Some (TupleInput fs) \<Rightarrow> fs)"

section \<open>Closed bars before the first value\<close>

definition LOOKBACK_WARMUP_KINDS :: "indicator_kind list" where
  "LOOKBACK_WARMUP_KINDS =
     [RSI, ROC, MOMENTUM, MFI, AROON, VORTEX, CMO, FORCE_INDEX, PERCENT_RANK, HISTORICAL_VOLATILITY]"

definition shape_error :: "'a result" where
  "shape_error = Inl (ValueError ''indicator parameters have another shape'')"

definition parameters_period :: "indicator_parameter_block \<Rightarrow> nat result" where
  "parameters_period p = (case p of IndicatorParameters period \<Rightarrow> Inr period | _ \<Rightarrow> shape_error)"

definition period_of :: "indicator_parameter_block \<Rightarrow> nat result" where
  "period_of p =
     (case p of HistoricalVolatilityIndicatorParameters period _ \<Rightarrow> Inr period | _ \<Rightarrow> parameters_period p)"

text \<open>\<open>_WARMUP_RULES\<close>: \<open>None\<close> for a kind that is not in the table. Subtractions follow at least as
  many additions, so they do not truncate on a validated block.\<close>

fun warmup_rule :: "indicator_kind \<Rightarrow> indicator_parameter_block \<Rightarrow> nat result option" where
  "warmup_rule MACD p =
     Some (case p of MacdIndicatorParameters _ slow_period signal_period \<Rightarrow> Inr (slow_period + signal_period - 1)
           | _ \<Rightarrow> shape_error)"
| "warmup_rule PPO p =
     Some (case p of MacdIndicatorParameters _ slow_period signal_period \<Rightarrow> Inr (slow_period + signal_period - 1)
           | _ \<Rightarrow> shape_error)"
| "warmup_rule BOLLINGER p =
     Some (case p of BollingerIndicatorParameters period _ \<Rightarrow> Inr period | _ \<Rightarrow> shape_error)"
| "warmup_rule BOLLINGER_PERCENT_B p =
     Some (case p of BollingerIndicatorParameters period _ \<Rightarrow> Inr period | _ \<Rightarrow> shape_error)"
| "warmup_rule BOLLINGER_BANDWIDTH p =
     Some (case p of BollingerIndicatorParameters period _ \<Rightarrow> Inr period | _ \<Rightarrow> shape_error)"
| "warmup_rule STOCHASTIC p =
     Some (case p of StochasticIndicatorParameters k_period d_period \<Rightarrow> Inr (k_period + d_period - 1)
           | _ \<Rightarrow> shape_error)"
| "warmup_rule ADX p = Some (rbind (period_of p) (\<lambda>period. Inr (2 * period - 1)))"
| "warmup_rule DEMA p = Some (rbind (period_of p) (\<lambda>period. Inr (2 * period - 1)))"
| "warmup_rule TEMA p = Some (rbind (period_of p) (\<lambda>period. Inr (3 * period - 2)))"
| "warmup_rule TRIX p = Some (rbind (period_of p) (\<lambda>period. Inr (3 * period - 1)))"
| "warmup_rule HMA p = Some (rbind (period_of p) (\<lambda>period. Inr (period + isqrt period - 1)))"
| "warmup_rule KAMA p =
     Some (case p of KamaIndicatorParameters period _ _ \<Rightarrow> Inr (period + 1) | _ \<Rightarrow> shape_error)"
| "warmup_rule SUPERTREND p =
     Some (case p of SupertrendIndicatorParameters period _ \<Rightarrow> Inr period | _ \<Rightarrow> shape_error)"
| "warmup_rule PARABOLIC_SAR p =
     Some (case p of ParabolicSarIndicatorParameters _ _ \<Rightarrow> Inr 2 | _ \<Rightarrow> shape_error)"
| "warmup_rule ICHIMOKU p =
     Some (case p of IchimokuIndicatorParameters tenkan_period kijun_period senkou_b_period \<Rightarrow>
             Inr (max (max tenkan_period kijun_period) senkou_b_period) | _ \<Rightarrow> shape_error)"
| "warmup_rule STOCHASTIC_RSI p =
     Some (case p of StochasticRsiIndicatorParameters rsi_period stoch_period k_period d_period \<Rightarrow>
             Inr (rsi_period + stoch_period + k_period + d_period - 2) | _ \<Rightarrow> shape_error)"
| "warmup_rule ULTIMATE_OSCILLATOR p =
     Some (case p of UltimateOscillatorIndicatorParameters _ _ long_period \<Rightarrow> Inr (long_period + 1)
           | _ \<Rightarrow> shape_error)"
| "warmup_rule AWESOME_OSCILLATOR p =
     Some (case p of AwesomeOscillatorIndicatorParameters _ slow_period \<Rightarrow> Inr slow_period | _ \<Rightarrow> shape_error)"
| "warmup_rule TSI p =
     Some (case p of TsiIndicatorParameters long_period short_period signal_period \<Rightarrow>
             Inr (long_period + short_period + signal_period - 1) | _ \<Rightarrow> shape_error)"
| "warmup_rule KELTNER p =
     Some (case p of KeltnerIndicatorParameters period atr_period _ \<Rightarrow> Inr (max period atr_period)
           | _ \<Rightarrow> shape_error)"
| "warmup_rule HISTORICAL_VOLATILITY p = Some (rbind (period_of p) (\<lambda>period. Inr (period + 1)))"
| "warmup_rule OBV p =
     Some (case p of SignalLineIndicatorParameters signal_period \<Rightarrow> Inr signal_period | _ \<Rightarrow> shape_error)"
| "warmup_rule ACCUMULATION_DISTRIBUTION p =
     Some (case p of SignalLineIndicatorParameters signal_period \<Rightarrow> Inr signal_period | _ \<Rightarrow> shape_error)"
| "warmup_rule _ p = None"

definition base_min_warmup :: "indicator_definition \<Rightarrow> nat result" where
  "base_min_warmup indicator =
     (if ind_kind indicator \<in> set [IDENTITY, CONSTANT] then Inr 1
      else case warmup_rule (ind_kind indicator) (ind_parameters indicator) of
             Some bars \<Rightarrow> bars
           | None \<Rightarrow>
               rbind (parameters_period (ind_parameters indicator)) (\<lambda>period.
                 Inr (period + (if ind_kind indicator \<in> set LOOKBACK_WARMUP_KINDS then 1 else 0))))"

definition indicator_min_warmup :: "indicator_definition \<Rightarrow> nat result" where
  "indicator_min_warmup indicator =
     rbind (base_min_warmup indicator) (\<lambda>bars. Inr (bars + indicator_offset indicator))"

end
