(* ===== verification/Indicator_Averages.thy ===== *)
theory Indicator_Averages
  imports Indicator_Schema
begin

text \<open>
  Shared series helpers (\<open>evaluation/indicator_math/core.py\<close>), moving averages and smoothing
  (\<open>moving_averages.py\<close>) and rolling statistics (\<open>rolling_statistics.py\<close>). Every function is
  shown causal; the smoothing recurrences are shown to keep any interval their inputs lie in that
  the engine context represents exactly.
\<close>

section \<open>Shared helpers\<close>

type_synonym series = "decimal option list"
type_synonym series_map = "(string \<times> series) list"

text \<open>\<open>IndicatorCalculationError\<close> is a \<open>ValueError\<close>.\<close>

definition not_implemented :: "'a result" where
  "not_implemented = Inl (ValueError ''Indicator kind is not implemented by this engine contract.'')"

definition locked_source_series :: "indicator_definition \<Rightarrow> candle list \<Rightarrow> decimal list result" where
  "locked_source_series indicator candles =
     (case ind_input indicator of
        Some (FieldInput source) \<Rightarrow>
          if source = ''open'' then Inr (map k_open candles)
          else if source = ''close'' then Inr (map k_close candles)
          else if source = ''volume'' then Inr (map k_volume candles)
          else if source = ''high'' then Inr (map k_high candles)
          else if source = ''low'' then Inr (map k_low candles)
          else not_implemented
      | _ \<Rightarrow> not_implemented)"

definition period_parameter :: "indicator_definition \<Rightarrow> nat result" where
  "period_parameter indicator =
     (case ind_parameters indicator of
        HistoricalVolatilityIndicatorParameters period _ \<Rightarrow> Inr period
      | IndicatorParameters period \<Rightarrow> Inr period
      | _ \<Rightarrow> not_implemented)"

definition windows_defined :: "series \<Rightarrow> nat \<Rightarrow> decimal list option list" where
  "windows_defined values period =
     rolling period (\<lambda>w. let d = somes w in if length d = period then Some d else None) values"

definition difference_series :: "series \<Rightarrow> series \<Rightarrow> series" where
  "difference_series left right =
     map (\<lambda>(first, second). opt2 (\<lambda>a b. Some (esub a b)) first second) (zip left right)"

section \<open>Moving averages and smoothing\<close>

definition mean :: "nat \<Rightarrow> decimal list \<Rightarrow> decimal" where
  "mean period w = ediv (esum w) (of_nat period)"

definition simple_moving_average_defined :: "series \<Rightarrow> nat \<Rightarrow> series" where
  "simple_moving_average_defined values period =
     rolling period (\<lambda>w. if list_ex (\<lambda>v. v = None) w then None else Some (mean period (somes w))) values"

definition wilder_update :: "nat \<Rightarrow> decimal \<Rightarrow> decimal \<Rightarrow> decimal" where
  "wilder_update period previous value =
     ediv (eadd (emul previous (of_nat (period - 1))) value) (of_nat period)"

definition ema_update :: "nat \<Rightarrow> decimal \<Rightarrow> decimal \<Rightarrow> decimal" where
  "ema_update period previous value =
     ediv (eadd (emul (of_nat (period - 1)) previous) (emul 2 value)) (of_nat (period + 1))"

text \<open>Both smoothings over a fully defined series have the same loop: nothing before a full
  period, the mean of the first \<open>period\<close> values as seed, then the update.\<close>

definition seeded_step ::
    "(decimal \<Rightarrow> decimal \<Rightarrow> decimal) \<Rightarrow> nat \<Rightarrow> decimal list \<Rightarrow> decimal option \<Rightarrow> nat \<Rightarrow> decimal option \<times> decimal option" where
  "seeded_step update period values previous index =
     (if index + 1 < period then (previous, None)
      else let p = (case previous of
                      None \<Rightarrow> mean period (take period values)
                    | Some q \<Rightarrow> update q (values ! index))
           in (Some p, Some p))"

text \<open>Over a series with holes a hole yields nothing and does not advance the recurrence; the seed
  collects the first \<open>period\<close> defined values.\<close>

definition seeded_optional_step ::
    "(decimal \<Rightarrow> decimal \<Rightarrow> decimal) \<Rightarrow> nat \<Rightarrow> decimal list \<times> decimal option \<Rightarrow> decimal option
     \<Rightarrow> (decimal list \<times> decimal option) \<times> decimal option" where
  "seeded_optional_step update period st value =
     (case (st, value) of
        (_, None) \<Rightarrow> (st, None)
      | ((seed, None), Some v) \<Rightarrow>
          (let seed' = seed @ [v] in
             if length seed' < period then ((seed', None), None)
             else let p = mean period seed' in ((seed', Some p), Some p))
      | ((seed, Some q), Some v) \<Rightarrow> (let p = update q v in ((seed, Some p), Some p)))"

definition wilder_smooth :: "decimal list \<Rightarrow> nat \<Rightarrow> series" where
  "wilder_smooth values period = bar_scan (seeded_step (wilder_update period) period) None values"

definition wilder_smooth_optional :: "series \<Rightarrow> nat \<Rightarrow> series" where
  "wilder_smooth_optional values period =
     scan (seeded_optional_step (wilder_update period) period) ([], None) values"

definition simple_moving_average :: "decimal list \<Rightarrow> nat \<Rightarrow> series" where
  "simple_moving_average values period = rolling period (\<lambda>w. Some (mean period w)) values"

definition exponential_moving_average :: "decimal list \<Rightarrow> nat \<Rightarrow> series" where
  "exponential_moving_average values period = bar_scan (seeded_step (ema_update period) period) None values"

definition weighted_mean :: "decimal list \<Rightarrow> decimal" where
  "weighted_mean w =
     (case foldl (\<lambda>(weighted, weight_sum) (offset, value).
                    (eadd weighted (emul value (of_nat offset)), eadd weight_sum (of_nat offset)))
                 (0, 0) (List.enumerate 1 w) of
        (weighted, weight_sum) \<Rightarrow> ediv weighted weight_sum)"

definition weighted_moving_average :: "decimal list \<Rightarrow> nat \<Rightarrow> series" where
  "weighted_moving_average values period = rolling period (\<lambda>w. Some (weighted_mean w)) values"

definition exponential_moving_average_optional :: "series \<Rightarrow> nat \<Rightarrow> series" where
  "exponential_moving_average_optional values period =
     scan (seeded_optional_step (ema_update period) period) ([], None) values"

definition weighted_moving_average_optional :: "series \<Rightarrow> nat \<Rightarrow> series" where
  "weighted_moving_average_optional values period =
     map (map_option weighted_mean) (windows_defined values period)"

definition double_exponential_moving_average :: "decimal list \<Rightarrow> nat \<Rightarrow> series" where
  "double_exponential_moving_average values period =
     (let first = exponential_moving_average values period;
          second = exponential_moving_average_optional first period
      in map (\<lambda>(outer, inner). opt2 (\<lambda>a b. Some (esub (emul 2 a) b)) outer inner) (zip first second))"

definition triple_exponential_moving_average :: "decimal list \<Rightarrow> nat \<Rightarrow> series" where
  "triple_exponential_moving_average values period =
     (let first = exponential_moving_average values period;
          second = exponential_moving_average_optional first period;
          third = exponential_moving_average_optional second period
      in map (\<lambda>(one, two, tri).
                opt2 (\<lambda>ab c. Some (eadd ab c)) (opt2 (\<lambda>a b. Some (esub (emul 3 a) (emul 3 b))) one two) tri)
           (zip first (zip second third)))"

definition hull_moving_average :: "decimal list \<Rightarrow> nat \<Rightarrow> series" where
  "hull_moving_average values period =
     (let half = weighted_moving_average values (period div 2);
          full = weighted_moving_average values period;
          raw = map (\<lambda>(short, long). opt2 (\<lambda>a b. Some (esub (emul 2 a) b)) short long) (zip half full)
      in weighted_moving_average_optional raw (isqrt period))"

definition kama_step ::
    "nat \<Rightarrow> decimal \<Rightarrow> decimal \<Rightarrow> decimal list \<Rightarrow> decimal \<Rightarrow> nat \<Rightarrow> decimal \<times> decimal option" where
  "kama_step period reach slow values previous index =
     (let change = eabs (esub (values ! index) (values ! (index - period)));
          volatility = foldl (\<lambda>acc position. eadd acc (eabs (esub (values ! position) (values ! (position - 1)))))
                             0 [index - period + 1..<index + 1];
          efficiency = (if volatility = 0 then 1 else ediv change volatility);
          base = eadd (emul efficiency reach) slow;
          smoothing = emul base base;
          p = eadd previous (emul smoothing (esub (values ! index) previous))
      in (p, Some p))"

definition kaufman_adaptive :: "nat \<Rightarrow> nat \<Rightarrow> nat \<Rightarrow> decimal list \<Rightarrow> series" where
  "kaufman_adaptive period fast_period slow_period values =
     (let fast = ediv 2 (of_nat (fast_period + 1)); slow = ediv 2 (of_nat (slow_period + 1))
      in led_scan period (kama_step period (esub fast slow) slow) (\<lambda>values. values ! (period - 1)) values)"

definition kaufman_adaptive_values :: "indicator_definition \<Rightarrow> candle list \<Rightarrow> series result" where
  "kaufman_adaptive_values indicator candles =
     (case ind_parameters indicator of
        KamaIndicatorParameters period fast_period slow_period \<Rightarrow>
          rbind (locked_source_series indicator candles)
            (\<lambda>values. Inr (kaufman_adaptive period fast_period slow_period values))
      | _ \<Rightarrow> not_implemented)"

section \<open>Rolling statistics\<close>

definition extreme_of :: "bool \<Rightarrow> decimal list \<Rightarrow> decimal" where
  "extreme_of maximum w =
     foldl (\<lambda>extreme value. if (if maximum then extreme < value else value < extreme) then value else extreme)
           (hd w) (tl w)"

definition rolling_extreme :: "bool \<Rightarrow> decimal list \<Rightarrow> nat \<Rightarrow> series" where
  "rolling_extreme maximum values period = rolling period (\<lambda>w. Some (extreme_of maximum w)) values"

definition deviation_of :: "nat \<Rightarrow> nat \<Rightarrow> decimal list \<Rightarrow> decimal" where
  "deviation_of period divisor w =
     (let m = mean period w;
          sum_sq = foldl (\<lambda>acc value. eadd acc (emul (esub value m) (esub value m))) 0 w;
          variance = ediv sum_sq (of_nat divisor)
      in if variance \<le> 0 then 0 else esqrt variance)"

definition rolling_stdev :: "decimal list \<Rightarrow> nat \<Rightarrow> nat \<Rightarrow> series" where
  "rolling_stdev values period divisor = rolling period (\<lambda>w. Some (deviation_of period divisor w)) values"

definition rolling_population_stdev :: "decimal list \<Rightarrow> nat \<Rightarrow> series" where
  "rolling_population_stdev values period = rolling_stdev values period period"

definition rolling_sample_stdev :: "decimal list \<Rightarrow> nat \<Rightarrow> series" where
  "rolling_sample_stdev values period = rolling_stdev values period (period - 1)"

definition rolling_highest :: "decimal list \<Rightarrow> nat \<Rightarrow> series" where
  "rolling_highest values period = rolling_extreme True values period"

definition rolling_lowest :: "decimal list \<Rightarrow> nat \<Rightarrow> series" where
  "rolling_lowest values period = rolling_extreme False values period"

definition rolling_extreme_optional :: "bool \<Rightarrow> series \<Rightarrow> nat \<Rightarrow> series" where
  "rolling_extreme_optional maximum values period =
     map (map_option (extreme_of maximum)) (windows_defined values period)"

text \<open>The least-squares endpoint and slope of one window.\<close>

definition linear_fit :: "nat \<Rightarrow> decimal list \<Rightarrow> decimal \<times> decimal" where
  "linear_fit period w =
     (let count = of_nat period;
          sum_x_int = int (period * (period - 1) div 2);
          sum_xx_int = int ((period - 1) * period * (2 * period - 1) div 6);
          sum_x = of_int sum_x_int;
          divisor = of_int (int period * sum_xx_int - sum_x_int * sum_x_int);
          (sum_y, sum_xy) = foldl (\<lambda>(sy, sxy) (position, value).
                                     (eadd sy value, eadd sxy (emul (of_nat position) value)))
                                  (0, 0) (List.enumerate 0 w);
          slope = ediv (esub (emul count sum_xy) (emul sum_x sum_y)) divisor;
          intercept = ediv (esub sum_y (emul slope sum_x)) count
      in (eadd intercept (emul slope (of_nat (period - 1))), slope))"

definition linear_regression_series :: "indicator_definition \<Rightarrow> candle list \<Rightarrow> series_map result" where
  "linear_regression_series indicator candles =
     rbind (period_parameter indicator) (\<lambda>period.
     rbind (locked_source_series indicator candles) (\<lambda>values.
       let fits = rolling period (\<lambda>w. Some (linear_fit period w)) values
       in Inr [(''value'', map (map_option fst) fits), (''slope'', map (map_option snd) fits)]))"

definition rolling_zscore :: "decimal list \<Rightarrow> nat \<Rightarrow> series" where
  "rolling_zscore values period =
     (let means = simple_moving_average values period;
          deviations = rolling_population_stdev values period
      in map (\<lambda>(value, m, dev).
                opt2 (\<lambda>m dev. if dev = 0 then None else Some (ediv (esub value m) dev)) m dev)
           (zip values (zip means deviations)))"

definition percent_rank :: "decimal list \<Rightarrow> nat \<Rightarrow> series" where
  "percent_rank values period =
     per_bar (\<lambda>values index.
       if index < period then None
       else Some (ediv (emul 100 (of_nat (length (filter (\<lambda>position. values ! position \<le> values ! index)
                                                          [index - period..<index]))))
                       (of_nat period))) values"

section \<open>Causality\<close>

lemmas causal_unfold = windows_defined_def difference_series_def simple_moving_average_defined_def
  wilder_smooth_optional_def simple_moving_average_def weighted_moving_average_def
  exponential_moving_average_optional_def weighted_moving_average_optional_def rolling_extreme_def
  rolling_stdev_def rolling_population_stdev_def rolling_sample_stdev_def rolling_highest_def
  rolling_lowest_def rolling_extreme_optional_def

lemma seeded_step_causal:
  "i < n \<Longrightarrow> i < length xs \<Longrightarrow> seeded_step u p (take n xs) s i = seeded_step u p xs s i"
  by (auto simp: seeded_step_def Let_def min_def split: option.splits)

lemma causal_wilder_smooth [causal_intros]: "causal F \<Longrightarrow> causal (\<lambda>xs. wilder_smooth (F xs) p)"
  unfolding wilder_smooth_def by (erule causal_bar_scan) (rule seeded_step_causal)

lemma causal_ema [causal_intros]: "causal F \<Longrightarrow> causal (\<lambda>xs. exponential_moving_average (F xs) p)"
  unfolding exponential_moving_average_def by (erule causal_bar_scan) (rule seeded_step_causal)

lemma causal_windowed [causal_intros]:
  "causal F \<Longrightarrow> causal (\<lambda>xs. windows_defined (F xs) p)"
  "causal F \<Longrightarrow> causal (\<lambda>xs. simple_moving_average_defined (F xs) p)"
  "causal F \<Longrightarrow> causal (\<lambda>xs. wilder_smooth_optional (F xs) p)"
  "causal F' \<Longrightarrow> causal (\<lambda>xs. simple_moving_average (F' xs) p)"
  "causal F' \<Longrightarrow> causal (\<lambda>xs. weighted_moving_average (F' xs) p)"
  "causal F \<Longrightarrow> causal (\<lambda>xs. exponential_moving_average_optional (F xs) p)"
  "causal F \<Longrightarrow> causal (\<lambda>xs. weighted_moving_average_optional (F xs) p)"
  "causal F' \<Longrightarrow> causal (\<lambda>xs. rolling_extreme m (F' xs) p)"
  "causal F' \<Longrightarrow> causal (\<lambda>xs. rolling_population_stdev (F' xs) p)"
  "causal F' \<Longrightarrow> causal (\<lambda>xs. rolling_sample_stdev (F' xs) p)"
  "causal F' \<Longrightarrow> causal (\<lambda>xs. rolling_highest (F' xs) p)"
  "causal F' \<Longrightarrow> causal (\<lambda>xs. rolling_lowest (F' xs) p)"
  "causal F \<Longrightarrow> causal (\<lambda>xs. rolling_extreme_optional m (F xs) p)"
  unfolding causal_unfold by (intro causal_intros; assumption)+

lemma causal_difference [causal_intros]:
  "causal F \<Longrightarrow> causal G \<Longrightarrow> causal (\<lambda>xs. difference_series (F xs) (G xs))"
  unfolding difference_series_def by (intro causal_intros)

lemma causal_dema [causal_intros]: "causal F \<Longrightarrow> causal (\<lambda>xs. double_exponential_moving_average (F xs) p)"
  unfolding double_exponential_moving_average_def Let_def by (intro causal_intros)

lemma causal_tema [causal_intros]: "causal F \<Longrightarrow> causal (\<lambda>xs. triple_exponential_moving_average (F xs) p)"
  unfolding triple_exponential_moving_average_def Let_def by (intro causal_intros)

lemma causal_hma [causal_intros]: "causal F \<Longrightarrow> causal (\<lambda>xs. hull_moving_average (F xs) p)"
  unfolding hull_moving_average_def Let_def by (intro causal_intros)

lemma causal_zscore [causal_intros]: "causal F \<Longrightarrow> causal (\<lambda>xs. rolling_zscore (F xs) p)"
  unfolding rolling_zscore_def Let_def by (intro causal_intros)

lemma causal_percent_rank [causal_intros]: "causal F \<Longrightarrow> causal (\<lambda>xs. percent_rank (F xs) p)"
  unfolding percent_rank_def
proof (erule causal_on_per_bar)
  fix xs :: "decimal list" and n i
  assume "i < n" "i < length xs"
  then have "filter (\<lambda>position. take n xs ! position \<le> take n xs ! i) [i - p..<i]
      = filter (\<lambda>position. xs ! position \<le> xs ! i) [i - p..<i]"
    by (intro filter_upt_cong) simp
  then show "(if i < p then None else Some (ediv (emul 100 (of_nat (length (filter (\<lambda>position. take n xs ! position \<le> take n xs ! i) [i - p..<i])))) (of_nat p)))
      = (if i < p then None else Some (ediv (emul 100 (of_nat (length (filter (\<lambda>position. xs ! position \<le> xs ! i) [i - p..<i])))) (of_nat p)))"
    by simp
qed

lemma causal_kama [causal_intros]:
  assumes "0 < p" "causal F"
  shows "causal (\<lambda>xs. kaufman_adaptive p fp sp (F xs))"
  unfolding kaufman_adaptive_def Let_def
proof (rule causal_comp [OF causal_led_scan assms(2)])
  fix xs :: "decimal list" and n s i
  assume i: "p \<le> i" "i < n" "i < length xs"
  have v: "foldl (\<lambda>acc position. eadd acc (eabs (esub (take n xs ! position) (take n xs ! (position - 1))))) 0
        [i - p + 1..<i + 1]
      = foldl (\<lambda>acc position. eadd acc (eabs (esub (xs ! position) (xs ! (position - 1))))) 0 [i - p + 1..<i + 1]"
    using i by (intro foldl_upt_cong) simp
  have n: "take n xs ! i = xs ! i" "take n xs ! (i - p) = xs ! (i - p)" using i by simp_all
  show "kama_step p r w (take n xs) s i = kama_step p r w xs s i" for r w
    unfolding kama_step_def v n ..
next
  show "p < n \<Longrightarrow> p < length xs \<Longrightarrow> take n xs ! (p - 1) = xs ! (p - 1)" for n and xs :: "decimal list"
    by simp
qed

section \<open>Where a series is defined\<close>

text \<open>\<open>defined_from k xs\<close>: the first \<open>k\<close> bars are undefined and every later bar has a value.\<close>

definition defined_from :: "nat \<Rightarrow> 'a option list \<Rightarrow> bool" where
  "defined_from k xs \<longleftrightarrow> (\<forall>i < length xs. (xs ! i = None) = (i < k))"

lemma defined_fromI: "(\<And>i. i < length xs \<Longrightarrow> (xs ! i = None) = (i < k)) \<Longrightarrow> defined_from k xs"
  by (simp add: defined_from_def)

lemma defined_fromD: "defined_from k xs \<Longrightarrow> i < length xs \<Longrightarrow> (xs ! i = None) = (i < k)"
  by (simp add: defined_from_def)

lemma somes_lead [simp]: "somes (replicate k None @ map Some vs) = vs"
proof -
  have "somes (map Some vs) = vs" by (induction vs) auto
  then show ?thesis by (induction k) auto
qed

lemma length_somes: "length (somes w) \<le> length w \<and> (length (somes w) = length w \<longleftrightarrow> None \<notin> set w)"
  by (induction w rule: somes.induct) auto

lemma set_somes: "set (somes w) = {v. Some v \<in> set w}"
  by (induction w rule: somes.induct) auto

lemma defined_from_split:
  assumes "defined_from k xs"
  shows "xs = replicate (min k (length xs)) None @ map Some (somes xs)"
proof -
  have *: "xs = replicate (min k (length xs)) None @ map Some (map the (drop k xs))"
  proof (rule nth_equalityI)
    fix i assume i: "i < length xs"
    then show "xs ! i = (replicate (min k (length xs)) None @ map Some (map the (drop k xs))) ! i"
      using defined_fromD [OF assms i] by (auto simp: nth_append min_def)
  qed simp
  then have "somes xs = map the (drop k xs)" by (metis somes_lead)
  with * show ?thesis by simp
qed

lemma defined_from_append: "defined_from k ys \<Longrightarrow> defined_from (m + k) (replicate m None @ ys)"
  by (auto simp: defined_from_def nth_append)

lemma defined_from_short: "length xs \<le> m \<Longrightarrow> length xs \<le> n \<Longrightarrow> defined_from m xs = defined_from n xs"
  by (simp add: defined_from_def)

lemma scan_nth_None:
  assumes "\<And>s x. x \<in> set xs \<Longrightarrow> (snd (step s x) = None) = P x" "j < length xs"
  shows "(scan step s xs ! j = None) = P (xs ! j)"
  using assms
proof (induction xs arbitrary: s j)
  case (Cons x xs)
  obtain s' y where y: "step s x = (s', y)" by fastforce
  with Cons.prems(1) [of x s] have "(y = None) = P x" by simp
  with Cons y show ?case by (cases j) simp_all
qed simp

named_theorems defined_intros \<open>where the series of the engine are defined\<close>

lemma defined_map [defined_intros]: "defined_from k xs \<Longrightarrow> defined_from k (map (map_option f) xs)"
  by (simp add: defined_from_def)

lemma defined_some [defined_intros]: "defined_from 0 (map Some xs)"
  by (simp add: defined_from_def)

lemma defined_opt2:
  assumes "defined_from m xs" "defined_from n ys" "length xs = length ys" "\<And>a b. f a b \<noteq> None"
  shows "defined_from (max m n) (map (\<lambda>(x, y). opt2 f x y) (zip xs ys))"
proof (rule defined_fromI)
  fix i assume "i < length (map (\<lambda>(x, y). opt2 f x y) (zip xs ys))"
  then have i: "i < length xs" "i < length ys" by auto
  have "(opt2 f (xs ! i) (ys ! i) = None) = (xs ! i = None \<or> ys ! i = None)"
    using assms(4) by (auto simp: opt2_def split: option.splits)
  with i assms(1,2) show "(map (\<lambda>(x, y). opt2 f x y) (zip xs ys) ! i = None) = (i < max m n)"
    by (simp add: defined_from_def less_max_iff_disj)
qed

lemma defined_rolling: "(\<And>w. f w \<noteq> None) \<Longrightarrow> defined_from (p - 1) (rolling p f xs)"
  by (rule defined_fromI) (auto simp del: not_None_eq simp: rolling_def)

lemma defined_seeded: "defined_from (p - 1) (bar_scan (seeded_step u p) None xs)"
proof (rule defined_fromI)
  fix i assume "i < length (bar_scan (seeded_step u p) None xs)"
  then have "i < length [0..<length xs]" by (simp add: bar_scan_def)
  from scan_nth_None [OF _ this, of "seeded_step u p xs" "\<lambda>i. i + 1 < p"] this
  show "(bar_scan (seeded_step u p) None xs ! i = None) = (i < p - 1)"
    by (auto simp: bar_scan_def seeded_step_def Let_def)
qed

lemma defined_led_scan:
  assumes "\<And>s i. snd (step xs s i) \<noteq> None"
  shows "defined_from k (led_scan k step start xs)"
proof (rule defined_fromI)
  fix i assume i: "i < length (led_scan k step start xs)"
  show "(led_scan k step start xs ! i = None) = (i < k)"
  proof (cases "i < k")
    case True
    with i show ?thesis by (auto simp: led_scan_def nth_append)
  next
    case False
    with i have "i - k < length [k..<length xs]" by (auto simp: led_scan_def)
    from scan_nth_None [OF _ this, of "step xs" "\<lambda>_. False" "start xs"] assms this False
    show ?thesis by (auto simp: led_scan_def nth_append)
  qed
qed

lemma defined_windows:
  assumes "defined_from k xs" "0 < p"
  shows "defined_from (k + p - 1) (windows_defined xs p)"
proof (rule defined_fromI)
  fix i assume "i < length (windows_defined xs p)"
  then have i: "i < length xs" by (simp add: windows_defined_def rolling_def)
  show "(windows_defined xs p ! i = None) = (i < k + p - 1)"
  proof (cases "i + 1 < p")
    case True
    with i show ?thesis by (simp add: windows_defined_def rolling_def)
  next
    case False
    then have l: "length (window xs p i) = p" using i by (simp add: length_window)
    have "None \<in> set (window xs p i) \<longleftrightarrow> i + 1 - p < k"
    proof
      assume "None \<in> set (window xs p i)"
      then obtain j where "j < p" "window xs p i ! j = None" using l by (metis in_set_conv_nth)
      with False i assms(1) have "i + 1 - p + j < k" by (simp add: window_def defined_from_def)
      then show "i + 1 - p < k" by simp
    next
      assume "i + 1 - p < k"
      with False i assms have "window xs p i ! 0 = None" by (simp add: window_def defined_from_def)
      with l assms(2) show "None \<in> set (window xs p i)" by (metis nth_mem)
    qed
    with False i l length_somes [of "window xs p i"] show ?thesis
      by (auto simp: windows_defined_def rolling_def Let_def)
  qed
qed

section \<open>A series with leading holes is smoothed as its defined suffix\<close>

lemma seeded_agree:
  assumes "0 < p" "i \<le> length vs"
    and "i < p \<and> st = None \<and> st' = (take i vs, None) \<or> p \<le> i \<and> (\<exists>q s. st = Some q \<and> st' = (s, Some q))"
  shows "scan (seeded_step u p vs) st [i..<length vs] = scan (seeded_optional_step u p) st' (map Some (drop i vs))"
  using assms(2,3)
proof (induction "length vs - i" arbitrary: i st st')
  case (Suc n)
  then have i: "i < length vs" by simp
  then have up: "[i..<length vs] = i # [Suc i..<length vs]" "drop i vs = vs ! i # drop (Suc i) vs"
    by (simp_all add: upt_conv_Cons Cons_nth_drop_Suc)
  have t: "take i vs @ [vs ! i] = take (Suc i) vs" using i by (simp add: take_Suc_conv_app_nth)
  have IH: "scan (seeded_step u p vs) t [Suc i..<length vs] = scan (seeded_optional_step u p) t' (map Some (drop (Suc i) vs))"
    if "Suc i < p \<and> t = None \<and> t' = (take (Suc i) vs, None) \<or> p \<le> Suc i \<and> (\<exists>q s. t = Some q \<and> t' = (s, Some q))" for t t'
    using Suc.hyps(1) [of "Suc i" t t'] Suc.hyps(2) i that by simp
  show ?case
  proof (cases "i < p")
    case early: True
    with Suc.prems have st: "st = None" "st' = (take i vs, None)" by auto
    show ?thesis
    proof (cases "Suc i < p")
      case True
      then show ?thesis using i t IH [of None "(take (Suc i) vs, None)"]
        by (simp add: up st seeded_step_def seeded_optional_step_def min_absorb2)
    next
      case False
      with early have p: "Suc i = p" by simp
      then show ?thesis using i t IH
        by (simp add: up st seeded_step_def seeded_optional_step_def Let_def)
    qed
  next
    case False
    with Suc.prems obtain q s where "st = Some q" "st' = (s, Some q)" by auto
    with False show ?thesis using IH
      by (simp add: up seeded_step_def seeded_optional_step_def Let_def)
  qed
qed simp

lemma seeded_optional_hole [simp]: "seeded_optional_step u p st None = (st, None)"
  by (cases st) (simp add: seeded_optional_step_def split: option.split)

lemma optional_holes:
  "scan (seeded_optional_step u p) st (replicate k None @ xs) = replicate k None @ scan (seeded_optional_step u p) st xs"
  by (induction k) simp_all

lemma optional_lead:
  assumes "0 < p"
  shows "scan (seeded_optional_step u p) ([], None) (replicate k None @ map Some vs)
    = replicate k None @ bar_scan (seeded_step u p) None vs"
  using seeded_agree [OF assms, of 0 vs None "([], None)" u] assms by (simp add: optional_holes bar_scan_def)

lemma ema_optional_lead:
  "0 < p \<Longrightarrow> exponential_moving_average_optional (replicate k None @ map Some vs) p
    = replicate k None @ exponential_moving_average vs p"
  by (simp add: exponential_moving_average_optional_def exponential_moving_average_def optional_lead)

lemma defined_optional:
  assumes "defined_from k xs" "0 < p"
  shows "defined_from (k + p - 1) (scan (seeded_optional_step u p) ([], None) xs)"
proof -
  let ?m = "min k (length xs)" and ?ys = "bar_scan (seeded_step u p) None (somes xs)"
  have "scan (seeded_optional_step u p) ([], None) xs = replicate ?m None @ ?ys"
    using optional_lead [OF assms(2), of u ?m "somes xs"] defined_from_split [OF assms(1)] by simp
  moreover have "defined_from (?m + (p - 1)) (replicate ?m None @ ?ys)"
    by (rule defined_from_append [OF defined_seeded])
  moreover have "length (replicate ?m None @ ?ys) = length xs"
    using calculation(1) by (metis length_scan)
  ultimately show ?thesis using assms(2)
    by (cases "k \<le> length xs") (auto simp: min_def defined_from_def)
qed

lemma defined_averages [defined_intros]:
  "defined_from (p - 1) (simple_moving_average vs p)"
  "defined_from (p - 1) (exponential_moving_average vs p)"
  "defined_from (p - 1) (weighted_moving_average vs p)"
  "defined_from (p - 1) (wilder_smooth vs p)"
  "defined_from (p - 1) (rolling_extreme m vs p)"
  "defined_from (p - 1) (rolling_population_stdev vs p)"
  "defined_from (p - 1) (rolling_sample_stdev vs p)"
  "defined_from (p - 1) (rolling_highest vs p)"
  "defined_from (p - 1) (rolling_lowest vs p)"
  unfolding causal_unfold exponential_moving_average_def wilder_smooth_def
  by (rule defined_seeded | rule defined_rolling, rule option.distinct(2))+

lemma defined_smoothed [defined_intros]:
  assumes "defined_from k xs" "0 < p"
  shows "defined_from (k + p - 1) (exponential_moving_average_optional xs p)"
    and "defined_from (k + p - 1) (wilder_smooth_optional xs p)"
    and "defined_from (k + p - 1) (weighted_moving_average_optional xs p)"
    and "defined_from (k + p - 1) (rolling_extreme_optional m xs p)"
  unfolding exponential_moving_average_optional_def wilder_smooth_optional_def
    weighted_moving_average_optional_def rolling_extreme_optional_def
  by (rule defined_map defined_windows defined_optional assms)+

section \<open>Locked sources\<close>

definition source_field :: "indicator_input option \<Rightarrow> (candle \<Rightarrow> decimal) option" where
  "source_field i =
     (case i of Some (FieldInput f) \<Rightarrow>
        map_of [(''open'', k_open), (''close'', k_close), (''volume'', k_volume), (''high'', k_high), (''low'', k_low)] f
      | _ \<Rightarrow> None)"

lemma locked_source_eq:
  "locked_source_series indicator candles =
     (case source_field (ind_input indicator) of Some k \<Rightarrow> Inr (map k candles) | None \<Rightarrow> not_implemented)"
  by (simp add: locked_source_series_def source_field_def split: option.splits indicator_input.splits)

lemma locked_source_cases:
  obtains (field) k where "\<And>candles. locked_source_series indicator candles = Inr (map k candles)"
  | (none) "\<And>candles. locked_source_series indicator candles = not_implemented"
proof (cases "source_field (ind_input indicator)")
  case None
  then show ?thesis using none by (simp add: locked_source_eq)
next
  case (Some k)
  then have "locked_source_series indicator candles = Inr (map k candles)" for candles
    by (simp add: locked_source_eq)
  then show ?thesis by (rule field)
qed

lemma causal_locked_result:
  assumes "\<And>k :: candle \<Rightarrow> decimal. causal (\<lambda>candles. f (map k candles))"
  shows "causal_result (\<lambda>candles. rbind (locked_source_series indicator candles) (\<lambda>values. Inr (f values)))"
proof (cases indicator rule: locked_source_cases)
  case (field k)
  then show ?thesis using assms by (simp add: causal_result_intros)
next
  case none
  then show ?thesis by (simp add: not_implemented_def causal_result_intros)
qed

lemma causal_locked_named:
  assumes "\<And>k :: candle \<Rightarrow> decimal. causal_named (\<lambda>candles. F (map k candles))"
  shows "causal_named (\<lambda>candles. rbind (locked_source_series indicator candles) F)"
proof (cases indicator rule: locked_source_cases)
  case (field k)
  then show ?thesis using assms by simp
next
  case none
  then show ?thesis by (simp add: not_implemented_def causal_named_intros)
qed

lemma causal_period_named:
  assumes "\<And>period. causal_named (\<lambda>candles. F period candles)"
  shows "causal_named (\<lambda>candles. rbind (period_parameter indicator) (\<lambda>period. F period candles))"
  using assms
  by (cases "period_parameter indicator") (simp_all add: causal_named_intros)

lemma causal_kama_values:
  assumes "parameters_valid (ind_parameters indicator)"
  shows "causal_result (kaufman_adaptive_values indicator)"
proof (cases "\<exists>p f s. ind_parameters indicator = KamaIndicatorParameters p f s")
  case True
  then obtain p f s where k: "ind_parameters indicator = KamaIndicatorParameters p f s" by blast
  with assms have "0 < p" by (simp add: between_def)
  then show ?thesis unfolding kaufman_adaptive_values_def k
    by (simp add: causal_locked_result causal_kama causal_intros)
next
  case False
  then have "kaufman_adaptive_values indicator = (\<lambda>_. not_implemented)"
    by (auto simp: kaufman_adaptive_values_def fun_eq_iff split: indicator_parameter_block.splits)
  then show ?thesis by (simp add: not_implemented_def causal_result_intros)
qed

lemma causal_linear_regression: "causal_named (linear_regression_series indicator)"
  unfolding linear_regression_series_def Let_def
  by (rule causal_period_named, rule causal_locked_named, rule causal_named_intros) (intro causal_intros)+

end
