(* ===== verification/Indicator_Momentum.thy ===== *)
theory Indicator_Momentum
  imports Indicator_Averages
begin

text \<open>
  Momentum oscillators (\<open>evaluation/indicator_math/momentum.py\<close>). Multi-output indicators return
  their series by name, in the order of the source's dictionary. Each is shown causal.
\<close>

section \<open>Changes between neighbouring bars\<close>

text \<open>\<open>itertools.pairwise\<close>, and the series that starts with a fixed value because the first bar has
  no predecessor.\<close>

definition pairwise_bars :: "'a list \<Rightarrow> ('a \<times> 'a) list" where
  "pairwise_bars xs = zip xs (tl xs)"

definition pairwise_led :: "'b \<Rightarrow> ('a \<Rightarrow> 'a \<Rightarrow> 'b) \<Rightarrow> 'a list \<Rightarrow> 'b list" where
  "pairwise_led first f xs = (if xs = [] then [] else first # map (\<lambda>(p, c). f p c) (pairwise_bars xs))"

lemma pairwise_take: "pairwise_bars (take n xs) = take (n - 1) (pairwise_bars xs)"
  by (rule nth_equalityI) (auto simp: pairwise_bars_def nth_tl)

lemma length_pairwise_bars [simp]: "length (pairwise_bars xs) = length xs - 1"
  by (simp add: pairwise_bars_def)

lemma length_pairwise_led [simp]: "length (pairwise_led d f xs) = length xs"
  by (cases xs) (simp_all add: pairwise_led_def)

lemma nth_pairwise_led: "i < length xs \<Longrightarrow> pairwise_led d f xs ! i = (if i = 0 then d else f (xs ! (i - 1)) (xs ! i))"
  by (cases xs; cases i) (auto simp: pairwise_led_def pairwise_bars_def)

lemma causal_pairwise_led [causal_intros]: "causal F \<Longrightarrow> causal (\<lambda>xs. pairwise_led d f (F xs))"
  by (rule causalI) (auto simp: causal.aligned causal.prefix nth_pairwise_led intro!: nth_equalityI)

section \<open>Oscillators\<close>

definition macd_signal_ema :: "series \<Rightarrow> nat \<Rightarrow> series" where
  "macd_signal_ema macd_line period =
     (let def = somes macd_line
      in replicate (length macd_line - length def) None @ exponential_moving_average def period)"

definition macd_series :: "indicator_definition \<Rightarrow> candle list \<Rightarrow> series_map result" where
  "macd_series indicator candles =
     (case ind_parameters indicator of
        MacdIndicatorParameters fast_period slow_period signal_period \<Rightarrow>
          rbind (locked_source_series indicator candles) (\<lambda>closes.
            let fast = exponential_moving_average closes fast_period;
                slow = exponential_moving_average closes slow_period;
                macd_line = map (\<lambda>(f, s). opt2 (\<lambda>a b. Some (esub a b)) f s) (zip fast slow);
                signal = macd_signal_ema macd_line signal_period;
                histogram = map (\<lambda>(l, s). opt2 (\<lambda>a b. Some (esub a b)) l s) (zip macd_line signal)
            in Inr [(''macd'', macd_line), (''signal'', signal), (''histogram'', histogram)])
      | _ \<Rightarrow> not_implemented)"

definition stochastic_k :: "candle list \<Rightarrow> nat \<Rightarrow> series" where
  "stochastic_k candles k_period =
     (let highest = rolling_extreme True (map k_high candles) k_period;
          lowest = rolling_extreme False (map k_low candles) k_period
      in map (\<lambda>(candle, high_value, low_value).
                opt2 (\<lambda>h l. if esub h l = 0 then None
                             else Some (ediv (emul 100 (esub (k_close candle) l)) (esub h l)))
                  high_value low_value)
           (zip candles (zip highest lowest)))"

definition stochastic_series :: "indicator_definition \<Rightarrow> candle list \<Rightarrow> series_map result" where
  "stochastic_series indicator candles =
     (case ind_parameters indicator of
        StochasticIndicatorParameters k_period d_period \<Rightarrow>
          (let percent_k = stochastic_k candles k_period
           in Inr [(''k'', percent_k), (''d'', simple_moving_average_defined percent_k d_period)])
      | _ \<Rightarrow> not_implemented)"

text \<open>The state of the RSI loop: the gains and losses so far and the two Wilder averages.\<close>

type_synonym rsi_state = "decimal list \<times> decimal list \<times> decimal option \<times> decimal option"

definition rsi_value :: "decimal \<Rightarrow> decimal \<Rightarrow> decimal" where
  "rsi_value average_gain average_loss =
     (if average_gain = 0 \<and> average_loss = 0 then 50
      else if average_loss = 0 then 100
      else ediv (emul 100 average_gain) (eadd average_gain average_loss))"

definition rsi_step :: "nat \<Rightarrow> decimal list \<Rightarrow> rsi_state \<Rightarrow> nat \<Rightarrow> rsi_state \<times> decimal option" where
  "rsi_step period values st index =
     (case st of (gains, losses, average_gain, average_loss) \<Rightarrow>
        let change = esub (values ! index) (values ! (index - 1));
            gain = max change 0;
            loss = max (eneg change) 0;
            gains' = gains @ [gain];
            losses' = losses @ [loss]
        in if index < period then ((gains', losses', average_gain, average_loss), None)
           else let (g, l) = (case (average_gain, average_loss) of
                                (Some a, Some b) \<Rightarrow> (wilder_update period a gain, wilder_update period b loss)
                              | _ \<Rightarrow> (mean period (take period gains'), mean period (take period losses')))
                in ((gains', losses', Some g, Some l), Some (rsi_value g l)))"

definition relative_strength_index :: "decimal list \<Rightarrow> nat \<Rightarrow> series" where
  "relative_strength_index values period =
     led_scan 1 (rsi_step period) (\<lambda>_. ([], [], None, None)) values"

definition rate_of_change :: "decimal list \<Rightarrow> nat \<Rightarrow> series" where
  "rate_of_change values period =
     per_bar (\<lambda>values index.
       if index < period then None
       else let past = values ! (index - period)
            in if past = 0 then None
               else Some (ediv (emul 100 (esub (values ! index) past)) past)) values"

definition williams_percent_r :: "candle list \<Rightarrow> nat \<Rightarrow> series" where
  "williams_percent_r candles period =
     (let highest = rolling_extreme True (map k_high candles) period;
          lowest = rolling_extreme False (map k_low candles) period
      in map (\<lambda>(candle, high_value, low_value).
                opt2 (\<lambda>h l. if esub h l = 0 then None
                             else Some (emul (ediv (esub h (k_close candle)) (esub h l)) (- 100)))
                  high_value low_value)
           (zip candles (zip highest lowest)))"

definition typical_price :: "candle \<Rightarrow> decimal" where
  "typical_price candle = ediv (eadd (eadd (k_high candle) (k_low candle)) (k_close candle)) 3"

definition commodity_channel_index :: "candle list \<Rightarrow> nat \<Rightarrow> series" where
  "commodity_channel_index candles period =
     rolling period (\<lambda>w.
       let m = mean period w;
           mad = ediv (esum (map (\<lambda>value. eabs (esub value m)) w)) (of_nat period)
       in if mad = 0 then None
          else Some (ediv (esub (last w) m) (emul (15 / 1000) mad)))
     (map typical_price candles)"

definition momentum :: "decimal list \<Rightarrow> nat \<Rightarrow> series" where
  "momentum values period =
     per_bar (\<lambda>values index.
       if index < period then None else Some (esub (values ! index) (values ! (index - period)))) values"

definition triple_exponential_rate :: "decimal list \<Rightarrow> nat \<Rightarrow> series" where
  "triple_exponential_rate values period =
     (let first = exponential_moving_average values period;
          second = exponential_moving_average_optional first period;
          third = exponential_moving_average_optional second period
      in pairwise_led None
           (\<lambda>previous current.
              opt2 (\<lambda>p c. if p = 0 then None else Some (ediv (emul 100 (esub c p)) p)) previous current)
           third)"

definition FLAT_RSI_RANGE :: decimal where
  "FLAT_RSI_RANGE = 1 / 10 ^ 30"

definition stochastic_rsi_raw :: "series \<Rightarrow> nat \<Rightarrow> series" where
  "stochastic_rsi_raw rsi stoch_period =
     (let highest = rolling_extreme_optional True rsi stoch_period;
          lowest = rolling_extreme_optional False rsi stoch_period
      in map (\<lambda>(value, high, low).
                case value of None \<Rightarrow> None
                | Some v \<Rightarrow>
                    opt2 (\<lambda>h l. if esub h l \<le> FLAT_RSI_RANGE then None
                                 else Some (ediv (emul 100 (esub v l)) (esub h l))) high low)
           (zip rsi (zip highest lowest)))"

definition stochastic_rsi_series :: "indicator_definition \<Rightarrow> candle list \<Rightarrow> series_map result" where
  "stochastic_rsi_series indicator candles =
     (case ind_parameters indicator of
        StochasticRsiIndicatorParameters rsi_period stoch_period k_period d_period \<Rightarrow>
          rbind (locked_source_series indicator candles) (\<lambda>closes.
            let raw = stochastic_rsi_raw (relative_strength_index closes rsi_period) stoch_period;
                percent_k = simple_moving_average_defined raw k_period
            in Inr [(''k'', percent_k), (''d'', simple_moving_average_defined percent_k d_period)])
      | _ \<Rightarrow> not_implemented)"

definition ppo_series :: "indicator_definition \<Rightarrow> candle list \<Rightarrow> series_map result" where
  "ppo_series indicator candles =
     (case ind_parameters indicator of
        MacdIndicatorParameters fast_period slow_period signal_period \<Rightarrow>
          rbind (locked_source_series indicator candles) (\<lambda>closes.
            let fast = exponential_moving_average closes fast_period;
                slow = exponential_moving_average closes slow_period;
                ln = map (\<lambda>(f, s). opt2 (\<lambda>a b. if b = 0 then None
                                               else Some (ediv (emul 100 (esub a b)) b)) f s) (zip fast slow);
                signal = exponential_moving_average_optional ln signal_period
            in Inr [(''ppo'', ln), (''signal'', signal), (''histogram'', difference_series ln signal)])
      | _ \<Rightarrow> not_implemented)"

text \<open>Williams' ultimate oscillator. The first bar has no previous close and carries zeros.\<close>

definition buying_pressure :: "candle list \<Rightarrow> decimal list" where
  "buying_pressure candles =
     0 # map (\<lambda>(previous, candle). esub (k_close candle) (min (k_low candle) (k_close previous))) (pairwise_bars candles)"

definition pressure_ranges :: "candle list \<Rightarrow> decimal list" where
  "pressure_ranges candles =
     0 # map (\<lambda>(previous, candle). esub (max (k_high candle) (k_close previous))
                                         (min (k_low candle) (k_close previous))) (pairwise_bars candles)"

definition pressure_average :: "decimal list \<Rightarrow> decimal list \<Rightarrow> nat \<Rightarrow> nat \<Rightarrow> decimal option" where
  "pressure_average pressure ranges index period =
     (let (pressure_sum, range_sum) =
            foldl (\<lambda>(ps, rs) position. (eadd ps (pressure ! position), eadd rs (ranges ! position)))
                  (0, 0) [index - period + 1..<index + 1]
      in if range_sum = 0 then None else Some (ediv pressure_sum range_sum))"

definition ultimate_at :: "nat \<Rightarrow> nat \<Rightarrow> nat \<Rightarrow> candle list \<Rightarrow> nat \<Rightarrow> decimal option" where
  "ultimate_at short_period medium_period long_period candles index =
     (if index < long_period then None
      else let average = pressure_average (buying_pressure candles) (pressure_ranges candles) index
           in case (average short_period, average medium_period, average long_period) of
                (Some short, Some medium, Some long) \<Rightarrow>
                  Some (ediv (emul 100 (eadd (eadd (emul 4 short) (emul 2 medium)) long)) 7)
              | _ \<Rightarrow> None)"

definition ultimate_oscillator_values :: "indicator_definition \<Rightarrow> candle list \<Rightarrow> series result" where
  "ultimate_oscillator_values indicator candles =
     (case ind_parameters indicator of
        UltimateOscillatorIndicatorParameters short_period medium_period long_period \<Rightarrow>
          Inr (per_bar (ultimate_at short_period medium_period long_period) candles)
      | _ \<Rightarrow> not_implemented)"

definition awesome_oscillator_values :: "indicator_definition \<Rightarrow> candle list \<Rightarrow> series result" where
  "awesome_oscillator_values indicator candles =
     (case ind_parameters indicator of
        AwesomeOscillatorIndicatorParameters fast_period slow_period \<Rightarrow>
          (let medians = map (\<lambda>candle. ediv (eadd (k_high candle) (k_low candle)) 2) candles
           in Inr (difference_series (simple_moving_average medians fast_period)
                                     (simple_moving_average medians slow_period)))
      | _ \<Rightarrow> not_implemented)"

definition gains_losses :: "decimal list \<Rightarrow> nat \<Rightarrow> nat \<Rightarrow> decimal \<times> decimal" where
  "gains_losses values period index =
     foldl (\<lambda>(gains, losses) position.
              let change = esub (values ! position) (values ! (position - 1))
              in if 0 < change then (eadd gains change, losses)
                 else if change < 0 then (gains, esub losses change) else (gains, losses))
           (0, 0) [index - period + 1..<index + 1]"

definition chande_momentum_oscillator :: "decimal list \<Rightarrow> nat \<Rightarrow> series" where
  "chande_momentum_oscillator values period =
     per_bar (\<lambda>values index.
       if index < period then None
       else case gains_losses values period index of
              (gains, losses) \<Rightarrow>
                if eadd gains losses = 0 then None
                else Some (ediv (emul 100 (esub gains losses)) (eadd gains losses))) values"

definition true_strength_series :: "indicator_definition \<Rightarrow> candle list \<Rightarrow> series_map result" where
  "true_strength_series indicator candles =
     (case ind_parameters indicator of
        TsiIndicatorParameters long_period short_period signal_period \<Rightarrow>
          rbind (locked_source_series indicator candles) (\<lambda>closes.
            let changes = pairwise_led None (\<lambda>previous current. Some (esub current previous)) closes;
                magnitudes = pairwise_led None (\<lambda>previous current. Some (eabs (esub current previous))) closes;
                numerator = exponential_moving_average_optional
                  (exponential_moving_average_optional changes long_period) short_period;
                denominator = exponential_moving_average_optional
                  (exponential_moving_average_optional magnitudes long_period) short_period;
                tsi = map (\<lambda>(t, b). opt2 (\<lambda>t b. if b = 0 then None else Some (ediv (emul 100 t) b)) t b)
                        (zip numerator denominator)
            in Inr [(''tsi'', tsi), (''signal'', exponential_moving_average_optional tsi signal_period)])
      | _ \<Rightarrow> not_implemented)"

section \<open>Causality\<close>

lemma defined_macd_line:
  "defined_from (max (fp - 1) (sp - 1))
     (map (\<lambda>(f, s). opt2 (\<lambda>a b. Some (esub a b)) f s)
        (zip (exponential_moving_average vs fp) (exponential_moving_average vs sp)))"
  by (rule defined_opt2 [OF defined_averages(2) defined_averages(2)])
    (simp_all add: causal.aligned [OF causal_ema [OF causal_id]])

text \<open>The MACD signal line smooths the defined suffix only; that is the hole-skipping smoothing,
  because a MACD line has no hole after its first value.\<close>

lemma macd_signal_ema_eq:
  assumes "defined_from k xs" "0 < p"
  shows "macd_signal_ema xs p = exponential_moving_average_optional xs p"
proof -
  define m where "m = min k (length xs)"
  note s = defined_from_split [OF assms(1), folded m_def]
  have "length xs = m + length (somes xs)" by (subst s) simp
  then show ?thesis using ema_optional_lead [OF assms(2), of m "somes xs"] s
    by (simp add: macd_signal_ema_def Let_def)
qed

lemma causal_macd:
  assumes "parameters_valid (ind_parameters indicator)"
  shows "causal_named (macd_series indicator)"
proof (cases "ind_parameters indicator")
  case (MacdIndicatorParameters fp sp gp)
  with assms have "0 < gp" by (simp add: between_def)
  then show ?thesis
    unfolding macd_series_def [abs_def] MacdIndicatorParameters indicator_parameter_block.case Let_def
      macd_signal_ema_eq [OF defined_macd_line \<open>0 < gp\<close>]
    by (intro causal_locked_named causal_named_intros causal_intros)
qed (simp_all add: macd_series_def [abs_def] not_implemented_def causal_named_intros)

lemma causal_stochastic_k [causal_intros]: "causal (\<lambda>candles. stochastic_k candles p)"
  unfolding stochastic_k_def Let_def by (intro causal_intros)

lemma causal_stochastic: "causal_named (stochastic_series indicator)"
  unfolding stochastic_series_def [abs_def] not_implemented_def Let_def
  by (cases "ind_parameters indicator"; simp only: indicator_parameter_block.case;
      intro causal_named_intros causal_intros)

lemma causal_rsi [causal_intros]: "causal F \<Longrightarrow> causal (\<lambda>xs. relative_strength_index (F xs) p)"
  unfolding relative_strength_index_def
  by (rule causal_comp [OF causal_led_scan]) (simp_all add: rsi_step_def split: prod.split)

lemma causal_roc [causal_intros]: "causal F \<Longrightarrow> causal (\<lambda>xs. rate_of_change (F xs) p)"
  unfolding rate_of_change_def by (erule causal_on_per_bar) (simp add: Let_def)

lemma causal_williams: "causal (\<lambda>candles. williams_percent_r candles p)"
  unfolding williams_percent_r_def Let_def by (intro causal_intros)

lemma causal_cci: "causal (\<lambda>candles. commodity_channel_index candles p)"
  unfolding commodity_channel_index_def Let_def by (intro causal_intros)

lemma causal_momentum [causal_intros]: "causal F \<Longrightarrow> causal (\<lambda>xs. momentum (F xs) p)"
  unfolding momentum_def by (erule causal_on_per_bar) simp

lemma causal_trix [causal_intros]: "causal F \<Longrightarrow> causal (\<lambda>xs. triple_exponential_rate (F xs) p)"
  unfolding triple_exponential_rate_def Let_def by (intro causal_intros)

lemma causal_stochastic_rsi_raw [causal_intros]: "causal F \<Longrightarrow> causal (\<lambda>xs. stochastic_rsi_raw (F xs) p)"
  unfolding stochastic_rsi_raw_def Let_def by (intro causal_intros)

lemma causal_stochastic_rsi: "causal_named (stochastic_rsi_series indicator)"
  unfolding stochastic_rsi_series_def [abs_def] not_implemented_def Let_def
  by (cases "ind_parameters indicator"; simp only: indicator_parameter_block.case;
      intro causal_locked_named causal_named_intros causal_intros)

lemma causal_ppo: "causal_named (ppo_series indicator)"
  unfolding ppo_series_def [abs_def] not_implemented_def Let_def
  by (cases "ind_parameters indicator"; simp only: indicator_parameter_block.case;
      intro causal_locked_named causal_named_intros causal_intros)

lemma pressure_take:
  assumes "i < n" "i < length candles"
  shows "buying_pressure (take n candles) ! i = buying_pressure candles ! i"
    and "pressure_ranges (take n candles) ! i = pressure_ranges candles ! i"
proof -
  have "(c # map f (pairwise_bars (take n candles))) ! i = (c # map f (pairwise_bars candles)) ! i"
    for c :: decimal and f
    using assms by (cases i) (simp_all add: pairwise_take flip: take_map)
  then show "buying_pressure (take n candles) ! i = buying_pressure candles ! i"
    "pressure_ranges (take n candles) ! i = pressure_ranges candles ! i"
    unfolding buying_pressure_def pressure_ranges_def by simp_all
qed

lemma causal_ultimate: "causal_result (ultimate_oscillator_values indicator)"
proof -
  have "causal (\<lambda>candles. per_bar (ultimate_at s m l) candles)" for s m l
  proof (rule causal_on_per_bar [OF causal_id])
    fix candles :: "candle list" and n i
    assume i: "i < n" "i < length candles"
    have "pressure_average (buying_pressure (take n candles)) (pressure_ranges (take n candles)) i
        = pressure_average (buying_pressure candles) (pressure_ranges candles) i"
      unfolding pressure_average_def fun_eq_iff
      using i by (intro allI arg_cong2 [where f = Let] refl foldl_upt_cong) (simp add: pressure_take split: prod.split)
    then show "ultimate_at s m l (take n candles) i = ultimate_at s m l candles i"
      by (simp only: ultimate_at_def)
  qed
  then show ?thesis
    unfolding ultimate_oscillator_values_def [abs_def] not_implemented_def
    by (cases "ind_parameters indicator"; simp only: indicator_parameter_block.case;
        intro causal_result_intros)
qed

lemma causal_awesome: "causal_result (awesome_oscillator_values indicator)"
  unfolding awesome_oscillator_values_def [abs_def] not_implemented_def Let_def
  by (cases "ind_parameters indicator"; simp only: indicator_parameter_block.case;
      intro causal_result_intros causal_intros)

lemma causal_cmo [causal_intros]: "causal F \<Longrightarrow> causal (\<lambda>xs. chande_momentum_oscillator (F xs) p)"
  unfolding chande_momentum_oscillator_def
proof (erule causal_on_per_bar)
  fix xs :: "decimal list" and n i
  assume i: "i < n" "i < length xs"
  have "gains_losses (take n xs) p i = gains_losses xs p i"
    unfolding gains_losses_def using i by (intro foldl_upt_cong) (simp split: prod.split)
  then show "(if i < p then None else case gains_losses (take n xs) p i of (gains, losses) \<Rightarrow>
          if eadd gains losses = 0 then None else Some (ediv (emul 100 (esub gains losses)) (eadd gains losses)))
      = (if i < p then None else case gains_losses xs p i of (gains, losses) \<Rightarrow>
          if eadd gains losses = 0 then None else Some (ediv (emul 100 (esub gains losses)) (eadd gains losses)))"
    by simp
qed

lemma causal_tsi: "causal_named (true_strength_series indicator)"
  unfolding true_strength_series_def [abs_def] not_implemented_def Let_def
  by (cases "ind_parameters indicator"; simp only: indicator_parameter_block.case;
      intro causal_locked_named causal_named_intros causal_intros)

end
