(* ===== verification/Indicator_Volatility.thy ===== *)
theory Indicator_Volatility
  imports Indicator_Momentum
begin

text \<open>
  Volatility, bands and channels (\<open>evaluation/indicator_math/volatility.py\<close>) and the volume
  indicators (\<open>volume.py\<close>).
\<close>

section \<open>Bands and channels\<close>

text \<open>The two bands a multiple of a width series away from a middle line.\<close>

definition band_above :: "decimal \<Rightarrow> series \<Rightarrow> series \<Rightarrow> series" where
  "band_above multiplier middle width =
     map (\<lambda>(m, w). opt2 (\<lambda>m w. Some (eadd m (emul multiplier w))) m w) (zip middle width)"

definition band_below :: "decimal \<Rightarrow> series \<Rightarrow> series \<Rightarrow> series" where
  "band_below multiplier middle width =
     map (\<lambda>(m, w). opt2 (\<lambda>m w. Some (esub m (emul multiplier w))) m w) (zip middle width)"

text \<open>\<open>_bollinger_series\<close> as the triple of its middle, upper and lower line.\<close>

definition bollinger_bands :: "indicator_definition \<Rightarrow> candle list \<Rightarrow> (series \<times> series \<times> series) result" where
  "bollinger_bands indicator candles =
     (case ind_parameters indicator of
        BollingerIndicatorParameters period multiplier \<Rightarrow>
          rbind (locked_source_series indicator candles) (\<lambda>closes.
            let middle = simple_moving_average closes period;
                deviation = rolling_population_stdev closes period
            in Inr (middle, band_above multiplier middle deviation, band_below multiplier middle deviation))
      | _ \<Rightarrow> not_implemented)"

definition bollinger_series :: "indicator_definition \<Rightarrow> candle list \<Rightarrow> series_map result" where
  "bollinger_series indicator candles =
     rbind (bollinger_bands indicator candles) (\<lambda>(middle, upper, lower).
       Inr [(''middle'', middle), (''upper'', upper), (''lower'', lower)])"

definition true_range :: "candle \<Rightarrow> decimal option \<Rightarrow> decimal" where
  "true_range candle previous_close =
     (let high_low = esub (k_high candle) (k_low candle)
      in case previous_close of
           None \<Rightarrow> high_low
         | Some c \<Rightarrow> max (max high_low (eabs (esub (k_high candle) c))) (eabs (esub (k_low candle) c)))"

definition true_ranges :: "candle list \<Rightarrow> decimal list" where
  "true_ranges candles =
     scan (\<lambda>previous_close candle. (Some (k_close candle), true_range candle previous_close)) None candles"

text \<open>The ATR loop carries the true ranges seen, the previous close and the previous ATR.\<close>

type_synonym atr_state = "decimal list \<times> decimal option \<times> decimal option"

definition atr_step :: "nat \<Rightarrow> candle list \<Rightarrow> atr_state \<Rightarrow> nat \<Rightarrow> atr_state \<times> decimal option" where
  "atr_step period candles st index =
     (case st of (ranges, previous_close, previous_atr) \<Rightarrow>
        let candle = candles ! index;
            range = true_range candle previous_close;
            ranges' = ranges @ [range];
            close = Some (k_close candle)
        in if index + 1 < period then ((ranges', close, previous_atr), None)
           else let a = (case previous_atr of
                           None \<Rightarrow> mean period (drop (length ranges' - period) ranges')
                         | Some q \<Rightarrow> wilder_update period q range)
                in ((ranges', close, Some a), Some a))"

definition average_true_range :: "candle list \<Rightarrow> nat \<Rightarrow> series" where
  "average_true_range candles period = bar_scan (atr_step period) ([], None, None) candles"

definition keltner_series :: "indicator_definition \<Rightarrow> candle list \<Rightarrow> series_map result" where
  "keltner_series indicator candles =
     (case ind_parameters indicator of
        KeltnerIndicatorParameters period atr_period multiplier \<Rightarrow>
          (let middle = exponential_moving_average (map k_close candles) period;
               atr = average_true_range candles atr_period
           in Inr [(''upper'', band_above multiplier middle atr), (''middle'', middle),
                   (''lower'', band_below multiplier middle atr)])
      | _ \<Rightarrow> not_implemented)"

definition midpoints :: "series \<Rightarrow> series \<Rightarrow> series" where
  "midpoints upper lower =
     map (\<lambda>(h, l). opt2 (\<lambda>h l. Some (ediv (eadd h l) 2)) h l) (zip upper lower)"

definition donchian_series :: "indicator_definition \<Rightarrow> candle list \<Rightarrow> series_map result" where
  "donchian_series indicator candles =
     rbind (period_parameter indicator) (\<lambda>period.
       let upper = rolling_extreme True (map k_high candles) period;
           lower = rolling_extreme False (map k_low candles) period
       in Inr [(''upper'', upper), (''middle'', midpoints upper lower), (''lower'', lower)])"

definition bollinger_percent_b_values :: "indicator_definition \<Rightarrow> candle list \<Rightarrow> series result" where
  "bollinger_percent_b_values indicator candles =
     rbind (bollinger_bands indicator candles) (\<lambda>(middle, upper, lower).
       Inr (map (\<lambda>(candle, upper, lower).
                   opt2 (\<lambda>u l. if u = l then None
                                else Some (ediv (esub (k_close candle) l) (esub u l))) upper lower)
              (zip candles (zip upper lower))))"

definition bollinger_bandwidth_values :: "indicator_definition \<Rightarrow> candle list \<Rightarrow> series result" where
  "bollinger_bandwidth_values indicator candles =
     rbind (bollinger_bands indicator candles) (\<lambda>(middle, upper, lower).
       Inr (map (\<lambda>(middle, upper, lower).
                   case middle of
                     None \<Rightarrow> None
                   | Some m \<Rightarrow> opt2 (\<lambda>u l. if m = 0 then None else Some (ediv (esub u l) m)) upper lower)
              (zip middle (zip upper lower))))"

definition normalized_average_true_range :: "candle list \<Rightarrow> nat \<Rightarrow> series" where
  "normalized_average_true_range candles period =
     map (\<lambda>(candle, atr).
            case atr of None \<Rightarrow> None
            | Some a \<Rightarrow> if k_close candle = 0 then None else Some (ediv (emul 100 a) (k_close candle)))
       (zip candles (average_true_range candles period))"

definition choppiness_index :: "candle list \<Rightarrow> nat \<Rightarrow> series" where
  "choppiness_index candles period =
     (let highest = rolling_extreme True (map k_high candles) period;
          lowest = rolling_extreme False (map k_low candles) period;
          range_sums = rolling period (\<lambda>w. Some (esum w)) (true_ranges candles);
          log_period = dec_log10 (of_nat period)
      in map (\<lambda>(high, low, range_sum).
                case range_sum of
                  None \<Rightarrow> None
                | Some s \<Rightarrow>
                    opt2 (\<lambda>h l. if h = l then None
                                 else Some (ediv (emul 100 (dec_log10 (ediv s (esub h l)))) log_period))
                      high low)
           (zip highest (zip lowest range_sums)))"

definition sample_deviation :: "decimal list \<Rightarrow> decimal" where
  "sample_deviation w = deviation_of (length w) (length w - 1) w"

definition historical_volatility :: "nat \<Rightarrow> decimal option \<Rightarrow> candle list \<Rightarrow> series" where
  "historical_volatility period scale candles =
     (let returns = pairwise_led None (\<lambda>previous candle.
            if k_close previous \<le> 0 \<or> k_close candle \<le> 0 then None
            else Some (dec_ln (ediv (k_close candle) (k_close previous)))) candles
      in map (map_option (\<lambda>w.
                let volatility = emul 100 (sample_deviation w)
                in case scale of None \<Rightarrow> volatility | Some c \<Rightarrow> emul volatility c))
           (windows_defined returns period))"

definition historical_volatility_values :: "indicator_definition \<Rightarrow> candle list \<Rightarrow> series result" where
  "historical_volatility_values indicator candles =
     rbind (period_parameter indicator) (\<lambda>period.
       Inr (historical_volatility period
              (case ind_parameters indicator of
                 HistoricalVolatilityIndicatorParameters _ annualization_periods \<Rightarrow>
                   Some (esqrt (of_nat annualization_periods))
               | _ \<Rightarrow> None) candles))"

section \<open>Volume indicators\<close>

definition money_flows :: "candle list \<Rightarrow> nat \<Rightarrow> nat \<Rightarrow> decimal \<times> decimal" where
  "money_flows candles period index =
     foldl (\<lambda>(positive, negative) flow_index.
              let current = typical_price (candles ! flow_index);
                  previous = typical_price (candles ! (flow_index - 1));
                  raw = emul current (k_volume (candles ! flow_index))
              in if previous < current then (eadd positive raw, negative)
                 else if current < previous then (positive, eadd negative raw) else (positive, negative))
           (0, 0) [index - period + 1..<index + 1]"

definition money_flow_index :: "candle list \<Rightarrow> nat \<Rightarrow> series" where
  "money_flow_index candles period =
     per_bar (\<lambda>candles index.
       if index < period then None
       else case money_flows candles period index of
              (positive, negative) \<Rightarrow>
                if eadd positive negative = 0 then None
                else Some (ediv (emul 100 positive) (eadd positive negative))) candles"

definition money_flow_multiplier :: "candle \<Rightarrow> decimal" where
  "money_flow_multiplier candle =
     (let reach = esub (k_high candle) (k_low candle)
      in if reach = 0 then 0
         else ediv (esub (esub (k_close candle) (k_low candle)) (esub (k_high candle) (k_close candle))) reach)"

text \<open>The volume-weighted windows: a weighted sum over the window's volume.\<close>

definition volume_weighted :: "(candle \<Rightarrow> decimal) \<Rightarrow> candle list \<Rightarrow> decimal option" where
  "volume_weighted flow w =
     (case foldl (\<lambda>(weighted, volume) candle. (eadd weighted (flow candle), eadd volume (k_volume candle)))
                 (0, 0) w of
        (weighted, volume) \<Rightarrow> if volume = 0 then None else Some (ediv weighted volume))"

definition volume_weighted_moving_average :: "candle list \<Rightarrow> nat \<Rightarrow> series" where
  "volume_weighted_moving_average candles period =
     rolling period (volume_weighted (\<lambda>candle. emul (k_close candle) (k_volume candle))) candles"

definition balance_step :: "decimal \<times> decimal option \<Rightarrow> candle \<Rightarrow> (decimal \<times> decimal option) \<times> decimal" where
  "balance_step st candle =
     (case st of (running, previous_close) \<Rightarrow>
        let r = (case previous_close of
                   None \<Rightarrow> running
                 | Some c \<Rightarrow>
                     if c < k_close candle then eadd running (k_volume candle)
                     else if k_close candle < c then esub running (k_volume candle) else running)
        in ((r, Some (k_close candle)), r))"

definition on_balance_volume_series :: "indicator_definition \<Rightarrow> candle list \<Rightarrow> series_map result" where
  "on_balance_volume_series indicator candles =
     (case ind_parameters indicator of
        SignalLineIndicatorParameters signal_period \<Rightarrow>
          (let balance = scan balance_step (0, None) candles
           in Inr [(''obv'', map Some balance), (''signal'', simple_moving_average balance signal_period)])
      | _ \<Rightarrow> not_implemented)"

definition accumulation_distribution_series :: "indicator_definition \<Rightarrow> candle list \<Rightarrow> series_map result" where
  "accumulation_distribution_series indicator candles =
     (case ind_parameters indicator of
        SignalLineIndicatorParameters signal_period \<Rightarrow>
          (let lines = scan (\<lambda>running candle.
                 let r = eadd running (emul (money_flow_multiplier candle) (k_volume candle)) in (r, r)) 0 candles
           in Inr [(''ad'', map Some lines), (''signal'', simple_moving_average lines signal_period)])
      | _ \<Rightarrow> not_implemented)"

definition chaikin_money_flow :: "candle list \<Rightarrow> nat \<Rightarrow> series" where
  "chaikin_money_flow candles period =
     rolling period (volume_weighted (\<lambda>candle. emul (money_flow_multiplier candle) (k_volume candle))) candles"

definition rolling_volume_weighted_average_price :: "candle list \<Rightarrow> nat \<Rightarrow> series" where
  "rolling_volume_weighted_average_price candles period =
     rolling period (volume_weighted (\<lambda>candle. emul (typical_price candle) (k_volume candle))) candles"

definition force_index :: "candle list \<Rightarrow> nat \<Rightarrow> series" where
  "force_index candles period =
     exponential_moving_average_optional
       (pairwise_led None (\<lambda>previous candle.
          Some (emul (esub (k_close candle) (k_close previous)) (k_volume candle))) candles) period"

section \<open>Causality\<close>

lemma causal_bands [causal_intros]:
  "causal F \<Longrightarrow> causal G \<Longrightarrow> causal (\<lambda>xs. band_above m (F xs) (G xs))"
  "causal F \<Longrightarrow> causal G \<Longrightarrow> causal (\<lambda>xs. band_below m (F xs) (G xs))"
  "causal F \<Longrightarrow> causal G \<Longrightarrow> causal (\<lambda>xs. midpoints (F xs) (G xs))"
  unfolding band_above_def band_below_def midpoints_def by (intro causal_intros; assumption)+

lemma causal_true_ranges [causal_intros]: "causal true_ranges"
  unfolding true_ranges_def [abs_def] by (intro causal_intros)

lemma causal_atr [causal_intros]: "causal (\<lambda>candles. average_true_range candles p)"
  unfolding average_true_range_def
  by (rule causal_bar_scan [OF causal_id]) (simp add: atr_step_def split: prod.split)

lemma causal_bollinger: "causal_named (bollinger_series indicator)"
  unfolding bollinger_series_def [abs_def] bollinger_bands_def not_implemented_def Let_def
  by (cases "ind_parameters indicator"; simp only: indicator_parameter_block.case rbind_assoc rbind_Inr rbind_Inl prod.case;
      intro causal_locked_named causal_named_intros causal_intros)

lemma causal_keltner: "causal_named (keltner_series indicator)"
  unfolding keltner_series_def [abs_def] not_implemented_def Let_def
  by (cases "ind_parameters indicator"; simp only: indicator_parameter_block.case;
      intro causal_named_intros causal_intros)

lemma causal_donchian: "causal_named (donchian_series indicator)"
  unfolding donchian_series_def [abs_def] Let_def
  by (intro causal_period_named causal_named_intros causal_intros)

lemma causal_locked_field:
  assumes "\<And>k :: candle \<Rightarrow> decimal. causal (\<lambda>candles. f candles (map k candles))"
  shows "causal_result (\<lambda>candles. rbind (locked_source_series indicator candles) (\<lambda>values. Inr (f candles values)))"
proof (cases indicator rule: locked_source_cases)
  case (field k)
  then show ?thesis using assms by (simp add: causal_result_intros)
next
  case none
  then show ?thesis by (simp add: not_implemented_def causal_result_intros)
qed

lemma causal_percent_b: "causal_result (bollinger_percent_b_values indicator)"
  unfolding bollinger_percent_b_values_def [abs_def] bollinger_bands_def not_implemented_def Let_def
  by (cases "ind_parameters indicator"; simp only: indicator_parameter_block.case rbind_assoc rbind_Inr rbind_Inl prod.case;
      intro causal_locked_field causal_result_intros causal_intros)

lemma causal_bandwidth: "causal_result (bollinger_bandwidth_values indicator)"
  unfolding bollinger_bandwidth_values_def [abs_def] bollinger_bands_def not_implemented_def Let_def
  by (cases "ind_parameters indicator"; simp only: indicator_parameter_block.case rbind_assoc rbind_Inr rbind_Inl prod.case;
      intro causal_locked_field causal_result_intros causal_intros)

lemma causal_natr: "causal (\<lambda>candles. normalized_average_true_range candles p)"
  unfolding normalized_average_true_range_def by (intro causal_intros)

lemma causal_choppiness: "causal (\<lambda>candles. choppiness_index candles p)"
  unfolding choppiness_index_def Let_def by (intro causal_intros)

lemma causal_historical_volatility: "causal_result (historical_volatility_values indicator)"
proof -
  have "causal (\<lambda>candles. historical_volatility period scale candles)" for period scale
    unfolding historical_volatility_def Let_def by (intro causal_intros)
  then show ?thesis unfolding historical_volatility_values_def [abs_def]
    by (cases "period_parameter indicator") (simp_all add: causal_result_intros)
qed

lemma causal_mfi: "causal (\<lambda>candles. money_flow_index candles p)"
  unfolding money_flow_index_def
proof (rule causal_on_per_bar [OF causal_id])
  fix candles :: "candle list" and n i
  assume i: "i < n" "i < length candles"
  have "money_flows (take n candles) p i = money_flows candles p i"
    unfolding money_flows_def using i by (intro foldl_upt_cong) (simp split: prod.split)
  then show "(if i < p then None else case money_flows (take n candles) p i of (positive, negative) \<Rightarrow>
          if eadd positive negative = 0 then None else Some (ediv (emul 100 positive) (eadd positive negative)))
      = (if i < p then None else case money_flows candles p i of (positive, negative) \<Rightarrow>
          if eadd positive negative = 0 then None else Some (ediv (emul 100 positive) (eadd positive negative)))"
    by simp
qed

lemma causal_volume_windows:
  "causal (\<lambda>candles. volume_weighted_moving_average candles p)"
  "causal (\<lambda>candles. chaikin_money_flow candles p)"
  "causal (\<lambda>candles. rolling_volume_weighted_average_price candles p)"
  "causal (\<lambda>candles. force_index candles p)"
  unfolding volume_weighted_moving_average_def chaikin_money_flow_def
    rolling_volume_weighted_average_price_def force_index_def
  by (intro causal_intros)+

lemma causal_obv: "causal_named (on_balance_volume_series indicator)"
  unfolding on_balance_volume_series_def [abs_def] not_implemented_def Let_def
  by (cases "ind_parameters indicator"; simp only: indicator_parameter_block.case;
      intro causal_named_intros causal_intros)

lemma causal_accumulation_distribution: "causal_named (accumulation_distribution_series indicator)"
  unfolding accumulation_distribution_series_def [abs_def] not_implemented_def
  by (cases "ind_parameters indicator"; simp only: indicator_parameter_block.case Let_def;
      intro causal_named_intros causal_intros)

end
