(* ===== verification/Indicator_Trend.thy ===== *)
theory Indicator_Trend
  imports Indicator_Volatility
begin

text \<open>
  Directional and trend systems (\<open>evaluation/indicator_math/trend.py\<close>): ADX, Supertrend, Parabolic
  SAR, Aroon, Ichimoku, Vortex. The mutable state objects of Supertrend and SAR are records
  threaded through their loops.
\<close>

section \<open>Directional movement\<close>

type_synonym directional_move = "decimal \<times> decimal \<times> decimal"

text \<open>True range, plus and minus directional movement of each bar.\<close>

definition directional_step :: "candle option \<Rightarrow> candle \<Rightarrow> candle option \<times> directional_move" where
  "directional_step previous candle =
     (Some candle,
      case previous of
        None \<Rightarrow> (true_range candle None, 0, 0)
      | Some p \<Rightarrow>
          (let up_move = esub (k_high candle) (k_high p); down_move = esub (k_low p) (k_low candle)
           in (true_range candle (Some (k_close p)),
               if down_move < up_move \<and> 0 < up_move then up_move else 0,
               if up_move < down_move \<and> 0 < down_move then down_move else 0)))"

definition directional_moves :: "candle list \<Rightarrow> directional_move list" where
  "directional_moves candles = scan directional_step None candles"

text \<open>\<open>+DI\<close>, \<open>-DI\<close> and \<open>DX\<close> of one bar from the smoothed movements.\<close>

definition directional_index ::
    "decimal option \<Rightarrow> decimal option \<Rightarrow> decimal option \<Rightarrow> (decimal \<times> decimal \<times> decimal option) option" where
  "directional_index tr_value plus_value minus_value =
     (case (tr_value, plus_value, minus_value) of
        (Some tr, Some up, Some down) \<Rightarrow>
          (if tr = 0 then None
           else let plus_line = ediv (emul 100 up) tr;
                    minus_line = ediv (emul 100 down) tr;
                    di_sum = eadd plus_line minus_line
                in Some (plus_line, minus_line,
                         if di_sum = 0 then None
                         else Some (ediv (emul 100 (eabs (esub plus_line minus_line))) di_sum)))
      | _ \<Rightarrow> None)"

definition directional_indices :: "candle list \<Rightarrow> nat \<Rightarrow> (decimal \<times> decimal \<times> decimal option) option list" where
  "directional_indices candles period =
     (let moves = directional_moves candles;
          smoothed_tr = wilder_smooth (map fst moves) period;
          smoothed_plus = wilder_smooth (map (fst \<circ> snd) moves) period;
          smoothed_minus = wilder_smooth (map (snd \<circ> snd) moves) period
      in map (\<lambda>(tr, up, down). directional_index tr up down)
           (zip smoothed_tr (zip smoothed_plus smoothed_minus)))"

definition adx_series :: "indicator_definition \<Rightarrow> candle list \<Rightarrow> series_map result" where
  "adx_series indicator candles =
     (case ind_parameters indicator of
        IndicatorParameters period \<Rightarrow>
          (let indices = directional_indices candles period;
               dx_values = map (\<lambda>d. Option.bind d (snd \<circ> snd)) indices
           in Inr [(''adx'', wilder_smooth_optional dx_values period),
                   (''plus_di'', map (map_option fst) indices),
                   (''minus_di'', map (map_option (fst \<circ> snd)) indices)])
      | _ \<Rightarrow> not_implemented)"

section \<open>Supertrend\<close>

record supertrend_state =
  st_upper :: decimal
  st_lower :: decimal
  st_direction :: int

definition advance_supertrend ::
    "supertrend_state \<Rightarrow> decimal \<Rightarrow> decimal \<Rightarrow> decimal \<Rightarrow> decimal \<Rightarrow> supertrend_state" where
  "advance_supertrend st close previous_close midpoint width =
     (let basic_upper = eadd midpoint width;
          basic_lower = esub midpoint width;
          upper = (if basic_upper < st_upper st \<or> st_upper st < previous_close then basic_upper else st_upper st);
          lower = (if st_lower st < basic_lower \<or> previous_close < st_lower st then basic_lower else st_lower st);
          direction = (if st_direction st < 0 then (if upper < close then 1 else - 1)
                       else (if close < lower then - 1 else 1))
      in \<lparr> st_upper = upper, st_lower = lower, st_direction = direction \<rparr>)"

definition supertrend_step ::
    "decimal \<Rightarrow> supertrend_state option \<times> decimal option \<Rightarrow> candle \<times> decimal option
     \<Rightarrow> (supertrend_state option \<times> decimal option) \<times> supertrend_state option" where
  "supertrend_step multiplier carried bar =
     (case (carried, bar) of ((state, previous_close), (candle, atr_value)) \<Rightarrow>
        case atr_value of
          None \<Rightarrow> ((state, Some (k_close candle)), None)
        | Some atr \<Rightarrow>
            (let midpoint = ediv (eadd (k_high candle) (k_low candle)) 2;
                 width = emul multiplier atr;
                 next_state =
                   (case (state, previous_close) of
                      (Some st, Some c) \<Rightarrow> advance_supertrend st (k_close candle) c midpoint width
                    | _ \<Rightarrow> \<lparr> st_upper = eadd midpoint width, st_lower = esub midpoint width, st_direction = - 1 \<rparr>)
             in ((Some next_state, Some (k_close candle)), Some next_state)))"

definition supertrend_states :: "candle list \<Rightarrow> nat \<Rightarrow> decimal \<Rightarrow> supertrend_state option list" where
  "supertrend_states candles period multiplier =
     scan (supertrend_step multiplier) (None, None) (zip candles (average_true_range candles period))"

definition supertrend_value :: "supertrend_state \<Rightarrow> decimal" where
  "supertrend_value st = (if 0 < st_direction st then st_lower st else st_upper st)"

definition supertrend_series :: "indicator_definition \<Rightarrow> candle list \<Rightarrow> series_map result" where
  "supertrend_series indicator candles =
     (case ind_parameters indicator of
        SupertrendIndicatorParameters period multiplier \<Rightarrow>
          (let states = supertrend_states candles period multiplier
           in Inr [(''value'', map (map_option supertrend_value) states),
                   (''direction'', map (map_option (\<lambda>st. of_int (st_direction st))) states)])
      | _ \<Rightarrow> not_implemented)"

section \<open>Parabolic SAR\<close>

record sar_state =
  sar_is_long :: bool
  sar_sar :: decimal
  sar_extreme :: decimal
  sar_acceleration :: decimal

definition advance_long_sar ::
    "sar_state \<Rightarrow> candle \<Rightarrow> decimal \<Rightarrow> decimal \<Rightarrow> decimal \<Rightarrow> decimal \<Rightarrow> sar_state \<times> decimal" where
  "advance_long_sar state candle previous_high previous_low step max_step =
     (if k_low candle \<le> sar_sar state
      then let reported = max (max (sar_extreme state) previous_high) (k_high candle);
               following = eadd reported (emul step (esub (k_low candle) reported))
           in (\<lparr> sar_is_long = False, sar_sar = max (max following previous_high) (k_high candle),
                 sar_extreme = k_low candle, sar_acceleration = step \<rparr>, reported)
      else let (extreme, acceleration) =
                 (if sar_extreme state < k_high candle
                  then (k_high candle, min (eadd (sar_acceleration state) step) max_step)
                  else (sar_extreme state, sar_acceleration state));
               following = eadd (sar_sar state) (emul acceleration (esub extreme (sar_sar state)))
           in (\<lparr> sar_is_long = sar_is_long state, sar_sar = min (min following previous_low) (k_low candle),
                 sar_extreme = extreme, sar_acceleration = acceleration \<rparr>, sar_sar state))"

definition advance_short_sar ::
    "sar_state \<Rightarrow> candle \<Rightarrow> decimal \<Rightarrow> decimal \<Rightarrow> decimal \<Rightarrow> decimal \<Rightarrow> sar_state \<times> decimal" where
  "advance_short_sar state candle previous_high previous_low step max_step =
     (if sar_sar state \<le> k_high candle
      then let reported = min (min (sar_extreme state) previous_low) (k_low candle);
               following = eadd reported (emul step (esub (k_high candle) reported))
           in (\<lparr> sar_is_long = True, sar_sar = min (min following previous_low) (k_low candle),
                 sar_extreme = k_high candle, sar_acceleration = step \<rparr>, reported)
      else let (extreme, acceleration) =
                 (if k_low candle < sar_extreme state
                  then (k_low candle, min (eadd (sar_acceleration state) step) max_step)
                  else (sar_extreme state, sar_acceleration state));
               following = eadd (sar_sar state) (emul acceleration (esub extreme (sar_sar state)))
           in (\<lparr> sar_is_long = sar_is_long state, sar_sar = max (max following previous_high) (k_high candle),
                 sar_extreme = extreme, sar_acceleration = acceleration \<rparr>, sar_sar state))"

definition initial_sar :: "decimal \<Rightarrow> candle \<Rightarrow> candle \<Rightarrow> sar_state" where
  "initial_sar step first second =
     (let down_move = esub (k_low first) (k_low second);
          up_move = esub (k_high second) (k_high first);
          is_long = (\<not> (0 < down_move \<and> up_move < down_move))
      in \<lparr> sar_is_long = is_long, sar_sar = (if is_long then k_low first else k_high first),
           sar_extreme = (if is_long then k_high second else k_low second), sar_acceleration = step \<rparr>)"

text \<open>The loop over \<open>candles[1:]\<close>; the previous bar of the first iteration is that bar itself.\<close>

definition sar_step ::
    "decimal \<Rightarrow> decimal \<Rightarrow> candle list \<Rightarrow> sar_state \<times> decimal \<times> decimal \<Rightarrow> nat
     \<Rightarrow> (sar_state \<times> decimal \<times> decimal) \<times> decimal option" where
  "sar_step step max_step candles carried index =
     (case carried of (state, previous_high, previous_low) \<Rightarrow>
        let candle = candles ! index;
            (state', reported) =
              (if sar_is_long state
               then advance_long_sar state candle previous_high previous_low step max_step
               else advance_short_sar state candle previous_high previous_low step max_step)
        in ((state', k_high candle, k_low candle), Some reported))"

definition parabolic_sar :: "decimal \<Rightarrow> decimal \<Rightarrow> candle list \<Rightarrow> series" where
  "parabolic_sar step max_step candles =
     led_scan 1 (sar_step step max_step)
       (\<lambda>candles. (initial_sar step (candles ! 0) (candles ! 1), k_high (candles ! 1), k_low (candles ! 1)))
       candles"

definition parabolic_sar_values :: "indicator_definition \<Rightarrow> candle list \<Rightarrow> series result" where
  "parabolic_sar_values indicator candles =
     (case ind_parameters indicator of
        ParabolicSarIndicatorParameters step max_step \<Rightarrow> Inr (parabolic_sar step max_step candles)
      | _ \<Rightarrow> not_implemented)"

section \<open>Aroon, Ichimoku, Vortex\<close>

text \<open>The positions of the latest highest high and latest lowest low of the last \<open>period + 1\<close> bars.\<close>

definition extreme_positions :: "candle list \<Rightarrow> nat \<Rightarrow> nat \<Rightarrow> nat \<times> nat" where
  "extreme_positions candles period index =
     foldl (\<lambda>(high_index, low_index) position.
              (if k_high (candles ! high_index) \<le> k_high (candles ! position) then position else high_index,
               if k_low (candles ! position) \<le> k_low (candles ! low_index) then position else low_index))
           (index - period, index - period) [index - period + 1..<index + 1]"

definition aroon_at :: "nat \<Rightarrow> candle list \<Rightarrow> nat \<Rightarrow> (decimal \<times> decimal) option" where
  "aroon_at period candles index =
     (if index < period then None
      else case extreme_positions candles period index of
             (high_index, low_index) \<Rightarrow>
               Some (ediv (emul 100 (of_int (int period - (int index - int high_index)))) (of_nat period),
                     ediv (emul 100 (of_int (int period - (int index - int low_index)))) (of_nat period)))"

definition aroon_series :: "indicator_definition \<Rightarrow> candle list \<Rightarrow> series_map result" where
  "aroon_series indicator candles =
     rbind (period_parameter indicator) (\<lambda>period.
       let lines = per_bar (aroon_at period) candles
       in Inr [(''up'', map (map_option fst) lines), (''down'', map (map_option snd) lines),
               (''oscillator'', map (map_option (\<lambda>(up, down). esub up down)) lines)])"

definition midpoint_series :: "candle list \<Rightarrow> nat \<Rightarrow> series" where
  "midpoint_series candles period =
     midpoints (rolling_extreme True (map k_high candles) period)
               (rolling_extreme False (map k_low candles) period)"

definition ichimoku_series :: "indicator_definition \<Rightarrow> candle list \<Rightarrow> series_map result" where
  "ichimoku_series indicator candles =
     (case ind_parameters indicator of
        IchimokuIndicatorParameters tenkan_period kijun_period senkou_b_period \<Rightarrow>
          (let tenkan = midpoint_series candles tenkan_period;
               kijun = midpoint_series candles kijun_period
           in Inr [(''tenkan'', tenkan), (''kijun'', kijun), (''senkou_a'', midpoints tenkan kijun),
                   (''senkou_b'', midpoint_series candles senkou_b_period)])
      | _ \<Rightarrow> not_implemented)"

definition vortex_sums :: "candle list \<Rightarrow> nat \<Rightarrow> nat \<Rightarrow> decimal \<times> decimal \<times> decimal" where
  "vortex_sums candles period index =
     foldl (\<lambda>(plus_sum, minus_sum, range_sum) position.
              let current = candles ! position; previous = candles ! (position - 1)
              in (eadd plus_sum (eabs (esub (k_high current) (k_low previous))),
                  eadd minus_sum (eabs (esub (k_low current) (k_high previous))),
                  eadd range_sum (true_range current (Some (k_close previous)))))
           (0, 0, 0) [index - period + 1..<index + 1]"

definition vortex_at :: "nat \<Rightarrow> candle list \<Rightarrow> nat \<Rightarrow> (decimal \<times> decimal) option" where
  "vortex_at period candles index =
     (if index < period then None
      else case vortex_sums candles period index of
             (plus_sum, minus_sum, range_sum) \<Rightarrow>
               if range_sum = 0 then None
               else Some (ediv plus_sum range_sum, ediv minus_sum range_sum))"

definition vortex_series :: "indicator_definition \<Rightarrow> candle list \<Rightarrow> series_map result" where
  "vortex_series indicator candles =
     rbind (period_parameter indicator) (\<lambda>period.
       let lines = per_bar (vortex_at period) candles
       in Inr [(''plus'', map (map_option fst) lines), (''minus'', map (map_option snd) lines)])"

section \<open>Causality\<close>

lemma causal_directional [causal_intros]: "causal (\<lambda>candles. directional_indices candles p)"
  unfolding directional_indices_def directional_moves_def Let_def by (intro causal_intros)

lemma causal_adx: "causal_named (adx_series indicator)"
  unfolding adx_series_def [abs_def] not_implemented_def Let_def
  by (cases "ind_parameters indicator"; simp only: indicator_parameter_block.case;
      intro causal_named_intros causal_intros)

lemma causal_supertrend: "causal_named (supertrend_series indicator)"
  unfolding supertrend_series_def [abs_def] supertrend_states_def not_implemented_def Let_def
  by (cases "ind_parameters indicator"; simp only: indicator_parameter_block.case;
      intro causal_named_intros causal_intros)

lemma causal_parabolic_sar: "causal_result (parabolic_sar_values indicator)"
proof -
  have "causal (\<lambda>candles. parabolic_sar step max_step candles)" for step max_step
    unfolding parabolic_sar_def
    by (rule causal_comp [OF causal_led_scan causal_id]) (simp_all add: sar_step_def split: prod.split)
  then show ?thesis
    unfolding parabolic_sar_values_def [abs_def] not_implemented_def
    by (cases "ind_parameters indicator"; simp only: indicator_parameter_block.case; intro causal_result_intros)
qed

lemma causal_aroon: "causal_named (aroon_series indicator)"
proof -
  have "causal (\<lambda>candles. per_bar (aroon_at p) candles)" for p
  proof (rule causal_on_per_bar [OF causal_id])
    fix candles :: "candle list" and n i
    assume i: "i < n" "i < length candles"
    have "foldl (\<lambda>(h, l) position. (if k_high (take n candles ! h) \<le> k_high (take n candles ! position) then position else h,
              if k_low (take n candles ! position) \<le> k_low (take n candles ! l) then position else l)) (a, b) [c..<Suc i]
        = foldl (\<lambda>(h, l) position. (if k_high (candles ! h) \<le> k_high (candles ! position) then position else h,
              if k_low (candles ! position) \<le> k_low (candles ! l) then position else l)) (a, b) [c..<Suc i]"
      if "a < n" "b < n" for a b c
      using that
    proof (induction "Suc i - c" arbitrary: a b c)
      case (Suc m)
      then have "c \<le> i" by simp
      then have u: "[c..<Suc i] = c # [Suc c..<Suc i]" by (simp add: upt_conv_Cons)
      have "c < n" using \<open>c \<le> i\<close> i by simp
      with Suc u show ?case by simp
    qed simp
    from this [of "i - p" "i - p"] i
    show "aroon_at p (take n candles) i = aroon_at p candles i"
      by (simp add: aroon_at_def extreme_positions_def)
  qed
  then show ?thesis unfolding aroon_series_def [abs_def] Let_def
    by (intro causal_period_named causal_named_intros causal_intros)
qed

lemma causal_midpoint [causal_intros]: "causal (\<lambda>candles. midpoint_series candles p)"
  unfolding midpoint_series_def by (intro causal_intros)

lemma causal_ichimoku: "causal_named (ichimoku_series indicator)"
  unfolding ichimoku_series_def [abs_def] not_implemented_def Let_def
  by (cases "ind_parameters indicator"; simp only: indicator_parameter_block.case;
      intro causal_named_intros causal_intros)

lemma causal_vortex: "causal_named (vortex_series indicator)"
proof -
  have "causal (\<lambda>candles. per_bar (vortex_at p) candles)" for p
  proof (rule causal_on_per_bar [OF causal_id])
    fix candles :: "candle list" and n i
    assume i: "i < n" "i < length candles"
    have "vortex_sums (take n candles) p i = vortex_sums candles p i"
      unfolding vortex_sums_def using i by (intro foldl_upt_cong) (simp split: prod.split)
    then show "vortex_at p (take n candles) i = vortex_at p candles i" by (simp only: vortex_at_def)
  qed
  then show ?thesis unfolding vortex_series_def [abs_def] Let_def
    by (intro causal_period_named causal_named_intros causal_intros)
qed

end
