(* ===== verification/Signal_Conditions.thy ===== *)
theory Signal_Conditions
  imports Indicator_Schema Signal_Record
begin

text \<open>
  Rule trees (\<open>strategies/schema/conditions.py\<close>) and their evaluation over the indicator values of
  one completed bar and its predecessor (\<open>evaluation/signal_evaluator.py\<close>). A row of values is a
  map from value keys; a key that is present with \<open>None\<close> is an undefined value.

  Evaluation is three-valued without short-circuit: a tree is undefined as soon as one of its
  comparisons is, and otherwise it is the Boolean reading of the tree.
\<close>

section \<open>Operands and trees\<close>

type_synonym value_row = "string \<rightharpoonup> decimal option"

record indicator_operand =
  opd_indicator :: string
  opd_series :: "string option"
  opd_offset :: "nat option"

text \<open>The decimal digits of an integer in an f-string.\<close>

fun nat_text :: "nat \<Rightarrow> string" where
  "nat_text n = (if n < 10 then [char_of (48 + n)] else nat_text (n div 10) @ [char_of (48 + n mod 10)])"

declare nat_text.simps [simp del]

definition operand_value_key :: "indicator_operand \<Rightarrow> string" where
  "operand_value_key operand =
     (let key = (case opd_series operand of
                   None \<Rightarrow> opd_indicator operand
                 | Some series \<Rightarrow> opd_indicator operand @ ''.'' @ series)
      in case opd_offset operand of None \<Rightarrow> key | Some offset \<Rightarrow> key @ ''@'' @ nat_text offset)"

datatype condition_operand = IndicatorOperand indicator_operand | LiteralOperand decimal

datatype comparison_operator = GT | GTE | LT | LTE | EQ | CROSSES_ABOVE | CROSSES_BELOW

record comparison =
  cmp_left :: condition_operand
  cmp_operator :: comparison_operator
  cmp_right :: condition_operand

datatype condition_node =
    ComparisonCondition comparison
  | AllCondition "condition_node list"
  | AnyCondition "condition_node list"
  | NotCondition condition_node

definition is_indicator_operand :: "condition_operand \<Rightarrow> bool" where
  "is_indicator_operand x \<longleftrightarrow> (case x of IndicatorOperand _ \<Rightarrow> True | LiteralOperand _ \<Rightarrow> False)"

definition validate_cross_operands :: "comparison \<Rightarrow> unit result" where
  "validate_cross_operands c =
     (if cmp_operator c \<in> {CROSSES_ABOVE, CROSSES_BELOW} \<and> \<not> is_indicator_operand (cmp_left c)
      then Inl (ValueError ''crossover left operand must reference an indicator'')
      else if cmp_operator c \<in> {CROSSES_ABOVE, CROSSES_BELOW} \<and> \<not> is_indicator_operand (cmp_right c)
      then Inl (ValueError ''crossover right operand must reference an indicator'')
      else Inr ())"

fun comparison_conditions :: "condition_node \<Rightarrow> comparison list" where
  "comparison_conditions (ComparisonCondition c) = [c]"
| "comparison_conditions (NotCondition child) = comparison_conditions child"
| "comparison_conditions (AllCondition children) = concat (map comparison_conditions children)"
| "comparison_conditions (AnyCondition children) = concat (map comparison_conditions children)"

definition comparison_operands :: "comparison \<Rightarrow> indicator_operand list" where
  "comparison_operands c =
     concat (map (\<lambda>x. case x of IndicatorOperand operand \<Rightarrow> [operand] | LiteralOperand _ \<Rightarrow> [])
                 [cmp_left c, cmp_right c])"

text \<open>\<open>dict.fromkeys\<close>: the first occurrence of each element, in order.\<close>

definition first_occurrences :: "'a list \<Rightarrow> 'a list" where
  "first_occurrences xs = List.rev (remdups (List.rev xs))"

definition condition_indicator_operands :: "condition_node \<Rightarrow> indicator_operand list" where
  "condition_indicator_operands condition =
     first_occurrences (concat (map comparison_operands (comparison_conditions condition)))"

definition MAX_CONDITION_DEPTH :: nat where "MAX_CONDITION_DEPTH = 4"
definition MAX_CONDITION_NODES :: nat where "MAX_CONDITION_NODES = 64"

fun condition_tree_size :: "condition_node \<Rightarrow> nat \<times> nat" where
  "condition_tree_size (ComparisonCondition c) = (1, 1)"
| "condition_tree_size (NotCondition child) =
     (case condition_tree_size child of (nodes, depth) \<Rightarrow> (nodes + 1, depth + 1))"
| "condition_tree_size (AllCondition children) =
     (1 + sum_list (map (\<lambda>child. fst (condition_tree_size child)) children),
      1 + fold max (map (\<lambda>child. snd (condition_tree_size child)) children) 0)"
| "condition_tree_size (AnyCondition children) =
     (1 + sum_list (map (\<lambda>child. fst (condition_tree_size child)) children),
      1 + fold max (map (\<lambda>child. snd (condition_tree_size child)) children) 0)"

definition require_bounded_condition_tree :: "condition_node \<Rightarrow> unit result" where
  "require_bounded_condition_tree condition =
     (case condition_tree_size condition of (node_count, depth) \<Rightarrow>
        if MAX_CONDITION_DEPTH < depth then Inl (ValueError ''condition tree depth exceeds its maximum'')
        else if MAX_CONDITION_NODES < node_count
        then Inl (ValueError ''condition tree node count exceeds its maximum'')
        else Inr ())"

definition require_operand_series :: "indicator_operand \<Rightarrow> indicator_definition \<Rightarrow> unit result" where
  "require_operand_series operand indicator =
     (if ind_kind indicator = CONSTANT \<and> opd_offset operand \<noteq> None
      then Inl (ValueError ''constant operand must omit offset'')
      else case indicator_output_series (ind_kind indicator) of
             None \<Rightarrow> if opd_series operand \<noteq> None
                    then Inl (ValueError ''operand must omit series'') else Inr ()
           | Some outputs \<Rightarrow> if opd_series operand \<notin> Some ` set outputs
                    then Inl (ValueError ''series must be one of the declared outputs'') else Inr ())"

definition operand_resolved :: "indicator_definition list \<Rightarrow> indicator_operand \<Rightarrow> unit result" where
  "operand_resolved indicators operand =
     (case dict_by ind_id indicators (opd_indicator operand) of
        None \<Rightarrow> Inl KeyError
      | Some indicator \<Rightarrow> require_operand_series operand indicator)"

definition require_condition_series :: "condition_node \<Rightarrow> indicator_definition list \<Rightarrow> unit result" where
  "require_condition_series condition indicators =
     foldl (\<lambda>r operand. rbind r (\<lambda>_. operand_resolved indicators operand)) (Inr ())
       (concat (map comparison_operands (comparison_conditions condition)))"

definition referenced_indicator_ids :: "condition_node \<Rightarrow> string set" where
  "referenced_indicator_ids condition =
     set (map opd_indicator (concat (map comparison_operands (comparison_conditions condition))))"

section \<open>Evaluation\<close>

definition row_get :: "value_row \<Rightarrow> string \<Rightarrow> decimal option" where
  "row_get values key = Option.bind (values key) (\<lambda>v. v)"

definition operand_value :: "condition_operand \<Rightarrow> value_row \<Rightarrow> decimal option" where
  "operand_value operand values =
     (case operand of
        IndicatorOperand i \<Rightarrow> row_get values (operand_value_key i)
      | LiteralOperand d \<Rightarrow> Some d)"

definition evaluate_comparison :: "comparison \<Rightarrow> value_row \<Rightarrow> value_row option \<Rightarrow> bool option" where
  "evaluate_comparison c current previous =
     (case (operand_value (cmp_left c) current, operand_value (cmp_right c) current) of
        (Some left, Some right) \<Rightarrow>
          (case cmp_operator c of
             GT \<Rightarrow> Some (right < left)
           | GTE \<Rightarrow> Some (right \<le> left)
           | LT \<Rightarrow> Some (left < right)
           | LTE \<Rightarrow> Some (left \<le> right)
           | EQ \<Rightarrow> Some (left = right)
           | crossing \<Rightarrow>
               (case previous of
                  None \<Rightarrow> None
                | Some before \<Rightarrow>
                    (case (operand_value (cmp_left c) before, operand_value (cmp_right c) before) of
                       (Some previous_left, Some previous_right) \<Rightarrow>
                         Some (if crossing = CROSSES_ABOVE then previous_left \<le> previous_right \<and> right < left
                               else previous_right \<le> previous_left \<and> left < right)
                     | _ \<Rightarrow> None)))
      | _ \<Rightarrow> None)"

fun evaluate_condition :: "condition_node \<Rightarrow> value_row \<Rightarrow> value_row option \<Rightarrow> bool option" where
  "evaluate_condition (ComparisonCondition c) current previous = evaluate_comparison c current previous"
| "evaluate_condition (NotCondition child) current previous =
     map_option Not (evaluate_condition child current previous)"
| "evaluate_condition (AllCondition children) current previous =
     (let outcomes = map (\<lambda>child. evaluate_condition child current previous) children
      in if None \<in> set outcomes then None else Some (list_all (\<lambda>x. x = Some True) outcomes))"
| "evaluate_condition (AnyCondition children) current previous =
     (let outcomes = map (\<lambda>child. evaluate_condition child current previous) children
      in if None \<in> set outcomes then None else Some (list_ex (\<lambda>x. x = Some True) outcomes))"

definition condition_outcome :: "condition_node \<Rightarrow> value_row \<Rightarrow> value_row option \<Rightarrow> entry_condition_outcome" where
  "condition_outcome condition current previous =
     (case evaluate_condition condition current previous of
        None \<Rightarrow> UNDEFINED
      | Some b \<Rightarrow> if b then MATCHED else NOT_MATCHED)"

definition and_entry_outcomes ::
    "entry_condition_outcome \<Rightarrow> entry_condition_outcome \<Rightarrow> entry_condition_outcome" where
  "and_entry_outcomes left right =
     (if left = UNDEFINED \<or> right = UNDEFINED then UNDEFINED
      else if left = MATCHED \<and> right = MATCHED then MATCHED
      else NOT_MATCHED)"

section \<open>The Boolean reading\<close>

text \<open>The specification: a comparison reads four numbers, a tree is a Boolean formula over them.\<close>

fun comparison_holds :: "comparison_operator \<Rightarrow> decimal \<Rightarrow> decimal \<Rightarrow> decimal \<Rightarrow> decimal \<Rightarrow> bool" where
  "comparison_holds GT l r pl pr \<longleftrightarrow> l > r"
| "comparison_holds GTE l r pl pr \<longleftrightarrow> l \<ge> r"
| "comparison_holds LT l r pl pr \<longleftrightarrow> l < r"
| "comparison_holds LTE l r pl pr \<longleftrightarrow> l \<le> r"
| "comparison_holds EQ l r pl pr \<longleftrightarrow> l = r"
| "comparison_holds CROSSES_ABOVE l r pl pr \<longleftrightarrow> pl \<le> pr \<and> l > r"
| "comparison_holds CROSSES_BELOW l r pl pr \<longleftrightarrow> pl \<ge> pr \<and> l < r"

fun formula_holds :: "(comparison \<Rightarrow> bool) \<Rightarrow> condition_node \<Rightarrow> bool" where
  "formula_holds h (ComparisonCondition c) \<longleftrightarrow> h c"
| "formula_holds h (NotCondition child) \<longleftrightarrow> \<not> formula_holds h child"
| "formula_holds h (AllCondition children) \<longleftrightarrow> (\<forall>child \<in> set children. formula_holds h child)"
| "formula_holds h (AnyCondition children) \<longleftrightarrow> (\<exists>child \<in> set children. formula_holds h child)"

text \<open>The values a comparison needs: both operands now and, for a crossing, both one bar earlier.\<close>

definition comparison_defined :: "value_row \<Rightarrow> value_row option \<Rightarrow> comparison \<Rightarrow> bool" where
  "comparison_defined current previous c \<longleftrightarrow>
     operand_value (cmp_left c) current \<noteq> None \<and> operand_value (cmp_right c) current \<noteq> None
     \<and> (cmp_operator c \<in> {CROSSES_ABOVE, CROSSES_BELOW} \<longrightarrow>
          (\<exists>before. previous = Some before \<and> operand_value (cmp_left c) before \<noteq> None
                     \<and> operand_value (cmp_right c) before \<noteq> None))"

definition comparison_true :: "value_row \<Rightarrow> value_row option \<Rightarrow> comparison \<Rightarrow> bool" where
  "comparison_true current previous c \<longleftrightarrow>
     comparison_holds (cmp_operator c)
       (the (operand_value (cmp_left c) current)) (the (operand_value (cmp_right c) current))
       (the (operand_value (cmp_left c) (the previous))) (the (operand_value (cmp_right c) (the previous)))"

lemma evaluate_comparison_eq:
  "evaluate_comparison c current previous =
     (if comparison_defined current previous c then Some (comparison_true current previous c) else None)"
  by (cases "cmp_operator c"; cases previous)
    (auto simp: evaluate_comparison_def comparison_defined_def comparison_true_def split: option.splits)

lemma evaluate_condition_eq:
  "evaluate_condition condition current previous =
     (if \<forall>c \<in> set (comparison_conditions condition). comparison_defined current previous c
      then Some (formula_holds (comparison_true current previous) condition) else None)"
proof (induction condition)
  case (ComparisonCondition c)
  then show ?case by (simp add: evaluate_comparison_eq)
next
  case (AllCondition children)
  then show ?case by (auto simp: image_iff list_all_iff Let_def)
next
  case (AnyCondition children)
  then show ?case by (auto simp: image_iff list_ex_iff Let_def)
next
  case (NotCondition child)
  then show ?case by auto
qed

text \<open>C5: A rule tree means what its formula says. Its evaluation is undefined exactly when some comparison
  in it, anywhere in the tree, lacks a value it needs; otherwise it is the Boolean formula of the
  tree over its comparisons, a crossing comparing the two bars. No branch is skipped, so an undefined
  value is never hidden by a decided sibling.\<close>

theorem condition_reads_its_formula:
  "evaluate_condition condition current previous =
     (if \<forall>c \<in> set (comparison_conditions condition). comparison_defined current previous c
      then Some (formula_holds (comparison_true current previous) condition) else None)"
  by (rule evaluate_condition_eq)

definition sample_comparison :: "string \<Rightarrow> comparison_operator \<Rightarrow> decimal \<Rightarrow> comparison" where
  "sample_comparison name op bound = \<lparr> cmp_left = IndicatorOperand \<lparr> opd_indicator = name, opd_series = None, opd_offset = None \<rparr>,
     cmp_operator = op, cmp_right = LiteralOperand bound \<rparr>"

theorem condition_reads_its_formula_witness:
  "evaluate_condition (AnyCondition [ComparisonCondition (sample_comparison ''rsi'' LT 30), ComparisonCondition (sample_comparison ''slow'' GT 5)])
     [''rsi'' \<mapsto> Some 20] None = None
   \<and> evaluate_condition (AnyCondition [ComparisonCondition (sample_comparison ''rsi'' LT 30), ComparisonCondition (sample_comparison ''slow'' GT 5)])
     [''rsi'' \<mapsto> Some 20, ''slow'' \<mapsto> Some 1] None = Some True"
  unfolding condition_reads_its_formula
  by (simp add: sample_comparison_def comparison_defined_def comparison_true_def operand_value_def operand_value_key_def row_get_def)

section \<open>Value keys do not collide\<close>

lemma split_at_unique:
  assumes "xs @ c # ys = xs' @ c # ys'" "c \<notin> set xs" "c \<notin> set xs'"
  shows "xs = xs' \<and> ys = ys'"
proof -
  have t: "takeWhile (\<lambda>d. d \<noteq> c) (zs @ c # ws) = zs \<and> dropWhile (\<lambda>d. d \<noteq> c) (zs @ c # ws) = c # ws"
    if "c \<notin> set zs" for zs ws
    using that by (auto simp: takeWhile_tail dropWhile_append)
  show ?thesis using t [OF assms(2), of ys] t [OF assms(3), of ys'] unfolding assms(1) by (simp del: append_same_eq)
qed

lemma id_pattern_chars:
  assumes "id_pattern n s"
  shows "CHR ''.'' \<notin> set s" "CHR ''@'' \<notin> set s" "s \<noteq> []"
proof -
  from assms obtain c rest where s: "s = c # rest" "lower_letter c" "list_all id_char rest"
    by (auto simp: id_pattern_def split: list.splits)
  have i: "d \<in> set s \<Longrightarrow> id_char d" for d
    using s by (auto simp: id_char_def list_all_iff)
  show "CHR ''.'' \<notin> set s" "CHR ''@'' \<notin> set s" using i [of "CHR ''.''"] i [of "CHR ''@''"]
    by (auto simp: id_char_def lower_letter_def is_digit_def)
  show "s \<noteq> []" by (simp add: s)
qed

definition text_nat :: "string \<Rightarrow> nat" where
  "text_nat s = foldl (\<lambda>n c. 10 * n + (of_char c - 48)) 0 s"

lemma text_nat_text [simp]: "text_nat (nat_text n) = n"
proof (induction n rule: nat_text.induct)
  case (1 n)
  then show ?case
    by (cases "n < 10") (simp_all add: nat_text.simps [of n] text_nat_def)
qed

lemma nat_text_inj: "nat_text m = nat_text n \<Longrightarrow> m = n"
  by (metis text_nat_text)

text \<open>A validated operand: identifier patterns, and a positive lag since zero is normalised away.\<close>

definition operand_valid :: "indicator_operand \<Rightarrow> bool" where
  "operand_valid operand \<longleftrightarrow>
     id_pattern 63 (opd_indicator operand) \<and> optional (id_pattern 31) (opd_series operand)
     \<and> optional (between 1 MAX_INDICATOR_OFFSET) (opd_offset operand)"

definition operand_base_key :: "indicator_operand \<Rightarrow> string" where
  "operand_base_key operand = operand_value_key (operand\<lparr> opd_offset := None \<rparr>)"

lemma operand_value_key_base:
  "operand_value_key operand =
     operand_base_key operand @ (case opd_offset operand of None \<Rightarrow> [] | Some offset \<Rightarrow> ''@'' @ nat_text offset)"
  by (simp add: operand_base_key_def operand_value_key_def split: option.splits)

lemma operand_base_key_eq:
  "operand_base_key operand =
     opd_indicator operand @ (case opd_series operand of None \<Rightarrow> [] | Some series \<Rightarrow> ''.'' @ series)"
  by (simp add: operand_base_key_def operand_value_key_def split: option.splits)

lemma suffix_unique:
  assumes "xs @ (case m of None \<Rightarrow> [] | Some a \<Rightarrow> [c] @ f a) = ys @ (case n of None \<Rightarrow> [] | Some a \<Rightarrow> [c] @ f a)"
    and "c \<notin> set xs" "c \<notin> set ys"
  shows "xs = ys \<and> map_option f m = map_option f n"
proof (cases m)
  case None
  with assms show ?thesis by (cases n) auto
next
  case (Some a)
  with assms show ?thesis
    by (cases n) (auto dest: split_at_unique [of xs c "f a" ys])
qed

lemma operand_base_key_chars: "operand_valid operand \<Longrightarrow> CHR ''@'' \<notin> set (operand_base_key operand)"
  by (auto simp: operand_valid_def operand_base_key_eq optional_def dest: id_pattern_chars split: option.splits)

lemma operand_base_key_inj:
  assumes "operand_valid a" "operand_valid b" "operand_base_key a = operand_base_key b"
  shows "opd_indicator a = opd_indicator b \<and> opd_series a = opd_series b"
  using suffix_unique [where xs = "opd_indicator a" and m = "opd_series a" and c = "CHR ''.''" and f = "\<lambda>s. s"
    and ys = "opd_indicator b" and n = "opd_series b"] assms
  by (auto simp: operand_base_key_eq operand_valid_def option.map_ident dest: id_pattern_chars)

lemma operand_value_key_inj:
  assumes "operand_valid a" "operand_valid b" "operand_value_key a = operand_value_key b"
  shows "a = b"
proof -
  have k: "operand_base_key a = operand_base_key b \<and>
      map_option nat_text (opd_offset a) = map_option nat_text (opd_offset b)"
    using suffix_unique [where xs = "operand_base_key a" and m = "opd_offset a" and c = "CHR ''@''" and f = nat_text
        and ys = "operand_base_key b" and n = "opd_offset b"]
      assms operand_base_key_chars
    by (simp add: operand_value_key_base)
  then have "opd_offset a = opd_offset b"
    by (cases "opd_offset a"; cases "opd_offset b") (auto dest: nat_text_inj)
  with k operand_base_key_inj [OF assms(1,2)] show ?thesis by (cases a; cases b) auto
qed

end
