(* ===== verification/Indicators.thy ===== *)
theory Indicators
  imports Indicator_Trend Signal_Conditions
begin

text \<open>
  Dispatch of a declared indicator to its calculation and the assembly of value rows
  (\<open>evaluation/indicators.py\<close>): the four calculator tables, the declared bar lag, and the operand
  lags a rule tree asks for.

  A validated indicator never fails, gives one row per bar with exactly its value keys, and a row
  never depends on a later bar.
\<close>

section \<open>Calculator tables\<close>

definition candle_calculator :: "indicator_kind \<Rightarrow> (candle list \<Rightarrow> nat \<Rightarrow> series) option" where
  "candle_calculator kind =
     (case kind of
        ATR \<Rightarrow> Some average_true_range
      | WILLIAMS_R \<Rightarrow> Some williams_percent_r
      | CCI \<Rightarrow> Some commodity_channel_index
      | MFI \<Rightarrow> Some money_flow_index
      | VWMA \<Rightarrow> Some volume_weighted_moving_average
      | NATR \<Rightarrow> Some normalized_average_true_range
      | CHOPPINESS \<Rightarrow> Some choppiness_index
      | CMF \<Rightarrow> Some chaikin_money_flow
      | VWAP \<Rightarrow> Some rolling_volume_weighted_average_price
      | FORCE_INDEX \<Rightarrow> Some force_index
      | _ \<Rightarrow> None)"

definition series_calculator :: "indicator_kind \<Rightarrow> (decimal list \<Rightarrow> nat \<Rightarrow> series) option" where
  "series_calculator kind =
     (case kind of
        SMA \<Rightarrow> Some simple_moving_average
      | VOLUME_SMA \<Rightarrow> Some simple_moving_average
      | EMA \<Rightarrow> Some exponential_moving_average
      | RSI \<Rightarrow> Some relative_strength_index
      | HIGHEST \<Rightarrow> Some rolling_highest
      | LOWEST \<Rightarrow> Some rolling_lowest
      | STDEV \<Rightarrow> Some rolling_population_stdev
      | STDEV_SAMPLE \<Rightarrow> Some rolling_sample_stdev
      | ROC \<Rightarrow> Some rate_of_change
      | WMA \<Rightarrow> Some weighted_moving_average
      | MOMENTUM \<Rightarrow> Some momentum
      | DEMA \<Rightarrow> Some double_exponential_moving_average
      | TEMA \<Rightarrow> Some triple_exponential_moving_average
      | HMA \<Rightarrow> Some hull_moving_average
      | TRIX \<Rightarrow> Some triple_exponential_rate
      | CMO \<Rightarrow> Some chande_momentum_oscillator
      | ZSCORE \<Rightarrow> Some rolling_zscore
      | PERCENT_RANK \<Rightarrow> Some percent_rank
      | _ \<Rightarrow> None)"

definition shaped_calculator ::
    "indicator_kind \<Rightarrow> (indicator_definition \<Rightarrow> candle list \<Rightarrow> series result) option" where
  "shaped_calculator kind =
     (case kind of
        KAMA \<Rightarrow> Some kaufman_adaptive_values
      | PARABOLIC_SAR \<Rightarrow> Some parabolic_sar_values
      | ULTIMATE_OSCILLATOR \<Rightarrow> Some ultimate_oscillator_values
      | AWESOME_OSCILLATOR \<Rightarrow> Some awesome_oscillator_values
      | BOLLINGER_PERCENT_B \<Rightarrow> Some bollinger_percent_b_values
      | BOLLINGER_BANDWIDTH \<Rightarrow> Some bollinger_bandwidth_values
      | HISTORICAL_VOLATILITY \<Rightarrow> Some historical_volatility_values
      | _ \<Rightarrow> None)"

definition multi_series_calculator ::
    "indicator_kind \<Rightarrow> (indicator_definition \<Rightarrow> candle list \<Rightarrow> series_map result) option" where
  "multi_series_calculator kind =
     (case kind of
        MACD \<Rightarrow> Some macd_series
      | BOLLINGER \<Rightarrow> Some bollinger_series
      | STOCHASTIC \<Rightarrow> Some stochastic_series
      | ADX \<Rightarrow> Some adx_series
      | SUPERTREND \<Rightarrow> Some supertrend_series
      | AROON \<Rightarrow> Some aroon_series
      | ICHIMOKU \<Rightarrow> Some ichimoku_series
      | VORTEX \<Rightarrow> Some vortex_series
      | LINEAR_REGRESSION \<Rightarrow> Some linear_regression_series
      | STOCHASTIC_RSI \<Rightarrow> Some stochastic_rsi_series
      | PPO \<Rightarrow> Some ppo_series
      | TSI \<Rightarrow> Some true_strength_series
      | KELTNER \<Rightarrow> Some keltner_series
      | DONCHIAN \<Rightarrow> Some donchian_series
      | OBV \<Rightarrow> Some on_balance_volume_series
      | ACCUMULATION_DISTRIBUTION \<Rightarrow> Some accumulation_distribution_series
      | _ \<Rightarrow> None)"

section \<open>Dispatch\<close>

definition identity_values :: "indicator_definition \<Rightarrow> candle list \<Rightarrow> series result" where
  "identity_values indicator candles =
     rbind (locked_source_series indicator candles) (\<lambda>values. Inr (map Some values))"

definition constant_values :: "indicator_definition \<Rightarrow> candle list \<Rightarrow> series result" where
  "constant_values indicator candles =
     (case ind_parameters indicator of
        ConstantIndicatorParameters value \<Rightarrow> Inr (map (\<lambda>_. Some value) candles)
      | _ \<Rightarrow> not_implemented)"

definition period_values :: "indicator_definition \<Rightarrow> candle list \<Rightarrow> nat \<Rightarrow> series result" where
  "period_values indicator candles period =
     (case candle_calculator (ind_kind indicator) of
        Some calculator \<Rightarrow> Inr (calculator candles period)
      | None \<Rightarrow>
          rbind (locked_source_series indicator candles) (\<lambda>values.
            case series_calculator (ind_kind indicator) of
              Some calculator \<Rightarrow> Inr (calculator values period)
            | None \<Rightarrow> not_implemented))"

definition indicator_values :: "indicator_definition \<Rightarrow> candle list \<Rightarrow> series result" where
  "indicator_values indicator candles =
     (if ind_kind indicator = IDENTITY then identity_values indicator candles
      else if ind_kind indicator = CONSTANT then constant_values indicator candles
      else case shaped_calculator (ind_kind indicator) of
             Some calculator \<Rightarrow> calculator indicator candles
           | None \<Rightarrow>
               (case ind_parameters indicator of
                  IndicatorParameters period \<Rightarrow> period_values indicator candles period
                | _ \<Rightarrow> not_implemented))"

definition multi_series_values :: "indicator_definition \<Rightarrow> candle list \<Rightarrow> series_map result" where
  "multi_series_values indicator candles =
     (case multi_series_calculator (ind_kind indicator) of
        None \<Rightarrow> not_implemented
      | Some calculator \<Rightarrow> calculator indicator candles)"

text \<open>One row per bar; a declared output that the calculation did not return is a \<open>KeyError\<close>.\<close>

definition matrix_row :: "string \<Rightarrow> string list \<Rightarrow> series_map \<Rightarrow> nat \<Rightarrow> value_row" where
  "matrix_row ident names matrix index =
     map_of (map (\<lambda>name. (ident @ ''.'' @ name, the (map_of matrix name) ! index)) names)"

definition unlagged_keyed_values :: "indicator_definition \<Rightarrow> candle list \<Rightarrow> value_row list result" where
  "unlagged_keyed_values indicator candles =
     (case indicator_output_series (ind_kind indicator) of
        None \<Rightarrow>
          rbind (indicator_values indicator candles) (\<lambda>values.
            Inr (map (\<lambda>value. [ind_id indicator \<mapsto> value]) values))
      | Some names \<Rightarrow>
          rbind (multi_series_values indicator candles) (\<lambda>matrix.
            if candles \<noteq> [] \<and> list_ex (\<lambda>name. map_of matrix name = None) names then Inl KeyError
            else Inr (map (matrix_row (ind_id indicator) names matrix) [0..<length candles])))"

definition undefined_row :: "indicator_definition \<Rightarrow> value_row" where
  "undefined_row indicator = map_of (map (\<lambda>key. (key, None)) (indicator_value_keys indicator))"

definition lag_rows :: "value_row \<Rightarrow> nat \<Rightarrow> value_row list \<Rightarrow> value_row list" where
  "lag_rows undef offset rows =
     (if offset = 0 then rows
      else let lead = min offset (length rows)
           in replicate lead undef @ take (length rows - lead) rows)"

definition keyed_indicator_values :: "indicator_definition \<Rightarrow> candle list \<Rightarrow> value_row list result" where
  "keyed_indicator_values indicator candles =
     rbind (unlagged_keyed_values indicator candles) (\<lambda>rows.
       Inr (lag_rows (undefined_row indicator) (indicator_offset indicator) rows))"

fun update_rows :: "indicator_definition list \<Rightarrow> candle list \<Rightarrow> value_row list \<Rightarrow> value_row list result" where
  "update_rows [] candles rows = Inr rows"
| "update_rows (indicator # indicators) candles rows =
     rbind (keyed_indicator_values indicator candles) (\<lambda>keyed_rows.
       update_rows indicators candles (map (\<lambda>(row, keyed). row ++ keyed) (zip rows keyed_rows)))"

text \<open>An operand lag copies the operand's own key from \<open>offset\<close> rows earlier under its lagged key.
  The loop writes the lagged key only, and reads the base key only.\<close>

definition lag_operand :: "string list \<Rightarrow> value_row list \<Rightarrow> indicator_operand \<Rightarrow> value_row list" where
  "lag_operand known rows operand =
     (case opd_offset operand of
        None \<Rightarrow> rows
      | Some offset \<Rightarrow>
          if opd_indicator operand \<notin> set known then rows
          else per_bar (\<lambda>rows index.
                 (rows ! index)(operand_value_key operand \<mapsto>
                   (if index < offset then None else row_get (rows ! (index - offset)) (operand_base_key operand))))
               rows)"

definition calculate_indicator_rows ::
    "indicator_definition list \<Rightarrow> candle list \<Rightarrow> indicator_operand list \<Rightarrow> value_row list result" where
  "calculate_indicator_rows indicators candles operands =
     rbind (update_rows indicators candles (replicate (length candles) Map.empty)) (\<lambda>rows.
       Inr (foldl (lag_operand (map ind_id indicators)) rows operands))"

section \<open>Causality of the rows\<close>

lemma causal_result_map:
  fixes F :: "'a list \<Rightarrow> 'b list result" and g :: "'b list \<Rightarrow> 'c list"
  assumes "causal_result F" "\<And>f :: 'a list \<Rightarrow> 'b list. causal f \<Longrightarrow> causal (\<lambda>xs. g (f xs))"
  shows "causal_result (\<lambda>xs. rbind (F xs) (\<lambda>y. Inr (g y)))"
proof (cases "\<exists>e. \<forall>xs. F xs = Inl e")
  case True
  then obtain e where "\<And>xs. F xs = Inl e" by blast
  then show ?thesis by (simp add: causal_result_intros)
next
  case False
  with assms(1) obtain f where "causal f" "\<And>xs. F xs = Inr (f xs)" unfolding causal_result_def by blast
  then show ?thesis using causal_result_intros(2) [OF assms(2)] by simp
qed

lemma causal_lag_rows: "causal F \<Longrightarrow> causal (\<lambda>xs. lag_rows undef offset (F xs))"
proof (erule causal_comp [rotated], rule causalI)
  show "length (lag_rows undef offset xs) = length xs" for xs by (auto simp: lag_rows_def Let_def)
  show "lag_rows undef offset (take n xs) = take n (lag_rows undef offset xs)" for n xs
    by (rule nth_equalityI) (auto simp: lag_rows_def Let_def nth_append min_def)
qed

lemma causal_lag_operand: "causal F \<Longrightarrow> causal (\<lambda>xs. lag_operand known (F xs) operand)"
proof (cases "opd_offset operand")
  case None
  assume "causal F"
  with None show ?thesis by (simp add: lag_operand_def)
next
  case (Some offset)
  assume "causal F"
  then show ?thesis unfolding lag_operand_def Some option.case
    by (cases "opd_indicator operand \<in> set known") (simp_all add: causal_on_per_bar)
qed

lemma causal_lag_operands: "causal F \<Longrightarrow> causal (\<lambda>xs. foldl (lag_operand known) (F xs) operands)"
  by (induction operands arbitrary: F) (simp_all add: causal_lag_operand)

lemma causal_replicate: "causal (\<lambda>xs. replicate (length xs) c)"
  by (rule causalI) simp_all

lemma candle_calculator_causal:
  "candle_calculator kind = Some calculator \<Longrightarrow> causal (\<lambda>candles. calculator candles p)"
  by (auto simp: candle_calculator_def causal_atr causal_williams causal_cci causal_mfi causal_natr
      causal_choppiness causal_volume_windows split: indicator_kind.splits)

lemma series_calculator_causal:
  assumes "series_calculator kind = Some calculator" "causal F"
  shows "causal (\<lambda>xs. calculator (F xs) p)"
  using assms
  by (auto simp: series_calculator_def causal_intros split: indicator_kind.splits)

lemma shaped_calculator_causal:
  assumes "shaped_calculator kind = Some calculator" "parameters_valid (ind_parameters indicator)"
  shows "causal_result (calculator indicator)"
  using assms
  by (auto simp: shaped_calculator_def causal_kama_values causal_parabolic_sar causal_ultimate causal_awesome
      causal_percent_b causal_bandwidth causal_historical_volatility split: indicator_kind.splits)

lemma multi_series_calculator_causal:
  assumes "multi_series_calculator kind = Some calculator" "parameters_valid (ind_parameters indicator)"
  shows "causal_named (calculator indicator)"
  using assms
  by (auto simp: multi_series_calculator_def causal_macd causal_bollinger causal_stochastic causal_adx
      causal_supertrend causal_aroon causal_ichimoku causal_vortex causal_linear_regression
      causal_stochastic_rsi causal_ppo causal_tsi causal_keltner causal_donchian causal_obv
      causal_accumulation_distribution split: indicator_kind.splits)

lemma causal_indicator_values:
  assumes "parameters_valid (ind_parameters indicator)"
  shows "causal_result (indicator_values indicator)"
proof (cases "ind_kind indicator = IDENTITY \<or> ind_kind indicator = CONSTANT")
  case True
  have "causal_result (identity_values indicator)" unfolding identity_values_def [abs_def]
    by (intro causal_locked_result causal_intros)
  moreover have "causal_result (constant_values indicator)" unfolding constant_values_def [abs_def] not_implemented_def
    by (cases "ind_parameters indicator"; simp only: indicator_parameter_block.case;
        intro causal_result_intros causal_intros)
  ultimately show ?thesis using True by (auto simp: indicator_values_def [abs_def])
next
  case False
  show ?thesis
  proof (cases "shaped_calculator (ind_kind indicator)")
    case (Some calculator)
    with False shaped_calculator_causal [OF Some assms] show ?thesis by (simp add: indicator_values_def [abs_def])
  next
    case None
    have "causal_result (\<lambda>candles. period_values indicator candles p)" for p
    proof (cases "candle_calculator (ind_kind indicator)")
      case (Some calculator)
      then show ?thesis by (simp add: period_values_def causal_result_intros candle_calculator_causal)
    next
      case none: None
      show ?thesis
      proof (cases "series_calculator (ind_kind indicator)")
        case (Some calculator)
        with none show ?thesis
          by (simp add: period_values_def causal_locked_result series_calculator_causal causal_intros)
      next
        case None
        with none show ?thesis unfolding period_values_def not_implemented_def
          by (cases indicator rule: locked_source_cases) (simp_all add: not_implemented_def causal_result_intros)
      qed
    qed
    with False None show ?thesis unfolding indicator_values_def [abs_def] not_implemented_def
      by (cases "ind_parameters indicator") (simp_all add: causal_result_intros)
  qed
qed

lemma causal_multi_series_values:
  assumes "parameters_valid (ind_parameters indicator)"
  shows "causal_named (multi_series_values indicator)"
  using multi_series_calculator_causal [OF _ assms]
  by (cases "multi_series_calculator (ind_kind indicator)")
    (simp_all add: multi_series_values_def [abs_def] not_implemented_def causal_named_intros)

text \<open>Every multi-output calculation returns exactly the declared outputs, in order.\<close>

lemmas multi_series_defs = macd_series_def bollinger_series_def bollinger_bands_def stochastic_series_def adx_series_def
  supertrend_series_def aroon_series_def ichimoku_series_def vortex_series_def linear_regression_series_def
  stochastic_rsi_series_def ppo_series_def true_strength_series_def keltner_series_def donchian_series_def
  on_balance_volume_series_def accumulation_distribution_series_def

lemma matrix_names:
  assumes "multi_series_values indicator candles = Inr matrix"
  shows "indicator_output_series (ind_kind indicator) = Some (map fst matrix)"
  using assms
  by (cases "ind_kind indicator"; cases "ind_parameters indicator")
    (auto simp: multi_series_values_def multi_series_calculator_def not_implemented_def multi_series_defs Let_def)

lemma matrix_row_take:
  assumes "\<forall>(name, f) \<in> set fs. causal f" "i < n"
  shows "matrix_row ident names (map (\<lambda>(name, f). (name, f (take n xs))) fs) i
    = matrix_row ident names (map (\<lambda>(name, f). (name, f xs)) fs) i"
proof -
  have "the (map_option (\<lambda>f. f (take n xs)) (map_of fs name)) ! i = the (map_option (\<lambda>f. f xs) (map_of fs name)) ! i" for name
  proof (cases "map_of fs name")
    case (Some f)
    with assms(1) have "causal f" by (fastforce dest: map_of_SomeD)
    with Some assms(2) show ?thesis by (simp add: causal.prefix)
  qed simp
  then show ?thesis by (simp add: matrix_row_def map_of_map [unfolded comp_def] comp_def)
qed

lemma causal_unlagged:
  assumes "parameters_valid (ind_parameters indicator)"
  shows "causal_result (unlagged_keyed_values indicator)"
proof (cases "indicator_output_series (ind_kind indicator)")
  case None
  show ?thesis
    unfolding unlagged_keyed_values_def [abs_def] None option.case
    by (intro causal_result_map causal_indicator_values causal_map assms)
next
  case (Some names)
  from causal_multi_series_values [OF assms] consider e where "\<And>xs. multi_series_values indicator xs = Inl e"
    | fs where "\<forall>(name, f) \<in> set fs. causal f" "\<And>xs. multi_series_values indicator xs = Inr (map (\<lambda>(name, f). (name, f xs)) fs)"
    unfolding causal_named_def by blast
  then show ?thesis
  proof cases
    case 1
    then show ?thesis by (simp add: unlagged_keyed_values_def [abs_def] Some causal_result_intros)
  next
    case 2
    from matrix_names [OF 2(2) [of "[]"]] Some have names: "names = map fst fs" by (simp add: case_prod_beta comp_def)
    have "\<not> list_ex (\<lambda>name. map_of (map (\<lambda>(name, f). (name, f xs)) fs) name = None) names" for xs
      by (auto simp: names list_ex_iff map_of_eq_None_iff image_image case_prod_beta)
    then have e: "unlagged_keyed_values indicator
        = (\<lambda>xs. Inr (per_bar (\<lambda>xs. matrix_row (ind_id indicator) names (map (\<lambda>(name, f). (name, f xs)) fs)) xs))"
      by (simp add: unlagged_keyed_values_def [abs_def] Some 2(2) per_bar_def)
    show ?thesis unfolding e
      by (intro causal_result_intros causal_per_bar matrix_row_take 2(1))
  qed
qed

lemma causal_keyed:
  assumes "parameters_valid (ind_parameters indicator)"
  shows "causal_result (keyed_indicator_values indicator)"
  unfolding keyed_indicator_values_def [abs_def]
  by (intro causal_result_map causal_unlagged causal_lag_rows assms)

lemma causal_update_rows:
  assumes "\<forall>indicator \<in> set indicators. parameters_valid (ind_parameters indicator)" "causal F"
  shows "causal_result (\<lambda>xs. update_rows indicators xs (F xs))"
  using assms
proof (induction indicators arbitrary: F)
  case Nil
  then show ?case by (simp add: causal_result_intros)
next
  case (Cons indicator indicators)
  from causal_keyed [of indicator] Cons.prems(1)
  consider e where "\<And>xs. keyed_indicator_values indicator xs = Inl e"
    | f where "causal f" "\<And>xs. keyed_indicator_values indicator xs = Inr (f xs)"
    unfolding causal_result_def by auto
  then show ?case
  proof cases
    case 1
    then show ?thesis by (simp add: causal_result_intros)
  next
    case 2
    have "causal (\<lambda>xs. map (\<lambda>(row, keyed). row ++ keyed) (zip (F xs) (f xs)))"
      by (intro causal_intros Cons.prems(2) 2(1))
    from Cons.IH [OF _ this] Cons.prems(1) show ?thesis by (simp add: 2(2))
  qed
qed

lemma causal_indicator_rows:
  assumes "\<forall>indicator \<in> set indicators. parameters_valid (ind_parameters indicator)"
  shows "causal_result (\<lambda>candles. calculate_indicator_rows indicators candles operands)"
  unfolding calculate_indicator_rows_def
  by (intro causal_result_map causal_update_rows causal_replicate causal_lag_operands assms)

section \<open>A validated indicator never fails\<close>

lemma identity_input_field: "identity_input i \<Longrightarrow> \<exists>k. source_field i = Some k"
  by (auto simp: identity_input_def IDENTITY_INPUTS_def source_field_def split: option.splits indicator_input.splits)

lemma single_source_field: "SINGLE_SOURCE_INPUT kind = Some f \<Longrightarrow> \<exists>k. source_field (Some (FieldInput f)) = Some k"
  by (cases kind) (auto simp: source_field_def)

lemma locked_source_total:
  assumes "require_locked_source indicator = Inr ()" "LOCKED_TUPLE_INPUT (ind_kind indicator) = None"
  shows "\<exists>k. locked_source_series indicator = (\<lambda>candles. Inr (map k candles))"
proof -
  have "\<exists>k. source_field (ind_input indicator) = Some k"
    using assms identity_input_field single_source_field
    by (fastforce simp: require_locked_source_def split: if_splits option.splits)
  then show ?thesis by (auto simp: locked_source_eq fun_eq_iff)
qed

lemma validated_cases:
  assumes "validate_kind_period indicator = Inr ()" "ind_kind indicator \<noteq> IDENTITY" "ind_kind indicator \<noteq> CONSTANT"
  obtains (period) p where "parameter_shape (ind_kind indicator) (ind_parameters indicator) = None"
      "ind_parameters indicator = IndicatorParameters p" "require_locked_source indicator = Inr ()"
  | (shaped) "parameter_shape (ind_kind indicator) (ind_parameters indicator) = Some True"
      "require_locked_source indicator = Inr ()"
  using assms
  by (auto simp: validate_kind_period_def require_period_indicator_def
      split: if_splits option.splits indicator_parameter_block.splits)

lemma identity_total:
  "require_identity_indicator indicator = Inr () \<Longrightarrow> \<exists>vs. identity_values indicator candles = Inr vs"
  using identity_input_field
  by (fastforce simp: require_identity_indicator_def identity_values_def locked_source_eq split: if_splits)

lemma constant_total:
  "require_constant_indicator indicator = Inr () \<Longrightarrow> \<exists>vs. constant_values indicator candles = Inr vs"
  by (auto simp: require_constant_indicator_def constant_values_def split: indicator_parameter_block.splits)

lemma shaped_values_total:
  assumes "parameter_shape (ind_kind indicator) (ind_parameters indicator) = Some True"
    and "require_locked_source indicator = Inr ()"
  shows "(case shaped_calculator (ind_kind indicator) of
            Some calculator \<Rightarrow> \<exists>vs. calculator indicator candles = Inr vs
          | None \<Rightarrow> \<exists>m. multi_series_values indicator candles = Inr m)"
  using assms locked_source_total [OF assms(2)]
  by (cases "ind_kind indicator")
    (auto simp: shaped_calculator_def multi_series_values_def multi_series_calculator_def multi_series_defs
      kaufman_adaptive_values_def parabolic_sar_values_def ultimate_oscillator_values_def
      awesome_oscillator_values_def bollinger_percent_b_values_def bollinger_bandwidth_values_def
      historical_volatility_values_def period_parameter_def Let_def
      split: indicator_parameter_block.splits)

lemma period_values_total:
  assumes "parameter_shape (ind_kind indicator) (IndicatorParameters p) = None"
    and "ind_kind indicator \<noteq> IDENTITY" "ind_kind indicator \<noteq> CONSTANT"
    and "ind_parameters indicator = IndicatorParameters p" "require_locked_source indicator = Inr ()"
  shows "(case indicator_output_series (ind_kind indicator) of
            None \<Rightarrow> shaped_calculator (ind_kind indicator) = None
                   \<and> (\<exists>vs. period_values indicator candles p = Inr vs)
          | Some _ \<Rightarrow> \<exists>m. multi_series_values indicator candles = Inr m)"
  using assms locked_source_total [OF assms(5)]
  by (cases "ind_kind indicator")
    (auto simp: shaped_calculator_def candle_calculator_def series_calculator_def period_values_def
      multi_series_values_def multi_series_calculator_def multi_series_defs period_parameter_def Let_def)

lemma unlagged_total:
  assumes "indicator_valid indicator"
  shows "\<exists>rows. unlagged_keyed_values indicator candles = Inr rows"
proof -
  have v: "validate_kind_period indicator = Inr ()" using assms by (simp add: indicator_valid_def)
  have multi: ?thesis if "multi_series_values indicator candles = Inr m" for m
  proof -
    note names = matrix_names [OF that]
    then have "\<not> list_ex (\<lambda>name. map_of m name = None) (map fst m)"
      by (auto simp: list_ex_iff map_of_eq_None_iff)
    then show ?thesis by (simp add: unlagged_keyed_values_def names that)
  qed
  have single: ?thesis if "indicator_output_series (ind_kind indicator) = None" "indicator_values indicator candles = Inr vs" for vs
    using that by (simp add: unlagged_keyed_values_def)
  consider "ind_kind indicator = IDENTITY" | "ind_kind indicator = CONSTANT"
    | "ind_kind indicator \<noteq> IDENTITY" "ind_kind indicator \<noteq> CONSTANT" by blast
  then show ?thesis
  proof cases
    case 1
    with v identity_total [of indicator candles] show ?thesis
      by (auto simp: validate_kind_period_def indicator_values_def split: if_splits intro: single)
  next
    case 2
    with v constant_total [of indicator candles] show ?thesis
      by (auto simp: validate_kind_period_def indicator_values_def split: if_splits intro: single)
  next
    case 3
    from v 3 show ?thesis
    proof (cases rule: validated_cases)
      case (period p)
      with 3 period_values_total [of indicator p candles] show ?thesis
        by (auto simp: indicator_values_def intro: single multi split: option.splits)
    next
      case shaped
      have "shaped_calculator (ind_kind indicator) \<noteq> None \<Longrightarrow> indicator_output_series (ind_kind indicator) = None"
        by (cases "ind_kind indicator") (simp_all add: shaped_calculator_def)
      with 3 shaped_values_total [OF shaped, of candles] show ?thesis
        by (auto simp: indicator_values_def intro: single multi split: option.splits)
    qed
  qed
qed

lemma dom_matrix_row: "dom (matrix_row ident names matrix i) = (\<lambda>name. ident @ ''.'' @ name) ` set names"
  by (simp add: matrix_row_def dom_map_of_conv_image_fst image_image)

lemma unlagged_keys:
  assumes "unlagged_keyed_values indicator candles = Inr rows" "row \<in> set rows"
  shows "dom row = set (indicator_value_keys indicator)"
proof (cases "indicator_output_series (ind_kind indicator)")
  case None
  with assms show ?thesis by (auto simp: unlagged_keyed_values_def indicator_value_keys_def split: if_splits)
next
  case (Some names)
  with assms obtain matrix i where "row = matrix_row (ind_id indicator) names matrix i"
    by (auto simp: unlagged_keyed_values_def split: if_splits)
  with Some show ?thesis by (simp only: dom_matrix_row indicator_value_keys_def option.case set_map)
qed

lemma lag_rows_set: "set (lag_rows undef offset rows) \<subseteq> insert undef (set rows)"
  by (auto simp: lag_rows_def Let_def dest: in_set_takeD split: if_splits)

lemma causal_result_length:
  assumes "causal_result F" "F xs = Inr ys"
  shows "length ys = length xs"
  using assms by (auto simp: causal_result_def causal.aligned)

lemma keyed_values_total:
  assumes "indicator_valid indicator"
  obtains rows where "keyed_indicator_values indicator candles = Inr rows" "length rows = length candles"
    "\<And>row. row \<in> set rows \<Longrightarrow> dom row = set (indicator_value_keys indicator)"
proof -
  from unlagged_total [OF assms] obtain raw where raw: "unlagged_keyed_values indicator candles = Inr raw" ..
  let ?rows = "lag_rows (undefined_row indicator) (indicator_offset indicator) raw"
  have k: "keyed_indicator_values indicator candles = Inr ?rows" by (simp add: keyed_indicator_values_def raw)
  have "parameters_valid (ind_parameters indicator)" using assms by (simp add: indicator_valid_def)
  from causal_keyed [OF this] k have l: "length ?rows = length candles"
    by (rule causal_result_length)
  have "dom (undefined_row indicator) = set (indicator_value_keys indicator)"
    by (simp add: undefined_row_def dom_map_of_conv_image_fst image_image)
  then have "dom row = set (indicator_value_keys indicator)" if "row \<in> set ?rows" for row
    using that lag_rows_set unlagged_keys [OF raw] by blast
  with k l that show thesis by blast
qed

text \<open>Whole row sets: with validated indicators the calculation succeeds, keeps one row per bar, and
  every row has the keys of every indicator.\<close>

lemma update_rows_total:
  assumes "\<forall>indicator \<in> set indicators. indicator_valid indicator" "length rows = length candles"
  shows "\<exists>rows'. update_rows indicators candles rows = Inr rows' \<and> length rows' = length candles
    \<and> (\<forall>i < length candles. dom (rows' ! i) = dom (rows ! i) \<union> (\<Union>indicator \<in> set indicators. set (indicator_value_keys indicator)))"
  using assms
proof (induction indicators arbitrary: rows)
  case Nil
  then show ?case by simp
next
  case (Cons indicator indicators)
  from Cons.prems(1) have "indicator_valid indicator" by simp
  from keyed_values_total [OF this, of candles] obtain keyed where
    k: "keyed_indicator_values indicator candles = Inr keyed" "length keyed = length candles"
       "\<And>row. row \<in> set keyed \<Longrightarrow> dom row = set (indicator_value_keys indicator)" by blast
  let ?rows = "map (\<lambda>(row, keyed). row ++ keyed) (zip rows keyed)"
  have l: "length ?rows = length candles" using k(2) Cons.prems(2) by simp
  from Cons.IH [OF _ l] Cons.prems(1) obtain rows' where
    r: "update_rows indicators candles ?rows = Inr rows'" "length rows' = length candles"
       "\<forall>i < length candles. dom (rows' ! i) = dom (?rows ! i) \<union> (\<Union>indicator \<in> set indicators. set (indicator_value_keys indicator))"
    by auto
  have "dom (?rows ! i) = dom (rows ! i) \<union> set (indicator_value_keys indicator)" if "i < length candles" for i
    using that k(2,3) Cons.prems(2) nth_mem [of i keyed] by auto
  with k(1) r show ?case by auto
qed

lemma length_lag_operand [simp]: "length (lag_operand known rows operand) = length rows"
  by (simp add: lag_operand_def split: option.splits)

lemma length_lag_operands [simp]: "length (foldl (lag_operand known) rows operands) = length rows"
  by (induction operands arbitrary: rows) simp_all

lemma lag_operand_other:
  assumes "operand_value_key operand \<noteq> key" "i < length rows"
  shows "(lag_operand known rows operand ! i) key = (rows ! i) key"
  using assms by (simp add: lag_operand_def split: option.splits)

lemma lag_operands_other:
  assumes "\<And>operand. operand \<in> set operands \<Longrightarrow> opd_offset operand \<noteq> None \<Longrightarrow> operand_value_key operand \<noteq> key" "i < length rows"
  shows "(foldl (lag_operand known) rows operands ! i) key = (rows ! i) key"
  using assms
proof (induction operands arbitrary: rows)
  case (Cons operand operands)
  have "(lag_operand known rows operand ! i) key = (rows ! i) key"
  proof (cases "opd_offset operand")
    case (Some offset)
    with Cons.prems show ?thesis by (intro lag_operand_other) auto
  qed (simp add: lag_operand_def)
  with Cons show ?case by simp
qed simp

section \<open>Rows and lagged reads\<close>

lemma lag_operand_dom: "i < length rows \<Longrightarrow> dom (rows ! i) \<subseteq> dom (lag_operand known rows operand ! i)"
  by (auto simp: lag_operand_def split: option.splits)

lemma lag_operands_dom: "i < length rows \<Longrightarrow> dom (rows ! i) \<subseteq> dom (foldl (lag_operand known) rows operands ! i)"
proof (induction operands arbitrary: rows)
  case (Cons operand operands)
  have "dom (lag_operand known rows operand ! i) \<subseteq> dom (foldl (lag_operand known) rows (operand # operands) ! i)"
    using Cons.IH [of "lag_operand known rows operand"] Cons.prems by simp
  with lag_operand_dom [OF Cons.prems] show ?case by (rule subset_trans)
qed simp

lemma lagged_key_at: "opd_offset operand = Some k \<Longrightarrow> CHR ''@'' \<in> set (operand_value_key operand)"
  by (simp add: operand_value_key_base)

lemma base_key_untouched:
  assumes "operand_valid operand" "i < length rows"
  shows "(foldl (lag_operand known) rows operands ! i) (operand_base_key operand) = (rows ! i) (operand_base_key operand)"
  using assms operand_base_key_chars lagged_key_at by (intro lag_operands_other) fastforce+

lemma lag_operand_self:
  "opd_offset operand = Some k \<Longrightarrow> opd_indicator operand \<in> set known \<Longrightarrow> i < length rows \<Longrightarrow>
   (lag_operand known rows operand ! i) (operand_value_key operand)
     = Some (if i < k then None else row_get (rows ! (i - k)) (operand_base_key operand))"
  by (simp add: lag_operand_def)

lemma lagged_key_value:
  assumes "\<forall>operand \<in> set operands. operand_valid operand" "operand \<in> set operands"
    and "opd_offset operand = Some k" "opd_indicator operand \<in> set known" "i < length rows"
  shows "(foldl (lag_operand known) rows operands ! i) (operand_value_key operand)
    = Some (if i < k then None else row_get (rows ! (i - k)) (operand_base_key operand))"
  using assms(1,2)
proof (induction operands rule: rev_induct)
  case (snoc x operands)
  let ?rows = "foldl (lag_operand known) rows operands"
  have v: "operand_valid operand" "operand_valid x" using snoc.prems by auto
  show ?case
  proof (cases "x = operand")
    case True
    have "row_get (?rows ! (i - k)) (operand_base_key operand) = row_get (rows ! (i - k)) (operand_base_key operand)"
      using base_key_untouched [OF v(1), of "i - k"] assms(5) by (simp add: row_get_def)
    with True lag_operand_self [OF assms(3,4), of i ?rows] assms(5) show ?thesis by simp
  next
    case False
    then have "operand_value_key x \<noteq> operand_value_key operand"
      using operand_value_key_inj [OF v(2,1)] by auto
    with snoc False assms(5) show ?thesis by (simp add: lag_operand_other)
  qed
qed simp

lemma indicator_rows_total:
  assumes "\<forall>indicator \<in> set indicators. indicator_valid indicator"
  shows "\<exists>rows. calculate_indicator_rows indicators candles operands = Inr rows
    \<and> length rows = length candles
    \<and> (\<forall>row \<in> set rows. \<forall>indicator \<in> set indicators. set (indicator_value_keys indicator) \<subseteq> dom row)"
proof -
  from update_rows_total [OF assms, of "replicate (length candles) Map.empty" candles] obtain rows where
    r: "update_rows indicators candles (replicate (length candles) Map.empty) = Inr rows" "length rows = length candles"
       "\<forall>i < length candles. dom (rows ! i) = (\<Union>indicator \<in> set indicators. set (indicator_value_keys indicator))"
    by auto
  let ?rows = "foldl (lag_operand (map ind_id indicators)) rows operands"
  have "set (indicator_value_keys indicator) \<subseteq> dom row" if "row \<in> set ?rows" "indicator \<in> set indicators" for row indicator
  proof -
    from that(1) obtain i where "i < length candles" "row = ?rows ! i" using r(2) by (auto simp: in_set_conv_nth)
    with r(2) have "dom (rows ! i) \<subseteq> dom row" by (simp add: lag_operands_dom)
    moreover have "set (indicator_value_keys indicator) \<subseteq> dom (rows ! i)"
      using r(3) that(2) \<open>i < length candles\<close> by blast
    ultimately show ?thesis by blast
  qed
  with r show ?thesis by (simp add: calculate_indicator_rows_def)
qed


text \<open>A concrete setting: a two-bar average of closes, read now and one bar earlier.\<close>

definition sample_bar :: "datetime \<Rightarrow> decimal \<Rightarrow> candle" where
  "sample_bar t c = \<lparr> k_starts_at = t, k_open = c, k_high = c + 1, k_low = c - 1, k_close = c, k_volume = 10 \<rparr>"

definition sample_average :: indicator_definition where
  "sample_average = \<lparr> ind_id = ''fast'', ind_kind = SMA, ind_input = Some (FieldInput ''close''),
     ind_parameters = IndicatorParameters 2, ind_timeframe = None, ind_offset = None, ind_source = None \<rparr>"

definition sample_lag :: indicator_operand where
  "sample_lag = \<lparr> opd_indicator = ''fast'', opd_series = None, opd_offset = Some 1 \<rparr>"

lemma sample_average_valid: "indicator_valid sample_average"
  by code_simp


text \<open>C14: No indicator looks ahead. The row of a bar is the same for any two histories that agree up
  to and including that bar; in particular a later bar never changes a published value.\<close>

theorem indicator_rows_never_look_ahead:
  assumes "\<forall>indicator \<in> set indicators. indicator_valid indicator"
    and "calculate_indicator_rows indicators candles operands = Inr rows"
    and "calculate_indicator_rows indicators candles' operands = Inr rows'"
    and "take (Suc i) candles = take (Suc i) candles'" "i < length candles" "i < length candles'"
  shows "rows ! i = rows' ! i"
proof -
  have "\<forall>indicator \<in> set indicators. parameters_valid (ind_parameters indicator)"
    using assms(1) by (simp add: indicator_valid_def)
  from causal_indicator_rows [OF this, of operands] assms(2,3) obtain f where
    "causal f" "rows = f candles" "rows' = f candles'"
    by (auto simp: causal_result_def)
  with causal.settled_value [of f i candles candles'] assms(4-6) show ?thesis by simp
qed

theorem indicator_rows_never_look_ahead_witness:
  "\<exists>rows rows'. calculate_indicator_rows [sample_average] [sample_bar 0 100, sample_bar 60 104] [sample_lag] = Inr rows
    \<and> calculate_indicator_rows [sample_average] [sample_bar 0 100, sample_bar 60 104, sample_bar 120 7] [sample_lag] = Inr rows'
    \<and> rows ! 1 = rows' ! 1"
proof -
  let ?c = "[sample_bar 0 100, sample_bar 60 104]" and ?d = "[sample_bar 0 100, sample_bar 60 104, sample_bar 120 7]"
  have v: "\<forall>indicator \<in> set [sample_average]. indicator_valid indicator" by (simp add: sample_average_valid)
  from indicator_rows_total [OF v, of ?c "[sample_lag]"] obtain rows where
    r: "calculate_indicator_rows [sample_average] ?c [sample_lag] = Inr rows" by blast
  from indicator_rows_total [OF v, of ?d "[sample_lag]"] obtain rows' where
    r': "calculate_indicator_rows [sample_average] ?d [sample_lag] = Inr rows'" by blast
  have "rows ! 1 = rows' ! 1" by (rule indicator_rows_never_look_ahead [OF v r r']) simp_all
  with r r' show ?thesis by blast
qed

text \<open>A lagged operand reads exactly its own past. The value under an operand's lagged key is the
  unlagged value of the same series the stated number of bars earlier, and undefined before that;
  no other operand overwrites it.\<close>

theorem lagged_operand_reads_its_past:
  assumes "calculate_indicator_rows indicators candles operands = Inr rows"
    and "\<forall>operand \<in> set operands. operand_valid operand" "operand \<in> set operands"
    and "opd_offset operand = Some k" "opd_indicator operand \<in> set (map ind_id indicators)" "i < length rows"
  shows "row_get (rows ! i) (operand_value_key operand)
    = (if i < k then None else row_get (rows ! (i - k)) (operand_base_key operand))"
proof -
  from assms(1) obtain raw where "rows = foldl (lag_operand (map ind_id indicators)) raw operands"
    by (auto simp: calculate_indicator_rows_def)
  with lagged_key_value [OF assms(2-5), of i raw] base_key_untouched [of operand "i - k" raw] assms(2,3,6)
  show ?thesis by (simp add: row_get_def)
qed

theorem lagged_operand_reads_its_past_witness:
  "\<exists>rows. calculate_indicator_rows [sample_average] [sample_bar 0 100, sample_bar 60 104, sample_bar 120 7] [sample_lag] = Inr rows
    \<and> row_get (rows ! 2) ''fast@1'' = row_get (rows ! 1) ''fast''"
proof -
  let ?c = "[sample_bar 0 100, sample_bar 60 104, sample_bar 120 7]"
  from indicator_rows_total [of "[sample_average]" ?c "[sample_lag]"] obtain rows where
    r: "calculate_indicator_rows [sample_average] ?c [sample_lag] = Inr rows" "length rows = 3"
    by (auto simp: sample_average_valid)
  have k: "operand_value_key sample_lag = ''fast@1''" "operand_base_key sample_lag = ''fast''"
    by code_simp+
  have "operand_valid sample_lag" by code_simp
  then have "row_get (rows ! 2) (operand_value_key sample_lag)
      = (if 2 < (1::nat) then None else row_get (rows ! (2 - 1)) (operand_base_key sample_lag))"
    by (intro lagged_operand_reads_its_past [OF r(1)]) (simp_all add: r(2) sample_lag_def sample_average_def)
  with r(1) show ?thesis unfolding k by simp
qed

end
