(* ===== verification/Signal_Clock.thy ===== *)
theory Signal_Clock
  imports Signal_Conditions
begin

text \<open>
  Closed-bar clocks: timeframe helpers (\<open>strategies/schema/timeframes.py\<close>) and the alignment of
  higher-timeframe, extra-clock and reference bars to a decision close
  (\<open>evaluation/multi_timeframe.py\<close>).

  A bar that starts at \<open>s\<close> on a clock of duration \<open>d\<close> is completed at \<open>s + d\<close>. The mapped bar of an
  instant is the last completed one, and the bars a run loads cover every bar it will map to.
\<close>

section \<open>Timeframes\<close>

definition timeframe_seconds :: "string \<Rightarrow> int result" where
  "timeframe_seconds timeframe =
     (case parse_candle_interval timeframe of
        Inr interval \<Rightarrow> Inr (interval_duration interval div SECOND)
      | Inl _ \<Rightarrow> Inl (ValueError (''unsupported strategy timeframe: '' @ timeframe)))"

definition is_valid_htf_pair :: "string \<Rightarrow> string \<Rightarrow> bool" where
  "is_valid_htf_pair decision_timeframe htf_timeframe =
     (case (timeframe_seconds decision_timeframe, timeframe_seconds htf_timeframe) of
        (Inr decision_seconds, Inr htf_seconds) \<Rightarrow>
          decision_seconds < htf_seconds \<and> htf_seconds mod decision_seconds = 0
      | _ \<Rightarrow> False)"

definition is_valid_reference_pair :: "string \<Rightarrow> string \<Rightarrow> bool" where
  "is_valid_reference_pair decision_timeframe reference_timeframe \<longleftrightarrow>
     reference_timeframe = decision_timeframe \<or> is_valid_htf_pair decision_timeframe reference_timeframe"

definition resolved_indicator_timeframe :: "indicator_definition \<Rightarrow> string \<Rightarrow> string" where
  "resolved_indicator_timeframe indicator decision_timeframe = or_else (ind_timeframe indicator) decision_timeframe"

text \<open>The convergence warmup of an indicator is computed with floating-point logarithms and is an
  argument; \<open>policy\<close> says whether it replaces the minimum warmup.\<close>

definition largest_operand_lag :: "indicator_operand list \<Rightarrow> string \<Rightarrow> nat" where
  "largest_operand_lag operands ident =
     fold max (map (\<lambda>operand. or_else (opd_offset operand) 0)
                   (filter (\<lambda>operand. opd_indicator operand = ident) operands)) 0"

fun indicator_warmups ::
    "(indicator_definition \<Rightarrow> nat result) \<Rightarrow> indicator_operand list \<Rightarrow> indicator_definition list \<Rightarrow> nat list result" where
  "indicator_warmups per_indicator operands [] = Inr []"
| "indicator_warmups per_indicator operands (indicator # indicators) =
     rbind (per_indicator indicator) (\<lambda>bars.
     rbind (indicator_warmups per_indicator operands indicators) (\<lambda>rest.
       Inr ((bars + largest_operand_lag operands (ind_id indicator)) # rest)))"

definition extra_indicator_timeframe_warmup ::
    "(indicator_definition \<Rightarrow> nat result) \<Rightarrow> bool \<Rightarrow> indicator_operand list \<Rightarrow> indicator_definition list \<Rightarrow> nat result" where
  "extra_indicator_timeframe_warmup convergence_warmup convergence operands indicators =
     rbind (indicator_warmups (if convergence then convergence_warmup else indicator_min_warmup) operands indicators)
       (\<lambda>warmups. Inr (if warmups = [] then 1 else fold max warmups 0))"

definition extra_indicator_required_fields :: "indicator_definition list \<Rightarrow> string list" where
  "extra_indicator_required_fields indicators =
     filter (\<lambda>field. field \<in> set (concat (map indicator_input_fields indicators)))
       [''open'', ''high'', ''low'', ''close'', ''volume'']"

section \<open>Last completed bars\<close>

definition last_completed_bar_start :: "datetime \<Rightarrow> candle_interval \<Rightarrow> datetime result" where
  "last_completed_bar_start close_at interval =
     rbind (align_closed_end interval close_at) (\<lambda>exclusive_end. Inr (exclusive_end - interval_duration interval))"

definition interval_open_ceil :: "datetime \<Rightarrow> string \<Rightarrow> datetime result" where
  "interval_open_ceil instant timeframe =
     rbind (parse_candle_interval timeframe) (\<lambda>interval.
     rbind (align_closed_end interval instant) (\<lambda>exclusive_end.
       Inr (if exclusive_end = instant then instant else exclusive_end + interval_duration interval)))"

definition interval_open_floor_before :: "datetime \<Rightarrow> string \<Rightarrow> datetime result" where
  "interval_open_floor_before limit timeframe =
     rbind (parse_candle_interval timeframe) (\<lambda>interval.
     rbind (align_closed_end interval limit) (\<lambda>exclusive_end.
       Inr (if exclusive_end = limit then limit - interval_duration interval else exclusive_end)))"

definition earliest_evaluation_start_for_closed_bar :: "datetime \<Rightarrow> string \<Rightarrow> nat \<Rightarrow> string \<Rightarrow> datetime result" where
  "earliest_evaluation_start_for_closed_bar dataset_starts_at timeframe warmup_bars decision_timeframe =
     rbind (parse_candle_interval timeframe) (\<lambda>interval.
       interval_open_ceil (dataset_starts_at + interval_duration interval * int warmup_bars) decision_timeframe)"

definition latest_evaluation_end_for_closed_bar :: "datetime \<Rightarrow> string \<Rightarrow> string \<Rightarrow> datetime result" where
  "latest_evaluation_end_for_closed_bar dataset_ends_at timeframe decision_timeframe =
     rbind (parse_candle_interval timeframe) (\<lambda>interval.
       interval_open_floor_before (dataset_ends_at + interval_duration interval) decision_timeframe)"

definition closed_bar_required_coverage ::
    "datetime \<Rightarrow> datetime \<Rightarrow> string \<Rightarrow> nat \<Rightarrow> (datetime \<times> datetime) result" where
  "closed_bar_required_coverage evaluation_starts_at evaluation_ends_at timeframe warmup_bars =
     rbind (parse_candle_interval timeframe) (\<lambda>interval.
     rbind (last_completed_bar_start evaluation_starts_at interval) (\<lambda>first_mapped_start.
     rbind (last_completed_bar_start evaluation_ends_at interval) (\<lambda>last_mapped_start.
       Inr (first_mapped_start - interval_duration interval * (int warmup_bars - 1),
            last_mapped_start + interval_duration interval))))"

text \<open>The loop \<open>while cursor < coverage_end\<close>; durations are positive, so it ends.\<close>

function bar_starts :: "timedelta \<Rightarrow> datetime \<Rightarrow> datetime \<Rightarrow> datetime list" where
  "bar_starts duration cursor coverage_end =
     (if cursor < coverage_end \<and> 0 < duration
      then cursor # bar_starts duration (cursor + duration) coverage_end else [])"
  by pat_completeness auto
termination by (relation "measure (\<lambda>(duration, cursor, coverage_end). nat (coverage_end - cursor))") auto

declare bar_starts.simps [simp del]

definition closed_bar_starts :: "datetime \<Rightarrow> datetime \<Rightarrow> string \<Rightarrow> nat \<Rightarrow> datetime list result" where
  "closed_bar_starts evaluation_starts_at evaluation_ends_at timeframe warmup_bars =
     rbind (closed_bar_required_coverage evaluation_starts_at evaluation_ends_at timeframe warmup_bars)
       (\<lambda>(coverage_start, coverage_end).
     rbind (parse_candle_interval timeframe) (\<lambda>interval.
       Inr (bar_starts (interval_duration interval) coverage_start coverage_end)))"

definition mapped_htf_start :: "datetime \<Rightarrow> string \<Rightarrow> datetime result" where
  "mapped_htf_start close_at htf_timeframe =
     rbind (parse_candle_interval htf_timeframe) (last_completed_bar_start close_at)"

definition ltf_close :: "datetime \<Rightarrow> string \<Rightarrow> datetime result" where
  "ltf_close candle_starts_at ltf_timeframe =
     rbind (timeframe_seconds ltf_timeframe) (\<lambda>seconds. Inr (candle_starts_at + SECOND * seconds))"

fun index_candles :: "(datetime \<rightharpoonup> candle) \<Rightarrow> candle list \<Rightarrow> (datetime \<rightharpoonup> candle) result" where
  "index_candles indexed [] = Inr indexed"
| "index_candles indexed (candle # candles) =
     (if indexed (k_starts_at candle) \<noteq> None
      then Inl (ValueError ''Closed-bar candles contain duplicate timestamps.'')
      else index_candles (indexed(k_starts_at candle \<mapsto> candle)) candles)"

definition index_candles_by_start :: "candle list \<Rightarrow> (datetime \<rightharpoonup> candle) result" where
  "index_candles_by_start candles = index_candles Map.empty candles"

definition bars_closed_at_or_before :: "candle list \<Rightarrow> datetime \<Rightarrow> string \<Rightarrow> candle list result" where
  "bars_closed_at_or_before candles close_at timeframe =
     rbind (parse_candle_interval timeframe) (\<lambda>interval.
       Inr (filter (\<lambda>candle. k_starts_at candle + interval_duration interval \<le> close_at) candles))"

section \<open>Alignment\<close>

lemma interval_duration_seconds: "SECOND * (interval_duration i div SECOND) = interval_duration i"
  by (cases i) (simp_all add: SECOND_def MINUTE_def HOUR_def DAY_def)

lemma last_completed_eq:
  "last_completed_bar_start t i = Inr (t - t mod interval_duration i - interval_duration i)"
  by (simp add: last_completed_bar_start_def align_closed_end_eq)

lemma mapped_htf_start_eq:
  "mapped_htf_start t tf = rbind (parse_candle_interval tf) (\<lambda>i. Inr (t - t mod interval_duration i - interval_duration i))"
  by (simp add: mapped_htf_start_def last_completed_eq [abs_def])

lemma ltf_close_eq:
  "parse_candle_interval tf = Inr i \<Longrightarrow> ltf_close t tf = Inr (t + interval_duration i)"
  by (simp add: ltf_close_def timeframe_seconds_def interval_duration_seconds)

lemma floor_mult: "(t :: int) - t mod d = d * (t div d)"
  by (simp add: minus_mod_eq_mult_div)

lemma floor_mono: "0 < (d :: int) \<Longrightarrow> s \<le> t \<Longrightarrow> s - s mod d \<le> t - t mod d"
  by (simp add: floor_mult zdiv_mono1)

lemma bar_starts_mem:
  assumes "0 < d"
  shows "s \<in> set (bar_starts d a e) \<longleftrightarrow> a \<le> s \<and> s < e \<and> (s - a) mod d = 0"
  using assms
proof (induction d a e rule: bar_starts.induct)
  case (1 d a e)
  show ?case
  proof (cases "a < e \<and> 0 < d")
    case True
    have m: "(s - (a + d)) mod d = (s - a) mod d" by (metis diff_diff_eq mod_diff_right_eq mod_self diff_zero)
    have "s = a \<or> (a + d \<le> s \<and> s < e \<and> (s - a) mod d = 0) \<longleftrightarrow> a \<le> s \<and> s < e \<and> (s - a) mod d = 0"
    proof
      assume r: "a \<le> s \<and> s < e \<and> (s - a) mod d = 0"
      show "s = a \<or> (a + d \<le> s \<and> s < e \<and> (s - a) mod d = 0)"
      proof (cases "s - a < d")
        case True
        with r have "s - a = 0" using mod_pos_pos_trivial [of "s - a" d] by simp
        then show ?thesis by simp
      next
        case False
        with r show ?thesis by simp
      qed
    qed (use True in auto)
    with True 1 m show ?thesis by (simp add: bar_starts.simps [of d a e])
  next
    case False
    with 1 show ?thesis by (auto simp: bar_starts.simps [of d a e] split: if_splits)
  qed
qed

lemma floor_le: "0 < (d :: int) \<Longrightarrow> t - t mod d \<le> t" "0 < d \<Longrightarrow> t < t - t mod d + d"
  using pos_mod_sign [of d t] pos_mod_bound [of d t] by simp_all

lemma floor_strict: "0 < (d :: int) \<Longrightarrow> t mod d \<noteq> 0 \<Longrightarrow> t - t mod d < t"
  using pos_mod_sign [of d t] by linarith

lemma floor_dvd: "(d :: int) dvd t - t mod d"
  by (simp add: floor_mult)

lemma floor_least: "0 < (d :: int) \<Longrightarrow> d dvd b \<Longrightarrow> b \<le> t \<Longrightarrow> b \<le> t - t mod d"
  using floor_mono [of d b t] by (simp add: dvd_eq_mod_eq_0)

lemma floor_below: "0 < (d :: int) \<Longrightarrow> d dvd b \<Longrightarrow> t < b + d \<Longrightarrow> t - t mod d \<le> b"
proof -
  assume d: "0 < d" "d dvd b" "t < b + d"
  then obtain k where "b = d * k" by (rule_tac dvdE)
  with d have "d * (t div d) < d * (k + 1)" using floor_le(1) [of d t] by (simp add: floor_mult algebra_simps)
  with d(1) have "t div d \<le> k" by simp
  with d(1) \<open>b = d * k\<close> show ?thesis by (simp add: floor_mult)
qed

lemma coverage_eq:
  "parse_candle_interval tf = Inr i \<Longrightarrow>
   closed_bar_required_coverage a e tf w
     = Inr (a - a mod interval_duration i - interval_duration i * int w, e - e mod interval_duration i)"
  by (simp add: closed_bar_required_coverage_def last_completed_eq algebra_simps)

lemma closed_bar_starts_mem:
  assumes "parse_candle_interval tf = Inr i" "closed_bar_starts a e tf w = Inr starts"
  shows "s \<in> set starts \<longleftrightarrow>
    a - a mod interval_duration i - interval_duration i * int w \<le> s \<and> s + interval_duration i \<le> e
      \<and> interval_duration i dvd s"
proof -
  let ?d = "interval_duration i"
  note d = interval_duration_pos [of i]
  let ?a = "a - a mod ?d - ?d * int w"
  have a: "?d dvd ?a" using floor_dvd [of ?d a] by simp
  have "s \<in> set starts \<longleftrightarrow> ?a \<le> s \<and> s < e - e mod ?d \<and> ?d dvd s - ?a"
    using assms by (auto simp: closed_bar_starts_def coverage_eq bar_starts_mem [OF d] dvd_eq_mod_eq_0)
  moreover have "?d dvd s - ?a \<longleftrightarrow> ?d dvd s" using a dvd_add_left_iff [of ?d ?a "s - ?a"] by simp
  moreover have "s < e - e mod ?d \<longleftrightarrow> s + ?d \<le> e" if "?d dvd s"
    using that floor_least [of ?d "s + ?d" e] floor_le(1) [of ?d e] floor_below [of ?d s e] d by force
  ultimately show ?thesis by blast
qed

section \<open>Loaded bars cover the decisions\<close>

text \<open>C15: The bars a run loads for a coarser clock are exactly enough. For every decision close inside the
  evaluation window, the mapped bar is the last one completed at that close; it is loaded, the full
  warmup of bars before it is loaded too, and no loaded bar is still open when the window ends.\<close>

theorem loaded_bars_cover_every_decision:
  assumes "parse_candle_interval timeframe = Inr i" "closed_bar_starts a e timeframe warmup = Inr starts"
    and "a \<le> t" "t \<le> e" "mapped_htf_start t timeframe = Inr s"
  shows "s + interval_duration i \<le> t \<and> t < s + 2 * interval_duration i
    \<and> (\<forall>k < warmup. s - interval_duration i * int k \<in> set starts)
    \<and> (\<forall>b \<in> set starts. b + interval_duration i \<le> e)"
proof -
  let ?d = "interval_duration i"
  note d = interval_duration_pos [of i] and m = closed_bar_starts_mem [OF assms(1,2)]
  have s: "s = t - t mod ?d - ?d" using assms(1,5) by (simp add: mapped_htf_start_eq)
  have "s - ?d * int k \<in> set starts" if "k < warmup" for k
  proof -
    have "?d * (int k + 1) \<le> ?d * int warmup" using d that by (intro mult_left_mono) auto
    then have "?d + ?d * int k \<le> ?d * int warmup" by (simp add: algebra_simps)
    moreover have "0 \<le> ?d * int k" using d by simp
    moreover have "?d dvd t - t mod ?d - ?d - ?d * int k" using floor_dvd [of ?d t] by simp
    ultimately show ?thesis
      using floor_mono [OF d assms(3)] floor_le(1) [OF d, of t] assms(4)
      unfolding m s by (intro conjI) linarith+
  qed
  with floor_le [OF d, of t] show ?thesis by (simp add: m s)
qed

theorem loaded_bars_cover_every_decision_witness:
  "\<exists>starts. closed_bar_starts (10 * HOUR) (20 * HOUR) ''4h'' 3 = Inr starts
    \<and> mapped_htf_start (13 * HOUR) ''4h'' = Inr (8 * HOUR)
    \<and> 0 \<in> set starts \<and> (\<forall>b \<in> set starts. b + 4 * HOUR \<le> 20 * HOUR)"
proof -
  have p: "parse_candle_interval ''4h'' = Inr FOUR_HOURS" using parse_candle_interval_value [of FOUR_HOURS] by simp
  obtain starts where c: "closed_bar_starts (10 * HOUR) (20 * HOUR) ''4h'' 3 = Inr starts"
    using p by (simp add: closed_bar_starts_def coverage_eq)
  have h: "mapped_htf_start (13 * HOUR) ''4h'' = Inr (8 * HOUR)"
    by (simp add: mapped_htf_start_eq p time_units)
  have w: "8 * HOUR - interval_duration FOUR_HOURS * int k \<in> set starts" if "k < 3" for k
    using loaded_bars_cover_every_decision [OF p c _ _ h] that by (simp add: time_units)
  have "\<forall>b \<in> set starts. b + 4 * HOUR \<le> 20 * HOUR"
    using loaded_bars_cover_every_decision [OF p c _ _ h] by (simp add: time_units)
  with c h w [of 2] show ?thesis by simp
qed

text \<open>The widest evaluation window computed for a dataset never asks it for a bar it does not have:
  any window between the earliest start and the latest end needs only bars that the dataset holds
  complete.\<close>

theorem evaluation_window_fits_dataset:
  assumes "parse_candle_interval timeframe = Inr i" "interval_duration i dvd dataset_start" "interval_duration i dvd dataset_end"
    and "earliest_evaluation_start_for_closed_bar dataset_start timeframe warmup decision = Inr earliest"
    and "latest_evaluation_end_for_closed_bar dataset_end timeframe decision = Inr latest"
    and "earliest \<le> a" "e \<le> latest"
    and "closed_bar_required_coverage a e timeframe warmup = Inr (coverage_start, coverage_end)"
  shows "dataset_start \<le> coverage_start \<and> coverage_end \<le> dataset_end"
proof -
  let ?d = "interval_duration i"
  note d = interval_duration_pos [of i]
  from assms(1,4) obtain j where j: "parse_candle_interval decision = Inr j"
    by (auto simp: earliest_evaluation_start_for_closed_bar_def interval_open_ceil_def)
  have "dataset_start + ?d * int warmup \<le> a"
    using assms(1,4,6) j floor_le(2) [OF interval_duration_pos, of "dataset_start + ?d * int warmup" j]
    by (auto simp: earliest_evaluation_start_for_closed_bar_def interval_open_ceil_def align_closed_end_eq split: if_splits)
  then have s: "dataset_start + ?d * int warmup \<le> a - a mod ?d"
    using assms(2) by (intro floor_least [OF d]) auto
  have "e < dataset_end + ?d"
    using assms(1,5,7) j floor_strict [OF interval_duration_pos, of "dataset_end + ?d" j] interval_duration_pos [of j]
    by (auto simp: latest_evaluation_end_for_closed_bar_def interval_open_floor_before_def align_closed_end_eq split: if_splits)
  then have "e - e mod ?d \<le> dataset_end" by (rule floor_below [OF d assms(3)])
  with s assms(8) show ?thesis by (simp add: coverage_eq [OF assms(1)])
qed

theorem evaluation_window_fits_dataset_witness:
  "earliest_evaluation_start_for_closed_bar 0 ''4h'' 3 ''1h'' = Inr (12 * HOUR)
    \<and> latest_evaluation_end_for_closed_bar (40 * HOUR) ''4h'' ''1h'' = Inr (43 * HOUR)
    \<and> (\<exists>s e. closed_bar_required_coverage (12 * HOUR) (43 * HOUR) ''4h'' 3 = Inr (s, e) \<and> 0 \<le> s \<and> e \<le> 40 * HOUR)"
proof -
  have p: "parse_candle_interval ''4h'' = Inr FOUR_HOURS" "parse_candle_interval ''1h'' = Inr ONE_HOUR"
    using parse_candle_interval_value [of FOUR_HOURS] parse_candle_interval_value [of ONE_HOUR] by simp_all
  have a: "earliest_evaluation_start_for_closed_bar 0 ''4h'' 3 ''1h'' = Inr (12 * HOUR)"
    by (simp add: earliest_evaluation_start_for_closed_bar_def interval_open_ceil_def p align_closed_end_eq time_units)
  have e: "latest_evaluation_end_for_closed_bar (40 * HOUR) ''4h'' ''1h'' = Inr (43 * HOUR)"
    by (simp add: latest_evaluation_end_for_closed_bar_def interval_open_floor_before_def p align_closed_end_eq time_units)
  obtain s f where c: "closed_bar_required_coverage (12 * HOUR) (43 * HOUR) ''4h'' 3 = Inr (s, f)"
    by (simp add: coverage_eq [OF p(1)])
  have "0 \<le> s \<and> f \<le> 40 * HOUR"
    by (rule evaluation_window_fits_dataset [OF p(1) _ _ a e _ _ c]) (simp_all add: time_units)
  with a e c show ?thesis by blast
qed

end
