(* ===== verification/Strategy_Rules.thy ===== *)
theory Strategy_Rules
  imports Signal_Clock Strategy_Policy
begin

text \<open>
  The rule part of a strategy document: instruments and data requirements
  (\<open>strategies/schema/market.py\<close>), entry rules and the higher-timeframe filter
  (\<open>strategies/schema/entry.py\<close>), the read-only queries (\<open>document_queries.py\<close>) and the cross-section
  validation that \<open>StrategyDefinition\<close> runs (\<open>document_validation.py\<close>).

  An error message that lists offending names is its fixed text. The convergence warmup of an
  indicator is an argument of the definitions that need it.
\<close>

section \<open>Instruments and data requirements\<close>

record instrument =
  it_product_id :: string
  it_base_currency :: string
  it_quote_currency :: string
  it_is_future :: bool

definition validate_product_components :: "instrument \<Rightarrow> instrument result" where
  "validate_product_components i =
     (if it_is_future i then
        if \<not> is_futures_product_id (it_product_id i)
        then Inl (ValueError ''a futures instrument needs a CODE-DDMONYY-CDE product_id'')
        else if it_quote_currency i \<noteq> ''USD''
        then Inl (ValueError ''a futures instrument settles in USD (quote_currency USD)'')
        else Inr i
      else if it_product_id i \<noteq> it_base_currency i @ ''-'' @ it_quote_currency i
      then Inl (ValueError ''product_id must match base_currency and quote_currency'')
      else Inr i)"

record reference_instrument =
  rf_id :: string
  rf_product_id :: string
  rf_timeframe :: string

definition reference_quote_currency :: "reference_instrument \<Rightarrow> string result" where
  "reference_quote_currency reference = spot_quote_currency (rf_product_id reference)"

text \<open>\<open>dr_convergence\<close> is the optional warmup policy \<open>convergence\<close>.\<close>

record data_requirements =
  dr_warmup_bars :: nat
  dr_convergence :: bool
  dr_required_fields :: "string list"
  dr_reference_instruments :: "reference_instrument list"

definition require_unique_fields :: "data_requirements \<Rightarrow> unit result" where
  "require_unique_fields d =
     (if distinct (dr_required_fields d) then Inr () else Inl (ValueError ''required_fields must be unique''))"

definition require_unique_references :: "data_requirements \<Rightarrow> unit result" where
  "require_unique_references d =
     (if \<not> distinct (map rf_id (dr_reference_instruments d))
      then Inl (ValueError ''reference_instruments ids must be unique'')
      else if \<not> distinct (map (\<lambda>reference. (rf_product_id reference, rf_timeframe reference)) (dr_reference_instruments d))
      then Inl (ValueError ''reference_instruments must not repeat one product_id and timeframe pair'')
      else Inr ())"

definition MAX_REFERENCE_INSTRUMENTS :: nat where "MAX_REFERENCE_INSTRUMENTS = 3"

text \<open>The field bounds and the two validators of a stored \<open>DataRequirements\<close>.\<close>

definition data_requirements_valid :: "data_requirements \<Rightarrow> bool" where
  "data_requirements_valid d \<longleftrightarrow>
     between 1 10000 (dr_warmup_bars d)
     \<and> between 1 5 (length (dr_required_fields d)) \<and> set (dr_required_fields d) \<subseteq> set IDENTITY_INPUTS
     \<and> length (dr_reference_instruments d) \<le> MAX_REFERENCE_INSTRUMENTS
     \<and> list_all (\<lambda>reference. id_pattern 31 (rf_id reference) \<and> spot_pattern (rf_product_id reference)
          \<and> \<not> isl (parse_candle_interval (rf_timeframe reference))) (dr_reference_instruments d)
     \<and> require_unique_fields d = Inr () \<and> require_unique_references d = Inr ()"

section \<open>Entry rules and the higher-timeframe filter\<close>

record entry_definition =
  en_when :: condition_node
  en_max_open_positions :: nat
  en_pyramiding :: bool

definition validate_condition_complexity :: "entry_definition \<Rightarrow> unit result" where
  "validate_condition_complexity entry = require_bounded_condition_tree (en_when entry)"

definition validate_pyramiding_bounds :: "entry_definition \<Rightarrow> unit result" where
  "validate_pyramiding_bounds entry =
     (if \<not> en_pyramiding entry then
        if en_max_open_positions entry \<noteq> 1
        then Inl (ValueError ''max_open_positions must be 1 unless pyramiding is enabled'') else Inr ()
      else if en_max_open_positions entry < 2
      then Inl (ValueError ''enabled pyramiding requires max_open_positions between 2 and 8'')
      else Inr ())"

record higher_timeframe_filter =
  hf_timeframe :: string
  hf_data_requirements :: data_requirements
  hf_indicators :: "indicator_definition list"
  hf_when :: condition_node

definition require :: "bool \<Rightarrow> string \<Rightarrow> unit result" where
  "require ok message = (if ok then Inr () else Inl (ValueError message))"

definition validate_htf_semantics ::
    "(indicator_definition \<Rightarrow> nat result) \<Rightarrow> higher_timeframe_filter \<Rightarrow> unit result" where
  "validate_htf_semantics convergence_warmup f =
     rbind (require (distinct (map ind_id (hf_indicators f))) ''HTF indicator ids must be unique'') (\<lambda>_.
     rbind (require (referenced_indicator_ids (hf_when f) \<subseteq> set (map ind_id (hf_indicators f)))
              ''unknown HTF indicator references'') (\<lambda>_.
     rbind (require (list_all (\<lambda>i. ind_timeframe i = None) (hf_indicators f)) ''HTF indicators must omit timeframe'') (\<lambda>_.
     rbind (require (list_all (\<lambda>i. ind_source i = None) (hf_indicators f)) ''HTF indicators must omit source'') (\<lambda>_.
     rbind (require (dr_reference_instruments (hf_data_requirements f) = [])
              ''htf_filter.data_requirements must not declare reference_instruments'') (\<lambda>_.
     rbind (require_condition_series (hf_when f) (hf_indicators f)) (\<lambda>_.
     rbind (require (set (concat (map indicator_input_fields (hf_indicators f)))
                       \<subseteq> set (dr_required_fields (hf_data_requirements f)))
              ''HTF required_fields must include every HTF indicator input'') (\<lambda>_.
     rbind (extra_indicator_timeframe_warmup convergence_warmup (dr_convergence (hf_data_requirements f))
              (condition_indicator_operands (hf_when f)) (hf_indicators f)) (\<lambda>required_warmup.
     rbind (require (required_warmup \<le> dr_warmup_bars (hf_data_requirements f))
              ''HTF warmup_bars must cover the longest HTF indicator period'') (\<lambda>_.
       require_bounded_condition_tree (hf_when f))))))))))"

definition htf_required_coverage ::
    "datetime \<Rightarrow> datetime \<Rightarrow> higher_timeframe_filter \<Rightarrow> (datetime \<times> datetime) result" where
  "htf_required_coverage evaluation_starts_at evaluation_ends_at f =
     closed_bar_required_coverage evaluation_starts_at evaluation_ends_at (hf_timeframe f)
       (dr_warmup_bars (hf_data_requirements f))"

definition htf_candle_starts :: "datetime \<Rightarrow> datetime \<Rightarrow> higher_timeframe_filter \<Rightarrow> datetime list result" where
  "htf_candle_starts evaluation_starts_at evaluation_ends_at f =
     closed_bar_starts evaluation_starts_at evaluation_ends_at (hf_timeframe f)
       (dr_warmup_bars (hf_data_requirements f))"

definition htf_bars_closed_at_or_before :: "candle list \<Rightarrow> datetime \<Rightarrow> string \<Rightarrow> candle list result" where
  "htf_bars_closed_at_or_before htf_candles close_at htf_timeframe =
     bars_closed_at_or_before htf_candles close_at htf_timeframe"

section \<open>The document\<close>

record strategy_rules =
  sr_instrument :: instrument
  sr_additional_instruments :: "instrument list"
  sr_timeframe :: string
  sr_data_requirements :: data_requirements
  sr_indicators :: "indicator_definition list"
  sr_htf_filter :: "higher_timeframe_filter option"
  sr_entry :: entry_definition
  sr_max_concurrent_positions :: nat
  sr_exits :: exit_definition
  sr_signal_exit :: "condition_node option"
  sr_derivatives :: bool

definition signal_exit_condition :: "strategy_rules \<Rightarrow> condition_node option" where
  "signal_exit_condition document = sr_signal_exit document"

definition covered_instruments :: "strategy_rules \<Rightarrow> instrument list" where
  "covered_instruments document = sr_instrument document # sr_additional_instruments document"

definition covered_product_ids :: "strategy_rules \<Rightarrow> string list" where
  "covered_product_ids document = map it_product_id (covered_instruments document)"

definition pyramiding_enabled :: "strategy_rules \<Rightarrow> bool" where
  "pyramiding_enabled document = en_pyramiding (sr_entry document)"

definition decision_clock_indicators :: "strategy_rules \<Rightarrow> indicator_definition list" where
  "decision_clock_indicators document =
     filter (\<lambda>indicator. ind_source indicator = None
        \<and> resolved_indicator_timeframe indicator (sr_timeframe document) = sr_timeframe document) (sr_indicators document)"

definition reference_instruments :: "strategy_rules \<Rightarrow> reference_instrument list" where
  "reference_instruments document = dr_reference_instruments (sr_data_requirements document)"

definition reference_indicator_groups :: "strategy_rules \<Rightarrow> (reference_instrument \<times> indicator_definition list) list" where
  "reference_indicator_groups document =
     map (\<lambda>reference. (reference, filter (\<lambda>indicator. ind_source indicator = Some (rf_id reference)) (sr_indicators document)))
       (reference_instruments document)"

definition reference_series :: "strategy_rules \<Rightarrow> (string \<times> string) set" where
  "reference_series document =
     (\<lambda>reference. (rf_product_id reference, rf_timeframe reference)) ` set (reference_instruments document)"

text \<open>Grouping by clock and then listing the clocks in catalog order gives each clock that occurs with
  its indicators in declaration order.\<close>

definition extra_indicator_timeframe_groups :: "strategy_rules \<Rightarrow> (string \<times> indicator_definition list) list" where
  "extra_indicator_timeframe_groups document =
     (let extra = filter (\<lambda>indicator. resolved_indicator_timeframe indicator (sr_timeframe document) \<noteq> sr_timeframe document)
                    (sr_indicators document);
          on_clock = (\<lambda>timeframe. filter (\<lambda>indicator.
                        resolved_indicator_timeframe indicator (sr_timeframe document) = timeframe) extra)
      in map (\<lambda>timeframe. (timeframe, on_clock timeframe))
           (filter (\<lambda>timeframe. on_clock timeframe \<noteq> []) EXECUTION_TIMEFRAMES))"

definition extra_indicator_timeframes :: "strategy_rules \<Rightarrow> string list" where
  "extra_indicator_timeframes document = map fst (extra_indicator_timeframe_groups document)"

definition unbound_indicator_timeframes :: "strategy_rules \<Rightarrow> string list" where
  "unbound_indicator_timeframes document =
     filter (\<lambda>timeframe. Some timeframe \<noteq> map_option hf_timeframe (sr_htf_filter document))
       (extra_indicator_timeframes document)"

definition strategy_indicator_operands :: "strategy_rules \<Rightarrow> indicator_operand list" where
  "strategy_indicator_operands document =
     first_occurrences (concat (map condition_indicator_operands
       ([en_when (sr_entry document)]
        @ (case signal_exit_condition document of None \<Rightarrow> [] | Some exit_condition \<Rightarrow> [exit_condition])
        @ (case sr_htf_filter document of None \<Rightarrow> [] | Some f \<Rightarrow> [hf_when f]))))"

definition decision_and_filter_indicators :: "strategy_rules \<Rightarrow> indicator_definition list" where
  "decision_and_filter_indicators document =
     (case sr_htf_filter document of
        None \<Rightarrow> sr_indicators document
      | Some f \<Rightarrow> sr_indicators document @ hf_indicators f)"

definition strategy_indicator_value_keys :: "strategy_rules \<Rightarrow> string list" where
  "strategy_indicator_value_keys document =
     concat (map indicator_value_keys (decision_and_filter_indicators document))
     @ map operand_value_key (filter (\<lambda>operand. opd_offset operand \<noteq> None) (strategy_indicator_operands document))"

section \<open>Derived data requirements\<close>

record reference_data_requirement =
  rq_reference_id :: string
  rq_product_id :: string
  rq_timeframe :: string
  rq_warmup_bars :: nat
  rq_required_fields :: "string list"

datatype requirement_role = Decision_Role | Filter_Role | Indicator_Role

record timeframe_data_requirement =
  tq_timeframe :: string
  tq_warmup_bars :: nat
  tq_required_fields :: "string list"
  tq_role :: requirement_role

definition group_warmup ::
    "(indicator_definition \<Rightarrow> nat result) \<Rightarrow> strategy_rules \<Rightarrow> indicator_definition list \<Rightarrow> nat result" where
  "group_warmup convergence_warmup document indicators =
     extra_indicator_timeframe_warmup convergence_warmup (dr_convergence (sr_data_requirements document))
       (strategy_indicator_operands document) indicators"

fun reference_requirements ::
    "(indicator_definition \<Rightarrow> nat result) \<Rightarrow> strategy_rules \<Rightarrow> (reference_instrument \<times> indicator_definition list) list
     \<Rightarrow> reference_data_requirement list result" where
  "reference_requirements convergence_warmup document [] = Inr []"
| "reference_requirements convergence_warmup document ((reference, indicators) # groups) =
     (if indicators = [] then reference_requirements convergence_warmup document groups
      else rbind (group_warmup convergence_warmup document indicators) (\<lambda>bars.
           rbind (reference_requirements convergence_warmup document groups) (\<lambda>rest.
             Inr (\<lparr>rq_reference_id = rf_id reference, rq_product_id = rf_product_id reference,
                   rq_timeframe = rf_timeframe reference, rq_warmup_bars = bars,
                   rq_required_fields = extra_indicator_required_fields indicators\<rparr> # rest))))"

definition reference_data_requirements ::
    "(indicator_definition \<Rightarrow> nat result) \<Rightarrow> strategy_rules \<Rightarrow> reference_data_requirement list result" where
  "reference_data_requirements convergence_warmup document =
     reference_requirements convergence_warmup document (reference_indicator_groups document)"

fun clock_requirements ::
    "(indicator_definition \<Rightarrow> nat result) \<Rightarrow> strategy_rules \<Rightarrow> (string \<times> indicator_definition list) list
     \<Rightarrow> timeframe_data_requirement list result" where
  "clock_requirements convergence_warmup document [] = Inr []"
| "clock_requirements convergence_warmup document ((timeframe, indicators) # groups) =
     (if map_option hf_timeframe (sr_htf_filter document) = Some timeframe
      then clock_requirements convergence_warmup document groups
      else rbind (group_warmup convergence_warmup document indicators) (\<lambda>bars.
           rbind (clock_requirements convergence_warmup document groups) (\<lambda>rest.
             Inr (\<lparr>tq_timeframe = timeframe, tq_warmup_bars = bars,
                   tq_required_fields = extra_indicator_required_fields indicators, tq_role = Indicator_Role\<rparr> # rest))))"

definition own_requirement :: "string \<Rightarrow> data_requirements \<Rightarrow> requirement_role \<Rightarrow> timeframe_data_requirement" where
  "own_requirement timeframe d role =
     \<lparr>tq_timeframe = timeframe, tq_warmup_bars = dr_warmup_bars d,
      tq_required_fields = dr_required_fields d, tq_role = role\<rparr>"

definition expanded_data_requirements ::
    "(indicator_definition \<Rightarrow> nat result) \<Rightarrow> strategy_rules \<Rightarrow> timeframe_data_requirement list result" where
  "expanded_data_requirements convergence_warmup document =
     rbind (clock_requirements convergence_warmup document (extra_indicator_timeframe_groups document)) (\<lambda>extra.
       Inr (own_requirement (sr_timeframe document) (sr_data_requirements document) Decision_Role
            # (case sr_htf_filter document of
                 None \<Rightarrow> []
               | Some f \<Rightarrow> [own_requirement (hf_timeframe f) (hf_data_requirements f) Filter_Role])
            @ extra))"

section \<open>Cross-section validation\<close>

definition MAX_STRATEGY_INSTRUMENTS :: nat where "MAX_STRATEGY_INSTRUMENTS = 8"

definition lockstep_product_ids :: "strategy_rules \<Rightarrow> string list" where
  "lockstep_product_ids document = sort (covered_product_ids document)"

definition validate_covered_instruments :: "strategy_rules \<Rightarrow> unit result" where
  "validate_covered_instruments document =
     (let products = covered_product_ids document
      in rbind (require (distinct products) ''additional_instruments must be unique and exclude instrument.product_id'') (\<lambda>_.
         rbind (require (length products \<le> MAX_STRATEGY_INSTRUMENTS) ''a strategy document may cover at most 8 spot products'') (\<lambda>_.
         rbind (require (card (set (map it_quote_currency (covered_instruments document))) = 1)
                  ''all covered instruments must share one quote currency'') (\<lambda>_.
           require (sr_max_concurrent_positions document \<le> length products)
             ''max_concurrent_positions cannot exceed the number of covered products''))))"

definition validate_derivatives :: "strategy_rules \<Rightarrow> unit result" where
  "validate_derivatives document =
     rbind (require (\<not> list_ex it_is_future (sr_additional_instruments document))
              ''additional_instruments must be spot; futures are single-instrument'') (\<lambda>_.
       if \<not> it_is_future (sr_instrument document)
       then require (\<not> sr_derivatives document) ''derivatives is only allowed with instrument.kind future''
       else
         rbind (require (sr_derivatives document) ''a futures strategy needs a derivatives block (max_leverage)'') (\<lambda>_.
         rbind (require (sr_additional_instruments document = [])
                  ''a futures strategy cannot cover additional instruments (P3)'') (\<lambda>_.
           require (\<not> en_pyramiding (sr_entry document))
             ''a futures strategy cannot pyramid in P1 (one position per book)'')))"

definition require_atr_indicator :: "indicator_definition list \<Rightarrow> string \<Rightarrow> string \<Rightarrow> string \<Rightarrow> unit result" where
  "require_atr_indicator indicators indicator_id role decision_timeframe =
     (case List.find (\<lambda>item. ind_id item = indicator_id) indicators of
        None \<Rightarrow> Inl (ValueError (role @ '' indicator must reference an ATR''))
      | Some atr \<Rightarrow>
          if ind_kind atr \<noteq> ATR then Inl (ValueError (role @ '' indicator must reference an ATR''))
          else if ind_source atr \<noteq> None
          then Inl (ValueError (role @ '' ATR must read the traded instrument, not a reference instrument''))
          else if resolved_indicator_timeframe atr decision_timeframe \<noteq> decision_timeframe
          then Inl (ValueError (role @ '' ATR must use the strategy decision timeframe''))
          else Inr ())"

definition require_htf_coverage_for_shared_indicator_clock ::
    "(indicator_definition \<Rightarrow> nat result) \<Rightarrow> strategy_rules \<Rightarrow> unit result" where
  "require_htf_coverage_for_shared_indicator_clock convergence_warmup document =
     (case sr_htf_filter document of
        None \<Rightarrow> Inr ()
      | Some f \<Rightarrow>
          rbind (require (dr_convergence (hf_data_requirements f) = dr_convergence (sr_data_requirements document))
                   ''HTF warmup_policy must match the warmup_policy of the strategy'') (\<lambda>_.
          case map_of (extra_indicator_timeframe_groups document) (hf_timeframe f) of
            None \<Rightarrow> Inr ()
          | Some shared \<Rightarrow>
              rbind (group_warmup convergence_warmup document shared) (\<lambda>needed_warmup.
              rbind (require (needed_warmup \<le> dr_warmup_bars (hf_data_requirements f))
                       ''HTF warmup_bars must cover extra indicators on the HTF timeframe'') (\<lambda>_.
                require (set (extra_indicator_required_fields shared) \<subseteq> set (dr_required_fields (hf_data_requirements f)))
                  ''HTF required_fields must include extra indicators on the HTF timeframe''))))"

definition validate_indicator_timeframes ::
    "(indicator_definition \<Rightarrow> nat result) \<Rightarrow> strategy_rules \<Rightarrow> unit result" where
  "validate_indicator_timeframes convergence_warmup document =
     rbind (require (list_all (\<lambda>indicator.
               resolved_indicator_timeframe indicator (sr_timeframe document) = sr_timeframe document
               \<or> is_valid_htf_pair (sr_timeframe document) (resolved_indicator_timeframe indicator (sr_timeframe document)))
              (sr_indicators document))
             ''indicator timeframe must be strictly coarser than the strategy decision timeframe and an integer multiple of it'')
       (\<lambda>_. require_htf_coverage_for_shared_indicator_clock convergence_warmup document)"

definition stop_references :: "exit_definition \<Rightarrow> string list" where
  "stop_references exits =
     as_atr_indicator (x_initial_stop exits)
     # (case atr_trailing_stop exits of None \<Rightarrow> [] | Some (atr_indicator, _) \<Rightarrow> [atr_indicator])"

definition validate_decision_indicators ::
    "(indicator_definition \<Rightarrow> nat result) \<Rightarrow> strategy_rules \<Rightarrow> unit result" where
  "validate_decision_indicators convergence_warmup document =
     (let known = map ind_id (sr_indicators document)
      in rbind (require (distinct known) ''indicator ids must be unique'') (\<lambda>_.
         rbind (require (referenced_indicator_ids (en_when (sr_entry document)) \<union> set (stop_references (sr_exits document))
                           \<subseteq> set known) ''unknown indicator references'') (\<lambda>_.
         rbind (require_condition_series (en_when (sr_entry document)) (sr_indicators document)) (\<lambda>_.
         rbind (require_atr_indicator (sr_indicators document) (as_atr_indicator (x_initial_stop (sr_exits document)))
                  ''initial stop'' (sr_timeframe document)) (\<lambda>_.
         rbind (case atr_trailing_stop (sr_exits document) of
                  None \<Rightarrow> Inr ()
                | Some (atr_indicator, _) \<Rightarrow>
                    require_atr_indicator (sr_indicators document) atr_indicator ''trailing stop'' (sr_timeframe document)) (\<lambda>_.
         rbind (validate_indicator_timeframes convergence_warmup document) (\<lambda>_.
         rbind (require (set (concat (map indicator_input_fields (decision_clock_indicators document)))
                           \<subseteq> set (dr_required_fields (sr_data_requirements document)))
                  ''required_fields must include every indicator input'') (\<lambda>_.
         rbind (group_warmup convergence_warmup document (decision_clock_indicators document)) (\<lambda>required_warmup.
           require (required_warmup \<le> dr_warmup_bars (sr_data_requirements document))
             ''warmup_bars must cover the longest indicator period'')))))))))"

fun reference_checks :: "strategy_rules \<Rightarrow> reference_instrument list \<Rightarrow> unit result" where
  "reference_checks document [] = Inr ()"
| "reference_checks document (reference # references) =
     rbind (reference_quote_currency reference) (\<lambda>quote.
     rbind (require (quote = it_quote_currency (sr_instrument document))
              ''reference instrument must use the strategy quote currency'') (\<lambda>_.
     rbind (require (is_valid_reference_pair (sr_timeframe document) (rf_timeframe reference))
              ''reference instrument timeframe must equal the strategy timeframe or be a coarser integer multiple of it'') (\<lambda>_.
       reference_checks document references)))"

definition indicator_sources :: "strategy_rules \<Rightarrow> string list" where
  "indicator_sources document =
     concat (map (\<lambda>indicator. case ind_source indicator of None \<Rightarrow> [] | Some source \<Rightarrow> [source]) (sr_indicators document))"

definition validate_reference_instruments :: "strategy_rules \<Rightarrow> unit result" where
  "validate_reference_instruments document =
     (let declared = set (map rf_id (reference_instruments document)); sources = set (indicator_sources document)
      in rbind (require (sources \<subseteq> declared)
                  ''indicator source must name a declared data_requirements.reference_instruments id'') (\<lambda>_.
         rbind (reference_checks document (reference_instruments document)) (\<lambda>_.
           require (declared \<subseteq> sources) ''every reference instrument must be read by at least one indicator source'')))"

definition validate_signal_exit :: "strategy_rules \<Rightarrow> unit result" where
  "validate_signal_exit document =
     (case signal_exit_condition document of
        None \<Rightarrow> Inr ()
      | Some condition \<Rightarrow>
          let references = referenced_indicator_ids condition;
              known = set (map ind_id (sr_indicators document));
              htf_ids = (case sr_htf_filter document of None \<Rightarrow> {} | Some f \<Rightarrow> set (map ind_id (hf_indicators f)))
          in rbind (require ((references - known) \<inter> htf_ids = {})
                      ''exits.signal_exit cannot reference HTF filter indicators'') (\<lambda>_.
             rbind (require (references \<subseteq> known) ''unknown exits.signal_exit indicator references'') (\<lambda>_.
               require_condition_series condition (sr_indicators document))))"

definition validate_htf_filter :: "strategy_rules \<Rightarrow> unit result" where
  "validate_htf_filter document =
     (case sr_htf_filter document of
        None \<Rightarrow> Inr ()
      | Some f \<Rightarrow>
          rbind (require (is_valid_htf_pair (sr_timeframe document) (hf_timeframe f))
                   ''htf_filter.timeframe must be strictly coarser than the strategy decision timeframe and an integer multiple of it'') (\<lambda>_.
            require (set (map ind_id (sr_indicators document)) \<inter> set (map ind_id (hf_indicators f)) = {})
              ''HTF indicator ids must not reuse decision indicators''))"

definition validate_semantics :: "(indicator_definition \<Rightarrow> nat result) \<Rightarrow> strategy_rules \<Rightarrow> unit result" where
  "validate_semantics convergence_warmup document =
     rbind (validate_covered_instruments document) (\<lambda>_.
     rbind (validate_derivatives document) (\<lambda>_.
     rbind (validate_decision_indicators convergence_warmup document) (\<lambda>_.
     rbind (validate_reference_instruments document) (\<lambda>_.
     rbind (validate_signal_exit document) (\<lambda>_.
       validate_htf_filter document)))))"

text \<open>A rule tree as its models accept it: well-formed operands, crossings of two indicators, and
  between one and twenty children of a group.\<close>

fun condition_valid :: "condition_node \<Rightarrow> bool" where
  "condition_valid (ComparisonCondition c) \<longleftrightarrow>
     list_all operand_valid (comparison_operands c) \<and> validate_cross_operands c = Inr ()"
| "condition_valid (NotCondition child) \<longleftrightarrow> condition_valid child"
| "condition_valid (AllCondition children) \<longleftrightarrow> between 1 20 (length children) \<and> list_all condition_valid children"
| "condition_valid (AnyCondition children) \<longleftrightarrow> between 1 20 (length children) \<and> list_all condition_valid children"

text \<open>Everything construction of a document checks: its parts first, then the cross-section rules.\<close>

definition document_valid :: "(indicator_definition \<Rightarrow> nat result) \<Rightarrow> strategy_rules \<Rightarrow> bool" where
  "document_valid convergence_warmup document \<longleftrightarrow>
     \<not> isl (parse_candle_interval (sr_timeframe document))
     \<and> data_requirements_valid (sr_data_requirements document)
     \<and> list_all indicator_valid (sr_indicators document) \<and> between 1 20 (length (sr_indicators document))
     \<and> condition_valid (en_when (sr_entry document)) \<and> validate_condition_complexity (sr_entry document) = Inr ()
     \<and> validate_pyramiding_bounds (sr_entry document) = Inr ()
     \<and> (case signal_exit_condition document of
          None \<Rightarrow> True
        | Some condition \<Rightarrow> condition_valid condition \<and> require_bounded_condition_tree condition = Inr ())
     \<and> (case sr_htf_filter document of
          None \<Rightarrow> True
        | Some f \<Rightarrow> condition_valid (hf_when f) \<and> \<not> isl (parse_candle_interval (hf_timeframe f)) \<and> data_requirements_valid (hf_data_requirements f)
            \<and> list_all indicator_valid (hf_indicators f) \<and> between 1 20 (length (hf_indicators f))
            \<and> validate_htf_semantics convergence_warmup f = Inr ())
     \<and> validate_semantics convergence_warmup document = Inr ()"

end
