(* ===== verification/Signal_Trace.thy ===== *)
theory Signal_Trace
  imports Indicators Strategy_Rules
begin

text \<open>
  The signal evaluator (\<open>evaluation/signal_evaluator.py\<close>): which candles a run reads, the indicator
  rows of the decision clock, of coarser clocks, of the higher-timeframe filter and of reference
  instruments, how rows of other clocks are held onto a decision close, and the trace records.

  Timestamps are UTC instants, so the checks for naive timestamps have no counterpart; a candle's
  decimals are values, so the 64-digit limit is on the value. The strategy fingerprint and the
  convergence warmup are arguments.
\<close>

section \<open>Run specification\<close>

record reference_dataset =
  rd_reference_id :: string
  rd_product_id :: string
  rd_timeframe :: string
  rd_fingerprint :: string

record signal_request =
  rs_strategy_fingerprint :: string
  rs_htf_dataset :: "string option"
  rs_indicator_datasets :: "(string \<times> string) list"
  rs_reference_datasets :: "reference_dataset list"
  rs_evaluation_starts_at :: datetime
  rs_evaluation_ends_at :: datetime
  rs_warmup_bars :: nat
  rs_warmup_starts_at :: datetime

definition bounds_aligned :: "candle_interval \<Rightarrow> signal_request \<Rightarrow> bool" where
  "bounds_aligned interval spec \<longleftrightarrow>
     list_all (\<lambda>stamp. align_closed_end interval stamp = Inr stamp)
       [rs_warmup_starts_at spec, rs_evaluation_starts_at spec, rs_evaluation_ends_at spec]"

fun bar_interval_among :: "candle_interval list \<Rightarrow> signal_request \<Rightarrow> candle_interval result" where
  "bar_interval_among [] spec =
     Inl (ValueError ''warmup starts_at must equal evaluation starts_at minus the declared warmup bars'')"
| "bar_interval_among (interval # intervals) spec =
     (if \<not> execution_supported interval then bar_interval_among intervals spec
      else if rs_evaluation_starts_at spec - rs_warmup_starts_at spec
                \<noteq> interval_duration interval * int (rs_warmup_bars spec)
      then bar_interval_among intervals spec
      else if \<not> bounds_aligned interval spec
      then Inl (ValueError ''warmup and evaluation bounds must align to the inferred candle interval'')
      else Inr interval)"

definition specification_bar_interval :: "signal_request \<Rightarrow> candle_interval result" where
  "specification_bar_interval spec = bar_interval_among candle_intervals spec"

definition warmup_starts_at :: "datetime \<Rightarrow> nat \<Rightarrow> string \<Rightarrow> datetime result" where
  "warmup_starts_at evaluation_starts_at bars timeframe =
     rbind (parse_candle_interval timeframe) (\<lambda>interval.
       if \<not> execution_supported interval
       then Inl (ValueError ''warmup windows require an ingested venue strategy timeframe.'')
       else Inr (evaluation_starts_at - interval_duration interval * int bars))"

definition verify_contract :: "(strategy_rules \<Rightarrow> string) \<Rightarrow> signal_request \<Rightarrow> strategy_rules \<Rightarrow> unit result" where
  "verify_contract strategy_fingerprint spec strategy =
     rbind (require (strategy_fingerprint strategy = rs_strategy_fingerprint spec)
              ''Research run strategy identity failed verification.'') (\<lambda>_.
     rbind (require (rs_warmup_bars spec = dr_warmup_bars (sr_data_requirements strategy))
              ''Research run warmup does not match the strategy requirement.'') (\<lambda>_.
     rbind (specification_bar_interval spec) (\<lambda>interval.
     rbind (parse_candle_interval (sr_timeframe strategy)) (\<lambda>clock.
     rbind (require (interval = clock)
              ''Research run bar spacing does not match the published strategy timeframe.'') (\<lambda>_.
     rbind (require ((sr_htf_filter strategy \<noteq> None) = (rs_htf_dataset spec \<noteq> None))
              ''Research run HTF dataset identity does not match the published strategy.'') (\<lambda>_.
     rbind (require (map fst (rs_indicator_datasets spec) = unbound_indicator_timeframes strategy)
              ''Research run indicator-timeframe datasets do not match the published strategy.'') (\<lambda>_.
       require (map (\<lambda>item. (rd_reference_id item, rd_product_id item, rd_timeframe item)) (rs_reference_datasets spec)
                  = map (\<lambda>reference. (rf_id reference, rf_product_id reference, rf_timeframe reference)) (reference_instruments strategy))
         ''Research run reference-instrument datasets do not match the published strategy.'')))))))"

section \<open>Candle windows\<close>

definition within_decimal_contract :: "decimal \<Rightarrow> bool" where
  "within_decimal_contract v \<longleftrightarrow>
     dec_is_finite v \<and> fixp 64 v = v \<and> (v = 0 \<or> (-6143 \<le> adjusted v \<and> adjusted v \<le> 6144))"

definition invalid_ohlc_geometry :: "candle \<Rightarrow> bool" where
  "invalid_ohlc_geometry c \<longleftrightarrow>
     (if k_open c \<le> 0 \<or> k_high c \<le> 0 \<or> k_low c \<le> 0 \<or> k_close c \<le> 0 then True
      else if k_low c > k_high c \<or> k_volume c < 0 then True
      else if k_open c < k_low c \<or> k_open c > k_high c then True
      else k_close c < k_low c \<or> k_close c > k_high c)"

definition require_ohlcv_contract :: "candle \<Rightarrow> unit result" where
  "require_ohlcv_contract c =
     (if list_ex (\<lambda>v. \<not> within_decimal_contract v) [k_open c, k_high c, k_low c, k_close c, k_volume c]
      then Inl (ValueError ''Signal evaluation candles violate OHLCV Decimal limits.'')
      else if invalid_ohlc_geometry c
      then Inl (ValueError ''Signal evaluation candles violate OHLCV invariants.'')
      else Inr ())"

definition select_window_candles :: "signal_request \<Rightarrow> candle list \<Rightarrow> candle list" where
  "select_window_candles spec candles =
     filter (\<lambda>c. rs_warmup_starts_at spec \<le> k_starts_at c \<and> k_starts_at c < rs_evaluation_ends_at spec) candles"

fun require_contiguous :: "datetime \<Rightarrow> timedelta \<Rightarrow> candle list \<Rightarrow> unit result" where
  "require_contiguous expected_start bar [] = Inr ()"
| "require_contiguous expected_start bar (c # candles) =
     (if k_starts_at c \<noteq> expected_start
      then Inl (ValueError ''Signal evaluation candles are not contiguous UTC bars.'')
      else rbind (require_ohlcv_contract c) (\<lambda>_. require_contiguous (expected_start + bar) bar candles))"

definition required_candles :: "signal_request \<Rightarrow> candle list \<Rightarrow> candle list result" where
  "required_candles spec candles =
     (let selected = select_window_candles spec candles
      in rbind (specification_bar_interval spec) (\<lambda>interval.
         let bar = interval_duration interval;
             expected_count = int (rs_warmup_bars spec) + (rs_evaluation_ends_at spec - rs_evaluation_starts_at spec) div bar
         in if int (length selected) \<noteq> expected_count
            then Inl (ValueError ''Signal evaluation candle coverage is incomplete or duplicated.'')
            else rbind (require_contiguous (rs_warmup_starts_at spec) bar selected) (\<lambda>_. Inr selected)))"

fun candles_at :: "(datetime \<rightharpoonup> candle) \<Rightarrow> datetime list \<Rightarrow> candle list result" where
  "candles_at by_start [] = Inr []"
| "candles_at by_start (start # starts) =
     (case by_start start of
        None \<Rightarrow> Inl (ValueError ''HTF candle coverage is incomplete or not contiguous.'')
      | Some c \<Rightarrow>
          rbind (require_ohlcv_contract c) (\<lambda>_.
          rbind (candles_at by_start starts) (\<lambda>rest. Inr (c # rest))))"

definition required_htf_candles :: "datetime list \<Rightarrow> candle list \<Rightarrow> candle list result" where
  "required_htf_candles expected_starts candles =
     rbind (index_candles_by_start candles) (\<lambda>by_start. candles_at by_start expected_starts)"

section \<open>Rows of each clock\<close>

type_synonym rows_by_start = "datetime \<rightharpoonup> value_row"

text \<open>A failed calculation becomes an evaluation error; a \<open>KeyError\<close> is not caught.\<close>

definition calculated :: "string \<Rightarrow> 'a result \<Rightarrow> 'a result" where
  "calculated message r =
     (case r of Inr rows \<Rightarrow> Inr rows | Inl KeyError \<Rightarrow> Inl KeyError | Inl _ \<Rightarrow> Inl (ValueError message))"

definition keyed_by_start :: "candle list \<Rightarrow> value_row list \<Rightarrow> rows_by_start" where
  "keyed_by_start selected rows = map_of (zip (map k_starts_at selected) rows)"

definition clock_rows ::
    "string \<Rightarrow> indicator_definition list \<Rightarrow> indicator_operand list \<Rightarrow> candle list \<Rightarrow> rows_by_start result" where
  "clock_rows message indicators operands selected =
     rbind (calculated message (calculate_indicator_rows indicators selected operands)) (\<lambda>rows.
       Inr (keyed_by_start selected rows))"

definition calculate_htf_indicator_rows ::
    "strategy_rules \<Rightarrow> candle list \<Rightarrow> datetime \<Rightarrow> datetime \<Rightarrow> rows_by_start result" where
  "calculate_htf_indicator_rows strategy htf_candles evaluation_starts_at evaluation_ends_at =
     (case sr_htf_filter strategy of
        None \<Rightarrow>
          if htf_candles \<noteq> [] then Inl (ValueError ''HTF candles were supplied without an HTF filter.'')
          else Inr Map.empty
      | Some f \<Rightarrow>
          if htf_candles = [] then Inl (ValueError ''HTF candles are required for an HTF-filter strategy.'')
          else rbind (htf_candle_starts evaluation_starts_at evaluation_ends_at f) (\<lambda>expected_starts.
               rbind (required_htf_candles expected_starts htf_candles) (\<lambda>selected.
                 clock_rows ''HTF indicator calculation failed under the deterministic Decimal contract.''
                   (hf_indicators f) (strategy_indicator_operands strategy) selected)))"

definition htf_indicator_rows :: "signal_request \<Rightarrow> strategy_rules \<Rightarrow> candle list \<Rightarrow> rows_by_start result" where
  "htf_indicator_rows spec strategy htf_candles =
     (case sr_htf_filter strategy of
        None \<Rightarrow>
          if rs_htf_dataset spec \<noteq> None
          then Inl (ValueError ''Research run HTF dataset is not declared by the published strategy.'')
          else calculate_htf_indicator_rows strategy htf_candles (rs_evaluation_starts_at spec) (rs_evaluation_ends_at spec)
      | Some _ \<Rightarrow>
          if rs_htf_dataset spec = None
          then Inl (ValueError ''Research run HTF dataset fingerprint is required for an HTF-filter strategy.'')
          else calculate_htf_indicator_rows strategy htf_candles (rs_evaluation_starts_at spec) (rs_evaluation_ends_at spec))"

definition extra_clock_candles ::
    "strategy_rules \<Rightarrow> (string \<rightharpoonup> candle list) \<Rightarrow> candle list \<Rightarrow> string \<Rightarrow> candle list" where
  "extra_clock_candles strategy extra_candles htf_candles timeframe =
     (case extra_candles timeframe of
        Some candles \<Rightarrow> candles
      | None \<Rightarrow> if Some timeframe = map_option hf_timeframe (sr_htf_filter strategy) then htf_candles else [])"

fun extra_rows_of ::
    "(indicator_definition \<Rightarrow> nat result) \<Rightarrow> strategy_rules \<Rightarrow> (string \<rightharpoonup> candle list) \<Rightarrow> candle list \<Rightarrow> datetime \<Rightarrow> datetime
     \<Rightarrow> (string \<times> indicator_definition list) list \<Rightarrow> (string \<times> rows_by_start) list result" where
  "extra_rows_of convergence_warmup strategy extra_candles htf_candles starts_at ends_at [] = Inr []"
| "extra_rows_of convergence_warmup strategy extra_candles htf_candles starts_at ends_at ((timeframe, indicators) # groups) =
     (let candles = extra_clock_candles strategy extra_candles htf_candles timeframe
      in if candles = [] then Inl (ValueError (''Candles are required for indicator timeframe '' @ timeframe @ ''.''))
         else rbind (group_warmup convergence_warmup strategy indicators) (\<lambda>bars.
              rbind (closed_bar_starts starts_at ends_at timeframe bars) (\<lambda>expected_starts.
              rbind (required_htf_candles expected_starts candles) (\<lambda>selected.
              rbind (clock_rows ''Indicator-timeframe calculation failed under the deterministic Decimal contract.''
                       indicators (strategy_indicator_operands strategy) selected) (\<lambda>rows.
              rbind (extra_rows_of convergence_warmup strategy extra_candles htf_candles starts_at ends_at groups) (\<lambda>rest.
                Inr ((timeframe, rows) # rest)))))))"

definition calculate_extra_indicator_rows ::
    "(indicator_definition \<Rightarrow> nat result) \<Rightarrow> strategy_rules \<Rightarrow> (string \<rightharpoonup> candle list) \<Rightarrow> candle list \<Rightarrow> datetime \<Rightarrow> datetime
     \<Rightarrow> (string \<times> rows_by_start) list result" where
  "calculate_extra_indicator_rows convergence_warmup strategy extra_candles htf_candles starts_at ends_at =
     extra_rows_of convergence_warmup strategy extra_candles htf_candles starts_at ends_at
       (extra_indicator_timeframe_groups strategy)"

definition reference_window :: "candle list \<Rightarrow> datetime list \<Rightarrow> bool \<Rightarrow> candle list option result" where
  "reference_window candles expected_starts strict =
     (if candles = []
      then if strict then Inl (ValueError ''Candles are required for reference instrument.'') else Inr None
      else case required_htf_candles expected_starts candles of
             Inr selected \<Rightarrow> Inr (Some selected)
           | Inl _ \<Rightarrow>
               if strict
               then Inl (ValueError ''Reference instrument candle coverage is incomplete or not contiguous.'')
               else Inr None)"

fun reference_rows_of ::
    "(indicator_definition \<Rightarrow> nat result) \<Rightarrow> strategy_rules \<Rightarrow> (string \<rightharpoonup> candle list) \<Rightarrow> datetime \<Rightarrow> datetime \<Rightarrow> bool
     \<Rightarrow> (reference_instrument \<times> indicator_definition list) list \<Rightarrow> (string \<times> rows_by_start) list result" where
  "reference_rows_of convergence_warmup strategy reference_candles starts_at ends_at strict [] = Inr []"
| "reference_rows_of convergence_warmup strategy reference_candles starts_at ends_at strict ((reference, indicators) # groups) =
     rbind (group_warmup convergence_warmup strategy indicators) (\<lambda>bars.
     rbind (closed_bar_starts starts_at ends_at (rf_timeframe reference) bars) (\<lambda>expected_starts.
     rbind (reference_window (or_else (reference_candles (rf_id reference)) []) expected_starts strict) (\<lambda>window.
       case window of
         None \<Rightarrow> reference_rows_of convergence_warmup strategy reference_candles starts_at ends_at strict groups
       | Some selected \<Rightarrow>
           rbind (clock_rows ''Reference indicator calculation failed under the deterministic Decimal contract.''
                    indicators (strategy_indicator_operands strategy) selected) (\<lambda>rows.
           rbind (reference_rows_of convergence_warmup strategy reference_candles starts_at ends_at strict groups) (\<lambda>rest.
             Inr ((rf_id reference, rows) # rest))))))"

text \<open>The supplied reference candles are a dictionary, here an association list.\<close>

definition calculate_reference_indicator_rows ::
    "(indicator_definition \<Rightarrow> nat result) \<Rightarrow> strategy_rules \<Rightarrow> (string \<times> candle list) list \<Rightarrow> datetime \<Rightarrow> datetime \<Rightarrow> bool
     \<Rightarrow> (string \<times> rows_by_start) list result" where
  "calculate_reference_indicator_rows convergence_warmup strategy reference_candles starts_at ends_at strict =
     (if \<not> set (map fst reference_candles) \<subseteq> set (map rf_id (reference_instruments strategy)) \<and> strict
      then Inl (ValueError ''Reference candles were supplied for undeclared reference instruments.'')
      else reference_rows_of convergence_warmup strategy (map_of reference_candles) starts_at ends_at strict
             (reference_indicator_groups strategy))"

section \<open>Holding other clocks onto a decision close\<close>

definition update_row :: "value_row \<Rightarrow> value_row \<Rightarrow> value_row" where
  "update_row current mapped = current ++ mapped"

definition mapped_row :: "rows_by_start \<Rightarrow> datetime \<Rightarrow> string \<Rightarrow> string \<Rightarrow> value_row result" where
  "mapped_row rows close_at timeframe message =
     rbind (mapped_htf_start close_at timeframe) (\<lambda>start.
       case rows start of None \<Rightarrow> Inl (ValueError message) | Some mapped \<Rightarrow> Inr mapped)"

fun overlay_extra_rows ::
    "datetime \<Rightarrow> datetime option \<Rightarrow> (string \<times> rows_by_start) list \<Rightarrow> value_row \<Rightarrow> value_row option
     \<Rightarrow> (value_row \<times> value_row option) result" where
  "overlay_extra_rows current_close previous_close [] current previous = Inr (current, previous)"
| "overlay_extra_rows current_close previous_close ((timeframe, rows) # extra_rows) current previous =
     rbind (mapped_row rows current_close timeframe ''Indicator timeframe alignment missed a last completed bar.'') (\<lambda>mapped.
     rbind (case (previous, previous_close) of
              (Some before, Some close) \<Rightarrow>
                rbind (mapped_row rows close timeframe ''Indicator timeframe alignment missed a previous completed bar.'')
                  (\<lambda>held. Inr (Some (update_row before held)))
            | _ \<Rightarrow> Inr previous) (\<lambda>before.
       overlay_extra_rows current_close previous_close extra_rows (update_row current mapped) before))"

definition mapped_reference_row :: "rows_by_start option \<Rightarrow> datetime \<Rightarrow> string \<Rightarrow> value_row option result" where
  "mapped_reference_row rows close_at timeframe =
     (case rows of
        None \<Rightarrow> Inr None
      | Some by_start \<Rightarrow> rbind (mapped_htf_start close_at timeframe) (\<lambda>start. Inr (by_start start)))"

definition undefined_keys :: "indicator_definition list \<Rightarrow> value_row" where
  "undefined_keys indicators = map_of (map (\<lambda>key. (key, None)) (concat (map indicator_value_keys indicators)))"

definition held_reference ::
    "rows_by_start option \<Rightarrow> datetime \<Rightarrow> string \<Rightarrow> indicator_definition list \<Rightarrow> bool \<Rightarrow> string \<Rightarrow> value_row result" where
  "held_reference rows close_at timeframe indicators strict message =
     rbind (mapped_reference_row rows close_at timeframe) (\<lambda>mapped.
       case mapped of
         Some row \<Rightarrow> Inr row
       | None \<Rightarrow> if strict then Inl (ValueError message) else Inr (undefined_keys indicators))"

fun overlay_reference_values ::
    "(reference_instrument \<times> indicator_definition list) list \<Rightarrow> datetime \<Rightarrow> datetime option \<Rightarrow> (string \<times> rows_by_start) list
     \<Rightarrow> bool \<Rightarrow> value_row \<Rightarrow> value_row option \<Rightarrow> (value_row \<times> value_row option) result" where
  "overlay_reference_values [] current_close previous_close reference_rows strict current previous = Inr (current, previous)"
| "overlay_reference_values ((reference, indicators) # groups) current_close previous_close reference_rows strict current previous =
     (let rows = map_of reference_rows (rf_id reference)
      in rbind (held_reference rows current_close (rf_timeframe reference) indicators strict
                  ''Reference instrument alignment missed a last completed bar.'') (\<lambda>mapped.
         rbind (case (previous, previous_close) of
                  (Some before, Some close) \<Rightarrow>
                    rbind (held_reference rows close (rf_timeframe reference) indicators strict
                             ''Reference instrument alignment missed a previous completed bar.'')
                      (\<lambda>held. Inr (Some (update_row before held)))
                | _ \<Rightarrow> Inr previous) (\<lambda>before.
           overlay_reference_values groups current_close previous_close reference_rows strict (update_row current mapped) before)))"

definition optional_close :: "datetime option \<Rightarrow> string \<Rightarrow> datetime option result" where
  "optional_close previous_ltf_start timeframe =
     (case previous_ltf_start of
        None \<Rightarrow> Inr None
      | Some start \<Rightarrow> rbind (ltf_close start timeframe) (\<lambda>close. Inr (Some close)))"

definition overlay_indicator_timeframe_values ::
    "strategy_rules \<Rightarrow> candle \<Rightarrow> datetime option \<Rightarrow> value_row \<Rightarrow> value_row option \<Rightarrow> (string \<times> rows_by_start) list
     \<Rightarrow> (string \<times> rows_by_start) list \<Rightarrow> bool \<Rightarrow> (value_row \<times> value_row option) result" where
  "overlay_indicator_timeframe_values strategy c previous_ltf_start ltf_values previous_ltf_values extra_rows reference_rows strict =
     rbind (ltf_close (k_starts_at c) (sr_timeframe strategy)) (\<lambda>current_close.
     rbind (optional_close previous_ltf_start (sr_timeframe strategy)) (\<lambda>previous_close.
     rbind (overlay_extra_rows current_close previous_close extra_rows ltf_values previous_ltf_values) (\<lambda>(current, previous).
       if reference_instruments strategy = [] then Inr (current, previous)
       else overlay_reference_values (reference_indicator_groups strategy) current_close previous_close reference_rows strict
              current previous)))"

definition htf_filter_outcome ::
    "strategy_rules \<Rightarrow> candle \<Rightarrow> datetime option \<Rightarrow> rows_by_start \<Rightarrow> (entry_condition_outcome \<times> value_row) result" where
  "htf_filter_outcome strategy c previous_ltf_start htf_rows =
     (case sr_htf_filter strategy of
        None \<Rightarrow> Inr (MATCHED, Map.empty)
      | Some f \<Rightarrow>
          rbind (ltf_close (k_starts_at c) (sr_timeframe strategy)) (\<lambda>current_close.
          rbind (mapped_row htf_rows current_close (hf_timeframe f) ''HTF alignment missed a last completed HTF bar.'') (\<lambda>current_values.
          rbind (optional_close previous_ltf_start (sr_timeframe strategy)) (\<lambda>previous_close.
          rbind (case previous_close of
                   None \<Rightarrow> Inr None
                 | Some close \<Rightarrow>
                     rbind (mapped_row htf_rows close (hf_timeframe f) ''HTF alignment missed a previous completed HTF bar.'')
                       (\<lambda>held. Inr (Some held))) (\<lambda>previous_values.
            Inr (condition_outcome (hf_when f) current_values previous_values, current_values))))))"

section \<open>The trace\<close>

definition row_value :: "value_row \<Rightarrow> value_row \<Rightarrow> string \<Rightarrow> decimal option" where
  "row_value values htf_values key = (case values key of Some v \<Rightarrow> v | None \<Rightarrow> row_get htf_values key)"

definition previous_ltf_start :: "candle list \<Rightarrow> nat \<Rightarrow> datetime option" where
  "previous_ltf_start engine_candles index =
     (if index = 0 then None else Some (k_starts_at (engine_candles ! (index - 1))))"

definition trace_record ::
    "strategy_rules \<Rightarrow> candle list \<Rightarrow> value_row list \<Rightarrow> (string \<times> rows_by_start) list \<Rightarrow> (string \<times> rows_by_start) list
     \<Rightarrow> rows_by_start \<Rightarrow> nat \<Rightarrow> signal_trace_record result" where
  "trace_record strategy engine_candles indicator_rows extra_rows reference_rows htf_rows index =
     (let c = engine_candles ! index;
          previous_start = previous_ltf_start engine_candles index;
          previous_values = (if index = 0 then None else Some (indicator_rows ! (index - 1)))
      in rbind (overlay_indicator_timeframe_values strategy c previous_start (indicator_rows ! index) previous_values
                  extra_rows reference_rows True) (\<lambda>(merged_values, merged_previous).
         rbind (htf_filter_outcome strategy c previous_start htf_rows) (\<lambda>(htf_outcome, htf_values).
           Inr \<lparr>tr_candle_starts_at = k_starts_at c,
                tr_indicator_values = map (\<lambda>key. (key, row_value merged_values htf_values key)) (strategy_indicator_value_keys strategy),
                tr_entry_condition =
                  and_entry_outcomes (condition_outcome (en_when (sr_entry strategy)) merged_values merged_previous) htf_outcome,
                tr_exit_condition =
                  map_option (\<lambda>exit_condition. condition_outcome exit_condition merged_values merged_previous)
                    (signal_exit_condition strategy)\<rparr>)))"

fun collect :: "('a \<Rightarrow> 'b result) \<Rightarrow> 'a list \<Rightarrow> 'b list result" where
  "collect f [] = Inr []"
| "collect f (x # xs) = rbind (f x) (\<lambda>y. rbind (collect f xs) (\<lambda>ys. Inr (y # ys)))"

record signal_trace =
  st_strategy_fingerprint :: string
  st_indicator_ids :: "string list"
  st_records :: "signal_trace_record list"

definition validate_unique_indicator_ids :: "signal_trace_record \<Rightarrow> unit result" where
  "validate_unique_indicator_ids r =
     rbind (require (tr_indicator_values r \<noteq> []) ''indicator_values must not be empty'') (\<lambda>_.
       require (distinct (map fst (tr_indicator_values r))) ''signal trace indicator IDs must be unique'')"

definition validate_record_order :: "signal_trace_record list \<Rightarrow> unit result" where
  "validate_record_order records =
     rbind (require (records \<noteq> []) ''records must not be empty'') (\<lambda>_.
       require (sorted_wrt (<) (map tr_candle_starts_at records)) ''signal trace records must be strictly increasing'')"

definition validate_indicator_sequence :: "signal_trace \<Rightarrow> unit result" where
  "validate_indicator_sequence trace =
     rbind (require (distinct (st_indicator_ids trace)) ''signal trace indicator sequence must contain unique IDs'') (\<lambda>_.
       require (list_all (\<lambda>r. map fst (tr_indicator_values r) = st_indicator_ids trace) (st_records trace))
         ''signal trace records must match the exact indicator sequence'')"

definition evaluate_signal_trace ::
    "(strategy_rules \<Rightarrow> string) \<Rightarrow> (indicator_definition \<Rightarrow> nat result) \<Rightarrow> signal_request \<Rightarrow> strategy_rules
     \<Rightarrow> candle list \<Rightarrow> candle list \<Rightarrow> (string \<rightharpoonup> candle list) \<Rightarrow> (string \<times> candle list) list \<Rightarrow> signal_trace result" where
  "evaluate_signal_trace strategy_fingerprint convergence_warmup spec strategy candles htf_candles extra_candles reference_candles =
     rbind (verify_contract strategy_fingerprint spec strategy) (\<lambda>_.
     rbind (required_candles spec candles) (\<lambda>engine_candles.
     rbind (calculated ''Signal indicator calculation failed under the deterministic Decimal contract.''
              (calculate_indicator_rows (decision_clock_indicators strategy) engine_candles (strategy_indicator_operands strategy)))
       (\<lambda>indicator_rows.
     rbind (calculate_extra_indicator_rows convergence_warmup strategy extra_candles htf_candles
              (rs_evaluation_starts_at spec) (rs_evaluation_ends_at spec)) (\<lambda>extra_rows.
     rbind (calculate_reference_indicator_rows convergence_warmup strategy reference_candles
              (rs_evaluation_starts_at spec) (rs_evaluation_ends_at spec) True) (\<lambda>reference_rows.
     rbind (htf_indicator_rows spec strategy htf_candles) (\<lambda>htf_rows.
     rbind (collect (\<lambda>index. rbind (trace_record strategy engine_candles indicator_rows extra_rows reference_rows htf_rows index)
                       (\<lambda>r. rbind (validate_unique_indicator_ids r) (\<lambda>_. Inr r)))
              (filter (\<lambda>index. \<not> k_starts_at (engine_candles ! index) < rs_evaluation_starts_at spec) [0..<length engine_candles]))
       (\<lambda>records.
     rbind (validate_record_order records) (\<lambda>_.
       let trace = \<lparr>st_strategy_fingerprint = rs_strategy_fingerprint spec,
                    st_indicator_ids = strategy_indicator_value_keys strategy, st_records = records\<rparr>
       in rbind (validate_indicator_sequence trace) (\<lambda>_. Inr trace)))))))))"

end
