(* ===== verification/Signal_Causality.thy ===== *)
theory Signal_Causality
  imports Signal_Trace
begin

text \<open>
  What a trace record depends on, and when a trace exists. A window of candles picked for a clock
  is a run of consecutive bars with a fixed first bar, so two runs that see the same completed bars
  pick the same prefix; indicator rows are causal, and another clock's row is held only after its
  bar completed. Hence a record never depends on a bar that completes after its close.
\<close>

section \<open>Windows of consecutive bars\<close>

definition starts_from :: "datetime \<Rightarrow> timedelta \<Rightarrow> candle list \<Rightarrow> bool" where
  "starts_from a d sel \<longleftrightarrow> (\<forall>k < length sel. k_starts_at (sel ! k) = a + d * int k)"

text \<open>\<open>sel\<close> is the run of consecutive bars of \<open>candles\<close> that begins at \<open>a\<close>, and no other candle
  competes with one of them.\<close>

definition picks :: "datetime \<Rightarrow> timedelta \<Rightarrow> candle list \<Rightarrow> candle list \<Rightarrow> bool" where
  "picks a d candles sel \<longleftrightarrow>
     starts_from a d sel \<and> set sel \<subseteq> set candles
     \<and> (\<forall>c \<in> set candles. \<forall>k < length sel. k_starts_at c = a + d * int k \<longrightarrow> c = sel ! k)"

text \<open>Two feeds hold the same bars among those completed by \<open>T\<close>.\<close>

definition same_closed_bars :: "datetime \<Rightarrow> timedelta \<Rightarrow> candle list \<Rightarrow> candle list \<Rightarrow> bool" where
  "same_closed_bars T d candles candles' \<longleftrightarrow>
     (\<forall>c. k_starts_at c + d \<le> T \<longrightarrow> (c \<in> set candles \<longleftrightarrow> c \<in> set candles'))"

lemma picks_nth:
  assumes "0 < d" "picks a d candles sel" "picks a d candles' sel'" "same_closed_bars T d candles candles'"
    and "k < length sel" "k < length sel'" "a + d * int k + d \<le> T"
  shows "sel ! k = sel' ! k"
proof -
  have s: "k_starts_at (sel ! k) = a + d * int k" "sel ! k \<in> set candles"
    using assms(2,5) by (auto simp: picks_def starts_from_def)
  with assms(4,7) have "sel ! k \<in> set candles'" by (simp add: same_closed_bars_def)
  with assms(3,6) s(1) show ?thesis by (simp add: picks_def)
qed

lemma picks_take:
  assumes "0 < d" "picks a d candles sel" "picks a d candles' sel'" "same_closed_bars T d candles candles'"
    and "k < length sel" "k < length sel'" "a + d * int k + d \<le> T"
  shows "take (Suc k) sel = take (Suc k) sel'"
proof (rule nth_equalityI)
  show "length (take (Suc k) sel) = length (take (Suc k) sel')" using assms(5,6) by simp
  fix j assume "j < length (take (Suc k) sel)"
  then have j: "j \<le> k" "j < Suc k" by auto
  have "d * int j \<le> d * int k" using assms(1) j by (intro mult_left_mono) auto
  with assms(7) have "a + d * int j + d \<le> T" by linarith
  then have "sel ! j = sel' ! j" using assms(5,6) j(1) by (intro picks_nth [OF assms(1-4)]) auto
  with j show "take (Suc k) sel ! j = take (Suc k) sel' ! j" by simp
qed

lemma require_contiguous_starts: "require_contiguous a d cs = Inr () \<Longrightarrow> starts_from a d cs"
proof (induction a d cs rule: require_contiguous.induct)
  case (2 a d c cs)
  then have c: "k_starts_at c = a" "starts_from (a + d) d cs" by (auto split: if_splits)
  show ?case unfolding starts_from_def
  proof (intro allI impI)
    fix k assume "k < length (c # cs)"
    with c show "k_starts_at ((c # cs) ! k) = a + d * int k"
      by (cases k) (auto simp: starts_from_def algebra_simps)
  qed
qed (simp add: starts_from_def)

lemma candles_at_nth:
  "candles_at m starts = Inr sel \<Longrightarrow> length sel = length starts \<and> (\<forall>k < length starts. m (starts ! k) = Some (sel ! k))"
proof (induction starts arbitrary: sel)
  case (Cons s starts)
  from Cons.prems obtain c rest where c: "m s = Some c" "candles_at m starts = Inr rest" "sel = c # rest"
    by (auto split: option.splits)
  show ?case
  proof (intro conjI allI impI)
    show "length sel = length (s # starts)" using Cons.IH [OF c(2)] c(3) by simp
    fix k assume "k < length (s # starts)"
    with Cons.IH [OF c(2)] c show "m ((s # starts) ! k) = Some (sel ! k)" by (cases k) auto
  qed
qed simp

lemma index_candles_mem:
  "index_candles m cs = Inr m' \<Longrightarrow> \<forall>s c. m s = Some c \<longrightarrow> k_starts_at c = s \<Longrightarrow>
   m' s = Some c \<longleftrightarrow> m s = Some c \<or> (c \<in> set cs \<and> k_starts_at c = s)"
proof (induction m cs arbitrary: m' rule: index_candles.induct)
  case (2 m x cs)
  from 2(2) have n: "m (k_starts_at x) = None" and i: "index_candles (m(k_starts_at x \<mapsto> x)) cs = Inr m'"
    by (auto split: if_splits)
  have k: "\<forall>s c. (m(k_starts_at x \<mapsto> x)) s = Some c \<longrightarrow> k_starts_at c = s" using 2(3) by simp
  have "m' s = Some c \<longleftrightarrow> (m(k_starts_at x \<mapsto> x)) s = Some c \<or> (c \<in> set cs \<and> k_starts_at c = s)"
    by (rule 2(1) [OF _ i k]) (simp add: n)
  with n show ?case by (cases "s = k_starts_at x") auto
qed simp

lemma index_candles_by_start_mem:
  "index_candles_by_start cs = Inr m \<Longrightarrow> m s = Some c \<longleftrightarrow> c \<in> set cs \<and> k_starts_at c = s"
  by (simp add: index_candles_by_start_def index_candles_mem)

lemma bar_starts_nth: "k < length (bar_starts d a e) \<Longrightarrow> bar_starts d a e ! k = a + d * int k"
proof (induction d a e arbitrary: k rule: bar_starts.induct)
  case (1 d a e)
  from 1(2) have "a < e \<and> 0 < d" by (auto simp: bar_starts.simps [of d a e] split: if_splits)
  with 1 show ?case by (cases k) (auto simp: bar_starts.simps [of d a e] algebra_simps)
qed

lemma required_htf_picks:
  assumes "required_htf_candles (bar_starts d a e) candles = Inr sel"
  shows "picks a d candles sel" "map k_starts_at sel = bar_starts d a e"
proof -
  from assms obtain m where m: "index_candles_by_start candles = Inr m" "candles_at m (bar_starts d a e) = Inr sel"
    by (auto simp: required_htf_candles_def)
  note i = index_candles_by_start_mem [OF m(1)] and n = candles_at_nth [OF m(2)]
  have s: "sel ! k \<in> set candles \<and> k_starts_at (sel ! k) = a + d * int k" if "k < length sel" for k
    using n that i [of "bar_starts d a e ! k" "sel ! k"] by (simp add: bar_starts_nth)
  have u: "c = sel ! k" if "c \<in> set candles" "k < length sel" "k_starts_at c = a + d * int k" for c k
    using n that i [of "bar_starts d a e ! k" c] by (simp add: bar_starts_nth)
  show "picks a d candles sel" using s u by (auto simp: picks_def starts_from_def in_set_conv_nth)
  show "map k_starts_at sel = bar_starts d a e"
    by (rule nth_equalityI) (use n s in \<open>auto simp: bar_starts_nth\<close>)
qed

lemma required_candles_picks:
  assumes "required_candles spec candles = Inr sel" "specification_bar_interval spec = Inr i"
  shows "picks (rs_warmup_starts_at spec) (interval_duration i) candles sel"
    "int (length sel) = int (rs_warmup_bars spec)
       + (rs_evaluation_ends_at spec - rs_evaluation_starts_at spec) div interval_duration i"
proof -
  let ?a = "rs_warmup_starts_at spec" and ?d = "interval_duration i"
  note d = interval_duration_pos [of i]
  from assms have sel: "sel = select_window_candles spec candles" "require_contiguous ?a ?d sel = Inr ()"
    and l: "int (length sel) = int (rs_warmup_bars spec)
       + (rs_evaluation_ends_at spec - rs_evaluation_starts_at spec) div ?d"
    by (auto simp: required_candles_def Let_def split: if_splits)
  from l show "int (length sel) = int (rs_warmup_bars spec)
       + (rs_evaluation_ends_at spec - rs_evaluation_starts_at spec) div ?d" .
  have s: "starts_from ?a ?d sel" by (rule require_contiguous_starts [OF sel(2)])
  have "c = sel ! k" if c: "c \<in> set candles" "k < length sel" "k_starts_at c = ?a + ?d * int k" for c k
  proof -
    have "sel ! k \<in> set (select_window_candles spec candles)" "k_starts_at (sel ! k) = k_starts_at c"
      using c s nth_mem [of k sel] by (auto simp: sel(1) starts_from_def)
    then have "c \<in> set sel" using c(1) by (simp add: sel(1) select_window_candles_def)
    then obtain j where "j < length sel" "c = sel ! j" by (auto simp: in_set_conv_nth)
    with s c(3) d show ?thesis by (simp add: starts_from_def)
  qed
  with s show "picks ?a ?d candles sel" by (auto simp: picks_def sel(1) select_window_candles_def)
qed

section \<open>Rows of a window\<close>

lemma keyed_by_start_Some:
  assumes "0 < d" "starts_from a d sel" "length rows = length sel"
  shows "keyed_by_start sel rows s = Some r \<longleftrightarrow> (\<exists>k < length sel. s = a + d * int k \<and> r = rows ! k)"
proof -
  have n: "map k_starts_at sel ! k = a + d * int k" if "k < length sel" for k
    using assms(2) that by (simp add: starts_from_def)
  then have "distinct (map k_starts_at sel)"
    using assms(1) by (auto simp: distinct_conv_nth starts_from_def)
  then have "keyed_by_start sel rows s = Some r \<longleftrightarrow> (s, r) \<in> set (zip (map k_starts_at sel) rows)"
    using assms(3) by (simp add: keyed_by_start_def)
  also have "\<dots> \<longleftrightarrow> (\<exists>k < length sel. s = a + d * int k \<and> r = rows ! k)"
    using n assms(3) by (auto simp: set_zip simp del: nth_map) (metis n)
  finally show ?thesis .
qed

lemma calculated_Inr [simp]: "calculated message r = Inr rows \<longleftrightarrow> r = Inr rows"
  by (auto simp: calculated_def split: sum.splits py_error.splits)

lemma indicator_rows_settled:
  assumes "list_all indicator_valid indicators"
    and "calculate_indicator_rows indicators candles operands = Inr rows"
    and "calculate_indicator_rows indicators candles' operands = Inr rows'"
    and "take (Suc i) candles = take (Suc i) candles'" "i < length candles" "i < length candles'"
  shows "rows ! i = rows' ! i" "length rows = length candles"
proof -
  have "\<forall>indicator \<in> set indicators. parameters_valid (ind_parameters indicator)"
    using assms(1) by (simp add: list_all_iff indicator_valid_def)
  from causal_indicator_rows [OF this, of operands] assms(2,3) obtain f where
    f: "causal f" "rows = f candles" "rows' = f candles'"
    by (auto simp: causal_result_def)
  then show "rows ! i = rows' ! i" "length rows = length candles"
    using causal.settled_value [of f i candles candles'] assms(4-6) causal.aligned [OF f(1)] by simp_all
qed

definition same_rows :: "datetime \<Rightarrow> timedelta \<Rightarrow> rows_by_start \<Rightarrow> rows_by_start \<Rightarrow> bool" where
  "same_rows T d m m' \<longleftrightarrow> (\<forall>s r r'. s + d \<le> T \<longrightarrow> m s = Some r \<longrightarrow> m' s = Some r' \<longrightarrow> r = r')"

lemma rows_length:
  assumes "list_all indicator_valid indicators" "calculate_indicator_rows indicators candles operands = Inr rows"
  shows "length rows = length candles"
  using indicator_rows_total [of indicators candles operands] assms by (auto simp: list_all_iff)

lemma clock_rows_same:
  assumes d: "0 < d" and v: "list_all indicator_valid indicators"
    and p: "picks a d candles sel" "picks a d candles' sel'" "same_closed_bars T d candles candles'"
    and r: "clock_rows message indicators operands sel = Inr m" "clock_rows message' indicators operands sel' = Inr m'"
  shows "same_rows T d m m'"
  unfolding same_rows_def
proof (intro allI impI)
  fix s r r' assume s: "s + d \<le> T" "m s = Some r" "m' s = Some r'"
  from r obtain rows rows' where
    rows: "calculate_indicator_rows indicators sel operands = Inr rows" "m = keyed_by_start sel rows"
      "calculate_indicator_rows indicators sel' operands = Inr rows'" "m' = keyed_by_start sel' rows'"
    by (auto simp: clock_rows_def)
  have st: "starts_from a d sel" "starts_from a d sel'" using p by (simp_all add: picks_def)
  obtain k where k: "k < length sel" "s = a + d * int k" "r = rows ! k"
    using s(2) keyed_by_start_Some [OF d st(1) rows_length [OF v rows(1)]] rows(2) by auto
  obtain k' where k': "k' < length sel'" "s = a + d * int k'" "r' = rows' ! k'"
    using s(3) keyed_by_start_Some [OF d st(2) rows_length [OF v rows(3)]] rows(4) by auto
  from k(2) k'(2) d have "k' = k" by simp
  with k k' s(1) have "take (Suc k) sel = take (Suc k) sel'" by (intro picks_take [OF d p]) auto
  with k k' \<open>k' = k\<close> show "r = r'" using indicator_rows_settled(1) [OF v rows(1,3)] by simp
qed

lemma same_rowsD: "same_rows T d m m' \<Longrightarrow> s + d \<le> T \<Longrightarrow> m s = Some r \<Longrightarrow> m' s = Some r' \<Longrightarrow> r = r'"
  by (simp add: same_rows_def)

lemma mapped_row_same:
  assumes "parse_candle_interval tf = Inr i" "same_rows T (interval_duration i) m m'" "t \<le> T"
    and "mapped_row m t tf message = Inr r" "mapped_row m' t tf message' = Inr r'"
  shows "r = r'"
  using assms floor_le(1) [OF interval_duration_pos, of t i]
  by (auto simp: mapped_row_def mapped_htf_start_eq split: option.splits elim!: same_rowsD)

section \<open>The rows of two runs agree\<close>

definition same_clock :: "datetime \<Rightarrow> string \<Rightarrow> rows_by_start \<Rightarrow> rows_by_start \<Rightarrow> bool" where
  "same_clock T tf m m' \<longleftrightarrow> (\<exists>i. parse_candle_interval tf = Inr i \<and> same_rows T (interval_duration i) m m')"

lemma same_clock_mapped:
  "same_clock T tf m m' \<Longrightarrow> t \<le> T \<Longrightarrow> mapped_row m t tf message = Inr r \<Longrightarrow> mapped_row m' t tf message' = Inr r' \<Longrightarrow> r = r'"
  unfolding same_clock_def by (blast intro: mapped_row_same)

lemma closed_bar_starts_eq:
  assumes "closed_bar_starts a e tf w = Inr starts"
  obtains i where "parse_candle_interval tf = Inr i"
    "starts = bar_starts (interval_duration i) (a - a mod interval_duration i - interval_duration i * int w)
       (e - e mod interval_duration i)"
proof -
  from assms obtain i where i: "parse_candle_interval tf = Inr i" by (auto simp: closed_bar_starts_def)
  with assms that [OF i] show thesis by (simp add: closed_bar_starts_def coverage_eq)
qed

definition clock_agrees :: "datetime \<Rightarrow> string \<Rightarrow> candle list \<Rightarrow> candle list \<Rightarrow> bool" where
  "clock_agrees T tf candles candles' \<longleftrightarrow>
     (\<forall>i. parse_candle_interval tf = Inr i \<longrightarrow> same_closed_bars T (interval_duration i) candles candles')"

lemma window_rows_same:
  assumes "list_all indicator_valid indicators" "clock_agrees T tf candles candles'"
    and "closed_bar_starts a e tf w = Inr starts" "required_htf_candles starts candles = Inr sel"
    and "closed_bar_starts a e' tf w = Inr starts'" "required_htf_candles starts' candles' = Inr sel'"
    and "clock_rows message indicators operands sel = Inr m" "clock_rows message indicators operands sel' = Inr m'"
  shows "same_clock T tf m m'"
proof -
  from assms(3) obtain i where i: "parse_candle_interval tf = Inr i" and
    s: "starts = bar_starts (interval_duration i) (a - a mod interval_duration i - interval_duration i * int w) (e - e mod interval_duration i)"
    by (rule closed_bar_starts_eq)
  from assms(5) i have s': "starts' = bar_starts (interval_duration i) (a - a mod interval_duration i - interval_duration i * int w) (e' - e' mod interval_duration i)"
    by (auto elim: closed_bar_starts_eq)
  have "same_rows T (interval_duration i) m m'"
    using assms(2) i
    by (intro clock_rows_same [OF interval_duration_pos assms(1) required_htf_picks(1) [OF assms(4) [unfolded s]]
          required_htf_picks(1) [OF assms(6) [unfolded s']] _ assms(7,8)]) (simp add: clock_agrees_def)
  with i show ?thesis by (auto simp: same_clock_def)
qed

lemma extra_rows_same:
  assumes "extra_rows_of cw strategy ex htf a e groups = Inr er" "extra_rows_of cw strategy ex' htf' a e' groups = Inr er'"
    and "\<forall>(tf, indicators) \<in> set groups. list_all indicator_valid indicators"
    and "\<And>tf. clock_agrees T tf (extra_clock_candles strategy ex htf tf) (extra_clock_candles strategy ex' htf' tf)"
  shows "list_all2 (\<lambda>(tf, m) (tf', m'). tf' = tf \<and> same_clock T tf m m') er er'"
  using assms(1-3)
proof (induction groups arbitrary: er er')
  case (Cons g groups)
  obtain tf indicators where g: "g = (tf, indicators)" by (cases g)
  have v: "list_all indicator_valid indicators" using Cons.prems(3) g by simp
  from Cons.prems(1) g obtain bars starts sel m rest where
    r: "group_warmup cw strategy indicators = Inr bars" "closed_bar_starts a e tf bars = Inr starts"
      "required_htf_candles starts (extra_clock_candles strategy ex htf tf) = Inr sel"
      "clock_rows ''Indicator-timeframe calculation failed under the deterministic Decimal contract.'' indicators (strategy_indicator_operands strategy) sel = Inr m"
      "extra_rows_of cw strategy ex htf a e groups = Inr rest" "er = (tf, m) # rest"
    by (auto simp: Let_def split: if_splits)
  from Cons.prems(2) g r(1) obtain starts' sel' m' rest' where
    r': "closed_bar_starts a e' tf bars = Inr starts'"
      "required_htf_candles starts' (extra_clock_candles strategy ex' htf' tf) = Inr sel'"
      "clock_rows ''Indicator-timeframe calculation failed under the deterministic Decimal contract.'' indicators (strategy_indicator_operands strategy) sel' = Inr m'"
      "extra_rows_of cw strategy ex' htf' a e' groups = Inr rest'" "er' = (tf, m') # rest'"
    by (auto simp: Let_def split: if_splits)
  have "same_clock T tf m m'" by (rule window_rows_same [OF v assms(4) r(2,3) r'(1,2) r(4) r'(3)])
  moreover have "list_all2 (\<lambda>(tf, m) (tf', m'). tf' = tf \<and> same_clock T tf m m') rest rest'"
    using Cons.prems(3) by (intro Cons.IH [OF r(5) r'(4)]) simp
  ultimately show ?case by (simp add: r(6) r'(5))
qed simp

lemma reference_rows_same:
  assumes "reference_rows_of cw strategy refs a e True groups = Inr rr" "reference_rows_of cw strategy refs' a e' True groups = Inr rr'"
    and "\<forall>(reference, indicators) \<in> set groups. list_all indicator_valid indicators
      \<and> clock_agrees T (rf_timeframe reference) (or_else (refs (rf_id reference)) []) (or_else (refs' (rf_id reference)) [])"
  shows "map fst rr = map (\<lambda>(reference, _). rf_id reference) groups
    \<and> list_all2 (\<lambda>(reference, _) ((n, m), (n', m')). n' = n \<and> n = rf_id reference \<and> same_clock T (rf_timeframe reference) m m')
        groups (zip rr rr') \<and> length rr' = length rr"
  using assms
proof (induction groups arbitrary: rr rr')
  case (Cons g groups)
  obtain reference indicators where g: "g = (reference, indicators)" by (cases g)
  have v: "list_all indicator_valid indicators"
      "clock_agrees T (rf_timeframe reference) (or_else (refs (rf_id reference)) []) (or_else (refs' (rf_id reference)) [])"
    using Cons.prems(3) g by auto
  from Cons.prems(1) g obtain bars starts sel m rest where
    r: "group_warmup cw strategy indicators = Inr bars" "closed_bar_starts a e (rf_timeframe reference) bars = Inr starts"
      "required_htf_candles starts (or_else (refs (rf_id reference)) []) = Inr sel"
      "clock_rows ''Reference indicator calculation failed under the deterministic Decimal contract.'' indicators (strategy_indicator_operands strategy) sel = Inr m"
      "reference_rows_of cw strategy refs a e True groups = Inr rest" "rr = (rf_id reference, m) # rest"
    by (auto simp: reference_window_def split: if_splits sum.splits)
  from Cons.prems(2) g r(1) obtain starts' sel' m' rest' where
    r': "closed_bar_starts a e' (rf_timeframe reference) bars = Inr starts'"
      "required_htf_candles starts' (or_else (refs' (rf_id reference)) []) = Inr sel'"
      "clock_rows ''Reference indicator calculation failed under the deterministic Decimal contract.'' indicators (strategy_indicator_operands strategy) sel' = Inr m'"
      "reference_rows_of cw strategy refs' a e' True groups = Inr rest'" "rr' = (rf_id reference, m') # rest'"
    by (auto simp: reference_window_def split: if_splits sum.splits)
  have "same_clock T (rf_timeframe reference) m m'" by (rule window_rows_same [OF v r(2,3) r'(1,2) r(4) r'(3)])
  with Cons.IH [OF r(5) r'(4)] Cons.prems(3) show ?case by (simp add: r(6) r'(5) g)
qed simp

lemma map_of_references:
  assumes "list_all2 (\<lambda>(reference, _) ((n, m), (n', m')). n' = n \<and> n = rf_id reference \<and> same_clock T (rf_timeframe reference) m m')
        groups (zip rr rr')" "length rr' = length rr" "distinct (map (\<lambda>(reference, _). rf_id reference) groups)"
    and "(reference, indicators) \<in> set groups"
  shows "\<exists>m m'. map_of rr (rf_id reference) = Some m \<and> map_of rr' (rf_id reference) = Some m'
    \<and> same_clock T (rf_timeframe reference) m m'"
  using assms
proof (induction groups "zip rr rr'" arbitrary: rr rr' rule: list_all2_induct)
  case (Cons g groups y ys)
  obtain r0 inds0 where g: "g = (r0, inds0)" by (cases g)
  obtain n m rs m' rs' where e: "rr = (n, m) # rs" "rr' = (n, m') # rs'" "ys = zip rs rs'" "n = rf_id r0" "same_clock T (rf_timeframe r0) m m'"
    using Cons.hyps(1,4) Cons.prems(1) g by (cases rr; cases rr') auto
  show ?case
  proof (cases "(reference, indicators) = g")
    case True
    with e g show ?thesis by simp
  next
    case False
    with Cons.prems(3) have m: "(reference, indicators) \<in> set groups" by simp
    then have "rf_id reference \<noteq> n" using Cons.prems(2) g e(4) by force
    with Cons.hyps(3) [OF e(3) _ _ m] Cons.prems(1,2) e show ?thesis by simp
  qed
qed simp

section \<open>Records of two runs agree\<close>

definition no_later :: "datetime \<Rightarrow> datetime option \<Rightarrow> bool" where
  "no_later T t \<longleftrightarrow> (case t of None \<Rightarrow> True | Some t \<Rightarrow> t \<le> T)"

lemma overlay_extra_same:
  assumes "list_all2 (\<lambda>(tf, m) (tf', m'). tf' = tf \<and> same_clock T tf m m') er er'" "t \<le> T" "no_later T p"
    and "overlay_extra_rows t p er current previous = Inr x" "overlay_extra_rows t p er' current previous = Inr x'"
  shows "x = x'"
  using assms(1,4,5)
proof (induction er er' arbitrary: current previous rule: list_all2_induct)
  case (Cons y ys z zs)
  obtain tf m m' where y: "y = (tf, m)" "z = (tf, m')" "same_clock T tf m m'" using Cons.hyps(1) by auto
  note held = same_clock_mapped [OF y(3)]
  from Cons.prems(1) obtain c b where
    c: "mapped_row m t tf ''Indicator timeframe alignment missed a last completed bar.'' = Inr c"
      "overlay_extra_rows t p ys (update_row current c) b = Inr x"
      "(case (previous, p) of
          (Some before, Some close) \<Rightarrow>
            rbind (mapped_row m close tf ''Indicator timeframe alignment missed a previous completed bar.'')
              (\<lambda>held. Inr (Some (update_row before held)))
        | _ \<Rightarrow> Inr previous) = Inr b"
    unfolding y overlay_extra_rows.simps by (elim rbind_eq_Inr [THEN iffD1, THEN exE]) auto
  from Cons.prems(2) obtain c' b' where
    c': "mapped_row m' t tf ''Indicator timeframe alignment missed a last completed bar.'' = Inr c'"
      "overlay_extra_rows t p zs (update_row current c') b' = Inr x'"
      "(case (previous, p) of
          (Some before, Some close) \<Rightarrow>
            rbind (mapped_row m' close tf ''Indicator timeframe alignment missed a previous completed bar.'')
              (\<lambda>held. Inr (Some (update_row before held)))
        | _ \<Rightarrow> Inr previous) = Inr b'"
    unfolding y overlay_extra_rows.simps by (elim rbind_eq_Inr [THEN iffD1, THEN exE]) auto
  have "c' = c" using held [OF assms(2) c(1) c'(1)] by simp
  moreover have "b' = b" using c(3) c'(3) assms(3)
    by (auto simp: no_later_def split: option.splits dest: held)
  ultimately show ?case using Cons.IH [OF c(2)] c'(2) by simp
qed simp

lemma held_reference_same:
  assumes "same_clock T tf m m'" "t \<le> T"
    and "held_reference (Some m) t tf indicators True message = Inr r" "held_reference (Some m') t tf indicators True message = Inr r'"
  shows "r = r'"
proof -
  have "mapped_row m t tf message = Inr r" "mapped_row m' t tf message = Inr r'"
    using assms(3,4) by (auto simp: held_reference_def mapped_reference_row_def mapped_row_def split: option.splits)
  with assms(1,2) show ?thesis by (rule_tac same_clock_mapped)
qed

lemma overlay_references_same:
  assumes "\<forall>(reference, indicators) \<in> set groups. \<exists>m m'. map_of rr (rf_id reference) = Some m
      \<and> map_of rr' (rf_id reference) = Some m' \<and> same_clock T (rf_timeframe reference) m m'" "t \<le> T" "no_later T p"
    and "overlay_reference_values groups t p rr True current previous = Inr x"
      "overlay_reference_values groups t p rr' True current previous = Inr x'"
  shows "x = x'"
  using assms(1,4,5)
proof (induction groups arbitrary: current previous)
  case (Cons g groups)
  obtain reference indicators where g: "g = (reference, indicators)" by (cases g)
  from Cons.prems(1) g obtain m m' where
    m: "map_of rr (rf_id reference) = Some m" "map_of rr' (rf_id reference) = Some m'" "same_clock T (rf_timeframe reference) m m'"
    by auto
  note held = held_reference_same [OF m(3)]
  let ?held = "\<lambda>m close. held_reference (Some m) close (rf_timeframe reference) indicators True ''Reference instrument alignment missed a previous completed bar.''"
  from Cons.prems(2) g m(1) obtain c b where
    c: "held_reference (Some m) t (rf_timeframe reference) indicators True ''Reference instrument alignment missed a last completed bar.'' = Inr c"
      "overlay_reference_values groups t p rr True (update_row current c) b = Inr x"
      "(case (previous, p) of (Some before, Some close) \<Rightarrow> rbind (?held m close) (\<lambda>held. Inr (Some (update_row before held)))
        | _ \<Rightarrow> Inr previous) = Inr b"
    by (simp only: overlay_reference_values.simps Let_def) auto
  from Cons.prems(3) g m(2) obtain c' b' where
    c': "held_reference (Some m') t (rf_timeframe reference) indicators True ''Reference instrument alignment missed a last completed bar.'' = Inr c'"
      "overlay_reference_values groups t p rr' True (update_row current c') b' = Inr x'"
      "(case (previous, p) of (Some before, Some close) \<Rightarrow> rbind (?held m' close) (\<lambda>held. Inr (Some (update_row before held)))
        | _ \<Rightarrow> Inr previous) = Inr b'"
    by (simp only: overlay_reference_values.simps Let_def) auto
  have "c' = c" using held [OF assms(2) c(1) c'(1)] by simp
  moreover have "b' = b" using c(3) c'(3) assms(3)
    by (auto simp: no_later_def split: option.splits dest: held)
  ultimately show ?case using Cons.IH [OF _ c(2)] c'(2) Cons.prems(1) by simp
qed simp


text \<open>The candles a run reads.\<close>

record candle_feed =
  cf_candles :: "candle list"
  cf_htf :: "candle list"
  cf_extra :: "string \<rightharpoonup> candle list"
  cf_reference :: "(string \<times> candle list) list"

text \<open>Two feeds agree up to \<open>T\<close>: on every clock the strategy reads they hold the same completed bars.\<close>

definition feeds_agree :: "datetime \<Rightarrow> strategy_rules \<Rightarrow> candle_feed \<Rightarrow> candle_feed \<Rightarrow> bool" where
  "feeds_agree T strategy v v' \<longleftrightarrow>
     clock_agrees T (sr_timeframe strategy) (cf_candles v) (cf_candles v')
     \<and> (\<forall>f. sr_htf_filter strategy = Some f \<longrightarrow> clock_agrees T (hf_timeframe f) (cf_htf v) (cf_htf v'))
     \<and> (\<forall>tf. clock_agrees T tf (extra_clock_candles strategy (cf_extra v) (cf_htf v) tf)
               (extra_clock_candles strategy (cf_extra v') (cf_htf v') tf))
     \<and> (\<forall>reference \<in> set (reference_instruments strategy). clock_agrees T (rf_timeframe reference) (or_else (map_of (cf_reference v) (rf_id reference)) [])
               (or_else (map_of (cf_reference v') (rf_id reference)) []))"

definition rows_of_runs_agree ::
    "datetime \<Rightarrow> strategy_rules \<Rightarrow> (string \<times> rows_by_start) list \<Rightarrow> (string \<times> rows_by_start) list \<Rightarrow> rows_by_start
     \<Rightarrow> (string \<times> rows_by_start) list \<Rightarrow> (string \<times> rows_by_start) list \<Rightarrow> rows_by_start \<Rightarrow> bool" where
  "rows_of_runs_agree T strategy er rr hr er' rr' hr' \<longleftrightarrow>
     list_all2 (\<lambda>(tf, m) (tf', m'). tf' = tf \<and> same_clock T tf m m') er er'
     \<and> (\<forall>(reference, indicators) \<in> set (reference_indicator_groups strategy). \<exists>m m'. map_of rr (rf_id reference) = Some m
          \<and> map_of rr' (rf_id reference) = Some m' \<and> same_clock T (rf_timeframe reference) m m')
     \<and> (\<forall>f. sr_htf_filter strategy = Some f \<longrightarrow> same_clock T (hf_timeframe f) hr hr')"

lemma overlay_same:
  assumes "rows_of_runs_agree T strategy er rr hr er' rr' hr'"
    and "ltf_close (k_starts_at c) (sr_timeframe strategy) = Inr t" "t \<le> T"
    and "optional_close p (sr_timeframe strategy) = Inr close" "no_later T close"
    and "overlay_indicator_timeframe_values strategy c p values previous er rr True = Inr x"
      "overlay_indicator_timeframe_values strategy c p values previous er' rr' True = Inr x'"
  shows "x = x'"
proof -
  from assms(6) assms(2,4) obtain y where y: "overlay_extra_rows t close er values previous = Inr y"
    "(case y of (current, previous) \<Rightarrow> if reference_instruments strategy = [] then Inr (current, previous)
       else overlay_reference_values (reference_indicator_groups strategy) t close rr True current previous) = Inr x"
    by (auto simp: overlay_indicator_timeframe_values_def)
  from assms(7) assms(2,4) obtain y' where y': "overlay_extra_rows t close er' values previous = Inr y'"
    "(case y' of (current, previous) \<Rightarrow> if reference_instruments strategy = [] then Inr (current, previous)
       else overlay_reference_values (reference_indicator_groups strategy) t close rr' True current previous) = Inr x'"
    by (auto simp: overlay_indicator_timeframe_values_def)
  from assms(1) have a: "list_all2 (\<lambda>(tf, m) (tf', m'). tf' = tf \<and> same_clock T tf m m') er er'"
    "\<forall>(reference, indicators) \<in> set (reference_indicator_groups strategy). \<exists>m m'. map_of rr (rf_id reference) = Some m
          \<and> map_of rr' (rf_id reference) = Some m' \<and> same_clock T (rf_timeframe reference) m m'"
    by (simp_all add: rows_of_runs_agree_def)
  have "y' = y" using overlay_extra_same [OF a(1) assms(3,5) y(1) y'(1)] by simp
  then show ?thesis using overlay_references_same [OF a(2) assms(3,5)] y(2) y'(2)
    by (cases y) (simp split: if_splits)
qed

lemma htf_outcome_same:
  assumes "rows_of_runs_agree T strategy er rr hr er' rr' hr'"
    and "ltf_close (k_starts_at c) (sr_timeframe strategy) = Inr t" "t \<le> T"
    and "optional_close p (sr_timeframe strategy) = Inr close" "no_later T close"
    and "htf_filter_outcome strategy c p hr = Inr x" "htf_filter_outcome strategy c p hr' = Inr x'"
  shows "x = x'"
proof (cases "sr_htf_filter strategy")
  case None
  with assms show ?thesis by (simp add: htf_filter_outcome_def)
next
  case (Some f)
  with assms(1) have s: "same_clock T (hf_timeframe f) hr hr'" by (simp add: rows_of_runs_agree_def)
  note held = same_clock_mapped [OF s]
  show ?thesis using assms(2-7) Some
    by (auto simp: htf_filter_outcome_def no_later_def split: option.splits dest: held)
qed

lemma trace_record_same:
  assumes agree: "rows_of_runs_agree T strategy er rr hr er' rr' hr'"
    and clock: "parse_candle_interval (sr_timeframe strategy) = Inr i"
    and p: "picks w (interval_duration i) candles ec" "picks w (interval_duration i) candles' ec'"
      "same_closed_bars T (interval_duration i) candles candles'"
    and v: "list_all indicator_valid indicators"
    and rows: "calculate_indicator_rows indicators ec operands = Inr rows" "calculate_indicator_rows indicators ec' operands = Inr rows'"
    and k: "k < length ec" "k < length ec'" "w + interval_duration i * int k + interval_duration i \<le> T"
    and r: "trace_record strategy ec rows er rr hr k = Inr r" "trace_record strategy ec' rows' er' rr' hr' k = Inr r'"
  shows "r = r'"
proof -
  let ?d = "interval_duration i"
  note d = interval_duration_pos [of i] and close = ltf_close_eq [OF clock]
  have at: "ec' ! j = ec ! j \<and> rows' ! j = rows ! j \<and> k_starts_at (ec ! j) = w + ?d * int j" if "j \<le> k" for j
  proof -
    have "?d * int j \<le> ?d * int k" using d that by (intro mult_left_mono) auto
    then have j: "w + ?d * int j + ?d \<le> T" "j < length ec" "j < length ec'" using k that by linarith+
    moreover have "k_starts_at (ec ! j) = w + ?d * int j" using p(1) j(2) by (simp add: picks_def starts_from_def)
    ultimately show ?thesis
      using picks_nth [OF d p j(2,3,1)] indicator_rows_settled(1) [OF v rows picks_take [OF d p j(2,3,1)] j(2,3)]
      by simp
  qed
  let ?c = "ec ! k" and ?p = "previous_ltf_start ec k" and ?v = "if k = 0 then None else Some (rows ! (k - 1))"
  have p': "previous_ltf_start ec' k = ?p" "(if k = 0 then None else Some (rows' ! (k - 1))) = ?v"
    using at [of "k - 1"] by (simp_all add: previous_ltf_start_def)
  have t: "ltf_close (k_starts_at ?c) (sr_timeframe strategy) = Inr (w + ?d * int k + ?d)"
    using at [of k] by (simp add: close)
  obtain q where q: "optional_close ?p (sr_timeframe strategy) = Inr q" "no_later T q"
  proof (cases k)
    case 0
    then show thesis using that [of None] by (simp add: previous_ltf_start_def optional_close_def no_later_def)
  next
    case (Suc j)
    then have "w + ?d * int j + ?d \<le> T" using k(3) d by (simp add: algebra_simps)
    with Suc at [of j] show thesis
      using that [of "Some (w + ?d * int j + ?d)"]
      by (simp add: previous_ltf_start_def optional_close_def no_later_def close)
  qed
  from r(1) obtain y z where y: "overlay_indicator_timeframe_values strategy ?c ?p (rows ! k) ?v er rr True = Inr y"
    "htf_filter_outcome strategy ?c ?p hr = Inr z"
    by (auto simp: trace_record_def Let_def)
  from r(2) obtain y' z' where y': "overlay_indicator_timeframe_values strategy ?c ?p (rows ! k) ?v er' rr' True = Inr y'"
    "htf_filter_outcome strategy ?c ?p hr' = Inr z'"
    using at [of k] by (auto simp: trace_record_def Let_def p')
  have e: "y' = y" "z' = z"
    using overlay_same [OF agree t k(3) q y(1) y'(1)] htf_outcome_same [OF agree t k(3) q y(2) y'(2)] by simp_all
  obtain mv mp ho hv where yz: "y = (mv, mp)" "z = (ho, hv)" by (cases y; cases z)
  show ?thesis using r at [of k] y y' by (simp add: trace_record_def Let_def p' e yz)
qed

lemma trace_record_starts: "trace_record strategy ec rows er rr hr k = Inr r \<Longrightarrow> tr_candle_starts_at r = k_starts_at (ec ! k)"
  by (auto simp: trace_record_def Let_def)

section \<open>A whole trace\<close>

lemma collect_nth:
  "collect f xs = Inr ys \<Longrightarrow> length ys = length xs \<and> (\<forall>k < length xs. f (xs ! k) = Inr (ys ! k))"
proof (induction xs arbitrary: ys)
  case (Cons x xs)
  from Cons.prems obtain y rest where y: "f x = Inr y" "collect f xs = Inr rest" "ys = y # rest" by auto
  show ?case
  proof (intro conjI allI impI)
    show "length ys = length (x # xs)" using Cons.IH [OF y(2)] y(3) by simp
    fix k assume "k < length (x # xs)"
    with Cons.IH [OF y(2)] y show "f ((x # xs) ! k) = Inr (ys ! k)" by (cases k) auto
  qed
qed simp

lemma collect_mem: "collect f xs = Inr ys \<Longrightarrow> y \<in> set ys \<Longrightarrow> \<exists>x \<in> set xs. f x = Inr y"
  by (metis collect_nth in_set_conv_nth)

lemma bar_interval_among_Inr:
  "bar_interval_among intervals spec = Inr i \<Longrightarrow>
   rs_evaluation_starts_at spec - rs_warmup_starts_at spec = interval_duration i * int (rs_warmup_bars spec) \<and> bounds_aligned i spec"
  by (induction intervals spec rule: bar_interval_among.induct) (auto split: if_splits)

lemma spec_interval:
  assumes "specification_bar_interval spec = Inr i"
  shows "rs_evaluation_starts_at spec = rs_warmup_starts_at spec + interval_duration i * int (rs_warmup_bars spec)"
    "interval_duration i dvd rs_evaluation_starts_at spec" "interval_duration i dvd rs_evaluation_ends_at spec"
  using bar_interval_among_Inr [OF assms [unfolded specification_bar_interval_def]]
  by (auto simp: bounds_aligned_def align_closed_end_eq dvd_eq_mod_eq_0)

lemma verified_contract:
  assumes "verify_contract fp spec strategy = Inr ()"
  obtains clock where "parse_candle_interval (sr_timeframe strategy) = Inr clock" "specification_bar_interval spec = Inr clock"
    "rs_warmup_bars spec = dr_warmup_bars (sr_data_requirements strategy)"
  using assms by (auto simp: verify_contract_def require_def split: if_splits)

definition decision_rows :: "strategy_rules \<Rightarrow> candle list \<Rightarrow> value_row list result" where
  "decision_rows strategy ec =
     calculate_indicator_rows (decision_clock_indicators strategy) ec (strategy_indicator_operands strategy)"

text \<open>What a completed evaluation went through.\<close>

lemma evaluated:
  assumes "evaluate_signal_trace fp cw spec strategy candles htf extra refs = Inr trace"
  obtains ec rows er rr hr where
    "verify_contract fp spec strategy = Inr ()" "required_candles spec candles = Inr ec" "decision_rows strategy ec = Inr rows"
    "calculate_extra_indicator_rows cw strategy extra htf (rs_evaluation_starts_at spec) (rs_evaluation_ends_at spec) = Inr er"
    "calculate_reference_indicator_rows cw strategy refs (rs_evaluation_starts_at spec) (rs_evaluation_ends_at spec) True = Inr rr"
    "htf_indicator_rows spec strategy htf = Inr hr"
    "\<And>r. r \<in> set (st_records trace) \<Longrightarrow> \<exists>k < length ec. trace_record strategy ec rows er rr hr k = Inr r"
    "map tr_candle_starts_at (st_records trace)
       = map (\<lambda>k. k_starts_at (ec ! k)) (filter (\<lambda>k. \<not> k_starts_at (ec ! k) < rs_evaluation_starts_at spec) [0..<length ec])"
    "sorted_wrt (<) (map tr_candle_starts_at (st_records trace))"
proof -
  from assms obtain ec rows er rr hr records where e:
    "verify_contract fp spec strategy = Inr ()" "required_candles spec candles = Inr ec" "decision_rows strategy ec = Inr rows"
    "calculate_extra_indicator_rows cw strategy extra htf (rs_evaluation_starts_at spec) (rs_evaluation_ends_at spec) = Inr er"
    "calculate_reference_indicator_rows cw strategy refs (rs_evaluation_starts_at spec) (rs_evaluation_ends_at spec) True = Inr rr"
    "htf_indicator_rows spec strategy htf = Inr hr"
    and c: "collect (\<lambda>index. rbind (trace_record strategy ec rows er rr hr index)
                       (\<lambda>r. rbind (validate_unique_indicator_ids r) (\<lambda>_. Inr r)))
              (filter (\<lambda>index. \<not> k_starts_at (ec ! index) < rs_evaluation_starts_at spec) [0..<length ec]) = Inr records"
    and t: "st_records trace = records" and o: "validate_record_order records = Inr ()"
    by (auto simp: evaluate_signal_trace_def decision_rows_def Let_def)
  have r: "\<exists>k < length ec. trace_record strategy ec rows er rr hr k = Inr r" if "r \<in> set (st_records trace)" for r
    using collect_mem [OF c, of r] that t by auto
  have m: "map tr_candle_starts_at (st_records trace)
       = map (\<lambda>k. k_starts_at (ec ! k)) (filter (\<lambda>k. \<not> k_starts_at (ec ! k) < rs_evaluation_starts_at spec) [0..<length ec])"
    using collect_nth [OF c] by (intro nth_equalityI) (auto simp: t dest!: trace_record_starts)
  have "sorted_wrt (<) (map tr_candle_starts_at (st_records trace))"
    using o by (simp add: t validate_record_order_def require_def split: if_splits)
  from that [OF e r m this] show thesis .
qed

lemma document_parts:
  assumes "document_valid cw strategy"
  shows "list_all indicator_valid (sr_indicators strategy)"
    "distinct (map rf_id (reference_instruments strategy))"
    "sr_htf_filter strategy = Some f \<Longrightarrow> list_all indicator_valid (hf_indicators f) \<and> 1 \<le> dr_warmup_bars (hf_data_requirements f)"
    "1 \<le> dr_warmup_bars (sr_data_requirements strategy)"
  using assms
  by (auto simp: document_valid_def data_requirements_valid_def require_unique_references_def reference_instruments_def
      between_def split: if_splits)

lemma groups_valid:
  assumes "list_all indicator_valid (sr_indicators strategy)"
  shows "list_all indicator_valid (decision_clock_indicators strategy)"
    "\<forall>(tf, indicators) \<in> set (extra_indicator_timeframe_groups strategy). list_all indicator_valid indicators"
    "\<forall>(reference, indicators) \<in> set (reference_indicator_groups strategy). list_all indicator_valid indicators"
  using assms
  by (auto simp: decision_clock_indicators_def extra_indicator_timeframe_groups_def reference_indicator_groups_def
      list_all_iff Let_def)

lemma runs_agree:
  assumes "document_valid cw strategy" "feeds_agree T strategy v v'" "rs_evaluation_starts_at spec' = rs_evaluation_starts_at spec"
    and e: "calculate_extra_indicator_rows cw strategy (cf_extra v) (cf_htf v) (rs_evaluation_starts_at spec) (rs_evaluation_ends_at spec) = Inr er"
      "calculate_reference_indicator_rows cw strategy (cf_reference v) (rs_evaluation_starts_at spec) (rs_evaluation_ends_at spec) True = Inr rr"
      "htf_indicator_rows spec strategy (cf_htf v) = Inr hr"
    and e': "calculate_extra_indicator_rows cw strategy (cf_extra v') (cf_htf v') (rs_evaluation_starts_at spec') (rs_evaluation_ends_at spec') = Inr er'"
      "calculate_reference_indicator_rows cw strategy (cf_reference v') (rs_evaluation_starts_at spec') (rs_evaluation_ends_at spec') True = Inr rr'"
      "htf_indicator_rows spec' strategy (cf_htf v') = Inr hr'"
  shows "rows_of_runs_agree T strategy er rr hr er' rr' hr'"
  unfolding rows_of_runs_agree_def
proof (intro conjI allI impI)
  note v = groups_valid [OF document_parts(1) [OF assms(1)]]
  show "list_all2 (\<lambda>(tf, m) (tf', m'). tf' = tf \<and> same_clock T tf m m') er er'"
    using assms(2)
    by (intro extra_rows_same [OF e(1) [unfolded calculate_extra_indicator_rows_def]
          e'(1) [unfolded calculate_extra_indicator_rows_def assms(3)] v(2)]) (simp add: feeds_agree_def)
  have r: "reference_rows_of cw strategy (map_of (cf_reference v)) (rs_evaluation_starts_at spec) (rs_evaluation_ends_at spec) True
        (reference_indicator_groups strategy) = Inr rr"
      "reference_rows_of cw strategy (map_of (cf_reference v')) (rs_evaluation_starts_at spec) (rs_evaluation_ends_at spec') True
        (reference_indicator_groups strategy) = Inr rr'"
    using e(2) e'(2) assms(3) by (auto simp: calculate_reference_indicator_rows_def split: if_splits)
  have "\<forall>(reference, indicators) \<in> set (reference_indicator_groups strategy). list_all indicator_valid indicators
      \<and> clock_agrees T (rf_timeframe reference) (or_else (map_of (cf_reference v) (rf_id reference)) [])
          (or_else (map_of (cf_reference v') (rf_id reference)) [])"
    using v(3) assms(2) by (auto simp: feeds_agree_def reference_indicator_groups_def)
  from reference_rows_same [OF r this] have
    z: "list_all2 (\<lambda>(reference, _) ((n, m), (n', m')). n' = n \<and> n = rf_id reference \<and> same_clock T (rf_timeframe reference) m m')
        (reference_indicator_groups strategy) (zip rr rr')" "length rr' = length rr" by auto
  have "distinct (map (\<lambda>(reference, _). rf_id reference) (reference_indicator_groups strategy))"
    using document_parts(2) [OF assms(1)] by (simp add: reference_indicator_groups_def comp_def)
  from map_of_references [OF z this]
  show "\<forall>(reference, indicators) \<in> set (reference_indicator_groups strategy). \<exists>m m'. map_of rr (rf_id reference) = Some m
          \<and> map_of rr' (rf_id reference) = Some m' \<and> same_clock T (rf_timeframe reference) m m'"
    by blast
  fix f assume f: "sr_htf_filter strategy = Some f"
  from e(3) f obtain starts sel where h: "htf_candle_starts (rs_evaluation_starts_at spec) (rs_evaluation_ends_at spec) f = Inr starts"
      "required_htf_candles starts (cf_htf v) = Inr sel"
      "clock_rows ''HTF indicator calculation failed under the deterministic Decimal contract.'' (hf_indicators f) (strategy_indicator_operands strategy) sel = Inr hr"
    by (auto simp: htf_indicator_rows_def calculate_htf_indicator_rows_def split: if_splits)
  from e'(3) f obtain starts' sel' where h': "htf_candle_starts (rs_evaluation_starts_at spec) (rs_evaluation_ends_at spec') f = Inr starts'"
      "required_htf_candles starts' (cf_htf v') = Inr sel'"
      "clock_rows ''HTF indicator calculation failed under the deterministic Decimal contract.'' (hf_indicators f) (strategy_indicator_operands strategy) sel' = Inr hr'"
    by (auto simp: htf_indicator_rows_def calculate_htf_indicator_rows_def assms(3) split: if_splits)
  from document_parts(3) [OF assms(1) f] assms(2) f show "same_clock T (hf_timeframe f) hr hr'"
    by (intro window_rows_same [OF _ _ h(1) [unfolded htf_candle_starts_def] h(2) h'(1) [unfolded htf_candle_starts_def] h'(2) h(3) h'(3)])
      (simp_all add: feeds_agree_def)
qed

definition evaluate_feed ::
    "(strategy_rules \<Rightarrow> string) \<Rightarrow> (indicator_definition \<Rightarrow> nat result) \<Rightarrow> signal_request \<Rightarrow> strategy_rules \<Rightarrow> candle_feed
     \<Rightarrow> signal_trace result" where
  "evaluate_feed fp cw spec strategy v =
     evaluate_signal_trace fp cw spec strategy (cf_candles v) (cf_htf v) (cf_extra v) (cf_reference v)"

text \<open>The stability of a published record, for two windows with the same start.\<close>

lemma settled_record:
  assumes valid: "document_valid cw strategy" and agree: "feeds_agree T strategy v v'"
    and same: "rs_evaluation_starts_at spec' = rs_evaluation_starts_at spec" "rs_warmup_starts_at spec' = rs_warmup_starts_at spec"
    and runs: "evaluate_feed fp cw spec strategy v = Inr trace" "evaluate_feed fp cw spec' strategy v' = Inr trace'"
    and r: "r \<in> set (st_records trace)" "r' \<in> set (st_records trace')" "tr_candle_starts_at r' = tr_candle_starts_at r"
      "ltf_close (tr_candle_starts_at r) (sr_timeframe strategy) = Inr close" "close \<le> T"
  shows "r' = r"
proof -
  from runs(1) obtain ec rows er rr hr where
    e: "verify_contract fp spec strategy = Inr ()" "required_candles spec (cf_candles v) = Inr ec" "decision_rows strategy ec = Inr rows"
    "calculate_extra_indicator_rows cw strategy (cf_extra v) (cf_htf v) (rs_evaluation_starts_at spec) (rs_evaluation_ends_at spec) = Inr er"
    "calculate_reference_indicator_rows cw strategy (cf_reference v) (rs_evaluation_starts_at spec) (rs_evaluation_ends_at spec) True = Inr rr"
    "htf_indicator_rows spec strategy (cf_htf v) = Inr hr"
    "\<And>r. r \<in> set (st_records trace) \<Longrightarrow> \<exists>k < length ec. trace_record strategy ec rows er rr hr k = Inr r"
    unfolding evaluate_feed_def by (rule evaluated) blast
  from runs(2) obtain ec' rows' er' rr' hr' where
    e': "verify_contract fp spec' strategy = Inr ()" "required_candles spec' (cf_candles v') = Inr ec'" "decision_rows strategy ec' = Inr rows'"
    "calculate_extra_indicator_rows cw strategy (cf_extra v') (cf_htf v') (rs_evaluation_starts_at spec') (rs_evaluation_ends_at spec') = Inr er'"
    "calculate_reference_indicator_rows cw strategy (cf_reference v') (rs_evaluation_starts_at spec') (rs_evaluation_ends_at spec') True = Inr rr'"
    "htf_indicator_rows spec' strategy (cf_htf v') = Inr hr'"
    "\<And>r. r \<in> set (st_records trace') \<Longrightarrow> \<exists>k < length ec'. trace_record strategy ec' rows' er' rr' hr' k = Inr r"
    unfolding evaluate_feed_def by (rule evaluated) blast
  from e(1) obtain clock where c: "parse_candle_interval (sr_timeframe strategy) = Inr clock" "specification_bar_interval spec = Inr clock"
    by (rule verified_contract)
  from e'(1) c(1) have c': "specification_bar_interval spec' = Inr clock" by (auto elim: verified_contract)
  let ?d = "interval_duration clock" and ?w = "rs_warmup_starts_at spec"
  have p: "picks ?w ?d (cf_candles v) ec" "picks ?w ?d (cf_candles v') ec'"
    using required_candles_picks(1) [OF e(2) c(2)] required_candles_picks(1) [OF e'(2) c'] same(2) by simp_all
  have b: "same_closed_bars T ?d (cf_candles v) (cf_candles v')" using agree c(1) by (simp add: feeds_agree_def clock_agrees_def)
  from e(7) [OF r(1)] obtain k where k: "k < length ec" "trace_record strategy ec rows er rr hr k = Inr r" by blast
  from e'(7) [OF r(2)] obtain k' where k': "k' < length ec'" "trace_record strategy ec' rows' er' rr' hr' k' = Inr r'" by blast
  have s: "tr_candle_starts_at r = ?w + ?d * int k" "tr_candle_starts_at r' = ?w + ?d * int k'"
    using trace_record_starts [OF k(2)] trace_record_starts [OF k'(2)] k(1) k'(1) p by (simp_all add: picks_def starts_from_def)
  with r(3) interval_duration_pos [of clock] have "k' = k" by simp
  have "?w + ?d * int k + ?d \<le> T" using r(4,5) s(1) ltf_close_eq [OF c(1)] by simp
  then have "r = r'"
    using trace_record_same [OF runs_agree [OF valid agree same(1) e(4-6) e'(4-6)] c(1) p b
        groups_valid(1) [OF document_parts(1) [OF valid]] e(3) [unfolded decision_rows_def] e'(3) [unfolded decision_rows_def]
        k(1) _ _ k(2)] k' \<open>k' = k\<close> by simp
  then show ?thesis by simp
qed

text \<open>Two evaluations of one specification publish records for the same bars.\<close>

lemma same_record_starts:
  assumes "evaluate_feed fp cw spec strategy v = Inr trace" "evaluate_feed fp cw spec strategy v' = Inr trace'"
    and "specification_bar_interval spec = Inr i"
  shows "map tr_candle_starts_at (st_records trace') = map tr_candle_starts_at (st_records trace)"
    "distinct (map tr_candle_starts_at (st_records trace))"
    "t \<in> set (map tr_candle_starts_at (st_records trace)) \<Longrightarrow> \<exists>k. t = rs_warmup_starts_at spec + interval_duration i * int k"
proof -
  let ?starts = "\<lambda>ec. map (\<lambda>k. k_starts_at (ec ! k)) (filter (\<lambda>k. \<not> k_starts_at (ec ! k) < rs_evaluation_starts_at spec) [0..<length ec])"
  let ?w = "rs_warmup_starts_at spec" and ?d = "interval_duration i"
  from assms(1) obtain ec where e: "required_candles spec (cf_candles v) = Inr ec"
      "map tr_candle_starts_at (st_records trace) = ?starts ec" "sorted_wrt (<) (map tr_candle_starts_at (st_records trace))"
    unfolding evaluate_feed_def by (rule evaluated) blast
  from assms(2) obtain ec' where e': "required_candles spec (cf_candles v') = Inr ec'"
      "map tr_candle_starts_at (st_records trace') = ?starts ec'"
    unfolding evaluate_feed_def by (rule evaluated) blast
  note p = required_candles_picks [OF e(1) assms(3)] and p' = required_candles_picks [OF e'(1) assms(3)]
  have l: "length ec' = length ec" using p(2) p'(2) by simp
  have s: "k < length ec \<Longrightarrow> k_starts_at (ec ! k) = ?w + ?d * int k" "k < length ec' \<Longrightarrow> k_starts_at (ec' ! k) = ?w + ?d * int k" for k
    using p(1) p'(1) by (simp_all add: picks_def starts_from_def)
  have f: "filter (\<lambda>k. \<not> k_starts_at (ec' ! k) < rs_evaluation_starts_at spec) [0..<length ec']
      = filter (\<lambda>k. \<not> k_starts_at (ec ! k) < rs_evaluation_starts_at spec) [0..<length ec]"
    unfolding l by (intro filter_cong refl) (simp add: s l)
  show "map tr_candle_starts_at (st_records trace') = map tr_candle_starts_at (st_records trace)"
    unfolding e(2) e'(2) f by (rule map_cong [OF refl]) (simp add: s l)
  show "distinct (map tr_candle_starts_at (st_records trace))" using e(3) strict_sorted_iff by blast
  show "\<exists>k. t = ?w + ?d * int k" if "t \<in> set (map tr_candle_starts_at (st_records trace))"
    using that unfolding e(2) by (auto simp: s)
qed

end
