(* ===== verification/Signal_Liveness.thy ===== *)
theory Signal_Liveness
  imports Signal_Causality
begin

text \<open>
  When a trace exists: a validated document names every trace key once, the bars loaded for each
  clock contain the bar every decision close is mapped to, and so evaluation succeeds as soon as
  the candle windows are complete. The two statements about the evaluator, stability of published
  records and existence of the trace, close the theory with a concrete document.
\<close>

section \<open>Trace keys are unambiguous\<close>

lemma distinct_concat_owner:
  assumes "distinct (map f xs)" "\<And>x k. x \<in> set xs \<Longrightarrow> k \<in> set (g x) \<Longrightarrow> owner k = f x" "\<And>x. x \<in> set xs \<Longrightarrow> distinct (g x)"
  shows "distinct (concat (map g xs))"
  using assms
proof (induction xs)
  case (Cons x xs)
  have "set (g x) \<inter> set (concat (map g xs)) = {}"
  proof (rule ccontr)
    assume "\<not> ?thesis"
    then obtain k y where "k \<in> set (g x)" "y \<in> set xs" "k \<in> set (g y)" by auto
    with Cons.prems(2) have "f x = f y" by (metis list.set_intros)
    with Cons.prems(1) \<open>y \<in> set xs\<close> show False by force
  qed
  with Cons show ?case by auto
qed simp

lemma output_series_names:
  assumes "indicator_output_series kind = Some names"
  shows "distinct names" "name \<in> set names \<Longrightarrow> CHR ''@'' \<notin> set name"
  using assms by (cases kind; auto)+

lemma value_key_owner:
  assumes "id_pattern n (ind_id i)" "k \<in> set (indicator_value_keys i)"
  shows "takeWhile (\<lambda>c. c \<noteq> CHR ''.'') k = ind_id i"
  using assms id_pattern_chars(1) [OF assms(1)]
  by (auto simp: indicator_value_keys_def takeWhile_tail takeWhile_eq_all_conv split: option.splits)

lemma value_keys_plain:
  assumes "id_pattern n (ind_id i)"
  shows "distinct (indicator_value_keys i)" "k \<in> set (indicator_value_keys i) \<Longrightarrow> CHR ''@'' \<notin> set k"
proof -
  show "distinct (indicator_value_keys i)"
    by (auto simp: indicator_value_keys_def distinct_map inj_on_def output_series_names split: option.splits)
  show "CHR ''@'' \<notin> set k" if "k \<in> set (indicator_value_keys i)"
    using that id_pattern_chars(2) [OF assms] output_series_names(2)
    by (fastforce simp: indicator_value_keys_def split: option.splits)
qed

lemma condition_operands_valid: "condition_valid c \<Longrightarrow> operand \<in> set (condition_indicator_operands c) \<Longrightarrow> operand_valid operand"
  by (induction c rule: condition_valid.induct)
    (auto simp: condition_indicator_operands_def first_occurrences_def list_all_iff)

lemma distinct_first_occurrences [simp]: "distinct (first_occurrences xs)" "set (first_occurrences xs) = set xs"
  by (simp_all add: first_occurrences_def)

lemma strategy_operands_valid:
  "document_valid cw strategy \<Longrightarrow> operand \<in> set (strategy_indicator_operands strategy) \<Longrightarrow> operand_valid operand"
  by (auto simp: strategy_indicator_operands_def document_valid_def dest: condition_operands_valid split: option.splits)

lemma declared_ids_distinct:
  assumes "document_valid cw strategy"
  shows "distinct (map ind_id (decision_and_filter_indicators strategy))"
proof -
  have v: "validate_decision_indicators cw strategy = Inr ()" "validate_htf_filter strategy = Inr ()"
    "\<And>f. sr_htf_filter strategy = Some f \<Longrightarrow> validate_htf_semantics cw f = Inr ()"
    using assms by (auto simp: document_valid_def validate_semantics_def split: option.splits)
  have "distinct (map ind_id (sr_indicators strategy))"
    using v(1) by (simp add: validate_decision_indicators_def Let_def require_def split: if_splits)
  moreover have "distinct (map ind_id (hf_indicators f))"
    "set (map ind_id (sr_indicators strategy)) \<inter> set (map ind_id (hf_indicators f)) = {}" if "sr_htf_filter strategy = Some f" for f
    using v(2) v(3) [OF that] that by (simp_all add: validate_htf_filter_def validate_htf_semantics_def require_def split: if_splits)
  ultimately show ?thesis by (auto simp: decision_and_filter_indicators_def split: option.splits)
qed

lemma trace_keys_distinct:
  assumes "document_valid cw strategy"
  shows "distinct (strategy_indicator_value_keys strategy)"
proof -
  let ?inds = "decision_and_filter_indicators strategy" and ?ops = "filter (\<lambda>operand. opd_offset operand \<noteq> None) (strategy_indicator_operands strategy)"
  have i: "id_pattern 63 (ind_id i)" if "i \<in> set ?inds" for i
    using assms that by (auto simp: document_valid_def decision_and_filter_indicators_def list_all_iff indicator_valid_def split: option.splits)
  have k: "distinct (concat (map indicator_value_keys ?inds))"
    by (rule distinct_concat_owner [OF declared_ids_distinct [OF assms], where owner = "takeWhile (\<lambda>c. c \<noteq> CHR ''.'')"])
      (use i value_key_owner value_keys_plain(1) in blast)+
  have o: "distinct (map operand_value_key ?ops)"
    using operand_value_key_inj strategy_operands_valid [OF assms]
    by (auto simp: distinct_map inj_on_def strategy_indicator_operands_def)
  have "CHR ''@'' \<in> set key" if "key \<in> set (map operand_value_key ?ops)" for key
    using that lagged_key_at by auto
  moreover have "CHR ''@'' \<notin> set key" if "key \<in> set (concat (map indicator_value_keys ?inds))" for key
    using that i value_keys_plain(2) by auto
  ultimately show ?thesis using k o by (auto simp: strategy_indicator_value_keys_def)
qed

section \<open>A trace exists\<close>

lemma isqrt_ge_1: "2 \<le> n \<Longrightarrow> 1 \<le> isqrt n"
  using isqrt_pos [of n] by simp

lemma warmup_rule_pos:
  assumes "parameters_valid p" "warmup_rule kind p = Some (Inr n)"
  shows "1 \<le> n"
  using assms isqrt_ge_1
  by (cases "(kind, p)" rule: warmup_rule.cases)
    (auto simp: shape_error_def parameters_period_def period_of_def between_def split: indicator_parameter_block.splits)

lemma base_min_warmup_pos:
  assumes "parameters_valid (ind_parameters i)" "base_min_warmup i = Inr n"
  shows "1 \<le> n"
  using assms warmup_rule_pos [OF assms(1)]
  by (auto simp: base_min_warmup_def parameters_period_def shape_error_def between_def
      split: if_splits option.splits indicator_parameter_block.splits)

text \<open>The convergence warmup is never below one bar; documented as at least the minimum warmup.\<close>

definition warmup_positive :: "(indicator_definition \<Rightarrow> nat result) \<Rightarrow> bool" where
  "warmup_positive per_indicator \<longleftrightarrow> (\<forall>i n. indicator_valid i \<longrightarrow> per_indicator i = Inr n \<longrightarrow> 1 \<le> n)"

lemma min_warmup_positive: "warmup_positive indicator_min_warmup"
  using base_min_warmup_pos by (fastforce simp: warmup_positive_def indicator_min_warmup_def indicator_valid_def)

lemma indicator_warmups_pos:
  "warmup_positive per \<Longrightarrow> list_all indicator_valid indicators \<Longrightarrow> indicator_warmups per operands indicators = Inr ns \<Longrightarrow>
   \<forall>n \<in> set ns. 1 \<le> n"
  by (induction indicators arbitrary: ns) (auto simp: warmup_positive_def, fastforce)

lemma fold_max_start: "(a :: nat) \<le> fold max xs a"
proof (induction xs arbitrary: a)
  case (Cons x xs)
  from Cons.IH [of "max x a"] show ?case by simp
qed simp

lemma fold_max_pos: "xs \<noteq> [] \<Longrightarrow> \<forall>n \<in> set xs. 1 \<le> n \<Longrightarrow> (1 :: nat) \<le> fold max xs a"
proof (cases xs)
  case (Cons x rest)
  assume "\<forall>n \<in> set xs. 1 \<le> n"
  with Cons fold_max_start [of "max x a" rest] show ?thesis by simp
qed simp

lemma group_warmup_pos:
  assumes "warmup_positive cw" "list_all indicator_valid indicators" "group_warmup cw strategy indicators = Inr n"
  shows "1 \<le> n"
proof -
  let ?per = "if dr_convergence (sr_data_requirements strategy) then cw else indicator_min_warmup"
  from assms(3) obtain ns where ns: "indicator_warmups ?per (strategy_indicator_operands strategy) indicators = Inr ns"
    "n = (if ns = [] then 1 else fold max ns 0)"
    by (auto simp: group_warmup_def extra_indicator_timeframe_warmup_def)
  have "warmup_positive ?per" using assms(1) min_warmup_positive by simp
  from indicator_warmups_pos [OF this assms(2) ns(1)] ns(2) show ?thesis
    using fold_max_pos by simp
qed

definition covers :: "datetime \<Rightarrow> datetime \<Rightarrow> string \<Rightarrow> rows_by_start \<Rightarrow> bool" where
  "covers a e tf m \<longleftrightarrow> (\<forall>t. a \<le> t \<longrightarrow> t \<le> e \<longrightarrow> (\<exists>r. \<forall>message. mapped_row m t tf message = Inr r))"

lemma window_rows_cover:
  assumes "list_all indicator_valid indicators" "closed_bar_starts a e tf w = Inr starts" "1 \<le> w"
    and "required_htf_candles starts candles = Inr sel" "clock_rows message indicators operands sel = Inr m"
  shows "covers a e tf m"
  unfolding covers_def
proof (intro allI impI)
  fix t assume t: "a \<le> t" "t \<le> e"
  from assms(2) obtain i where i: "parse_candle_interval tf = Inr i" and
    s: "starts = bar_starts (interval_duration i) (a - a mod interval_duration i - interval_duration i * int w) (e - e mod interval_duration i)"
    by (rule closed_bar_starts_eq)
  let ?d = "interval_duration i" and ?s = "t - t mod interval_duration i - interval_duration i"
  note d = interval_duration_pos [of i] and p = required_htf_picks [OF assms(4) [unfolded s]]
  have "?d * 1 \<le> ?d * int w" using d assms(3) by (intro mult_left_mono) auto
  then have "?s \<in> set starts"
    using closed_bar_starts_mem [OF i assms(2)] floor_mono [OF d t(1)] floor_le(1) [OF d, of t] t(2) floor_dvd [of ?d t] by simp
  then have "?s \<in> set (map k_starts_at sel)" unfolding p(2) s .
  then obtain k where k: "k < length sel" "?s = k_starts_at (sel ! k)" by (auto simp: in_set_conv_nth)
  from assms(5) obtain rows where r: "calculate_indicator_rows indicators sel operands = Inr rows" "m = keyed_by_start sel rows"
    by (auto simp: clock_rows_def)
  have st: "starts_from (a - a mod ?d - ?d * int w) ?d sel" using p(1) by (simp add: picks_def)
  with k have "m ?s = Some (rows ! k)"
    unfolding r(2) keyed_by_start_Some [OF d st rows_length [OF assms(1) r(1)]] by (auto simp: starts_from_def)
  then show "\<exists>r. \<forall>message. mapped_row m t tf message = Inr r"
    by (simp add: mapped_row_def mapped_htf_start_eq i)
qed

lemma extra_rows_cover:
  assumes "warmup_positive cw" "\<forall>(tf, indicators) \<in> set groups. list_all indicator_valid indicators"
    and "extra_rows_of cw strategy ex htf a e groups = Inr er" "(tf, m) \<in> set er"
  shows "covers a e tf m"
  using assms(2-4)
proof (induction groups arbitrary: er)
  case (Cons g groups)
  obtain tf' indicators where g: "g = (tf', indicators)" by (cases g)
  have v: "list_all indicator_valid indicators" using Cons.prems(1) g by simp
  from Cons.prems(2) g obtain bars starts sel m' rest where
    r: "group_warmup cw strategy indicators = Inr bars" "closed_bar_starts a e tf' bars = Inr starts"
      "required_htf_candles starts (extra_clock_candles strategy ex htf tf') = Inr sel"
      "clock_rows ''Indicator-timeframe calculation failed under the deterministic Decimal contract.'' indicators (strategy_indicator_operands strategy) sel = Inr m'"
      "extra_rows_of cw strategy ex htf a e groups = Inr rest" "er = (tf', m') # rest"
    by (auto simp: Let_def split: if_splits)
  have "covers a e tf' m'" by (rule window_rows_cover [OF v r(2) group_warmup_pos [OF assms(1) v r(1)] r(3,4)])
  with Cons.IH [OF _ r(5)] Cons.prems(1,3) r(6) show ?case by auto
qed simp

lemma reference_rows_cover:
  assumes "warmup_positive cw" "\<forall>(reference, indicators) \<in> set groups. list_all indicator_valid indicators"
    and "reference_rows_of cw strategy refs a e True groups = Inr rr"
    and "distinct (map (\<lambda>(reference, _). rf_id reference) groups)" "(reference, indicators) \<in> set groups"
  shows "\<exists>m. map_of rr (rf_id reference) = Some m \<and> covers a e (rf_timeframe reference) m"
  using assms(2-5)
proof (induction groups arbitrary: rr)
  case (Cons g groups)
  obtain r0 inds where g: "g = (r0, inds)" by (cases g)
  have v: "list_all indicator_valid inds" using Cons.prems(1) g by simp
  from Cons.prems(2) g obtain bars starts sel m rest where
    r: "group_warmup cw strategy inds = Inr bars" "closed_bar_starts a e (rf_timeframe r0) bars = Inr starts"
      "required_htf_candles starts (or_else (refs (rf_id r0)) []) = Inr sel"
      "clock_rows ''Reference indicator calculation failed under the deterministic Decimal contract.'' inds (strategy_indicator_operands strategy) sel = Inr m"
      "reference_rows_of cw strategy refs a e True groups = Inr rest" "rr = (rf_id r0, m) # rest"
    by (auto simp: reference_window_def split: if_splits sum.splits)
  have c: "covers a e (rf_timeframe r0) m" by (rule window_rows_cover [OF v r(2) group_warmup_pos [OF assms(1) v r(1)] r(3,4)])
  show ?case
  proof (cases "(reference, indicators) = g")
    case True
    with c g r(6) show ?thesis by simp
  next
    case False
    with Cons.prems(4) have m: "(reference, indicators) \<in> set groups" by simp
    then have "rf_id reference \<noteq> rf_id r0" using Cons.prems(3) g by force
    with Cons.IH [OF _ r(5) _ m] Cons.prems(1,3) r(6) show ?thesis by simp
  qed
qed simp

definition inside :: "datetime \<Rightarrow> datetime \<Rightarrow> datetime option \<Rightarrow> bool" where
  "inside a e t \<longleftrightarrow> (case t of None \<Rightarrow> True | Some t \<Rightarrow> a \<le> t \<and> t \<le> e)"

lemma coversD: "covers a e tf m \<Longrightarrow> a \<le> t \<Longrightarrow> t \<le> e \<Longrightarrow> \<exists>r. mapped_row m t tf message = Inr r"
  unfolding covers_def by blast

lemma overlay_extra_total:
  assumes "\<forall>(tf, m) \<in> set er. covers a e tf m" "a \<le> t" "t \<le> e" "inside a e p"
  shows "\<exists>x. overlay_extra_rows t p er current previous = Inr x"
  using assms(1)
proof (induction er arbitrary: current previous)
  case (Cons y er)
  obtain tf m where y: "y = (tf, m)" by (cases y)
  with Cons.prems have c: "covers a e tf m" by simp
  from coversD [OF c assms(2,3)] obtain r where
    r: "mapped_row m t tf ''Indicator timeframe alignment missed a last completed bar.'' = Inr r" by blast
  have "\<exists>b. (case (previous, p) of
          (Some before, Some close) \<Rightarrow>
            rbind (mapped_row m close tf ''Indicator timeframe alignment missed a previous completed bar.'')
              (\<lambda>held. Inr (Some (update_row before held)))
        | _ \<Rightarrow> Inr previous) = Inr b"
    using assms(4) coversD [OF c] by (auto simp: inside_def split: option.splits)
  then obtain b where b: "(case (previous, p) of
          (Some before, Some close) \<Rightarrow>
            rbind (mapped_row m close tf ''Indicator timeframe alignment missed a previous completed bar.'')
              (\<lambda>held. Inr (Some (update_row before held)))
        | _ \<Rightarrow> Inr previous) = Inr b" by blast
  have "\<exists>x. overlay_extra_rows t p er (update_row current r) b = Inr x" using Cons.prems by (intro Cons.IH) simp
  with r b show ?case unfolding y overlay_extra_rows.simps by simp
qed simp

lemma held_reference_total:
  assumes "covers a e tf m" "a \<le> t" "t \<le> e"
  shows "\<exists>r. held_reference (Some m) t tf indicators True message = Inr r"
proof -
  from coversD [OF assms] obtain r where "mapped_row m t tf message = Inr r" by blast
  then show ?thesis by (auto simp: held_reference_def mapped_reference_row_def mapped_row_def split: option.splits)
qed

lemma overlay_references_total:
  assumes "\<forall>(reference, indicators) \<in> set groups. \<exists>m. map_of rr (rf_id reference) = Some m \<and> covers a e (rf_timeframe reference) m"
    and "a \<le> t" "t \<le> e" "inside a e p"
  shows "\<exists>x. overlay_reference_values groups t p rr True current previous = Inr x"
  using assms(1)
proof (induction groups arbitrary: current previous)
  case (Cons g groups)
  obtain reference indicators where g: "g = (reference, indicators)" by (cases g)
  with Cons.prems obtain m where m: "map_of rr (rf_id reference) = Some m" "covers a e (rf_timeframe reference) m" by auto
  let ?held = "\<lambda>close. held_reference (Some m) close (rf_timeframe reference) indicators True ''Reference instrument alignment missed a previous completed bar.''"
  from held_reference_total [OF m(2) assms(2,3)] obtain r where
    r: "held_reference (Some m) t (rf_timeframe reference) indicators True ''Reference instrument alignment missed a last completed bar.'' = Inr r"
    by blast
  have "\<exists>b. (case (previous, p) of (Some before, Some close) \<Rightarrow> rbind (?held close) (\<lambda>held. Inr (Some (update_row before held)))
        | _ \<Rightarrow> Inr previous) = Inr b"
    using assms(4) held_reference_total [OF m(2)] by (auto simp: inside_def split: option.splits)
  then obtain b where b: "(case (previous, p) of (Some before, Some close) \<Rightarrow> rbind (?held close) (\<lambda>held. Inr (Some (update_row before held)))
        | _ \<Rightarrow> Inr previous) = Inr b" by blast
  have "\<exists>x. overlay_reference_values groups t p rr True (update_row current r) b = Inr x" using Cons.prems by (intro Cons.IH) simp
  with r b show ?case unfolding g overlay_reference_values.simps Let_def m(1) by simp
qed simp

lemma htf_outcome_total:
  assumes "\<And>f. sr_htf_filter strategy = Some f \<Longrightarrow> covers a e (hf_timeframe f) hr"
    and "ltf_close (k_starts_at c) (sr_timeframe strategy) = Inr t" "a \<le> t" "t \<le> e"
    and "optional_close p (sr_timeframe strategy) = Inr close" "inside a e close"
  shows "\<exists>x. htf_filter_outcome strategy c p hr = Inr x"
proof (cases "sr_htf_filter strategy")
  case (Some f)
  note c = coversD [OF assms(1) [OF Some]]
  from c [OF assms(3,4)] obtain r where r: "mapped_row hr t (hf_timeframe f) ''HTF alignment missed a last completed HTF bar.'' = Inr r"
    by blast
  have "\<exists>b. (case close of None \<Rightarrow> Inr None
      | Some close \<Rightarrow> rbind (mapped_row hr close (hf_timeframe f) ''HTF alignment missed a previous completed HTF bar.'')
          (\<lambda>held. Inr (Some held))) = Inr b"
    using assms(6) c by (auto simp: inside_def split: option.splits)
  with r Some assms(2,5) show ?thesis by (auto simp: htf_filter_outcome_def)
qed (simp add: htf_filter_outcome_def)

definition rows_cover ::
    "datetime \<Rightarrow> datetime \<Rightarrow> strategy_rules \<Rightarrow> (string \<times> rows_by_start) list \<Rightarrow> (string \<times> rows_by_start) list \<Rightarrow> rows_by_start \<Rightarrow> bool" where
  "rows_cover a e strategy er rr hr \<longleftrightarrow>
     (\<forall>(tf, m) \<in> set er. covers a e tf m)
     \<and> (\<forall>(reference, indicators) \<in> set (reference_indicator_groups strategy).
          \<exists>m. map_of rr (rf_id reference) = Some m \<and> covers a e (rf_timeframe reference) m)
     \<and> (\<forall>f. sr_htf_filter strategy = Some f \<longrightarrow> covers a e (hf_timeframe f) hr)"

lemma run_rows_cover:
  assumes "document_valid cw strategy" "warmup_positive cw"
    and e: "calculate_extra_indicator_rows cw strategy ex htf (rs_evaluation_starts_at spec) (rs_evaluation_ends_at spec) = Inr er"
      "calculate_reference_indicator_rows cw strategy refs (rs_evaluation_starts_at spec) (rs_evaluation_ends_at spec) True = Inr rr"
      "htf_indicator_rows spec strategy htf = Inr hr"
  shows "rows_cover (rs_evaluation_starts_at spec) (rs_evaluation_ends_at spec) strategy er rr hr"
  unfolding rows_cover_def
proof (intro conjI allI impI)
  note v = groups_valid [OF document_parts(1) [OF assms(1)]]
  show "\<forall>(tf, m) \<in> set er. covers (rs_evaluation_starts_at spec) (rs_evaluation_ends_at spec) tf m"
    using extra_rows_cover [OF assms(2) v(2) e(1) [unfolded calculate_extra_indicator_rows_def]] by blast
  have r: "reference_rows_of cw strategy (map_of refs) (rs_evaluation_starts_at spec) (rs_evaluation_ends_at spec) True
        (reference_indicator_groups strategy) = Inr rr"
    using e(2) by (auto simp: calculate_reference_indicator_rows_def split: if_splits)
  have "distinct (map (\<lambda>(reference, _). rf_id reference) (reference_indicator_groups strategy))"
    using document_parts(2) [OF assms(1)] by (simp add: reference_indicator_groups_def comp_def)
  from reference_rows_cover [OF assms(2) v(3) r this]
  show "\<forall>(reference, indicators) \<in> set (reference_indicator_groups strategy).
          \<exists>m. map_of rr (rf_id reference) = Some m \<and> covers (rs_evaluation_starts_at spec) (rs_evaluation_ends_at spec) (rf_timeframe reference) m"
    by blast
  fix f assume f: "sr_htf_filter strategy = Some f"
  from e(3) f obtain starts sel where h: "htf_candle_starts (rs_evaluation_starts_at spec) (rs_evaluation_ends_at spec) f = Inr starts"
      "required_htf_candles starts htf = Inr sel"
      "clock_rows ''HTF indicator calculation failed under the deterministic Decimal contract.'' (hf_indicators f) (strategy_indicator_operands strategy) sel = Inr hr"
    by (auto simp: htf_indicator_rows_def calculate_htf_indicator_rows_def split: if_splits)
  from document_parts(3) [OF assms(1) f]
  show "covers (rs_evaluation_starts_at spec) (rs_evaluation_ends_at spec) (hf_timeframe f) hr"
    by (intro window_rows_cover [OF _ h(1) [unfolded htf_candle_starts_def] _ h(2,3)]) simp_all
qed

lemma trace_record_total:
  assumes "rows_cover a e strategy er rr hr" "parse_candle_interval (sr_timeframe strategy) = Inr i"
    and "starts_from w (interval_duration i) ec" "k < length ec" "0 < k"
    and "a \<le> w + interval_duration i * int k" "w + interval_duration i * int k + interval_duration i \<le> e"
  shows "\<exists>r. trace_record strategy ec rows er rr hr k = Inr r \<and> map fst (tr_indicator_values r) = strategy_indicator_value_keys strategy"
proof -
  let ?d = "interval_duration i" and ?c = "ec ! k" and ?p = "previous_ltf_start ec k"
    and ?v = "if k = 0 then None else Some (rows ! (k - 1))"
  note d = interval_duration_pos [of i] and close = ltf_close_eq [OF assms(2)]
  have k: "int k = int (k - 1) + 1" using assms(5) by simp
  have s: "k_starts_at ?c = w + ?d * int k" "k_starts_at (ec ! (k - 1)) + ?d = w + ?d * int k"
    using assms(3,4) unfolding starts_from_def by (simp, subst k, simp add: algebra_simps)
  have t: "ltf_close (k_starts_at ?c) (sr_timeframe strategy) = Inr (w + ?d * int k + ?d)" by (simp add: close s)
  have q: "optional_close ?p (sr_timeframe strategy) = Inr (Some (w + ?d * int k))"
    using assms(5) s(2) by (simp add: previous_ltf_start_def optional_close_def close)
  have i: "inside a e (Some (w + ?d * int k))" "a \<le> w + ?d * int k + ?d" using assms(6,7) d by (simp_all add: inside_def)
  from assms(1) have c: "\<forall>(tf, m) \<in> set er. covers a e tf m"
    "\<forall>(reference, indicators) \<in> set (reference_indicator_groups strategy).
          \<exists>m. map_of rr (rf_id reference) = Some m \<and> covers a e (rf_timeframe reference) m"
    "\<And>f. sr_htf_filter strategy = Some f \<Longrightarrow> covers a e (hf_timeframe f) hr"
    by (simp_all add: rows_cover_def)
  obtain mv mp where x: "overlay_extra_rows (w + ?d * int k + ?d) (Some (w + ?d * int k)) er (rows ! k) ?v = Inr (mv, mp)"
    using overlay_extra_total [OF c(1) i(2) assms(7) i(1)] by force
  have "\<exists>y. overlay_indicator_timeframe_values strategy ?c ?p (rows ! k) ?v er rr True = Inr y"
    using overlay_references_total [OF c(2) i(2) assms(7) i(1)] unfolding overlay_indicator_timeframe_values_def t q rbind_Inr x by simp
  then obtain y where y: "overlay_indicator_timeframe_values strategy ?c ?p (rows ! k) ?v er rr True = Inr y" by blast
  obtain z where z: "htf_filter_outcome strategy ?c ?p hr = Inr z"
    using htf_outcome_total [OF c(3) t i(2) assms(7) q i(1)] by blast
  obtain mv mp ho hv where yz: "y = (mv, mp)" "z = (ho, hv)" by (cases y; cases z)
  show ?thesis using y z by (simp add: trace_record_def Let_def yz comp_def)
qed

lemma collect_total:
  "(\<And>x. x \<in> set xs \<Longrightarrow> \<exists>y. f x = Inr y) \<Longrightarrow> \<exists>ys. collect f xs = Inr ys"
  by (induction xs) fastforce+

lemma filter_from: "(\<And>k. P k \<longleftrightarrow> m \<le> k) \<Longrightarrow> m \<le> n \<Longrightarrow> filter P [0..<n] = [m..<n]"
proof -
  assume p: "\<And>k. P k \<longleftrightarrow> m \<le> k" and n: "m \<le> n"
  have "[0..<n] = [0..<m] @ [m..<n]" using upt_add_eq_append [of 0 m "n - m"] n by simp
  moreover have "filter P [0..<m] = []" by (simp add: p filter_empty_conv)
  moreover have "filter P [m..<n] = [m..<n]" by (simp add: p)
  ultimately show ?thesis by simp
qed

text \<open>The positions of the evaluation window among the loaded decision bars.\<close>

lemma evaluation_positions:
  assumes "specification_bar_interval spec = Inr i" "required_candles spec candles = Inr ec"
    and "rs_evaluation_starts_at spec \<le> rs_evaluation_ends_at spec"
  shows "filter (\<lambda>index. \<not> k_starts_at (ec ! index) < rs_evaluation_starts_at spec) [0..<length ec] = [rs_warmup_bars spec..<length ec]"
    "rs_warmup_bars spec \<le> length ec"
    "rs_warmup_starts_at spec + interval_duration i * int (length ec) = rs_evaluation_ends_at spec"
proof -
  let ?d = "interval_duration i" and ?w = "rs_warmup_starts_at spec" and ?n = "rs_warmup_bars spec"
  note d = interval_duration_pos [of i] and s = spec_interval [OF assms(1)] and p = required_candles_picks [OF assms(2,1)]
  have "0 \<le> (rs_evaluation_ends_at spec - rs_evaluation_starts_at spec) div ?d"
    using assms(3) d by (simp add: pos_imp_zdiv_nonneg_iff)
  with p(2) show n: "?n \<le> length ec" by linarith
  have "?d dvd rs_evaluation_ends_at spec - rs_evaluation_starts_at spec" using s(2,3) by simp
  then have "?d * ((rs_evaluation_ends_at spec - rs_evaluation_starts_at spec) div ?d) = rs_evaluation_ends_at spec - rs_evaluation_starts_at spec"
    by simp
  then show "?w + ?d * int (length ec) = rs_evaluation_ends_at spec" unfolding p(2) by (simp add: s(1) algebra_simps)
  have st: "starts_from ?w ?d ec" using p(1) by (simp add: picks_def)
  have "filter (\<lambda>index. \<not> k_starts_at (ec ! index) < rs_evaluation_starts_at spec) [0..<length ec]
      = filter (\<lambda>index. ?n \<le> index) [0..<length ec]"
    using st d by (intro filter_cong) (auto simp: starts_from_def s(1))
  then show "filter (\<lambda>index. \<not> k_starts_at (ec ! index) < rs_evaluation_starts_at spec) [0..<length ec] = [?n..<length ec]"
    using filter_from [of "\<lambda>k. ?n \<le> k" ?n "length ec"] n by simp
qed

lemma validate_record_keys:
  assumes "distinct keys" "keys \<noteq> []" "map fst (tr_indicator_values r) = keys"
  shows "validate_unique_indicator_ids r = Inr ()"
  using assms by (auto simp: validate_unique_indicator_ids_def require_def)

lemma trace_keys_nonempty: "document_valid cw strategy \<Longrightarrow> strategy_indicator_value_keys strategy \<noteq> []"
proof -
  assume v: "document_valid cw strategy"
  then obtain i rest where i: "sr_indicators strategy = i # rest"
    by (cases "sr_indicators strategy") (auto simp: document_valid_def between_def)
  have "indicator_value_keys i \<noteq> []"
    by (cases "ind_kind i") (simp_all add: indicator_value_keys_def)
  with i show ?thesis by (simp add: strategy_indicator_value_keys_def decision_and_filter_indicators_def split: option.splits)
qed

lemma settled_trace:
  assumes valid: "document_valid cw strategy" "warmup_positive cw"
    and window: "rs_evaluation_starts_at spec < rs_evaluation_ends_at spec"
    and e: "verify_contract fp spec strategy = Inr ()" "required_candles spec candles = Inr ec" "decision_rows strategy ec = Inr rows"
    "calculate_extra_indicator_rows cw strategy extra htf (rs_evaluation_starts_at spec) (rs_evaluation_ends_at spec) = Inr er"
    "calculate_reference_indicator_rows cw strategy refs (rs_evaluation_starts_at spec) (rs_evaluation_ends_at spec) True = Inr rr"
    "htf_indicator_rows spec strategy htf = Inr hr"
  shows "\<exists>trace. evaluate_signal_trace fp cw spec strategy candles htf extra refs = Inr trace
    \<and> map tr_candle_starts_at (st_records trace) = map k_starts_at (drop (rs_warmup_bars spec) ec)"
proof -
  from e(1) obtain i where i: "parse_candle_interval (sr_timeframe strategy) = Inr i" "specification_bar_interval spec = Inr i"
    "rs_warmup_bars spec = dr_warmup_bars (sr_data_requirements strategy)" by (rule verified_contract)
  let ?d = "interval_duration i" and ?w = "rs_warmup_starts_at spec" and ?n = "rs_warmup_bars spec"
    and ?a = "rs_evaluation_starts_at spec" and ?e = "rs_evaluation_ends_at spec"
  let ?rec = "\<lambda>index. rbind (trace_record strategy ec rows er rr hr index) (\<lambda>r. rbind (validate_unique_indicator_ids r) (\<lambda>_. Inr r))"
  note d = interval_duration_pos [of i] and s = spec_interval [OF i(2)] and pos = evaluation_positions [OF i(2) e(2) less_imp_le [OF window]]
  have st: "starts_from ?w ?d ec" using required_candles_picks(1) [OF e(2) i(2)] by (simp add: picks_def)
  note cover = run_rows_cover [OF valid e(4-6)]
  have one: "\<exists>r. ?rec k = Inr r \<and> tr_candle_starts_at r = k_starts_at (ec ! k)
      \<and> map fst (tr_indicator_values r) = strategy_indicator_value_keys strategy" if k: "?n \<le> k" "k < length ec" for k
  proof -
    have "0 < k" using document_parts(4) [OF valid(1)] i(3) k(1) by simp
    moreover have "?d * int ?n \<le> ?d * int k" "?d * (int k + 1) \<le> ?d * int (length ec)" using k d by (auto intro!: mult_left_mono)
    ultimately obtain r where r: "trace_record strategy ec rows er rr hr k = Inr r"
        "map fst (tr_indicator_values r) = strategy_indicator_value_keys strategy"
      using trace_record_total [OF cover i(1) st k(2), of rows] s(1) pos(3) by (auto simp: algebra_simps)
    with validate_record_keys [OF trace_keys_distinct [OF valid(1)] trace_keys_nonempty [OF valid(1)] r(2)] trace_record_starts [OF r(1)]
    show ?thesis by auto
  qed
  have "\<exists>records. collect ?rec [?n..<length ec] = Inr records" by (rule collect_total) (use one in fastforce)
  then obtain records where c: "collect ?rec [?n..<length ec] = Inr records" by blast
  have l: "length records = length ec - ?n" and
    nth: "\<And>k. k < length ec - ?n \<Longrightarrow> ?rec (?n + k) = Inr (records ! k)" using collect_nth [OF c] by auto
  have rec: "tr_candle_starts_at (records ! k) = k_starts_at (ec ! (?n + k))
      \<and> map fst (tr_indicator_values (records ! k)) = strategy_indicator_value_keys strategy" if "k < length ec - ?n" for k
    using one [of "?n + k"] nth [OF that] that by auto
  have starts: "map tr_candle_starts_at records = map k_starts_at (drop ?n ec)"
    by (rule nth_equalityI) (simp_all add: l rec)
  have "?n < length ec" using window pos(2,3) s(1) by (cases "?n = length ec") auto
  then have "records \<noteq> []" using l by (cases records) auto
  moreover have "sorted_wrt (<) (map tr_candle_starts_at records)"
    unfolding starts sorted_wrt_iff_nth_less using st d by (auto simp: starts_from_def)
  ultimately have order: "validate_record_order records = Inr ()" by (simp add: validate_record_order_def require_def)
  have keys: "list_all (\<lambda>r. map fst (tr_indicator_values r) = strategy_indicator_value_keys strategy) records"
    by (simp add: list_all_length l rec)
  show ?thesis
    using e i c order keys starts trace_keys_distinct [OF valid(1)]
    by (simp add: evaluate_signal_trace_def decision_rows_def pos(1) Let_def validate_indicator_sequence_def require_def)
qed

section \<open>A concrete document\<close>

definition sample_range :: indicator_definition where
  "sample_range = \<lparr> ind_id = ''atr'', ind_kind = ATR, ind_input = Some (TupleInput [''high'', ''low'', ''close'']),
     ind_parameters = IndicatorParameters 2, ind_timeframe = None, ind_offset = None, ind_source = None \<rparr>"

definition sample_now :: indicator_operand where
  "sample_now = \<lparr> opd_indicator = ''fast'', opd_series = None, opd_offset = None \<rparr>"

definition sample_rules :: strategy_rules where
  "sample_rules = \<lparr>
     sr_instrument = \<lparr> it_product_id = ''BTC-USD'', it_base_currency = ''BTC'', it_quote_currency = ''USD'', it_is_future = False \<rparr>,
     sr_additional_instruments = [], sr_timeframe = ''1h'',
     sr_data_requirements = \<lparr> dr_warmup_bars = 3, dr_convergence = False, dr_required_fields = [''high'', ''low'', ''close''],
       dr_reference_instruments = [] \<rparr>,
     sr_indicators = [sample_average, sample_range], sr_htf_filter = None,
     sr_entry = \<lparr> en_when = AllCondition [ComparisonCondition
         \<lparr> cmp_left = IndicatorOperand sample_now, cmp_operator = GT, cmp_right = IndicatorOperand sample_lag \<rparr>],
       en_max_open_positions = 1, en_pyramiding = False \<rparr>,
     sr_max_concurrent_positions = 1,
     sr_exits = \<lparr> x_initial_stop = \<lparr> as_atr_indicator = ''atr'', as_multiple = 2 \<rparr>, x_take_profit = NoTakeProfit,
       x_trailing_stop = DisabledTrailingStop, x_max_bars_held = 10 \<rparr>,
     sr_signal_exit = None, sr_derivatives = False \<rparr>"

definition sample_request :: "datetime \<Rightarrow> signal_request" where
  "sample_request ends_at = \<lparr> rs_strategy_fingerprint = ''sample'', rs_htf_dataset = None, rs_indicator_datasets = [],
     rs_reference_datasets = [], rs_evaluation_starts_at = 3 * HOUR, rs_evaluation_ends_at = ends_at,
     rs_warmup_bars = 3, rs_warmup_starts_at = 0 \<rparr>"

definition sample_bars :: "decimal list \<Rightarrow> candle list" where
  "sample_bars closes = map (\<lambda>(k, c). sample_bar (HOUR * int k) c) (enumerate 0 closes)"

definition sample_feed :: "decimal list \<Rightarrow> candle_feed" where
  "sample_feed closes = \<lparr> cf_candles = sample_bars closes, cf_htf = [], cf_extra = Map.empty, cf_reference = [] \<rparr>"

lemma sample_rules_valid: "document_valid indicator_min_warmup sample_rules"
  by code_simp

lemma sample_contract:
  "verify_contract (\<lambda>_. ''sample'') (sample_request (5 * HOUR)) sample_rules = Inr ()"
  "verify_contract (\<lambda>_. ''sample'') (sample_request (6 * HOUR)) sample_rules = Inr ()"
  by code_simp+

lemma sample_windows:
  "required_candles (sample_request (5 * HOUR)) (sample_bars [100, 104, 102, 101, 99]) = Inr (sample_bars [100, 104, 102, 101, 99])"
  "required_candles (sample_request (6 * HOUR)) (sample_bars [100, 104, 102, 101, 7, 8]) = Inr (sample_bars [100, 104, 102, 101, 7, 8])"
  by code_simp+

lemma decision_rows_total: "document_valid cw strategy \<Longrightarrow> \<exists>rows. decision_rows strategy ec = Inr rows"
  using indicator_rows_total [of "decision_clock_indicators strategy" ec "strategy_indicator_operands strategy"]
    groups_valid(1) [OF document_parts(1)] by (auto simp: decision_rows_def list_all_iff)

lemma evaluation_grid:
  assumes "specification_bar_interval spec = Inr i" "required_candles spec candles = Inr ec"
    and "rs_evaluation_starts_at spec \<le> rs_evaluation_ends_at spec"
  shows "map k_starts_at (drop (rs_warmup_bars spec) ec)
    = map (\<lambda>j. rs_evaluation_starts_at spec + interval_duration i * int j)
        [0..<nat ((rs_evaluation_ends_at spec - rs_evaluation_starts_at spec) div interval_duration i)]"
proof (rule nth_equalityI)
  note p = required_candles_picks [OF assms(2,1)] and n = evaluation_positions(2) [OF assms]
  have l: "length ec - rs_warmup_bars spec = nat ((rs_evaluation_ends_at spec - rs_evaluation_starts_at spec) div interval_duration i)"
    using p(2) by simp
  then show "length (map k_starts_at (drop (rs_warmup_bars spec) ec))
    = length (map (\<lambda>j. rs_evaluation_starts_at spec + interval_duration i * int j)
        [0..<nat ((rs_evaluation_ends_at spec - rs_evaluation_starts_at spec) div interval_duration i)])" by simp
  fix j assume "j < length (map k_starts_at (drop (rs_warmup_bars spec) ec))"
  then have "j < length ec - rs_warmup_bars spec" "k_starts_at (ec ! (rs_warmup_bars spec + j)) = rs_evaluation_starts_at spec + interval_duration i * int j"
    using p(1) n unfolding spec_interval(1) [OF assms(1)] by (simp_all add: picks_def starts_from_def algebra_simps)
  then show "map k_starts_at (drop (rs_warmup_bars spec) ec) ! j
      = map (\<lambda>j. rs_evaluation_starts_at spec + interval_duration i * int j)
          [0..<nat ((rs_evaluation_ends_at spec - rs_evaluation_starts_at spec) div interval_duration i)] ! j"
    unfolding l [symmetric] using n by simp
qed

text \<open>C4: Complete candle windows always give a trace. For a validated document, once the contract of the run holds
  and the candles of every clock it reads are complete, evaluation succeeds: no decision close misses
  the bar it is mapped to, no trace key is ambiguous, and there is exactly one record for every bar of
  the evaluation window, in order.\<close>

theorem complete_windows_give_a_trace:
  assumes "document_valid convergence_warmup strategy" "warmup_positive convergence_warmup"
    and "rs_evaluation_starts_at spec < rs_evaluation_ends_at spec"
    and "verify_contract fingerprint spec strategy = Inr ()" "parse_candle_interval (sr_timeframe strategy) = Inr clock"
    and "required_candles spec candles = Inr engine_candles"
    and "calculate_extra_indicator_rows convergence_warmup strategy extra htf (rs_evaluation_starts_at spec) (rs_evaluation_ends_at spec) = Inr extra_rows"
    and "calculate_reference_indicator_rows convergence_warmup strategy refs (rs_evaluation_starts_at spec) (rs_evaluation_ends_at spec) True = Inr reference_rows"
    and "htf_indicator_rows spec strategy htf = Inr htf_rows"
  shows "\<exists>trace. evaluate_signal_trace fingerprint convergence_warmup spec strategy candles htf extra refs = Inr trace
    \<and> st_indicator_ids trace = strategy_indicator_value_keys strategy
    \<and> map tr_candle_starts_at (st_records trace)
        = map (\<lambda>j. rs_evaluation_starts_at spec + interval_duration clock * int j)
            [0..<nat ((rs_evaluation_ends_at spec - rs_evaluation_starts_at spec) div interval_duration clock)]"
proof -
  from decision_rows_total [OF assms(1)] obtain rows where "decision_rows strategy engine_candles = Inr rows" by blast
  from settled_trace [OF assms(1-4,6) this assms(7-9)] obtain trace where
    t: "evaluate_signal_trace fingerprint convergence_warmup spec strategy candles htf extra refs = Inr trace"
      "map tr_candle_starts_at (st_records trace) = map k_starts_at (drop (rs_warmup_bars spec) engine_candles)" by blast
  from t(1) have "st_indicator_ids trace = strategy_indicator_value_keys strategy"
    by (auto simp: evaluate_signal_trace_def Let_def)
  moreover from assms(4,5) have "specification_bar_interval spec = Inr clock" by (auto elim: verified_contract)
  ultimately show ?thesis using t evaluation_grid [OF _ assms(6) less_imp_le [OF assms(3)]] by auto
qed

lemma same_closed_bars_prefix:
  assumes "candles = common @ xs" "candles' = common @ ys" "\<forall>c \<in> set (xs @ ys). T < k_starts_at c + d"
  shows "same_closed_bars T d candles candles'"
  using assms(3) unfolding same_closed_bars_def assms(1,2) by (auto simp: not_le [symmetric])

lemma sample_other_clocks:
  "calculate_extra_indicator_rows indicator_min_warmup sample_rules Map.empty [] a e = Inr []"
  "calculate_reference_indicator_rows indicator_min_warmup sample_rules [] a e True = Inr []"
  "htf_indicator_rows (sample_request t) sample_rules [] = Inr Map.empty"
  by (simp_all add: calculate_extra_indicator_rows_def extra_indicator_timeframe_groups_def sample_rules_def
      resolved_indicator_timeframe_def sample_average_def sample_range_def calculate_reference_indicator_rows_def
      reference_indicator_groups_def reference_instruments_def htf_indicator_rows_def calculate_htf_indicator_rows_def
      sample_request_def)

lemma sample_clock: "parse_candle_interval (sr_timeframe sample_rules) = Inr ONE_HOUR"
  using parse_candle_interval_value [of ONE_HOUR] by (simp add: sample_rules_def)

lemma sample_trace:
  assumes "t \<in> {5 * HOUR, 6 * HOUR}" "required_candles (sample_request t) (cf_candles (sample_feed closes)) = Inr ec"
  obtains trace where "evaluate_feed (\<lambda>_. ''sample'') indicator_min_warmup (sample_request t) sample_rules (sample_feed closes) = Inr trace"
    "map tr_candle_starts_at (st_records trace) = map k_starts_at (drop 3 ec)"
proof -
  have c: "verify_contract (\<lambda>_. ''sample'') (sample_request t) sample_rules = Inr ()" "rs_evaluation_starts_at (sample_request t) < rs_evaluation_ends_at (sample_request t)"
    using assms(1) sample_contract by (auto simp: sample_request_def time_units)
  from decision_rows_total [OF sample_rules_valid] obtain rows where r: "decision_rows sample_rules ec = Inr rows" by blast
  have f: "cf_htf (sample_feed closes) = []" "cf_extra (sample_feed closes) = Map.empty" "cf_reference (sample_feed closes) = []"
    by (simp_all add: sample_feed_def)
  from settled_trace [OF sample_rules_valid min_warmup_positive c(2,1) assms(2) r sample_other_clocks]
  obtain trace where "evaluate_signal_trace (\<lambda>_. ''sample'') indicator_min_warmup (sample_request t) sample_rules
      (cf_candles (sample_feed closes)) [] Map.empty [] = Inr trace"
    "map tr_candle_starts_at (st_records trace) = map k_starts_at (drop (rs_warmup_bars (sample_request t)) ec)" by blast
  then show thesis using that by (simp add: evaluate_feed_def f sample_request_def)
qed

theorem complete_windows_give_a_trace_witness:
  "\<exists>trace. evaluate_signal_trace (\<lambda>_. ''sample'') indicator_min_warmup (sample_request (5 * HOUR)) sample_rules
      (sample_bars [100, 104, 102, 101, 99]) [] Map.empty [] = Inr trace
    \<and> map tr_candle_starts_at (st_records trace) = [3 * HOUR, 4 * HOUR]"
proof -
  have w: "rs_evaluation_starts_at (sample_request (5 * HOUR)) < rs_evaluation_ends_at (sample_request (5 * HOUR))"
    by (simp add: sample_request_def time_units)
  have n: "map (\<lambda>j. rs_evaluation_starts_at (sample_request (5 * HOUR)) + interval_duration ONE_HOUR * int j)
        [0..<nat ((rs_evaluation_ends_at (sample_request (5 * HOUR)) - rs_evaluation_starts_at (sample_request (5 * HOUR))) div interval_duration ONE_HOUR)]
      = [3 * HOUR, 4 * HOUR]"
    by code_simp
  from complete_windows_give_a_trace [OF sample_rules_valid min_warmup_positive w sample_contract(1) sample_clock sample_windows(1)
      sample_other_clocks]
  show ?thesis unfolding n by (elim exE conjE) (intro exI conjI, assumption+)
qed

text \<open>C3: A published signal never looks ahead. Take two evaluations of the same document whose windows start
  together, possibly ending at different times, on feeds that agree on every bar completed by \<open>T\<close>, on
  the decision clock, on every coarser clock, on the filter clock and on every reference instrument.
  Then records of the same bar are equal as soon as that bar is completed by \<open>T\<close>: indicator values,
  entry outcome and exit outcome.\<close>

theorem signal_trace_never_looks_ahead:
  assumes "document_valid convergence_warmup strategy" "feeds_agree T strategy v v'"
    and "evaluate_feed fingerprint convergence_warmup spec strategy v = Inr trace"
    and "evaluate_feed fingerprint convergence_warmup (spec\<lparr>rs_evaluation_ends_at := other_end\<rparr>) strategy v' = Inr trace'"
    and "r \<in> set (st_records trace)" "r' \<in> set (st_records trace')" "tr_candle_starts_at r' = tr_candle_starts_at r"
    and "ltf_close (tr_candle_starts_at r) (sr_timeframe strategy) = Inr close" "close \<le> T"
  shows "r' = r"
  by (rule settled_record [OF assms(1,2) _ _ assms(3,4) assms(5-9)]) simp_all

theorem signal_trace_never_looks_ahead_witness:
  "\<exists>trace trace' r r'.
     evaluate_feed (\<lambda>_. ''sample'') indicator_min_warmup (sample_request (5 * HOUR)) sample_rules (sample_feed [100, 104, 102, 101, 99]) = Inr trace
     \<and> evaluate_feed (\<lambda>_. ''sample'') indicator_min_warmup (sample_request (6 * HOUR)) sample_rules (sample_feed [100, 104, 102, 101, 7, 8]) = Inr trace'
     \<and> r \<in> set (st_records trace) \<and> r' \<in> set (st_records trace')
     \<and> tr_candle_starts_at r = 3 * HOUR \<and> r' = r"
proof -
  let ?v = "sample_feed [100, 104, 102, 101, 99]" and ?v' = "sample_feed [100, 104, 102, 101, 7, 8]"
  have w: "required_candles (sample_request (5 * HOUR)) (cf_candles ?v) = Inr (sample_bars [100, 104, 102, 101, 99])"
    "required_candles (sample_request (6 * HOUR)) (cf_candles ?v') = Inr (sample_bars [100, 104, 102, 101, 7, 8])"
    using sample_windows by (simp_all add: sample_feed_def)
  obtain trace where t: "evaluate_feed (\<lambda>_. ''sample'') indicator_min_warmup (sample_request (5 * HOUR)) sample_rules ?v = Inr trace"
    "map tr_candle_starts_at (st_records trace) = [3 * HOUR, 4 * HOUR]"
    by (rule sample_trace [OF _ w(1)]) (simp_all add: sample_bars_def sample_bar_def)
  obtain trace' where t': "evaluate_feed (\<lambda>_. ''sample'') indicator_min_warmup (sample_request (6 * HOUR)) sample_rules ?v' = Inr trace'"
    "map tr_candle_starts_at (st_records trace') = [3 * HOUR, 4 * HOUR, 5 * HOUR]"
    by (rule sample_trace [OF _ w(2)]) (simp_all add: sample_bars_def sample_bar_def)
  from t(2) obtain r where r: "r \<in> set (st_records trace)" "tr_candle_starts_at r = 3 * HOUR"
    by (metis list.set_intros(1) imageE set_map)
  from t'(2) obtain r' where r': "r' \<in> set (st_records trace')" "tr_candle_starts_at r' = 3 * HOUR"
    by (metis list.set_intros(1) imageE set_map)
  have bars: "same_closed_bars (4 * HOUR) HOUR (sample_bars [100, 104, 102, 101, 99]) (sample_bars [100, 104, 102, 101, 7, 8])"
    by (rule same_closed_bars_prefix [where common = "sample_bars [100, 104, 102, 101]" and xs = "[sample_bar (HOUR * 4) 99]"
          and ys = "[sample_bar (HOUR * 4) 7, sample_bar (HOUR * 5) 8]"])
      (simp_all add: sample_bars_def sample_bar_def time_units)
  have agree: "feeds_agree (4 * HOUR) sample_rules ?v ?v'"
    using bars sample_clock
    by (simp add: feeds_agree_def clock_agrees_def extra_clock_candles_def same_closed_bars_def [of _ _ "[]"]
        sample_feed_def sample_rules_def reference_instruments_def)
  have c: "ltf_close (tr_candle_starts_at r) (sr_timeframe sample_rules) = Inr (4 * HOUR)"
    using ltf_close_eq [OF sample_clock] r(2) by simp
  have s: "sample_request (6 * HOUR) = (sample_request (5 * HOUR))\<lparr>rs_evaluation_ends_at := 6 * HOUR\<rparr>" by (simp add: sample_request_def)
  have "r' = r"
    by (rule signal_trace_never_looks_ahead [OF sample_rules_valid agree t(1) t'(1) [unfolded s] r(1) r'(1) _ c])
      (simp_all add: r r')
  with t(1) t'(1) r r' show ?thesis by blast
qed

end
