(* ===== verification/Backtest_Signals.thy ===== *)
theory Backtest_Signals
  imports Backtest_Trades Signal_Liveness
begin

text \<open>
  A whole backtest (\<open>backtest/kernel.py\<close>): the candles of every covered product are evaluated into
  signal traces, traces and candles become books, and the books are simulated bar by bar.

  The composition of the two causality results: trades, cash and equity after \<open>n\<close> bars do not depend
  on any candle of any clock that completes after the \<open>n\<close>-th close.
\<close>

section \<open>From candles to books\<close>

record backtest_inputs =
  bi_candles :: "candle list"
  bi_htf :: "candle list"
  bi_extra :: "string \<rightharpoonup> candle list"
  bi_additional_candles :: "string \<rightharpoonup> candle list"
  bi_additional_htf :: "string \<rightharpoonup> candle list"
  bi_additional_extra :: "string \<rightharpoonup> (string \<rightharpoonup> candle list)"
  bi_reference :: "(string \<times> candle list) list"

text \<open>The dictionaries \<open>candles_by_product\<close>, \<open>htf_by_product\<close> and \<open>extra_by_product\<close>, read at one product;
  the primary product's own candles win.\<close>

definition product_feed :: "strategy_rules \<Rightarrow> backtest_inputs \<Rightarrow> string \<Rightarrow> candle_feed" where
  "product_feed rules inputs product_id =
     (if product_id = it_product_id (sr_instrument rules)
      then \<lparr>cf_candles = bi_candles inputs, cf_htf = bi_htf inputs, cf_extra = bi_extra inputs, cf_reference = bi_reference inputs\<rparr>
      else \<lparr>cf_candles = or_else (bi_additional_candles inputs product_id) [],
            cf_htf = or_else (bi_additional_htf inputs product_id) [],
            cf_extra = or_else (bi_additional_extra inputs product_id) Map.empty, cf_reference = bi_reference inputs\<rparr>)"

text \<open>An evaluation error, a \<open>ValueError\<close> of the evaluator, is reported as a simulation error.\<close>

definition verified_trace :: "signal_trace result \<Rightarrow> signal_trace result" where
  "verified_trace r =
     (case r of
        Inl (ValueError _) \<Rightarrow> Inl (BacktestSimulationError ''Backtest signal inputs could not be verified.'')
      | _ \<Rightarrow> r)"

definition product_traces ::
    "(strategy_rules \<Rightarrow> string) \<Rightarrow> (indicator_definition \<Rightarrow> nat result) \<Rightarrow> signal_request \<Rightarrow> strategy_rules \<Rightarrow> backtest_inputs
     \<Rightarrow> (string \<times> signal_trace) list result" where
  "product_traces fingerprint convergence_warmup request rules inputs =
     (if list_ex (\<lambda>product_id. product_id \<noteq> it_product_id (sr_instrument rules) \<and> bi_additional_candles inputs product_id = None)
           (lockstep_product_ids rules)
      then Inl (BacktestSimulationError ''Multi-instrument backtests require additional_instrument_candles for every extra product.'')
      else collect (\<lambda>product_id.
             rbind (verified_trace (evaluate_feed fingerprint convergence_warmup request rules (product_feed rules inputs product_id)))
               (\<lambda>trace. Inr (product_id, trace))) (lockstep_product_ids rules))"

definition product_book ::
    "run_specification \<Rightarrow> timedelta \<Rightarrow> strategy_rules \<Rightarrow> backtest_inputs \<Rightarrow> string \<times> signal_trace \<Rightarrow> sim_book result" where
  "product_book spec bar rules inputs item =
     (case item of (product_id, trace) \<Rightarrow>
        rbind (candle_map spec bar (cf_candles (product_feed rules inputs product_id))) (\<lambda>candles.
          Inr (new_book product_id candles (st_records trace))))"

definition prepared_books ::
    "(strategy_rules \<Rightarrow> string) \<Rightarrow> (indicator_definition \<Rightarrow> nat result) \<Rightarrow> signal_request \<Rightarrow> run_specification \<Rightarrow> strategy_rules
     \<Rightarrow> backtest_inputs \<Rightarrow> (timedelta \<times> sim_book list) result" where
  "prepared_books fingerprint convergence_warmup request spec rules inputs =
     rbind (product_traces fingerprint convergence_warmup request rules inputs) (\<lambda>traces.
     rbind (parse_candle_interval (sr_timeframe rules)) (\<lambda>strategy_interval.
     rbind (specification_bar_interval request) (\<lambda>spec_interval.
     rbind (bar_interval strategy_interval spec_interval spec) (\<lambda>interval.
     rbind (collect (product_book spec (interval_duration interval) rules inputs) traces) (\<lambda>books.
       Inr (interval_duration interval, books))))))"

definition simulate_backtest ::
    "(strategy_rules \<Rightarrow> string) \<Rightarrow> (indicator_definition \<Rightarrow> nat result) \<Rightarrow> signal_request \<Rightarrow> run_specification \<Rightarrow> strategy_rules
     \<Rightarrow> strategy_document \<Rightarrow> backtest_inputs \<Rightarrow> (backtest_result \<times> backtest_diagnostics) result" where
  "simulate_backtest fingerprint convergence_warmup request spec rules document inputs =
     rbind (prepared_books fingerprint convergence_warmup request spec rules inputs) (\<lambda>(bar, books).
       simulate_books spec document bar books)"

section \<open>Books of two feeds agree\<close>

lemma candle_map_grid:
  assumes "candle_map spec bar candles = Inr m" "0 < bar"
  shows "m t \<noteq> None \<longleftrightarrow> (\<exists>k < nat ((rn_ends_at spec + bar - rn_warmup_starts_at spec) div bar). t = rn_warmup_starts_at spec + bar * int k)"
    "m t = Some c \<Longrightarrow> c \<in> set candles \<and> k_starts_at c = t"
    "c \<in> set candles \<Longrightarrow> k_starts_at c = t \<Longrightarrow> m t \<noteq> None \<Longrightarrow> m t = Some c"
proof -
  let ?w = "rn_warmup_starts_at spec" and ?e = "rn_ends_at spec + bar"
  let ?sel = "filter (\<lambda>c. ?w \<le> k_starts_at c \<and> k_starts_at c < ?e) candles" and ?n = "nat ((?e - ?w) div bar)"
  from assms(1) have m: "m = dict_by k_starts_at ?sel" and l: "int (length ?sel) = (?e - ?w) div bar"
      "int (length (remdups (map k_starts_at ?sel))) = (?e - ?w) div bar"
    and all: "\<And>k. k < ?n \<Longrightarrow> m (?w + bar * int k) \<noteq> None"
    by (auto simp: candle_map_def Let_def list_ex_iff split: if_splits option.splits)
  have n: "length ?sel = ?n" "length (remdups (map k_starts_at ?sel)) = ?n" using l by simp_all
  then have dist: "distinct (map k_starts_at ?sel)"
    by (metis card_distinct length_map length_remdups_card_conv)
  have dom: "dom m = set (map k_starts_at ?sel)" by (auto simp: m dict_by_None_iff dom_def)
  have "(\<lambda>k. ?w + bar * int k) ` {..<?n} = dom m"
  proof (rule card_subset_eq)
    show "finite (dom m)" unfolding dom by simp
    show "(\<lambda>k. ?w + bar * int k) ` {..<?n} \<subseteq> dom m" using all by auto
    have "inj_on (\<lambda>k. ?w + bar * int k) {..<?n}" using assms(2) by (auto simp: inj_on_def)
    then show "card ((\<lambda>k. ?w + bar * int k) ` {..<?n}) = card (dom m)"
      using n(2) by (simp add: card_image dom length_remdups_card_conv del: set_map)
  qed
  then show "m t \<noteq> None \<longleftrightarrow> (\<exists>k < ?n. t = ?w + bar * int k)" by (auto simp: dom_def)
  show "m t = Some c \<Longrightarrow> c \<in> set candles \<and> k_starts_at c = t"
    unfolding m by (auto dest: dict_by_SomeD)
  assume c: "c \<in> set candles" "k_starts_at c = t" "m t \<noteq> None"
  then obtain c' where "m t = Some c'" by blast
  then have "c' \<in> set ?sel" "k_starts_at c' = t" unfolding m by (auto dest: dict_by_SomeD)
  then have "c \<in> set ?sel" using c by simp
  with dict_by_distinct [OF dist] c(2) show "m t = Some c" unfolding m by auto
qed

lemma grid_before:
  assumes "0 < (d :: int)" "w + d * int k < w + d * int n"
  shows "w + d * int k + d \<le> w + d * int n"
proof -
  from assms have "k < n" by simp
  then have "d * (int k + 1) \<le> d * int n" using assms(1) by (intro mult_left_mono) auto
  then show ?thesis by (simp add: algebra_simps)
qed

lemma candle_maps_agree:
  assumes "candle_map spec d candles = Inr m" "candle_map spec d candles' = Inr m'" "0 < d"
    and "same_closed_bars T d candles candles'" "T = rn_warmup_starts_at spec + d * int n" "t < T"
  shows "m' t = m t"
proof (cases "m t")
  case None
  then have "m' t = None" using candle_map_grid(1) [OF assms(1,3)] candle_map_grid(1) [OF assms(2,3)] by blast
  with None show ?thesis by simp
next
  case (Some c)
  then have "m' t \<noteq> None" "\<exists>k. t = rn_warmup_starts_at spec + d * int k"
    using candle_map_grid(1) [OF assms(1,3)] candle_map_grid(1) [OF assms(2,3)] by blast+
  then have t: "m' t \<noteq> None" "t + d \<le> T" using grid_before [OF assms(3)] assms(5,6) by auto
  have c: "c \<in> set candles" "k_starts_at c = t" using candle_map_grid(2) [OF assms(1,3) Some] by simp_all
  with assms(4) t(2) have "c \<in> set candles'" by (simp add: same_closed_bars_def)
  from candle_map_grid(3) [OF assms(2,3) this c(2) t(1)] Some show ?thesis by simp
qed

lemma records_agree:
  assumes valid: "document_valid cw rules" and clock: "specification_bar_interval request = Inr i" "parse_candle_interval (sr_timeframe rules) = Inr i"
    and agree: "feeds_agree T rules v v'"
    and runs: "evaluate_feed fp cw request rules v = Inr trace" "evaluate_feed fp cw request rules v' = Inr trace'"
    and T: "T = rs_warmup_starts_at request + interval_duration i * int n" "t < T"
  shows "dict_by tr_candle_starts_at (st_records trace') t = dict_by tr_candle_starts_at (st_records trace) t"
proof (cases "t \<in> set (map tr_candle_starts_at (st_records trace))")
  case False
  with same_record_starts(1) [OF runs clock(1)] have "t \<notin> set (map tr_candle_starts_at (st_records trace'))" by simp
  with False have "dict_by tr_candle_starts_at (st_records trace') t = None" "dict_by tr_candle_starts_at (st_records trace) t = None"
    unfolding dict_by_None_iff by simp_all
  then show ?thesis by simp
next
  case True
  note s = same_record_starts [OF runs clock(1)]
  from True obtain r where r: "r \<in> set (st_records trace)" "tr_candle_starts_at r = t" by auto
  have "t \<in> set (map tr_candle_starts_at (st_records trace'))" using True s(1) by simp
  then obtain r' where r': "r' \<in> set (st_records trace')" "tr_candle_starts_at r' = t" by auto
  from s(3) [OF True] have "t + interval_duration i \<le> T"
    using grid_before [OF interval_duration_pos] T by auto
  then have "r' = r"
    using r(2) r'(2) ltf_close_eq [OF clock(2)]
    by (intro settled_record [OF valid agree refl refl runs r(1) r'(1)]) simp_all
  then show ?thesis
    using dict_by_distinct [OF s(2) r(1)] dict_by_distinct [of tr_candle_starts_at "st_records trace'", OF _ r'(1)] s(1,2) r(2) by simp
qed

lemma books_agree:
  assumes valid: "document_valid cw rules" and clock: "specification_bar_interval request = Inr i" "parse_candle_interval (sr_timeframe rules) = Inr i"
    and agree: "feeds_agree T rules (product_feed rules inputs p) (product_feed rules inputs' p)"
    and runs: "evaluate_feed fp cw request rules (product_feed rules inputs p) = Inr trace"
      "evaluate_feed fp cw request rules (product_feed rules inputs' p) = Inr trace'"
    and T: "T = rs_warmup_starts_at request + interval_duration i * int n" "rn_warmup_starts_at spec = rs_warmup_starts_at request"
    and books: "product_book spec (interval_duration i) rules inputs (p, trace) = Inr b"
      "product_book spec (interval_duration i) rules inputs' (p, trace') = Inr b'"
  shows "agree_before T b b' \<and> candles_keyed b"
proof -
  from books obtain m m' where
    m: "candle_map spec (interval_duration i) (cf_candles (product_feed rules inputs p)) = Inr m" "b = new_book p m (st_records trace)"
    and m': "candle_map spec (interval_duration i) (cf_candles (product_feed rules inputs' p)) = Inr m'" "b' = new_book p m' (st_records trace')"
    by (auto simp: product_book_def)
  have c: "same_closed_bars T (interval_duration i) (cf_candles (product_feed rules inputs p)) (cf_candles (product_feed rules inputs' p))"
    using agree clock(2) by (simp add: feeds_agree_def clock_agrees_def)
  have "m' t = m t" if "t < T" for t
    using that T by (intro candle_maps_agree [OF m(1) m'(1) interval_duration_pos c, of n]) simp_all
  moreover note records_agree [OF valid clock agree runs T(1)]
  moreover have "candles_keyed b"
    using candle_map_grid(2) [OF m(1) interval_duration_pos] by (simp add: candles_keyed_def m(2) new_book_def)
  ultimately show ?thesis by (simp add: agree_before_def m(2) m'(2) new_book_def refeed_def)
qed

lemma verified_trace_Inr [simp]: "verified_trace r = Inr trace \<longleftrightarrow> r = Inr trace"
  by (auto simp: verified_trace_def split: sum.splits py_error.splits)

lemma product_traces_nth:
  assumes "product_traces fp cw request rules inputs = Inr traces"
  shows "length traces = length (lockstep_product_ids rules)"
    "k < length traces \<Longrightarrow> \<exists>trace. traces ! k = (lockstep_product_ids rules ! k, trace)
       \<and> evaluate_feed fp cw request rules (product_feed rules inputs (lockstep_product_ids rules ! k)) = Inr trace"
  using assms collect_nth [of _ "lockstep_product_ids rules" traces]
  by (fastforce simp: product_traces_def split: if_splits)+

lemma prepared_books_agree:
  assumes "document_valid cw rules" "rn_warmup_starts_at spec = rs_warmup_starts_at request"
    and p: "prepared_books fp cw request spec rules inputs = Inr (bar, books)" "prepared_books fp cw request spec rules inputs' = Inr (bar', books')"
    and agree: "\<And>product_id. product_id \<in> set (lockstep_product_ids rules) \<Longrightarrow>
      feeds_agree (rs_evaluation_starts_at request + bar * int n) rules (product_feed rules inputs product_id) (product_feed rules inputs' product_id)"
  shows "bar' = bar \<and> 0 < bar \<and> list_all2 (agree_before (rs_evaluation_starts_at request + bar * int n)) books books' \<and> list_all candles_keyed books"
proof -
  from p(1) obtain traces i where t: "product_traces fp cw request rules inputs = Inr traces" "parse_candle_interval (sr_timeframe rules) = Inr i"
      "specification_bar_interval request = Inr i" "bar = interval_duration i" "collect (product_book spec (interval_duration i) rules inputs) traces = Inr books"
    by (auto simp: prepared_books_def bar_interval_def Let_def split: if_splits)
  from p(2) t(2,3) obtain traces' where t': "product_traces fp cw request rules inputs' = Inr traces'"
      "bar' = interval_duration i" "collect (product_book spec (interval_duration i) rules inputs') traces' = Inr books'"
    by (auto simp: prepared_books_def bar_interval_def Let_def split: if_splits)
  let ?T = "rs_evaluation_starts_at request + bar * int n"
  have T: "?T = rs_warmup_starts_at request + interval_duration i * int (rs_warmup_bars request + n)"
    using spec_interval(1) [OF t(3)] by (simp add: t(4) algebra_simps)
  note b = collect_nth [OF t(5)] and b' = collect_nth [OF t'(3)] and n = product_traces_nth [OF t(1)] and n' = product_traces_nth [OF t'(1)]
  have one: "agree_before ?T (books ! k) (books' ! k) \<and> candles_keyed (books ! k)" if k: "k < length books" for k
  proof -
    have l: "k < length traces" "k < length traces'" "k < length (lockstep_product_ids rules)" using k b n(1) n'(1) by simp_all
    obtain trace where tr: "traces ! k = (lockstep_product_ids rules ! k, trace)"
      "evaluate_feed fp cw request rules (product_feed rules inputs (lockstep_product_ids rules ! k)) = Inr trace" using n(2) [OF l(1)] by blast
    obtain trace' where tr': "traces' ! k = (lockstep_product_ids rules ! k, trace')"
      "evaluate_feed fp cw request rules (product_feed rules inputs' (lockstep_product_ids rules ! k)) = Inr trace'" using n'(2) [OF l(2)] by blast
    have f: "feeds_agree ?T rules (product_feed rules inputs (lockstep_product_ids rules ! k)) (product_feed rules inputs' (lockstep_product_ids rules ! k))"
      by (rule agree [OF nth_mem [OF l(3)]])
    show ?thesis
      using b b' l tr(1) tr'(1)
      by (intro books_agree [OF assms(1) t(3,2) f tr(2) tr'(2) T assms(2)]) auto
  qed
  have "length books' = length books" using b b' n(1) n'(1) by simp
  with one t'(2) t(4) interval_duration_pos [of i] show ?thesis by (simp add: list_all2_conv_all_nth list_all_length)
qed

text \<open>C2: A backtest never looks ahead, from candles to equity. Take two sets of candle inputs that both pass
  verification and that agree, on every clock and every covered product and reference, on the bars
  completed by the \<open>n\<close>-th decision close of the evaluation. Then after \<open>n\<close> bars the two simulations have
  failed with the same error or hold the same cash, trades, funnel counts and equity curve.\<close>

theorem backtest_never_looks_ahead:
  assumes "document_valid convergence_warmup rules"
    and "rn_warmup_starts_at spec = rs_warmup_starts_at request" "rn_starts_at spec = rs_evaluation_starts_at request"
    and "prepared_books fingerprint convergence_warmup request spec rules inputs = Inr (bar, books)"
    and "prepared_books fingerprint convergence_warmup request spec rules inputs' = Inr (bar', books')"
    and "\<forall>product_id \<in> set (lockstep_product_ids rules).
      feeds_agree (rn_starts_at spec + bar * int n) rules (product_feed rules inputs product_id) (product_feed rules inputs' product_id)"
  shows "map_sum id snd (run_bars document (rn_costs spec) bar (rn_starts_at spec) [0 ..< n] books (new_sim (rn_initial_quote_balance spec)) [])
    = map_sum id snd (run_bars document (rn_costs spec) bar' (rn_starts_at spec) [0 ..< n] books' (new_sim (rn_initial_quote_balance spec)) [])"
proof -
  have b: "bar' = bar \<and> 0 < bar \<and> list_all2 (agree_before (rn_starts_at spec + bar * int n)) books books' \<and> list_all candles_keyed books"
    unfolding assms(3) by (rule prepared_books_agree [OF assms(1,2,4,5)]) (use assms(3,6) in simp)
  then have e: "bar' = bar" by blast
  show ?thesis unfolding e
    by (rule run_bars_agree [where horizon = "rn_starts_at spec + bar * int n"]) (use b in simp_all)
qed

definition sample_inputs :: "decimal list \<Rightarrow> backtest_inputs" where
  "sample_inputs closes = \<lparr> bi_candles = sample_bars closes, bi_htf = [], bi_extra = Map.empty, bi_additional_candles = Map.empty,
     bi_additional_htf = Map.empty, bi_additional_extra = Map.empty, bi_reference = [] \<rparr>"

definition sample_run :: run_specification where
  "sample_run = \<lparr> rn_warmup_starts_at = 0, rn_starts_at = 3 * HOUR, rn_ends_at = 5 * HOUR,
     rn_initial_quote_balance = 10000, rn_costs = ex_costs \<rparr>"

lemma sample_products: "lockstep_product_ids sample_rules = [''BTC-USD'']"
  "product_feed sample_rules (sample_inputs closes) ''BTC-USD'' = sample_feed closes"
  by (simp_all add: lockstep_product_ids_def covered_product_ids_def covered_instruments_def sample_rules_def
      product_feed_def sample_inputs_def sample_feed_def)

lemma sample_six:
  "required_candles (sample_request (5 * HOUR)) (sample_bars [100, 104, 102, 101, 99, 98]) = Inr (sample_bars [100, 104, 102, 101, 99])"
  "required_candles (sample_request (5 * HOUR)) (sample_bars [100, 104, 102, 101, 7, 8]) = Inr (sample_bars [100, 104, 102, 101, 7])"
  "\<not> isl (candle_map sample_run HOUR (sample_bars [100, 104, 102, 101, 99, 98]))"
  "\<not> isl (candle_map sample_run HOUR (sample_bars [100, 104, 102, 101, 7, 8]))"
  "specification_bar_interval (sample_request (5 * HOUR)) = Inr ONE_HOUR"
  by code_simp+

lemma sample_prepared:
  assumes "required_candles (sample_request (5 * HOUR)) (sample_bars closes) = Inr ec" "\<not> isl (candle_map sample_run HOUR (sample_bars closes))"
  shows "\<exists>book. prepared_books (\<lambda>_. ''sample'') indicator_min_warmup (sample_request (5 * HOUR)) sample_run sample_rules (sample_inputs closes)
    = Inr (HOUR, [book])"
proof -
  obtain trace where t: "evaluate_feed (\<lambda>_. ''sample'') indicator_min_warmup (sample_request (5 * HOUR)) sample_rules (sample_feed closes) = Inr trace"
    by (rule sample_trace [of "5 * HOUR" closes ec]) (simp_all add: assms(1) sample_feed_def)
  from assms(2) obtain m where m: "candle_map sample_run HOUR (sample_bars closes) = Inr m" by (cases "candle_map sample_run HOUR (sample_bars closes)") auto
  have i: "bar_interval ONE_HOUR ONE_HOUR sample_run = Inr ONE_HOUR" by (simp add: bar_interval_def sample_run_def time_units)
  have p: "product_traces (\<lambda>_. ''sample'') indicator_min_warmup (sample_request (5 * HOUR)) sample_rules (sample_inputs closes) = Inr [(''BTC-USD'', trace)]"
    using t by (simp add: product_traces_def sample_products) (simp add: sample_rules_def)
  have "product_book sample_run HOUR sample_rules (sample_inputs closes) (''BTC-USD'', trace) = Inr (new_book ''BTC-USD'' m (st_records trace))"
    using m by (simp add: product_book_def sample_products sample_feed_def)
  then show ?thesis by (simp add: prepared_books_def p sample_clock sample_six(5) i)
qed

theorem backtest_never_looks_ahead_witness:
  "\<exists>books books'.
     prepared_books (\<lambda>_. ''sample'') indicator_min_warmup (sample_request (5 * HOUR)) sample_run sample_rules
       (sample_inputs [100, 104, 102, 101, 99, 98]) = Inr (HOUR, books)
     \<and> prepared_books (\<lambda>_. ''sample'') indicator_min_warmup (sample_request (5 * HOUR)) sample_run sample_rules
       (sample_inputs [100, 104, 102, 101, 7, 8]) = Inr (HOUR, books')
     \<and> map_sum id snd (run_bars ex_document ex_costs HOUR (3 * HOUR) [0 ..< 1] books (new_sim 10000) [])
       = map_sum id snd (run_bars ex_document ex_costs HOUR (3 * HOUR) [0 ..< 1] books' (new_sim 10000) [])"
proof -
  from sample_prepared [OF sample_six(1,3)] obtain book where
    b: "prepared_books (\<lambda>_. ''sample'') indicator_min_warmup (sample_request (5 * HOUR)) sample_run sample_rules
       (sample_inputs [100, 104, 102, 101, 99, 98]) = Inr (HOUR, [book])" by blast
  from sample_prepared [OF sample_six(2,4)] obtain book' where
    b': "prepared_books (\<lambda>_. ''sample'') indicator_min_warmup (sample_request (5 * HOUR)) sample_run sample_rules
       (sample_inputs [100, 104, 102, 101, 7, 8]) = Inr (HOUR, [book'])" by blast
  have bars: "same_closed_bars (4 * HOUR) HOUR (sample_bars [100, 104, 102, 101, 99, 98]) (sample_bars [100, 104, 102, 101, 7, 8])"
    by (rule same_closed_bars_prefix [where common = "sample_bars [100, 104, 102, 101]" and xs = "[sample_bar (HOUR * 4) 99, sample_bar (HOUR * 5) 98]"
          and ys = "[sample_bar (HOUR * 4) 7, sample_bar (HOUR * 5) 8]"])
      (simp_all add: sample_bars_def sample_bar_def time_units)
  have "feeds_agree (4 * HOUR) sample_rules (sample_feed [100, 104, 102, 101, 99, 98]) (sample_feed [100, 104, 102, 101, 7, 8])"
    using bars sample_clock
    by (simp add: feeds_agree_def clock_agrees_def extra_clock_candles_def same_closed_bars_def [of _ _ "[]"]
        sample_feed_def sample_rules_def reference_instruments_def)
  then have agree: "\<forall>product_id \<in> set (lockstep_product_ids sample_rules). feeds_agree (rn_starts_at sample_run + HOUR * int 1) sample_rules
      (product_feed sample_rules (sample_inputs [100, 104, 102, 101, 99, 98]) product_id)
      (product_feed sample_rules (sample_inputs [100, 104, 102, 101, 7, 8]) product_id)"
    by (simp add: sample_products sample_run_def)
  have "map_sum id snd (run_bars ex_document (rn_costs sample_run) HOUR (rn_starts_at sample_run) [0 ..< 1] [book] (new_sim (rn_initial_quote_balance sample_run)) [])
      = map_sum id snd (run_bars ex_document (rn_costs sample_run) HOUR (rn_starts_at sample_run) [0 ..< 1] [book'] (new_sim (rn_initial_quote_balance sample_run)) [])"
    by (rule backtest_never_looks_ahead [OF sample_rules_valid _ _ b b' agree]) (simp_all add: sample_run_def sample_request_def)
  then have r: "map_sum id snd (run_bars ex_document ex_costs HOUR (3 * HOUR) [0 ..< 1] [book] (new_sim 10000) [])
      = map_sum id snd (run_bars ex_document ex_costs HOUR (3 * HOUR) [0 ..< 1] [book'] (new_sim 10000) [])"
    by (simp only: sample_run_def run_specification.simps)
  show ?thesis by (intro exI conjI, rule b, rule b', rule r)
qed

end
