(* ===== verification/Futures_Book.thy ===== *)
theory Futures_Book
  imports Sizing Ledger
begin

text \<open>
  Futures books (\<open>trading/futures_book.py\<close>): the contract binding of a deployment, what one
  worker cycle knows of a book, its equity, the funding hours it owes and the liquidation check.
  The context variable that binds the cycle state is the argument \<open>scope\<close>.
\<close>

section \<open>Bindings\<close>

text \<open>The contract fields execution reads; \<open>kind == "perpetual_future"\<close> is \<open>ic_perpetual\<close>.\<close>

record instrument_contract =
  ic_product_id :: string
  ic_perpetual :: bool
  ic_underlying :: string
  ic_contract_size :: decimal

record bound_futures_contract =
  bc_deployment_id :: uuid
  bc_contract :: instrument_contract
  bc_fee_per_contract :: decimal
  bc_bound_at :: datetime

type_synonym futures_contract_store = "uuid \<rightharpoonup> bound_futures_contract"

definition new_futures_contract_store :: futures_contract_store where
  "new_futures_contract_store = Map.empty"

definition bind_contract ::
    "bound_futures_contract \<Rightarrow> futures_contract_store \<Rightarrow> unit result \<times> futures_contract_store" where
  "bind_contract binding bindings =
     (if bindings (bc_deployment_id binding) \<noteq> None
      then (Inl (FuturesBookUnavailableError ''The deployment already has a bound contract.''), bindings)
      else (Inr (), bindings(bc_deployment_id binding \<mapsto> binding)))"

definition load_contract :: "uuid \<Rightarrow> futures_contract_store \<Rightarrow> bound_futures_contract option" where
  "load_contract deployment_id bindings = bindings deployment_id"

section \<open>Cycle state\<close>

record futures_book_state =
  fs_deployment_id :: uuid
  fs_product_id :: string
  fs_side :: position_side
  fs_binding :: "bound_futures_contract option"
  fs_margin :: "futures_margin_terms option"
  fs_margin_observed_at :: "datetime option"
  fs_funding_overdue :: "datetime option"
  fs_latest_funding_rate :: "decimal option"
  fs_margin_stale :: bool

text \<open>Reason codes are their text.\<close>

definition entry_block :: "futures_book_state \<Rightarrow> string option" where
  "entry_block state =
     (if fs_binding state = None then Some ''FUTURES_CONTRACT_UNBOUND''
      else if fs_margin state = None then Some ''FUTURES_MARGIN_UNKNOWN''
      else if fs_margin_stale state then Some ''FUTURES_MARGIN_UNKNOWN''
      else if fs_funding_overdue state \<noteq> None then Some ''FUNDING_HISTORY_MISSING''
      else None)"

definition live_entry_block :: "futures_book_state \<Rightarrow> string option" where
  "live_entry_block state =
     (case entry_block state of
        Some blocked \<Rightarrow> Some blocked
      | None \<Rightarrow>
          (case fs_latest_funding_rate state of
             None \<Rightarrow> Some ''FUNDING_HISTORY_MISSING''
           | Some rate \<Rightarrow> if \<not> dec_is_finite rate then Some ''FUNDING_HISTORY_MISSING'' else None))"

definition futures_book_scope ::
    "futures_book_state option \<Rightarrow> (futures_book_state option \<Rightarrow> 'a \<times> futures_book_state option)
     \<Rightarrow> futures_book_state option \<Rightarrow> 'a \<times> futures_book_state option" where
  "futures_book_scope state body scope = (let (outcome, _) = body state in (outcome, scope))"

definition current_futures_book ::
    "futures_book_state option \<Rightarrow> uuid option \<Rightarrow> futures_book_state option" where
  "current_futures_book scope deployment_id =
     (case scope of
        None \<Rightarrow> None
      | Some state \<Rightarrow>
          (case deployment_id of
             None \<Rightarrow> Some state
           | Some d \<Rightarrow> if fs_deployment_id state \<noteq> d then None else Some state))"

section \<open>Equity\<close>

definition decimal_exception :: "py_error \<Rightarrow> bool" where
  "decimal_exception e \<longleftrightarrow> e \<in> {InvalidOperation, Inexact, DivisionByZero}"

definition ledger_equity_of :: "deployment_snapshot \<Rightarrow> (string \<rightharpoonup> decimal) \<Rightarrow> decimal option result" where
  "ledger_equity_of s marks =
     (case ledger_from_snapshot s (Some marks) None of
        Inl e \<Rightarrow> if decimal_exception e then Inr None else Inl e
      | Inr ledger \<Rightarrow>
          Inr (case lg_equity ledger of
                 None \<Rightarrow> None
               | Some equity \<Rightarrow> if \<not> lg_mark_complete ledger \<or> \<not> dec_is_finite equity then None else Some equity))"

definition futures_book_equity :: "deployment_snapshot \<Rightarrow> (string \<rightharpoonup> decimal) \<Rightarrow> decimal option result" where
  "futures_book_equity s marks =
     (let d = s_deployment s
      in if d_mode d = LIVE then
           (case d_allocated_capital d of
              None \<Rightarrow> Inr None
            | Some allocation \<Rightarrow>
                if \<not> dec_is_finite allocation \<or> allocation \<le> 0 \<or> \<not> dec_is_finite (d_cash d) then Inr None
                else rbind (ledger_equity_of s marks) (\<lambda>equity. Inr (map_option (\<lambda>x. dadd x allocation) equity)))
         else if \<not> dec_is_finite (d_cash d) then Inr None
         else ledger_equity_of s marks)"

section \<open>Funding hours\<close>

definition FUNDING_SETTLE_GRACE :: timedelta where
  "FUNDING_SETTLE_GRACE = 15 * MINUTE"

definition signed_fill_event :: "deployment_snapshot \<Rightarrow> string \<Rightarrow> fill \<Rightarrow> (datetime \<times> decimal) option" where
  "signed_fill_event s product_id fl =
     (case dict_by o_id (s_orders s) (f_order_id fl) of
        None \<Rightarrow> None
      | Some ord \<Rightarrow>
          if f_economics_applied_at fl = None then None
          else if resolved_product_id (o_product_id ord) (s_deployment s) \<noteq> product_id then None
          else Some (f_filled_at fl, if o_side ord = BUY then f_quantity fl else dneg (f_quantity fl)))"

definition signed_fills :: "deployment_snapshot \<Rightarrow> string \<Rightarrow> (datetime \<times> decimal) list" where
  "signed_fills s product_id = sort_key fst (List.map_filter (signed_fill_event s product_id) (s_fills s))"

definition held_quantity_before :: "deployment_snapshot \<Rightarrow> string \<Rightarrow> datetime \<Rightarrow> decimal" where
  "held_quantity_before s product_id instant =
     dsum (map snd (filter (\<lambda>(filled_at, delta). filled_at < instant) (signed_fills s product_id)))"

text \<open>The hour loop: the events not yet passed and the quantity held so far.\<close>

function funding_loop ::
    "datetime set \<Rightarrow> datetime \<Rightarrow> datetime \<Rightarrow> (datetime \<times> decimal) list \<Rightarrow> decimal \<Rightarrow> datetime list" where
  "funding_loop charged through hour events held =
     (if through < hour then []
      else
        let held' = foldl dadd held (map snd (takeWhile (\<lambda>e. fst e < hour) events));
            rest = dropWhile (\<lambda>e. fst e < hour) events
        in if held' = 0 \<and> rest = [] then []
           else (if held' \<noteq> 0 \<and> hour \<notin> charged then [hour] else [])
                @ funding_loop charged through (hour + HOUR) rest held')"
  by auto
termination
  by (relation "measure (\<lambda>(charged, through, hour, events, held). nat (through + 1 - hour))") (auto simp: time_units)

declare funding_loop.simps [simp del]

definition charged_hours :: "deployment_snapshot \<Rightarrow> string \<Rightarrow> datetime list" where
  "charged_hours s product_id =
     map c_funding_time (filter (\<lambda>flow. c_product_id flow = product_id) (s_funding s))"

definition funding_hours_held :: "deployment_snapshot \<Rightarrow> string \<Rightarrow> datetime \<Rightarrow> datetime list" where
  "funding_hours_held s product_id through =
     (case signed_fills s product_id of
        [] \<Rightarrow> []
      | (first, delta) # events \<Rightarrow>
          funding_loop (set (charged_hours s product_id)) through ((first div HOUR + 1) * HOUR) ((first, delta) # events) 0)"

definition funding_overdue :: "datetime \<Rightarrow> datetime \<Rightarrow> bool" where
  "funding_overdue hour now \<longleftrightarrow> now \<ge> hour + HOUR + FUNDING_SETTLE_GRACE"

definition funding_flow ::
    "deployment_snapshot \<Rightarrow> string \<Rightarrow> datetime \<Rightarrow> decimal \<Rightarrow> decimal \<Rightarrow> datetime \<Rightarrow> funding_cash_flow" where
  "funding_flow s product_id hour mark_price rate applied_at =
     (let signed = held_quantity_before s product_id hour
      in \<lparr>c_deployment_id = d_id (s_deployment s), c_product_id = product_id, c_funding_time = hour,
          c_signed_quantity = signed, c_mark_price = mark_price, c_rate = rate,
          c_amount = dmul (dmul (dneg signed) mark_price) rate, c_applied_at = applied_at\<rparr>)"

section \<open>Liquidation\<close>

definition liquidation_due :: "futures_margin_terms \<Rightarrow> decimal \<Rightarrow> decimal \<Rightarrow> position_side \<Rightarrow> decimal \<Rightarrow> bool" where
  "liquidation_due terms cash quantity side adverse_price \<longleftrightarrow>
     (let signed = (if side = SHORT then dneg quantity else quantity);
          equity = dadd cash (dmul signed adverse_price)
      in equity < maintenance terms quantity adverse_price side)"

definition paper_liquidation_hit ::
    "futures_book_state option \<Rightarrow> deployment_snapshot \<Rightarrow> position option \<Rightarrow> candle \<Rightarrow> bool" where
  "paper_liquidation_hit scope s position candle \<longleftrightarrow>
     (case position of
        None \<Rightarrow> False
      | Some pos \<Rightarrow>
          if d_mode (s_deployment s) \<noteq> PAPER then False
          else case Option.bind (current_futures_book scope (Some (d_id (s_deployment s)))) fs_margin of
                 None \<Rightarrow> False
               | Some margin \<Rightarrow>
                   liquidation_due margin (d_cash (s_deployment s)) (p_quantity pos) (p_side pos)
                     (if p_side pos = SHORT then k_high candle else k_low candle))"

section \<open>The funding hours a book owes\<close>

lemma funding_loop_eq:
  "funding_loop charged through hour events held =
     filter (\<lambda>h. foldl dadd held (map snd (takeWhile (\<lambda>e. fst e < h) events)) \<noteq> 0 \<and> h \<notin> charged)
       (hours_until hour through)"
proof (induction charged through hour events held rule: funding_loop.induct)
  case (1 charged through hour events held)
  show ?case
  proof (cases "through < hour")
    case True
    then show ?thesis by (subst funding_loop.simps, subst hours_until.simps) simp
  next
    case False
    let ?now = "takeWhile (\<lambda>e. fst e < hour) events" and ?rest = "dropWhile (\<lambda>e. fst e < hour) events"
    define held' where "held' = foldl dadd held (map snd ?now)"
    have split: "takeWhile (\<lambda>e. fst e < h) events = ?now @ takeWhile (\<lambda>e. fst e < h) ?rest" if "hour \<le> h" for h
      using that by (induction events) auto
    have at: "foldl dadd held (map snd (takeWhile (\<lambda>e. fst e < h) events))
        = foldl dadd held' (map snd (takeWhile (\<lambda>e. fst e < h) ?rest))" if "hour \<le> h" for h
      unfolding split [OF that] held'_def by simp
    have later: "hour + HOUR \<le> h" if "h \<in> set (hours_until (hour + HOUR) through)" for h
      using that by (simp add: set_hours_until)
    have H: "0 < HOUR" by (simp add: time_units)
    have tail: "filter (\<lambda>h. foldl dadd held (map snd (takeWhile (\<lambda>e. fst e < h) events)) \<noteq> 0 \<and> h \<notin> charged)
          (hours_until (hour + HOUR) through)
        = filter (\<lambda>h. foldl dadd held' (map snd (takeWhile (\<lambda>e. fst e < h) ?rest)) \<noteq> 0 \<and> h \<notin> charged)
          (hours_until (hour + HOUR) through)"
      by (rule filter_cong [OF refl]) (use at later H in fastforce)
    have head: "hours_until hour through = hour # hours_until (hour + HOUR) through"
      using False by (subst hours_until.simps) simp
    show ?thesis
    proof (cases "held' = 0 \<and> ?rest = []")
      case True
      then have zero: "held' = 0" and rest: "?rest = []" by blast+
      have none: "filter (\<lambda>h. foldl dadd held' (map snd (takeWhile (\<lambda>e. fst e < h) ?rest)) \<noteq> 0 \<and> h \<notin> charged)
          (hours_until (hour + HOUR) through) = []" unfolding rest by (simp add: zero)
      have "funding_loop charged through hour events held = []"
        using False True by (subst funding_loop.simps) (simp add: Let_def held'_def)
      with zero show ?thesis unfolding head filter.simps tail none by (simp add: held'_def)
    next
      case c: False
      have IH: "funding_loop charged through (hour + HOUR) ?rest held'
          = filter (\<lambda>h. foldl dadd held' (map snd (takeWhile (\<lambda>e. fst e < h) ?rest)) \<noteq> 0 \<and> h \<notin> charged)
              (hours_until (hour + HOUR) through)"
        using 1 [OF False held'_def refl] c by simp
      have step: "funding_loop charged through hour events held =
          (if held' \<noteq> 0 \<and> hour \<notin> charged then [hour] else []) @ funding_loop charged through (hour + HOUR) ?rest held'"
        unfolding funding_loop.simps [of charged through hour events held] Let_def held'_def [symmetric]
          if_not_P [OF False] if_not_P [OF c] ..
      show ?thesis unfolding step IH head filter.simps tail held'_def [symmetric] by simp
    qed
  qed
qed

lemma sorted_takeWhile_filter:
  "sorted (map fst xs) \<Longrightarrow> takeWhile (\<lambda>e. fst e < (h::datetime)) xs = filter (\<lambda>e. fst e < h) xs"
proof (induction xs)
  case (Cons x xs)
  then show ?case by (cases "fst x < h") (auto simp: filter_empty_conv intro!: filter_False [symmetric])
qed simp

lemma sorted_signed_fills: "sorted (map fst (signed_fills s product_id))"
  by (simp add: signed_fills_def)

lemma held_before_eq:
  "held_quantity_before s product_id h
     = foldl dadd 0 (map snd (takeWhile (\<lambda>e. fst e < h) (signed_fills s product_id)))"
  by (simp add: held_quantity_before_def dsum_def sorted_takeWhile_filter [OF sorted_signed_fills] case_prod_unfold)

lemma funding_hours_held_eq:
  "funding_hours_held s product_id through =
     (case signed_fills s product_id of
        [] \<Rightarrow> []
      | (first, _) # _ \<Rightarrow>
          filter (\<lambda>h. held_quantity_before s product_id h \<noteq> 0 \<and> h \<notin> set (charged_hours s product_id))
            (hours_until ((first div HOUR + 1) * HOUR) through))"
  by (simp add: funding_hours_held_def funding_loop_eq held_before_eq split: list.split)

text \<open>C12: A book owes funding for exactly the whole hours, up to now, just before which its applied fills
  leave it holding a position and which it was not charged for; the loop lists each of them once, in
  order, although it stops early once the book is flat for good.\<close>

theorem funding_hours_exact:
  "set (funding_hours_held s product_id through)
     = {h. HOUR dvd h \<and> h \<le> through \<and> held_quantity_before s product_id h \<noteq> 0
           \<and> h \<notin> set (charged_hours s product_id)}
   \<and> sorted_wrt (<) (funding_hours_held s product_id through)"
proof (cases "signed_fills s product_id")
  case Nil
  then show ?thesis by (simp add: funding_hours_held_def held_quantity_before_def)
next
  case (Cons e events)
  obtain first delta where e: "e = (first, delta)" by (cases e)
  let ?start = "(first div HOUR + 1) * HOUR"
  have H: "0 < HOUR" by (simp add: time_units)
  have grid: "HOUR dvd h - ?start \<longleftrightarrow> HOUR dvd h" for h
    using dvd_diff [of HOUR h ?start] dvd_add [of HOUR "h - ?start" ?start] by auto
  have early: "?start \<le> h" if "HOUR dvd h" "held_quantity_before s product_id h \<noteq> 0" for h
  proof (rule ccontr)
    assume "\<not> ?start \<le> h"
    moreover obtain k where k: "h = HOUR * k" using \<open>HOUR dvd h\<close> by (rule dvdE)
    ultimately have "k < first div HOUR + 1" using H by (simp add: mult.commute)
    then have "HOUR * k \<le> HOUR * (first div HOUR)" using H by simp
    also have "\<dots> \<le> first" using mult_div_mod_eq [of HOUR first] pos_mod_sign [OF H, of first] by linarith
    finally have "h \<le> first" by (simp add: k)
    with Cons e have "held_quantity_before s product_id h = 0" by (simp add: held_before_eq)
    with that(2) show False by simp
  qed
  have eq: "funding_hours_held s product_id through
      = filter (\<lambda>h. held_quantity_before s product_id h \<noteq> 0 \<and> h \<notin> set (charged_hours s product_id)) (hours_until ?start through)"
    unfolding funding_hours_held_eq Cons e by simp
  have "sorted_wrt (<) (funding_hours_held s product_id through)"
    unfolding eq by (rule sorted_wrt_filter [OF sorted_hours_until])
  moreover have "set (funding_hours_held s product_id through)
     = {h. HOUR dvd h \<and> h \<le> through \<and> held_quantity_before s product_id h \<noteq> 0 \<and> h \<notin> set (charged_hours s product_id)}"
    unfolding eq set_filter set_hours_until grid using early by auto
  ultimately show ?thesis by blast
qed

text \<open>Once the owed hours are recorded, nothing more is owed up to the same instant, whatever marks and
  rates the flows carry.\<close>

theorem recorded_funding_is_settled:
  "funding_hours_held
     (s\<lparr>s_funding := s_funding s @ map (\<lambda>hour. funding_flow s product_id hour (mark_of hour) (rate_of hour) applied_at)
          (funding_hours_held s product_id through)\<rparr>) product_id through = []"
    (is "funding_hours_held ?s' product_id through = []")
proof -
  have "signed_fill_event (s\<lparr>s_funding := flows\<rparr>) product_id = signed_fill_event s product_id" for flows
    by (rule ext) (auto simp: signed_fill_event_def split: option.split)
  then have "signed_fills ?s' product_id = signed_fills s product_id" by (simp add: signed_fills_def)
  then have held: "held_quantity_before ?s' product_id h = held_quantity_before s product_id h" for h
    by (simp add: held_quantity_before_def)
  have "set (charged_hours ?s' product_id) = set (charged_hours s product_id) \<union> set (funding_hours_held s product_id through)"
    by (auto simp: charged_hours_def funding_flow_def Let_def image_iff)
  with held funding_hours_exact [of ?s' product_id through] funding_hours_exact [of s product_id through]
  have "set (funding_hours_held ?s' product_id through) = {}" by auto
  then show ?thesis by simp
qed

text \<open>A deployment binds its contract once: the first binding is the one every later load returns, and a
  second binding is refused and changes nothing.\<close>

theorem contract_bound_once:
  assumes "load_contract deployment bindings = Some first"
  shows "load_contract deployment (snd (bind_contract other bindings)) = Some first
     \<and> (bc_deployment_id other = deployment \<longrightarrow> isl (fst (bind_contract other bindings)) \<and> snd (bind_contract other bindings) = bindings)"
  using assms by (auto simp: load_contract_def bind_contract_def)

end
