(* ===== verification/Risk_Policy.thy ===== *)
theory Risk_Policy
  imports Lifecycle
begin

text \<open>
  The risk policy document and the vocabulary of the entry gate (\<open>risk/models.py\<close>,
  \<open>risk/futures_policy.py\<close>, \<open>risk/gate_common.py\<close>) and a deployed portfolio's shared
  limits (\<open>risk/portfolio_limits.py\<close>, \<open>risk/portfolio_scope.py\<close>).

  A decimal text of the policy is the decimal it spells. A verdict carries its decision and its
  reason code; the human-readable detail is not modelled. A check that may object returns an
  optional verdict, and a check that may raise returns it in a result. A Python set of products is
  a sorted list: the order of a sum over a set is unspecified in Python, and the sorted one is
  fixed here.
\<close>

section \<open>Verdicts\<close>

datatype risk_policy_source = COMPILED_DEFAULT | PUBLISHED

datatype risk_decision = ALLOW | DENY

datatype (plugins only: code) risk_reason_code =
    ALLOWED | PRODUCT_NOT_ALLOWLISTED | MAX_RUNNING_DEPLOYMENTS | MAX_OPEN_POSITIONS
  | PAPER_CAPITAL_EXCEEDED | STRATEGY_NOT_ALLOCATED | ALLOCATION_EXCEEDED
  | PORTFOLIO_EXPOSURE_EXCEEDED | PRODUCT_EXPOSURE_EXCEEDED | DISCRETIONARY_NOT_ALLOCATED
  | DAILY_LOSS_LIMIT | STRATEGY_DRAWDOWN_LIMIT | ORDER_RATE_LIMIT | CANCEL_RATE_LIMIT
  | REFERENCE_PRICE_COLLAR | REFERENCE_PRICE_UNAVAILABLE | BREAKER_MARK_MISSING
  | PYRAMIDING_NOT_ALLOWED | LIVE_REQUIRES_PUBLISHED_POLICY | VENUE_REQUEST_BUDGET_EXCEEDED
  | MAX_ORDER_QUANTITY | MAX_ORDER_NOTIONAL | BALANCE_RESERVE | STALE_MARK | PRODUCT_DISABLED
  | CONNECTION_UNHEALTHY | VENUE_BALANCE_UNKNOWN | SIGNAL_STALE | ENTRIES_DISABLED
  | PORTFOLIO_TOTAL_EXPOSURE_LIMIT | PORTFOLIO_ASSET_EXPOSURE_LIMIT | PORTFOLIO_BREAKER_LATCHED
  | PORTFOLIO_DAILY_LOSS_STOP | PORTFOLIO_DRAWDOWN_STOP | PORTFOLIO_LIMITS_UNAVAILABLE
  | FLEET_ENTRY_CLUSTER_LIMIT | BTC_BETA_EXPOSURE_EXCEEDED | BTC_BETA_UNAVAILABLE
  | FUTURES_COLLATERAL_UNKNOWN | FUTURES_COLLATERAL_IN_USE | FUTURES_COLLATERAL_RESERVE_SHORT
  | FUTURES_LIVE_UNSUPPORTED | FUTURES_PAPER_UNSUPPORTED | FUTURES_POLICY_UNSET
  | FUTURES_PAPER_CAPITAL_EXCEEDED | FUTURES_CONTRACT_UNBOUND | FUTURES_MARGIN_UNKNOWN
  | FUTURES_LEVERAGE_EXCEEDED | FUTURES_LIQUIDATION_BUFFER | FUNDING_HISTORY_MISSING
  | SHARED_COLLATERAL_BREAKER | FUTURES_EXPOSURE_EXCEEDED | FUTURES_ORDER_CONTRACTS_EXCEEDED
  | FUTURES_FUNDING_RATE_EXCEEDED | FUTURES_LIVE_DISABLED | FUTURES_LIVE_CAPITAL_UNSET
  | FUTURES_LIVE_CAPITAL_EXCEEDED | FUTURES_PRODUCT_OCCUPIED | FUTURES_EXTERNAL_POSITION_ON_PRODUCT
  | FUTURES_LIVE_DATED_UNSUPPORTED | FUTURES_BUYING_POWER_SHORT | FUTURES_VENUE_KILLSWITCH
  | FUTURES_VENUE_MAINTENANCE | FUTURES_CONTRACT_DRIFT

record risk_verdict =
  rv_decision :: risk_decision
  rv_reason_code :: risk_reason_code

definition allow :: risk_verdict where
  "allow = \<lparr>rv_decision = ALLOW, rv_reason_code = ALLOWED\<rparr>"

definition deny :: "risk_reason_code \<Rightarrow> risk_verdict" where
  "deny reason_code = \<lparr>rv_decision = DENY, rv_reason_code = reason_code\<rparr>"

definition pauses_risk_increasing :: "risk_reason_code \<Rightarrow> bool" where
  "pauses_risk_increasing reason_code \<longleftrightarrow> reason_code \<in> {DAILY_LOSS_LIMIT, STRATEGY_DRAWDOWN_LIMIT}"

lemma verdict_simps [simp]:
  "rv_decision allow = ALLOW" "rv_decision (deny code) = DENY" "rv_reason_code allow = ALLOWED"
  "rv_reason_code (deny code) = code" "deny code \<noteq> allow" "allow \<noteq> deny code"
  "deny code = deny code' \<longleftrightarrow> code = code'"
  by (simp_all add: allow_def deny_def)

section \<open>The policy\<close>

record capital_allocation =
  ca_strategy_id :: uuid
  ca_allocated_quote :: decimal

record desk_allocation =
  da_desk_id :: string
  da_allocated_quote :: decimal

record futures_risk_policy =
  fp_live_spot_collateral_reserve_quote :: "decimal option"
  fp_peg_haircut :: decimal
  fp_paper_capital_usd :: "decimal option"
  fp_daily_loss_limit_fraction :: "decimal option"
  fp_max_daily_loss_usd :: "decimal option"
  fp_max_leverage :: "decimal option"
  fp_min_liquidation_buffer_fraction :: "decimal option"
  fp_max_exposure_fraction :: "decimal option"
  fp_max_order_contracts :: "int option"
  fp_max_hourly_funding_rate_abs :: "decimal option"
  fp_max_btc_beta_exposure_fraction :: "decimal option"
  fp_net_by_underlying :: bool
  fp_live_enabled :: bool
  fp_live_capital_usd :: "decimal option"
  fp_product_allowlist :: "string list"

record risk_policy_definition =
  rp_quote_currency :: string
  rp_product_allowlist :: "string list"
  rp_max_concurrent_running_deployments :: int
  rp_max_concurrent_open_positions :: int
  rp_max_portfolio_exposure_fraction :: decimal
  rp_per_product_max_exposure_fraction :: decimal
  rp_paper_capital_quote :: decimal
  rp_allocations :: "capital_allocation list"
  rp_desk_allocations :: "desk_allocation list"
  rp_daily_loss_limit_fraction :: decimal
  rp_max_strategy_drawdown_fraction :: decimal
  rp_max_entry_orders_per_minute :: int
  rp_max_cancellations_per_minute :: int
  rp_reference_price_collar_fraction :: decimal
  rp_allow_intra_strategy_pyramiding :: bool
  rp_max_daily_loss_quote :: "decimal option"
  rp_max_portfolio_exposure_quote :: "decimal option"
  rp_max_venue_order_actions_per_minute :: "int option"
  rp_max_order_quantity :: "decimal option"
  rp_max_order_notional_quote :: "decimal option"
  rp_min_available_quote_reserve :: "decimal option"
  rp_max_fleet_entries_per_window :: "int option"
  rp_fleet_entry_window_minutes :: "int option"
  rp_max_btc_beta_exposure_fraction :: "decimal option"
  rp_max_btc_beta_exposure_quote :: "decimal option"
  rp_futures :: "futures_risk_policy option"

text \<open>The validators of the document that later results rest on.\<close>

definition unit_fraction :: "decimal \<Rightarrow> bool" where
  "unit_fraction parsed \<longleftrightarrow> \<not> (parsed \<le> 0 \<or> parsed > 1)"

definition require_fleet_window_pair :: "int option \<Rightarrow> int option \<Rightarrow> bool" where
  "require_fleet_window_pair count window_minutes \<longleftrightarrow> (count = None) = (window_minutes = None)"

definition validate_allocations :: "risk_policy_definition \<Rightarrow> bool" where
  "validate_allocations policy \<longleftrightarrow>
     distinct (map ca_strategy_id (rp_allocations policy))
     \<and> distinct (map da_desk_id (rp_desk_allocations policy))
     \<and> dsum (map ca_allocated_quote (rp_allocations policy) @ map da_allocated_quote (rp_desk_allocations policy))
         \<le> rp_paper_capital_quote policy"

definition compiled_default_risk_policy :: risk_policy_definition where
  "compiled_default_risk_policy =
     \<lparr>rp_quote_currency = ''USDC'', rp_product_allowlist = [], rp_max_concurrent_running_deployments = 8,
      rp_max_concurrent_open_positions = 8, rp_max_portfolio_exposure_fraction = 1,
      rp_per_product_max_exposure_fraction = 1, rp_paper_capital_quote = 100000, rp_allocations = [],
      rp_desk_allocations = [], rp_daily_loss_limit_fraction = 1, rp_max_strategy_drawdown_fraction = 1,
      rp_max_entry_orders_per_minute = 60, rp_max_cancellations_per_minute = 60,
      rp_reference_price_collar_fraction = 1 / 2, rp_allow_intra_strategy_pyramiding = False,
      rp_max_daily_loss_quote = None, rp_max_portfolio_exposure_quote = None,
      rp_max_venue_order_actions_per_minute = None, rp_max_order_quantity = None,
      rp_max_order_notional_quote = None, rp_min_available_quote_reserve = None,
      rp_max_fleet_entries_per_window = None, rp_fleet_entry_window_minutes = None,
      rp_max_btc_beta_exposure_fraction = None, rp_max_btc_beta_exposure_quote = None, rp_futures = None\<rparr>"

section \<open>The proposed entry and a book's exposure\<close>

datatype entry_funding = Funding_Quote | Funding_In_Kind

record proposed_entry =
  pr_product_id :: string
  pr_strategy_id :: "uuid option"
  pr_notional :: decimal
  pr_is_pyramid_add :: bool
  pr_quantity :: "decimal option"
  pr_funding :: entry_funding
  pr_readmits_working_entry :: bool
  pr_side :: "position_side option"
  pr_desk_id :: "string option"
  pr_desk_committed :: decimal

definition in_kind :: "proposed_entry \<Rightarrow> bool" where
  "in_kind proposed \<longleftrightarrow> pr_funding proposed = Funding_In_Kind"

definition in_kind_capital :: "proposed_entry \<Rightarrow> decimal" where
  "in_kind_capital proposed = (if in_kind proposed then pr_notional proposed else 0)"

definition book_products :: "deployment_snapshot \<Rightarrow> string list" where
  "book_products s =
     sorted_set (filter (\<lambda>product. product \<noteq> [])
       ([d_product_id (s_deployment s)]
        @ map (\<lambda>pos. resolved_product_id (p_product_id pos) (s_deployment s)) (snapshot_positions s)
        @ map r_product_id (s_instrument_runtimes s)
        @ map (\<lambda>ord. resolved_product_id (o_product_id ord) (s_deployment s)) (s_orders s)))"

definition marked_exposure :: "deployment_snapshot \<Rightarrow> decimal" where
  "marked_exposure s = dsum (map (product_exposure s) (book_products s))"

section \<open>Portfolio limits\<close>

record portfolio_risk_book =
  pb_portfolio_id :: uuid
  pb_capital :: decimal
  pb_max_total_exposure_fraction :: decimal
  pb_max_per_asset_fraction :: decimal
  pb_live :: bool
  pb_breaker_reason :: "risk_reason_code option"
  pb_available :: bool

definition unavailable_portfolio :: "uuid \<Rightarrow> portfolio_risk_book" where
  "unavailable_portfolio portfolio_id =
     \<lparr>pb_portfolio_id = portfolio_id, pb_capital = 0, pb_max_total_exposure_fraction = 0,
      pb_max_per_asset_fraction = 0, pb_live = False, pb_breaker_reason = None, pb_available = False\<rparr>"

text \<open>\<open>base_currency\<close> raises exactly when the id is not a spot pair.\<close>

definition asset_of :: "string \<Rightarrow> string" where
  "asset_of product_id = (case spot_base_currency product_id of Inr base \<Rightarrow> base | Inl _ \<Rightarrow> product_id)"

definition asset_exposure :: "deployment_snapshot \<Rightarrow> string \<Rightarrow> decimal" where
  "asset_exposure s asset =
     dsum (map (product_exposure s) (filter (\<lambda>product. asset_of product = asset) (book_products s)))"

record portfolio_exposure =
  px_total :: decimal
  px_assets :: "string \<rightharpoonup> decimal"

definition add_asset ::
    "deployment_snapshot \<Rightarrow> (string \<rightharpoonup> decimal) \<Rightarrow> string \<Rightarrow> (string \<rightharpoonup> decimal)" where
  "add_asset item assets asset = assets(asset \<mapsto> dadd (or_else (assets asset) 0) (asset_exposure item asset))"

definition portfolio_exposure_of :: "uuid \<Rightarrow> deployment_snapshot list \<Rightarrow> portfolio_exposure" where
  "portfolio_exposure_of portfolio_id snapshots =
     (let members = filter (\<lambda>item. d_portfolio_id (s_deployment item) = Some portfolio_id) snapshots
      in \<lparr>px_total = dsum (map marked_exposure members),
          px_assets = foldl (\<lambda>assets item. foldl (add_asset item) assets
              (sorted_set (map asset_of (book_products item)))) Map.empty members\<rparr>)"

definition evaluate_portfolio_entry ::
    "portfolio_risk_book \<Rightarrow> proposed_entry \<Rightarrow> deployment_snapshot list \<Rightarrow> risk_verdict" where
  "evaluate_portfolio_entry book proposed snapshots =
     (if \<not> pb_available book then deny PORTFOLIO_LIMITS_UNAVAILABLE
      else if pb_breaker_reason book \<noteq> None then deny PORTFOLIO_BREAKER_LATCHED
      else
        let exposure = portfolio_exposure_of (pb_portfolio_id book) snapshots;
            total_cap = dmul (pb_capital book) (pb_max_total_exposure_fraction book);
            held = or_else (px_assets exposure (asset_of (pr_product_id proposed))) 0;
            asset_cap = dmul (pb_capital book) (pb_max_per_asset_fraction book)
        in if dadd (px_total exposure) (pr_notional proposed) > total_cap then deny PORTFOLIO_TOTAL_EXPOSURE_LIMIT
           else if dadd held (pr_notional proposed) > asset_cap then deny PORTFOLIO_ASSET_EXPOSURE_LIMIT
           else allow)"

text \<open>The bound book of a sleeve; the context variable is the first argument.\<close>

definition portfolio_risk_for :: "portfolio_risk_book option \<Rightarrow> deployment \<Rightarrow> portfolio_risk_book option" where
  "portfolio_risk_for scope d =
     (case d_portfolio_id d of
        None \<Rightarrow> None
      | Some portfolio_id \<Rightarrow>
          Some (case scope of
                  None \<Rightarrow> unavailable_portfolio portfolio_id
                | Some book \<Rightarrow> if pb_portfolio_id book \<noteq> portfolio_id then unavailable_portfolio portfolio_id else book))"

end
