(* ===== verification/Risk_Opening.thy ===== *)
theory Risk_Opening
  imports Ledger
begin

text \<open>
  Reconstruction of a book's UTC opening from its applied fills
  (\<open>risk/opening_accounting.py\<close>). Dictionaries of quantities per product are association
  lists in insertion order, without repeated keys. The SHA-256 of the replayed records is the
  argument \<open>fingerprint\<close>: nothing but the stored evidence reads it.
\<close>

section \<open>Replay\<close>

definition utc_day_start :: "datetime \<Rightarrow> datetime" where
  "utc_day_start moment = moment - moment mod DAY"

text \<open>\<open>d[k] = d.get(k, 0) + x\<close>.\<close>

fun dict_add :: "string \<Rightarrow> decimal \<Rightarrow> (string \<times> decimal) list \<Rightarrow> (string \<times> decimal) list" where
  "dict_add k x [] = [(k, dadd 0 x)]"
| "dict_add k x ((k', y) # d) = (if k' = k then (k', dadd y x) # d else (k', y) # dict_add k x d)"

definition fill_economics_qualified :: "fill \<Rightarrow> order \<Rightarrow> datetime \<Rightarrow> bool" where
  "fill_economics_qualified fl ord as_of \<longleftrightarrow>
     (if \<not> list_all dec_is_finite [f_quantity fl, f_price fl, f_fee fl] then False
      else f_deployment_id fl = o_deployment_id ord \<and> f_quantity fl > 0 \<and> f_price fl > 0 \<and> f_fee fl \<ge> 0
           \<and> f_economics_applied_at fl \<noteq> None \<and> f_filled_at fl \<le> as_of)"

definition funding_qualified :: "funding_cash_flow \<Rightarrow> deployment_snapshot \<Rightarrow> datetime \<Rightarrow> bool" where
  "funding_qualified flow s as_of \<longleftrightarrow>
     c_deployment_id flow = d_id (s_deployment s)
     \<and> list_all dec_is_finite [c_signed_quantity flow, c_mark_price flow, c_rate flow, c_amount flow]
     \<and> c_funding_time flow \<le> as_of"

text \<open>The loop of \<open>_orders_covered\<close>: the venue fill ids seen so far and the quantity per order.\<close>

fun covered_quantities ::
    "(uuid \<rightharpoonup> order) \<Rightarrow> datetime \<Rightarrow> fill list \<Rightarrow> string list \<Rightarrow> (uuid \<Rightarrow> decimal) \<Rightarrow> (uuid \<Rightarrow> decimal) option" where
  "covered_quantities orders as_of [] identities quantities = Some quantities"
| "covered_quantities orders as_of (fl # fls) identities quantities =
     (case orders (f_order_id fl) of
        None \<Rightarrow> None
      | Some ord \<Rightarrow>
          if f_venue_fill_id fl \<in> set identities \<or> \<not> fill_economics_qualified fl ord as_of then None
          else covered_quantities orders as_of fls (f_venue_fill_id fl # identities)
                 (quantities(f_order_id fl := dadd (quantities (f_order_id fl)) (f_quantity fl))))"

definition orders_covered :: "deployment_snapshot \<Rightarrow> datetime \<Rightarrow> bool" where
  "orders_covered s as_of \<longleftrightarrow>
     (case covered_quantities (dict_by o_id (s_orders s)) as_of (s_fills s) [] (\<lambda>_. 0) of
        None \<Rightarrow> False
      | Some quantities \<Rightarrow>
          list_all (\<lambda>ord. o_deployment_id ord = d_id (s_deployment s) \<and> dec_is_finite (o_filled_quantity ord)
              \<and> quantities (o_id ord) = o_filled_quantity ord) (s_orders s))"

record replay_state =
  rs_current :: "(string \<times> decimal) list"
  rs_midnight :: "(string \<times> decimal) list"
  rs_cash_change :: decimal
  rs_day_cash_change :: decimal

definition empty_replay :: replay_state where
  "empty_replay = \<lparr>rs_current = [], rs_midnight = [], rs_cash_change = 0, rs_day_cash_change = 0\<rparr>"

text \<open>One applied fill of an order moves inventory by its signed quantity and cash by its economics;
  \<open>-quantity * price - fee\<close> negates first, then multiplies, then subtracts.\<close>

definition signed_fill_quantity :: "fill \<Rightarrow> order \<Rightarrow> decimal" where
  "signed_fill_quantity fl ord = (if o_side ord = BUY then f_quantity fl else dneg (f_quantity fl))"

definition replay_fill :: "deployment \<Rightarrow> datetime \<Rightarrow> fill \<Rightarrow> order \<Rightarrow> replay_state \<Rightarrow> replay_state" where
  "replay_fill d day_start fl ord st =
     (let product = resolved_product_id (o_product_id ord) d;
          quantity = signed_fill_quantity fl ord;
          delta = dsub (dmul (dneg quantity) (f_price fl)) (f_fee fl);
          st = st\<lparr>rs_current := dict_add product quantity (rs_current st),
                  rs_cash_change := dadd (rs_cash_change st) delta\<rparr>
      in if f_filled_at fl < day_start then st\<lparr>rs_midnight := dict_add product quantity (rs_midnight st)\<rparr>
         else st\<lparr>rs_day_cash_change := dadd (rs_day_cash_change st) delta\<rparr>)"

fun replay_fills ::
    "deployment_snapshot \<Rightarrow> datetime \<Rightarrow> fill list \<Rightarrow> replay_state \<Rightarrow> replay_state option" where
  "replay_fills s as_of [] st = Some st"
| "replay_fills s as_of (fl # fls) st =
     (case dict_by o_id (s_orders s) (f_order_id fl) of
        None \<Rightarrow> None
      | Some ord \<Rightarrow>
          if \<not> fill_economics_qualified fl ord as_of then None
          else replay_fills s as_of fls (replay_fill (s_deployment s) (utc_day_start as_of) fl ord st))"

fun replay_funding ::
    "deployment_snapshot \<Rightarrow> datetime \<Rightarrow> funding_cash_flow list \<Rightarrow> replay_state \<Rightarrow> replay_state option" where
  "replay_funding s as_of [] st = Some st"
| "replay_funding s as_of (flow # flows) st =
     (if \<not> funding_qualified flow s as_of then None
      else let st = st\<lparr>rs_cash_change := dadd (rs_cash_change st) (c_amount flow)\<rparr>
           in replay_funding s as_of flows
                (if c_funding_time flow \<ge> utc_day_start as_of
                 then st\<lparr>rs_day_cash_change := dadd (rs_day_cash_change st) (c_amount flow)\<rparr> else st))"

definition signed_position_quantity :: "position \<Rightarrow> decimal" where
  "signed_position_quantity pos = (if p_side pos = LONG then p_quantity pos else dneg (p_quantity pos))"

definition projected_quantities :: "deployment_snapshot \<Rightarrow> (string \<times> decimal) list" where
  "projected_quantities s =
     foldl (\<lambda>projected pos. dict_add (resolved_product_id (p_product_id pos) (s_deployment s))
              (signed_position_quantity pos) projected) [] (snapshot_positions s)"

text \<open>Equality of the two dictionaries restricted to their nonzero values.\<close>

definition same_nonzero :: "(string \<times> decimal) list \<Rightarrow> (string \<times> decimal) list \<Rightarrow> bool" where
  "same_nonzero a b \<longleftrightarrow>
     list_all (\<lambda>k. or_else (map_of a k) 0 = or_else (map_of b k) 0) (map fst a @ map fst b)"

definition projection_matches :: "deployment_snapshot \<Rightarrow> (string \<times> decimal) list \<Rightarrow> decimal \<Rightarrow> bool" where
  "projection_matches s quantities cash_change \<longleftrightarrow>
     (if \<not> same_nonzero quantities (projected_quantities s) then False
      else case opt_or (d_initial_equity (s_deployment s)) (d_paper_starting_cash (s_deployment s)) of
             None \<Rightarrow> True
           | Some initial \<Rightarrow> d_cash (s_deployment s) = dadd initial cash_change)"

record opening_replay =
  or_day_cash_change :: decimal
  or_midnight_quantities :: "(string \<times> decimal) list"
  or_includes_funding :: bool

definition opening_replay_of :: "deployment_snapshot \<Rightarrow> datetime \<Rightarrow> opening_replay option" where
  "opening_replay_of s as_of =
     (if \<not> s_accounting_complete s \<or> unsettled_fill_evidence s \<or> unprojected_inventory_products s \<noteq> []
         \<or> missing_occupied_inventory_products s \<noteq> [] \<or> \<not> orders_covered s as_of then None
      else case replay_fills s as_of (s_fills s) empty_replay of
             None \<Rightarrow> None
           | Some st \<Rightarrow>
               (case replay_funding s as_of (s_funding s) st of
                  None \<Rightarrow> None
                | Some st' \<Rightarrow>
                    if \<not> projection_matches s (rs_current st') (rs_cash_change st') then None
                    else Some \<lparr>or_day_cash_change = rs_day_cash_change st',
                              or_midnight_quantities = rs_midnight st',
                              or_includes_funding = (s_funding s \<noteq> [])\<rparr>))"

section \<open>Opening evidence\<close>

fun value_midnight ::
    "(string \<rightharpoonup> midnight_mark) \<Rightarrow> (string \<times> decimal) list \<Rightarrow> decimal \<Rightarrow> midnight_mark list
     \<Rightarrow> (decimal \<times> midnight_mark list) option" where
  "value_midnight available [] equity used = Some (equity, used)"
| "value_midnight available ((product, quantity) # qs) equity used =
     (if quantity = 0 then value_midnight available qs equity used
      else case available product of
             None \<Rightarrow> None
           | Some mk \<Rightarrow> value_midnight available qs (dadd equity (dmul quantity (m_price mk))) (used @ [mk]))"

definition midnight_candidates :: "deployment_snapshot \<Rightarrow> datetime \<Rightarrow> midnight_mark list \<Rightarrow> midnight_mark list" where
  "midnight_candidates s as_of marks =
     filter (\<lambda>mk. m_closes_at mk = utc_day_start as_of)
       ((case d_risk_day_open_evidence (s_deployment s) of None \<Rightarrow> [] | Some stored \<Rightarrow> e_marks stored) @ marks)"

text \<open>Opening equity and the midnight marks that value it.\<close>

definition day_open_value ::
    "deployment_snapshot \<Rightarrow> datetime \<Rightarrow> midnight_mark list \<Rightarrow> (decimal \<times> midnight_mark list) option" where
  "day_open_value s as_of marks =
     (case opening_replay_of s as_of of
        None \<Rightarrow> None
      | Some replay \<Rightarrow>
          value_midnight (dict_by m_product_id (midnight_candidates s as_of marks))
            (sort_key fst (or_midnight_quantities replay))
            (dsub (d_cash (s_deployment s)) (or_day_cash_change replay)) [])"

text \<open>The validator of the evidence model: marks are unique per product and of the evidence day.\<close>

definition require_matching_marks :: "daily_opening_evidence \<Rightarrow> daily_opening_evidence result" where
  "require_matching_marks ev =
     (if \<not> distinct (map m_product_id (e_marks ev)) \<or> list_ex (\<lambda>mk. m_closes_at mk \<noteq> e_day_start ev) (e_marks ev)
      then Inl (ValueError ''Opening marks must be unique and belong to the evidence day.'') else Inr ev)"

definition reconstruct_day_open ::
    "(deployment_snapshot \<Rightarrow> string) \<Rightarrow> deployment_snapshot \<Rightarrow> datetime \<Rightarrow> midnight_mark list
     \<Rightarrow> daily_opening_evidence option result" where
  "reconstruct_day_open fingerprint s as_of marks =
     (case day_open_value s as_of marks of
        None \<Rightarrow> Inr None
      | Some (equity, used) \<Rightarrow>
          rbind (require_matching_marks
            \<lparr>e_source = (if s_funding s \<noteq> [] then ''per_product_applied_fills_and_funding_v1''
                         else ''per_product_applied_fills_v1''),
             e_day_start = utc_day_start as_of, e_equity = equity,
             e_fills_fingerprint = fingerprint s, e_marks = used\<rparr>) (\<lambda>ev. Inr (Some ev)))"

section \<open>What a replay establishes\<close>

text \<open>The order of a replayed fill, and what the fill moved.\<close>

definition replayed_order :: "deployment_snapshot \<Rightarrow> fill \<Rightarrow> order" where
  "replayed_order s fl = the (dict_by o_id (s_orders s) (f_order_id fl))"

definition replayed_product :: "deployment_snapshot \<Rightarrow> fill \<Rightarrow> string" where
  "replayed_product s fl = resolved_product_id (o_product_id (replayed_order s fl)) (s_deployment s)"

definition replayed_quantity :: "deployment_snapshot \<Rightarrow> fill \<Rightarrow> decimal" where
  "replayed_quantity s fl = signed_fill_quantity fl (replayed_order s fl)"

definition replayed_cash :: "deployment_snapshot \<Rightarrow> fill \<Rightarrow> decimal" where
  "replayed_cash s fl = dsub (dmul (dneg (replayed_quantity s fl)) (f_price fl)) (f_fee fl)"

text \<open>Signed inventory of one product from the fills before an instant, and the cash that moved
  since.\<close>

definition inventory_before :: "deployment_snapshot \<Rightarrow> datetime \<Rightarrow> string \<Rightarrow> decimal" where
  "inventory_before s instant product =
     dsum (map (replayed_quantity s)
       (filter (\<lambda>fl. replayed_product s fl = product \<and> f_filled_at fl < instant) (s_fills s)))"

definition cash_since :: "deployment_snapshot \<Rightarrow> datetime \<Rightarrow> decimal" where
  "cash_since s instant =
     dsum (map (replayed_cash s) (filter (\<lambda>fl. \<not> f_filled_at fl < instant) (s_fills s))
       @ map c_amount (filter (\<lambda>flow. instant \<le> c_funding_time flow) (s_funding s)))"

lemma map_of_dict_add: "map_of (dict_add k x d) = (map_of d)(k \<mapsto> dadd (or_else (map_of d k) 0) x)"
  by (induction k x d rule: dict_add.induct) auto

lemma keys_dict_add: "set (map fst (dict_add k x d)) = insert k (set (map fst d))"
  by (induction k x d rule: dict_add.induct) auto

lemma distinct_dict_add: "distinct (map fst d) \<Longrightarrow> distinct (map fst (dict_add k x d))"
proof (induction k x d rule: dict_add.induct)
  case (2 k x k' y d)
  then show ?case using keys_dict_add [of k x d] by auto
qed simp

lemma replay_fills_result:
  assumes "replay_fills s as_of fls st = Some st'" "distinct (map fst (rs_midnight st))"
  shows "(\<forall>fl \<in> set fls. fill_economics_qualified fl (replayed_order s fl) as_of)
     \<and> distinct (map fst (rs_midnight st'))
     \<and> or_else (map_of (rs_midnight st') p) 0 = foldl dadd (or_else (map_of (rs_midnight st) p) 0)
         (map (replayed_quantity s)
           (filter (\<lambda>fl. replayed_product s fl = p \<and> f_filled_at fl < utc_day_start as_of) fls))
     \<and> rs_day_cash_change st' = foldl dadd (rs_day_cash_change st)
         (map (replayed_cash s) (filter (\<lambda>fl. \<not> f_filled_at fl < utc_day_start as_of) fls))"
  using assms
proof (induction fls arbitrary: st)
  case (Cons fl fls)
  from Cons.prems(1) obtain ord where ord: "dict_by o_id (s_orders s) (f_order_id fl) = Some ord"
    and q: "fill_economics_qualified fl ord as_of"
    and rest: "replay_fills s as_of fls (replay_fill (s_deployment s) (utc_day_start as_of) fl ord st) = Some st'"
    by (auto split: option.splits if_splits)
  have o': "replayed_order s fl = ord" by (simp add: replayed_order_def ord)
  let ?st = "replay_fill (s_deployment s) (utc_day_start as_of) fl ord st"
  have d: "distinct (map fst (rs_midnight ?st))"
    using Cons.prems(2) by (simp add: replay_fill_def Let_def distinct_dict_add)
  have m: "or_else (map_of (rs_midnight ?st) p) 0
      = (if replayed_product s fl = p \<and> f_filled_at fl < utc_day_start as_of
         then dadd (or_else (map_of (rs_midnight st) p) 0) (replayed_quantity s fl)
         else or_else (map_of (rs_midnight st) p) 0)"
    by (auto simp: replay_fill_def Let_def map_of_dict_add replayed_product_def replayed_quantity_def o')
  have c: "rs_day_cash_change ?st = (if f_filled_at fl < utc_day_start as_of then rs_day_cash_change st
      else dadd (rs_day_cash_change st) (replayed_cash s fl))"
    by (simp add: replay_fill_def Let_def replayed_cash_def replayed_quantity_def o')
  from Cons.IH [OF rest d] q show ?case by (auto simp: m c o')
qed simp

lemma replay_funding_result:
  assumes "replay_funding s as_of flows st = Some st'"
  shows "rs_midnight st' = rs_midnight st
     \<and> rs_day_cash_change st' = foldl dadd (rs_day_cash_change st)
         (map c_amount (filter (\<lambda>flow. utc_day_start as_of \<le> c_funding_time flow) flows))"
  using assms by (induction flows arbitrary: st) (auto simp: Let_def split: if_splits)

lemma opening_replayD:
  assumes "opening_replay_of s as_of = Some r"
  shows "s_accounting_complete s \<and> \<not> unsettled_fill_evidence s
     \<and> (\<forall>fl \<in> set (s_fills s). f_economics_applied_at fl \<noteq> None \<and> f_filled_at fl \<le> as_of)
     \<and> distinct (map fst (or_midnight_quantities r))
     \<and> or_else (map_of (or_midnight_quantities r) p) 0 = inventory_before s (utc_day_start as_of) p
     \<and> or_day_cash_change r = cash_since s (utc_day_start as_of)"
proof -
  from assms obtain st st' where
    complete: "s_accounting_complete s" "\<not> unsettled_fill_evidence s"
    and f: "replay_fills s as_of (s_fills s) empty_replay = Some st"
    and g: "replay_funding s as_of (s_funding s) st = Some st'"
    and r: "or_day_cash_change r = rs_day_cash_change st'" "or_midnight_quantities r = rs_midnight st'"
    by (auto simp: opening_replay_of_def split: if_splits option.splits)
  have "distinct (map fst (rs_midnight empty_replay))" by (simp add: empty_replay_def)
  from replay_fills_result [OF f this, of p] replay_funding_result [OF g] complete r show ?thesis
    by (auto simp: inventory_before_def cash_since_def dsum_def empty_replay_def fill_economics_qualified_def
        split: if_splits)
qed

definition overnight :: "(string \<times> decimal) list \<Rightarrow> (string \<times> decimal) list" where
  "overnight qs = filter (\<lambda>(product, quantity). quantity \<noteq> 0) qs"

lemma value_midnight_eq:
  "value_midnight available qs equity used =
     (if \<forall>(product, quantity) \<in> set (overnight qs). available product \<noteq> None
      then Some (foldl (\<lambda>e (product, quantity). dadd e (dmul quantity (m_price (the (available product))))) equity (overnight qs),
                 used @ map (\<lambda>(product, quantity). the (available product)) (overnight qs))
      else None)"
  by (induction available qs equity used rule: value_midnight.induct)
    (auto simp: overnight_def split: option.splits)

text \<open>Everything a successful valuation says, over the replayed inventory.\<close>

lemma day_open_valueD:
  assumes "day_open_value s as_of marks = Some (equity, used)"
  shows "distinct (map m_product_id used)"
    and "m_product_id ` set used = {p. inventory_before s (utc_day_start as_of) p \<noteq> 0}"
    and "set used \<subseteq> set (midnight_candidates s as_of marks)"
    and "equity = foldl (\<lambda>e mk. dadd e (dmul (inventory_before s (utc_day_start as_of) (m_product_id mk)) (m_price mk)))
           (dsub (d_cash (s_deployment s)) (cash_since s (utc_day_start as_of))) used"
    and "\<forall>fl \<in> set (s_fills s). f_economics_applied_at fl \<noteq> None \<and> f_filled_at fl \<le> as_of"
proof -
  let ?available = "dict_by m_product_id (midnight_candidates s as_of marks)"
  from assms obtain r where r: "opening_replay_of s as_of = Some r"
    and v: "value_midnight ?available (sort_key fst (or_midnight_quantities r))
      (dsub (d_cash (s_deployment s)) (or_day_cash_change r)) [] = Some (equity, used)"
    by (auto simp: day_open_value_def split: option.splits)
  note D = opening_replayD [OF r]
  let ?qs = "overnight (sort_key fst (or_midnight_quantities r))"
  from v have known: "\<forall>(p, q) \<in> set ?qs. ?available p \<noteq> None"
    and used: "used = map (\<lambda>(p, q). the (?available p)) ?qs"
    and equity: "equity = foldl (\<lambda>e (p, q). dadd e (dmul q (m_price (the (?available p)))))
      (dsub (d_cash (s_deployment s)) (or_day_cash_change r)) ?qs"
    unfolding value_midnight_eq by (simp_all split: if_splits)
  have mark: "m_product_id (the (?available p)) = p" "the (?available p) \<in> set (midnight_candidates s as_of marks)"
    if "(p, q) \<in> set ?qs" for p q
  proof -
    from bspec [OF known that] obtain mk where "?available p = Some mk" by auto
    with dict_by_SomeD [OF this]
    show "m_product_id (the (?available p)) = p" "the (?available p) \<in> set (midnight_candidates s as_of marks)" by auto
  qed
  have q: "q = inventory_before s (utc_day_start as_of) p \<and> q \<noteq> 0" if "(p, q) \<in> set ?qs" for p q
  proof -
    from that have "(p, q) \<in> set (or_midnight_quantities r)" "q \<noteq> 0" by (auto simp: overnight_def)
    moreover have "distinct (map fst (or_midnight_quantities r))" using D by blast
    ultimately have "or_else (map_of (or_midnight_quantities r) p) 0 = q" "q \<noteq> 0" by (simp_all add: map_of_is_SomeI)
    with D [of p] show ?thesis by metis
  qed
  have products: "map m_product_id used = map fst ?qs"
    unfolding used using mark by (auto simp: comp_def intro!: map_cong)
  have "distinct (map fst (or_midnight_quantities r))" using D by blast
  then have "distinct (map fst (sort_key fst (or_midnight_quantities r)))" by (simp add: distinct_map)
  then have "distinct (map fst ?qs)" unfolding overnight_def by (rule distinct_map_filter)
  then show "distinct (map m_product_id used)" unfolding products .
  show "m_product_id ` set used = {p. inventory_before s (utc_day_start as_of) p \<noteq> 0}"
  proof (intro equalityI subsetI)
    fix p assume "p \<in> m_product_id ` set used"
    then have "p \<in> set (map m_product_id used)" by simp
    then show "p \<in> {p. inventory_before s (utc_day_start as_of) p \<noteq> 0}" unfolding products using q by auto
  next
    fix p assume "p \<in> {p. inventory_before s (utc_day_start as_of) p \<noteq> 0}"
    then have "or_else (map_of (or_midnight_quantities r) p) 0 \<noteq> 0" using D [of p] by (metis mem_Collect_eq)
    then obtain x where "map_of (or_midnight_quantities r) p = Some x" "x \<noteq> 0"
      by (cases "map_of (or_midnight_quantities r) p") auto
    then have "(p, x) \<in> set ?qs" by (auto simp: overnight_def dest: map_of_SomeD)
    then have "p \<in> set (map fst ?qs)" by force
    then show "p \<in> m_product_id ` set used" unfolding products [symmetric] by simp
  qed
  show "set used \<subseteq> set (midnight_candidates s as_of marks)" unfolding used using mark by fastforce
  have "foldl (\<lambda>e (p, q). dadd e (dmul q (m_price (the (?available p))))) e qs
      = foldl (\<lambda>e mk. dadd e (dmul (inventory_before s (utc_day_start as_of) (m_product_id mk)) (m_price mk))) e
          (map (\<lambda>(p, q). the (?available p)) qs)" if "set qs \<subseteq> set ?qs" for e qs
    using that
  proof (induction qs arbitrary: e)
    case (Cons pq qs)
    obtain p q' where pq: "pq = (p, q')" by (cases pq)
    with Cons.prems q mark have "q' = inventory_before s (utc_day_start as_of) p" "m_product_id (the (?available p)) = p"
      by fastforce+
    with Cons pq show ?case by simp
  qed simp
  moreover have "or_day_cash_change r = cash_since s (utc_day_start as_of)" using D by blast
  ultimately show "equity = foldl (\<lambda>e mk. dadd e (dmul (inventory_before s (utc_day_start as_of) (m_product_id mk)) (m_price mk)))
       (dsub (d_cash (s_deployment s)) (cash_since s (utc_day_start as_of))) used"
    unfolding equity used by simp
  show "\<forall>fl \<in> set (s_fills s). f_economics_applied_at fl \<noteq> None \<and> f_filled_at fl \<le> as_of" using D by blast
qed

section \<open>Properties\<close>

text \<open>C13: Opening evidence is genuine. Reconstruction never raises: the evidence it builds always passes its
  own validator. When it succeeds, every fill of the book is applied and not in the future; the marks
  are midnight closes of this very day, taken from the stored or supplied candidates, exactly one for
  every product held overnight and none for the others; and the opening equity is current cash less
  what moved since midnight plus that overnight inventory at those marks.\<close>

theorem day_open_evidence_genuine:
  "\<exists>outcome. reconstruct_day_open fingerprint s as_of marks = Inr outcome
     \<and> (\<forall>ev. outcome = Some ev \<longrightarrow>
          e_day_start ev = utc_day_start as_of
        \<and> (\<forall>fl \<in> set (s_fills s). f_economics_applied_at fl \<noteq> None \<and> f_filled_at fl \<le> as_of)
        \<and> distinct (map m_product_id (e_marks ev))
        \<and> m_product_id ` set (e_marks ev) = {p. inventory_before s (e_day_start ev) p \<noteq> 0}
        \<and> set (e_marks ev) \<subseteq> set (midnight_candidates s as_of marks)
        \<and> (\<forall>mk \<in> set (e_marks ev). m_closes_at mk = e_day_start ev)
        \<and> e_equity ev = foldl (\<lambda>e mk. dadd e (dmul (inventory_before s (e_day_start ev) (m_product_id mk)) (m_price mk)))
            (dsub (d_cash (s_deployment s)) (cash_since s (e_day_start ev))) (e_marks ev))"
proof (cases "day_open_value s as_of marks")
  case None
  then show ?thesis by (simp add: reconstruct_day_open_def)
next
  case (Some v)
  obtain equity used where v: "v = (equity, used)" by (cases v)
  note D = day_open_valueD [OF Some [unfolded v]]
  have close: "\<forall>mk \<in> set used. m_closes_at mk = utc_day_start as_of"
    using D(3) by (auto simp: midnight_candidates_def)
  then have "\<not> list_ex (\<lambda>mk. m_closes_at mk \<noteq> utc_day_start as_of) used" by (simp add: list_ex_iff)
  with Some v D(1) have "reconstruct_day_open fingerprint s as_of marks =
      Inr (Some \<lparr>e_source = if s_funding s \<noteq> [] then ''per_product_applied_fills_and_funding_v1''
                           else ''per_product_applied_fills_v1'',
         e_day_start = utc_day_start as_of, e_equity = equity, e_fills_fingerprint = fingerprint s, e_marks = used\<rparr>)"
    by (simp add: reconstruct_day_open_def require_matching_marks_def)
  with D close show ?thesis by simp
qed

text \<open>Half a coin bought yesterday and still held; the midnight close is 110.\<close>

definition ex_overnight :: deployment_snapshot where
  "ex_overnight =
     ex_snapshot\<lparr>s_deployment := ex_deployment\<lparr>d_cash := 199 * 50 - 1 / 20, d_phase := PHASE_OPEN\<rparr>,
       s_position := Some ex_open_position, s_positions := [ex_open_position],
       s_orders := [ex_order\<lparr>o_quantity := 1 / 2, o_status := FILLED, o_filled_quantity := 1 / 2\<rparr>],
       s_fills := [ex_fill\<lparr>f_economics_applied_at := Some 5000000001\<rparr>]\<rparr>"

definition ex_midnight :: midnight_mark where
  "ex_midnight = \<lparr>m_product_id = ''BTC-USD'', m_closes_at = DAY, m_price = 110\<rparr>"

theorem day_open_evidence_genuine_witness:
  "\<exists>ev. reconstruct_day_open (\<lambda>_. ''sha256:0'') ex_overnight (DAY + HOUR) [ex_midnight] = Inr (Some ev)
     \<and> e_marks ev = [ex_midnight] \<and> e_equity ev = 10005 - 1 / 20 \<and> m_closes_at ex_midnight = e_day_start ev"
proof -
  have run: "map_sum id (map_option (\<lambda>ev. (e_marks ev, e_equity ev)))
      (reconstruct_day_open (\<lambda>_. ''sha256:0'') ex_overnight (DAY + HOUR) [ex_midnight])
      = Inr (Some ([ex_midnight], 10005 - 1 / 20))"
    by code_simp
  obtain outcome where r: "reconstruct_day_open (\<lambda>_. ''sha256:0'') ex_overnight (DAY + HOUR) [ex_midnight] = Inr outcome"
    and D: "\<forall>ev. outcome = Some ev \<longrightarrow> (\<forall>mk \<in> set (e_marks ev). m_closes_at mk = e_day_start ev)"
    using day_open_evidence_genuine [of "\<lambda>_. ''sha256:0''" ex_overnight "DAY + HOUR" "[ex_midnight]"] by blast
  from run r obtain ev where "outcome = Some ev" "e_marks ev = [ex_midnight]" "e_equity ev = 10005 - 1 / 20"
    by (cases outcome) auto
  with r D show ?thesis by simp
qed

end
