(* ===== verification/Risk_Breakers.thy ===== *)
theory Risk_Breakers
  imports Risk_Policy Risk_Opening
begin

text \<open>
  Daily-loss, drawdown, order-rate and reference-price checks (\<open>risk/breakers.py\<close>). A missing
  observation of any kind is a denial with \<open>BREAKER_MARK_MISSING\<close>. The ledger of a book may
  raise, so the loss checks return results.
\<close>

section \<open>Quote scopes\<close>

record entry_observation =
  ob_as_of :: datetime
  ob_proposed_price :: "decimal option"
  ob_reference_price :: "decimal option"
  ob_marks :: "string \<rightharpoonup> decimal"

definition FUTURES_SCOPE :: string where
  "FUTURES_SCOPE = ''CFM-USD''"

text \<open>\<open>quote_currency\<close> raises exactly when the id is not a spot pair.\<close>

definition product_quote :: "string \<Rightarrow> string option" where
  "product_quote product_id =
     (if is_futures_product_id product_id then Some FUTURES_SCOPE
      else case spot_quote_currency product_id of Inr quote \<Rightarrow> Some quote | Inl _ \<Rightarrow> None)"

definition snapshot_products :: "deployment_snapshot \<Rightarrow> string list" where
  "snapshot_products s =
     sorted_set (filter (\<lambda>product. product \<noteq> [])
       ([d_product_id (s_deployment s)]
        @ map (\<lambda>pos. resolved_product_id (p_product_id pos) (s_deployment s)) (snapshot_positions s)
        @ map r_product_id (s_instrument_runtimes s)
        @ map (\<lambda>ord. resolved_product_id (o_product_id ord) (s_deployment s)) (s_orders s)))"

definition snapshot_quote :: "deployment_snapshot \<Rightarrow> string option" where
  "snapshot_quote s =
     (let quotes = map product_quote (snapshot_products s)
      in if None \<in> set quotes then None
         else case remdups quotes of [Some quote] \<Rightarrow> Some quote | _ \<Rightarrow> None)"

text \<open>The books of one quote, or a denial when some book's quote cannot be read.\<close>

definition same_quote_books ::
    "deployment_snapshot list \<Rightarrow> string \<Rightarrow> deployment_snapshot list \<times> risk_verdict option" where
  "same_quote_books snapshots quote =
     (if list_ex (\<lambda>item. snapshot_quote item = None) snapshots then ([], Some (deny BREAKER_MARK_MISSING))
      else (filter (\<lambda>item. snapshot_quote item = Some quote) snapshots, None))"

definition quote_scoped_snapshots ::
    "deployment_snapshot list \<Rightarrow> string \<Rightarrow> deployment_snapshot list \<times> risk_verdict option" where
  "quote_scoped_snapshots snapshots product_id =
     (case product_quote product_id of
        None \<Rightarrow> ([], Some (deny BREAKER_MARK_MISSING))
      | Some quote \<Rightarrow> same_quote_books snapshots quote)"

section \<open>Unresolved accounting\<close>

definition accounting_unresolved :: "deployment_snapshot \<Rightarrow> bool" where
  "accounting_unresolved s \<longleftrightarrow>
     \<not> s_accounting_complete s \<or> unsettled_fill_evidence s \<or> unprojected_inventory_products s \<noteq> []
     \<or> missing_occupied_inventory_products s \<noteq> []"

definition unresolved_accounting_verdict ::
    "deployment_mode \<Rightarrow> string \<Rightarrow> deployment_snapshot list \<Rightarrow> risk_verdict option" where
  "unresolved_accounting_verdict mode product_id snapshots =
     (case product_quote product_id of
        None \<Rightarrow> Some (deny BREAKER_MARK_MISSING)
      | Some quote \<Rightarrow>
          (case same_quote_books (daily_loss_snapshots snapshots mode) quote of
             (books, Some incomplete) \<Rightarrow> Some incomplete
           | (books, None) \<Rightarrow> if list_ex accounting_unresolved books then Some (deny BREAKER_MARK_MISSING) else None))"

section \<open>Daily loss\<close>

definition open_inventory_missing_mark :: "deployment_snapshot \<Rightarrow> (string \<rightharpoonup> decimal) \<Rightarrow> bool" where
  "open_inventory_missing_mark s marks \<longleftrightarrow>
     (\<exists>pos \<in> set (snapshot_positions s). marks (resolved_product_id (p_product_id pos) (s_deployment s)) = None)"

definition pnl_from_opening_equity :: "deployment_snapshot \<Rightarrow> decimal \<Rightarrow> decimal option" where
  "pnl_from_opening_equity s equity =
     (case opt_or (d_initial_equity (s_deployment s)) (d_paper_starting_cash (s_deployment s)) of
        None \<Rightarrow> None | Some starting \<Rightarrow> Some (dsub equity starting))"

definition daily_pnl :: "deployment_snapshot \<Rightarrow> (string \<rightharpoonup> decimal) \<Rightarrow> datetime \<Rightarrow> decimal option result" where
  "daily_pnl s marks as_of =
     (if accounting_unresolved s then Inr None
      else rbind (ledger_from_snapshot s (Some marks) None) (\<lambda>ledger.
        if \<not> lg_mark_complete ledger then Inr None
        else case lg_equity ledger of
               None \<Rightarrow> Inr None
             | Some equity \<Rightarrow>
                 if utc_day_start (d_created_at (s_deployment s)) = utc_day_start as_of
                 then Inr (pnl_from_opening_equity s equity)
                 else case day_open_value s as_of [] of
                        None \<Rightarrow> Inr None
                      | Some (opening, _) \<Rightarrow> Inr (Some (dsub equity opening))))"

fun sum_daily_pnl ::
    "entry_observation \<Rightarrow> deployment_snapshot list \<Rightarrow> decimal \<Rightarrow> decimal option result" where
  "sum_daily_pnl observation [] acc = Inr (Some acc)"
| "sum_daily_pnl observation (s # ss) acc =
     (if open_inventory_missing_mark s (ob_marks observation) then Inr None
      else rbind (daily_pnl s (ob_marks observation) (ob_as_of observation)) (\<lambda>pnl.
        case pnl of None \<Rightarrow> Inr None | Some x \<Rightarrow> sum_daily_pnl observation ss (dadd acc x)))"

definition mode_daily_loss :: "deployment_snapshot list \<Rightarrow> entry_observation \<Rightarrow> decimal option result" where
  "mode_daily_loss occupied observation =
     rbind (sum_daily_pnl observation occupied 0) (\<lambda>pnl.
       Inr (map_option (\<lambda>x. if x \<ge> 0 then 0 else dneg x) pnl))"

definition futures_books :: "deployment_snapshot list \<Rightarrow> bool" where
  "futures_books occupied \<longleftrightarrow> list_ex (\<lambda>item. is_futures_product_id (d_product_id (s_deployment item))) occupied"

definition daily_loss_fraction :: "risk_policy_definition \<Rightarrow> deployment_snapshot list \<Rightarrow> decimal" where
  "daily_loss_fraction policy occupied =
     (case Option.bind (rp_futures policy) fp_daily_loss_limit_fraction of
        Some fraction \<Rightarrow> if futures_books occupied then fraction else rp_daily_loss_limit_fraction policy
      | None \<Rightarrow> rp_daily_loss_limit_fraction policy)"

definition futures_daily_loss_ceiling :: "risk_policy_definition \<Rightarrow> deployment_snapshot list \<Rightarrow> decimal option" where
  "futures_daily_loss_ceiling policy occupied =
     (case Option.bind (rp_futures policy) fp_max_daily_loss_usd of
        None \<Rightarrow> None
      | Some usd_cap \<Rightarrow> if futures_books occupied then Some usd_cap else None)"

definition daily_loss_limit ::
    "risk_policy_definition \<Rightarrow> deployment_mode \<Rightarrow> deployment_snapshot list \<Rightarrow> decimal \<Rightarrow> decimal" where
  "daily_loss_limit policy mode occupied capital =
     (let limit = dmul capital (daily_loss_fraction policy occupied)
      in case futures_daily_loss_ceiling policy occupied of
           Some usd_cap \<Rightarrow> min limit usd_cap
         | None \<Rightarrow>
             (case rp_max_daily_loss_quote policy of
                Some absolute \<Rightarrow> if mode = LIVE \<and> \<not> futures_books occupied then min limit absolute else limit
              | None \<Rightarrow> limit))"

definition daily_loss_verdict ::
    "risk_policy_definition \<Rightarrow> deployment_mode \<Rightarrow> deployment_snapshot list \<Rightarrow> entry_observation \<Rightarrow> decimal
     \<Rightarrow> risk_verdict option result" where
  "daily_loss_verdict policy mode occupied observation capital =
     rbind (mode_daily_loss occupied observation) (\<lambda>loss.
       case loss of
         None \<Rightarrow> Inr (Some (deny BREAKER_MARK_MISSING))
       | Some amount \<Rightarrow>
           if capital \<le> 0 then Inr (Some (deny BREAKER_MARK_MISSING))
           else if amount < daily_loss_limit policy mode occupied capital then Inr None
           else Inr (Some (deny DAILY_LOSS_LIMIT)))"

definition daily_latch_verdict :: "deployment_snapshot list \<Rightarrow> risk_verdict option" where
  "daily_latch_verdict books =
     (if list_ex (\<lambda>item. d_daily_loss_latched (s_deployment item)) books then Some (deny DAILY_LOSS_LIMIT) else None)"

section \<open>Drawdown\<close>

definition matches_drawdown_scope :: "uuid option \<Rightarrow> string \<Rightarrow> deployment_snapshot \<Rightarrow> bool" where
  "matches_drawdown_scope strategy_id product_id s \<longleftrightarrow>
     (let d = s_deployment s
      in if strategy_id \<noteq> None then d_strategy_id d = strategy_id
         else if d_kind d \<noteq> DISCRETIONARY then False
         else if d_product_id d = product_id then True
         else \<exists>pos \<in> set (snapshot_positions s). resolved_product_id (p_product_id pos) d = product_id)"

definition drawdown_books ::
    "deployment_snapshot list \<Rightarrow> deployment_mode \<Rightarrow> string \<Rightarrow> uuid option \<Rightarrow> string
     \<Rightarrow> deployment_snapshot list \<times> risk_verdict option" where
  "drawdown_books snapshots mode quote strategy_id product_id =
     same_quote_books (filter (matches_drawdown_scope strategy_id product_id) (daily_loss_snapshots snapshots mode)) quote"

definition drawdown_latch_verdict ::
    "deployment_snapshot list \<Rightarrow> deployment_mode \<Rightarrow> string \<Rightarrow> uuid option \<Rightarrow> string \<Rightarrow> risk_verdict option" where
  "drawdown_latch_verdict snapshots mode quote strategy_id product_id =
     (case drawdown_books snapshots mode quote strategy_id product_id of
        (books, Some incomplete) \<Rightarrow> Some incomplete
      | (books, None) \<Rightarrow>
          if list_ex (\<lambda>item. d_drawdown_latched (s_deployment item)) books
          then Some (deny STRATEGY_DRAWDOWN_LIMIT) else None)"

definition durable_drawdown_fraction :: "deployment_snapshot \<Rightarrow> decimal \<Rightarrow> decimal option" where
  "durable_drawdown_fraction s equity = current_drawdown (s_deployment s) equity"

definition one_drawdown_verdict ::
    "deployment_snapshot \<Rightarrow> entry_observation \<Rightarrow> decimal \<Rightarrow> risk_verdict option result" where
  "one_drawdown_verdict target observation limit =
     (if open_inventory_missing_mark target (ob_marks observation) then Inr (Some (deny BREAKER_MARK_MISSING))
      else rbind (ledger_from_snapshot target (Some (ob_marks observation)) None) (\<lambda>ledger.
        if \<not> lg_mark_complete ledger then Inr (Some (deny BREAKER_MARK_MISSING))
        else case lg_equity ledger of
               None \<Rightarrow> Inr (Some (deny BREAKER_MARK_MISSING))
             | Some equity \<Rightarrow>
                 (case durable_drawdown_fraction target equity of
                    None \<Rightarrow> Inr (Some (deny BREAKER_MARK_MISSING))
                  | Some fraction \<Rightarrow> if fraction < limit then Inr None else Inr (Some (deny STRATEGY_DRAWDOWN_LIMIT)))))"

fun first_drawdown_verdict ::
    "entry_observation \<Rightarrow> decimal \<Rightarrow> deployment_snapshot list \<Rightarrow> risk_verdict option result" where
  "first_drawdown_verdict observation limit [] = Inr None"
| "first_drawdown_verdict observation limit (s # ss) =
     rbind (one_drawdown_verdict s observation limit) (\<lambda>verdict.
       if verdict \<noteq> None then Inr verdict else first_drawdown_verdict observation limit ss)"

definition drawdown_verdict ::
    "risk_policy_definition \<Rightarrow> deployment_snapshot list \<Rightarrow> deployment_mode \<Rightarrow> string \<Rightarrow> uuid option \<Rightarrow> string
     \<Rightarrow> entry_observation \<Rightarrow> risk_verdict option result" where
  "drawdown_verdict policy snapshots mode quote strategy_id product_id observation =
     (case drawdown_books snapshots mode quote strategy_id product_id of
        (books, Some incomplete) \<Rightarrow> Inr (Some incomplete)
      | (books, None) \<Rightarrow> first_drawdown_verdict observation (rp_max_strategy_drawdown_fraction policy) books)"

definition select_loss_verdict :: "risk_verdict option \<Rightarrow> risk_verdict option \<Rightarrow> risk_verdict option" where
  "select_loss_verdict daily trip =
     (case daily of
        None \<Rightarrow> trip
      | Some d \<Rightarrow>
          if rv_reason_code d = BREAKER_MARK_MISSING
             \<and> (case trip of None \<Rightarrow> False | Some x \<Rightarrow> rv_reason_code x = STRATEGY_DRAWDOWN_LIMIT)
          then trip else daily)"

definition evaluate_circuit_breakers ::
    "risk_policy_definition \<Rightarrow> deployment_mode \<Rightarrow> string \<Rightarrow> uuid option \<Rightarrow> deployment_snapshot list
     \<Rightarrow> entry_observation \<Rightarrow> decimal \<Rightarrow> risk_verdict option result" where
  "evaluate_circuit_breakers policy mode product_id strategy_id snapshots observation capital =
     (case product_quote product_id of
        None \<Rightarrow> Inr (Some (deny BREAKER_MARK_MISSING))
      | Some quote \<Rightarrow>
          (case same_quote_books (daily_loss_snapshots snapshots mode) quote of
             (daily_books, Some incomplete) \<Rightarrow> Inr (Some incomplete)
           | (daily_books, None) \<Rightarrow>
               (case daily_latch_verdict daily_books of
                  Some latched \<Rightarrow> Inr (Some latched)
                | None \<Rightarrow>
                    (case drawdown_latch_verdict snapshots mode quote strategy_id product_id of
                       Some latched \<Rightarrow> Inr (Some latched)
                     | None \<Rightarrow>
                         rbind (daily_loss_verdict policy mode daily_books observation capital) (\<lambda>daily.
                         rbind (drawdown_verdict policy snapshots mode quote strategy_id product_id observation)
                           (\<lambda>trip. Inr (select_loss_verdict daily trip)))))))"

section \<open>Order rates and the price collar\<close>

definition RATE_WINDOW :: timedelta where
  "RATE_WINDOW = 60 * SECOND"

definition occupied_mode :: "deployment_snapshot list \<Rightarrow> deployment_mode \<Rightarrow> deployment_snapshot list" where
  "occupied_mode snapshots mode =
     filter (\<lambda>item. if d_mode (s_deployment item) \<noteq> mode then False
       else if d_status (s_deployment item) \<in> OCCUPIED then True
       else d_status (s_deployment item) = STOPPED \<and> snapshot_has_residual_exposure item) snapshots"

definition is_entry_purpose :: "deployment_snapshot \<Rightarrow> uuid \<Rightarrow> bool" where
  "is_entry_purpose s intent_id \<longleftrightarrow>
     (if s_intents s \<noteq> [] then \<exists>intent \<in> set (s_intents s). i_id intent = intent_id \<and> i_purpose intent = ENTRY
      else True)"

definition venue_orders :: "deployment_snapshot \<Rightarrow> order list" where
  "venue_orders s = filter (\<lambda>ord. o_kind ord \<noteq> KIND_ADOPTION) (s_orders s)"

definition created_since :: "datetime \<Rightarrow> order \<Rightarrow> bool" where
  "created_since since ord \<longleftrightarrow> o_created_at ord \<ge> since"

definition canceled_since :: "datetime \<Rightarrow> order \<Rightarrow> bool" where
  "canceled_since since ord \<longleftrightarrow> (case o_canceled_at ord of None \<Rightarrow> False | Some t \<Rightarrow> t \<ge> since)"

definition count_orders :: "(deployment_snapshot \<Rightarrow> order \<Rightarrow> bool) \<Rightarrow> deployment_snapshot list \<Rightarrow> int" where
  "count_orders p occupied = int (sum_list (map (\<lambda>s. length (filter (p s) (venue_orders s))) occupied))"

definition rate_verdict ::
    "risk_policy_definition \<Rightarrow> deployment_snapshot list \<Rightarrow> datetime \<Rightarrow> risk_verdict option" where
  "rate_verdict policy occupied as_of =
     (let since = as_of - RATE_WINDOW;
          entry_orders = count_orders (\<lambda>s ord. created_since since ord \<and> is_entry_purpose s (o_intent_id ord)) occupied;
          cancels = count_orders (\<lambda>_. canceled_since since) occupied;
          venue_actions = count_orders (\<lambda>_. created_since since) occupied + cancels
      in if entry_orders \<ge> rp_max_entry_orders_per_minute policy then Some (deny ORDER_RATE_LIMIT)
         else if cancels \<ge> rp_max_cancellations_per_minute policy then Some (deny CANCEL_RATE_LIMIT)
         else case rp_max_venue_order_actions_per_minute policy of
                None \<Rightarrow> None
              | Some budget \<Rightarrow> if venue_actions \<ge> budget then Some (deny VENUE_REQUEST_BUDGET_EXCEEDED) else None)"

definition collar_verdict :: "risk_policy_definition \<Rightarrow> entry_observation \<Rightarrow> risk_verdict option" where
  "collar_verdict policy observation =
     (case ob_reference_price observation of
        None \<Rightarrow> Some (deny REFERENCE_PRICE_UNAVAILABLE)
      | Some reference \<Rightarrow>
          if reference \<le> 0 then Some (deny REFERENCE_PRICE_UNAVAILABLE)
          else case ob_proposed_price observation of
                 None \<Rightarrow> None
               | Some proposed \<Rightarrow>
                   if proposed \<le> 0 then Some (deny REFERENCE_PRICE_COLLAR)
                   else if ddiv (dabs (dsub proposed reference)) reference \<le> rp_reference_price_collar_fraction policy
                   then None else Some (deny REFERENCE_PRICE_COLLAR))"

definition evaluate_rate_and_collar ::
    "risk_policy_definition \<Rightarrow> deployment_mode \<Rightarrow> deployment_snapshot list \<Rightarrow> entry_observation \<Rightarrow> risk_verdict option" where
  "evaluate_rate_and_collar policy mode snapshots observation =
     (case rate_verdict policy (occupied_mode snapshots mode) (ob_as_of observation) of
        Some rate \<Rightarrow> Some rate
      | None \<Rightarrow> collar_verdict policy observation)"

end
