(* ===== verification/Risk_Entry.thy ===== *)
theory Risk_Entry
  imports Risk_Breakers
begin

text \<open>
  The sizing checks of the entry gate: membership, slots, capital base and exposure caps
  (\<open>risk/entry_limits.py\<close>), optional per-order bounds (\<open>risk/order_bounds.py\<close>), the
  fleet clustering cap (\<open>risk/entry_clustering.py\<close>) and the shared-collateral gate beside
  manual futures (\<open>risk/futures_collateral.py\<close>).
\<close>

section \<open>Membership and slots\<close>

definition allowlist_verdict :: "risk_policy_definition \<Rightarrow> string \<Rightarrow> risk_verdict" where
  "allowlist_verdict policy product_id =
     (if is_futures_product_id product_id then
        let listed = (case rp_futures policy of None \<Rightarrow> [] | Some futures \<Rightarrow> fp_product_allowlist futures)
        in if listed = [] \<or> product_id \<in> set listed then allow else deny PRODUCT_NOT_ALLOWLISTED
      else if rp_product_allowlist policy = [] \<or> product_id \<in> set (rp_product_allowlist policy) then allow
      else deny PRODUCT_NOT_ALLOWLISTED)"

definition allocation_membership ::
    "risk_policy_definition \<Rightarrow> uuid option \<Rightarrow> deployment_mode \<Rightarrow> bool \<Rightarrow> bool \<Rightarrow> string option \<Rightarrow> risk_verdict" where
  "allocation_membership policy strategy_id mode portfolio_member futures desk_id =
     (if mode \<noteq> LIVE \<or> futures then allow
      else case strategy_id of
        None \<Rightarrow>
          if rp_allocations policy = [] \<and> rp_desk_allocations policy = [] then allow
          else if desk_id \<noteq> None \<and> (\<exists>item \<in> set (rp_desk_allocations policy). Some (da_desk_id item) = desk_id) then allow
          else deny DISCRETIONARY_NOT_ALLOCATED
      | Some strategy \<Rightarrow>
          if rp_allocations policy = [] then allow
          else if portfolio_member then allow
          else if \<exists>item \<in> set (rp_allocations policy). ca_strategy_id item = strategy then allow
          else deny STRATEGY_NOT_ALLOCATED)"

definition open_position_slot_count :: "deployment_snapshot \<Rightarrow> int" where
  "open_position_slot_count s =
     (let held = map (\<lambda>pos. resolved_product_id (p_product_id pos) (s_deployment s)) (snapshot_positions s);
          running = (if s_instrument_runtimes s \<noteq> []
            then map r_product_id (filter (\<lambda>r. r_phase r \<in> IN_MARKET) (s_instrument_runtimes s))
            else if s_position s \<noteq> None \<or> d_phase (s_deployment s) \<in> IN_MARKET then [d_product_id (s_deployment s)]
            else [])
      in int (length (remdups (held @ running))))"

definition entry_membership ::
    "risk_policy_definition \<Rightarrow> deployment_mode \<Rightarrow> proposed_entry \<Rightarrow> deployment_snapshot list \<Rightarrow> bool \<Rightarrow> risk_verdict" where
  "entry_membership policy mode proposed occupied portfolio_member =
     (let allowlisted = allowlist_verdict policy (pr_product_id proposed);
          allocated = allocation_membership policy (pr_strategy_id proposed) mode portfolio_member
            (is_futures_product_id (pr_product_id proposed)) (pr_desk_id proposed)
      in if rv_decision allowlisted = DENY then allowlisted
         else if rv_decision allocated = DENY then allocated
         else if pr_is_pyramid_add proposed \<and> \<not> rp_allow_intra_strategy_pyramiding policy then deny PYRAMIDING_NOT_ALLOWED
         else if \<not> pr_is_pyramid_add proposed
                 \<and> sum_list (map open_position_slot_count occupied) \<ge> rp_max_concurrent_open_positions policy
         then deny MAX_OPEN_POSITIONS
         else allow)"

section \<open>Capital base and exposure\<close>

definition buy_orders_only :: "deployment_snapshot \<Rightarrow> deployment_snapshot" where
  "buy_orders_only s = s\<lparr>s_orders := filter (\<lambda>ord. o_side ord = BUY) (s_orders s)\<rparr>"

definition working_buys :: "deployment_snapshot \<Rightarrow> decimal" where
  "working_buys s = dsum (map (working_entry_notional s) (book_products s))"

definition held_quote_capital :: "deployment_snapshot \<Rightarrow> decimal" where
  "held_quote_capital s =
     dadd (dsum (map (\<lambda>pos. dmul (p_quantity pos) (p_entry_price pos))
             (filter (\<lambda>pos. p_side pos = LONG) (snapshot_positions s))))
       (working_buys (buy_orders_only s))"

definition capital_base ::
    "risk_policy_definition \<Rightarrow> deployment_mode \<Rightarrow> decimal option \<Rightarrow> deployment_snapshot list \<Rightarrow> decimal \<Rightarrow> decimal" where
  "capital_base policy mode live_quote_cash occupied in_kind_notional =
     (if mode = PAPER then rp_paper_capital_quote policy
      else case live_quote_cash of
             None \<Rightarrow> 0
           | Some cash \<Rightarrow>
               if cash < 0 then 0
               else dadd (dadd cash (dsum (map held_quote_capital occupied))) in_kind_notional)"

definition allocation_for :: "risk_policy_definition \<Rightarrow> uuid option \<Rightarrow> decimal option" where
  "allocation_for policy strategy_id =
     (case strategy_id of
        None \<Rightarrow> None
      | Some strategy \<Rightarrow>
          map_option ca_allocated_quote (List.find (\<lambda>item. ca_strategy_id item = strategy) (rp_allocations policy)))"

definition desk_reservation_verdict ::
    "risk_policy_definition \<Rightarrow> proposed_entry \<Rightarrow> deployment_mode \<Rightarrow> risk_verdict option result" where
  "desk_reservation_verdict policy proposed mode =
     (case pr_desk_id proposed of
        None \<Rightarrow> Inr None
      | Some desk \<Rightarrow>
          if mode \<noteq> LIVE then Inr None
          else case List.find (\<lambda>item. da_desk_id item = desk) (rp_desk_allocations policy) of
                 None \<Rightarrow> Inr None
               | Some item \<Rightarrow>
                   rbind (spot_quote_currency (pr_product_id proposed)) (\<lambda>quote.
                     if quote \<noteq> rp_quote_currency policy then Inr (Some (deny ALLOCATION_EXCEEDED))
                     else if dadd (pr_desk_committed proposed) (pr_notional proposed) > da_allocated_quote item
                     then Inr (Some (deny ALLOCATION_EXCEEDED))
                     else Inr None))"

definition portfolio_cap :: "risk_policy_definition \<Rightarrow> deployment_mode \<Rightarrow> decimal \<Rightarrow> decimal" where
  "portfolio_cap policy mode capital =
     (let cap = dmul capital (rp_max_portfolio_exposure_fraction policy)
      in case rp_max_portfolio_exposure_quote policy of
           Some absolute \<Rightarrow> if mode = LIVE then min cap absolute else cap
         | None \<Rightarrow> cap)"

definition exposure_verdict ::
    "risk_policy_definition \<Rightarrow> deployment_mode \<Rightarrow> proposed_entry \<Rightarrow> deployment_snapshot list \<Rightarrow> decimal option
     \<Rightarrow> risk_verdict result" where
  "exposure_verdict policy mode proposed occupied live_quote_cash =
     (let existing_total = dsum (map marked_exposure occupied);
          existing_product = dsum (map (\<lambda>item. product_exposure item (pr_product_id proposed)) occupied);
          capital = capital_base policy mode live_quote_cash occupied (in_kind_capital proposed)
      in if capital \<le> 0 then Inr (deny PORTFOLIO_EXPOSURE_EXCEEDED)
         else if dadd existing_total (pr_notional proposed) > portfolio_cap policy mode capital
         then Inr (deny PORTFOLIO_EXPOSURE_EXCEEDED)
         else if dadd existing_product (pr_notional proposed) > dmul capital (rp_per_product_max_exposure_fraction policy)
         then Inr (deny PRODUCT_EXPOSURE_EXCEEDED)
         else rbind (desk_reservation_verdict policy proposed mode) (\<lambda>desk_verdict.
           case desk_verdict of
             Some verdict \<Rightarrow> Inr verdict
           | None \<Rightarrow>
               (case allocation_for policy (pr_strategy_id proposed) of
                  None \<Rightarrow> Inr allow
                | Some reserved \<Rightarrow>
                    let strategy_exposure = dsum (map marked_exposure
                          (filter (\<lambda>item. d_strategy_id (s_deployment item) = pr_strategy_id proposed) occupied))
                    in if dadd strategy_exposure (pr_notional proposed) > reserved then Inr (deny ALLOCATION_EXCEEDED)
                       else Inr allow)))"

section \<open>Per-order bounds\<close>

definition quantity_bound :: "risk_policy_definition \<Rightarrow> proposed_entry \<Rightarrow> risk_verdict option" where
  "quantity_bound policy proposed =
     (case rp_max_order_quantity policy of
        None \<Rightarrow> None
      | Some cap \<Rightarrow>
          (case pr_quantity proposed of
             None \<Rightarrow> Some (deny MAX_ORDER_QUANTITY)
           | Some quantity \<Rightarrow> if quantity > cap then Some (deny MAX_ORDER_QUANTITY) else None))"

definition notional_bound :: "risk_policy_definition \<Rightarrow> proposed_entry \<Rightarrow> risk_verdict option" where
  "notional_bound policy proposed =
     (case rp_max_order_notional_quote policy of
        None \<Rightarrow> None
      | Some cap \<Rightarrow> if pr_notional proposed \<le> cap then None else Some (deny MAX_ORDER_NOTIONAL))"

text \<open>Buy remainders the venue holds nothing for; an ambiguous submission makes the hold unknown.\<close>

fun local_unheld_buy_quote :: "deployment_snapshot list \<Rightarrow> decimal \<Rightarrow> decimal option" where
  "local_unheld_buy_quote [] reserved = Some reserved"
| "local_unheld_buy_quote (item # items) reserved =
     (let buys = buy_orders_only item
      in if list_ex (\<lambda>ord. o_status ord \<in> {PENDING, UNKNOWN}) (s_orders buys) then None
         else let unheld = buys\<lparr>s_orders := filter (\<lambda>ord. o_venue_order_id ord = None) (s_orders buys)\<rparr>
              in local_unheld_buy_quote items (dadd reserved (working_buys unheld)))"

text \<open>The paper loop: change of cash since each book opened, pending buys and the highest taker fee.\<close>

fun paper_headroom ::
    "deployment_snapshot list \<Rightarrow> decimal \<Rightarrow> decimal \<Rightarrow> decimal \<Rightarrow> (decimal \<times> decimal \<times> decimal) option" where
  "paper_headroom [] cash_change pending fee_rate = Some (cash_change, pending, fee_rate)"
| "paper_headroom (item # items) cash_change pending fee_rate =
     (case opt_or (d_initial_equity (s_deployment item)) (d_paper_starting_cash (s_deployment item)) of
        None \<Rightarrow> None
      | Some opening \<Rightarrow>
          paper_headroom items (dadd cash_change (dsub (d_cash (s_deployment item)) opening))
            (dadd pending (working_buys (buy_orders_only item)))
            (max fee_rate (snd (effective_paper_fee_rates (d_paper_maker_fee_rate (s_deployment item))
               (d_paper_taker_fee_rate (s_deployment item))))))"

definition available_after_entry ::
    "risk_policy_definition \<Rightarrow> deployment_mode \<Rightarrow> proposed_entry \<Rightarrow> deployment_snapshot list \<Rightarrow> decimal option
     \<Rightarrow> decimal option" where
  "available_after_entry policy mode proposed occupied live_quote_cash =
     (if mode = LIVE then
        (case live_quote_cash of
           None \<Rightarrow> None
         | Some cash \<Rightarrow>
             if cash < 0 then None
             else case local_unheld_buy_quote occupied 0 of
                    None \<Rightarrow> None
                  | Some reserved \<Rightarrow> Some (dsub (dsub cash reserved) (pr_notional proposed)))
      else
        (case paper_headroom occupied 0 0 0 of
           None \<Rightarrow> None
         | Some (cash_change, pending, fee) \<Rightarrow>
             let fee_rate = (if occupied = [] then snd (effective_paper_fee_rates None None) else fee)
             in Some (dsub (dsub (dadd (rp_paper_capital_quote policy) cash_change) (dmul pending (dadd 1 fee_rate)))
                       (dmul (pr_notional proposed) (dadd 1 fee_rate)))))"

definition reserve_bound ::
    "risk_policy_definition \<Rightarrow> deployment_mode \<Rightarrow> proposed_entry \<Rightarrow> deployment_snapshot list \<Rightarrow> decimal option
     \<Rightarrow> risk_verdict option" where
  "reserve_bound policy mode proposed occupied live_quote_cash =
     (case rp_min_available_quote_reserve policy of
        None \<Rightarrow> None
      | Some required \<Rightarrow>
          (case available_after_entry policy mode proposed occupied live_quote_cash of
             None \<Rightarrow> Some (deny BALANCE_RESERVE)
           | Some available \<Rightarrow> if available < required then Some (deny BALANCE_RESERVE) else None))"

definition order_bound_verdict ::
    "risk_policy_definition \<Rightarrow> deployment_mode \<Rightarrow> proposed_entry \<Rightarrow> deployment_snapshot list \<Rightarrow> decimal option
     \<Rightarrow> risk_verdict option result" where
  "order_bound_verdict policy mode proposed occupied live_quote_cash =
     (case quantity_bound policy proposed of
        Some verdict \<Rightarrow> Inr (Some verdict)
      | None \<Rightarrow>
          let monetary_bound = (rp_max_order_notional_quote policy \<noteq> None \<or> rp_min_available_quote_reserve policy \<noteq> None)
          in rbind (if monetary_bound then rbind (spot_quote_currency (pr_product_id proposed)) (\<lambda>quote.
                      Inr (quote \<noteq> rp_quote_currency policy)) else Inr False) (\<lambda>foreign.
               if foreign then Inr (Some (deny BREAKER_MARK_MISSING))
               else case notional_bound policy proposed of
                      Some verdict \<Rightarrow> Inr (Some verdict)
                    | None \<Rightarrow> Inr (reserve_bound policy mode proposed occupied live_quote_cash)))"

section \<open>Fleet clustering\<close>

text \<open>\<open>latest[key] = created_at\<close> when it is newer than what the dictionary holds.\<close>

fun keep_latest :: "'k \<Rightarrow> datetime \<Rightarrow> ('k \<times> datetime) list \<Rightarrow> ('k \<times> datetime) list" where
  "keep_latest k t [] = [(k, t)]"
| "keep_latest k t ((k', t') # d) = (if k' = k then (k', if t > t' then t else t') # d else (k', t') # keep_latest k t d)"

definition latest_entry_per_book_product ::
    "deployment_snapshot list \<Rightarrow> deployment_mode \<Rightarrow> datetime \<Rightarrow> ((uuid \<times> string) \<times> datetime) list" where
  "latest_entry_per_book_product snapshots mode since =
     foldl (\<lambda>latest s. foldl (\<lambda>latest intent.
          keep_latest (d_id (s_deployment s), resolved_product_id (i_product_id intent) (s_deployment s))
            (i_created_at intent) latest)
        latest (filter (\<lambda>intent. i_purpose intent = ENTRY \<and> \<not> i_created_at intent < since) (s_intents s)))
       [] (filter (\<lambda>s. d_mode (s_deployment s) = mode) snapshots)"

definition cluster_verdict ::
    "risk_policy_definition \<Rightarrow> deployment_mode \<Rightarrow> proposed_entry \<Rightarrow> deployment_snapshot list \<Rightarrow> entry_observation option
     \<Rightarrow> risk_verdict option" where
  "cluster_verdict policy mode proposed snapshots observation =
     (case (rp_max_fleet_entries_per_window policy, rp_fleet_entry_window_minutes policy) of
        (Some limit, Some minutes) \<Rightarrow>
          if in_kind proposed \<or> pr_readmits_working_entry proposed then None
          else (case observation of
                  None \<Rightarrow> Some (deny FLEET_ENTRY_CLUSTER_LIMIT)
                | Some ob \<Rightarrow>
                    if int (length (latest_entry_per_book_product snapshots mode (ob_as_of ob - minutes * MINUTE))) < limit
                    then None else Some (deny FLEET_ENTRY_CLUSTER_LIMIT))
      | _ \<Rightarrow> None)"

section \<open>Shared futures collateral\<close>

datatype futures_enablement = FUTURES_ENABLED | FUTURES_NOT_ENABLED | FUTURES_ENABLEMENT_UNKNOWN

record futures_balance_summary =
  fb_initial_margin :: "decimal option"
  fb_total_open_orders_hold_amount :: "decimal option"

text \<open>The part of a mirror observation the classification reads; positions are their product ids.\<close>

record futures_account_observation =
  fa_observed_at :: datetime
  fa_enablement :: futures_enablement
  fa_balance :: "futures_balance_summary option"
  fa_positions :: "string list option"

datatype futures_collateral_state = ABSENT | IDLE | IN_USE | COLLATERAL_UNKNOWN

record futures_collateral_evidence =
  fc_state :: futures_collateral_state
  fc_observed_at :: "datetime option"
  fc_initial_margin_usd :: "decimal option"
  fc_open_orders_hold_usd :: "decimal option"
  fc_position_count :: "int option"

definition MIRROR_STALE_AFTER :: timedelta where
  "MIRROR_STALE_AFTER = 180 * SECOND"

definition collateral_evidence ::
    "futures_collateral_state \<Rightarrow> futures_account_observation option \<Rightarrow> futures_collateral_evidence" where
  "collateral_evidence state latest =
     (let balance = Option.bind latest fa_balance
      in \<lparr>fc_state = state, fc_observed_at = map_option fa_observed_at latest,
          fc_initial_margin_usd = Option.bind balance fb_initial_margin,
          fc_open_orders_hold_usd = Option.bind balance fb_total_open_orders_hold_amount,
          fc_position_count = map_option (\<lambda>ps. int (length ps)) (Option.bind latest fa_positions)\<rparr>)"

definition amount_positive :: "decimal option \<Rightarrow> bool" where
  "amount_positive amount \<longleftrightarrow> (case amount of None \<Rightarrow> False | Some x \<Rightarrow> x > 0)"

definition classify_futures_collateral ::
    "futures_account_observation option \<Rightarrow> datetime \<Rightarrow> datetime option \<Rightarrow> futures_collateral_evidence" where
  "classify_futures_collateral observation as_of read_at =
     (case observation of
        None \<Rightarrow> collateral_evidence ABSENT None
      | Some latest \<Rightarrow>
          if fa_enablement latest = FUTURES_NOT_ENABLED then collateral_evidence ABSENT (Some latest)
          else case (fa_balance latest, fa_positions latest) of
            (Some balance, Some positions) \<Rightarrow>
              if fa_enablement latest = FUTURES_ENABLEMENT_UNKNOWN
                 \<or> as_of - fa_observed_at latest > MIRROR_STALE_AFTER
                 \<or> fa_observed_at latest > or_else read_at as_of
              then collateral_evidence COLLATERAL_UNKNOWN (Some latest)
              else if positions \<noteq> [] \<or> amount_positive (fb_initial_margin balance)
                      \<or> amount_positive (fb_total_open_orders_hold_amount balance)
              then collateral_evidence IN_USE (Some latest)
              else if fb_initial_margin balance = None \<or> fb_total_open_orders_hold_amount balance = None
              then collateral_evidence COLLATERAL_UNKNOWN (Some latest)
              else collateral_evidence IDLE (Some latest)
          | _ \<Rightarrow> collateral_evidence COLLATERAL_UNKNOWN (Some latest))"

definition COLLATERAL_LINKED_QUOTES :: "string list" where
  "COLLATERAL_LINKED_QUOTES = [''USD'', ''USDC'']"

definition reserve_verdict ::
    "decimal \<Rightarrow> decimal \<Rightarrow> futures_collateral_evidence \<Rightarrow> decimal option \<Rightarrow> risk_verdict option \<times> decimal option" where
  "reserve_verdict reserve haircut evidence live_quote_cash =
     (case fc_initial_margin_usd evidence of
        None \<Rightarrow> (Some (deny FUTURES_COLLATERAL_UNKNOWN), live_quote_cash)
      | Some margin \<Rightarrow>
          if reserve < dmul margin haircut then (Some (deny FUTURES_COLLATERAL_RESERVE_SHORT), live_quote_cash)
          else case live_quote_cash of
                 None \<Rightarrow> (None, None)
               | Some cash \<Rightarrow>
                   let remaining = dsub cash reserve
                   in if remaining < 0 then (Some (deny FUTURES_COLLATERAL_RESERVE_SHORT), live_quote_cash)
                      else (None, Some remaining))"

definition collateral_linked :: "string \<Rightarrow> bool" where
  "collateral_linked product_id \<longleftrightarrow>
     (case spot_quote_currency product_id of Inl _ \<Rightarrow> False | Inr quote \<Rightarrow> quote \<in> set COLLATERAL_LINKED_QUOTES)"

definition collateral_verdict ::
    "risk_policy_definition \<Rightarrow> deployment_mode \<Rightarrow> proposed_entry \<Rightarrow> futures_collateral_evidence option
     \<Rightarrow> decimal option \<Rightarrow> risk_verdict option \<times> decimal option" where
  "collateral_verdict policy mode proposed evidence live_quote_cash =
     (case evidence of
        None \<Rightarrow> (None, live_quote_cash)
      | Some ev \<Rightarrow>
          if mode \<noteq> LIVE \<or> in_kind proposed \<or> \<not> collateral_linked (pr_product_id proposed) then (None, live_quote_cash)
          else if fc_state ev = COLLATERAL_UNKNOWN then (Some (deny FUTURES_COLLATERAL_UNKNOWN), live_quote_cash)
          else if fc_state ev \<noteq> IN_USE then (None, live_quote_cash)
          else case rp_futures policy of
                 None \<Rightarrow> (Some (deny FUTURES_COLLATERAL_IN_USE), live_quote_cash)
               | Some futures \<Rightarrow>
                   (case fp_live_spot_collateral_reserve_quote futures of
                      None \<Rightarrow> (Some (deny FUTURES_COLLATERAL_IN_USE), live_quote_cash)
                    | Some reserve \<Rightarrow> reserve_verdict reserve (fp_peg_haircut futures) ev live_quote_cash))"

end
