(* ===== verification/Risk_Beta.thy ===== *)
theory Risk_Beta
  imports Risk_Entry
begin

text \<open>
  The BTC-beta-weighted exposure cap: loaded beta evidence (\<open>risk/beta.py\<close>), base-unit netting
  against futures (\<open>netting_adjustment\<close> of \<open>risk/futures_beta.py\<close>) and the cap itself
  (\<open>risk/beta_exposure.py\<close>). The estimation of beta from daily candles is binary floating point
  and is not modelled: an estimate is evidence the gate is given.
\<close>

section \<open>Beta evidence\<close>

datatype beta_unavailable_reason = INSUFFICIENT_HISTORY | INVALID_HISTORY | STALE | FETCH_FAILED | NOT_LOADED

datatype beta_result =
    Beta_Estimate (be_beta: decimal) (be_last_close: "datetime option")
  | Beta_Unavailable beta_unavailable_reason

definition BETA_STALE_AFTER :: timedelta where
  "BETA_STALE_AFTER = 48 * HOUR"

definition beta_reference :: "string \<Rightarrow> string result" where
  "beta_reference product_id = rbind (spot_quote_currency product_id) (\<lambda>quote. Inr (''BTC-'' @ quote))"

definition reference_beta :: beta_result where
  "reference_beta = Beta_Estimate 1 None"

definition result_for :: "(string \<rightharpoonup> beta_result) \<Rightarrow> string \<Rightarrow> beta_result result" where
  "result_for results product_id =
     (case results product_id of
        Some loaded \<Rightarrow> Inr loaded
      | None \<Rightarrow> rbind (beta_reference product_id) (\<lambda>reference.
          Inr (if product_id = reference then reference_beta else Beta_Unavailable NOT_LOADED)))"

fun fresh_beta :: "datetime \<Rightarrow> beta_result \<Rightarrow> beta_result" where
  "fresh_beta as_of (Beta_Unavailable reason) = Beta_Unavailable reason"
| "fresh_beta as_of (Beta_Estimate beta None) = Beta_Estimate beta None"
| "fresh_beta as_of (Beta_Estimate beta (Some last_close)) =
     (if as_of - last_close \<le> BETA_STALE_AFTER then Beta_Estimate beta (Some last_close) else Beta_Unavailable STALE)"

section \<open>Base-unit netting\<close>

record futures_legs =
  fl_underlyings :: "uuid \<rightharpoonup> string"
  fl_funding_current :: "uuid list"

definition signed_base :: "deployment_snapshot \<Rightarrow> string \<Rightarrow> decimal" where
  "signed_base book product_id =
     dsum (map (\<lambda>pos. if p_side pos = SHORT then dneg (p_quantity pos) else p_quantity pos)
       (filter (\<lambda>pos. resolved_product_id (p_product_id pos) (s_deployment book) = product_id) (snapshot_positions book)))"

text \<open>The loop over the mode's futures books: totals per underlying and the underlyings with an
  unknown leg; \<open>None\<close> is the early \<open>return {}\<close> on an unbound book.\<close>

fun futures_base_loop ::
    "futures_legs \<Rightarrow> (string \<rightharpoonup> decimal) \<Rightarrow> deployment_snapshot list \<Rightarrow> (string \<times> decimal) list \<Rightarrow> string list
     \<Rightarrow> ((string \<times> decimal) list \<times> string list) option" where
  "futures_base_loop legs marks [] totals unknown = Some (totals, unknown)"
| "futures_base_loop legs marks (book # books) totals unknown =
     (let product_id = d_product_id (s_deployment book)
      in if \<not> is_futures_product_id product_id then futures_base_loop legs marks books totals unknown
         else case fl_underlyings legs (d_id (s_deployment book)) of
                None \<Rightarrow> None
              | Some underlying \<Rightarrow>
                  let signed = signed_base book product_id
                  in if signed = 0 then futures_base_loop legs marks books totals unknown
                     else if d_id (s_deployment book) \<notin> set (fl_funding_current legs) \<or> marks product_id = None
                     then futures_base_loop legs marks books totals (underlying # unknown)
                     else futures_base_loop legs marks books (dict_add underlying signed totals) unknown)"

definition futures_base_by_underlying ::
    "deployment_snapshot list \<Rightarrow> deployment_mode \<Rightarrow> futures_legs \<Rightarrow> (string \<rightharpoonup> decimal) \<Rightarrow> (string \<times> decimal) list" where
  "futures_base_by_underlying snapshots mode legs marks =
     (case futures_base_loop legs marks (risk_bearing_snapshots snapshots mode) [] [] of
        None \<Rightarrow> []
      | Some (totals, unknown) \<Rightarrow> filter (\<lambda>(underlying, _). underlying \<notin> set unknown) totals)"

text \<open>Signed spot base and gross cost of one product, position by position.\<close>

definition spot_positions :: "deployment_snapshot list \<Rightarrow> string \<Rightarrow> position list" where
  "spot_positions occupied spot_product =
     concat (map (\<lambda>book. filter (\<lambda>pos. resolved_product_id (p_product_id pos) (s_deployment book) = spot_product)
       (snapshot_positions book)) occupied)"

definition spot_leg :: "deployment_snapshot list \<Rightarrow> string \<Rightarrow> decimal \<times> decimal" where
  "spot_leg occupied spot_product =
     (dsum (map (\<lambda>pos. if p_side pos = SHORT then dneg (p_quantity pos) else p_quantity pos)
        (spot_positions occupied spot_product)),
      dsum (map (\<lambda>pos. dmul (p_quantity pos) (p_entry_price pos)) (spot_positions occupied spot_product)))"

text \<open>What one underlying's netting adds to the figure: zero, or a reduction.\<close>

definition underlying_adjustment ::
    "string \<Rightarrow> proposed_entry \<Rightarrow> position_side \<Rightarrow> deployment_snapshot list \<Rightarrow> (string \<rightharpoonup> decimal) \<Rightarrow> (string \<rightharpoonup> decimal)
     \<Rightarrow> string \<Rightarrow> decimal \<Rightarrow> decimal option" where
  "underlying_adjustment quote proposed side occupied betas marks underlying futures_base =
     (let spot_product = underlying @ ''-'' @ quote
      in case (betas spot_product, marks spot_product) of
           (Some beta, Some mk) \<Rightarrow>
             if futures_base = 0 \<or> mk \<le> 0 then None
             else
               let (spot_base, gross) = spot_leg occupied spot_product;
                   (spot_base, gross) =
                     (case pr_quantity proposed of
                        Some quantity \<Rightarrow>
                          if pr_product_id proposed = spot_product
                          then (dadd spot_base (if side = SHORT then dneg quantity else quantity),
                                dadd gross (dabs (pr_notional proposed)))
                          else (spot_base, gross)
                      | None \<Rightarrow> (spot_base, gross))
               in if gross = 0 then None
                  else let net = dmul (dabs (dadd spot_base futures_base)) mk
                       in Some (dmul (min (dsub net gross) 0) beta)
         | _ \<Rightarrow> None)"

definition netting_adjustment ::
    "risk_policy_definition \<Rightarrow> deployment_mode \<Rightarrow> proposed_entry \<Rightarrow> deployment_snapshot list \<Rightarrow> deployment_snapshot list
     \<Rightarrow> futures_legs option \<Rightarrow> (string \<rightharpoonup> decimal) \<Rightarrow> (string \<rightharpoonup> decimal) \<Rightarrow> decimal" where
  "netting_adjustment policy mode proposed occupied snapshots legs betas marks =
     (case (rp_futures policy, legs, pr_side proposed) of
        (Some futures, Some fl, Some side) \<Rightarrow>
          if \<not> fp_net_by_underlying futures \<or> mode \<noteq> PAPER then 0
          else foldl (\<lambda>adjustment (underlying, futures_base).
                 case underlying_adjustment (rp_quote_currency policy) proposed side occupied betas marks underlying futures_base of
                   None \<Rightarrow> adjustment | Some x \<Rightarrow> dadd adjustment x)
               0 (futures_base_by_underlying snapshots mode fl marks)
      | _ \<Rightarrow> 0)"

section \<open>The cap\<close>

definition beta_cap_applies :: "risk_policy_definition \<Rightarrow> deployment_mode \<Rightarrow> bool" where
  "beta_cap_applies policy mode \<longleftrightarrow>
     (if rp_max_btc_beta_exposure_fraction policy \<noteq> None then True
      else rp_max_btc_beta_exposure_quote policy \<noteq> None \<and> mode = LIVE)"

definition beta_cap :: "risk_policy_definition \<Rightarrow> deployment_mode \<Rightarrow> decimal \<Rightarrow> decimal" where
  "beta_cap policy mode capital =
     (case (map_option (dmul capital) (rp_max_btc_beta_exposure_fraction policy),
            if mode = LIVE then rp_max_btc_beta_exposure_quote policy else None) of
        (Some fraction, Some absolute) \<Rightarrow> min fraction absolute
      | (Some fraction, None) \<Rightarrow> fraction
      | (None, Some absolute) \<Rightarrow> absolute
      | (None, None) \<Rightarrow> 0)"

definition held_products :: "deployment_snapshot list \<Rightarrow> string list" where
  "held_products books =
     sorted_set (concat (map (\<lambda>book. filter (\<lambda>product. product_exposure book product \<noteq> 0) (book_products book)) books))"

definition beta_products ::
    "deployment_snapshot list \<Rightarrow> deployment_mode \<Rightarrow> string \<Rightarrow> string list" where
  "beta_products snapshots mode product_id =
     (let held = (case quote_scoped_snapshots (risk_bearing_snapshots snapshots mode) product_id of
                    (books, Some _) \<Rightarrow> [] | (books, None) \<Rightarrow> held_products books)
      in product_id # filter (\<lambda>item. item \<noteq> product_id) held)"

text \<open>The betas of the needed products, floored at zero; \<open>Inr None\<close> when one is unavailable.\<close>

fun load_betas ::
    "(string \<rightharpoonup> beta_result) \<Rightarrow> datetime \<Rightarrow> string list \<Rightarrow> (string \<rightharpoonup> decimal) \<Rightarrow> (string \<rightharpoonup> decimal) option result" where
  "load_betas results as_of [] betas = Inr (Some betas)"
| "load_betas results as_of (product_id # products) betas =
     rbind (result_for results product_id) (\<lambda>loaded.
       case fresh_beta as_of loaded of
         Beta_Unavailable _ \<Rightarrow> Inr None
       | Beta_Estimate beta _ \<Rightarrow> load_betas results as_of products (betas(product_id \<mapsto> max beta 0)))"

definition weighted_exposure :: "deployment_snapshot list \<Rightarrow> (string \<rightharpoonup> decimal) \<Rightarrow> decimal" where
  "weighted_exposure occupied betas =
     dsum (concat (map (\<lambda>book. List.map_filter (\<lambda>product_id.
       map_option (dmul (dabs (product_exposure book product_id))) (betas product_id)) (book_products book)) occupied))"

text \<open>\<open>betas[proposed.product_id]\<close> was just loaded, so it is present.\<close>

definition beta_verdict ::
    "risk_policy_definition \<Rightarrow> deployment_mode \<Rightarrow> proposed_entry \<Rightarrow> deployment_snapshot list \<Rightarrow> decimal option
     \<Rightarrow> (string \<rightharpoonup> beta_result) option \<Rightarrow> datetime option \<Rightarrow> deployment_snapshot list \<Rightarrow> futures_legs option
     \<Rightarrow> (string \<rightharpoonup> decimal) \<Rightarrow> risk_verdict option result" where
  "beta_verdict policy mode proposed occupied live_quote_cash beta as_of_opt snapshots legs marks =
     (if \<not> beta_cap_applies policy mode then Inr None
      else case (beta, as_of_opt) of
        (Some results, Some as_of) \<Rightarrow>
          rbind (load_betas results as_of (pr_product_id proposed # held_products occupied) Map.empty) (\<lambda>loaded.
            case loaded of
              None \<Rightarrow> Inr (Some (deny BTC_BETA_UNAVAILABLE))
            | Some betas \<Rightarrow>
                let proposed_beta = or_else (betas (pr_product_id proposed)) 0;
                    weighted = dmul (dabs (pr_notional proposed)) proposed_beta;
                    existing = dadd (weighted_exposure occupied betas)
                      (netting_adjustment policy mode proposed occupied snapshots legs betas marks);
                    capital = capital_base policy mode live_quote_cash occupied (in_kind_capital proposed)
                in if capital > 0 \<and> dadd existing weighted \<le> beta_cap policy mode capital then Inr None
                   else Inr (Some (deny BTC_BETA_EXPOSURE_EXCEEDED)))
      | _ \<Rightarrow> Inr (Some (deny BTC_BETA_UNAVAILABLE)))"

section \<open>Loaded betas\<close>

lemma load_betas_nonneg:
  assumes "load_betas results as_of products betas = Inr (Some betas')" "\<And>k b. betas k = Some b \<Longrightarrow> 0 \<le> b"
  shows "betas' k = Some b \<Longrightarrow> 0 \<le> b"
  using assms
proof (induction products arbitrary: betas)
  case (Cons product_id products)
  from Cons.prems(2) obtain loaded where loaded: "result_for results product_id = Inr loaded" by auto
  then obtain beta where "load_betas results as_of products (betas(product_id \<mapsto> max beta 0)) = Inr (Some betas')"
    using Cons.prems(2) by (cases "fresh_beta as_of loaded") auto
  then show ?case
  proof (rule Cons.IH [OF Cons.prems(1)])
    fix k b assume "(betas(product_id \<mapsto> max beta 0)) k = Some b"
    then show "0 \<le> b" using Cons.prems(3) by (auto split: if_splits)
  qed
qed simp

end
