(* ===== verification/Risk_Futures.thy ===== *)
theory Risk_Futures
  imports Risk_Beta Futures_Book Fill_Ledger
begin

text \<open>
  Futures in the risk gate: the live futures checks (\<open>risk/futures_live.py\<close>), the futures-scope
  beta cap (\<open>risk/futures_beta.py\<close>) and the admission of futures starts and entries
  (\<open>risk/futures_entry.py\<close>). A block with the \<open>Inexact\<close> trap on raises on every rounded
  step, and \<open>except DecimalException\<close> turns that into an unknown value: \<open>exactly\<close> is such a
  block. The bound cycle state is the argument \<open>scope\<close>.
\<close>

section \<open>Exact arithmetic blocks\<close>

definition exactly :: "decimal result \<Rightarrow> decimal option" where
  "exactly r = (case r of Inr x \<Rightarrow> Some x | Inl _ \<Rightarrow> None)"

definition trap_div :: "decimal \<Rightarrow> decimal \<Rightarrow> decimal result" where
  "trap_div a b = rbind (ddiv_checked a b) (\<lambda>_. trap_inexact (a / b))"

fun trap_sum :: "decimal list \<Rightarrow> decimal \<Rightarrow> decimal result" where
  "trap_sum [] acc = Inr acc"
| "trap_sum (x # xs) acc = rbind (trap_inexact (acc + x)) (trap_sum xs)"

text \<open>\<open>_signed_base\<close> evaluated inside such a block: negation and every addition must be exact.\<close>

fun trap_signed :: "position list \<Rightarrow> decimal list result" where
  "trap_signed [] = Inr []"
| "trap_signed (pos # ps) =
     rbind (if p_side pos = SHORT then trap_inexact (- p_quantity pos) else Inr (p_quantity pos)) (\<lambda>q.
       rbind (trap_signed ps) (\<lambda>qs. Inr (q # qs)))"

definition trap_signed_base :: "deployment_snapshot \<Rightarrow> string \<Rightarrow> decimal result" where
  "trap_signed_base book product_id =
     rbind (trap_signed (filter (\<lambda>pos. resolved_product_id (p_product_id pos) (s_deployment book) = product_id)
       (snapshot_positions book))) (\<lambda>qs. trap_sum qs 0)"

definition whole :: "decimal \<Rightarrow> bool" where
  "whole x \<longleftrightarrow> to_integral_value ROUND_HALF_EVEN x = x"

section \<open>Venue evidence\<close>

record maintenance_window =
  mw_starts_at :: datetime
  mw_ends_at :: datetime

record futures_venue_evidence =
  fv_observed_at :: datetime
  fv_buying_power_usd :: "decimal option"
  fv_initial_margin_usd :: "decimal option"
  fv_positions :: "(string \<rightharpoonup> decimal) option"
  fv_external_order_products :: "string list option"
  fv_killswitch_enabled :: "bool option"
  fv_maintenance :: "string \<rightharpoonup> maintenance_window"
  fv_contract_sizes :: "string \<rightharpoonup> decimal"
  fv_killswitch_observed_at :: "datetime option"

definition within_max_age :: "datetime \<Rightarrow> datetime \<Rightarrow> bool" where
  "within_max_age observed as_of \<longleftrightarrow> observed \<le> as_of \<and> as_of - observed \<le> MIRROR_STALE_AFTER"

definition is_fresh :: "futures_venue_evidence \<Rightarrow> datetime \<Rightarrow> bool" where
  "is_fresh venue as_of \<longleftrightarrow> within_max_age (fv_observed_at venue) as_of"

definition is_admissible :: "futures_venue_evidence \<Rightarrow> datetime \<Rightarrow> bool" where
  "is_admissible venue as_of \<longleftrightarrow>
     is_fresh venue as_of
     \<and> (case fv_killswitch_observed_at venue of None \<Rightarrow> True | Some observed \<Rightarrow> within_max_age observed as_of)"

record live_futures_start =
  ls_allocated_capital_usd :: "decimal option"
  ls_contract :: "instrument_contract option"
  ls_venue :: "futures_venue_evidence option"
  ls_as_of :: datetime
  ls_proposed_initial_margin_usd :: "decimal option"

section \<open>The live checks\<close>

text \<open>The first objection of a sequence of checks.\<close>

fun first_objection :: "risk_verdict option list \<Rightarrow> risk_verdict option" where
  "first_objection [] = None"
| "first_objection (check # checks) = (case check of Some verdict \<Rightarrow> Some verdict | None \<Rightarrow> first_objection checks)"

definition live_futures_opt_in_verdict :: "risk_policy_definition \<Rightarrow> string \<Rightarrow> risk_verdict option" where
  "live_futures_opt_in_verdict policy product_id =
     (case rp_futures policy of
        None \<Rightarrow> Some (deny FUTURES_LIVE_DISABLED)
      | Some futures \<Rightarrow>
          if \<not> fp_live_enabled futures then Some (deny FUTURES_LIVE_DISABLED)
          else if fp_live_capital_usd futures = None then Some (deny FUTURES_LIVE_CAPITAL_UNSET)
          else if product_id \<notin> set (fp_product_allowlist futures) then Some (deny PRODUCT_NOT_ALLOWLISTED)
          else None)"

definition occupied_verdict :: "string \<Rightarrow> deployment list \<Rightarrow> uuid option \<Rightarrow> risk_verdict option" where
  "occupied_verdict product_id deployments own =
     (if \<exists>item \<in> set deployments. Some (d_id item) \<noteq> own \<and> d_mode item = LIVE \<and> occupies_running_slot item
           \<and> d_product_id item = product_id
      then Some (deny FUTURES_PRODUCT_OCCUPIED) else None)"

definition positive_amount :: "decimal option \<Rightarrow> bool" where
  "positive_amount amount \<longleftrightarrow> (case amount of None \<Rightarrow> False | Some x \<Rightarrow> dec_is_finite x \<and> \<not> x \<le> 0)"

definition live_futures_books :: "deployment list \<Rightarrow> deployment list" where
  "live_futures_books deployments =
     filter (\<lambda>item. d_mode item = LIVE \<and> occupies_running_slot item \<and> is_futures_product_id (d_product_id item)) deployments"

definition envelope_verdict ::
    "risk_policy_definition \<Rightarrow> deployment list \<Rightarrow> live_futures_start option \<Rightarrow> risk_verdict option" where
  "envelope_verdict policy deployments start =
     (case Option.bind (rp_futures policy) fp_live_capital_usd of
        None \<Rightarrow> None
      | Some capital \<Rightarrow>
          if \<not> positive_amount (Option.bind start ls_allocated_capital_usd) then Some (deny FUTURES_LIVE_CAPITAL_EXCEEDED)
          else
            let allocated = the (Option.bind start ls_allocated_capital_usd);
                books = live_futures_books deployments
            in if \<not> list_all (\<lambda>item. positive_amount (d_allocated_capital item)) books
               then Some (deny FUTURES_LIVE_CAPITAL_EXCEEDED)
               else case exactly (rbind (trap_sum (map (\<lambda>item. or_else (d_allocated_capital item) 0) books) 0)
                       (\<lambda>committed. trap_inexact (committed + allocated))) of
                      None \<Rightarrow> Some (deny FUTURES_LIVE_CAPITAL_EXCEEDED)
                    | Some all_in \<Rightarrow>
                        if \<not> dec_is_finite all_in \<or> all_in > capital then Some (deny FUTURES_LIVE_CAPITAL_EXCEEDED) else None)"

definition contract_kind_verdict :: "instrument_contract option \<Rightarrow> risk_verdict option" where
  "contract_kind_verdict contract =
     (case contract of
        None \<Rightarrow> Some (deny FUTURES_CONTRACT_UNBOUND)
      | Some c \<Rightarrow> if \<not> ic_perpetual c then Some (deny FUTURES_LIVE_DATED_UNSUPPORTED) else None)"

definition binding_product_verdict :: "string \<Rightarrow> instrument_contract option \<Rightarrow> risk_verdict option" where
  "binding_product_verdict product_id contract =
     (case contract of
        None \<Rightarrow> None
      | Some c \<Rightarrow> if ic_product_id c \<noteq> product_id then Some (deny FUTURES_CONTRACT_DRIFT) else None)"

definition evidence_verdict :: "futures_venue_evidence option \<Rightarrow> datetime option \<Rightarrow> risk_verdict option" where
  "evidence_verdict venue as_of =
     (case (venue, as_of) of
        (Some v, Some now) \<Rightarrow> if is_admissible v now then None else Some (deny FUTURES_COLLATERAL_UNKNOWN)
      | _ \<Rightarrow> Some (deny FUTURES_COLLATERAL_UNKNOWN))"

definition external_verdict :: "string \<Rightarrow> futures_venue_evidence \<Rightarrow> decimal \<Rightarrow> risk_verdict option" where
  "external_verdict product_id venue expected_contracts =
     (case (fv_positions venue, fv_external_order_products venue) of
        (Some positions, Some external) \<Rightarrow>
          if or_else (positions product_id) 0 \<noteq> expected_contracts then Some (deny FUTURES_EXTERNAL_POSITION_ON_PRODUCT)
          else if product_id \<in> set external then Some (deny FUTURES_EXTERNAL_POSITION_ON_PRODUCT)
          else None
      | _ \<Rightarrow> Some (deny FUTURES_COLLATERAL_UNKNOWN))"

definition external_entry_verdict ::
    "string \<Rightarrow> deployment_snapshot \<Rightarrow> decimal \<Rightarrow> futures_venue_evidence option \<Rightarrow> risk_verdict option" where
  "external_entry_verdict product_id book contract_size venue =
     (case venue of
        None \<Rightarrow> None
      | Some v \<Rightarrow>
          (case exactly (rbind (trap_signed_base book product_id) (\<lambda>base. trap_div base contract_size)) of
             None \<Rightarrow> Some (deny FUTURES_COLLATERAL_UNKNOWN)
           | Some held \<Rightarrow>
               if \<not> dec_is_finite held \<or> \<not> whole held then Some (deny FUTURES_COLLATERAL_UNKNOWN)
               else external_verdict product_id v held))"

definition drift_verdict :: "string \<Rightarrow> decimal \<Rightarrow> futures_venue_evidence option \<Rightarrow> risk_verdict option" where
  "drift_verdict product_id contract_size venue =
     (case Option.bind venue (\<lambda>v. fv_contract_sizes v product_id) of
        None \<Rightarrow> Some (deny FUTURES_CONTRACT_DRIFT)
      | Some catalog \<Rightarrow> if catalog \<noteq> contract_size then Some (deny FUTURES_CONTRACT_DRIFT) else None)"

definition effective_live_max_order_contracts :: "risk_policy_definition \<Rightarrow> int" where
  "effective_live_max_order_contracts policy = or_else (Option.bind (rp_futures policy) fp_max_order_contracts) 1"

definition contracts_verdict ::
    "risk_policy_definition \<Rightarrow> proposed_entry \<Rightarrow> deployment_snapshot \<Rightarrow> decimal \<Rightarrow> risk_verdict option" where
  "contracts_verdict policy proposed book contract_size =
     (if \<not> positive_amount (pr_quantity proposed) then Some (deny FUTURES_ORDER_CONTRACTS_EXCEEDED)
      else
        let cap = of_int (effective_live_max_order_contracts policy)
        in case rbind (trap_div (the (pr_quantity proposed)) contract_size) (\<lambda>ordered.
               rbind (trap_signed_base book (pr_product_id proposed)) (\<lambda>base.
               rbind (trap_inexact \<bar>base\<bar>) (\<lambda>magnitude.
               rbind (trap_div magnitude contract_size) (\<lambda>held.
               rbind (trap_inexact (held + ordered)) (\<lambda>all_in. Inr (ordered, held, all_in)))))) of
             Inl _ \<Rightarrow> Some (deny FUTURES_ORDER_CONTRACTS_EXCEEDED)
           | Inr (ordered, held, all_in) \<Rightarrow>
               if ordered \<le> 0 \<or> \<not> whole ordered \<or> \<not> whole held \<or> ordered > cap \<or> all_in > cap
               then Some (deny FUTURES_ORDER_CONTRACTS_EXCEEDED) else None)"

definition venue_state_verdict ::
    "string \<Rightarrow> futures_venue_evidence option \<Rightarrow> datetime option \<Rightarrow> risk_verdict option" where
  "venue_state_verdict product_id venue as_of =
     (case (venue, as_of) of
        (Some v, Some now) \<Rightarrow>
          (case fv_killswitch_enabled v of
             None \<Rightarrow> Some (deny FUTURES_COLLATERAL_UNKNOWN)
           | Some True \<Rightarrow> Some (deny FUTURES_VENUE_KILLSWITCH)
           | Some False \<Rightarrow>
               (case fv_maintenance v product_id of
                  None \<Rightarrow> None
                | Some window \<Rightarrow> if now < mw_ends_at window then Some (deny FUTURES_VENUE_MAINTENANCE) else None))
      | _ \<Rightarrow> None)"

definition margin_capacity_verdict ::
    "risk_policy_definition \<Rightarrow> futures_venue_evidence option \<Rightarrow> decimal option \<Rightarrow> risk_verdict option" where
  "margin_capacity_verdict policy venue initial_opt =
     (case venue of
        None \<Rightarrow> None
      | Some v \<Rightarrow>
          if \<not> positive_amount initial_opt then Some (deny FUTURES_COLLATERAL_UNKNOWN)
          else case (fv_buying_power_usd v, fv_initial_margin_usd v) of
            (Some buying_power, Some current) \<Rightarrow>
              let initial = the initial_opt
              in if buying_power < initial then Some (deny FUTURES_BUYING_POWER_SHORT)
                 else if rp_quote_currency policy \<notin> {''USD'', ''USDC''} then Some (deny FUTURES_COLLATERAL_UNKNOWN)
                 else (case rp_futures policy of
                         None \<Rightarrow> Some (deny FUTURES_COLLATERAL_RESERVE_SHORT)
                       | Some futures \<Rightarrow>
                           (case fp_live_spot_collateral_reserve_quote futures of
                              None \<Rightarrow> Some (deny FUTURES_COLLATERAL_RESERVE_SHORT)
                            | Some reserve \<Rightarrow>
                                (case exactly (rbind (trap_inexact (current + initial)) (\<lambda>projected.
                                         trap_inexact (projected * fp_peg_haircut futures))) of
                                   None \<Rightarrow> Some (deny FUTURES_COLLATERAL_RESERVE_SHORT)
                                 | Some required \<Rightarrow>
                                     if \<not> dec_is_finite required \<or> required \<le> 0 then Some (deny FUTURES_COLLATERAL_RESERVE_SHORT)
                                     else if reserve < required then Some (deny FUTURES_COLLATERAL_RESERVE_SHORT)
                                     else None)))
          | _ \<Rightarrow> Some (deny FUTURES_COLLATERAL_UNKNOWN))"

definition standing_checks ::
    "risk_policy_definition \<Rightarrow> proposed_entry \<Rightarrow> deployment_snapshot \<Rightarrow> bound_futures_contract \<Rightarrow> deployment_snapshot list
     \<Rightarrow> futures_venue_evidence option \<Rightarrow> datetime option \<Rightarrow> risk_verdict option list" where
  "standing_checks policy proposed book binding snapshots venue as_of =
     (let contract_size = ic_contract_size (bc_contract binding); product_id = pr_product_id proposed
      in [live_futures_opt_in_verdict policy product_id,
          contract_kind_verdict (Some (bc_contract binding)),
          binding_product_verdict product_id (Some (bc_contract binding)),
          occupied_verdict product_id (map s_deployment snapshots) (Some (d_id (s_deployment book))),
          evidence_verdict venue as_of,
          drift_verdict product_id contract_size venue,
          external_entry_verdict product_id book contract_size venue,
          contracts_verdict policy proposed book contract_size,
          venue_state_verdict product_id venue as_of])"

definition live_futures_entry_verdict ::
    "risk_policy_definition \<Rightarrow> proposed_entry \<Rightarrow> deployment_snapshot \<Rightarrow> futures_book_state \<Rightarrow> deployment_snapshot list
     \<Rightarrow> futures_venue_evidence option \<Rightarrow> datetime option \<Rightarrow> risk_verdict option" where
  "live_futures_entry_verdict policy proposed book state snapshots venue as_of =
     (case (fs_binding state, fs_margin state) of
        (Some binding, Some margin) \<Rightarrow>
          let side = or_else (pr_side proposed) (fs_side state)
          in if \<not> dec_is_finite (pr_notional proposed) \<or> pr_notional proposed \<le> 0 then Some (deny FUTURES_COLLATERAL_UNKNOWN)
             else
               let initial = exactly (trap_inexact (pr_notional proposed * initial_rate margin side))
               in if \<not> positive_amount initial then Some (deny FUTURES_COLLATERAL_UNKNOWN)
                  else first_objection (standing_checks policy proposed book binding snapshots venue as_of
                         @ [margin_capacity_verdict policy venue initial])
      | _ \<Rightarrow> Some (deny FUTURES_CONTRACT_UNBOUND))"

definition start_venue_verdict ::
    "risk_policy_definition \<Rightarrow> string \<Rightarrow> live_futures_start option \<Rightarrow> risk_verdict option" where
  "start_venue_verdict policy product_id start =
     (let venue = Option.bind start ls_venue;
          stale = evidence_verdict venue (map_option ls_as_of start)
      in case (stale, venue, start, Option.bind start ls_contract) of
           (None, Some v, Some st, Some contract) \<Rightarrow>
             first_objection
               [external_verdict product_id v 0,
                venue_state_verdict product_id (Some v) (Some (ls_as_of st)),
                drift_verdict product_id (ic_contract_size contract) (Some v),
                margin_capacity_verdict policy (Some v) (ls_proposed_initial_margin_usd st)]
         | _ \<Rightarrow> stale)"

definition live_futures_deployment_verdict ::
    "risk_policy_definition \<Rightarrow> string list \<Rightarrow> deployment list \<Rightarrow> live_futures_start option \<Rightarrow> risk_verdict option" where
  "live_futures_deployment_verdict policy covered deployments start =
     (case covered of
        [product_id] \<Rightarrow>
          first_objection
            [live_futures_opt_in_verdict policy product_id,
             occupied_verdict product_id deployments None,
             envelope_verdict policy deployments start,
             contract_kind_verdict (Option.bind start ls_contract),
             binding_product_verdict product_id (Option.bind start ls_contract),
             start_venue_verdict policy product_id start]
      | _ \<Rightarrow> Some (deny FUTURES_LIVE_UNSUPPORTED))"

section \<open>The futures-scope beta cap\<close>

text \<open>The weighted terms of the mode's futures books; \<open>None\<close> is a book with no readable binding.\<close>

fun futures_beta_terms :: "futures_legs \<Rightarrow> deployment_snapshot list \<Rightarrow> (string \<times> decimal) list option" where
  "futures_beta_terms legs [] = Some []"
| "futures_beta_terms legs (book # books) =
     (let product_id = d_product_id (s_deployment book);
          exposure = dabs (product_exposure book product_id)
      in if \<not> is_futures_product_id product_id \<or> exposure = 0 then futures_beta_terms legs books
         else case fl_underlyings legs (d_id (s_deployment book)) of
                None \<Rightarrow> None
              | Some underlying \<Rightarrow> map_option (\<lambda>terms. (underlying, exposure) # terms) (futures_beta_terms legs books))"

fun weigh_futures_terms ::
    "(string \<rightharpoonup> beta_result) \<Rightarrow> datetime \<Rightarrow> string \<Rightarrow> (string \<times> decimal) list \<Rightarrow> decimal \<Rightarrow> decimal option result" where
  "weigh_futures_terms beta as_of quote [] weighted = Inr (Some weighted)"
| "weigh_futures_terms beta as_of quote ((underlying, exposure) # terms) weighted =
     rbind (result_for beta (underlying @ ''-'' @ quote)) (\<lambda>loaded.
       case fresh_beta as_of loaded of
         Beta_Unavailable _ \<Rightarrow> Inr None
       | Beta_Estimate b _ \<Rightarrow> weigh_futures_terms beta as_of quote terms (dadd weighted (dmul exposure (max b 0))))"

definition futures_beta_verdict ::
    "risk_policy_definition \<Rightarrow> deployment_mode \<Rightarrow> proposed_entry \<Rightarrow> string \<Rightarrow> deployment_snapshot list \<Rightarrow> futures_legs option
     \<Rightarrow> (string \<rightharpoonup> beta_result) option \<Rightarrow> decimal \<Rightarrow> datetime option \<Rightarrow> risk_verdict option result" where
  "futures_beta_verdict policy mode proposed proposing_underlying snapshots legs beta capital as_of =
     (case Option.bind (rp_futures policy) fp_max_btc_beta_exposure_fraction of
        None \<Rightarrow> Inr None
      | Some fraction \<Rightarrow>
          (case (beta, as_of, legs) of
             (Some results, Some now, Some fl) \<Rightarrow>
               (case futures_beta_terms fl (risk_bearing_snapshots snapshots mode) of
                  None \<Rightarrow> Inr (Some (deny BTC_BETA_UNAVAILABLE))
                | Some terms \<Rightarrow>
                    rbind (weigh_futures_terms results now (rp_quote_currency policy)
                        ((proposing_underlying, dabs (pr_notional proposed)) # terms) 0) (\<lambda>outcome.
                      case outcome of
                        None \<Rightarrow> Inr (Some (deny BTC_BETA_UNAVAILABLE))
                      | Some weighted \<Rightarrow>
                          if capital > 0 \<and> weighted \<le> dmul capital fraction then Inr None
                          else Inr (Some (deny BTC_BETA_EXPOSURE_EXCEEDED))))
           | _ \<Rightarrow> Inr (Some (deny BTC_BETA_UNAVAILABLE))))"

section \<open>Futures starts\<close>

definition futures_committed :: "deployment_mode \<Rightarrow> deployment list \<Rightarrow> decimal" where
  "futures_committed mode deployments =
     dsum (List.map_filter d_paper_starting_cash
       (filter (\<lambda>item. d_mode item = mode \<and> occupies_running_slot item \<and> is_futures_product_id (d_product_id item))
          deployments))"

definition futures_deployment_verdict ::
    "risk_policy_definition \<Rightarrow> deployment_mode \<Rightarrow> string list \<Rightarrow> decimal option \<Rightarrow> deployment list
     \<Rightarrow> live_futures_start option \<Rightarrow> risk_verdict" where
  "futures_deployment_verdict policy mode covered paper_starting_cash deployments live =
     (if mode = LIVE then or_else (live_futures_deployment_verdict policy covered deployments live) allow
      else if length covered \<noteq> 1 then deny FUTURES_PAPER_UNSUPPORTED
      else case Option.bind (rp_futures policy) fp_paper_capital_usd of
             None \<Rightarrow> deny FUTURES_POLICY_UNSET
           | Some capital \<Rightarrow>
               (case paper_starting_cash of
                  None \<Rightarrow> deny FUTURES_PAPER_CAPITAL_EXCEEDED
                | Some cash \<Rightarrow>
                    if cash \<le> 0 then deny FUTURES_PAPER_CAPITAL_EXCEEDED
                    else if dadd (futures_committed mode deployments) cash > capital
                    then deny FUTURES_PAPER_CAPITAL_EXCEEDED
                    else allow))"

definition futures_capital :: "risk_policy_definition \<Rightarrow> deployment_mode \<Rightarrow> decimal" where
  "futures_capital policy mode =
     (case rp_futures policy of
        None \<Rightarrow> 0
      | Some futures \<Rightarrow> or_else (if mode = LIVE then fp_live_capital_usd futures else fp_paper_capital_usd futures) 0)"

section \<open>Linked breakers\<close>

definition LINKED_SPOT_QUOTES :: "string list" where
  "LINKED_SPOT_QUOTES = [''USD'', ''USDC'']"

definition collateral_scope :: "string \<Rightarrow> string option" where
  "collateral_scope product_id =
     (if is_futures_product_id product_id then Some ''futures''
      else case spot_quote_currency product_id of
             Inl _ \<Rightarrow> None
           | Inr quote \<Rightarrow> if quote \<in> set LINKED_SPOT_QUOTES then Some (''spot '' @ quote) else None)"

definition linked_breaker_verdict ::
    "deployment_mode \<Rightarrow> string \<Rightarrow> deployment_snapshot list \<Rightarrow> risk_verdict option" where
  "linked_breaker_verdict mode product_id snapshots =
     (if mode = LIVE \<and> is_futures_product_id product_id
         \<and> \<not> (\<exists>item \<in> set snapshots. d_mode (s_deployment item) = mode \<and> d_product_id (s_deployment item) = product_id)
      then None
      else case collateral_scope product_id of
             None \<Rightarrow> None
           | Some entry_scope \<Rightarrow>
               if list_ex (\<lambda>item. d_daily_loss_latched (s_deployment item)
                     \<and> (case collateral_scope (d_product_id (s_deployment item)) of
                          None \<Rightarrow> False
                        | Some book_scope \<Rightarrow> book_scope \<noteq> entry_scope \<and> ''futures'' \<in> {book_scope, entry_scope}))
                    (daily_loss_snapshots snapshots mode)
               then Some (deny SHARED_COLLATERAL_BREAKER) else None)"

section \<open>The futures checks of an entry\<close>

definition proposing_book ::
    "futures_book_state option \<Rightarrow> proposed_entry \<Rightarrow> deployment_snapshot list \<Rightarrow> deployment_snapshot option" where
  "proposing_book scope proposed snapshots =
     (case current_futures_book scope None of
        None \<Rightarrow> None
      | Some state \<Rightarrow>
          if fs_product_id state \<noteq> pr_product_id proposed then None
          else List.find (\<lambda>item. d_id (s_deployment item) = fs_deployment_id state) snapshots)"

definition book_state ::
    "futures_book_state option \<Rightarrow> deployment_snapshot option \<Rightarrow> futures_book_state option" where
  "book_state scope book = Option.bind book (\<lambda>b. current_futures_book scope (Some (d_id (s_deployment b))))"

text \<open>\<open>RiskReasonCode(code)\<close> on the codes an entry block carries; any other text is not a code of a
  block.\<close>

definition block_reason :: "string \<Rightarrow> risk_reason_code result" where
  "block_reason code =
     (if code = ''FUTURES_CONTRACT_UNBOUND'' then Inr FUTURES_CONTRACT_UNBOUND
      else if code = ''FUTURES_MARGIN_UNKNOWN'' then Inr FUTURES_MARGIN_UNKNOWN
      else if code = ''FUNDING_HISTORY_MISSING'' then Inr FUNDING_HISTORY_MISSING
      else Inl (ValueError code))"

definition known_book_verdict ::
    "futures_book_state option \<Rightarrow> deployment_snapshot option \<Rightarrow> risk_verdict option result" where
  "known_book_verdict scope book =
     (case book_state scope book of
        None \<Rightarrow> Inr (Some (deny FUTURES_CONTRACT_UNBOUND))
      | Some state \<Rightarrow>
          (case entry_block state of
             None \<Rightarrow> Inr None
           | Some code \<Rightarrow> rbind (block_reason code) (\<lambda>reason. Inr (Some (deny reason)))))"

definition live_gate_verdict ::
    "futures_book_state option \<Rightarrow> risk_policy_definition \<Rightarrow> deployment_mode \<Rightarrow> proposed_entry \<Rightarrow> deployment_snapshot option
     \<Rightarrow> deployment_snapshot list \<Rightarrow> futures_venue_evidence option \<Rightarrow> datetime option \<Rightarrow> risk_verdict option" where
  "live_gate_verdict scope policy mode proposed book snapshots venue as_of =
     (case (book, book_state scope book) of
        (Some b, Some state) \<Rightarrow>
          if mode \<noteq> LIVE then None else live_futures_entry_verdict policy proposed b state snapshots venue as_of
      | _ \<Rightarrow> None)"

definition slot_holders :: "deployment_mode \<Rightarrow> deployment_snapshot list \<Rightarrow> deployment_snapshot list" where
  "slot_holders mode snapshots =
     filter (\<lambda>item. d_mode (s_deployment item) = mode \<and> occupies_running_slot (s_deployment item)) snapshots"

definition denial :: "risk_verdict \<Rightarrow> risk_verdict option" where
  "denial verdict = (if rv_decision verdict = DENY then Some verdict else None)"

definition membership_verdict ::
    "risk_policy_definition \<Rightarrow> deployment_mode \<Rightarrow> proposed_entry \<Rightarrow> deployment_snapshot list \<Rightarrow> risk_verdict option" where
  "membership_verdict policy mode proposed snapshots =
     denial (entry_membership policy mode proposed (slot_holders mode snapshots) False)"

definition funding_rate_verdict :: "decimal option \<Rightarrow> futures_book_state \<Rightarrow> risk_verdict option" where
  "funding_rate_verdict cap state =
     (case (cap, fs_binding state) of
        (Some limit, Some binding) \<Rightarrow>
          if \<not> ic_perpetual (bc_contract binding) then None
          else (case fs_latest_funding_rate state of
                  None \<Rightarrow> Some (deny FUNDING_HISTORY_MISSING)
                | Some rate \<Rightarrow> if dabs rate > limit then Some (deny FUTURES_FUNDING_RATE_EXCEEDED) else None)
      | _ \<Rightarrow> None)"

definition futures_gross_exposure :: "deployment_snapshot list \<Rightarrow> deployment_mode \<Rightarrow> decimal" where
  "futures_gross_exposure snapshots mode =
     dsum (map (\<lambda>book. dabs (product_exposure book (d_product_id (s_deployment book))))
       (filter (\<lambda>book. is_futures_product_id (d_product_id (s_deployment book))) (risk_bearing_snapshots snapshots mode)))"

definition order_contracts_verdict ::
    "int option \<Rightarrow> decimal option \<Rightarrow> decimal \<Rightarrow> risk_verdict option result" where
  "order_contracts_verdict cap quantity contract_size =
     (case (cap, quantity) of
        (Some limit, Some q) \<Rightarrow>
          rbind (ddiv_checked q contract_size) (\<lambda>contracts.
            Inr (if contracts > of_int limit then Some (deny FUTURES_ORDER_CONTRACTS_EXCEEDED) else None))
      | _ \<Rightarrow> Inr None)"

definition futures_caps_verdict ::
    "risk_policy_definition \<Rightarrow> deployment_mode \<Rightarrow> futures_book_state \<Rightarrow> decimal \<Rightarrow> decimal option \<Rightarrow> deployment_snapshot list
     \<Rightarrow> decimal \<Rightarrow> risk_verdict option result" where
  "futures_caps_verdict policy mode state notional quantity snapshots capital =
     (case (rp_futures policy, fs_binding state) of
        (Some futures, Some binding) \<Rightarrow>
          rbind (order_contracts_verdict (fp_max_order_contracts futures) quantity (ic_contract_size (bc_contract binding)))
            (\<lambda>contracts.
              case contracts of
                Some verdict \<Rightarrow> Inr (Some verdict)
              | None \<Rightarrow>
                  let exceeded = (case fp_max_exposure_fraction futures of
                        None \<Rightarrow> False
                      | Some fraction \<Rightarrow>
                          dadd (futures_gross_exposure snapshots mode) (dabs notional) > dmul capital fraction)
                  in if exceeded then Inr (Some (deny FUTURES_EXPOSURE_EXCEEDED))
                     else Inr (funding_rate_verdict (fp_max_hourly_funding_rate_abs futures) state))
      | _ \<Rightarrow> Inr None)"

definition policy_caps_verdict ::
    "futures_book_state option \<Rightarrow> risk_policy_definition \<Rightarrow> deployment_mode \<Rightarrow> proposed_entry \<Rightarrow> deployment_snapshot list
     \<Rightarrow> decimal \<Rightarrow> risk_verdict option result" where
  "policy_caps_verdict scope policy mode proposed snapshots capital =
     (case current_futures_book scope None of
        None \<Rightarrow> Inr None
      | Some state \<Rightarrow>
          futures_caps_verdict policy mode state (pr_notional proposed) (pr_quantity proposed) snapshots capital)"

definition proposing_underlying :: "futures_book_state option \<Rightarrow> deployment_snapshot option \<Rightarrow> string" where
  "proposing_underlying scope book =
     (case Option.bind (book_state scope book) fs_binding of
        None \<Rightarrow> []
      | Some binding \<Rightarrow> ic_underlying (bc_contract binding))"

definition margin_verdict ::
    "futures_book_state option \<Rightarrow> proposed_entry \<Rightarrow> deployment_snapshot option \<Rightarrow> entry_observation option
     \<Rightarrow> risk_verdict option result" where
  "margin_verdict scope proposed book observation =
     (case (book, book_state scope book) of
        (Some b, Some state) \<Rightarrow>
          (case fs_margin state of
             None \<Rightarrow> Inr (Some (deny FUTURES_MARGIN_UNKNOWN))
           | Some margin \<Rightarrow>
               rbind (futures_book_equity b (case observation of None \<Rightarrow> Map.empty | Some ob \<Rightarrow> ob_marks ob)) (\<lambda>equity_opt.
                 case equity_opt of
                   None \<Rightarrow> Inr (Some (deny BREAKER_MARK_MISSING))
                 | Some equity \<Rightarrow>
                     if equity \<le> 0 then Inr (Some (deny BREAKER_MARK_MISSING))
                     else if pr_notional proposed > dmul (ft_max_leverage margin) equity
                     then Inr (Some (deny FUTURES_LEVERAGE_EXCEEDED))
                     else
                       let quantity = or_else (pr_quantity proposed) 0;
                           price = (if quantity \<noteq> 0 then ddiv (pr_notional proposed) quantity else 0)
                       in if maintenance margin quantity price (fs_side state)
                             > dmul (dsub 1 (ft_min_buffer_fraction margin)) equity
                          then Inr (Some (deny FUTURES_LIQUIDATION_BUFFER))
                          else Inr None))
      | _ \<Rightarrow> Inr (Some (deny FUTURES_MARGIN_UNKNOWN)))"

definition scope_breaker_verdict ::
    "risk_policy_definition \<Rightarrow> deployment_mode \<Rightarrow> proposed_entry \<Rightarrow> deployment_snapshot list \<Rightarrow> entry_observation option
     \<Rightarrow> decimal \<Rightarrow> risk_verdict option result" where
  "scope_breaker_verdict policy mode proposed snapshots observation capital =
     (case observation of
        None \<Rightarrow> Inr (Some (deny BREAKER_MARK_MISSING))
      | Some ob \<Rightarrow>
          rbind (evaluate_circuit_breakers policy mode (pr_product_id proposed) (pr_strategy_id proposed) snapshots ob capital)
            (\<lambda>tripped.
              case tripped of
                Some verdict \<Rightarrow> Inr (Some verdict)
              | None \<Rightarrow>
                  (case evaluate_rate_and_collar policy mode (risk_bearing_snapshots snapshots mode) ob of
                     Some verdict \<Rightarrow> Inr (Some verdict)
                   | None \<Rightarrow> Inr (cluster_verdict policy mode proposed snapshots (Some ob)))))"

text \<open>Checks that may raise, in order: a later check is not reached once one objects.\<close>

fun first_verdict :: "risk_verdict option result list \<Rightarrow> risk_verdict option result" where
  "first_verdict [] = Inr None"
| "first_verdict (check # checks) =
     rbind check (\<lambda>verdict. case verdict of Some v \<Rightarrow> Inr (Some v) | None \<Rightarrow> first_verdict checks)"

definition futures_entry_checks ::
    "futures_book_state option \<Rightarrow> risk_policy_definition \<Rightarrow> deployment_mode \<Rightarrow> proposed_entry \<Rightarrow> deployment_snapshot list
     \<Rightarrow> entry_observation option \<Rightarrow> (string \<rightharpoonup> beta_result) option \<Rightarrow> futures_legs option \<Rightarrow> futures_venue_evidence option
     \<Rightarrow> risk_verdict option result list" where
  "futures_entry_checks scope policy mode proposed snapshots observation beta legs venue =
     (let capital = futures_capital policy mode;
          book = proposing_book scope proposed snapshots;
          as_of = map_option ob_as_of observation
      in [known_book_verdict scope book,
          Inr (live_gate_verdict scope policy mode proposed book snapshots venue as_of),
          Inr (membership_verdict policy mode proposed snapshots),
          Inr (linked_breaker_verdict mode (pr_product_id proposed) snapshots),
          margin_verdict scope proposed book observation,
          policy_caps_verdict scope policy mode proposed snapshots capital,
          futures_beta_verdict policy mode proposed (proposing_underlying scope book) snapshots legs beta capital as_of,
          scope_breaker_verdict policy mode proposed snapshots observation capital])"

definition evaluate_futures_entry ::
    "futures_book_state option \<Rightarrow> risk_policy_definition \<Rightarrow> deployment_mode \<Rightarrow> proposed_entry \<Rightarrow> deployment_snapshot list
     \<Rightarrow> entry_observation option \<Rightarrow> (string \<rightharpoonup> beta_result) option \<Rightarrow> futures_legs option \<Rightarrow> futures_venue_evidence option
     \<Rightarrow> risk_verdict result" where
  "evaluate_futures_entry scope policy mode proposed snapshots observation beta legs venue =
     (case (if mode = LIVE then live_futures_opt_in_verdict policy (pr_product_id proposed) else None) of
        Some opted \<Rightarrow> Inr opted
      | None \<Rightarrow>
          if futures_capital policy mode \<le> 0 then Inr (deny FUTURES_POLICY_UNSET)
          else rbind (first_verdict (futures_entry_checks scope policy mode proposed snapshots observation beta legs venue))
                 (\<lambda>verdict. Inr (or_else verdict allow)))"

end
