(* ===== verification/Risk_Gate.thy ===== *)
theory Risk_Gate
  imports Risk_Futures
begin

text \<open>
  The pre-trade gate (\<open>risk/gate.py\<close>): admission of a new deployment, admission of a
  risk-increasing entry by the policy's checks in their fixed order, and the runtime breakers. The
  cycle state of the proposing futures book is the argument \<open>scope\<close>.
\<close>

section \<open>New deployments\<close>

definition occupied_deployments :: "deployment list \<Rightarrow> deployment_mode \<Rightarrow> deployment list" where
  "occupied_deployments deployments mode = filter (\<lambda>item. d_mode item = mode \<and> occupies_running_slot item) deployments"

definition paper_committed :: "deployment list \<Rightarrow> decimal" where
  "paper_committed occupied =
     foldl (\<lambda>sum item. case d_paper_starting_cash item of None \<Rightarrow> sum | Some cash \<Rightarrow> dadd sum cash) 0 occupied"

definition mixed_quotes :: "string \<Rightarrow> deployment list \<Rightarrow> bool" where
  "mixed_quotes product_id occupied \<longleftrightarrow>
     isl (spot_quote_currency product_id)
     \<or> list_ex (\<lambda>item. isl (spot_quote_currency (d_product_id item))
          \<or> spot_quote_currency (d_product_id item) \<noteq> spot_quote_currency product_id) occupied"

definition paper_deploy_capital ::
    "risk_policy_definition \<Rightarrow> deployment list \<Rightarrow> uuid option \<Rightarrow> decimal option \<Rightarrow> string \<Rightarrow> risk_verdict" where
  "paper_deploy_capital policy occupied strategy_id paper_starting_cash product_id =
     (if mixed_quotes product_id occupied then deny PAPER_CAPITAL_EXCEEDED
      else case paper_starting_cash of
             None \<Rightarrow> deny PAPER_CAPITAL_EXCEEDED
           | Some cash \<Rightarrow>
               if cash \<le> 0 then deny PAPER_CAPITAL_EXCEEDED
               else if dadd (paper_committed occupied) cash > rp_paper_capital_quote policy then deny PAPER_CAPITAL_EXCEEDED
               else case allocation_for policy strategy_id of
                      None \<Rightarrow> allow
                    | Some reserved \<Rightarrow> if cash > reserved then deny ALLOCATION_EXCEEDED else allow)"

definition evaluate_new_deployment ::
    "risk_policy_definition \<Rightarrow> deployment_mode \<Rightarrow> string \<Rightarrow> uuid option \<Rightarrow> decimal option \<Rightarrow> deployment list
     \<Rightarrow> string list option \<Rightarrow> risk_policy_source \<Rightarrow> bool \<Rightarrow> live_futures_start option \<Rightarrow> string option \<Rightarrow> risk_verdict" where
  "evaluate_new_deployment policy mode product_id strategy_id paper_starting_cash deployments product_ids policy_source
       portfolio_sleeve live_futures desk_id =
     (if mode = LIVE \<and> policy_source = COMPILED_DEFAULT then deny LIVE_REQUIRES_PUBLISHED_POLICY
      else
        let covered = (case product_ids of None \<Rightarrow> [product_id] | Some [] \<Rightarrow> [product_id] | Some ids \<Rightarrow> ids);
            futures = list_ex is_futures_product_id covered;
            occupied = occupied_deployments deployments mode;
            allocated = allocation_membership policy strategy_id mode portfolio_sleeve futures desk_id
        in case List.find (\<lambda>verdict. rv_decision verdict = DENY) (map (allowlist_verdict policy) covered) of
             Some verdict \<Rightarrow> verdict
           | None \<Rightarrow>
               if rv_decision allocated = DENY then allocated
               else if int (length occupied) \<ge> rp_max_concurrent_running_deployments policy
               then deny MAX_RUNNING_DEPLOYMENTS
               else if futures then futures_deployment_verdict policy mode covered paper_starting_cash deployments live_futures
               else if mode = PAPER
               then paper_deploy_capital policy (filter (\<lambda>item. \<not> is_futures_product_id (d_product_id item)) occupied)
                      strategy_id paper_starting_cash product_id
               else allow)"

section \<open>New entries\<close>

definition scope_verdict ::
    "futures_book_state option \<Rightarrow> risk_policy_definition \<Rightarrow> deployment_mode \<Rightarrow> proposed_entry \<Rightarrow> deployment_snapshot list
     \<Rightarrow> entry_observation option \<Rightarrow> (string \<rightharpoonup> beta_result) option \<Rightarrow> futures_legs option \<Rightarrow> futures_venue_evidence option
     \<Rightarrow> risk_verdict option result" where
  "scope_verdict scope policy mode proposed snapshots observation beta legs venue =
     (if is_futures_product_id (pr_product_id proposed)
      then rbind (evaluate_futures_entry scope policy mode proposed snapshots observation beta legs venue) (\<lambda>v. Inr (Some v))
      else Inr (linked_breaker_verdict mode (pr_product_id proposed) snapshots))"

definition portfolio_verdict ::
    "portfolio_risk_book option \<Rightarrow> proposed_entry \<Rightarrow> deployment_snapshot list \<Rightarrow> deployment_snapshot list
     \<Rightarrow> risk_verdict option" where
  "portfolio_verdict portfolio proposed risk_bearing quote_books =
     (case portfolio of
        None \<Rightarrow> None
      | Some book \<Rightarrow>
          if list_ex (\<lambda>item. d_portfolio_id (s_deployment item) = Some (pb_portfolio_id book))
               (filter (\<lambda>item. item \<notin> set quote_books) risk_bearing)
          then Some (deny PORTFOLIO_LIMITS_UNAVAILABLE)
          else denial (evaluate_portfolio_entry book proposed quote_books))"

definition entry_breaker_verdict ::
    "risk_policy_definition \<Rightarrow> deployment_mode \<Rightarrow> proposed_entry \<Rightarrow> deployment_snapshot list \<Rightarrow> deployment_snapshot list
     \<Rightarrow> deployment_snapshot list \<Rightarrow> decimal option \<Rightarrow> entry_observation option \<Rightarrow> risk_verdict option result" where
  "entry_breaker_verdict policy mode proposed risk_bearing quote_books snapshots live_quote_cash observation =
     (case observation of
        None \<Rightarrow> Inr (cluster_verdict policy mode proposed snapshots None)
      | Some ob \<Rightarrow>
          rbind (evaluate_circuit_breakers policy mode (pr_product_id proposed) (pr_strategy_id proposed) snapshots ob
                   (capital_base policy mode live_quote_cash quote_books (in_kind_capital proposed))) (\<lambda>tripped.
            case tripped of
              Some verdict \<Rightarrow> Inr (Some verdict)
            | None \<Rightarrow>
                if in_kind proposed then Inr None
                else case evaluate_rate_and_collar policy mode risk_bearing ob of
                       Some verdict \<Rightarrow> Inr (Some verdict)
                     | None \<Rightarrow> Inr (cluster_verdict policy mode proposed snapshots (Some ob))))"

text \<open>
  The checks after the scope, in the order of the source; the collateral gate also gives the venue
  quote every later check uses.
\<close>

definition spot_entry_checks ::
    "risk_policy_definition \<Rightarrow> deployment_mode \<Rightarrow> proposed_entry \<Rightarrow> deployment_snapshot list \<Rightarrow> decimal option
     \<Rightarrow> entry_observation option \<Rightarrow> portfolio_risk_book option \<Rightarrow> (string \<rightharpoonup> beta_result) option
     \<Rightarrow> futures_collateral_evidence option \<Rightarrow> futures_legs option \<Rightarrow> deployment_snapshot list
     \<Rightarrow> risk_verdict option result list" where
  "spot_entry_checks policy mode proposed snapshots live_quote_cash observation portfolio beta collateral legs quote_books =
     (let risk_bearing = risk_bearing_snapshots snapshots mode;
          (withheld, cash) = collateral_verdict policy mode proposed collateral live_quote_cash
      in [Inr (denial (entry_membership policy mode proposed (slot_holders mode snapshots)
            (case portfolio of None \<Rightarrow> False | Some book \<Rightarrow> pb_live book))),
          Inr (portfolio_verdict portfolio proposed risk_bearing quote_books),
          Inr withheld,
          (if in_kind proposed then Inr None else order_bound_verdict policy mode proposed quote_books cash),
          rbind (exposure_verdict policy mode proposed quote_books cash) (\<lambda>v. Inr (denial v)),
          beta_verdict policy mode proposed quote_books cash beta (map_option ob_as_of observation) snapshots legs
            (case observation of None \<Rightarrow> Map.empty | Some ob \<Rightarrow> ob_marks ob),
          Inr (unresolved_accounting_verdict mode (pr_product_id proposed) snapshots),
          entry_breaker_verdict policy mode proposed risk_bearing quote_books snapshots cash observation])"

definition evaluate_new_entry ::
    "futures_book_state option \<Rightarrow> risk_policy_definition \<Rightarrow> deployment_mode \<Rightarrow> proposed_entry \<Rightarrow> deployment_snapshot list
     \<Rightarrow> decimal option \<Rightarrow> entry_observation option \<Rightarrow> portfolio_risk_book option \<Rightarrow> (string \<rightharpoonup> beta_result) option
     \<Rightarrow> futures_collateral_evidence option \<Rightarrow> futures_legs option \<Rightarrow> futures_venue_evidence option \<Rightarrow> risk_verdict result" where
  "evaluate_new_entry scope policy mode proposed snapshots live_quote_cash observation portfolio beta collateral legs venue =
     rbind (scope_verdict scope policy mode proposed snapshots observation beta legs venue) (\<lambda>scoped.
       case scoped of
         Some verdict \<Rightarrow> Inr verdict
       | None \<Rightarrow>
           (case quote_scoped_snapshots (risk_bearing_snapshots snapshots mode) (pr_product_id proposed) of
              (quote_books, Some incomplete) \<Rightarrow> Inr incomplete
            | (quote_books, None) \<Rightarrow>
                rbind (first_verdict (spot_entry_checks policy mode proposed snapshots live_quote_cash observation portfolio
                        beta collateral legs quote_books)) (\<lambda>verdict. Inr (or_else verdict allow))))"

section \<open>Runtime breakers\<close>

definition evaluate_runtime_breakers ::
    "risk_policy_definition \<Rightarrow> deployment_mode \<Rightarrow> deployment_snapshot \<Rightarrow> deployment_snapshot list \<Rightarrow> decimal option
     \<Rightarrow> entry_observation \<Rightarrow> risk_verdict result" where
  "evaluate_runtime_breakers policy mode s snapshots live_quote_cash observation =
     (let product_id = d_product_id (s_deployment s)
      in case quote_scoped_snapshots (risk_bearing_snapshots snapshots mode) product_id of
           (occupied, Some incomplete) \<Rightarrow> Inr incomplete
         | (occupied, None) \<Rightarrow>
             let capital = (if is_futures_product_id product_id then futures_capital policy mode
                            else capital_base policy mode live_quote_cash occupied 0)
             in rbind (evaluate_circuit_breakers policy mode product_id (d_strategy_id (s_deployment s)) snapshots
                         observation capital) (\<lambda>tripped. Inr (or_else tripped allow)))"

end
