(* ===== verification/Risk_Safety.thy ===== *)
theory Risk_Safety
  imports Risk_Gate
begin

text \<open>
  What the entry gate guarantees. The locale \<open>check_list\<close> is the contract between the gate and the
  checks it runs (an objection is a denial) and is interpreted on the spot and on the futures
  checks; \<open>mode_scoped\<close> is the contract of a check that reads only its own mode's books;
  \<open>trim_safe\<close> that of a check that never refuses a smaller entry after admitting a larger one.
\<close>

section \<open>Objections are denials\<close>

definition objects_only :: "risk_verdict option result \<Rightarrow> bool" where
  "objects_only check \<longleftrightarrow> (\<forall>v. check = Inr (Some v) \<longrightarrow> rv_decision v = DENY)"

locale check_list =
  fixes checks :: "risk_verdict option result list"
  assumes objections: "check \<in> set checks \<Longrightarrow> objects_only check"
begin

lemma first_is_denial:
  assumes "set cs \<subseteq> set checks" "first_verdict cs = Inr (Some v)"
  shows "rv_decision v = DENY"
  using assms
proof (induction cs)
  case (Cons c cs)
  then show ?case
    using objections [of c] by (auto simp: objects_only_def split: option.splits)
qed simp

lemma admits_iff:
  "rbind (first_verdict checks) (\<lambda>verdict. Inr (or_else verdict allow)) = Inr allow
     \<longleftrightarrow> first_verdict checks = Inr None"
proof -
  have "v \<noteq> allow" if "first_verdict checks = Inr (Some v)" for v
    using first_is_denial [OF subset_refl that] by auto
  then show ?thesis
    by (cases "first_verdict checks") (auto simp: or_else_def split: option.splits)
qed

end

lemma first_verdict_None: "first_verdict cs = Inr None \<longleftrightarrow> list_all (\<lambda>c. c = Inr None) cs"
  by (induction cs) (auto split: option.splits)

lemma first_objection_None: "first_objection cs = None \<longleftrightarrow> list_all (\<lambda>c. c = None) cs"
  by (induction cs) (auto split: option.splits)

lemma denial_None: "denial v = None \<longleftrightarrow> rv_decision v = ALLOW"
  by (cases "rv_decision v") (simp_all add: denial_def)

named_theorems objects \<open>checks whose objections are denials\<close>

lemma objects_Inr: "objects_only (Inr c) \<longleftrightarrow> (\<forall>v. c = Some v \<longrightarrow> rv_decision v = DENY)"
  by (simp add: objects_only_def)

lemma objects_Inl: "objects_only (Inl e)"
  by (simp add: objects_only_def)

lemma objects_denial [objects]: "objects_only (Inr (denial v))"
  by (simp add: objects_Inr denial_def)

lemma objects_rbind: "(\<And>x. m = Inr x \<Longrightarrow> objects_only (f x)) \<Longrightarrow> objects_only (rbind m f)"
  by (cases m) (simp_all add: objects_Inl)

lemma objects_basic [objects]: "objects_only (Inr None)" "objects_only (Inr (Some (deny code)))"
  by (simp_all add: objects_Inr)

lemma same_quote_denies: "same_quote_books ss quote = (books, Some v) \<Longrightarrow> rv_decision v = DENY"
  by (auto simp: same_quote_books_def split: if_splits)

lemma objects_accounting [objects]: "objects_only (Inr (unresolved_accounting_verdict mode product_id ss))"
  by (auto simp: objects_Inr unresolved_accounting_verdict_def split: option.splits if_splits prod.splits
      dest: same_quote_denies)

lemma objects_cluster [objects]: "objects_only (Inr (cluster_verdict policy mode proposed ss ob))"
  by (auto simp: objects_Inr cluster_verdict_def split: option.splits if_splits)

lemma rate_and_collar_denies:
  "evaluate_rate_and_collar policy mode ss ob = Some v \<Longrightarrow> rv_decision v = DENY"
  by (auto simp: evaluate_rate_and_collar_def rate_verdict_def collar_verdict_def Let_def split: option.splits if_splits)

lemma objects_linked [objects]: "objects_only (Inr (linked_breaker_verdict mode product_id ss))"
  by (auto simp: objects_Inr linked_breaker_verdict_def split: option.splits if_splits)

lemma objects_portfolio [objects]: "objects_only (Inr (portfolio_verdict portfolio proposed rb qb))"
  by (auto simp: objects_Inr portfolio_verdict_def denial_def split: option.splits if_splits)

lemma objects_collateral [objects]: "objects_only (Inr (fst (collateral_verdict policy mode proposed ev cash)))"
  by (auto simp: objects_Inr collateral_verdict_def reserve_verdict_def Let_def split: option.splits if_splits)

lemma objects_bounds [objects]: "objects_only (order_bound_verdict policy mode proposed occupied cash)"
  unfolding order_bound_verdict_def Let_def
  by (auto intro!: objects_rbind simp: objects_Inr quantity_bound_def notional_bound_def reserve_bound_def
      split: option.splits if_splits)

lemma objects_unless: "objects_only c \<Longrightarrow> objects_only (if b then Inr None else c)"
  by (simp add: objects_basic)

lemma objects_beta [objects]:
  "objects_only (beta_verdict policy mode proposed occupied cash beta as_of ss legs marks)"
  unfolding beta_verdict_def Let_def
  by (auto intro!: objects_rbind objects_basic split: option.splits)

lemma objects_circuit_breakers [objects]:
  "objects_only (evaluate_circuit_breakers policy mode product_id strategy_id ss ob capital)"
proof -
  have daily: "rv_decision v = DENY" if "daily_loss_verdict policy mode books ob capital = Inr (Some v)" for books v
    using that by (auto simp: daily_loss_verdict_def split: option.splits if_splits)
  have one: "rv_decision v = DENY" if "one_drawdown_verdict s ob limit = Inr (Some v)" for s limit v
  proof -
    have "objects_only (one_drawdown_verdict s ob limit)"
      unfolding one_drawdown_verdict_def by (auto intro!: objects_rbind objects_basic split: option.splits)
    with that show ?thesis by (simp add: objects_only_def)
  qed
  have first: "rv_decision v = DENY" if "first_drawdown_verdict ob limit books = Inr (Some v)" for limit books v
    using that by (induction books) (auto dest: one split: if_splits)
  have draw: "rv_decision v = DENY" if "drawdown_verdict policy ss mode quote strategy_id product_id ob = Inr (Some v)" for quote v
    using that unfolding drawdown_verdict_def drawdown_books_def
    by (auto dest: first same_quote_denies split: prod.splits option.splits)
  have latch: "rv_decision v = DENY" if "drawdown_latch_verdict ss mode quote strategy_id product_id = Some v" for quote v
    using that unfolding drawdown_latch_verdict_def drawdown_books_def
    by (auto dest: same_quote_denies split: prod.splits option.splits if_splits)
  have select: "rv_decision v = DENY"
    if "select_loss_verdict d t = Some v" "\<And>x. d = Some x \<Longrightarrow> rv_decision x = DENY" "\<And>x. t = Some x \<Longrightarrow> rv_decision x = DENY"
    for d t v
    using that by (auto simp: select_loss_verdict_def split: option.splits if_splits)
  show ?thesis
    unfolding evaluate_circuit_breakers_def daily_latch_verdict_def
    by (auto intro!: objects_rbind objects_basic simp: objects_Inr dest: same_quote_denies latch
        elim!: select dest!: daily draw split: option.splits prod.splits)
qed

lemma objects_then:
  "objects_only m \<Longrightarrow> objects_only k \<Longrightarrow>
     objects_only (rbind m (\<lambda>t. case t of None \<Rightarrow> k | Some v \<Rightarrow> Inr (Some v)))"
  by (cases m) (auto simp: objects_only_def split: option.splits)

lemma objects_or:
  "objects_only (Inr c) \<Longrightarrow> objects_only k \<Longrightarrow> objects_only (case c of None \<Rightarrow> k | Some v \<Rightarrow> Inr (Some v))"
  by (cases c) simp_all

lemma objects_rates [objects]: "objects_only (Inr (evaluate_rate_and_collar policy mode ss ob))"
  by (simp add: objects_Inr rate_and_collar_denies)

lemma objects_entry_breakers [objects]:
  "objects_only (entry_breaker_verdict policy mode proposed rb qb ss cash ob)"
proof (cases ob)
  case None
  then show ?thesis unfolding entry_breaker_verdict_def by (simp add: objects_cluster)
next
  case (Some seen)
  have "objects_only (if in_kind proposed then Inr None
      else case evaluate_rate_and_collar policy mode rb seen of
             Some v \<Rightarrow> Inr (Some v) | None \<Rightarrow> Inr (cluster_verdict policy mode proposed ss (Some seen)))"
    by (simp add: objects_basic objects_or [OF objects_rates objects_cluster])
  then show ?thesis
    unfolding entry_breaker_verdict_def Some option.case by (rule objects_then [OF objects_circuit_breakers])
qed

lemma first_objection_mem: "first_objection cs = Some v \<Longrightarrow> Some v \<in> set cs"
  by (induction cs) (auto split: option.splits)

lemma standing_denies:
  "live_futures_opt_in_verdict policy product_id = Some v \<Longrightarrow> rv_decision v = DENY"
  "contract_kind_verdict contract = Some v \<Longrightarrow> rv_decision v = DENY"
  "binding_product_verdict product_id contract = Some v \<Longrightarrow> rv_decision v = DENY"
  "occupied_verdict product_id deployments own = Some v \<Longrightarrow> rv_decision v = DENY"
  "evidence_verdict venue as_of = Some v \<Longrightarrow> rv_decision v = DENY"
  "drift_verdict product_id csize venue = Some v \<Longrightarrow> rv_decision v = DENY"
  "external_verdict product_id vn held = Some v \<Longrightarrow> rv_decision v = DENY"
  "venue_state_verdict product_id venue as_of = Some v \<Longrightarrow> rv_decision v = DENY"
  by (auto simp: live_futures_opt_in_verdict_def contract_kind_verdict_def binding_product_verdict_def occupied_verdict_def
      evidence_verdict_def drift_verdict_def external_verdict_def venue_state_verdict_def
      split: option.splits if_splits bool.splits)

lemma sizing_denies:
  "external_entry_verdict product_id b csize venue = Some v \<Longrightarrow> rv_decision v = DENY"
  "contracts_verdict policy proposed b csize = Some v \<Longrightarrow> rv_decision v = DENY"
  "margin_capacity_verdict policy venue initial = Some v \<Longrightarrow> rv_decision v = DENY"
  by (auto simp: external_entry_verdict_def contracts_verdict_def margin_capacity_verdict_def Let_def
      dest: standing_denies(7) split: option.splits if_splits sum.splits)

lemma objects_live_gate [objects]:
  "objects_only (Inr (live_gate_verdict scope policy mode proposed book ss venue as_of))"
proof -
  have standing: "rv_decision v = DENY"
    if "Some v \<in> set (standing_checks policy proposed b binding ss venue as_of @ [margin_capacity_verdict policy venue initial])"
    for b binding initial v
    using that unfolding standing_checks_def Let_def set_append set_simps Un_insert_left insert_iff empty_iff Un_empty_left
    by (elim disjE FalseE) (metis standing_denies sizing_denies)+
  have "rv_decision v = DENY" if "live_futures_entry_verdict policy proposed b state ss venue as_of = Some v" for b state v
    using that unfolding live_futures_entry_verdict_def Let_def
    by (auto dest!: first_objection_mem dest!: standing simp del: set_append split: option.splits if_splits)
  then show ?thesis by (auto simp: objects_Inr live_gate_verdict_def split: option.splits if_splits)
qed

lemma objects_known_book [objects]: "objects_only (known_book_verdict scope book)"
  unfolding known_book_verdict_def by (auto intro!: objects_rbind objects_basic split: option.splits)

lemma objects_membership [objects]: "objects_only (Inr (membership_verdict policy mode proposed ss))"
  unfolding membership_verdict_def by (rule objects_denial)

lemma objects_margin [objects]: "objects_only (margin_verdict scope proposed book ob)"
  unfolding margin_verdict_def Let_def by (auto intro!: objects_rbind objects_basic split: option.splits)

lemma objects_caps [objects]: "objects_only (policy_caps_verdict scope policy mode proposed ss capital)"
  unfolding policy_caps_verdict_def futures_caps_verdict_def order_contracts_verdict_def Let_def
  by (auto intro!: objects_rbind objects_basic simp: objects_Inr funding_rate_verdict_def
      split: option.splits if_splits)

lemma objects_futures_beta [objects]:
  "objects_only (futures_beta_verdict policy mode proposed underlying ss legs beta capital as_of)"
  unfolding futures_beta_verdict_def by (auto intro!: objects_rbind objects_basic split: option.splits)

lemma objects_scope_breaker [objects]: "objects_only (scope_breaker_verdict policy mode proposed ss ob capital)"
proof (cases ob)
  case None
  then show ?thesis unfolding scope_breaker_verdict_def by (simp add: objects_basic)
next
  case (Some seen)
  show ?thesis
    unfolding scope_breaker_verdict_def Some option.case
    by (intro objects_then objects_or objects_circuit_breakers objects_rates objects_cluster)
qed

interpretation futures: check_list
    "futures_entry_checks scope policy mode proposed snapshots observation beta legs venue"
    for scope policy mode proposed snapshots observation beta legs venue
proof unfold_locales
  fix check
  assume "check \<in> set (futures_entry_checks scope policy mode proposed snapshots observation beta legs venue)"
  then show "objects_only check"
    unfolding futures_entry_checks_def Let_def set_simps insert_iff empty_iff
    by (elim disjE FalseE) (simp_all only: objects)
qed

interpretation spot: check_list
    "spot_entry_checks policy mode proposed snapshots live_quote_cash observation portfolio beta collateral legs quote_books"
    for policy mode proposed snapshots live_quote_cash observation portfolio beta collateral legs quote_books
proof unfold_locales
  fix check
  assume "check \<in> set (spot_entry_checks policy mode proposed snapshots live_quote_cash observation portfolio beta
    collateral legs quote_books)"
  then show "objects_only check"
    unfolding spot_entry_checks_def Let_def case_prod_beta set_simps insert_iff empty_iff
    by (elim disjE FalseE) (simp_all only: objects objects_rbind objects_unless)
qed

section \<open>An admitted spot entry is inside every limit\<close>

lemma same_quote_eq:
  "same_quote_books ss quote = (books, None) \<longleftrightarrow>
     list_all (\<lambda>s. snapshot_quote s \<noteq> None) ss \<and> books = filter (\<lambda>s. snapshot_quote s = Some quote) ss"
  by (auto simp: same_quote_books_def list_ex_iff list_all_iff)

lemma spot_admitted:
  assumes "evaluate_new_entry scope policy mode p ss cash ob pf beta coll legs venue = Inr allow"
    and "\<not> is_futures_product_id (pr_product_id p)"
  obtains quote where
    "product_quote (pr_product_id p) = Some quote"
    "linked_breaker_verdict mode (pr_product_id p) ss = None"
    "list_all (\<lambda>c. c = Inr None) (spot_entry_checks policy mode p ss cash ob pf beta coll legs
       (filter (\<lambda>s. snapshot_quote s = Some quote) (risk_bearing_snapshots ss mode)))"
    "quote_scoped_snapshots (risk_bearing_snapshots ss mode) (pr_product_id p) =
       (filter (\<lambda>s. snapshot_quote s = Some quote) (risk_bearing_snapshots ss mode), None)"
proof -
  have linked: "linked_breaker_verdict mode (pr_product_id p) ss = None"
    using assms objects_linked [of mode "pr_product_id p" ss]
    by (auto simp: evaluate_new_entry_def scope_verdict_def objects_Inr split: option.splits)
  obtain books inc where qs: "quote_scoped_snapshots (risk_bearing_snapshots ss mode) (pr_product_id p) = (books, inc)"
    by (rule prod.exhaust)
  have inc: "inc = None"
  proof (rule ccontr)
    assume "inc \<noteq> None"
    then obtain v where v: "inc = Some v" by blast
    then have "rv_decision v = DENY"
      using qs by (auto simp: quote_scoped_snapshots_def dest: same_quote_denies split: option.splits)
    then show False using assms linked qs v by (auto simp: evaluate_new_entry_def scope_verdict_def)
  qed
  with qs obtain quote where quote: "product_quote (pr_product_id p) = Some quote"
      and books: "books = filter (\<lambda>s. snapshot_quote s = Some quote) (risk_bearing_snapshots ss mode)"
    by (auto simp: quote_scoped_snapshots_def same_quote_eq split: option.splits)
  have "rbind (first_verdict (spot_entry_checks policy mode p ss cash ob pf beta coll legs books))
      (\<lambda>verdict. Inr (or_else verdict allow)) = Inr allow"
    using assms linked qs inc by (simp only: evaluate_new_entry_def scope_verdict_def if_False rbind_Inr option.case prod.case)
  then have "list_all (\<lambda>c. c = Inr None) (spot_entry_checks policy mode p ss cash ob pf beta coll legs books)"
    by (simp only: spot.admits_iff first_verdict_None)
  with that quote linked books qs inc show thesis by simp
qed

text \<open>The facts each silent check leaves.\<close>

lemma membership_passed:
  assumes "denial (entry_membership policy mode p occupied member) = None"
  shows "\<not> is_futures_product_id (pr_product_id p) \<Longrightarrow>
      rp_product_allowlist policy = [] \<or> pr_product_id p \<in> set (rp_product_allowlist policy)"
    and "pr_is_pyramid_add p \<and> rp_allow_intra_strategy_pyramiding policy
      \<or> \<not> pr_is_pyramid_add p \<and> sum_list (map open_position_slot_count occupied) < rp_max_concurrent_open_positions policy"
  using assms by (auto simp: denial_None entry_membership_def allowlist_verdict_def Let_def split: if_splits)

lemma exposure_passed:
  assumes "rbind (exposure_verdict policy mode p books cash) (\<lambda>v. Inr (denial v)) = Inr None"
  shows "0 < capital_base policy mode cash books (in_kind_capital p)"
    and "dadd (dsum (map marked_exposure books)) (pr_notional p)
      \<le> portfolio_cap policy mode (capital_base policy mode cash books (in_kind_capital p))"
    and "dadd (dsum (map (\<lambda>b. product_exposure b (pr_product_id p)) books)) (pr_notional p)
      \<le> dmul (capital_base policy mode cash books (in_kind_capital p)) (rp_per_product_max_exposure_fraction policy)"
  using assms by (auto simp: denial_None exposure_verdict_def Let_def not_less not_le split: if_splits)

lemma breakers_passed:
  assumes "evaluate_circuit_breakers policy mode product_id strategy_id ss ob capital = Inr None"
    and "product_quote product_id = Some quote"
  defines "losers \<equiv> filter (\<lambda>s. snapshot_quote s = Some quote) (daily_loss_snapshots ss mode)"
  shows "\<forall>s \<in> set losers. \<not> d_daily_loss_latched (s_deployment s)"
    and "\<exists>loss. mode_daily_loss losers ob = Inr (Some loss) \<and> loss < daily_loss_limit policy mode losers capital"
    and "\<forall>s \<in> set losers. matches_drawdown_scope strategy_id product_id s \<longrightarrow> \<not> d_drawdown_latched (s_deployment s)"
proof -
  obtain books inc where b: "same_quote_books (daily_loss_snapshots ss mode) quote = (books, inc)" by (rule prod.exhaust)
  with assms(1,2) have inc: "inc = None" by (auto simp: evaluate_circuit_breakers_def split: option.splits)
  with b have books: "books = losers" by (simp add: same_quote_eq losers_def)
  note eq = assms(1) [unfolded evaluate_circuit_breakers_def assms(2) option.case b inc books prod.case]
  have latch: "daily_latch_verdict losers = None" using eq by (auto split: option.splits)
  then show "\<forall>s \<in> set losers. \<not> d_daily_loss_latched (s_deployment s)"
    by (auto simp: daily_latch_verdict_def list_ex_iff split: if_splits)
  have dlatch: "drawdown_latch_verdict ss mode quote strategy_id product_id = None"
    using eq latch by (auto split: option.splits)
  then obtain dbooks where db: "drawdown_books ss mode quote strategy_id product_id = (dbooks, None)"
      and clear: "\<not> list_ex (\<lambda>s. d_drawdown_latched (s_deployment s)) dbooks"
    by (auto simp: drawdown_latch_verdict_def split: prod.splits option.splits if_splits)
  then show "\<forall>s \<in> set losers. matches_drawdown_scope strategy_id product_id s \<longrightarrow> \<not> d_drawdown_latched (s_deployment s)"
    by (auto simp: drawdown_books_def same_quote_eq losers_def list_ex_iff)
  obtain daily trip where "daily_loss_verdict policy mode losers ob capital = Inr daily" "select_loss_verdict daily trip = None"
    using eq latch dlatch by auto
  then have "daily_loss_verdict policy mode losers ob capital = Inr None"
    by (auto simp: select_loss_verdict_def split: option.splits if_splits)
  then show "\<exists>loss. mode_daily_loss losers ob = Inr (Some loss) \<and> loss < daily_loss_limit policy mode losers capital"
    by (auto simp: daily_loss_verdict_def split: option.splits if_splits)
qed

lemma accounting_passed:
  assumes "unresolved_accounting_verdict mode product_id ss = None" "product_quote product_id = Some quote"
  shows "\<forall>s \<in> set (daily_loss_snapshots ss mode). snapshot_quote s = Some quote \<longrightarrow> \<not> accounting_unresolved s"
  using assms by (auto simp: unresolved_accounting_verdict_def same_quote_books_def list_ex_iff split: if_splits)

lemma rates_passed:
  assumes "evaluate_rate_and_collar policy mode ss ob = None"
  obtains reference where "ob_reference_price ob = Some reference" "0 < reference"
    "\<And>price. ob_proposed_price ob = Some price \<Longrightarrow>
       0 < price \<and> ddiv (dabs (dsub price reference)) reference \<le> rp_reference_price_collar_fraction policy"
    "count_orders (\<lambda>s ord. created_since (ob_as_of ob - RATE_WINDOW) ord \<and> is_entry_purpose s (o_intent_id ord))
       (occupied_mode ss mode) < rp_max_entry_orders_per_minute policy"
  using assms unfolding evaluate_rate_and_collar_def rate_verdict_def collar_verdict_def Let_def
  by (auto split: option.splits if_splits)

lemma bounds_passed:
  assumes "order_bound_verdict policy mode p books cash = Inr None"
  shows "rp_max_order_quantity policy = Some cap \<Longrightarrow> \<exists>quantity. pr_quantity p = Some quantity \<and> quantity \<le> cap"
    and "rp_max_order_notional_quote policy = Some cap \<Longrightarrow> pr_notional p \<le> cap"
  using assms by (auto simp: order_bound_verdict_def quantity_bound_def notional_bound_def Let_def
      split: option.splits if_splits)

lemma entry_breakers_passed:
  assumes "entry_breaker_verdict policy mode p rb qb ss cash (Some ob) = Inr None" "\<not> in_kind p"
  shows "evaluate_circuit_breakers policy mode (pr_product_id p) (pr_strategy_id p) ss ob
      (capital_base policy mode cash qb (in_kind_capital p)) = Inr None"
    and "evaluate_rate_and_collar policy mode rb ob = None"
    and "cluster_verdict policy mode p ss (Some ob) = None"
  using assms by (auto simp: entry_breaker_verdict_def split: option.splits)


definition ex_entry :: proposed_entry where
  "ex_entry = \<lparr>pr_product_id = ''ETH-USD'', pr_strategy_id = Some 9, pr_notional = 500, pr_is_pyramid_add = False,
     pr_quantity = Some (1 / 4), pr_funding = Funding_Quote, pr_readmits_working_entry = False, pr_side = Some LONG,
     pr_desk_id = None, pr_desk_committed = 0\<rparr>"

definition ex_observation :: entry_observation where
  "ex_observation = \<lparr>ob_as_of = 2 * HOUR, ob_proposed_price = Some 2000, ob_reference_price = Some 2010,
     ob_marks = [''BTC-USD'' \<mapsto> 110]\<rparr>"

lemma ex_admitted:
  "evaluate_new_entry None compiled_default_risk_policy PAPER ex_entry [ex_overnight] None (Some ex_observation)
     None None None None None = Inr allow"
  by code_simp


section \<open>Paper and live books never meet\<close>

definition of_mode :: "deployment_mode \<Rightarrow> deployment_snapshot list \<Rightarrow> deployment_snapshot list" where
  "of_mode mode ss = filter (\<lambda>s. d_mode (s_deployment s) = mode) ss"

locale mode_scoped =
  fixes mode :: deployment_mode and view :: "deployment_snapshot list \<Rightarrow> 'a"
  assumes own_books: "view (of_mode mode ss) = view ss"
begin

lemma isolated: "of_mode mode ss = of_mode mode ss' \<Longrightarrow> view ss = view ss'"
  using own_books by metis

end

interpretation risk_bearing: mode_scoped mode "\<lambda>ss. risk_bearing_snapshots ss mode" for mode
  by unfold_locales (simp add: risk_bearing_snapshots_def of_mode_def conj_ac)

interpretation daily_loss: mode_scoped mode "\<lambda>ss. daily_loss_snapshots ss mode" for mode
  by unfold_locales (simp add: daily_loss_snapshots_def of_mode_def conj_ac)

interpretation slots: mode_scoped mode "slot_holders mode" for mode
  by unfold_locales (simp add: slot_holders_def of_mode_def conj_ac)

interpretation recent_entries: mode_scoped mode "\<lambda>ss. latest_entry_per_book_product ss mode since" for mode since
  by unfold_locales (simp add: latest_entry_per_book_product_def of_mode_def)

text \<open>The checks that take every book read them through these views.\<close>

interpretation accounting: mode_scoped mode "unresolved_accounting_verdict mode product_id" for mode product_id
  by unfold_locales (unfold unresolved_accounting_verdict_def daily_loss.own_books, rule refl)

interpretation clustering: mode_scoped mode "\<lambda>ss. cluster_verdict policy mode p ss ob" for policy mode p ob
  by unfold_locales (unfold cluster_verdict_def recent_entries.own_books, rule refl)

interpretation breakers: mode_scoped mode
    "\<lambda>ss. evaluate_circuit_breakers policy mode product_id strategy_id ss ob capital"
    for policy mode product_id strategy_id ob capital
  by unfold_locales (unfold evaluate_circuit_breakers_def drawdown_latch_verdict_def drawdown_verdict_def
      drawdown_books_def daily_loss.own_books, rule refl)

interpretation netting: mode_scoped mode "\<lambda>ss. netting_adjustment policy mode p occupied ss legs betas marks"
    for policy mode p occupied legs betas marks
  by unfold_locales (unfold netting_adjustment_def futures_base_by_underlying_def risk_bearing.own_books, rule refl)

interpretation spot_linked: mode_scoped mode "linked_breaker_verdict mode product_id" for mode product_id
  proof unfold_locales
  fix ss
  have own: "(\<exists>item \<in> set (of_mode mode ss). d_mode (s_deployment item) = mode \<and> d_product_id (s_deployment item) = product_id)
      \<longleftrightarrow> (\<exists>item \<in> set ss. d_mode (s_deployment item) = mode \<and> d_product_id (s_deployment item) = product_id)"
    by (auto simp: of_mode_def)
  show "linked_breaker_verdict mode product_id (of_mode mode ss) = linked_breaker_verdict mode product_id ss"
    unfolding linked_breaker_verdict_def own daily_loss.own_books ..
qed

lemmas mode_views = risk_bearing.own_books slots.own_books accounting.own_books clustering.own_books
  breakers.own_books netting.own_books spot_linked.own_books

lemma spot_checks_own_books:
  "spot_entry_checks policy mode p (of_mode mode ss) cash ob pf beta coll legs quote_books =
     spot_entry_checks policy mode p ss cash ob pf beta coll legs quote_books"
  unfolding spot_entry_checks_def beta_verdict_def entry_breaker_verdict_def mode_views ..

text \<open>C8: The verdict on a spot entry depends on the books of its own mode only: two fleets that
  agree on those books get the same verdict (or raise the same error), whatever their other mode's
  books hold, latches, losses, working orders and unresolved accounting included.\<close>

theorem entry_verdict_mode_isolated:
  assumes "\<not> is_futures_product_id (pr_product_id p)" "of_mode mode ss = of_mode mode ss'"
  shows "evaluate_new_entry scope policy mode p ss cash ob pf beta coll legs venue =
     evaluate_new_entry scope policy mode p ss' cash ob pf beta coll legs venue"
proof -
  have own: "evaluate_new_entry scope policy mode p (of_mode mode ss) cash ob pf beta coll legs venue =
      evaluate_new_entry scope policy mode p ss cash ob pf beta coll legs venue" for ss
    unfolding evaluate_new_entry_def scope_verdict_def if_not_P [OF assms(1)] mode_views spot_checks_own_books ..
  show ?thesis using own [of ss] own [of ss'] assms(2) by simp
qed

theorem entry_verdict_mode_isolated_witness:
  "evaluate_new_entry None compiled_default_risk_policy PAPER ex_entry
      [ex_overnight, ex_overnight\<lparr>s_deployment := ex_deployment\<lparr>d_mode := LIVE, d_daily_loss_latched := True\<rparr>\<rparr>]
      None (Some ex_observation) None None None None None =
    evaluate_new_entry None compiled_default_risk_policy PAPER ex_entry [ex_overnight]
      None (Some ex_observation) None None None None None"
proof (rule entry_verdict_mode_isolated)
  show "\<not> is_futures_product_id (pr_product_id ex_entry)" by code_simp
qed (simp add: of_mode_def ex_overnight_def ex_snapshot_def ex_deployment_def)

end
