(* ===== verification/Risk_Trim.thy ===== *)
theory Risk_Trim
  imports Risk_Safety
begin

text \<open>
  The gate is antitone in the size of an entry: a smaller entry is never refused where a larger one
  is admitted. The locale \<open>trim_safe\<close> states it of one check and is interpreted on every check of
  the gate; the property of the gate composes them.
\<close>

section \<open>Trimming an entry\<close>

definition trimmed :: "proposed_entry \<Rightarrow> proposed_entry \<Rightarrow> bool" where
  "trimmed p p' \<longleftrightarrow> p = p'\<lparr>pr_notional := pr_notional p, pr_quantity := pr_quantity p\<rparr>
     \<and> 0 \<le> pr_notional p \<and> pr_notional p \<le> pr_notional p' \<and> rel_option (\<le>) (pr_quantity p) (pr_quantity p')
     \<and> pr_funding p' = Funding_Quote"

lemma trimmed_notional: "trimmed p p' \<Longrightarrow> 0 \<le> pr_notional p" "trimmed p p' \<Longrightarrow> pr_notional p \<le> pr_notional p'"
  by (simp_all add: trimmed_def)

lemma trimmed_same:
  assumes "trimmed p p'"
  shows "pr_product_id p = pr_product_id p'" "pr_strategy_id p = pr_strategy_id p'" "pr_side p = pr_side p'"
    "pr_is_pyramid_add p = pr_is_pyramid_add p'" "pr_readmits_working_entry p = pr_readmits_working_entry p'"
    "pr_desk_id p = pr_desk_id p'" "pr_desk_committed p = pr_desk_committed p'" "\<not> in_kind p'" "\<not> in_kind p"
    "in_kind_capital p' = 0" "in_kind_capital p = 0"
proof -
  obtain n q where "p = p'\<lparr>pr_notional := n, pr_quantity := q\<rparr>" "pr_funding p' = Funding_Quote"
    using assms unfolding trimmed_def by blast
  then show "pr_product_id p = pr_product_id p'" "pr_strategy_id p = pr_strategy_id p'" "pr_side p = pr_side p'"
    "pr_is_pyramid_add p = pr_is_pyramid_add p'" "pr_readmits_working_entry p = pr_readmits_working_entry p'"
    "pr_desk_id p = pr_desk_id p'" "pr_desk_committed p = pr_desk_committed p'" "\<not> in_kind p'" "\<not> in_kind p"
    "in_kind_capital p' = 0" "in_kind_capital p = 0"
    by (simp_all add: in_kind_capital_def in_kind_def)
qed

lemma dadd_mono: "b \<le> b' \<Longrightarrow> dadd a b \<le> dadd a b'"
  unfolding ctx_add_def by (rule d28.rnd_mono) simp

lemma dsub_antimono: "b \<le> b' \<Longrightarrow> dsub a b' \<le> dsub a b"
  unfolding ctx_sub_def by (rule d28.rnd_mono) simp

lemma dmul_mono: "a \<le> a' \<Longrightarrow> 0 \<le> c \<Longrightarrow> dmul a c \<le> dmul a' c"
  unfolding ctx_mul_def by (rule d28.rnd_mono) (rule mult_right_mono)

lemma dadd_cap: "b \<le> b' \<Longrightarrow> dadd a b' \<le> cap \<Longrightarrow> dadd a b \<le> cap"
  using dadd_mono [of b b' a] by linarith

section \<open>Every check is safe under trimming\<close>

locale trim_safe =
  fixes check :: "proposed_entry \<Rightarrow> risk_verdict option result"
  assumes smaller: "trimmed p p' \<Longrightarrow> check p' = Inr None \<Longrightarrow> check p = Inr None"

interpretation membership: trim_safe "\<lambda>p. Inr (denial (entry_membership policy mode p occupied member))"
    for policy mode occupied member
proof unfold_locales
  fix p p'
  assume t: "trimmed p p'" and "Inr (denial (entry_membership policy mode p' occupied member)) = Inr None"
  then show "Inr (denial (entry_membership policy mode p occupied member)) = Inr None"
    unfolding entry_membership_def trimmed_same [OF t] by simp
qed

interpretation portfolio: trim_safe "\<lambda>p. Inr (portfolio_verdict portfolio p risk_bearing quote_books)"
    for portfolio risk_bearing quote_books
proof unfold_locales
  fix p p'
  assume t: "trimmed p p'" and passed: "Inr (portfolio_verdict portfolio p' risk_bearing quote_books) = Inr None"
  have "rv_decision (evaluate_portfolio_entry book p ss) = ALLOW"
    if "rv_decision (evaluate_portfolio_entry book p' ss) = ALLOW" for book ss
    using that trimmed_notional(2) [OF t]
    by (auto simp: evaluate_portfolio_entry_def trimmed_same(1) [OF t] Let_def not_less intro: dadd_cap split: if_splits)
  with passed show "Inr (portfolio_verdict portfolio p risk_bearing quote_books) = Inr None"
    by (auto simp: portfolio_verdict_def denial_None split: option.splits if_splits)
qed

lemma collateral_trimmed:
  "trimmed p p' \<Longrightarrow> collateral_verdict policy mode p evidence cash = collateral_verdict policy mode p' evidence cash"
proof -
  assume t: "trimmed p p'"
  have "in_kind p = in_kind p'" using trimmed_same(8,9) [OF t] by blast
  then show ?thesis unfolding collateral_verdict_def by (simp only: trimmed_same(1) [OF t])
qed

interpretation collateral: trim_safe "\<lambda>p. Inr (fst (collateral_verdict policy mode p evidence cash))"
    for policy mode evidence cash
  by unfold_locales (simp add: collateral_trimmed)

lemma fee_nonneg:
  assumes "paper_headroom books a b fee = Some (a', b', fee')" "0 \<le> fee"
  shows "0 \<le> fee'"
  using assms
proof (induction books arbitrary: a b fee)
  case (Cons item items)
  then obtain x y z where "paper_headroom items x y (max fee z) = Some (a', b', fee')"
    by (auto split: option.splits)
  with Cons.IH [of x y "max fee z"] Cons.prems(2) show ?case by simp
qed simp

lemma available_trimmed:
  assumes "trimmed p p'" "available_after_entry policy mode p' books cash = Some x'"
  obtains x where "available_after_entry policy mode p books cash = Some x" "x' \<le> x"
proof (cases "mode = LIVE")
  case True
  with assms dsub_antimono [OF trimmed_notional(2) [OF assms(1)]] that show thesis
    by (auto simp: available_after_entry_def split: option.splits if_splits)
next
  case False
  obtain change pending fee where h: "paper_headroom books 0 0 0 = Some (change, pending, fee)"
    using assms(2) False by (auto simp: available_after_entry_def split: option.splits)
  define rate where "rate = (if books = [] then snd (effective_paper_fee_rates None None) else fee)"
  have "0 \<le> rate"
    using fee_nonneg [OF h] by (simp add: rate_def effective_paper_fee_rates_def PAPER_TAKER_FEE_RATE_def)
  then have rate: "0 \<le> dadd 1 rate" by (simp add: ctx_add_def)
  have "dmul (pr_notional p) (dadd 1 rate) \<le> dmul (pr_notional p') (dadd 1 rate)"
    by (rule dmul_mono [OF trimmed_notional(2) [OF assms(1)] rate])
  from dsub_antimono [OF this] show thesis
    using that assms(2) False h by (auto simp: available_after_entry_def rate_def [symmetric] Let_def)
qed

interpretation bounds: trim_safe
    "\<lambda>p. if in_kind p then Inr None else order_bound_verdict policy mode p occupied cash" for policy mode occupied cash
proof unfold_locales
  fix p p'
  assume t: "trimmed p p'" and "(if in_kind p' then Inr None else order_bound_verdict policy mode p' occupied cash) = Inr None"
  then have passed: "order_bound_verdict policy mode p' occupied cash = Inr None" using trimmed_same(8) [OF t] by simp
  have quantity: "quantity_bound policy p = None" if "quantity_bound policy p' = None"
    using that t by (cases "pr_quantity p"; cases "pr_quantity p'")
      (auto simp: quantity_bound_def trimmed_def split: option.splits if_splits)
  have notional: "notional_bound policy p = None" if "notional_bound policy p' = None"
    using that trimmed_notional(2) [OF t] by (auto simp: notional_bound_def split: option.splits if_splits)
  have reserve: "reserve_bound policy mode p occupied cash = None" if "reserve_bound policy mode p' occupied cash = None"
    using that by (auto simp: reserve_bound_def split: option.splits if_splits elim: available_trimmed [OF t])
  from passed have "order_bound_verdict policy mode p occupied cash = Inr None"
    using quantity notional reserve
    by (auto simp: order_bound_verdict_def trimmed_same(1) [OF t] Let_def split: option.splits if_splits)
  then show "(if in_kind p then Inr None else order_bound_verdict policy mode p occupied cash) = Inr None" by simp
qed

interpretation exposure: trim_safe "\<lambda>p. rbind (exposure_verdict policy mode p occupied cash) (\<lambda>v. Inr (denial v))"
    for policy mode occupied cash
proof unfold_locales
  fix p p'
  assume t: "trimmed p p'" and passed: "rbind (exposure_verdict policy mode p' occupied cash) (\<lambda>v. Inr (denial v)) = Inr None"
  note same = trimmed_same [OF t]
  have cap: "dadd a (pr_notional p) \<le> c" if "dadd a (pr_notional p') \<le> c" for a c
    by (rule dadd_cap [OF trimmed_notional(2) [OF t] that])
  define desk where "desk = desk_reservation_verdict policy p' mode"
  have desk: "desk_reservation_verdict policy p mode = Inr None" if "desk = Inr None"
    using that unfolding desk_def by (auto simp: desk_reservation_verdict_def same not_less dest: cap
        split: option.splits if_splits)
  from passed obtain v where v: "exposure_verdict policy mode p' occupied cash = Inr v" "rv_decision v = ALLOW"
    by (auto simp: denial_None)
  have silent: "desk = Inr None"
  proof -
    obtain d where d: "desk = Inr d"
      using v by (auto simp: exposure_verdict_def desk_def Let_def split: if_splits)
    have "rv_decision w = DENY" if "d = Some w" for w
      using d that by (auto simp: desk_def desk_reservation_verdict_def split: option.splits if_splits)
    then have "d = None" using v d by (cases d) (auto simp: exposure_verdict_def desk_def Let_def split: if_splits)
    with d show ?thesis by simp
  qed
  have "exposure_verdict policy mode p occupied cash = Inr allow"
    using v silent desk [OF silent] unfolding exposure_verdict_def desk_def [symmetric] same Let_def
    by (auto simp: not_less not_le dest: cap split: if_splits option.splits)
  then show "rbind (exposure_verdict policy mode p occupied cash) (\<lambda>v. Inr (denial v)) = Inr None"
    by (simp add: denial_None)
qed

definition no_netting :: "risk_policy_definition \<Rightarrow> deployment_mode \<Rightarrow> bool" where
  "no_netting policy mode \<longleftrightarrow> (case rp_futures policy of None \<Rightarrow> True | Some futures \<Rightarrow> \<not> fp_net_by_underlying futures \<or> mode = LIVE)"

lemma no_netting_adjustment:
  "no_netting policy mode \<Longrightarrow> netting_adjustment policy mode p occupied ss legs betas marks = 0"
  by (auto simp: no_netting_def netting_adjustment_def split: option.splits)

lemma beta_trimmed:
  assumes t: "trimmed p p'" and plain: "no_netting policy mode"
    and passed: "beta_verdict policy mode p' occupied cash beta as_of ss legs marks = Inr None"
  shows "beta_verdict policy mode p occupied cash beta as_of ss legs marks = Inr None"
proof (cases "beta_cap_applies policy mode")
  case True
  then obtain results now where e: "beta = Some results" "as_of = Some now"
    using passed by (auto simp: beta_verdict_def split: option.splits)
  obtain betas where betas: "load_betas results now (pr_product_id p' # held_products occupied) Map.empty = Inr (Some betas)"
    using passed True e by (auto simp: beta_verdict_def simp del: load_betas.simps split: option.splits)
  have nonneg: "0 \<le> or_else (betas (pr_product_id p')) 0"
    using load_betas_nonneg [OF betas] by (cases "betas (pr_product_id p')") auto
  have "dabs (pr_notional p) \<le> dabs (pr_notional p')"
    using trimmed_notional [OF t] by (simp add: ctx_abs_def d28.rnd_mono)
  from dmul_mono [OF this nonneg] have "dadd a (dmul (dabs (pr_notional p)) (or_else (betas (pr_product_id p')) 0))
      \<le> dadd a (dmul (dabs (pr_notional p')) (or_else (betas (pr_product_id p')) 0))" for a
    by (rule dadd_mono)
  with passed True betas show ?thesis
    unfolding beta_verdict_def e trimmed_same [OF t] no_netting_adjustment [OF plain] option.case prod.case
    by (auto simp del: load_betas.simps simp: Let_def intro: order_trans split: if_splits)
qed (simp add: beta_verdict_def)

interpretation entry_breakers: trim_safe "\<lambda>p. entry_breaker_verdict policy mode p risk_bearing quote_books ss cash ob"
    for policy mode risk_bearing quote_books ss cash ob
proof unfold_locales
  fix p p'
  assume t: "trimmed p p'" and passed: "entry_breaker_verdict policy mode p' risk_bearing quote_books ss cash ob = Inr None"
  have kind: "in_kind p = in_kind p'" using trimmed_same(8,9) [OF t] by blast
  have cluster: "cluster_verdict policy mode p ss ob = cluster_verdict policy mode p' ss ob" for ob
    unfolding cluster_verdict_def kind trimmed_same(5) [OF t] ..
  from passed show "entry_breaker_verdict policy mode p risk_bearing quote_books ss cash ob = Inr None"
    unfolding entry_breaker_verdict_def kind cluster trimmed_same(1,2,10,11) [OF t] .
qed

section \<open>The gate\<close>



end
