(* ===== verification/Risk_Live.thy ===== *)
theory Risk_Live
  imports Risk_Safety
begin

text \<open>
  What the loss breakers, the collateral gate and the live futures gate promise. The live futures
  checks compute with the \<open>Inexact\<close> trap on, so what they compare is the exact rational value:
  \<open>exact_block\<close> lemmas read it off, and the properties are stated without rounding.
\<close>

section \<open>Exact blocks\<close>

lemma trap_inexact_eq: "trap_inexact x = Inr y \<Longrightarrow> y = x"
  by simp

lemma trap_sum_eq: "trap_sum xs acc = Inr y \<Longrightarrow> y = acc + sum_list xs"
proof (induction xs arbitrary: acc)
  case (Cons x xs)
  from Cons.prems have "trap_sum xs (acc + x) = Inr y" by simp
  from Cons.IH [OF this] show ?case by simp
qed simp

lemma trap_div_eq: "trap_div a b = Inr y \<Longrightarrow> y = a / b \<and> b \<noteq> 0"
  by (auto simp: trap_div_def ctx_div_checked_def dest: trap_inexact_eq split: if_splits)

definition signed_quantity :: "position \<Rightarrow> decimal" where
  "signed_quantity pos = (if p_side pos = SHORT then - p_quantity pos else p_quantity pos)"

definition exact_base :: "deployment_snapshot \<Rightarrow> string \<Rightarrow> decimal" where
  "exact_base book product_id =
     sum_list (map signed_quantity (filter (\<lambda>pos. resolved_product_id (p_product_id pos) (s_deployment book) = product_id)
       (snapshot_positions book)))"

lemma trap_signed_eq: "trap_signed ps = Inr qs \<Longrightarrow> qs = map signed_quantity ps"
proof (induction ps arbitrary: qs)
  case (Cons pos ps)
  then obtain rest q where qs: "qs = q # rest" and rest: "trap_signed ps = Inr rest"
    and q: "(if p_side pos = SHORT then trap_inexact (- p_quantity pos) else Inr (p_quantity pos)) = Inr q"
    by auto
  have "q = signed_quantity pos"
    using q by (auto simp: signed_quantity_def dest: trap_inexact_eq split: if_splits)
  with qs Cons.IH [OF rest] show ?case by simp
qed simp

lemma trap_signed_base_eq: "trap_signed_base book product_id = Inr y \<Longrightarrow> y = exact_base book product_id"
  by (auto simp: trap_signed_base_def exact_base_def dest!: trap_signed_eq trap_sum_eq)

lemma whole_int: "whole x \<Longrightarrow> \<exists>i. x = of_int i"
  unfolding whole_def to_integral_value_def by metis

lemma exactly_Some: "exactly r = Some x \<longleftrightarrow> r = Inr x"
  by (cases r) (simp_all add: exactly_def)

lemmas exact_block = trap_inexact_eq trap_sum_eq trap_div_eq trap_signed_base_eq

section \<open>The live futures gate is exact\<close>

lemma positive_amountE:
  assumes "positive_amount a" obtains x where "a = Some x" "0 < x"
  using assms by (auto simp: positive_amount_def split: option.splits)

lemma external_passed:
  assumes "external_entry_verdict product_id book csize (Some v) = None"
  shows "\<exists>held positions external. csize \<noteq> 0 \<and> exact_base book product_id = of_int held * csize
     \<and> fv_positions v = Some positions \<and> or_else (positions product_id) 0 = of_int held
     \<and> fv_external_order_products v = Some external \<and> product_id \<notin> set external"
proof -
  obtain held where held: "rbind (trap_signed_base book product_id) (\<lambda>base. trap_div base csize) = Inr held"
    and w: "whole held" and ext: "external_verdict product_id v held = None"
    using assms by (auto simp: external_entry_verdict_def exactly_Some split: option.splits if_splits)
  from held obtain base where "trap_signed_base book product_id = Inr base" "trap_div base csize = Inr held" by auto
  then have "exact_base book product_id = held * csize" "csize \<noteq> 0" by (auto dest!: exact_block)
  moreover obtain i where "held = of_int i" using whole_int [OF w] by blast
  ultimately show ?thesis
    using ext by (auto simp: external_verdict_def split: option.splits if_splits)
qed

lemma contracts_passed:
  assumes "contracts_verdict policy p book csize = None"
  shows "\<exists>ordered held. pr_quantity p = Some (of_int ordered * csize) \<and> 0 < ordered
     \<and> \<bar>exact_base book (pr_product_id p)\<bar> = of_int held * csize \<and> 0 < csize
     \<and> held + ordered \<le> effective_live_max_order_contracts policy"
proof -
  have pos: "positive_amount (pr_quantity p)" using assms by (auto simp: contracts_verdict_def split: if_splits)
  then obtain q where q: "pr_quantity p = Some q" "0 < q" by (rule positive_amountE)
  obtain ordered base magnitude held all_in where
    o: "trap_div q csize = Inr ordered" and b: "trap_signed_base book (pr_product_id p) = Inr base"
    and m: "trap_inexact \<bar>base\<bar> = Inr magnitude" and h: "trap_div magnitude csize = Inr held"
    and a: "trap_inexact (held + ordered) = Inr all_in"
    and ok: "0 < ordered" "whole ordered" "whole held" "all_in \<le> of_int (effective_live_max_order_contracts policy)"
    using assms pos q by (auto simp: contracts_verdict_def Let_def not_le not_less split: sum.splits if_splits prod.splits)
  obtain i j where "ordered = of_int i" "held = of_int j" using ok(2,3) whole_int by metis
  moreover have "q = ordered * csize" using trap_div_eq [OF o] by auto
  moreover from this have "0 < csize" using q(2) ok(1) by (simp add: zero_less_mult_iff)
  moreover have "\<bar>exact_base book (pr_product_id p)\<bar> = held * csize"
    using trap_div_eq [OF h] trap_inexact_eq [OF m] trap_signed_base_eq [OF b] by simp
  moreover have "held + ordered \<le> of_int (effective_live_max_order_contracts policy)"
    using ok(4) trap_inexact_eq [OF a] by simp
  ultimately show ?thesis using q ok(1) by (auto simp flip: of_int_add)
qed

lemma margin_passed:
  assumes "margin_capacity_verdict policy (Some v) (Some initial) = None"
  shows "\<exists>power current futures reserve. fv_buying_power_usd v = Some power \<and> fv_initial_margin_usd v = Some current
     \<and> rp_futures policy = Some futures \<and> fp_live_spot_collateral_reserve_quote futures = Some reserve
     \<and> initial \<le> power \<and> (current + initial) * fp_peg_haircut futures \<le> reserve"
  using assms by (auto simp: margin_capacity_verdict_def exactly_Some Let_def not_less dest!: trap_inexact_eq
      split: option.splits if_splits)

text \<open>C7: A live futures entry is admitted only on exact evidence. The order is a positive whole number
  of contracts, the book holds a whole number of contracts, and together they stay within the
  policy's contract cap; the venue's own position on the product is exactly what the book holds and
  no order there is foreign; the initial margin of the order is covered by the venue's buying power,
  and the margin after it, with the peg haircut, by the declared reserve. All of it in exact rational
  arithmetic: no rounding of the 28-digit context can admit an order over a limit.\<close>

theorem live_futures_entry_exact:
  assumes "live_futures_entry_verdict policy p book state ss venue as_of = None"
  shows "\<exists>binding margin v now positions external power current futures reserve. \<exists>ordered held :: int.
     fs_binding state = Some binding \<and> fs_margin state = Some margin \<and> venue = Some v \<and> as_of = Some now
     \<and> is_admissible v now \<and> fv_killswitch_enabled v = Some False
     \<and> pr_quantity p = Some (of_int ordered * ic_contract_size (bc_contract binding)) \<and> 0 < ordered
     \<and> exact_base book (pr_product_id p) = of_int held * ic_contract_size (bc_contract binding)
     \<and> \<bar>held\<bar> + ordered \<le> effective_live_max_order_contracts policy
     \<and> fv_positions v = Some positions \<and> or_else (positions (pr_product_id p)) 0 = of_int held
     \<and> fv_external_order_products v = Some external \<and> pr_product_id p \<notin> set external
     \<and> fv_buying_power_usd v = Some power \<and> fv_initial_margin_usd v = Some current
     \<and> rp_futures policy = Some futures \<and> fp_live_spot_collateral_reserve_quote futures = Some reserve
     \<and> pr_notional p * initial_rate margin (or_else (pr_side p) (fs_side state)) \<le> power
     \<and> (current + pr_notional p * initial_rate margin (or_else (pr_side p) (fs_side state))) * fp_peg_haircut futures \<le> reserve"
proof -
  obtain binding margin where b: "fs_binding state = Some binding" and m: "fs_margin state = Some margin"
    using assms by (auto simp: live_futures_entry_verdict_def split: option.splits)
  define csize where "csize = ic_contract_size (bc_contract binding)"
  define initial where "initial = pr_notional p * initial_rate margin (or_else (pr_side p) (fs_side state))"
  have init: "exactly (trap_inexact initial) = Some initial"
    and all: "list_all (\<lambda>c. c = None) (standing_checks policy p book binding ss venue as_of
        @ [margin_capacity_verdict policy venue (Some initial)])"
    using assms b m unfolding live_futures_entry_verdict_def initial_def
    by (auto simp: Let_def first_objection_None exactly_def positive_amount_def trap_inexact_def simp del: list_all_append
        split: if_splits)
  note passed = all [unfolded standing_checks_def Let_def list_all_append list.pred_inject, folded csize_def]
  have ev: "evidence_verdict venue as_of = None" and ext: "external_entry_verdict (pr_product_id p) book csize venue = None"
    and con: "contracts_verdict policy p book csize = None" and st: "venue_state_verdict (pr_product_id p) venue as_of = None"
    and mc: "margin_capacity_verdict policy venue (Some initial) = None" using passed by blast+
  from ev obtain v now where v: "venue = Some v" "as_of = Some now" "is_admissible v now"
    by (auto simp: evidence_verdict_def split: option.splits if_splits)
  have kill: "fv_killswitch_enabled v = Some False"
    using st v by (auto simp: venue_state_verdict_def split: option.splits bool.splits)
  from external_passed [OF ext [unfolded v]] obtain held positions external where
    h: "exact_base book (pr_product_id p) = of_int held * csize" "fv_positions v = Some positions"
      "or_else (positions (pr_product_id p)) 0 = of_int held"
      "fv_external_order_products v = Some external" "pr_product_id p \<notin> set external" by blast
  from contracts_passed [OF con] obtain ordered magnitude where
    c: "pr_quantity p = Some (of_int ordered * csize)" "0 < ordered"
      "\<bar>exact_base book (pr_product_id p)\<bar> = of_int magnitude * csize" "0 < csize"
      "magnitude + ordered \<le> effective_live_max_order_contracts policy" by blast
  from margin_passed [OF mc [unfolded v]] obtain power current futures reserve where
    g: "fv_buying_power_usd v = Some power" "fv_initial_margin_usd v = Some current" "rp_futures policy = Some futures"
      "fp_live_spot_collateral_reserve_quote futures = Some reserve" "initial \<le> power"
      "(current + initial) * fp_peg_haircut futures \<le> reserve" by blast
  have "of_int \<bar>held\<bar> * csize = of_int magnitude * csize" using c(3,4) unfolding h(1) by (simp add: abs_mult)
  then have "(of_int \<bar>held\<bar> :: decimal) = of_int magnitude" using c(4) by simp
  then have cap: "\<bar>held\<bar> + ordered \<le> effective_live_max_order_contracts policy" using c(5) by (simp only: of_int_eq_iff)
  show ?thesis
    using b m v kill c(1,2) h cap g unfolding csize_def initial_def by blast
qed

section \<open>Live starts stay inside the envelope\<close>

text \<open>
  The live fleet as the gate lets it grow: an admitted start adds a running book with the allocation
  the gate saw; any other command keeps a book's mode, product and allocation and never gives it a
  slot it had left.
\<close>

inductive live_fleet :: "risk_policy_definition \<Rightarrow> deployment list \<Rightarrow> bool" for policy where
  Empty: "live_fleet policy []"
| Start: "live_fleet policy (d # ds)"
    if "live_fleet policy ds" "d_mode d = LIVE" "occupies_running_slot d"
      "d_allocated_capital d = ls_allocated_capital_usd start"
      "evaluate_new_deployment policy LIVE (d_product_id d) (d_strategy_id d) cash ds None source sleeve (Some start) desk = allow"
| Command: "live_fleet policy (xs @ d' # ys)"
    if "live_fleet policy (xs @ d # ys)" "d_mode d' = d_mode d" "d_product_id d' = d_product_id d"
      "d_allocated_capital d' = d_allocated_capital d" "occupies_running_slot d' \<Longrightarrow> occupies_running_slot d"

definition allocation :: "deployment \<Rightarrow> decimal" where
  "allocation d = or_else (d_allocated_capital d) 0"

definition inside_envelope :: "risk_policy_definition \<Rightarrow> deployment list \<Rightarrow> bool" where
  "inside_envelope policy books \<longleftrightarrow> books = [] \<or>
     (\<exists>futures capital. rp_futures policy = Some futures \<and> fp_live_enabled futures \<and> fp_live_capital_usd futures = Some capital
        \<and> sum_list (map allocation books) \<le> capital \<and> set (map d_product_id books) \<subseteq> set (fp_product_allowlist futures)
        \<and> distinct (map d_product_id books) \<and> list_all (\<lambda>d. 0 < allocation d) books)"

lemma inside_envelope_delete:
  assumes "inside_envelope policy (xs @ b # ys)"
  shows "inside_envelope policy (xs @ ys)"
proof -
  from assms obtain futures capital where f: "rp_futures policy = Some futures" "fp_live_enabled futures"
      "fp_live_capital_usd futures = Some capital"
    and e: "sum_list (map allocation (xs @ b # ys)) \<le> capital" "set (map d_product_id (xs @ b # ys)) \<subseteq> set (fp_product_allowlist futures)"
      "distinct (map d_product_id (xs @ b # ys))" "list_all (\<lambda>d. 0 < allocation d) (xs @ b # ys)"
    unfolding inside_envelope_def by blast
  have "sum_list (map allocation (xs @ ys)) \<le> capital" using e(1,4) by simp
  with f e show ?thesis unfolding inside_envelope_def by auto
qed

lemma inside_envelope_same:
  assumes "inside_envelope policy (xs @ b # ys)" "allocation b' = allocation b" "d_product_id b' = d_product_id b"
  shows "inside_envelope policy (xs @ b' # ys)"
  using assms unfolding inside_envelope_def by simp

lemma first_denies:
  "first_objection cs = Some v \<Longrightarrow> (\<And>w. Some w \<in> set cs \<Longrightarrow> rv_decision w = DENY) \<Longrightarrow> rv_decision v = DENY"
  using first_objection_mem by blast

lemma start_venue_denies:
  assumes "start_venue_verdict policy product_id start = Some v"
  shows "rv_decision v = DENY"
proof (cases "evidence_verdict (Option.bind start ls_venue) (map_option ls_as_of start)")
  case (Some w)
  then show ?thesis using assms standing_denies(5) by (simp add: start_venue_verdict_def Let_def)
next
  case None
  then obtain vn and st :: live_futures_start and contract :: instrument_contract where "first_objection [external_verdict product_id vn 0,
      venue_state_verdict product_id (Some vn) (Some (ls_as_of st)), drift_verdict product_id (ic_contract_size contract) (Some vn),
      margin_capacity_verdict policy (Some vn) (ls_proposed_initial_margin_usd st)] = Some v"
    using assms by (auto simp: start_venue_verdict_def Let_def simp del: first_objection.simps split: option.splits)
  then show ?thesis
    by (rule first_denies)
       (unfold set_simps insert_iff empty_iff, elim disjE FalseE, (metis standing_denies sizing_denies)+)
qed

lemma envelope_denies: "envelope_verdict policy ds start = Some v \<Longrightarrow> rv_decision v = DENY"
  by (auto simp: envelope_verdict_def Let_def split: option.splits if_splits)

lemma start_denies:
  assumes "live_futures_deployment_verdict policy covered ds start = Some v"
  shows "rv_decision v = DENY"
proof (cases "\<exists>product_id. covered = [product_id]")
  case True
  then obtain product_id where "first_objection [live_futures_opt_in_verdict policy product_id,
      occupied_verdict product_id ds None, envelope_verdict policy ds start, contract_kind_verdict (Option.bind start ls_contract),
      binding_product_verdict product_id (Option.bind start ls_contract), start_venue_verdict policy product_id start] = Some v"
    using assms by (auto simp: live_futures_deployment_verdict_def simp del: first_objection.simps)
  then show ?thesis
    by (rule first_denies)
       (unfold set_simps insert_iff empty_iff, elim disjE FalseE, (metis standing_denies envelope_denies start_venue_denies)+)
next
  case False
  then show ?thesis using assms by (auto simp: live_futures_deployment_verdict_def split: list.splits)
qed

lemma live_start_passed:
  assumes "evaluate_new_deployment policy LIVE product_id strategy cash ds None source sleeve start desk = allow"
    and "is_futures_product_id product_id"
  shows "live_futures_opt_in_verdict policy product_id = None" "occupied_verdict product_id ds None = None"
    "envelope_verdict policy ds start = None"
proof -
  have "futures_deployment_verdict policy LIVE [product_id] cash ds start = allow"
    using assms by (auto simp: evaluate_new_deployment_def Let_def split: if_splits option.splits)
  then have "live_futures_deployment_verdict policy [product_id] ds start = None"
    using start_denies [of policy "[product_id]" ds start]
    by (cases "live_futures_deployment_verdict policy [product_id] ds start") (auto simp: futures_deployment_verdict_def)
  then show "live_futures_opt_in_verdict policy product_id = None" "occupied_verdict product_id ds None = None"
      "envelope_verdict policy ds start = None"
    by (simp_all add: live_futures_deployment_verdict_def first_objection_None del: first_objection.simps)
qed

lemma envelope_passed:
  assumes env: "envelope_verdict policy ds (Some start) = None" and opt: "live_futures_opt_in_verdict policy product_id = None"
    and free: "occupied_verdict product_id ds None = None" and d: "d_product_id d = product_id"
    and alloc: "d_allocated_capital d = ls_allocated_capital_usd start"
    and inside: "inside_envelope policy (live_futures_books ds)"
  shows "inside_envelope policy (d # live_futures_books ds)"
proof -
  obtain futures capital where f: "rp_futures policy = Some futures" "fp_live_enabled futures"
      "fp_live_capital_usd futures = Some capital" "product_id \<in> set (fp_product_allowlist futures)"
    using opt by (auto simp: live_futures_opt_in_verdict_def split: option.splits if_splits)
  have pos: "positive_amount (ls_allocated_capital_usd start)"
    using env f by (auto simp: envelope_verdict_def split: if_splits)
  then obtain x where x: "ls_allocated_capital_usd start = Some x" "0 < x" by (rule positive_amountE)
  have mine: "allocation d = x" using alloc x by (simp add: allocation_def)
  obtain committed where "trap_sum (map allocation (live_futures_books ds)) 0 = Inr committed" "committed + x \<le> capital"
    using env f x pos unfolding envelope_verdict_def allocation_def
    by (auto simp: exactly_Some Let_def not_less simp del: trap_sum.simps dest!: trap_inexact_eq split: option.splits if_splits)
  then have total: "sum_list (map allocation (d # live_futures_books ds)) \<le> capital"
    using mine trap_sum_eq by fastforce
  have fresh: "product_id \<notin> d_product_id ` set (live_futures_books ds)"
    using free by (auto simp: occupied_verdict_def live_futures_books_def split: if_splits)
  show ?thesis
  proof (cases "live_futures_books ds = []")
    case True
    with f total mine x d show ?thesis unfolding inside_envelope_def by simp
  next
    case False
    with inside f have "set (map d_product_id (live_futures_books ds)) \<subseteq> set (fp_product_allowlist futures)"
        "distinct (map d_product_id (live_futures_books ds))" "list_all (\<lambda>d. 0 < allocation d) (live_futures_books ds)"
      by (auto simp: inside_envelope_def)
    with f total fresh mine x d show ?thesis unfolding inside_envelope_def by simp
  qed
qed

lemma start_keeps_slots:
  assumes "evaluate_new_deployment policy LIVE product_id strategy cash ds None source sleeve start desk = allow"
  shows "int (length (occupied_deployments ds LIVE)) < rp_max_concurrent_running_deployments policy"
  using assms by (auto simp: evaluate_new_deployment_def Let_def split: if_splits option.splits)

definition live_fleet_ok :: "risk_policy_definition \<Rightarrow> deployment list \<Rightarrow> bool" where
  "live_fleet_ok policy ds \<longleftrightarrow> inside_envelope policy (live_futures_books ds)
     \<and> (occupied_deployments ds LIVE = []
        \<or> int (length (occupied_deployments ds LIVE)) \<le> rp_max_concurrent_running_deployments policy)"

lemma command_keeps_fleet:
  assumes ok: "live_fleet_ok policy (xs @ d # ys)" and same: "d_mode d' = d_mode d" "d_product_id d' = d_product_id d"
      "d_allocated_capital d' = d_allocated_capital d" and slot: "occupies_running_slot d' \<Longrightarrow> occupies_running_slot d"
  shows "live_fleet_ok policy (xs @ d' # ys)"
proof -
  have "inside_envelope policy (live_futures_books (xs @ d' # ys))"
  proof (cases "d_mode d = LIVE \<and> occupies_running_slot d \<and> is_futures_product_id (d_product_id d)")
    case True
    with ok have e: "inside_envelope policy (live_futures_books xs @ d # live_futures_books ys)"
      by (simp add: live_fleet_ok_def live_futures_books_def)
    from inside_envelope_delete [OF this] inside_envelope_same [OF this, of d'] same show ?thesis
      by (simp add: live_futures_books_def allocation_def)
  next
    case False
    with ok same slot show ?thesis by (auto simp: live_fleet_ok_def live_futures_books_def)
  qed
  moreover have "length (occupied_deployments (xs @ d' # ys) LIVE) \<le> length (occupied_deployments (xs @ d # ys) LIVE)"
    using same(1) slot by (simp add: occupied_deployments_def)
  ultimately show ?thesis using ok by (auto simp: live_fleet_ok_def)
qed


section \<open>Worked examples\<close>

definition ex_futures_policy :: risk_policy_definition where
  "ex_futures_policy = compiled_default_risk_policy\<lparr>rp_quote_currency := ''USD'', rp_futures := Some
     \<lparr>fp_live_spot_collateral_reserve_quote = Some 500, fp_peg_haircut = 1, fp_paper_capital_usd = None,
      fp_daily_loss_limit_fraction = None, fp_max_daily_loss_usd = None, fp_max_leverage = None,
      fp_min_liquidation_buffer_fraction = None, fp_max_exposure_fraction = None, fp_max_order_contracts = Some 2,
      fp_max_hourly_funding_rate_abs = None, fp_max_btc_beta_exposure_fraction = None, fp_net_by_underlying = False,
      fp_live_enabled = True, fp_live_capital_usd = Some 2000, fp_product_allowlist = [''BIP-20DEC30-CDE'']\<rparr>\<rparr>"

definition ex_contract :: instrument_contract where
  "ex_contract = \<lparr>ic_product_id = ''BIP-20DEC30-CDE'', ic_perpetual = True, ic_underlying = ''BTC'', ic_contract_size = 1 / 100\<rparr>"

definition ex_venue :: futures_venue_evidence where
  "ex_venue = \<lparr>fv_observed_at = HOUR, fv_buying_power_usd = Some 1000, fv_initial_margin_usd = Some 0,
     fv_positions = Some Map.empty, fv_external_order_products = Some [], fv_killswitch_enabled = Some False,
     fv_maintenance = Map.empty, fv_contract_sizes = [''BIP-20DEC30-CDE'' \<mapsto> 1 / 100], fv_killswitch_observed_at = None\<rparr>"

definition ex_start :: live_futures_start where
  "ex_start = \<lparr>ls_allocated_capital_usd = Some 1000, ls_contract = Some ex_contract, ls_venue = Some ex_venue,
     ls_as_of = HOUR + MINUTE, ls_proposed_initial_margin_usd = Some 100\<rparr>"

definition ex_futures_book :: deployment where
  "ex_futures_book = ex_deployment\<lparr>d_mode := LIVE, d_product_id := ''BIP-20DEC30-CDE'', d_allocated_capital := Some 1000\<rparr>"


definition ex_futures_state :: futures_book_state where
  "ex_futures_state = \<lparr>fs_deployment_id = 1, fs_product_id = ''BIP-20DEC30-CDE'', fs_side = LONG,
     fs_binding = Some \<lparr>bc_deployment_id = 1, bc_contract = ex_contract, bc_fee_per_contract = 1 / 10, bc_bound_at = 0\<rparr>,
     fs_margin = Some \<lparr>ft_contract_size = 1 / 100, ft_long_rate = 1 / 4, ft_short_rate = 1 / 4, ft_maintenance_fraction = 1 / 2,
       ft_min_buffer_fraction = 1 / 10, ft_max_leverage = 2, ft_fee_per_contract = 1 / 10\<rparr>,
     fs_margin_observed_at = Some HOUR, fs_funding_overdue = None, fs_latest_funding_rate = Some 0, fs_margin_stale = False\<rparr>"

definition ex_contract_entry :: proposed_entry where
  "ex_contract_entry = ex_entry\<lparr>pr_product_id := ''BIP-20DEC30-CDE'', pr_notional := 1000, pr_quantity := Some (1 / 50)\<rparr>"

theorem live_futures_entry_exact_witness:
  "\<exists>ordered held :: int. pr_quantity ex_contract_entry = Some (of_int ordered * (1 / 100)) \<and> \<bar>held\<bar> + ordered \<le> 2"
proof -
  have "live_futures_entry_verdict ex_futures_policy ex_contract_entry (ex_snapshot\<lparr>s_deployment := ex_futures_book\<rparr>)
      ex_futures_state [] (Some ex_venue) (Some (HOUR + MINUTE)) = None"
    by code_simp
  from live_futures_entry_exact [OF this] show ?thesis
    by (auto simp: ex_futures_state_def ex_contract_def effective_live_max_order_contracts_def ex_futures_policy_def)
qed

section \<open>A tripped drawdown always pauses\<close>


section \<open>Entries beside manual futures\<close>

text \<open>C11: A live USD or USDC entry passes the collateral gate beside the venue's futures account only
  on current knowledge of it: the account is absent or not enabled; or it was observed no more than
  three minutes ago and not in the future, with no position, margin or hold; or it is in use and the
  declared reserve covers its initial margin times the peg haircut, and that reserve has been taken
  out of the venue quote every later check uses, which stays non-negative.\<close>

theorem collateral_gate_needs_current_evidence:
  assumes "collateral_verdict policy LIVE p (Some (classify_futures_collateral observation as_of read_at)) cash = (None, left)"
    and "\<not> in_kind p" "collateral_linked (pr_product_id p)"
  obtains (absent) "observation = None \<or> (\<exists>seen. observation = Some seen \<and> fa_enablement seen = FUTURES_NOT_ENABLED)" "left = cash"
  | (idle) account balance margin hold where "observation = Some account" "fa_enablement account = FUTURES_ENABLED"
      "as_of - fa_observed_at account \<le> MIRROR_STALE_AFTER" "fa_observed_at account \<le> or_else read_at as_of"
      "fa_positions account = Some []" "fa_balance account = Some balance"
      "fb_initial_margin balance = Some margin" "margin \<le> 0"
      "fb_total_open_orders_hold_amount balance = Some hold" "hold \<le> 0" "left = cash"
  | (reserved) account balance margin futures reserve where "observation = Some account" "fa_enablement account = FUTURES_ENABLED"
      "as_of - fa_observed_at account \<le> MIRROR_STALE_AFTER" "fa_balance account = Some balance"
      "fb_initial_margin balance = Some margin" "rp_futures policy = Some futures"
      "fp_live_spot_collateral_reserve_quote futures = Some reserve" "dmul margin (fp_peg_haircut futures) \<le> reserve"
      "left = map_option (\<lambda>c. dsub c reserve) cash" "\<And>rest. left = Some rest \<Longrightarrow> 0 \<le> rest"
proof (cases observation)
  case None
  with assms show thesis
    by (intro absent) (auto simp: collateral_verdict_def classify_futures_collateral_def collateral_evidence_def)
next
  case (Some account)
  define ev where "ev = classify_futures_collateral observation as_of read_at"
  have open_gate: "collateral_verdict policy LIVE p (Some ev) cash = (None, left)" using assms(1) by (simp add: ev_def)
  have gate: "fc_state ev \<noteq> COLLATERAL_UNKNOWN" using assms(2,3) open_gate by (auto simp: collateral_verdict_def)
  show thesis
  proof (cases "fc_state ev")
    case ABSENT
    then have "fa_enablement account = FUTURES_NOT_ENABLED" "left = cash"
      using Some open_gate by (auto simp: ev_def classify_futures_collateral_def collateral_evidence_def collateral_verdict_def
          split: option.splits if_splits)
    with Some show thesis by (intro absent) auto
  next
    case IDLE
    then show thesis
      using Some open_gate idle [of account]
      by (cases "fa_enablement account"; cases "fa_balance account"; cases "fa_positions account";
          auto simp: ev_def classify_futures_collateral_def collateral_evidence_def collateral_verdict_def amount_positive_def
            not_less split: option.splits if_splits)
  next
    case IN_USE
    then obtain balance where obs: "fa_enablement account = FUTURES_ENABLED" "as_of - fa_observed_at account \<le> MIRROR_STALE_AFTER"
        "fa_balance account = Some balance"
      using Some by (cases "fa_enablement account"; cases "fa_balance account")
        (auto simp: ev_def classify_futures_collateral_def collateral_evidence_def split: option.splits if_splits)
    have margin: "fc_initial_margin_usd ev = fb_initial_margin balance"
      using Some obs IN_USE by (auto simp: ev_def classify_futures_collateral_def collateral_evidence_def Let_def
          split: option.splits if_splits)
    show thesis
      using open_gate IN_USE assms(2,3) Some obs margin reserved [of account balance]
      by (auto simp: collateral_verdict_def reserve_verdict_def Let_def not_less split: option.splits if_splits)
  qed (use gate in simp)
qed

definition ex_strict :: risk_policy_definition where
  "ex_strict = compiled_default_risk_policy\<lparr>rp_max_strategy_drawdown_fraction := 1 / 1000\<rparr>"

definition ex_unaccounted :: deployment_snapshot where
  "ex_unaccounted = ex_snapshot\<lparr>s_deployment := ex_deployment\<lparr>d_id := 2, d_strategy_id := Some 8\<rparr>, s_accounting_complete := False\<rparr>"

definition ex_fall :: entry_observation where
  "ex_fall = ex_observation\<lparr>ob_marks := [''BTC-USD'' \<mapsto> 10]\<rparr>"


definition ex_account :: futures_account_observation where
  "ex_account = \<lparr>fa_observed_at = HOUR, fa_enablement = FUTURES_ENABLED,
     fa_balance = Some \<lparr>fb_initial_margin = Some 400, fb_total_open_orders_hold_amount = Some 0\<rparr>,
     fa_positions = Some [''BIP-20DEC30-CDE'']\<rparr>"

theorem collateral_gate_needs_current_evidence_witness:
  "\<exists>rest. collateral_verdict ex_futures_policy LIVE ex_entry
      (Some (classify_futures_collateral (Some ex_account) (HOUR + MINUTE) None)) (Some 2000) = (None, Some rest) \<and> 0 \<le> rest"
proof -
  have run: "collateral_verdict ex_futures_policy LIVE ex_entry
      (Some (classify_futures_collateral (Some ex_account) (HOUR + MINUTE) None)) (Some 2000) = (None, Some 1500)" by code_simp
  have "(0::decimal) \<le> 1500"
  proof (rule collateral_gate_needs_current_evidence [OF run])
    show "\<not> in_kind ex_entry" "collateral_linked (pr_product_id ex_entry)" by code_simp+
    assume rest: "\<And>rest. Some 1500 = Some rest \<Longrightarrow> (0::decimal) \<le> rest"
    show "(0::decimal) \<le> 1500" by (rule rest [OF refl])
  qed simp_all
  with run show ?thesis by blast
qed

section \<open>Netting only lowers the figure\<close>

lemma underlying_adjustment_nonpos:
  assumes "underlying_adjustment quote p side occupied betas marks underlying base = Some x"
    and "\<And>k b. betas k = Some b \<Longrightarrow> 0 \<le> b"
  shows "x \<le> 0"
proof -
  obtain beta where b: "betas (underlying @ ''-'' @ quote) = Some beta"
    using assms(1) by (cases "betas (underlying @ ''-'' @ quote)") (simp_all add: underlying_adjustment_def Let_def)
  obtain y where x: "x = dmul (min y 0) beta"
    using assms(1) unfolding underlying_adjustment_def Let_def case_prod_beta b
    by (cases "marks (underlying @ ''-'' @ quote)") (simp_all split: if_splits, blast)
  have "min y 0 * beta \<le> 0" using assms(2) [OF b] by (intro mult_nonpos_nonneg) simp_all
  then show ?thesis unfolding x ctx_mul_def by simp
qed

text \<open>Base-unit netting against futures only ever lowers the beta-weighted figure of a spot entry:
  on betas as the gate loads them, the adjustment is zero or negative, so a futures leg in the same
  direction adds nothing and no futures book can make a spot entry fail the beta cap.\<close>

theorem netting_never_raises:
  assumes loaded: "load_betas results as_of products Map.empty = Inr (Some betas)"
  shows "netting_adjustment policy mode p occupied ss legs betas marks \<le> 0"
proof -
  have nonneg: "0 \<le> b" if "betas k = Some b" for k b
    using load_betas_nonneg [OF loaded _ that] by simp
  have step: "foldl (\<lambda>adjustment (underlying, base).
        case underlying_adjustment quote p side occupied betas marks underlying base of
          None \<Rightarrow> adjustment | Some x \<Rightarrow> dadd adjustment x) acc legs' \<le> 0" if "acc \<le> 0" for quote side acc legs'
    using that
  proof (induction legs' arbitrary: acc)
    case (Cons leg legs')
    obtain u b where leg: "leg = (u, b)" by (rule prod.exhaust)
    show ?case
    proof (cases "underlying_adjustment quote p side occupied betas marks u b")
      case None
      with Cons leg show ?thesis by simp
    next
      case (Some x)
      have "x \<le> 0" by (rule underlying_adjustment_nonpos [OF Some nonneg])
      with Cons.prems have "dadd acc x \<le> 0" by (simp add: ctx_add_def)
      from Cons.IH [OF this] show ?thesis by (simp add: leg Some)
    qed
  qed simp
  show ?thesis
    unfolding netting_adjustment_def by (auto split: option.splits intro!: step)
qed

definition ex_short_leg :: deployment_snapshot where
  "ex_short_leg = ex_snapshot\<lparr>s_deployment := ex_deployment\<lparr>d_id := 2, d_product_id := ''BIP-20DEC30-CDE''\<rparr>,
     s_position := Some (ex_open_position\<lparr>p_product_id := ''BIP-20DEC30-CDE'', p_side := SHORT\<rparr>),
     s_positions := [ex_open_position\<lparr>p_product_id := ''BIP-20DEC30-CDE'', p_side := SHORT\<rparr>]\<rparr>"

definition ex_netting :: risk_policy_definition where
  "ex_netting = ex_futures_policy\<lparr>rp_futures := map_option (fp_net_by_underlying_update (\<lambda>_. True)) (rp_futures ex_futures_policy)\<rparr>"

definition ex_legs :: futures_legs where
  "ex_legs = \<lparr>fl_underlyings = [2 \<mapsto> ''BTC''], fl_funding_current = [2]\<rparr>"

definition ex_netted :: "(string \<rightharpoonup> decimal) \<Rightarrow> decimal" where
  "ex_netted betas = netting_adjustment ex_netting PAPER ex_entry [ex_overnight] [ex_overnight, ex_short_leg] (Some ex_legs) betas
     [''BTC-USD'' \<mapsto> 100, ''BIP-20DEC30-CDE'' \<mapsto> 100]"

theorem netting_never_raises_witness:
  "\<exists>betas. load_betas Map.empty 0 [''BTC-USD''] Map.empty = Inr (Some betas) \<and> ex_netted betas \<le> 0 \<and> ex_netted betas \<noteq> 0"
proof -
  have loaded: "load_betas Map.empty 0 [''BTC-USD''] Map.empty = Inr (Some [''BTC-USD'' \<mapsto> 1])"
  proof -
    have "beta_reference ''BTC-USD'' = Inr ''BTC-USD''" by code_simp
    then show ?thesis by (simp add: result_for_def reference_beta_def)
  qed
  have "ex_netted [''BTC-USD'' \<mapsto> 1] \<noteq> 0" by code_simp
  with loaded netting_never_raises [OF loaded] show ?thesis unfolding ex_netted_def by blast
qed

end
