(* ===== verification/Spec2Isabelle.thy ===== *)
theory Spec2Isabelle
  imports Sizing Trailing Fill_Ledger Protection Ledger Fleet_Latch Adoption_Safety Backtest_Signals
    Futures_Book Risk_Trim Risk_Live
begin

text \<open>
  The trading core of the platform under \<open>src/src/thytrader\<close>: a spot and futures trading system
  that runs published strategies on paper and live books, records every order and fill, and
  simulates the same strategies on historical candles.

  \<^bold>\<open>Parts and their interaction.\<close>
  A worker evaluates a strategy on each closed bar of a book. A signal becomes entry levels
  (\<open>Geometry\<close>), a size (\<open>Sizing\<close>) and, when the risk gate admits it (\<open>Risk_Gate\<close>) and the
  entry latch is open (\<open>Lifecycle\<close>, \<open>Fleet_Latch\<close>), an intent and an order in the execution
  store (\<open>Execution_Store\<close>). Fills of the order are recorded once and projected into cash,
  positions and phases (\<open>Fill_Ledger\<close>), their cost basis and equity are replayed from the fills
  (\<open>Ledger\<close>), open books are checked for working protection (\<open>Protection\<close>) and their stops are
  trailed (\<open>Trailing\<close>). A live book may also start from coins the venue account already holds
  (\<open>Adoption\<close>), checked against the claims of every other live book. The gate reads the same books: exposure, the day's loss from genuine
  opening evidence, drawdown, order rates and futures evidence. For research, the signal evaluator
  turns candles into indicator rows and rule outcomes (\<open>Indicators\<close>, \<open>Signal_Trace\<close>) and the
  backtest kernel runs them bar by bar with a simulated broker and shared cash.

  \<^bold>\<open>Theories and the sources they model.\<close>
  \<^item> \<open>Prelude\<close>, \<open>Decimal\<close>: instants, errors, dictionaries; Python's \<open>decimal\<close> contexts of
    28 and 64 digits with half-even rounding, as a locale \<open>rounding\<close> interpreted on both.
  \<^item> \<open>Trading_Models\<close>, \<open>Market\<close>, \<open>Strategy_Policy\<close>: the records of \<open>trading/models.py\<close>,
    \<open>market_data/models.py\<close>, product identifiers, and the policy fields of
    \<open>strategies/models.py\<close> that execution reads.
  \<^item> \<open>Geometry\<close>, \<open>Sizing\<close>, \<open>Trailing\<close>: \<open>trading/geometry.py\<close>, \<open>economics.py\<close>,
    \<open>sizing.py\<close>, \<open>futures_sizing.py\<close>, \<open>trailing.py\<close>.
  \<^item> \<open>Lifecycle\<close>, \<open>Overlay\<close>: entry latch, lease fence, exposure, lifecycle commands,
    performance, futures flat confirmation; product focus and the scoped store.
  \<^item> \<open>Fill_Ledger\<close>, \<open>Ledger\<close>, \<open>Protection\<close>: \<open>trading/fill_ledger.py\<close>,
    \<open>futures_repair.py\<close>, \<open>ledger.py\<close>, \<open>protection*.py\<close>.
  \<^item> \<open>Execution_Store\<close>, \<open>Fleet_Latch\<close>: \<open>trading/memory.py\<close> and \<open>fleet_control/store.py\<close>
    as state-passing operations, with reachable stores by an inductive step relation.
  \<^item> \<open>Inventory_Claims\<close>, \<open>Adoption\<close>: \<open>trading/inventory_claims.py\<close>,
    \<open>adoption.py\<close>, \<open>adoption_write.py\<close>, \<open>memory_adoption.py\<close>; \<open>Adoption_Safety\<close>: what an
    adoption guarantees.
  \<^item> \<open>Futures_Book\<close>: \<open>trading/futures_book.py\<close>, contract bindings, funding hours, liquidation.
  \<^item> \<open>Risk_Policy\<close>, \<open>Risk_Opening\<close>, \<open>Risk_Breakers\<close>, \<open>Risk_Entry\<close>, \<open>Risk_Beta\<close>,
    \<open>Risk_Futures\<close>, \<open>Risk_Gate\<close>: the modules of \<open>risk/\<close> in the order the gate calls them.
  \<^item> \<open>Risk_Safety\<close>, \<open>Risk_Trim\<close>, \<open>Risk_Live\<close>: what the gate guarantees.
  \<^item> \<open>Backtest_Broker\<close> to \<open>Backtest_Run\<close>: \<open>backtest/broker.py\<close>, \<open>kernel*.py\<close>,
    \<open>evaluation/stress.py\<close>; \<open>Backtest_Funnel\<close>, \<open>Backtest_Causality\<close>, \<open>Backtest_Trades\<close>:
    what a run guarantees.
  \<^item> \<open>Indicator_Core\<close>, \<open>Indicator_Schema\<close>, \<open>Indicator_Averages\<close>, \<open>Indicator_Momentum\<close>,
    \<open>Indicator_Volatility\<close>, \<open>Indicator_Trend\<close>, \<open>Indicators\<close>: the loops of the engine,
    \<open>strategies/schema/indicator_*.py\<close>, \<open>evaluation/indicator_math/\<close> and
    \<open>evaluation/indicators.py\<close>. The locale \<open>causal\<close> is the contract between a calculation and
    the rows built from it.
  \<^item> \<open>Signal_Record\<close>, \<open>Signal_Conditions\<close>, \<open>Signal_Clock\<close>, \<open>Strategy_Rules\<close>,
    \<open>Signal_Trace\<close>: \<open>evaluation/trace.py\<close>, \<open>strategies/schema/conditions.py\<close>,
    \<open>timeframes.py\<close> and \<open>multi_timeframe.py\<close>, the rule part of a strategy document with its
    queries and validation, and \<open>evaluation/signal_evaluator.py\<close>;
    \<open>Signal_Causality\<close>, \<open>Signal_Liveness\<close>: what a trace guarantees.
  \<^item> \<open>Backtest_Signals\<close>: a whole backtest, from the candles of every product to the books.

  \<^bold>\<open>Conventions.\<close>
  A \<open>datetime\<close> is an aware UTC instant in microseconds (an integer), a \<open>Decimal\<close> a rational and
  every arithmetic operation rounds to its context as Python's does; blocks that trap \<open>Inexact\<close>
  return an error instead of rounding. NaN and infinities do not occur: values are read through
  validators that refuse them, and \<open>dec_is_finite\<close> marks where the source asks. A call that may
  raise returns \<open>py_error + 'a\<close>; a missing value is \<open>None\<close>. Dictionaries whose order matters are
  association lists, sets whose elements are summed are sorted lists. Context variables and module
  caches are explicit arguments or fields of a state. Every loop is a total function: no fuel is
  used, and loops over hours or bars have termination proofs. Verdicts, errors and skips carry
  their codes, not their sentences.

  \<^bold>\<open>What the lemmas show.\<close>
  \<^item> Decimal: the rounding contract (monotone, odd, idempotent, sign-keeping, exact on a grid)
    that every bound below rests on.
  \<^item> Sizing and trailing: sized entries respect risk, cash, margin and exposure; a trailing stop
    never loosens.
  \<^item> Fill ledger and store: a fill moves cash and inventory exactly and once, a stopped book is
    never resumed, replay settles what is pending, stores reached by the public operations stay
    well-formed, leases and revisions fence writers, the fleet latch blocks entries only.
  \<^item> Adoption: a live book takes only coins that are available and that no live book claims, what
    it takes is claimed from then on, a refusal leaves the store as it was, and a commit leaves
    complete evidence and a long with its protection levels. The rounded sums of the code are
    related to the exact claims by \<open>tracks\<close>, for claims of any size.
  \<^item> Ledger and protection: equity accounts for every cent, drawdown is the maximum fall, totals
    are certified on complete evidence only, reported cover is real cover.
  \<^item> Futures books: the hours charged are exactly the hours held, and a settled book owes nothing.
  \<^item> Risk gate: an admitted entry is inside every limit at once; paper and live never influence
    each other; trimming an admitted entry keeps it admitted; a tripped drawdown always pauses;
    day-open equity is genuine; live futures checks are exact and live fleets stay inside their
    envelope. The contracts between the gate and its checks are the locales \<open>check_list\<close>,
    \<open>mode_scoped\<close> and \<open>trim_safe\<close>, interpreted on every check.
  \<^item> Indicators: a validated indicator always evaluates, one row per bar with all its keys; a row
    never depends on a later bar; a lagged operand reads its own past.
  \<^item> Signals: a rule tree is the Boolean formula it spells, undefined exactly when a value it needs
    is; the bars loaded for a coarser clock contain the last completed bar of every decision with its
    warmup; complete windows always give a trace with one record per bar and unambiguous keys; a
    published record never depends on a bar, of any clock or reference, that completes after it.
  \<^item> Backtest: no look-ahead from candles to equity, the stop wins its bar, sized entries always fund, open books are
    capped, round trips account, and funnel diagnostics always validate.

  \<^bold>\<open>Not modelled.\<close>
  Asynchronous orchestration of venue calls (\<open>execution/\<close>), exchange adapters, HTTP and operator
  surfaces, and PostgreSQL persistence are I/O around the operations modelled here. The estimation
  of beta and the convergence warmup of an indicator use binary floating point: the gate takes
  estimates, and the evaluator a warmup function, as arguments. Logarithms of the indicator engine
  are the real logarithm rounded to the context, which does not evaluate by computation; exponent
  limits of the decimal context are not modelled. Fingerprints are hashes of serialized text and
  enter as parameters. The operator requests around an adoption, twin links, pagination and the
  read-only diagnosis of risk checks are left for extension.
\<close>

end
